(* ===== verification/Prelude.thy ===== *)
theory Prelude
  imports Main "HOL-Library.Word" "HOL-Library.Char_ord" "HOL-Library.List_Lexorder"
begin

text \<open>
  Shared vocabulary of the development: Rust's integer types, saturating arithmetic, the
  byte and character classification of the standard library, and UTF-8.

  A Rust \<open>String\<close> is the list of its UTF-8 bytes (\<open>string\<close>, one \<open>char\<close> per byte), so
  \<open>value.len()\<close> is \<open>length\<close> and \<open>value.bytes()\<close> is the list itself; \<open>value.chars()\<close> is
  \<open>chars\<close> below, which decodes the bytes to Unicode scalar values.  An \<open>i64\<close> is an \<open>int\<close>
  whose arithmetic is always one of the saturating operations of this theory.
\<close>

type_synonym u16 = "16 word"
type_synonym u32 = "32 word"
type_synonym u64 = "64 word"
type_synonym i64 = int

named_theorems byte_defs \<open>definitions of the byte and character classes\<close>

section \<open>Saturating arithmetic\<close>

definition i64_max :: i64 where "i64_max = 9223372036854775807"
definition i64_min :: i64 where "i64_min = - 9223372036854775808"
definition usize_max :: nat where "usize_max = 18446744073709551615"

definition sat_i64 :: "int \<Rightarrow> i64" where
  "sat_i64 n = max i64_min (min i64_max n)"

definition sat_add_i64 :: "i64 \<Rightarrow> i64 \<Rightarrow> i64" where
  "sat_add_i64 a b = sat_i64 (a + b)"

definition sat_sub_i64 :: "i64 \<Rightarrow> i64 \<Rightarrow> i64" where
  "sat_sub_i64 a b = sat_i64 (a - b)"

definition in_i64 :: "int \<Rightarrow> bool" where
  "in_i64 n \<longleftrightarrow> i64_min \<le> n \<and> n \<le> i64_max"

definition checked_add_i64 :: "i64 \<Rightarrow> i64 \<Rightarrow> i64 option" where
  "checked_add_i64 a b = (if in_i64 (a + b) then Some (a + b) else None)"

definition sat_add_usize :: "nat \<Rightarrow> nat \<Rightarrow> nat" where
  "sat_add_usize a b = min usize_max (a + b)"

lemma in_i64_sat [simp]: "in_i64 (sat_i64 n)"
  by (simp add: in_i64_def sat_i64_def i64_min_def i64_max_def)

lemma sat_i64_id: "in_i64 n \<Longrightarrow> sat_i64 n = n"
  by (simp add: in_i64_def sat_i64_def)

lemma sat_i64_le_iff: "c < i64_max \<Longrightarrow> i64_min \<le> c \<Longrightarrow> sat_i64 n \<le> c \<longleftrightarrow> n \<le> c"
  by (auto simp: sat_i64_def)

lemma sat_add_usize_le_iff: "c < usize_max \<Longrightarrow> sat_add_usize a b \<le> c \<longleftrightarrow> a + b \<le> c"
  by (auto simp: sat_add_usize_def)

section \<open>Bytes\<close>

abbreviation byte :: "char \<Rightarrow> nat" where
  "byte c \<equiv> of_char c"

definition is_ascii_digit :: "char \<Rightarrow> bool" where
  [byte_defs]: "is_ascii_digit c \<longleftrightarrow> 48 \<le> byte c \<and> byte c \<le> 57"

definition is_ascii_alphabetic :: "char \<Rightarrow> bool" where
  [byte_defs]: "is_ascii_alphabetic c \<longleftrightarrow>
     (65 \<le> byte c \<and> byte c \<le> 90) \<or> (97 \<le> byte c \<and> byte c \<le> 122)"

definition is_ascii_alphanumeric :: "char \<Rightarrow> bool" where
  [byte_defs]: "is_ascii_alphanumeric c \<longleftrightarrow> is_ascii_alphabetic c \<or> is_ascii_digit c"

definition is_ascii_hexdigit :: "char \<Rightarrow> bool" where
  [byte_defs]: "is_ascii_hexdigit c \<longleftrightarrow> is_ascii_digit c
     \<or> (65 \<le> byte c \<and> byte c \<le> 70) \<or> (97 \<le> byte c \<and> byte c \<le> 102)"

definition is_ascii_whitespace :: "char \<Rightarrow> bool" where
  [byte_defs]: "is_ascii_whitespace c \<longleftrightarrow> byte c \<in> {9, 10, 12, 13, 32}"

definition is_lower_hexdigit :: "char \<Rightarrow> bool" where
  [byte_defs]: "is_lower_hexdigit c \<longleftrightarrow> is_ascii_digit c \<or> (97 \<le> byte c \<and> byte c \<le> 102)"

lemma lower_hexdigit_hexdigit: "is_lower_hexdigit c \<Longrightarrow> is_ascii_hexdigit c"
  by (auto simp: byte_defs)

section \<open>Characters: decoding UTF-8\<close>

definition cont_bits :: "char \<Rightarrow> nat" where
  "cont_bits c = byte c mod 64"

fun chars :: "string \<Rightarrow> nat list" where
  "chars [] = []"
| "chars (a # s) =
     (if byte a < 128 then byte a # chars s
      else if byte a < 224 then
        (case s of b # s' \<Rightarrow> (byte a mod 32 * 64 + cont_bits b) # chars s' | _ \<Rightarrow> [])
      else if byte a < 240 then
        (case s of b # c # s' \<Rightarrow>
            (byte a mod 16 * 4096 + cont_bits b * 64 + cont_bits c) # chars s' | _ \<Rightarrow> [])
      else
        (case s of b # c # d # s' \<Rightarrow>
            (byte a mod 8 * 262144 + cont_bits b * 4096 + cont_bits c * 64 + cont_bits d)
              # chars s' | _ \<Rightarrow> []))"

definition utf8_char :: "nat \<Rightarrow> string" where
  "utf8_char n =
     (if n < 128 then [char_of n]
      else if n < 2048 then [char_of (192 + n div 64), char_of (128 + n mod 64)]
      else if n < 65536 then
        [char_of (224 + n div 4096), char_of (128 + n div 64 mod 64), char_of (128 + n mod 64)]
      else
        [char_of (240 + n div 262144), char_of (128 + n div 4096 mod 64),
         char_of (128 + n div 64 mod 64), char_of (128 + n mod 64)])"

definition utf8_encode :: "nat list \<Rightarrow> string" where
  "utf8_encode cs = concat (map utf8_char cs)"

definition is_cont :: "char \<Rightarrow> bool" where
  "is_cont c \<longleftrightarrow> 128 \<le> byte c \<and> byte c < 192"

fun valid_utf8 :: "string \<Rightarrow> bool" where
  "valid_utf8 [] = True"
| "valid_utf8 (a # s) =
     (if byte a < 128 then valid_utf8 s
      else if byte a < 194 then False
      else if byte a < 224 then
        (case s of b # s' \<Rightarrow> is_cont b \<and> valid_utf8 s' | _ \<Rightarrow> False)
      else if byte a < 240 then
        (case s of b # c # s' \<Rightarrow>
            is_cont b \<and> is_cont c
            \<and> (byte a = 224 \<longrightarrow> 160 \<le> byte b) \<and> (byte a = 237 \<longrightarrow> byte b < 160)
            \<and> valid_utf8 s' | _ \<Rightarrow> False)
      else if byte a < 245 then
        (case s of b # c # d # s' \<Rightarrow>
            is_cont b \<and> is_cont c \<and> is_cont d
            \<and> (byte a = 240 \<longrightarrow> 144 \<le> byte b) \<and> (byte a = 244 \<longrightarrow> byte b < 144)
            \<and> valid_utf8 s' | _ \<Rightarrow> False)
      else False)"

definition is_control :: "nat \<Rightarrow> bool" where
  [byte_defs]: "is_control n \<longleftrightarrow> n < 32 \<or> (127 \<le> n \<and> n < 160)"

definition is_whitespace :: "nat \<Rightarrow> bool" where
  [byte_defs]: "is_whitespace n \<longleftrightarrow> (9 \<le> n \<and> n \<le> 13) \<or> n = 32 \<or> n = 133 \<or> n = 160 \<or> n = 5760
     \<or> (8192 \<le> n \<and> n \<le> 8202) \<or> n = 8232 \<or> n = 8233 \<or> n = 8239 \<or> n = 8287 \<or> n = 12288"

text \<open>\<open>value.trim().is_empty()\<close>: every character is white space.\<close>

definition blank :: "string \<Rightarrow> bool" where
  "blank s \<longleftrightarrow> list_all is_whitespace (chars s)"

lemma chars_ascii: "list_all (\<lambda>c. byte c < 128) s \<Longrightarrow> chars s = map byte s"
  by (induction s) auto

lemma valid_utf8_ascii: "list_all (\<lambda>c. byte c < 128) s \<Longrightarrow> valid_utf8 s"
  by (induction s) auto

lemma byte_char_of [simp]: "n < 256 \<Longrightarrow> byte (char_of n) = n"
  by simp

lemma mod_offset:
  "k < 32 \<Longrightarrow> (192 + k) mod 32 = (k::nat)"
  "k < 16 \<Longrightarrow> (224 + k) mod 16 = (k::nat)"
  "k < 8 \<Longrightarrow> (240 + k) mod 8 = (k::nat)"
  "(128 + m mod 64) mod 64 = (m mod 64::nat)"
  using mod_mult_self2 [of k 32 6] mod_mult_self2 [of k 16 14] mod_mult_self2 [of k 8 30]
    mod_mult_self2 [of "m mod 64" 64 2]
  by (simp_all add: add.commute)

lemma cont_bits_char_of: "cont_bits (char_of (128 + m mod 64)) = m mod 64"
proof -
  have "m mod 64 < 64" by simp
  then have "128 + m mod 64 < 256" by linarith
  then show ?thesis by (simp only: cont_bits_def byte_char_of mod_offset)
qed

lemma split_digits:
  "n div 64 * 64 + n mod 64 = (n::nat)"
  "n div 4096 * 4096 + n div 64 mod 64 * 64 + n mod 64 = (n::nat)"
  "n div 262144 * 262144 + n div 4096 mod 64 * 4096 + n div 64 mod 64 * 64 + n mod 64 = (n::nat)"
proof -
  have d: "n div 4096 = n div 64 div 64" "n div 262144 = n div 4096 div 64"
    by (simp_all add: div_mult2_eq [symmetric])
  have e: "n div 64 * 64 + n mod 64 = n"
    "n div 4096 * 64 + n div 64 mod 64 = n div 64"
    "n div 262144 * 64 + n div 4096 mod 64 = n div 4096"
    using div_mult_mod_eq [of n 64] div_mult_mod_eq [of "n div 64" 64]
      div_mult_mod_eq [of "n div 4096" 64] d by simp_all
  show "n div 64 * 64 + n mod 64 = n" by (rule e(1))
  show "n div 4096 * 4096 + n div 64 mod 64 * 64 + n mod 64 = n" using e by linarith
  show "n div 262144 * 262144 + n div 4096 mod 64 * 4096 + n div 64 mod 64 * 64 + n mod 64 = n"
    using e by linarith
qed

lemma chars_utf8_char: "n < 1114112 \<Longrightarrow> chars (utf8_char n @ s) = n # chars s"
proof -
  assume "n < 1114112"
  then consider (one) "n < 128" | (two) "128 \<le> n" "n < 2048"
    | (three) "2048 \<le> n" "n < 65536" | (four) "65536 \<le> n" "n < 1114112" by linarith
  then show ?thesis
  proof cases
    case one
    then show ?thesis by (simp add: utf8_char_def)
  next
    case two
    then have k: "n div 64 < 32" by simp
    from k have b: "byte (char_of (192 + n div 64)) = 192 + n div 64" by (intro byte_char_of) linarith
    with two k have u: "utf8_char n = [char_of (192 + n div 64), char_of (128 + n mod 64)]"
      by (simp add: utf8_char_def)
    show ?thesis using k by (simp del: of_char_of add: u b mod_offset cont_bits_char_of split_digits)
  next
    case three
    then have k: "n div 4096 < 16" by simp
    from k have b: "byte (char_of (224 + n div 4096)) = 224 + n div 4096"
      by (intro byte_char_of) linarith
    with three have u: "utf8_char n = [char_of (224 + n div 4096),
        char_of (128 + n div 64 mod 64), char_of (128 + n mod 64)]"
      by (simp add: utf8_char_def)
    show ?thesis using k by (simp del: of_char_of add: u b mod_offset cont_bits_char_of split_digits)
  next
    case four
    then have k: "n div 262144 < 5" by simp
    from k have b: "byte (char_of (240 + n div 262144)) = 240 + n div 262144"
      by (intro byte_char_of) linarith
    with four have u: "utf8_char n = [char_of (240 + n div 262144),
        char_of (128 + n div 4096 mod 64), char_of (128 + n div 64 mod 64),
        char_of (128 + n mod 64)]"
      by (simp add: utf8_char_def)
    show ?thesis using k by (simp del: of_char_of add: u b mod_offset cont_bits_char_of split_digits)
  qed
qed

lemma chars_utf8_encode: "list_all (\<lambda>n. n < 1114112) cs \<Longrightarrow> chars (utf8_encode cs) = cs"
  by (induction cs) (simp_all add: utf8_encode_def chars_utf8_char)

section \<open>Numbers as text\<close>

definition digit :: "nat \<Rightarrow> char" where
  "digit d = char_of (48 + d)"

fun show_nat :: "nat \<Rightarrow> string" where
  "show_nat n = (if n < 10 then [digit n] else show_nat (n div 10) @ [digit (n mod 10)])"

declare show_nat.simps [simp del]

definition show_int :: "int \<Rightarrow> string" where
  "show_int n = (if n < 0 then CHR ''-'' # show_nat (nat (- n)) else show_nat (nat n))"

definition read_digit :: "nat \<Rightarrow> char \<Rightarrow> nat" where
  "read_digit n c = 10 * n + (byte c - 48)"

lemma byte_digit: "d < 10 \<Longrightarrow> byte (digit d) = 48 + d"
  by (simp add: digit_def)

lemma read_show_nat: "foldl read_digit 0 (show_nat n) = n"
proof (induction n rule: show_nat.induct)
  case (1 n)
  then show ?case
    by (cases "n < 10") (simp_all add: show_nat.simps [of n] read_digit_def byte_digit)
qed

lemma show_nat_inject [simp]: "show_nat m = show_nat n \<longleftrightarrow> m = n"
  by (metis read_show_nat)

lemma show_nat_nonempty [simp]: "show_nat n \<noteq> []"
  by (subst show_nat.simps) simp

lemma show_nat_digits: "list_all is_ascii_digit (show_nat n)"
proof (induction n rule: show_nat.induct)
  case (1 n)
  have "is_ascii_digit (digit (k mod 10))" for k
    using mod_less_divisor [of 10 k] by (simp add: is_ascii_digit_def byte_digit del: mod_less_divisor)
  from this [of n] 1 show ?case
    by (cases "n < 10") (simp_all add: show_nat.simps [of n])
qed

lemma length_show_nat: "n < 10 ^ k \<Longrightarrow> 0 < k \<Longrightarrow> length (show_nat n) \<le> k"
proof (induction k arbitrary: n)
  case 0
  then show ?case by simp
next
  case (Suc k)
  show ?case
  proof (cases "n < 10")
    case True
    then show ?thesis by (simp add: show_nat.simps [of n])
  next
    case False
    then have "0 < k" using Suc.prems by (cases k) auto
    moreover have "n div 10 < 10 ^ k" using Suc.prems by (simp add: less_mult_imp_div_less mult.commute)
    ultimately have "length (show_nat (n div 10)) \<le> k" using Suc.IH by blast
    with False show ?thesis by (simp add: show_nat.simps [of n])
  qed
qed

end
