(* ===== verification/Effects.thy ===== *)
theory Effects
  imports Strings "HOL-Library.State_Monad"
begin

text \<open>
  The effects of the program and how they are reasoned about.

  Everything the code reads from its surroundings is an oracle of the environment, indexed
  by a counter that every read advances: the wall clock (\<open>now_ms\<close>), the shared cancellation
  flag (\<open>CancellationToken\<close>, which another thread may set at any moment) and the result of
  each file-system operation.  A method of the executor is a computation over the \<open>host\<close>:
  the environment, the counter and the executor's own state.

  \<open>contention_at\<close> is how often a lock is found taken.  \<open>try_bind\<close> is Rust's \<open>?\<close>.

  Two kinds of judgement serve the proofs: \<open>keeps I m\<close> (the invariant \<open>I\<close>
  survives \<open>m\<close>) and \<open>hoare P m Q\<close>; their rules are collected in
  \<open>keeps_rules\<close> and \<open>hoare_rules\<close>.
\<close>

named_theorems keeps_rules \<open>rules that propagate an invariant through a computation\<close>
named_theorems hoare_rules \<open>rules that propagate assertions through a computation\<close>
named_theorems run_defs \<open>definitions unfolded to run a computation\<close>

section \<open>Errors of the protocol (ProtocolError, lib.rs)\<close>

datatype io_kind = NotFound | PermissionDenied | AlreadyExists | InvalidData | OtherIo

datatype protocol_error =
    InvalidRequest string
  | Conflict
  | AuthorityDenied
  | StaleTarget string
  | TargetNotFound string
  | ObservationCancelled
  | ObservationExpired
  | IoError io_kind
  | JsonError
  | ExecutorError string
  | LedgerError string

section \<open>The environment\<close>

text \<open>
  The result of one file-system operation: success, or failure after the first \<open>k\<close> bytes
  reached the file (only a write can fail with \<open>k > 0\<close>).
\<close>

datatype io_result = IoOk | IoFail nat

record env =
  now_at :: "nat \<Rightarrow> i64"
  cancelled_at :: "nat \<Rightarrow> bool"
  io_at :: "nat \<Rightarrow> io_result"
  contention_at :: "nat \<Rightarrow> nat"

record 'x host =
  h_env :: env
  h_tick :: nat
  h_exec :: 'x

abbreviation ret :: "'a \<Rightarrow> ('s, 'a) state" where
  "ret \<equiv> State_Monad.return"

definition read_oracle :: "(env \<Rightarrow> nat \<Rightarrow> 'a) \<Rightarrow> ('x host, 'a) state" where
  [run_defs]: "read_oracle f = State (\<lambda>h. (f (h_env h) (h_tick h), h\<lparr>h_tick := Suc (h_tick h)\<rparr>))"

definition now_ms :: "('x host, i64) state" where
  [run_defs]: "now_ms = read_oracle now_at"

definition is_cancelled :: "('x host, bool) state" where
  [run_defs]: "is_cancelled = read_oracle cancelled_at"

definition next_io :: "('x host, io_result) state" where
  [run_defs]: "next_io = read_oracle io_at"

definition try_bind ::
  "('s, 'e + 'a) state \<Rightarrow> ('a \<Rightarrow> ('s, 'e + 'b) state) \<Rightarrow> ('s, 'e + 'b) state" where
  "try_bind m f = do {
     r \<leftarrow> m;
     case r of Inl e \<Rightarrow> ret (Inl e) | Inr x \<Rightarrow> f x
   }"

text \<open>A question to the surroundings, and the executor's own state.\<close>

definition ask :: "(nat \<Rightarrow> 'a) \<Rightarrow> ('x host, 'a) state" where
  "ask f = State (\<lambda>h. (f (h_tick h), h\<lparr>h_tick := Suc (h_tick h)\<rparr>))"

definition get_exec :: "('x \<Rightarrow> 'a) \<Rightarrow> ('x host, 'a) state" where
  "get_exec f = State (\<lambda>h. (f (h_exec h), h))"

definition update_exec :: "('x \<Rightarrow> 'x) \<Rightarrow> ('x host, unit) state" where
  "update_exec f = State (\<lambda>h. ((), h\<lparr>h_exec := f (h_exec h)\<rparr>))"

text \<open>The pure part of \<open>?\<close>: a chain of checks stops at the first error.\<close>

definition ensure :: "bool \<Rightarrow> 'e \<Rightarrow> 'e + unit" where
  "ensure c e = (if c then Inr () else Inl e)"

fun and_then :: "'e + unit \<Rightarrow> 'e + 'a \<Rightarrow> 'e + 'a" where
  "and_then (Inl e) s = Inl e"
| "and_then (Inr _) s = s"

definition all_checks :: "('e + unit) list \<Rightarrow> 'e + unit" where
  "all_checks cs = foldr and_then cs (Inr ())"

lemma ensure_Inr [simp]: "ensure c e = Inr u \<longleftrightarrow> c"
  by (simp add: ensure_def)

lemma ensure_Inl [simp]: "ensure c e = Inl e' \<longleftrightarrow> \<not> c \<and> e' = e"
  by (auto simp: ensure_def)

lemma and_then_Inr [simp]: "and_then r s = Inr x \<longleftrightarrow> r = Inr () \<and> s = Inr x"
  by (cases r) auto

lemma all_checks_Nil [simp]: "all_checks [] = Inr ()"
  by (simp add: all_checks_def)

lemma all_checks_Cons [simp]: "all_checks (c # cs) = and_then c (all_checks cs)"
  by (simp add: all_checks_def)

lemma all_checks_Inr: "all_checks cs = Inr () \<longleftrightarrow> list_all (\<lambda>c. c = Inr ()) cs"
  by (induction cs) auto

text \<open>\<open>cancellation.is_cancelled() || now_ms() >= deadline_at_ms\<close>, with its short circuit.\<close>

definition boundary_reached :: "i64 \<Rightarrow> ('x host, bool) state" where
  [run_defs]: "boundary_reached deadline = do {
     c \<leftarrow> is_cancelled;
     if c then ret True
     else do { t \<leftarrow> now_ms; ret (deadline \<le> t) }
   }"

definition check_protocol_boundary :: "i64 \<Rightarrow> ('x host, protocol_error + unit) state" where
  [run_defs]: "check_protocol_boundary deadline = do {
     c \<leftarrow> is_cancelled;
     if c then ret (Inl ObservationCancelled)
     else do {
       t \<leftarrow> now_ms;
       if deadline \<le> t then ret (Inl ObservationExpired) else ret (Inr ())
     }
   }"

section \<open>Invariants through a computation\<close>

definition keeps :: "('s \<Rightarrow> bool) \<Rightarrow> ('s, 'a) state \<Rightarrow> bool" where
  "keeps I m \<longleftrightarrow> (\<forall>s. I s \<longrightarrow> I (snd (run_state m s)))"

lemma keepsI: "(\<And>s a t. I s \<Longrightarrow> run_state m s = (a, t) \<Longrightarrow> I t) \<Longrightarrow> keeps I m"
  by (metis keeps_def prod.collapse)

lemma keepsD: "keeps I m \<Longrightarrow> I s \<Longrightarrow> run_state m s = (a, t) \<Longrightarrow> I t"
  by (metis keeps_def snd_conv)

lemma keeps_return [keeps_rules]: "keeps I (ret x)"
  by (simp add: keeps_def)

lemma keeps_bind [keeps_rules]:
  "keeps I m \<Longrightarrow> (\<And>a. keeps I (f a)) \<Longrightarrow> keeps I (State_Monad.bind m f)"
  by (simp add: keeps_def split: prod.splits) (metis snd_conv)

lemma keeps_if [keeps_rules]:
  "(c \<Longrightarrow> keeps I m) \<Longrightarrow> (\<not> c \<Longrightarrow> keeps I n) \<Longrightarrow> keeps I (if c then m else n)"
  by simp

lemma keeps_case_sum [keeps_rules]:
  "(\<And>e. r = Inl e \<Longrightarrow> keeps I (f e)) \<Longrightarrow> (\<And>x. r = Inr x \<Longrightarrow> keeps I (g x))
    \<Longrightarrow> keeps I (case r of Inl e \<Rightarrow> f e | Inr x \<Rightarrow> g x)"
  by (cases r) simp_all

lemma keeps_case_option [keeps_rules]:
  "(r = None \<Longrightarrow> keeps I m) \<Longrightarrow> (\<And>x. r = Some x \<Longrightarrow> keeps I (f x))
    \<Longrightarrow> keeps I (case r of None \<Rightarrow> m | Some x \<Rightarrow> f x)"
  by (cases r) simp_all

lemma keeps_case_prod [keeps_rules]:
  "(\<And>a b. keeps I (f a b)) \<Longrightarrow> keeps I (case p of (a, b) \<Rightarrow> f a b)"
  by (cases p) simp

lemma keeps_try [keeps_rules]:
  "keeps I m \<Longrightarrow> (\<And>x. keeps I (f x)) \<Longrightarrow> keeps I (try_bind m f)"
  unfolding try_bind_def by (intro keeps_rules)

section \<open>Hoare triples\<close>

definition hoare :: "('s \<Rightarrow> bool) \<Rightarrow> ('s, 'a) state \<Rightarrow> ('a \<Rightarrow> 's \<Rightarrow> bool) \<Rightarrow> bool" where
  "hoare P m Q \<longleftrightarrow> (\<forall>s a t. P s \<longrightarrow> run_state m s = (a, t) \<longrightarrow> Q a t)"

lemma hoareI: "(\<And>s a t. P s \<Longrightarrow> run_state m s = (a, t) \<Longrightarrow> Q a t) \<Longrightarrow> hoare P m Q"
  by (simp add: hoare_def)

lemma hoareD: "hoare P m Q \<Longrightarrow> P s \<Longrightarrow> run_state m s = (a, t) \<Longrightarrow> Q a t"
  by (simp add: hoare_def)

lemma hoare_return [hoare_rules]: "(\<And>s. P s \<Longrightarrow> Q x s) \<Longrightarrow> hoare P (ret x) Q"
  by (simp add: hoare_def)

lemma hoare_bind: "hoare P m R \<Longrightarrow> (\<And>a. hoare (R a) (f a) Q) \<Longrightarrow> hoare P (State_Monad.bind m f) Q"
  by (fastforce simp: hoare_def split: prod.splits)

lemma hoare_if [hoare_rules]:
  "(c \<Longrightarrow> hoare P m Q) \<Longrightarrow> (\<not> c \<Longrightarrow> hoare P n Q) \<Longrightarrow> hoare P (if c then m else n) Q"
  by simp

lemma hoare_case_sum [hoare_rules]:
  "(\<And>e. r = Inl e \<Longrightarrow> hoare P (f e) Q) \<Longrightarrow> (\<And>x. r = Inr x \<Longrightarrow> hoare P (g x) Q)
    \<Longrightarrow> hoare P (case r of Inl e \<Rightarrow> f e | Inr x \<Rightarrow> g x) Q"
  by (cases r) simp_all

lemma hoare_case_option [hoare_rules]:
  "(r = None \<Longrightarrow> hoare P m Q) \<Longrightarrow> (\<And>x. r = Some x \<Longrightarrow> hoare P (f x) Q)
    \<Longrightarrow> hoare P (case r of None \<Rightarrow> m | Some x \<Rightarrow> f x) Q"
  by (cases r) simp_all

lemma hoare_case_prod [hoare_rules]:
  "(\<And>a b. p = (a, b) \<Longrightarrow> hoare P (f a b) Q) \<Longrightarrow> hoare P (case p of (a, b) \<Rightarrow> f a b) Q"
  by (cases p) simp

lemma hoare_try:
  "hoare P m R \<Longrightarrow> (\<And>e s. R (Inl e) s \<Longrightarrow> Q (Inl e) s) \<Longrightarrow> (\<And>x. hoare (R (Inr x)) (f x) Q)
    \<Longrightarrow> hoare P (try_bind m f) Q"
  unfolding try_bind_def by (rule hoare_bind, assumption) (auto intro!: hoare_rules)

lemma hoare_pre: "hoare P m Q \<Longrightarrow> (\<And>s. P' s \<Longrightarrow> P s) \<Longrightarrow> hoare P' m Q"
  by (auto simp: hoare_def)

lemma hoare_post: "hoare P m Q \<Longrightarrow> (\<And>a s. Q a s \<Longrightarrow> Q' a s) \<Longrightarrow> hoare P m Q'"
  by (auto simp: hoare_def)

lemma hoare_keeps: "keeps I m \<Longrightarrow> hoare I m (\<lambda>_. I)"
  by (auto simp: hoare_def dest: keepsD)

lemma keeps_hoare: "hoare I m (\<lambda>r s. I s \<and> R r s) \<Longrightarrow> keeps I m"
  by (rule keepsI) (auto dest: hoareD)

lemma hoare_bind_keeps:
  "keeps P m \<Longrightarrow> (\<And>a. hoare P (f a) Q) \<Longrightarrow> hoare P (State_Monad.bind m f) Q"
  by (rule hoare_bind, rule hoare_keeps)

lemma hoare_try_keeps:
  "keeps P m \<Longrightarrow> (\<And>e s. P s \<Longrightarrow> Q (Inl e) s) \<Longrightarrow> (\<And>x. hoare P (f x) Q)
    \<Longrightarrow> hoare P (try_bind m f) Q"
  by (rule hoare_try, rule hoare_keeps)

section \<open>Running the primitives\<close>

lemma run_read_oracle [simp]:
  "run_state (read_oracle f) h = (f (h_env h) (h_tick h), h\<lparr>h_tick := Suc (h_tick h)\<rparr>)"
  by (simp add: read_oracle_def)

lemma run_try_bind [simp]:
  "run_state (try_bind m f) s = (case run_state m s of
      (Inl e, t) \<Rightarrow> (Inl e, t) | (Inr x, t) \<Rightarrow> run_state (f x) t)"
  by (auto simp: try_bind_def split: prod.splits sum.splits)

end
