(* ===== verification/Json.thy ===== *)
theory Json
  imports Effects "HOL-Library.Multiset"
begin

text \<open>
  \<open>serde_json::Value\<close> as the program uses it: the accessors, the canonical form that every
  hash is taken of (\<open>canonicalize_json\<close>, lib.rs) and the size check on a caller-supplied
  verification state (\<open>validate_verification\<close>, lib.rs).

  An object is the list of its entries.  The crate does not enable \<open>preserve_order\<close>, so a
  \<open>Map\<close> is a \<open>BTreeMap\<close>: entries sorted by key, each key once (\<open>json_ok\<close>).  A number is an
  integer or, for the others, its shortest decimal text.
\<close>

datatype json =
    JNull
  | JBool bool
  | JInt int
  | JFloat string
  | JStr string
  | JArr "json list"
  | JObj "(string \<times> json) list"

section \<open>Accessors\<close>

fun jget :: "json \<Rightarrow> string \<Rightarrow> json option" where
  "jget (JObj es) k = map_of es k"
| "jget _ k = None"

fun as_bool :: "json \<Rightarrow> bool option" where
  "as_bool (JBool b) = Some b"
| "as_bool _ = None"

fun as_str :: "json \<Rightarrow> string option" where
  "as_str (JStr s) = Some s"
| "as_str _ = None"

fun as_array :: "json \<Rightarrow> json list option" where
  "as_array (JArr vs) = Some vs"
| "as_array _ = None"

fun as_i64 :: "json \<Rightarrow> i64 option" where
  "as_i64 (JInt n) = (if in_i64 n then Some n else None)"
| "as_i64 _ = None"

fun as_u64 :: "json \<Rightarrow> nat option" where
  "as_u64 (JInt n) = (if 0 \<le> n \<and> n < 18446744073709551616 then Some (nat n) else None)"
| "as_u64 _ = None"

definition get_bool :: "json \<Rightarrow> string \<Rightarrow> bool option" where
  "get_bool v k = Option.bind (jget v k) as_bool"

definition get_str :: "json \<Rightarrow> string \<Rightarrow> string option" where
  "get_str v k = Option.bind (jget v k) as_str"

definition get_i64 :: "json \<Rightarrow> string \<Rightarrow> i64 option" where
  "get_i64 v k = Option.bind (jget v k) as_i64"

definition get_u64 :: "json \<Rightarrow> string \<Rightarrow> nat option" where
  "get_u64 v k = Option.bind (jget v k) as_u64"

definition jopt :: "string option \<Rightarrow> json" where
  "jopt v = (case v of None \<Rightarrow> JNull | Some s \<Rightarrow> JStr s)"

section \<open>Maps and the canonical form\<close>

text \<open>\<open>Map::insert\<close> of a \<open>BTreeMap\<close>.\<close>

fun obj_insert :: "string \<Rightarrow> json \<Rightarrow> (string \<times> json) list \<Rightarrow> (string \<times> json) list" where
  "obj_insert k v [] = [(k, v)]"
| "obj_insert k v ((k', v') # es) =
     (if k < k' then (k, v) # (k', v') # es
      else if k = k' then (k, v) # es
      else (k', v') # obj_insert k v es)"

definition insert_all :: "(string \<times> json) list \<Rightarrow> (string \<times> json) list" where
  "insert_all es = foldl (\<lambda>m (k, v). obj_insert k v m) [] es"

fun canonicalize_json :: "json \<Rightarrow> json" where
  "canonicalize_json (JArr vs) = JArr (map canonicalize_json vs)"
| "canonicalize_json (JObj es) =
     JObj (insert_all (sort_key fst (map (\<lambda>(k, v). (k, canonicalize_json v)) es)))"
| "canonicalize_json v = v"

fun json_ok :: "json \<Rightarrow> bool" where
  "json_ok (JArr vs) = list_all json_ok vs"
| "json_ok (JObj es) = (sorted_wrt (<) (map fst es) \<and> list_all (\<lambda>(k, v). json_ok v) es)"
| "json_ok v = True"

lemma obj_insert_append:
  "\<forall>k' \<in> set (map fst es). k' < k \<Longrightarrow> obj_insert k v es = es @ [(k, v)]"
  by (induction es) auto

lemma insert_all_sorted:
  "sorted_wrt (<) (map fst (m @ es)) \<Longrightarrow>
    foldl (\<lambda>m (k, v). obj_insert k v m) m es = m @ es"
proof (induction es arbitrary: m)
  case Nil
  then show ?case by simp
next
  case (Cons e es)
  obtain k v where e: "e = (k, v)" by (cases e)
  from Cons.prems have "\<forall>k' \<in> set (map fst m). k' < k"
    by (auto simp: sorted_wrt_append e)
  with Cons.IH [of "m @ [e]"] Cons.prems show ?case
    by (simp add: obj_insert_append e)
qed

lemma insert_all_strict: "sorted_wrt (<) (map fst es) \<Longrightarrow> insert_all es = es"
  using insert_all_sorted [of "[]" es] by (simp add: insert_all_def)

lemma keys_obj_insert: "set (map fst (obj_insert k v es)) = insert k (set (map fst es))"
proof (induction es)
  case (Cons e es)
  then show ?case by (cases e) (simp add: insert_commute)
qed simp

lemma sorted_obj_insert:
  "sorted_wrt (<) (map fst es) \<Longrightarrow> sorted_wrt (<) (map fst (obj_insert k v es))"
proof (induction es)
  case (Cons e es)
  obtain k' v' where e: "e = (k', v')" by (cases e)
  then show ?case using Cons keys_obj_insert [of k v es] by (auto simp: e)
qed simp

lemma insert_all_keeps_sorted:
  "sorted_wrt (<) (map fst m) \<Longrightarrow>
    sorted_wrt (<) (map fst (foldl (\<lambda>m (k, v). obj_insert k v m) m es))"
  by (induction es arbitrary: m) (auto simp: sorted_obj_insert)

lemma values_obj_insert:
  "P v \<Longrightarrow> list_all (\<lambda>(k, v). P v) es \<Longrightarrow> list_all (\<lambda>(k, v). P v) (obj_insert k v es)"
  by (induction es) auto

lemma values_insert_all:
  "list_all (\<lambda>(k, v). P v) m \<Longrightarrow> list_all (\<lambda>(k, v). P v) es \<Longrightarrow>
    list_all (\<lambda>(k, v). P v) (foldl (\<lambda>m (k, v). obj_insert k v m) m es)"
  by (induction es arbitrary: m) (auto simp: values_obj_insert)

lemma canonicalize_json_ok: "json_ok (canonicalize_json v)"
proof (induction v rule: canonicalize_json.induct)
  case (2 es)
  then have "list_all (\<lambda>(k, v). json_ok v) (map (\<lambda>(k, v). (k, canonicalize_json v)) es)"
    by (auto simp: list_all_iff)
  then have "list_all (\<lambda>(k, v). json_ok v) (sort_key fst (map (\<lambda>(k, v). (k, canonicalize_json v)) es))"
    by (simp add: list_all_iff)
  then show ?case
    by (simp add: insert_all_def insert_all_keeps_sorted values_insert_all)
qed (auto simp: list_all_iff)

lemma sorted_key_strict: "sorted_wrt (<) (map fst es) \<Longrightarrow> sort_key fst es = es"
  by (rule sort_key_id_if_sorted) (metis sorted_wrt_mono_rel less_imp_le)

lemma canonicalize_json_id: "json_ok v \<Longrightarrow> canonicalize_json v = v"
proof (induction v rule: canonicalize_json.induct)
  case (1 vs)
  then show ?case by (auto simp: list_all_iff intro: map_idI)
next
  case (2 es)
  have "map (\<lambda>(k, v). (k, canonicalize_json v)) es = es"
    using 2 by (intro map_idI) (auto simp: list_all_iff)
  moreover have "sorted_wrt (<) (map fst es)" using "2.prems" by simp
  ultimately show ?case by (simp add: sorted_key_strict insert_all_strict)
qed simp_all

lemma canonicalize_json_perm:
  assumes "distinct (map fst es)" and "mset es = mset es'"
  shows "canonicalize_json (JObj es) = canonicalize_json (JObj es')"
proof -
  let ?f = "\<lambda>(k, v). (k, canonicalize_json v)"
  have fst: "map fst (map ?f es) = map fst es" by (induction es) auto
  have "inj_on fst (set (map ?f es))"
    using assms(1) by (simp only: distinct_map [of fst "map ?f es", unfolded fst])
  moreover have "mset (map ?f es) = mset (map ?f es')" using assms(2) by simp
  ultimately have "sort_key fst (map ?f es) = sort_key fst (map ?f es')"
    by (intro sort_key_eq_sort_key)
  then show ?thesis by simp
qed

section \<open>The size of a verification state\<close>

definition max_verification_json_bytes :: nat where "max_verification_json_bytes = 64 * 1024"
definition max_verification_json_depth :: nat where "max_verification_json_depth = 32"
definition max_verification_json_nodes :: nat where "max_verification_json_nodes = 4096"

text \<open>The bytes one node adds and the children it pushes, last child on top of the stack.\<close>

fun node_bytes :: "json \<Rightarrow> nat \<Rightarrow> nat" where
  "node_bytes (JInt n) bytes = sat_add_usize bytes (length (show_int n))"
| "node_bytes (JFloat s) bytes = sat_add_usize bytes (length s)"
| "node_bytes (JStr s) bytes = sat_add_usize bytes (length s)"
| "node_bytes (JObj es) bytes = foldl (\<lambda>b (k, v). sat_add_usize b (length k)) bytes es"
| "node_bytes _ bytes = bytes"

fun node_children :: "json \<Rightarrow> json list" where
  "node_children (JArr vs) = vs"
| "node_children (JObj es) = map snd es"
| "node_children _ = []"

fun json_nodes :: "json \<Rightarrow> nat" where
  "json_nodes (JArr vs) = Suc (sum_list (map json_nodes vs))"
| "json_nodes (JObj es) = Suc (sum_list (map (\<lambda>(k, v). json_nodes v) es))"
| "json_nodes v = 1"

lemma json_nodes_children: "json_nodes v = Suc (sum_list (map json_nodes (node_children v)))"
  by (cases v) (simp_all add: comp_def case_prod_beta')

lemma sum_nodes_children: "sum_list (map json_nodes (node_children v)) < json_nodes v"
  using json_nodes_children [of v] by simp

function verification_loop :: "(json \<times> nat) list \<Rightarrow> nat \<Rightarrow> nat \<Rightarrow> protocol_error + unit" where
  "verification_loop [] nodes bytes = Inr ()"
| "verification_loop ((v, depth) # stack) nodes bytes =
     (let nodes = sat_add_usize nodes 1 in
      if max_verification_json_nodes < nodes \<or> max_verification_json_depth < depth
      then Inl (InvalidRequest ''verification state is too large'')
      else
        let bytes = node_bytes v bytes;
            stack = map (\<lambda>c. (c, sat_add_usize depth 1)) (rev (node_children v)) @ stack in
        if max_verification_json_bytes < bytes
        then Inl (InvalidRequest ''verification state is too large'')
        else verification_loop stack nodes bytes)"
  by pat_completeness auto
termination
  by (relation "measure (\<lambda>(stack, _, _). sum_list (map (json_nodes \<circ> fst) stack))")
    (auto simp: comp_def rev_map [symmetric] sum_nodes_children)

declare verification_loop.simps(2) [simp del]

text \<open>
  The reference: the nodes, the bytes of text and the depth of a value, by recursion on it.
\<close>

fun own_bytes :: "json \<Rightarrow> nat" where
  "own_bytes (JInt n) = length (show_int n)"
| "own_bytes (JFloat s) = length s"
| "own_bytes (JStr s) = length s"
| "own_bytes (JObj es) = sum_list (map (length \<circ> fst) es)"
| "own_bytes _ = 0"

fun json_bytes :: "json \<Rightarrow> nat" where
  "json_bytes (JArr vs) = sum_list (map json_bytes vs)"
| "json_bytes (JObj es) =
     sum_list (map (length \<circ> fst) es) + sum_list (map (\<lambda>(k, v). json_bytes v) es)"
| "json_bytes v = own_bytes v"

fun json_depth_le :: "json \<Rightarrow> nat \<Rightarrow> bool" where
  "json_depth_le (JArr []) d = True"
| "json_depth_le (JArr vs) d = (0 < d \<and> list_all (\<lambda>v. json_depth_le v (d - 1)) vs)"
| "json_depth_le (JObj []) d = True"
| "json_depth_le (JObj es) d = (0 < d \<and> list_all (\<lambda>(k, v). json_depth_le v (d - 1)) es)"
| "json_depth_le v d = True"

definition verification_fits :: "json \<Rightarrow> bool" where
  "verification_fits v \<longleftrightarrow> json_nodes v \<le> max_verification_json_nodes
     \<and> json_depth_le v max_verification_json_depth
     \<and> json_bytes v \<le> max_verification_json_bytes"

lemma json_bytes_children:
  "json_bytes v = own_bytes v + sum_list (map json_bytes (node_children v))"
  by (cases v) (simp_all add: comp_def case_prod_beta')

lemma json_depth_le_children:
  "json_depth_le v d \<longleftrightarrow> (\<forall>c \<in> set (node_children v). 0 < d \<and> json_depth_le c (d - 1))"
  by (cases "(v, d)" rule: json_depth_le.cases) (auto simp: list_all_iff)

lemma node_bytes_own:
  assumes "bytes \<le> usize_max"
  shows "node_bytes v bytes = sat_add_usize bytes (own_bytes v)"
proof -
  have "bytes \<le> usize_max \<Longrightarrow>
      foldl (\<lambda>b (k, v). sat_add_usize b (length k)) bytes es
        = sat_add_usize bytes (sum_list (map (length \<circ> fst) es))" for es :: "(string \<times> json) list"
    by (induction es arbitrary: bytes) (auto simp: sat_add_usize_def)
  with assms show ?thesis by (cases v) (auto simp: sat_add_usize_def)
qed

lemma verification_loop_iff:
  assumes "nodes \<le> max_verification_json_nodes" and "bytes \<le> max_verification_json_bytes"
  shows "verification_loop stack nodes bytes = Inr () \<longleftrightarrow>
    nodes + sum_list (map (json_nodes \<circ> fst) stack) \<le> max_verification_json_nodes
    \<and> (\<forall>(v, d) \<in> set stack. d \<le> max_verification_json_depth
         \<and> json_depth_le v (max_verification_json_depth - d))
    \<and> bytes + sum_list (map (json_bytes \<circ> fst) stack) \<le> max_verification_json_bytes"
  using assms
proof (induction stack nodes bytes rule: verification_loop.induct)
  case (2 v depth stack nodes bytes)
  note limits = max_verification_json_nodes_def max_verification_json_bytes_def
    max_verification_json_depth_def
  have nodes: "sat_add_usize nodes (Suc 0) = Suc nodes"
    using "2.prems" by (simp add: limits sat_add_usize_def usize_max_def)
  have bytes: "max_verification_json_bytes < node_bytes v bytes \<longleftrightarrow>
      max_verification_json_bytes < bytes + own_bytes v"
    using "2.prems" node_bytes_own [of bytes v]
    by (auto simp: limits sat_add_usize_def usize_max_def)
  have bytes_eq: "node_bytes v bytes = bytes + own_bytes v"
    if "bytes + own_bytes v \<le> max_verification_json_bytes"
    using that "2.prems" node_bytes_own [of bytes v]
    by (auto simp: limits sat_add_usize_def usize_max_def)
  show ?case
  proof (cases "max_verification_json_nodes < Suc nodes \<or> max_verification_json_depth < depth
      \<or> max_verification_json_bytes < bytes + own_bytes v")
    case True
    then show ?thesis
      by (auto simp: verification_loop.simps(2) [of v depth] nodes bytes Let_def
          json_nodes_children [of v] json_bytes_children [of v])
  next
    case False
    then have ok: "Suc nodes \<le> max_verification_json_nodes" "depth \<le> max_verification_json_depth"
      "bytes + own_bytes v \<le> max_verification_json_bytes" by auto
    have depth: "sat_add_usize depth (Suc 0) = Suc depth"
      using ok by (simp add: limits sat_add_usize_def usize_max_def)
    have step: "verification_loop ((v, depth) # stack) nodes bytes =
        verification_loop (map (\<lambda>c. (c, Suc depth)) (rev (node_children v)) @ stack)
          (Suc nodes) (bytes + own_bytes v)"
      using ok by (simp add: verification_loop.simps(2) [of v depth] nodes bytes_eq depth Let_def)
    have children: "(\<forall>c \<in> set (node_children v). Suc depth \<le> max_verification_json_depth
          \<and> json_depth_le c (max_verification_json_depth - Suc depth)) \<longleftrightarrow>
        json_depth_le v (max_verification_json_depth - depth)"
      using ok by (auto simp: json_depth_le_children [of v])
    show ?thesis
      unfolding step using ok
      by (subst "2.IH" [OF refl _ refl refl, unfolded One_nat_def nodes depth bytes_eq [OF ok(3)]])
        (auto simp: comp_def rev_map [symmetric] json_nodes_children [of v]
          json_bytes_children [of v] children [symmetric])
  qed
qed simp

lemma verification_loop_fits: "verification_loop [(v, 0)] 0 0 = Inr () \<longleftrightarrow> verification_fits v"
  by (subst verification_loop_iff) (simp_all add: verification_fits_def)

end
