(* ===== verification/Protocol.thy ===== *)
theory Protocol
  imports Json
begin

text \<open>
  The protocol's data (\<open>ActionRequest\<close>, \<open>AuthorityGrant\<close>, \<open>TargetRef\<close>, \<open>Action\<close>,
  \<open>ActionAck\<close>, \<open>Terminal\<close>, \<open>Receipt\<close>, \<open>Capabilities\<close>, \<open>Observation\<close>, \<dots>, lib.rs), with the
  fields and variants in the source's order, and the small functions on it: action names,
  delivery routes, acknowledgements and receipts.

  Fields carry a prefix naming their struct.  \<open>platform\<close> stands for the \<open>cfg!(target_os)\<close>
  switches of the code.
\<close>

datatype platform = MacOS | Linux | Windows

definition protocol_version :: u16 where "protocol_version = 2"

section \<open>Enumerations\<close>

datatype interaction_mode = Interactive | BackgroundOnly | UnknownInteraction
datatype session_isolation = SharedDesktop | HostIsolated | UnknownIsolation
datatype delivery_route = TargetAddressed | Pointer | PerProcessEvent | UnknownRoute
datatype background_support = Guarded | HostIsolatedOnly | Unavailable
datatype context_preservation =
  NotApplicable | UnchangedAtBoundaries | ContextChanged | ContextUnavailable | ContextHostIsolated
datatype safety_class = Reversible | External | Destructive
datatype mouse_button = LeftButton | RightButton | MiddleButton
datatype direction = Up | Down | Leftward | Rightward
datatype application_operation = Launch | Switch | Quit
datatype window_operation = Focus | Close | Minimize
datatype failure_code =
    InvalidRequestCode | ConflictCode | StaleTargetCode | TargetNotFoundCode
  | PermissionDeniedCode | Unsupported | DispatchFailed | VerificationFailed
datatype effect = Verified | ExecutedUnverified | UnknownEffect
datatype effect_knowledge = NoEffect | EffectUnknown | CancelledBefore | ExpiredBefore

section \<open>Requests\<close>

record authority_grant =
  g_protocol_version :: u16
  g_issuer :: string
  g_key_id :: string
  g_operation_id :: string
  g_subject :: string
  g_session_id :: string
  g_risk :: safety_class
  g_expires_at_ms :: i64
  g_policy_generation :: string
  g_action_hash :: string

record signed_authority =
  sa_grant :: authority_grant
  sa_signature :: string

record semantic_target_ref =
  t_observation_id :: string
  t_generation :: u64
  t_provenance_hash :: string
  t_element_id :: string
  t_fingerprint_hash :: string

text \<open>\<open>Coordinates\<close>: x, y, display id, display geometry hash, snapshot id, content hash.\<close>

datatype target_ref =
    Coordinates i64 i64 string string string string
  | Element semantic_target_ref
  | NoTarget

record rect =
  r_x :: i64
  r_y :: i64
  r_width :: i64
  r_height :: i64

record element_fingerprint =
  f_backend :: string
  f_id :: string
  f_app :: string
  f_process_id :: int
  f_window :: string
  f_role :: string
  f_label :: string
  f_bounds :: "rect option"

datatype action =
    Invoke
  | Click mouse_button u32 bool
  | TypeText string bool bool "u64 option"
  | Press string u32 "u64 option"
  | Paste string
  | Hotkey "string list"
  | Scroll direction u32
  | Move
  | Drag target_ref mouse_button
  | SelectText u32 u32
  | PerformSecondaryAction string
  | SetValue string
  | Screenshot string
  | Application application_operation string
  | Window window_operation "string option" "string option"
  | Open string "string option" bool
  | ClipboardWrite string

datatype verification_policy =
    NoVerification
  | SnapshotChanged
  | TargetState json
  | TargetValueHash string

record action_request =
  rq_protocol_version :: u16
  rq_action_version :: u16
  rq_target_version :: u16
  rq_verification_version :: u16
  rq_operation_id :: string
  rq_subject :: string
  rq_session_id :: string
  rq_authority :: signed_authority
  rq_action :: action
  rq_target :: target_ref
  rq_interaction_mode :: interaction_mode
  rq_deadline_at_ms :: i64
  rq_verification :: verification_policy
  rq_safety :: safety_class

section \<open>Acknowledgements\<close>

record evidence =
  e_observation_hash :: string
  e_target_fingerprint_hash :: "string option"
  e_display_geometry_hash :: string
  e_observed_at_ms :: i64

record receipt =
  rc_protocol_version :: u16
  rc_action_name :: string
  rc_action_hash :: string
  rc_started_at_ms :: i64
  rc_finished_at_ms :: i64
  rc_backend :: string
  rc_fallback_chain :: "string list"
  rc_delivery_route :: delivery_route
  rc_session_isolation :: session_isolation
  rc_interaction_mode :: interaction_mode
  rc_context_preservation :: context_preservation
  rc_effect :: effect
  rc_before :: "evidence option"
  rc_after :: "evidence option"
  rc_warnings :: "string list"

datatype terminal =
    Succeeded receipt
  | Rejected failure_code string
  | Failed failure_code string
  | CancelledBeforeEffect
  | ExpiredBeforeEffect
  | OutcomeUnknown receipt string

datatype ack_state = Accepted | Executing | Terminal terminal

record action_ack =
  a_protocol_version :: u16
  a_operation_id :: string
  a_sequence :: u32
  a_action_hash :: string
  a_replayed :: bool
  a_state :: ack_state

type_synonym execute_report = "action_ack list"

section \<open>Capabilities, observations, resolved targets\<close>

record action_capability =
  ac_action :: string
  ac_delivery_route :: delivery_route
  ac_background_support :: background_support

record capabilities =
  c_platform :: string
  c_backend :: string
  c_session_isolation :: session_isolation
  c_supported_actions :: "string list"
  c_action_capabilities :: "action_capability list"
  c_permissions :: "(string \<times> bool) list"
  c_display_geometry_hash :: string

record native_bounds =
  nb_x :: i64
  nb_y :: i64
  nb_width :: i64
  nb_height :: i64

record native_element =
  ne_backend :: string
  ne_id :: string
  ne_app :: string
  ne_process_id :: "int option"
  ne_window :: "string option"
  ne_role :: string
  ne_label :: "string option"
  ne_title :: "string option"
  ne_bounds :: "native_bounds option"
  ne_state :: json
  ne_enabled :: "bool option"

record observation =
  o_evidence :: evidence
  o_element :: "native_element option"
  o_state :: json

record native_point =
  p_x :: i64
  p_y :: i64

datatype resolved_target =
    PointTarget native_point
  | ElementTarget native_element
  | SemanticTarget semantic_target_ref
  | NoResolved

record dispatch_receipt =
  dr_backend :: string
  dr_fallback_chain :: "string list"

record dispatch_error =
  de_message :: string
  de_effect :: effect_knowledge
  de_code :: failure_code

section \<open>Action names and delivery routes\<close>

fun action_name :: "action \<Rightarrow> string" where
  "action_name Invoke = ''invoke''"
| "action_name (Click _ _ _) = ''click''"
| "action_name (TypeText _ _ _ _) = ''type_text''"
| "action_name (Press _ _ _) = ''press''"
| "action_name (Paste _) = ''paste''"
| "action_name (Hotkey _) = ''hotkey''"
| "action_name (Scroll _ _) = ''scroll''"
| "action_name Move = ''move''"
| "action_name (Drag _ _) = ''drag''"
| "action_name (SelectText _ _) = ''select_text''"
| "action_name (PerformSecondaryAction _) = ''perform_secondary_action''"
| "action_name (SetValue _) = ''set_value''"
| "action_name (Screenshot _) = ''screenshot''"
| "action_name (Application _ _) = ''application''"
| "action_name (Window _ _ _) = ''window''"
| "action_name (Open _ _ _) = ''open''"
| "action_name (ClipboardWrite _) = ''clipboard_write''"

fun action_delivery_route :: "action \<Rightarrow> delivery_route" where
  "action_delivery_route Invoke = TargetAddressed"
| "action_delivery_route (SetValue _) = TargetAddressed"
| "action_delivery_route (SelectText _ _) = TargetAddressed"
| "action_delivery_route (PerformSecondaryAction _) = TargetAddressed"
| "action_delivery_route (Scroll _ _) = UnknownRoute"
| "action_delivery_route _ = Pointer"

definition native_pointer_delivery_route :: "platform \<Rightarrow> delivery_route" where
  "native_pointer_delivery_route os = (if os = MacOS then PerProcessEvent else Pointer)"

fun request_delivery_route :: "platform \<Rightarrow> action \<Rightarrow> target_ref \<Rightarrow> delivery_route" where
  "request_delivery_route os Invoke (Element _) = TargetAddressed"
| "request_delivery_route os (SetValue _) (Element _) = TargetAddressed"
| "request_delivery_route os (SelectText _ _) (Element _) = TargetAddressed"
| "request_delivery_route os (PerformSecondaryAction _) (Element _) = TargetAddressed"
| "request_delivery_route os (Scroll _ _) (Element _) =
     (if os = MacOS then native_pointer_delivery_route os else TargetAddressed)"
| "request_delivery_route os _ (Element _) = native_pointer_delivery_route os"
| "request_delivery_route os _ _ = Pointer"

fun claim_delivery_route :: "platform \<Rightarrow> action \<Rightarrow> target_ref \<Rightarrow> delivery_route" where
  "claim_delivery_route os (Scroll _ _) target = UnknownRoute"
| "claim_delivery_route os action target = request_delivery_route os action target"

definition mouse_button_str :: "mouse_button \<Rightarrow> string" where
  "mouse_button_str b = (case b of LeftButton \<Rightarrow> ''left'' | RightButton \<Rightarrow> ''right''
     | MiddleButton \<Rightarrow> ''middle'')"

fun recovered_context_preservation ::
  "interaction_mode \<Rightarrow> session_isolation \<Rightarrow> context_preservation" where
  "recovered_context_preservation Interactive _ = NotApplicable"
| "recovered_context_preservation BackgroundOnly HostIsolated = ContextHostIsolated"
| "recovered_context_preservation _ _ = ContextUnavailable"

section \<open>Acknowledgements and receipts of a request\<close>

definition ack :: "action_request \<Rightarrow> string \<Rightarrow> u32 \<Rightarrow> ack_state \<Rightarrow> bool \<Rightarrow> action_ack" where
  "ack request action_hash sequence state replayed =
     \<lparr>a_protocol_version = protocol_version, a_operation_id = rq_operation_id request,
      a_sequence = sequence, a_action_hash = action_hash, a_replayed = replayed,
      a_state = state\<rparr>"

definition terminal_ack :: "action_request \<Rightarrow> string \<Rightarrow> terminal \<Rightarrow> bool \<Rightarrow> action_ack" where
  "terminal_ack request action_hash terminal replayed =
     ack request action_hash 2 (Terminal terminal) replayed"

text \<open>A receipt reads the clock twice, for its start and for its end.\<close>

definition empty_receipt ::
  "platform \<Rightarrow> action_request \<Rightarrow> string \<Rightarrow> effect \<Rightarrow> session_isolation \<Rightarrow> ('x host, receipt) state"
where
  "empty_receipt os request action_hash eff isolation = do {
     started \<leftarrow> now_ms;
     finished \<leftarrow> now_ms;
     ret \<lparr>rc_protocol_version = protocol_version,
          rc_action_name = action_name (rq_action request),
          rc_action_hash = action_hash,
          rc_started_at_ms = started,
          rc_finished_at_ms = finished,
          rc_backend = ''unknown'',
          rc_fallback_chain = [],
          rc_delivery_route = request_delivery_route os (rq_action request) (rq_target request),
          rc_session_isolation = isolation,
          rc_interaction_mode = rq_interaction_mode request,
          rc_context_preservation =
            recovered_context_preservation (rq_interaction_mode request) isolation,
          rc_effect = eff,
          rc_before = None,
          rc_after = None,
          rc_warnings = []\<rparr>
   }"

lemma ack_simps [simp]:
  "a_protocol_version (ack rq h n st r) = protocol_version"
  "a_operation_id (ack rq h n st r) = rq_operation_id rq"
  "a_sequence (ack rq h n st r) = n"
  "a_action_hash (ack rq h n st r) = h"
  "a_replayed (ack rq h n st r) = r"
  "a_state (ack rq h n st r) = st"
  by (simp_all add: ack_def)

lemma terminal_ack_simps [simp]:
  "a_protocol_version (terminal_ack rq h t r) = protocol_version"
  "a_operation_id (terminal_ack rq h t r) = rq_operation_id rq"
  "a_sequence (terminal_ack rq h t r) = 2"
  "a_action_hash (terminal_ack rq h t r) = h"
  "a_replayed (terminal_ack rq h t r) = r"
  "a_state (terminal_ack rq h t r) = Terminal t"
  by (simp_all add: terminal_ack_def)

end
