(* ===== verification/Outcome.thy ===== *)
theory Outcome
  imports Protocol
begin

text \<open>
  Host outcome ledgers (lib.rs: \<open>OutcomeKey\<close>, \<open>LedgerDecision\<close>, the trait \<open>OutcomeLedger\<close>
  and its two implementations).  The trait is a pair of computations over the ledger's own
  state, one record \<open>outcome_ops\<close>; the locale \<open>outcome_ledger\<close> states the contract of the
  trait's comments (a key is granted at most once and then answered from the record), and
  \<open>MemoryOutcomeLedger\<close> is shown to honour it.
\<close>

section \<open>Keys, decisions, operations\<close>

record outcome_key =
  k_operation_id :: string
  k_action_hash :: string

datatype ledger_decision = Dispatch | Recorded terminal | Interrupted

record 'o outcome_ops =
  oo_begin :: "outcome_key \<Rightarrow> ('o, protocol_error + ledger_decision) state"
  oo_record :: "outcome_key \<Rightarrow> terminal \<Rightarrow> ('o, protocol_error + unit) state"

section \<open>NullOutcomeLedger\<close>

definition null_begin :: "outcome_key \<Rightarrow> (unit, protocol_error + ledger_decision) state" where
  "null_begin key = ret (Inr Dispatch)"

definition null_record :: "outcome_key \<Rightarrow> terminal \<Rightarrow> (unit, protocol_error + unit) state" where
  "null_record key terminal = ret (Inr ())"

definition null_outcomes :: "unit outcome_ops" where
  "null_outcomes = \<lparr>oo_begin = null_begin, oo_record = null_record\<rparr>"

section \<open>MemoryOutcomeLedger\<close>

text \<open>A mutex around a map; a panic while the lock was held leaves it poisoned.\<close>

record memory_ledger =
  m_poisoned :: bool
  m_entries :: "outcome_key \<rightharpoonup> terminal option"

definition memory_new :: memory_ledger where
  "memory_new = \<lparr>m_poisoned = False, m_entries = Map.empty\<rparr>"

definition memory_begin :: "outcome_key \<Rightarrow> (memory_ledger, protocol_error + ledger_decision) state" where
  "memory_begin key = State (\<lambda>m.
     if m_poisoned m then (Inl (LedgerError ''outcome ledger is poisoned''), m)
     else case m_entries m key of
       Some (Some terminal) \<Rightarrow> (Inr (Recorded terminal), m)
     | Some None \<Rightarrow> (Inr Interrupted, m)
     | None \<Rightarrow> (Inr Dispatch, m\<lparr>m_entries := (m_entries m)(key \<mapsto> None)\<rparr>))"

definition memory_record ::
  "outcome_key \<Rightarrow> terminal \<Rightarrow> (memory_ledger, protocol_error + unit) state" where
  "memory_record key terminal = State (\<lambda>m.
     if m_poisoned m then (Inl (LedgerError ''outcome ledger is poisoned''), m)
     else (Inr (), m\<lparr>m_entries := (m_entries m)(key \<mapsto> Some terminal)\<rparr>))"

definition memory_outcomes :: "memory_ledger outcome_ops" where
  "memory_outcomes = \<lparr>oo_begin = memory_begin, oo_record = memory_record\<rparr>"

section \<open>Sequences of calls\<close>

datatype outcome_call = CallBegin outcome_key | CallRecord outcome_key terminal

text \<open>The keys granted by a sequence of calls, in order, and the final state.\<close>

fun run_calls :: "'o outcome_ops \<Rightarrow> outcome_call list \<Rightarrow> 'o \<Rightarrow> outcome_key list \<times> 'o" where
  "run_calls ops [] s = ([], s)"
| "run_calls ops (CallBegin key # calls) s =
     (let (r, s') = run_state (oo_begin ops key) s; (granted, t) = run_calls ops calls s' in
      (if r = Inr Dispatch then key # granted else granted, t))"
| "run_calls ops (CallRecord key terminal # calls) s =
     (let (_, s') = run_state (oo_record ops key terminal) s in run_calls ops calls s')"

section \<open>The contract\<close>

text \<open>
  \<open>entry\<close> abstracts the ledger's state: a key is absent, granted (\<open>Some None\<close>) or recorded.
\<close>

locale outcome_ledger =
  fixes ops :: "'o outcome_ops"
    and entry :: "'o \<Rightarrow> outcome_key \<Rightarrow> terminal option option"
  assumes begin_dispatch: "run_state (oo_begin ops k) s = (Inr Dispatch, s') \<Longrightarrow>
      entry s k = None \<and> entry s' = (entry s)(k := Some None)"
    and begin_recorded: "run_state (oo_begin ops k) s = (Inr (Recorded t), s') \<Longrightarrow>
      entry s k = Some (Some t) \<and> entry s' = entry s"
    and begin_interrupted: "run_state (oo_begin ops k) s = (Inr Interrupted, s') \<Longrightarrow>
      entry s k = Some None \<and> entry s' = entry s"
    and begin_error: "run_state (oo_begin ops k) s = (Inl e, s') \<Longrightarrow> entry s' = entry s"
    and record_ok: "run_state (oo_record ops k t) s = (Inr u, s') \<Longrightarrow>
      entry s' = (entry s)(k := Some (Some t))"
    and record_error: "run_state (oo_record ops k t) s = (Inl e, s') \<Longrightarrow> entry s' = entry s"
begin

lemma begin_known:
  assumes "run_state (oo_begin ops k) s = (r, s')" and "entry s key \<noteq> None"
  shows "entry s' key = entry s key"
proof (cases r)
  case (Inl e)
  with assms show ?thesis by (auto dest: begin_error)
next
  case (Inr d)
  with assms show ?thesis
    by (cases d) (auto dest!: begin_dispatch dest: begin_recorded begin_interrupted)
qed

lemma begin_keeps_known:
  "run_state (oo_begin ops k) s = (r, s') \<Longrightarrow> entry s key \<noteq> None \<Longrightarrow> entry s' key \<noteq> None"
  using begin_known by metis

lemma record_keeps_known:
  "run_state (oo_record ops k t) s = (r, s') \<Longrightarrow> entry s key \<noteq> None \<Longrightarrow> entry s' key \<noteq> None"
  by (cases r) (auto dest: record_ok record_error)

lemma known_not_granted:
  "entry s key \<noteq> None \<Longrightarrow> key \<notin> set (fst (run_calls ops calls s))"
proof (induction calls arbitrary: s)
  case (Cons call calls)
  then show ?case
  proof (cases call)
    case (CallBegin k)
    obtain r s' where b: "run_state (oo_begin ops k) s = (r, s')" by force
    have "r = Inr Dispatch \<Longrightarrow> k \<noteq> key" using b Cons.prems by (auto dest: begin_dispatch)
    moreover have "key \<notin> set (fst (run_calls ops calls s'))"
      by (rule Cons.IH, rule begin_keeps_known [OF b Cons.prems])
    ultimately show ?thesis by (auto simp: CallBegin b split: prod.splits)
  next
    case (CallRecord k t)
    obtain r s' where b: "run_state (oo_record ops k t) s = (r, s')" by force
    from Cons.IH [OF record_keeps_known [OF b Cons.prems]] show ?thesis by (simp add: CallRecord b)
  qed
qed simp

lemma granted_once: "distinct (fst (run_calls ops calls s))"
proof (induction calls arbitrary: s)
  case (Cons call calls)
  show ?case
  proof (cases call)
    case (CallBegin k)
    obtain r s' where b: "run_state (oo_begin ops k) s = (r, s')" by force
    have "r = Inr Dispatch \<Longrightarrow> k \<notin> set (fst (run_calls ops calls s'))"
      using b by (intro known_not_granted) (auto dest: begin_dispatch)
    with Cons.IH [of s'] show ?thesis by (auto simp: CallBegin b split: prod.splits)
  next
    case (CallRecord k t)
    obtain r s' where b: "run_state (oo_record ops k t) s = (r, s')" by force
    from Cons.IH [of s'] show ?thesis by (simp add: CallRecord b)
  qed
qed simp

lemma recorded_answer:
  assumes "run_state (oo_record ops k t) s = (Inr u, s1)"
    and "run_state (oo_begin ops k) s1 = (Inr d, s2)"
  shows "d = Recorded t"
proof -
  have e: "entry s1 k = Some (Some t)" using record_ok [OF assms(1)] by simp
  show ?thesis
    using assms(2) e by (cases d) (auto dest: begin_dispatch begin_recorded begin_interrupted)
qed

lemma granted_then_interrupted:
  assumes "run_state (oo_begin ops k) s = (Inr Dispatch, s1)"
    and "run_state (oo_begin ops k) s1 = (Inr d, s2)"
  shows "d = Interrupted"
proof -
  have e: "entry s1 k = Some None" using begin_dispatch [OF assms(1)] by simp
  show ?thesis
    using assms(2) e by (cases d) (auto dest: begin_dispatch begin_recorded begin_interrupted)
qed

end

interpretation memory: outcome_ledger memory_outcomes m_entries
  by unfold_locales
    (auto simp: memory_outcomes_def memory_begin_def memory_record_def split: if_splits option.splits)

section \<open>Properties\<close>

lemma memory_granted_once: "distinct (fst (run_calls memory_outcomes calls memory))"
  by (rule memory.granted_once)

lemma memory_answers_record:
  assumes "run_state (memory_record key terminal) memory = (Inr (), memory')"
  shows "run_state (memory_begin key) memory' = (Inr (Recorded terminal), memory')"
  using assms by (auto simp: memory_record_def memory_begin_def split: if_splits)

lemma null_always_grants:
  "fst (run_calls null_outcomes (replicate n (CallBegin key)) s) = replicate n key"
  by (induction n arbitrary: s)
    (auto simp: null_outcomes_def null_begin_def Let_def split: prod.splits)

end
