(* ===== verification/Jsonl.thy ===== *)
theory Jsonl
  imports Strings
begin

text \<open>
  The bytes of a JSONL file and the two routines of lib.rs that read them:
  \<open>repair_jsonl_tail\<close>, which cuts a torn last line off and refuses a file whose complete
  lines are not all records, and the reading loop of \<open>OperationLedger::records\<close>.  Both are
  over an arbitrary record type; \<open>parse\<close> is \<open>serde_json\<close>'s reader for it and \<open>print\<close> its
  writer (\<open>codec_ok\<close> says what the code relies on).
\<close>

definition carriage_return :: char where "carriage_return = CHR 0x0D"

section \<open>Lines\<close>

text \<open>The lines of a file, each with whether a newline ends it.\<close>

function raw_lines :: "string \<Rightarrow> (string \<times> bool) list" where
  "raw_lines [] = []"
| "raw_lines (c # s) =
     (let line = takeWhile (\<lambda>b. b \<noteq> newline) (c # s) in
      (line, length line < length (c # s)) # raw_lines (drop (Suc (length line)) (c # s)))"
  by pat_completeness auto
termination
  by (relation "measure length") auto

declare raw_lines.simps(2) [simp del]

text \<open>\<open>BufRead::lines\<close> removes the newline and a carriage return before it.\<close>

definition strip_cr :: "string \<Rightarrow> string" where
  "strip_cr s = (if s \<noteq> [] \<and> last s = carriage_return then butlast s else s)"

definition buffered_lines :: "string \<Rightarrow> string list" where
  "buffered_lines bytes = map (\<lambda>(line, ended). if ended then strip_cr line else line) (raw_lines bytes)"

section \<open>Repairing the tail\<close>

text \<open>One past the last newline.\<close>

definition durable_len :: "string \<Rightarrow> nat" where
  "durable_len bytes = length (dropWhile (\<lambda>b. b \<noteq> newline) (rev bytes))"

definition line_ok :: "(string \<Rightarrow> 'r option) \<Rightarrow> string \<Rightarrow> bool" where
  "line_ok parse line \<longleftrightarrow> list_all is_ascii_whitespace line \<or> parse line \<noteq> None"

text \<open>The bytes that remain, or \<open>None\<close> when a complete line is not a record.\<close>

definition repaired :: "(string \<Rightarrow> 'r option) \<Rightarrow> string \<Rightarrow> string option" where
  "repaired parse bytes =
     (let durable = take (durable_len bytes) bytes in
      if list_all (\<lambda>(line, _). line_ok parse line) (raw_lines durable) then Some durable else None)"

section \<open>Reading the records\<close>

datatype read_error = InvalidUtf8 | InvalidRecord

fun records_loop :: "(string \<Rightarrow> 'r option) \<Rightarrow> string list \<Rightarrow> read_error + 'r list" where
  "records_loop parse [] = Inr []"
| "records_loop parse (line # rest) =
     (if \<not> valid_utf8 line then Inl InvalidUtf8
      else if blank line then records_loop parse rest
      else case parse line of
        Some r \<Rightarrow> (case records_loop parse rest of Inl e \<Rightarrow> Inl e | Inr rs \<Rightarrow> Inr (r # rs))
      | None \<Rightarrow> if rest = [] then Inr [] else Inl InvalidRecord)"

definition read_records :: "(string \<Rightarrow> 'r option) \<Rightarrow> string \<Rightarrow> read_error + 'r list" where
  "read_records parse bytes = records_loop parse (buffered_lines bytes)"

section \<open>What a JSON writer and reader promise\<close>

text \<open>
  \<open>serde_json::to_writer\<close> of a struct writes one object, compactly and in UTF-8: it starts
  with an opening and ends with a closing brace, a newline inside a string is escaped, and
  the reader returns what was written.
\<close>

definition codec_ok :: "('r \<Rightarrow> string) \<Rightarrow> (string \<Rightarrow> 'r option) \<Rightarrow> bool" where
  "codec_ok print parse \<longleftrightarrow> (\<forall>r. parse (print r) = Some r \<and> newline \<notin> set (print r)
     \<and> valid_utf8 (print r) \<and> (\<exists>s. print r = CHR 0x7B # s @ [CHR 0x7D]))"

lemma codec_parse [simp]: "codec_ok print parse \<Longrightarrow> parse (print r) = Some r"
  by (simp add: codec_ok_def)

lemma codec_line:
  assumes "codec_ok print parse"
  shows "newline \<notin> set (print r)" and "valid_utf8 (print r)"
    and "\<not> blank (print r)" and "strip_cr (print r) = print r"
proof -
  from assms have c: "newline \<notin> set (print r)" "valid_utf8 (print r)"
    "\<exists>s. print r = CHR 0x7B # s @ [CHR 0x7D]"
    unfolding codec_ok_def by blast+
  from c(3) obtain s where s: "print r = CHR 0x7B # s @ [CHR 0x7D]" ..
  show "newline \<notin> set (print r)" and "valid_utf8 (print r)" by (rule c)+
  show "\<not> blank (print r)" by (simp add: s blank_def is_whitespace_def)
  show "strip_cr (print r) = print r" by (simp add: s strip_cr_def carriage_return_def)
qed

section \<open>Facts about lines\<close>

lemma line_shorter: "newline \<in> set bytes \<Longrightarrow> length (takeWhile (\<lambda>b. b \<noteq> newline) bytes) < length bytes"
  by (induction bytes) auto

lemma raw_lines_step:
  "bytes \<noteq> [] \<Longrightarrow> raw_lines bytes = (takeWhile (\<lambda>b. b \<noteq> newline) bytes,
      length (takeWhile (\<lambda>b. b \<noteq> newline) bytes) < length bytes)
    # raw_lines (drop (Suc (length (takeWhile (\<lambda>b. b \<noteq> newline) bytes))) bytes)"
  by (cases bytes) (simp_all only: raw_lines.simps(2) Let_def simp_thms)

lemma line_whole: "newline \<notin> set bytes \<Longrightarrow> takeWhile (\<lambda>b. b \<noteq> newline) bytes = bytes"
  by (induction bytes) auto

lemma raw_lines_append:
  "bytes = [] \<or> last bytes = newline \<Longrightarrow> raw_lines (bytes @ more) = raw_lines bytes @ raw_lines more"
proof (induction bytes rule: raw_lines.induct)
  case 1
  then show ?case by simp
next
  case (2 c s)
  let ?b = "c # s" and ?nl = "\<lambda>b. b \<noteq> newline"
  let ?line = "takeWhile ?nl ?b"
  have ex: "newline \<in> set ?b" using "2.prems" by (metis last_in_set list.distinct(1))
  then have len: "length ?line < length ?b" by (rule line_shorter)
  have take: "takeWhile ?nl (?b @ more) = ?line"
    using ex by (metis (mono_tags) takeWhile_append1)
  have rest: "drop (Suc (length ?line)) (?b @ more) = drop (Suc (length ?line)) ?b @ more"
    using len by simp
  have last: "drop (Suc (length ?line)) ?b = [] \<or> last (drop (Suc (length ?line)) ?b) = newline"
    using "2.prems" by (metis drop_eq_Nil2 last_drop leI list.distinct(1))
  have "raw_lines (?b @ more) = (?line, True) # raw_lines (drop (Suc (length ?line)) (?b @ more))"
    using raw_lines_step [of "?b @ more"] take len by simp
  also have "\<dots> = (?line, True) # raw_lines (drop (Suc (length ?line)) ?b) @ raw_lines more"
    using "2.IH" [OF refl last] rest by simp
  also have "\<dots> = raw_lines ?b @ raw_lines more"
    using raw_lines_step [of ?b] len by simp
  finally show ?case .
qed

lemma raw_lines_line: "newline \<notin> set line \<Longrightarrow> raw_lines (line @ newline # more) = (line, True) # raw_lines more"
proof -
  assume n: "newline \<notin> set line"
  then have "takeWhile (\<lambda>b. b \<noteq> newline) (line @ newline # more) = line"
    by (induction line) auto
  then show ?thesis
    using raw_lines_step [of "line @ newline # more"] by simp
qed

lemma complete_line_kept:
  "(line, True) \<in> set (raw_lines bytes) \<Longrightarrow> (line, True) \<in> set (raw_lines (bytes @ more))"
proof (induction bytes rule: raw_lines.induct)
  case 1
  then show ?case by simp
next
  case (2 c s)
  let ?b = "c # s" and ?nl = "\<lambda>b. b \<noteq> newline"
  let ?line = "takeWhile ?nl ?b"
  show ?case
  proof (cases "newline \<in> set ?b")
    case ex: True
    have len: "length ?line < length ?b" using ex by (rule line_shorter)
    have take: "takeWhile ?nl (?b @ more) = ?line" using ex by (metis (mono_tags) takeWhile_append1)
    have "raw_lines (?b @ more) = (?line, True) # raw_lines (drop (Suc (length ?line)) ?b @ more)"
      using raw_lines_step [of "?b @ more"] take len by simp
    moreover have "raw_lines ?b = (?line, True) # raw_lines (drop (Suc (length ?line)) ?b)"
      using raw_lines_step [of ?b] len by simp
    ultimately show ?thesis using "2.IH" [OF refl] "2.prems" by auto
  next
    case False
    then have "raw_lines ?b = [(?b, False)]"
      using raw_lines_step [of ?b] line_whole [of ?b] by simp
    with "2.prems" show ?thesis by simp
  qed
qed

lemma durable_split:
  obtains tail where "bytes = take (durable_len bytes) bytes @ tail" and "newline \<notin> set tail"
    and "take (durable_len bytes) bytes = [] \<or> last (take (durable_len bytes) bytes) = newline"
proof -
  let ?d = "dropWhile (\<lambda>b. b \<noteq> newline) (rev bytes)"
  let ?t = "takeWhile (\<lambda>b. b \<noteq> newline) (rev bytes)"
  have split: "bytes = rev ?d @ rev ?t"
    by (metis rev_append rev_rev_ident takeWhile_dropWhile_id)
  then have durable: "take (durable_len bytes) bytes = rev ?d"
    by (metis append_eq_conv_conj durable_len_def length_rev)
  show thesis
  proof
    show "bytes = take (durable_len bytes) bytes @ rev ?t" using split durable by simp
    show "newline \<notin> set (rev ?t)" by (auto dest: set_takeWhileD)
    show "take (durable_len bytes) bytes = [] \<or> last (take (durable_len bytes) bytes) = newline"
      unfolding durable using hd_dropWhile [of "\<lambda>b. b \<noteq> newline" "rev bytes"]
      by (auto simp: last_rev dropWhile_eq_Nil_conv)
  qed
qed

lemma raw_lines_torn: "newline \<notin> set tail \<Longrightarrow> (line, True) \<notin> set (raw_lines tail)"
proof (cases tail)
  case (Cons c s)
  assume "newline \<notin> set tail"
  then have "takeWhile (\<lambda>b. b \<noteq> newline) (c # s) = c # s"
    unfolding Cons by (metis (mono_tags) takeWhile_eq_all_conv)
  then show ?thesis by (simp add: Cons raw_lines.simps(2) Let_def)
qed simp

lemma complete_line_durable:
  "(line, True) \<in> set (raw_lines bytes) \<Longrightarrow>
    (line, True) \<in> set (raw_lines (take (durable_len bytes) bytes))"
proof -
  assume line: "(line, True) \<in> set (raw_lines bytes)"
  obtain tail where tail: "bytes = take (durable_len bytes) bytes @ tail" "newline \<notin> set tail"
    "take (durable_len bytes) bytes = [] \<or> last (take (durable_len bytes) bytes) = newline"
    by (rule durable_split)
  from raw_lines_append [OF tail(3), of tail] line raw_lines_torn [OF tail(2)] tail(1)
  show ?thesis by (metis Un_iff set_append)
qed

lemma repaired_durable:
  "repaired parse bytes = Some kept \<Longrightarrow> kept = take (durable_len bytes) bytes"
  by (simp add: repaired_def Let_def split: if_splits)

lemma repaired_ends_line: "repaired parse bytes = Some kept \<Longrightarrow> kept = [] \<or> last kept = newline"
  using durable_split [of bytes] repaired_durable by metis

lemma repaired_idem: "repaired parse bytes = Some kept \<Longrightarrow> repaired parse kept = Some kept"
proof -
  assume r: "repaired parse bytes = Some kept"
  have "durable_len kept = length kept"
  proof (cases "kept = []")
    case False
    with repaired_ends_line [OF r] obtain k where "kept = k @ [newline]"
      by (metis append_butlast_last_id)
    then show ?thesis by (simp add: durable_len_def)
  qed (simp add: durable_len_def)
  with r show ?thesis by (simp add: repaired_def Let_def split: if_splits)
qed

lemma records_loop_mem:
  assumes "codec_ok print parse" and "records_loop parse ls = Inr rs" and "print r \<in> set ls"
  shows "r \<in> set rs"
  using assms(2,3)
proof (induction ls arbitrary: rs)
  case (Cons line rest)
  then show ?case
    using codec_line [OF assms(1), of r] codec_parse [OF assms(1), of r]
    by (fastforce split: if_splits option.splits sum.splits)
qed simp

lemma read_records_mem:
  assumes codec: "codec_ok print parse" and read: "read_records parse bytes = Inr rs"
    and line: "(print r, True) \<in> set (raw_lines bytes)"
  shows "r \<in> set rs"
proof -
  have "strip_cr (print r) \<in> set (buffered_lines bytes)"
    unfolding buffered_lines_def using line by force
  then have "print r \<in> set (buffered_lines bytes)" by (simp only: codec_line(4) [OF codec])
  then show ?thesis using read records_loop_mem [OF codec] by (simp add: read_records_def)
qed

section \<open>A journal of printed records\<close>

definition journal :: "('r \<Rightarrow> string) \<Rightarrow> 'r list \<Rightarrow> string" where
  "journal print rs = concat (map (\<lambda>r. print r @ [newline]) rs)"

lemma journal_Nil [simp]: "journal print [] = []"
  by (simp add: journal_def)

lemma journal_snoc: "journal print (rs @ [r]) = journal print rs @ print r @ [newline]"
  by (simp add: journal_def)

lemma raw_lines_journal:
  assumes "codec_ok print parse"
  shows "raw_lines (journal print rs) = map (\<lambda>r. (print r, True)) rs"
proof (induction rs)
  case (Cons r rs)
  then show ?case
    using raw_lines_line [OF codec_line(1) [OF assms, of r], of "journal print rs"]
    by (simp add: journal_def)
qed simp

lemma journal_ends_line: "journal print rs = [] \<or> last (journal print rs) = newline"
  by (cases rs rule: rev_cases) (simp_all add: journal_snoc)

lemma durable_len_ends_line:
  "bytes = [] \<or> last bytes = newline \<Longrightarrow> durable_len bytes = length bytes"
  by (cases bytes rule: rev_cases) (auto simp: durable_len_def)

lemma repaired_journal:
  assumes "codec_ok print parse"
  shows "repaired parse (journal print rs) = Some (journal print rs)"
proof -
  have ok: "line_ok parse (print r)" for r by (simp add: line_ok_def codec_parse [OF assms])
  have "durable_len (journal print rs) = length (journal print rs)"
    by (rule durable_len_ends_line [OF journal_ends_line])
  then show ?thesis by (simp add: repaired_def list_all_iff raw_lines_journal [OF assms] ok)
qed

lemma repaired_torn_journal:
  assumes codec: "codec_ok print parse" and "newline \<notin> set torn"
  shows "repaired parse (journal print rs @ torn) = Some (journal print rs)"
proof -
  have "dropWhile (\<lambda>b. b \<noteq> newline) (rev torn @ rev (journal print rs))
      = dropWhile (\<lambda>b. b \<noteq> newline) (rev (journal print rs))"
    using assms(2) by (intro dropWhile_append2) auto
  then have "durable_len (journal print rs @ torn) = length (journal print rs)"
    using durable_len_ends_line [OF journal_ends_line, of print rs] by (simp add: durable_len_def)
  with repaired_journal [OF codec, of rs] show ?thesis
    using durable_len_ends_line [OF journal_ends_line, of print rs]
    by (simp add: repaired_def Let_def split: if_splits)
qed

lemma read_journal:
  assumes "codec_ok print parse"
  shows "read_records parse (journal print rs) = Inr rs"
proof -
  have "buffered_lines (journal print rs) = map print rs"
    by (simp add: buffered_lines_def raw_lines_journal [OF assms] codec_line [OF assms] comp_def)
  moreover have "records_loop parse (map print rs) = Inr rs"
    by (induction rs) (simp_all add: codec_line [OF assms] codec_parse [OF assms])
  ultimately show ?thesis by (simp add: read_records_def)
qed

end
