(* ===== verification/Validation.thy ===== *)
theory Validation
  imports Protocol
begin

text \<open>
  Validation of a request before anything else happens to it (\<open>validate_request\<close>,
  \<open>validate_action\<close>, \<open>validate_verification\<close>, \<open>target_provenance_is_valid\<close> and the
  identifier and hash predicates of lib.rs), every check in the code's order.

  SHA-256 and the JSON text of a value are the crates \<open>sha2\<close> and \<open>serde_json\<close>: they are the
  fields of \<open>hashing\<close>, a parameter.  Whether the parent of a screenshot path is a directory is
  a question to the file system: the parameter \<open>parent_is_dir\<close>.
\<close>

record hashing =
  sha256_hex :: "string \<Rightarrow> string"
  json_text :: "json \<Rightarrow> string"

named_theorems validation_defs \<open>definitions of the request checks\<close>

section \<open>Identifiers and hashes\<close>

definition identifier_byte :: "char \<Rightarrow> bool" where
  "identifier_byte c \<longleftrightarrow> is_ascii_alphanumeric c \<or> c \<in> {CHR ''-'', CHR ''_'', CHR '':''}"

definition valid_identifier :: "string \<Rightarrow> bool" where
  "valid_identifier value \<longleftrightarrow> value \<noteq> [] \<and> length value \<le> 256 \<and> list_all identifier_byte value"

definition is_hash :: "string \<Rightarrow> bool" where
  "is_hash value \<longleftrightarrow> length value = 64 \<and> list_all is_ascii_hexdigit value"

definition semantic_hash :: "string \<Rightarrow> bool" where
  "semantic_hash value \<longleftrightarrow> length value = 64 \<and> list_all is_lower_hexdigit value"

definition valid_protocol_snapshot_id :: "string \<Rightarrow> bool" where
  "valid_protocol_snapshot_id snapshot_id \<longleftrightarrow> snapshot_id \<noteq> [] \<and> length snapshot_id \<le> 256
     \<and> list_all (\<lambda>c. \<not> is_control c) (chars snapshot_id)"

definition native_prefix :: string where "native_prefix = ''native-''"

definition valid_native_snapshot_id :: "string \<Rightarrow> bool" where
  "valid_native_snapshot_id snapshot_id \<longleftrightarrow> length snapshot_id \<le> 256
     \<and> take (length native_prefix) snapshot_id = native_prefix
     \<and> list_all (\<lambda>c. is_ascii_alphanumeric c \<or> c = CHR ''-'') snapshot_id"

section \<open>Actions\<close>

definition secondary_actions :: "string list" where
  "secondary_actions = [''AXShowMenu'', ''AXShowDefaultUI'', ''AXShowAlternateUI'', ''AXIncrement'',
     ''AXDecrement'', ''AXConfirm'', ''AXCancel'', ''AXPick'']"

definition secondary_action_allowed :: "string \<Rightarrow> bool" where
  "secondary_action_allowed name \<longleftrightarrow> name \<in> set secondary_actions"

definition max_select_text_range :: nat where "max_select_text_range = 1048576"

text \<open>
  \<open>Path\<close> on Unix: the components of a path are its non-empty pieces between slashes, without
  \<open>.\<close>; the file name is the last one unless it is \<open>..\<close>; the extension is what follows its last
  dot, if the dot is not its first byte.
\<close>

fun split_on :: "char \<Rightarrow> string \<Rightarrow> string \<Rightarrow> string list" where
  "split_on sep acc [] = [rev acc]"
| "split_on sep acc (c # s) =
     (if c = sep then rev acc # split_on sep [] s else split_on sep (c # acc) s)"

definition path_components :: "string \<Rightarrow> string list" where
  "path_components path = filter (\<lambda>p. p \<noteq> [] \<and> p \<noteq> ''.'') (split_on (CHR ''/'') [] path)"

definition is_absolute :: "string \<Rightarrow> bool" where
  "is_absolute path \<longleftrightarrow> take 1 path = ''/''"

definition file_name :: "string \<Rightarrow> string option" where
  "file_name path = (let ps = path_components path in
     if ps = [] \<or> last ps = ''..'' then None else Some (last ps))"

definition file_extension :: "string \<Rightarrow> string option" where
  "file_extension path = (case file_name path of
     None \<Rightarrow> None
   | Some name \<Rightarrow>
       (let stem_rev = dropWhile (\<lambda>c. c \<noteq> CHR ''.'') (rev name) in
        if length stem_rev \<le> 1 then None
        else Some (rev (takeWhile (\<lambda>c. c \<noteq> CHR ''.'') (rev name)))))"

definition bounded_text :: "nat \<Rightarrow> nat \<Rightarrow> string \<Rightarrow> bool" where
  "bounded_text low high s \<longleftrightarrow> low \<le> length s \<and> length s \<le> high"

definition delay_ok :: "u64 option \<Rightarrow> bool" where
  "delay_ok delay_ms = (case delay_ms of None \<Rightarrow> True | Some d \<Rightarrow> d \<le> 1000)"

fun action_valid :: "(string \<Rightarrow> bool) \<Rightarrow> action \<Rightarrow> bool" where
  "action_valid parent_is_dir Invoke = True"
| "action_valid parent_is_dir (Click _ n _) = (1 \<le> n \<and> n \<le> 3)"
| "action_valid parent_is_dir (TypeText txt _ _ delay_ms) =
     (txt \<noteq> [] \<and> length txt \<le> 16 * 1024 \<and> delay_ok delay_ms)"
| "action_valid parent_is_dir (Press key n delay_ms) =
     (key \<noteq> [] \<and> length key \<le> 64 \<and> (1 \<le> n \<and> n \<le> 100) \<and> delay_ok delay_ms)"
| "action_valid parent_is_dir (Paste txt) = (txt \<noteq> [] \<and> length txt \<le> 16 * 1024)"
| "action_valid parent_is_dir (Hotkey keys) =
     (keys \<noteq> [] \<and> length keys \<le> 8 \<and> list_all (\<lambda>key. key \<noteq> [] \<and> length key \<le> 64) keys)"
| "action_valid parent_is_dir (Scroll _ amount) = (1 \<le> amount \<and> amount \<le> 100)"
| "action_valid parent_is_dir Move = True"
| "action_valid parent_is_dir (Drag dest _) = (case dest of Coordinates _ _ _ _ _ _ \<Rightarrow> True | _ \<Rightarrow> False)"
| "action_valid parent_is_dir (SelectText start len) =
     (ucast start + ucast len \<le> (of_nat max_select_text_range :: u64))"
| "action_valid parent_is_dir (PerformSecondaryAction name) = secondary_action_allowed name"
| "action_valid parent_is_dir (SetValue value) = (length value \<le> 16 * 1024)"
| "action_valid parent_is_dir (Screenshot path) =
     (is_absolute path \<and> file_name path \<noteq> None \<and> file_extension path = Some ''png''
      \<and> parent_is_dir path)"
| "action_valid parent_is_dir (Application _ name) = (name \<noteq> [] \<and> length name \<le> 256)"
| "action_valid parent_is_dir (Window operation app title) =
     ((case app of None \<Rightarrow> False | Some value \<Rightarrow> value \<noteq> [] \<and> length value \<le> 256)
      \<and> (case title of None \<Rightarrow> True | Some value \<Rightarrow> value \<noteq> [] \<and> length value \<le> 1024)
      \<and> (operation = Focus \<or> title \<noteq> None))"
| "action_valid parent_is_dir (Open target app _) =
     (target \<noteq> [] \<and> length target \<le> 16 * 1024
      \<and> (case app of None \<Rightarrow> True | Some value \<Rightarrow> value \<noteq> [] \<and> length value \<le> 256))"
| "action_valid parent_is_dir (ClipboardWrite txt) = (length txt \<le> 1024 * 1024)"

definition validate_action :: "(string \<Rightarrow> bool) \<Rightarrow> action \<Rightarrow> protocol_error + unit" where
  "validate_action parent_is_dir action =
     ensure (action_valid parent_is_dir action) (InvalidRequest ''invalid action parameters'')"

definition validate_verification :: "verification_policy \<Rightarrow> protocol_error + unit" where
  "validate_verification verification = (case verification of
     TargetState expected \<Rightarrow> verification_loop [(expected, 0)] 0 0
   | _ \<Rightarrow> Inr ())"

section \<open>Targets\<close>

fun target_provenance_is_valid :: "target_ref \<Rightarrow> bool" where
  "target_provenance_is_valid
     (Coordinates _ _ display_id display_geometry_hash snapshot_id snapshot_content_hash) =
     (snapshot_id \<noteq> [] \<and> length snapshot_id \<le> 256 \<and> display_id \<noteq> [] \<and> length display_id \<le> 256
      \<and> length display_geometry_hash = 64 \<and> length snapshot_content_hash = 64)"
| "target_provenance_is_valid (Element target) =
     (semantic_hash (t_observation_id target) \<and> 0 < t_generation target
      \<and> semantic_hash (t_provenance_hash target) \<and> semantic_hash (t_element_id target)
      \<and> semantic_hash (t_fingerprint_hash target))"
| "target_provenance_is_valid NoTarget = True"

fun is_coordinates :: "target_ref \<Rightarrow> bool" where
  "is_coordinates (Coordinates _ _ _ _ _ _) = True"
| "is_coordinates _ = False"

fun is_element :: "target_ref \<Rightarrow> bool" where
  "is_element (Element _) = True"
| "is_element _ = False"

fun target_snapshot_id :: "target_ref \<Rightarrow> string option" where
  "target_snapshot_id (Coordinates _ _ _ _ snapshot_id _) = Some snapshot_id"
| "target_snapshot_id (Element target) = Some (t_observation_id target)"
| "target_snapshot_id NoTarget = None"

fun auxiliary :: "action \<Rightarrow> bool" where
  "auxiliary (Screenshot _) = True"
| "auxiliary (Application _ _) = True"
| "auxiliary (Window _ _ _) = True"
| "auxiliary (Open _ _ _) = True"
| "auxiliary (ClipboardWrite _) = True"
| "auxiliary _ = False"

fun coordinate_action :: "action \<Rightarrow> bool" where
  "coordinate_action (Click _ _ _) = True"
| "coordinate_action Move = True"
| "coordinate_action (Drag _ _) = True"
| "coordinate_action _ = False"

fun is_drag :: "action \<Rightarrow> bool" where
  "is_drag (Drag _ _) = True"
| "is_drag _ = False"

fun element_only_action :: "action \<Rightarrow> bool" where
  "element_only_action (SelectText _ _) = True"
| "element_only_action (PerformSecondaryAction _) = True"
| "element_only_action _ = False"

text \<open>\<open>set_value\<close> is the action, and the only one, that is verified by a value hash.\<close>

definition value_verification_ok :: "hashing \<Rightarrow> action \<Rightarrow> verification_policy \<Rightarrow> bool" where
  "value_verification_ok H action verification = (case verification of
     TargetValueHash sha256 \<Rightarrow>
       (case action of
          SetValue value \<Rightarrow> semantic_hash sha256 \<and> sha256_hex H value = sha256
        | _ \<Rightarrow> False)
   | _ \<Rightarrow> (case action of SetValue _ \<Rightarrow> False | _ \<Rightarrow> True))"

fun check_drag_destination :: "action \<Rightarrow> protocol_error + unit" where
  "check_drag_destination (Drag dest _) =
     (if \<not> target_provenance_is_valid dest
      then Inl (InvalidRequest ''invalid drag destination provenance'')
      else case dest of
        Coordinates _ _ _ _ snapshot_id _ \<Rightarrow>
          ensure (valid_protocol_snapshot_id snapshot_id)
            (InvalidRequest ''invalid drag destination snapshot ID'')
      | _ \<Rightarrow> Inl (InvalidRequest ''drag requires a fenced coordinate destination''))"
| "check_drag_destination _ = Inr ()"

section \<open>The whole request\<close>

definition check_identifier :: "string \<Rightarrow> string \<Rightarrow> protocol_error + unit" where
  "check_identifier name value =
     ensure (valid_identifier value) (InvalidRequest (''invalid '' @ name))"

definition check_signature :: "action_request \<Rightarrow> bool" where
  "check_signature request \<longleftrightarrow> 0 < rq_deadline_at_ms request
     \<and> length (sa_signature (rq_authority request)) = 128
     \<and> list_all is_ascii_hexdigit (sa_signature (rq_authority request))"

definition validate_request ::
  "hashing \<Rightarrow> (string \<Rightarrow> bool) \<Rightarrow> action_request \<Rightarrow> protocol_error + unit" where
  "validate_request H parent_is_dir request =
     (let action = rq_action request; target = rq_target request;
          verification = rq_verification request in
      all_checks [
        ensure (rq_protocol_version request = protocol_version
            \<and> rq_action_version request = protocol_version
            \<and> rq_target_version request = protocol_version
            \<and> rq_verification_version request = protocol_version
            \<and> rq_interaction_mode request \<noteq> UnknownInteraction)
          (InvalidRequest ''unsupported protocol version''),
        check_identifier ''operation_id'' (rq_operation_id request),
        check_identifier ''subject'' (rq_subject request),
        check_identifier ''session_id'' (rq_session_id request),
        ensure (target \<noteq> NoTarget \<or> auxiliary action)
          (InvalidRequest ''action requires a target''),
        ensure (\<not> auxiliary action \<or> (target = NoTarget \<and> verification = NoVerification))
          (InvalidRequest ''desktop action requires no target and no target verification''),
        validate_action parent_is_dir action,
        ensure (\<not> is_coordinates target \<or> coordinate_action action)
          (InvalidRequest ''coordinate targets support only click, move, and drag''),
        ensure (\<not> is_drag action \<or> is_coordinates target)
          (InvalidRequest ''drag requires a fenced coordinate target''),
        ensure (\<not> element_only_action action \<or> is_element target)
          (InvalidRequest ''action requires a fenced semantic element target''),
        validate_verification verification,
        ensure (value_verification_ok H action verification)
          (InvalidRequest ''invalid target value verification''),
        ensure (check_signature request)
          (InvalidRequest ''invalid deadline or authority signature''),
        ensure (target_provenance_is_valid target)
          (InvalidRequest ''invalid target provenance''),
        check_drag_destination action,
        ensure (case target_snapshot_id target of
            None \<Rightarrow> True | Some snapshot_id \<Rightarrow> valid_protocol_snapshot_id snapshot_id)
          (InvalidRequest ''invalid snapshot ID'')])"

lemmas [validation_defs] = validate_request_def validate_action_def validate_verification_def
  check_identifier_def check_signature_def Let_def

end
