(* ===== verification/Hashing.thy ===== *)
theory Hashing
  imports Validation
begin

text \<open>
  What the hashes are taken of: the \<open>Serialize\<close> implementations that the derive attributes
  of lib.rs and semantic.rs describe (\<open>snake_case\<close> names, a \<open>kind\<close> tag inside each variant's
  object), the canonical JSON text, \<open>hash_serializable\<close>, \<open>normalized_action_hash\<close> and
  \<open>canonical_authority_bytes\<close>.

  A \<open>PathBuf\<close> that is not UTF-8 has no serialization; nothing else can fail.
\<close>

definition canonical_json_bytes :: "hashing \<Rightarrow> json \<Rightarrow> string" where
  "canonical_json_bytes H v = json_text H (canonicalize_json v)"

definition hash_serializable :: "hashing \<Rightarrow> json \<Rightarrow> string" where
  "hash_serializable H v = sha256_hex H (canonical_json_bytes H v)"

section \<open>Serialization\<close>

definition jword :: "'a::len word \<Rightarrow> json" where
  "jword w = JInt (uint w)"

definition tagged :: "string \<Rightarrow> (string \<times> json) list \<Rightarrow> json" where
  "tagged kind es = JObj ((''kind'', JStr kind) # es)"

fun interaction_mode_name :: "interaction_mode \<Rightarrow> string" where
  "interaction_mode_name Interactive = ''interactive''"
| "interaction_mode_name BackgroundOnly = ''background_only''"
| "interaction_mode_name UnknownInteraction = ''unknown''"

fun safety_class_name :: "safety_class \<Rightarrow> string" where
  "safety_class_name Reversible = ''reversible''"
| "safety_class_name External = ''external''"
| "safety_class_name Destructive = ''destructive''"

fun mouse_button_name :: "mouse_button \<Rightarrow> string" where
  "mouse_button_name LeftButton = ''left''"
| "mouse_button_name RightButton = ''right''"
| "mouse_button_name MiddleButton = ''middle''"

fun direction_name :: "direction \<Rightarrow> string" where
  "direction_name Up = ''up''"
| "direction_name Down = ''down''"
| "direction_name Leftward = ''left''"
| "direction_name Rightward = ''right''"

fun application_operation_name :: "application_operation \<Rightarrow> string" where
  "application_operation_name Launch = ''launch''"
| "application_operation_name Switch = ''switch''"
| "application_operation_name Quit = ''quit''"

fun window_operation_name :: "window_operation \<Rightarrow> string" where
  "window_operation_name Focus = ''focus''"
| "window_operation_name Close = ''close''"
| "window_operation_name Minimize = ''minimize''"

definition semantic_target_ref_json :: "semantic_target_ref \<Rightarrow> json" where
  "semantic_target_ref_json t = JObj [
     (''observation_id'', JStr (t_observation_id t)),
     (''generation'', jword (t_generation t)),
     (''provenance_hash'', JStr (t_provenance_hash t)),
     (''element_id'', JStr (t_element_id t)),
     (''fingerprint_hash'', JStr (t_fingerprint_hash t))]"

fun target_ref_json :: "target_ref \<Rightarrow> json" where
  "target_ref_json (Coordinates x y display_id geometry_hash snapshot_id content_hash) =
     tagged ''coordinates'' [
       (''x'', JInt x), (''y'', JInt y),
       (''display_id'', JStr display_id),
       (''display_geometry_hash'', JStr geometry_hash),
       (''snapshot_id'', JStr snapshot_id),
       (''snapshot_content_hash'', JStr content_hash)]"
| "target_ref_json (Element target) =
     tagged ''element'' [(''target'', semantic_target_ref_json target)]"
| "target_ref_json NoTarget = tagged ''none'' []"

definition jdelay :: "u64 option \<Rightarrow> json" where
  "jdelay d = (case d of None \<Rightarrow> JNull | Some ms \<Rightarrow> jword ms)"

fun action_json :: "action \<Rightarrow> json option" where
  "action_json Invoke = Some (tagged ''invoke'' [])"
| "action_json (Click button n fallback) = Some (tagged ''click'' [
     (''button'', JStr (mouse_button_name button)), (''count'', jword n),
     (''allow_coordinate_fallback'', JBool fallback)])"
| "action_json (TypeText txt clear press_return delay_ms) = Some (tagged ''type_text'' [
     (''text'', JStr txt), (''clear'', JBool clear), (''press_return'', JBool press_return),
     (''delay_ms'', jdelay delay_ms)])"
| "action_json (Press key n delay_ms) = Some (tagged ''press'' [
     (''key'', JStr key), (''count'', jword n), (''delay_ms'', jdelay delay_ms)])"
| "action_json (Paste txt) = Some (tagged ''paste'' [(''text'', JStr txt)])"
| "action_json (Hotkey keys) = Some (tagged ''hotkey'' [(''keys'', JArr (map JStr keys))])"
| "action_json (Scroll dir amount) = Some (tagged ''scroll'' [
     (''direction'', JStr (direction_name dir)), (''amount'', jword amount)])"
| "action_json Move = Some (tagged ''move'' [])"
| "action_json (Drag dest button) = Some (tagged ''drag'' [
     (''to'', target_ref_json dest), (''button'', JStr (mouse_button_name button))])"
| "action_json (SelectText start len) = Some (tagged ''select_text'' [
     (''start'', jword start), (''length'', jword len)])"
| "action_json (PerformSecondaryAction name) =
     Some (tagged ''perform_secondary_action'' [(''name'', JStr name)])"
| "action_json (SetValue value) = Some (tagged ''set_value'' [(''value'', JStr value)])"
| "action_json (Screenshot path) =
     (if valid_utf8 path then Some (tagged ''screenshot'' [(''path'', JStr path)]) else None)"
| "action_json (Application operation name) = Some (tagged ''application'' [
     (''operation'', JStr (application_operation_name operation)), (''name'', JStr name)])"
| "action_json (Window operation app title) = Some (tagged ''window'' [
     (''operation'', JStr (window_operation_name operation)), (''app'', jopt app),
     (''title'', jopt title)])"
| "action_json (Open target app no_focus) = Some (tagged ''open'' [
     (''target'', JStr target), (''app'', jopt app), (''no_focus'', JBool no_focus)])"
| "action_json (ClipboardWrite txt) = Some (tagged ''clipboard_write'' [(''text'', JStr txt)])"

fun verification_json :: "verification_policy \<Rightarrow> json" where
  "verification_json NoVerification = tagged ''none'' []"
| "verification_json SnapshotChanged = tagged ''snapshot_changed'' []"
| "verification_json (TargetState expected) = tagged ''target_state'' [(''expected'', expected)]"
| "verification_json (TargetValueHash sha256) =
     tagged ''target_value_hash'' [(''sha256'', JStr sha256)]"

definition authority_grant_json :: "authority_grant \<Rightarrow> json" where
  "authority_grant_json g = JObj [
     (''protocol_version'', jword (g_protocol_version g)),
     (''issuer'', JStr (g_issuer g)),
     (''key_id'', JStr (g_key_id g)),
     (''operation_id'', JStr (g_operation_id g)),
     (''subject'', JStr (g_subject g)),
     (''session_id'', JStr (g_session_id g)),
     (''risk'', JStr (safety_class_name (g_risk g))),
     (''expires_at_ms'', JInt (g_expires_at_ms g)),
     (''policy_generation'', JStr (g_policy_generation g)),
     (''action_hash'', JStr (g_action_hash g))]"

definition rect_json :: "rect \<Rightarrow> json" where
  "rect_json r = JObj [(''x'', JInt (r_x r)), (''y'', JInt (r_y r)),
     (''width'', JInt (r_width r)), (''height'', JInt (r_height r))]"

definition element_fingerprint_json :: "element_fingerprint \<Rightarrow> json" where
  "element_fingerprint_json f = JObj [
     (''backend'', JStr (f_backend f)),
     (''id'', JStr (f_id f)),
     (''app'', JStr (f_app f)),
     (''process_id'', JInt (f_process_id f)),
     (''window'', JStr (f_window f)),
     (''role'', JStr (f_role f)),
     (''label'', JStr (f_label f)),
     (''bounds'', (case f_bounds f of None \<Rightarrow> JNull | Some r \<Rightarrow> rect_json r))]"

section \<open>The hashes of the protocol\<close>

definition request_json :: "action_request \<Rightarrow> json \<Rightarrow> json" where
  "request_json rq action = JArr [
     jword (rq_protocol_version rq), jword (rq_action_version rq),
     jword (rq_target_version rq), jword (rq_verification_version rq),
     JStr (rq_subject rq), JStr (rq_session_id rq), action,
     target_ref_json (rq_target rq), JStr (interaction_mode_name (rq_interaction_mode rq)),
     JInt (rq_deadline_at_ms rq), verification_json (rq_verification rq),
     JStr (safety_class_name (rq_safety rq))]"

definition normalized_action_hash :: "hashing \<Rightarrow> action_request \<Rightarrow> protocol_error + string" where
  "normalized_action_hash H rq =
     and_then (validate_verification (rq_verification rq))
       (case action_json (rq_action rq) of
          None \<Rightarrow> Inl JsonError
        | Some action \<Rightarrow> Inr (hash_serializable H (request_json rq action)))"

definition canonical_authority_bytes :: "hashing \<Rightarrow> authority_grant \<Rightarrow> string" where
  "canonical_authority_bytes H g = canonical_json_bytes H (authority_grant_json g)"

definition element_fingerprint_hash :: "hashing \<Rightarrow> element_fingerprint \<Rightarrow> string" where
  "element_fingerprint_hash H f = hash_serializable H (element_fingerprint_json f)"

section \<open>The canonical form loses nothing\<close>

lemma sort_key_strict:
  "distinct (map fst xs) \<Longrightarrow> sorted_wrt (<) (map fst (sort_key fst (xs :: (string \<times> json) list)))"
  by (simp add: strict_sorted_iff distinct_map)

lemma map_of_sort_key:
  assumes "distinct (map fst xs)"
  shows "map_of (sort_key fst (xs :: (string \<times> json) list)) = map_of xs"
  using assms by (intro map_of_inject_set [THEN iffD2]) (auto simp: distinct_map)

lemma map_of_map_values: "map_of (map (\<lambda>(k, v). (k, f v)) xs) = (\<lambda>k. map_option f (map_of xs k))"
  by (induction xs) auto

lemma jget_canonicalize:
  assumes "distinct (map fst es)"
  shows "jget (canonicalize_json (JObj es)) k = map_option canonicalize_json (map_of es k)"
proof -
  let ?es = "map (\<lambda>(k, v). (k, canonicalize_json v)) es"
  have "map fst ?es = map fst es" by (induction es) auto
  then have "distinct (map fst ?es)" by (simp only: assms)
  then show ?thesis
    by (simp only: canonicalize_json.simps jget.simps insert_all_strict [OF sort_key_strict]
        map_of_sort_key map_of_map_values)
qed

lemma canonicalize_obj_eq:
  assumes "canonicalize_json (JObj es) = canonicalize_json (JObj es')"
    and "distinct (map fst es)" and "distinct (map fst es')"
  shows "map_option canonicalize_json (map_of es k) = map_option canonicalize_json (map_of es' k)"
  using assms by (metis jget_canonicalize)

lemma canonicalize_tagged_kind:
  assumes "canonicalize_json (tagged a es) = canonicalize_json (tagged b es')"
    and "distinct (''kind'' # map fst es)" and "distinct (''kind'' # map fst es')"
  shows "a = b"
  using canonicalize_obj_eq [OF assms(1) [unfolded tagged_def], of "''kind''"] assms(2,3) by simp

lemma jword_inject [simp]: "jword a = jword b \<longleftrightarrow> a = b"
  by (simp add: jword_def word_uint_eq_iff)

lemma canonicalize_jword [simp]: "canonicalize_json (jword w) = jword w"
  by (simp add: jword_def)

lemma canonicalize_jopt [simp]: "canonicalize_json (jopt v) = jopt v"
  by (simp add: jopt_def split: option.splits)

lemma jopt_inject [simp]: "jopt a = jopt b \<longleftrightarrow> a = b"
  by (auto simp: jopt_def split: option.splits)

lemma canonicalize_jdelay [simp]: "canonicalize_json (jdelay v) = jdelay v"
  by (simp add: jdelay_def split: option.splits)

lemma jdelay_inject [simp]: "jdelay a = jdelay b \<longleftrightarrow> a = b"
proof -
  have "jword w \<noteq> JNull" for w :: u64 by (simp add: jword_def)
  moreover have "JNull \<noteq> jword w" for w :: u64 by (simp add: jword_def)
  ultimately show ?thesis by (auto simp: jdelay_def split: option.splits)
qed

lemma interaction_mode_name_inject [simp]: "interaction_mode_name a = interaction_mode_name b \<longleftrightarrow> a = b"
  by (cases a; cases b) simp_all

lemma safety_class_name_inject [simp]: "safety_class_name a = safety_class_name b \<longleftrightarrow> a = b"
  by (cases a; cases b) simp_all

lemma mouse_button_name_inject [simp]: "mouse_button_name a = mouse_button_name b \<longleftrightarrow> a = b"
  by (cases a; cases b) simp_all

lemma direction_name_inject [simp]: "direction_name a = direction_name b \<longleftrightarrow> a = b"
  by (cases a; cases b) simp_all

lemma application_operation_name_inject [simp]:
  "application_operation_name a = application_operation_name b \<longleftrightarrow> a = b"
  by (cases a; cases b) simp_all

lemma window_operation_name_inject [simp]:
  "window_operation_name a = window_operation_name b \<longleftrightarrow> a = b"
  by (cases a; cases b) simp_all

lemma canonicalize_JStr_list [simp]: "map (canonicalize_json \<circ> JStr) ks = map JStr ks"
  by (simp add: comp_def)

text \<open>Objects with the same keys in the same order have the same values.\<close>

lemma canonicalize_obj_values:
  assumes eq: "canonicalize_json (JObj es) = canonicalize_json (JObj es')"
    and keys: "map fst es = map fst es'" and dist: "distinct (map fst es)"
  shows "map (canonicalize_json \<circ> snd) es = map (canonicalize_json \<circ> snd) es'"
proof (rule nth_equalityI)
  show "length (map (canonicalize_json \<circ> snd) es) = length (map (canonicalize_json \<circ> snd) es')"
    using arg_cong [OF keys, of length] by simp
  fix i assume "i < length (map (canonicalize_json \<circ> snd) es)"
  then have i: "i < length es" "i < length es'" using arg_cong [OF keys, of length] by simp_all
  from keys have same: "fst (es ! i) = fst (es' ! i)"
    using i by (metis nth_map)
  have "map_of es (fst (es ! i)) = Some (snd (es ! i))"
    using i dist by (metis map_of_is_SomeI nth_mem prod.collapse)
  moreover have "map_of es' (fst (es ! i)) = Some (snd (es' ! i))"
    using i dist keys same by (metis map_of_is_SomeI nth_mem prod.collapse)
  ultimately show "map (canonicalize_json \<circ> snd) es ! i = map (canonicalize_json \<circ> snd) es' ! i"
    using canonicalize_obj_eq [OF eq, of "fst (es ! i)"] dist keys i by simp
qed

lemma tagged_values:
  assumes "canonicalize_json (tagged a es) = canonicalize_json (tagged b es')"
    and "map fst es = map fst es'" and "distinct (''kind'' # map fst es)"
  shows "map (canonicalize_json \<circ> snd) es = map (canonicalize_json \<circ> snd) es'"
  using canonicalize_obj_values [OF assms(1) [unfolded tagged_def]] assms(2,3) by simp

lemma semantic_target_ref_json_inject:
  assumes "canonicalize_json (semantic_target_ref_json t) = canonicalize_json (semantic_target_ref_json u)"
  shows "t = u"
  using canonicalize_obj_values [OF assms [unfolded semantic_target_ref_json_def]]
  by (intro semantic_target_ref.equality) simp_all

lemma rect_json_inject:
  "canonicalize_json (rect_json r) = canonicalize_json (rect_json s) \<Longrightarrow> r = s"
  unfolding rect_json_def by (drule canonicalize_obj_values) (simp_all add: rect.equality)

lemma authority_grant_json_inject:
  assumes "canonicalize_json (authority_grant_json g) = canonicalize_json (authority_grant_json h)"
  shows "g = h"
  using canonicalize_obj_values [OF assms [unfolded authority_grant_json_def]]
  by (intro authority_grant.equality) simp_all

lemma target_ref_json_kind:
  "canonicalize_json (target_ref_json t) = canonicalize_json (target_ref_json u) \<Longrightarrow>
    is_coordinates t = is_coordinates u \<and> is_element t = is_element u"
  by (cases t; cases u) (auto dest!: canonicalize_tagged_kind)

lemma target_ref_json_inject:
  assumes "canonicalize_json (target_ref_json t) = canonicalize_json (target_ref_json u)"
  shows "t = u"
  using target_ref_json_kind [OF assms] assms
  by (cases t; cases u) (auto dest!: tagged_values intro: semantic_target_ref_json_inject)

fun verification_kind :: "verification_policy \<Rightarrow> nat" where
  "verification_kind NoVerification = 0"
| "verification_kind SnapshotChanged = 1"
| "verification_kind (TargetState _) = 2"
| "verification_kind (TargetValueHash _) = 3"

lemma verification_json_kind:
  "canonicalize_json (verification_json p) = canonicalize_json (verification_json q) \<Longrightarrow>
    verification_kind p = verification_kind q"
  by (cases p; cases q) (auto dest!: canonicalize_tagged_kind)

lemma verification_json_inject:
  assumes "canonicalize_json (verification_json p) = canonicalize_json (verification_json q)"
  shows "case (p, q) of
      (TargetState v, TargetState w) \<Rightarrow> canonicalize_json v = canonicalize_json w
    | _ \<Rightarrow> p = q"
  using verification_json_kind [OF assms] assms
  by (cases p; cases q) (auto dest!: tagged_values)

lemma action_json_name:
  assumes "action_json a = Some j" and "action_json b = Some k"
    and "canonicalize_json j = canonicalize_json k"
  shows "action_name a = action_name b"
proof -
  have "\<exists>es. j = tagged (action_name a) es \<and> distinct (''kind'' # map fst es)"
    using assms(1) by (cases a) (auto split: if_splits)
  moreover have "\<exists>es. k = tagged (action_name b) es \<and> distinct (''kind'' # map fst es)"
    using assms(2) by (cases b) (auto split: if_splits)
  ultimately show ?thesis using assms(3) by (auto dest: canonicalize_tagged_kind)
qed

inductive same_variant :: "action \<Rightarrow> action \<Rightarrow> bool" where
  "same_variant Invoke Invoke"
| "same_variant (Click b n f) (Click b' n' f')"
| "same_variant (TypeText t c r d) (TypeText t' c' r' d')"
| "same_variant (Press k n d) (Press k' n' d')"
| "same_variant (Paste t) (Paste t')"
| "same_variant (Hotkey ks) (Hotkey ks')"
| "same_variant (Scroll d n) (Scroll d' n')"
| "same_variant Move Move"
| "same_variant (Drag t b) (Drag t' b')"
| "same_variant (SelectText s l) (SelectText s' l')"
| "same_variant (PerformSecondaryAction n) (PerformSecondaryAction n')"
| "same_variant (SetValue v) (SetValue v')"
| "same_variant (Screenshot p) (Screenshot p')"
| "same_variant (Application x n) (Application x' n')"
| "same_variant (Window x a t) (Window x' a' t')"
| "same_variant (Open t a f) (Open t' a' f')"
| "same_variant (ClipboardWrite t) (ClipboardWrite t')"

lemma action_name_variant: "action_name a = action_name b \<Longrightarrow> same_variant a b"
  by (cases a; cases b) (simp_all add: same_variant.intros)

lemma action_json_inject:
  assumes "action_json a = Some j" and "action_json b = Some k"
    and "canonicalize_json j = canonicalize_json k"
  shows "a = b"
proof -
  have inj: "map JStr xs = map JStr ys \<longleftrightarrow> xs = ys" for xs ys
    by (simp add: inj_map_eq_map inj_def)
  have "same_variant a b" using action_json_name [OF assms] by (rule action_name_variant)
  then show ?thesis
    using assms
    by (cases rule: same_variant.cases)
      (auto split: if_splits simp: inj dest!: tagged_values dest: target_ref_json_inject)
qed

section \<open>What an action hash binds\<close>

text \<open>Two requests agree on everything the hash covers (a verification state up to key order).\<close>

definition same_bound_fields :: "action_request \<Rightarrow> action_request \<Rightarrow> bool" where
  "same_bound_fields r s \<longleftrightarrow>
     rq_protocol_version r = rq_protocol_version s \<and> rq_action_version r = rq_action_version s
   \<and> rq_target_version r = rq_target_version s
   \<and> rq_verification_version r = rq_verification_version s
   \<and> rq_subject r = rq_subject s \<and> rq_session_id r = rq_session_id s
   \<and> rq_action r = rq_action s \<and> rq_target r = rq_target s
   \<and> rq_interaction_mode r = rq_interaction_mode s
   \<and> rq_deadline_at_ms r = rq_deadline_at_ms s
   \<and> (case (rq_verification r, rq_verification s) of
        (TargetState v, TargetState w) \<Rightarrow> canonicalize_json v = canonicalize_json w
      | (p, q) \<Rightarrow> p = q)
   \<and> rq_safety r = rq_safety s"

lemma request_json_inject:
  assumes "action_json (rq_action r) = Some a" and "action_json (rq_action s) = Some b"
    and "canonicalize_json (request_json r a) = canonicalize_json (request_json s b)"
  shows "same_bound_fields r s"
proof -
  from assms(3) have eqs: "canonicalize_json a = canonicalize_json b"
    "canonicalize_json (target_ref_json (rq_target r)) = canonicalize_json (target_ref_json (rq_target s))"
    "canonicalize_json (verification_json (rq_verification r))
      = canonicalize_json (verification_json (rq_verification s))"
    by (simp_all add: request_json_def)
  show ?thesis
    using assms(3) action_json_inject [OF assms(1,2) eqs(1)] target_ref_json_inject [OF eqs(2)]
      verification_json_inject [OF eqs(3)]
    by (simp add: same_bound_fields_def request_json_def split: verification_policy.splits)
qed

text \<open>
  The hash function and the JSON text are injective where it matters: no two of the values
  in \<open>V\<close> collide.
\<close>

definition collision_free :: "hashing \<Rightarrow> json set \<Rightarrow> bool" where
  "collision_free H V \<longleftrightarrow> (\<forall>v \<in> V. \<forall>w \<in> V.
     sha256_hex H (json_text H v) = sha256_hex H (json_text H w) \<longrightarrow> v = w)"

lemma hash_serializable_inject:
  assumes "collision_free H {canonicalize_json v, canonicalize_json w}"
    and "hash_serializable H v = hash_serializable H w"
  shows "canonicalize_json v = canonicalize_json w"
  using assms unfolding collision_free_def hash_serializable_def canonical_json_bytes_def by blast

end
