(* ===== verification/Ledger.thy ===== *)
theory Ledger
  imports Outcome Jsonl Hashing
begin

text \<open>
  The operation ledger (lib.rs: \<open>LedgerRecord\<close>, \<open>OperationLedger\<close>, \<open>acquire_ledger_lock\<close>,
  \<open>repair_jsonl_tail\<close>).  Its state is the bytes of its files.  Every change to a file and
  every dispatch is also appended to \<open>w_trace\<close>, the history that the crash arguments are
  about; \<open>replay\<close> reads the bytes of a file back from it.

  \<open>codec\<close> holds \<open>serde_json\<close>'s writer and reader of ledger records and its reader of JSON
  values; each file-system call is one read of the oracle \<open>io_at\<close>.
\<close>

section \<open>Records\<close>

record ledger_claim =
  lc_operation_id :: string
  lc_action_hash :: string
  lc_claimed_at_ms :: i64
  lc_action_name :: "string option"
  lc_delivery_route :: "delivery_route option"
  lc_session_isolation :: "session_isolation option"
  lc_interaction_mode :: "interaction_mode option"

datatype ledger_record = ClaimRecord ledger_claim | TerminalRecord action_ack

datatype claim_result =
    NewClaim
  | Replay action_ack
  | RecoveredUnknown "string option" "delivery_route option" "session_isolation option"
      "interaction_mode option"

record codec =
  write_record :: "ledger_record \<Rightarrow> string"
  read_record :: "string \<Rightarrow> ledger_record option"
  read_value :: "string \<Rightarrow> json option"

text \<open>What the operations below are parameterized by.\<close>

record setting =
  s_platform :: platform
  s_hashing :: hashing
  s_codec :: codec

section \<open>The world: host, files, outcome ledger, history\<close>

datatype file_id = LedgerFile | LedgerLockFile | TrajectoryFile | TrajectoryLockFile

datatype event =
    EvAppend file_id string
  | EvTruncate file_id nat
  | EvSync file_id
  | EvDispatch string string

record ('x, 'o) world =
  w_host :: "'x host"
  w_files :: "file_id \<Rightarrow> string option"
  w_outcomes :: 'o
  w_trace :: "event list"

definition on_host :: "('x host, 'a) state \<Rightarrow> (('x, 'o) world, 'a) state" where
  [run_defs]: "on_host m = State (\<lambda>w. let (a, h) = run_state m (w_host w) in (a, w\<lparr>w_host := h\<rparr>))"

definition on_outcomes :: "('o, 'a) state \<Rightarrow> (('x, 'o) world, 'a) state" where
  [run_defs]: "on_outcomes m =
     State (\<lambda>w. let (a, s) = run_state m (w_outcomes w) in (a, w\<lparr>w_outcomes := s\<rparr>))"

definition get_file :: "file_id \<Rightarrow> (('x, 'o) world, string option) state" where
  [run_defs]: "get_file f = State (\<lambda>w. (w_files w f, w))"

text \<open>Changes a file and records the event.\<close>

definition change_file ::
  "file_id \<Rightarrow> (string \<Rightarrow> string) \<Rightarrow> event list \<Rightarrow> (('x, 'o) world, unit) state" where
  [run_defs]: "change_file f g evs = State (\<lambda>w.
     ((), w\<lparr>w_files := (w_files w)(f := Some (g (case w_files w f of None \<Rightarrow> [] | Some b \<Rightarrow> b))),
            w_trace := w_trace w @ evs\<rparr>))"

section \<open>File-system calls\<close>

definition io_error :: protocol_error where "io_error = IoError OtherIo"

text \<open>A call with no effect on the files modelled here: open, chmod, read, mkdir, \<dots>.\<close>

definition io_step :: "(('x, 'o) world, protocol_error + unit) state" where
  "io_step = do {
     r \<leftarrow> on_host next_io;
     case r of IoOk \<Rightarrow> ret (Inr ()) | IoFail _ \<Rightarrow> ret (Inl io_error)
   }"

definition open_create :: "file_id \<Rightarrow> (('x, 'o) world, protocol_error + unit) state" where
  "open_create f = try_bind io_step (\<lambda>_. do { change_file f (\<lambda>b. b) []; ret (Inr ()) })"

text \<open>A failing write may have written some of its bytes.\<close>

definition write_all :: "file_id \<Rightarrow> string \<Rightarrow> (('x, 'o) world, protocol_error + unit) state" where
  "write_all f s = do {
     r \<leftarrow> on_host next_io;
     case r of
       IoOk \<Rightarrow> do { change_file f (\<lambda>b. b @ s) [EvAppend f s]; ret (Inr ()) }
     | IoFail k \<Rightarrow>
         do { change_file f (\<lambda>b. b @ take k s) [EvAppend f (take k s)]; ret (Inl io_error) }
   }"

definition sync_all :: "file_id \<Rightarrow> (('x, 'o) world, protocol_error + unit) state" where
  "sync_all f = try_bind io_step (\<lambda>_. do { change_file f (\<lambda>b. b) [EvSync f]; ret (Inr ()) })"

definition set_len :: "file_id \<Rightarrow> nat \<Rightarrow> (('x, 'o) world, protocol_error + unit) state" where
  "set_len f n = try_bind io_step
     (\<lambda>_. do { change_file f (take n) [EvTruncate f n]; ret (Inr ()) })"

text \<open>
  The body that \<open>append\<close> and \<open>trajectory\<close> share: create or open the file, restrict it, write
  one line, sync it, and sync its directory when the call created it.
\<close>

definition append_line :: "file_id \<Rightarrow> string \<Rightarrow> (('x, 'o) world, protocol_error + unit) state" where
  "append_line f line = do {
     existed \<leftarrow> get_file f;
     try_bind (open_create f) (\<lambda>_.
     try_bind io_step (\<lambda>_.
     try_bind (write_all f (line @ [newline])) (\<lambda>_.
     try_bind (sync_all f) (\<lambda>_.
     if existed = None then io_step else ret (Inr ())))))
   }"

definition repair_jsonl_tail ::
  "file_id \<Rightarrow> (string \<Rightarrow> 'r option) \<Rightarrow> string \<Rightarrow> (('x, 'o) world, protocol_error + unit) state" where
  "repair_jsonl_tail f parse message = try_bind io_step (\<lambda>_. do {
     content \<leftarrow> get_file f;
     case content of
       None \<Rightarrow> ret (Inr ())
     | Some bytes \<Rightarrow>
         try_bind io_step (\<lambda>_.
         try_bind io_step (\<lambda>_.
         case repaired parse bytes of
           None \<Rightarrow> ret (Inl (InvalidRequest message))
         | Some kept \<Rightarrow>
             if length kept = length bytes then ret (Inr ())
             else try_bind (set_len f (length kept)) (\<lambda>_. sync_all f)))
   })"

text \<open>
  A lock file is created and then locked.  \<open>contention_at\<close> says how often the lock is found
  taken; with a boundary, each such attempt ends in a sleep and a look at the boundary.
\<close>

fun lock_attempts :: "i64 \<Rightarrow> nat \<Rightarrow> (('x, 'o) world, protocol_error + unit) state" where
  "lock_attempts deadline 0 = io_step"
| "lock_attempts deadline (Suc n) = do {
     reached \<leftarrow> on_host (boundary_reached deadline);
     if reached then ret (Inl (LedgerError
       ''ledger lock wait interrupted; another attempt may have an unknown outcome''))
     else lock_attempts deadline n
   }"

definition acquire_ledger_lock ::
  "file_id \<Rightarrow> i64 option \<Rightarrow> (('x, 'o) world, protocol_error + unit) state" where
  "acquire_ledger_lock f boundary = try_bind io_step (\<lambda>_. do {
     existed \<leftarrow> get_file f;
     try_bind (open_create f) (\<lambda>_.
     try_bind io_step (\<lambda>_.
     try_bind (if existed = None then io_step else ret (Inr ())) (\<lambda>_.
     case boundary of
       None \<Rightarrow> io_step
     | Some deadline \<Rightarrow> do {
         n \<leftarrow> on_host (read_oracle contention_at);
         lock_attempts deadline n
       })))
   })"

section \<open>Acknowledgements of recovery\<close>

definition interrupted_outcome_message :: string where
  "interrupted_outcome_message = ''a durable claim existed without a terminal receipt''
     @ ''; '' @ ''the outcome of this operation was not recorded; ''
     @ ''verify the actual state before redoing anything with side effects''"

definition unwrap_or :: "'a option \<Rightarrow> 'a \<Rightarrow> 'a" where
  "unwrap_or v d = (case v of None \<Rightarrow> d | Some x \<Rightarrow> x)"

definition generate_interrupted_ack :: "ledger_claim \<Rightarrow> i64 \<Rightarrow> action_ack" where
  "generate_interrupted_ack c finished_at_ms =
     (let isolation = unwrap_or (lc_session_isolation c) UnknownIsolation;
          mode = unwrap_or (lc_interaction_mode c) UnknownInteraction in
      \<lparr>a_protocol_version = protocol_version,
       a_operation_id = lc_operation_id c,
       a_sequence = 2,
       a_action_hash = lc_action_hash c,
       a_replayed = False,
       a_state = Terminal (OutcomeUnknown
         \<lparr>rc_protocol_version = protocol_version,
          rc_action_name = unwrap_or (lc_action_name c) ''unknown'',
          rc_action_hash = lc_action_hash c,
          rc_started_at_ms = lc_claimed_at_ms c,
          rc_finished_at_ms = finished_at_ms,
          rc_backend = ''unknown'',
          rc_fallback_chain = [],
          rc_delivery_route = unwrap_or (lc_delivery_route c) UnknownRoute,
          rc_session_isolation = isolation,
          rc_interaction_mode = mode,
          rc_context_preservation = recovered_context_preservation mode isolation,
          rc_effect = UnknownEffect,
          rc_before = None,
          rc_after = None,
          rc_warnings = []\<rparr>
         interrupted_outcome_message)\<rparr>)"

fun persistence_unknown_state :: "ack_state \<Rightarrow> ack_state" where
  "persistence_unknown_state (Terminal (Succeeded receipt)) =
     Terminal (OutcomeUnknown receipt ''action completed but terminal receipt durability is unknown'')"
| "persistence_unknown_state state = state"

definition persistence_unknown_ack :: "action_ack \<Rightarrow> action_ack" where
  "persistence_unknown_ack a = a\<lparr>a_state := persistence_unknown_state (a_state a)\<rparr>"

section \<open>OperationLedger\<close>

definition execution_lock :: "i64 option \<Rightarrow> (('x, 'o) world, protocol_error + unit) state" where
  "execution_lock boundary = acquire_ledger_lock LedgerLockFile boundary"

definition trajectory_lock :: "(('x, 'o) world, protocol_error + unit) state" where
  "trajectory_lock = acquire_ledger_lock TrajectoryLockFile None"

definition repair_tail :: "setting \<Rightarrow> (('x, 'o) world, protocol_error + unit) state" where
  "repair_tail S = repair_jsonl_tail LedgerFile (read_record (s_codec S))
     ''ledger contains an invalid non-terminal record''"

fun read_failure :: "read_error \<Rightarrow> protocol_error" where
  "read_failure InvalidUtf8 = IoError InvalidData"
| "read_failure InvalidRecord = JsonError"

definition records :: "setting \<Rightarrow> (('x, 'o) world, protocol_error + ledger_record list) state" where
  "records S = try_bind io_step (\<lambda>_. do {
     content \<leftarrow> get_file LedgerFile;
     case content of
       None \<Rightarrow> ret (Inr [])
     | Some bytes \<Rightarrow> try_bind io_step (\<lambda>_. try_bind io_step (\<lambda>_.
         case read_records (read_record (s_codec S)) bytes of
           Inl e \<Rightarrow> ret (Inl (read_failure e))
         | Inr rs \<Rightarrow> ret (Inr rs)))
   })"

definition append_record :: "setting \<Rightarrow> ledger_record \<Rightarrow> (('x, 'o) world, protocol_error + unit) state" where
  "append_record S r = try_bind io_step (\<lambda>_. append_line LedgerFile (write_record (s_codec S) r))"

text \<open>The last claim and the last terminal acknowledgement of an operation.\<close>

fun scan_record :: "string \<Rightarrow> ledger_claim option \<times> action_ack option \<Rightarrow> ledger_record
    \<Rightarrow> ledger_claim option \<times> action_ack option" where
  "scan_record op (claim, terminal) (ClaimRecord c) =
     (if lc_operation_id c = op then Some c else claim, terminal)"
| "scan_record op (claim, terminal) (TerminalRecord a) =
     (claim, if a_operation_id a = op then Some a else terminal)"

definition scan_records ::
  "string \<Rightarrow> ledger_record list \<Rightarrow> ledger_claim option \<times> action_ack option" where
  "scan_records op rs = foldl (scan_record op) (None, None) rs"

definition new_claim :: "setting \<Rightarrow> action_request \<Rightarrow> string \<Rightarrow> session_isolation \<Rightarrow> i64 \<Rightarrow> ledger_claim" where
  "new_claim S request action_hash isolation now =
     \<lparr>lc_operation_id = rq_operation_id request,
      lc_action_hash = action_hash,
      lc_claimed_at_ms = now,
      lc_action_name = Some (action_name (rq_action request)),
      lc_delivery_route =
        Some (claim_delivery_route (s_platform S) (rq_action request) (rq_target request)),
      lc_session_isolation = Some isolation,
      lc_interaction_mode = Some (rq_interaction_mode request)\<rparr>"

definition claim_operation :: "setting \<Rightarrow> action_request \<Rightarrow> string \<Rightarrow> session_isolation
    \<Rightarrow> (('x, 'o) world, protocol_error + claim_result) state" where
  "claim_operation S request action_hash isolation = try_bind (records S) (\<lambda>rs.
     case scan_records (rq_operation_id request) rs of
       (Some c, terminal) \<Rightarrow>
         if lc_action_hash c \<noteq> action_hash then ret (Inl Conflict)
         else ret (Inr (case terminal of
             Some a \<Rightarrow> Replay a
           | None \<Rightarrow> RecoveredUnknown (lc_action_name c) (lc_delivery_route c)
               (lc_session_isolation c) (lc_interaction_mode c)))
     | (None, _) \<Rightarrow> do {
         now \<leftarrow> on_host now_ms;
         try_bind (append_record S (ClaimRecord (new_claim S request action_hash isolation now)))
           (\<lambda>_. ret (Inr NewClaim))
       })"

fun terminal_kind :: "ack_state \<Rightarrow> string" where
  "terminal_kind Accepted = ''accepted''"
| "terminal_kind Executing = ''executing''"
| "terminal_kind (Terminal (Succeeded _)) = ''succeeded''"
| "terminal_kind (Terminal (Rejected _ _)) = ''rejected''"
| "terminal_kind (Terminal (Failed _ _)) = ''failed''"
| "terminal_kind (Terminal CancelledBeforeEffect) = ''cancelled_before_effect''"
| "terminal_kind (Terminal ExpiredBeforeEffect) = ''expired_before_effect''"
| "terminal_kind (Terminal (OutcomeUnknown _ _)) = ''outcome_unknown''"

definition trajectory_line :: "hashing \<Rightarrow> action_ack \<Rightarrow> i64 \<Rightarrow> json" where
  "trajectory_line H a now = JObj (insert_all [
     (''protocol_version'', jword (a_protocol_version a)),
     (''operation_id_hash'', JStr (sha256_hex H (a_operation_id a))),
     (''action_hash'', JStr (a_action_hash a)),
     (''sequence'', jword (a_sequence a)),
     (''state'', JStr (terminal_kind (a_state a))),
     (''recorded_at_ms'', JInt now)])"

definition trajectory :: "setting \<Rightarrow> action_ack \<Rightarrow> (('x, 'o) world, protocol_error + unit) state" where
  "trajectory S a =
     try_bind trajectory_lock (\<lambda>_.
     try_bind io_step (\<lambda>_.
     try_bind (repair_jsonl_tail TrajectoryFile (read_value (s_codec S))
       ''trajectory contains an invalid non-terminal record'') (\<lambda>_. do {
       now \<leftarrow> on_host now_ms;
       append_line TrajectoryFile (json_text (s_hashing S) (trajectory_line (s_hashing S) a now))
     })))"

definition finish :: "setting \<Rightarrow> action_ack \<Rightarrow> (('x, 'o) world, protocol_error + unit) state" where
  "finish S a = try_bind (append_record S (TerminalRecord a)) (\<lambda>_. do {
     _ \<leftarrow> trajectory S a;
     ret (Inr ())
   })"

definition finish_after_effect :: "setting \<Rightarrow> action_ack \<Rightarrow> (('x, 'o) world, action_ack) state" where
  "finish_after_effect S a = do {
     r \<leftarrow> finish S a;
     case r of
       Inr _ \<Rightarrow> ret a
     | Inl _ \<Rightarrow> do {
         _ \<leftarrow> try_bind (repair_tail S) (\<lambda>_. finish S (persistence_unknown_ack a));
         ret (persistence_unknown_ack a)
       }
   }"

definition outcome_key_of :: "action_ack \<Rightarrow> outcome_key" where
  "outcome_key_of a = \<lparr>k_operation_id = a_operation_id a, k_action_hash = a_action_hash a\<rparr>"

fun is_interrupted :: "ack_state \<Rightarrow> bool" where
  "is_interrupted (Terminal (OutcomeUnknown _ message)) \<longleftrightarrow> message = interrupted_outcome_message"
| "is_interrupted _ \<longleftrightarrow> False"

definition reconcile_interrupted :: "setting \<Rightarrow> 'o outcome_ops \<Rightarrow> action_ack
    \<Rightarrow> (('x, 'o) world, protocol_error + action_ack) state" where
  "reconcile_interrupted S outcomes a =
     (if is_interrupted (a_state a)
      then try_bind (on_outcomes (oo_begin outcomes (outcome_key_of a))) (\<lambda>decision.
        case decision of
          Recorded terminal \<Rightarrow>
            (let a' = a\<lparr>a_state := Terminal terminal\<rparr> in
             try_bind (finish S a') (\<lambda>_. ret (Inr a')))
        | _ \<Rightarrow> ret (Inr a))
      else ret (Inr a))"

definition ledger_status :: "setting \<Rightarrow> 'o outcome_ops \<Rightarrow> string
    \<Rightarrow> (('x, 'o) world, protocol_error + action_ack option) state" where
  "ledger_status S outcomes op =
     try_bind (execution_lock None) (\<lambda>_.
     try_bind (repair_tail S) (\<lambda>_.
     try_bind (records S) (\<lambda>rs.
     case scan_records op rs of
       (_, Some a) \<Rightarrow> try_bind (reconcile_interrupted S outcomes a) (\<lambda>a'. ret (Inr (Some a')))
     | (None, None) \<Rightarrow> ret (Inr None)
     | (Some c, None) \<Rightarrow> do {
         finished \<leftarrow> on_host now_ms;
         let a = generate_interrupted_ack c finished;
         try_bind (on_outcomes (oo_begin outcomes (outcome_key_of a))) (\<lambda>decision.
           let a' = (case decision of
               Recorded terminal \<Rightarrow> a\<lparr>a_state := Terminal terminal\<rparr>
             | _ \<Rightarrow> a) in
           try_bind (finish S a') (\<lambda>_. ret (Inr (Some a'))))
       })))"

end
