(* ===== verification/History.thy ===== *)
theory History
  imports Ledger
begin

text \<open>
  Histories of the ledger.  \<open>replay\<close> gives the bytes of a file from the events so far;
  \<open>safe\<close> is the invariant of every history: no operation is dispatched twice, and one that
  was dispatched has a claim in the ledger that was synced before the dispatch and that no
  later event removes.  \<open>guarded\<close> is the invariant of the world; every operation of the ledger
  keeps it, and \<open>claim_operation\<close> establishes what a dispatch needs.
\<close>

section \<open>Replaying a history\<close>

fun apply_event :: "file_id \<Rightarrow> event \<Rightarrow> string \<Rightarrow> string" where
  "apply_event f (EvAppend g s) b = (if g = f then b @ s else b)"
| "apply_event f (EvTruncate g n) b = (if g = f then take n b else b)"
| "apply_event f (EvSync g) b = b"
| "apply_event f (EvDispatch op h) b = b"

definition replay :: "file_id \<Rightarrow> event list \<Rightarrow> string" where
  "replay f tr = fold (apply_event f) tr []"

lemma replay_Nil [simp]: "replay f [] = []"
  by (simp add: replay_def)

lemma replay_snoc [simp]: "replay f (tr @ [e]) = apply_event f e (replay f tr)"
  by (simp add: replay_def)

definition content :: "string option \<Rightarrow> string" where
  "content v = (case v of None \<Rightarrow> [] | Some b \<Rightarrow> b)"

lemma content_simps [simp]: "content None = []" "content (Some b) = b"
  by (simp_all add: content_def)

definition tracked :: "('x, 'o) world \<Rightarrow> bool" where
  "tracked w \<longleftrightarrow> (\<forall>f. replay f (w_trace w) = content (w_files w f))"

section \<open>Claims and dispatches of a history\<close>

definition claimed :: "setting \<Rightarrow> string \<Rightarrow> string \<Rightarrow> bool" where
  "claimed S op bytes \<longleftrightarrow> (\<exists>c. lc_operation_id c = op
     \<and> (write_record (s_codec S) (ClaimRecord c), True) \<in> set (raw_lines bytes))"

fun is_dispatch :: "string \<Rightarrow> event \<Rightarrow> bool" where
  "is_dispatch op (EvDispatch op' h) \<longleftrightarrow> op' = op"
| "is_dispatch op _ \<longleftrightarrow> False"

definition dispatches :: "string \<Rightarrow> event list \<Rightarrow> nat" where
  "dispatches op tr = length (filter (is_dispatch op) tr)"

text \<open>A claim that was synced at some point of the history and stood ever since.\<close>

definition durable_claim :: "setting \<Rightarrow> string \<Rightarrow> event list \<Rightarrow> bool" where
  "durable_claim S op tr \<longleftrightarrow> (\<exists>k < length tr. tr ! k = EvSync LedgerFile
     \<and> (\<forall>n. k \<le> n \<and> n \<le> length tr \<longrightarrow> claimed S op (replay LedgerFile (take n tr))))"

definition good :: "setting \<Rightarrow> event list \<Rightarrow> bool" where
  "good S tr \<longleftrightarrow> (\<forall>op. dispatches op tr \<le> 1 \<and> (0 < dispatches op tr \<longrightarrow> durable_claim S op tr))"

definition safe :: "setting \<Rightarrow> event list \<Rightarrow> bool" where
  "safe S tr \<longleftrightarrow> (\<forall>n. good S (take n tr))"

lemma dispatches_snoc: "dispatches op (tr @ [e]) = dispatches op tr + (if is_dispatch op e then 1 else 0)"
  by (simp add: dispatches_def)

lemma safe_good: "safe S tr \<Longrightarrow> good S tr"
  unfolding safe_def by (metis take_all_iff order_refl)

lemma safe_take: "safe S tr \<Longrightarrow> safe S (take n tr)"
  by (simp add: safe_def)

lemma safe_snoc: "safe S (tr @ [e]) \<longleftrightarrow> safe S tr \<and> good S (tr @ [e])"
proof
  assume s: "safe S (tr @ [e])"
  then have "good S (take n tr)" for n
    using safe_take [OF s, of "length tr"] by (simp add: safe_def)
  with s show "safe S tr \<and> good S (tr @ [e])" by (simp add: safe_def safe_good [OF s, unfolded safe_def])
next
  assume s: "safe S tr \<and> good S (tr @ [e])"
  show "safe S (tr @ [e])"
    unfolding safe_def
  proof
    fix n show "good S (take n (tr @ [e]))"
      using s by (cases "n \<le> length tr") (simp_all add: safe_def)
  qed
qed

lemma safe_Nil [simp]: "safe S []"
  by (simp add: safe_def good_def dispatches_def)

lemma durable_claim_claimed: "durable_claim S op tr \<Longrightarrow> claimed S op (replay LedgerFile tr)"
  unfolding durable_claim_def by (metis less_imp_le order_refl take_all)

lemma durable_claim_snoc:
  assumes "durable_claim S op tr" and "claimed S op (replay LedgerFile (tr @ [e]))"
  shows "durable_claim S op (tr @ [e])"
proof -
  from assms(1) obtain k where k: "k < length tr" "tr ! k = EvSync LedgerFile"
    "\<And>n. k \<le> n \<Longrightarrow> n \<le> length tr \<Longrightarrow> claimed S op (replay LedgerFile (take n tr))"
    unfolding durable_claim_def by blast
  have "claimed S op (replay LedgerFile (take n (tr @ [e])))" if "k \<le> n" "n \<le> length (tr @ [e])" for n
    using that k(3) assms(2) by (cases "n \<le> length tr") simp_all
  with k(1,2) show ?thesis unfolding durable_claim_def by (auto simp: nth_append intro: exI [of _ k])
qed

lemma durable_claim_sync:
  assumes "claimed S op (replay LedgerFile tr)"
  shows "durable_claim S op (tr @ [EvSync LedgerFile])"
  unfolding durable_claim_def
proof (intro exI conjI allI impI)
  fix n assume "length tr \<le> n \<and> n \<le> length (tr @ [EvSync LedgerFile])"
  then have "n = length tr \<or> n = Suc (length tr)" by auto
  then show "claimed S op (replay LedgerFile (take n (tr @ [EvSync LedgerFile])))"
    using assms by auto
qed simp_all

section \<open>Events that keep every claim\<close>

definition keeps_claims :: "setting \<Rightarrow> event list \<Rightarrow> event \<Rightarrow> bool" where
  "keeps_claims S tr e \<longleftrightarrow> (\<forall>op. \<not> is_dispatch op e)
     \<and> (\<forall>op. claimed S op (replay LedgerFile tr) \<longrightarrow> claimed S op (replay LedgerFile (tr @ [e])))"

lemma claimed_append: "claimed S op bytes \<Longrightarrow> claimed S op (bytes @ rest)"
  unfolding claimed_def using complete_line_kept by blast

lemma claimed_durable: "claimed S op bytes \<Longrightarrow> claimed S op (take (durable_len bytes) bytes)"
  unfolding claimed_def using complete_line_durable by blast

lemma keeps_claims_append: "keeps_claims S tr (EvAppend f s)"
  by (simp add: keeps_claims_def claimed_append)

lemma keeps_claims_sync: "keeps_claims S tr (EvSync f)"
  by (simp add: keeps_claims_def)

lemma keeps_claims_truncate:
  "f = LedgerFile \<longrightarrow> n = durable_len (replay LedgerFile tr) \<Longrightarrow> keeps_claims S tr (EvTruncate f n)"
  by (simp add: keeps_claims_def claimed_durable)

lemma good_snoc: "good S tr \<Longrightarrow> keeps_claims S tr e \<Longrightarrow> good S (tr @ [e])"
  by (simp add: good_def dispatches_snoc keeps_claims_def durable_claim_snoc durable_claim_claimed)

lemma durable_claim_event:
  "durable_claim S op tr \<Longrightarrow> keeps_claims S tr e \<Longrightarrow> durable_claim S op (tr @ [e])"
  by (rule durable_claim_snoc, assumption) (unfold keeps_claims_def, blast dest: durable_claim_claimed)

lemma not_dispatch: "keeps_claims S tr e \<Longrightarrow> \<not> is_dispatch op e"
  by (simp add: keeps_claims_def)

lemma good_dispatch:
  assumes "good S tr" and "durable_claim S op tr" and "dispatches op tr = 0"
  shows "good S (tr @ [EvDispatch op h])"
  unfolding good_def
proof
  fix op'
  have "durable_claim S op' tr \<Longrightarrow> durable_claim S op' (tr @ [EvDispatch op h])"
    by (rule durable_claim_snoc) (simp_all add: durable_claim_claimed)
  with assms show "dispatches op' (tr @ [EvDispatch op h]) \<le> 1 \<and>
      (0 < dispatches op' (tr @ [EvDispatch op h]) \<longrightarrow> durable_claim S op' (tr @ [EvDispatch op h]))"
    by (cases "op' = op") (auto simp: good_def dispatches_snoc)
qed

section \<open>The invariant of the world\<close>

text \<open>\<open>A\<close>: operations with a durable claim; \<open>B\<close>: operations not dispatched so far.\<close>

definition guarded :: "setting \<Rightarrow> string set \<Rightarrow> string set \<Rightarrow> ('x, 'o) world \<Rightarrow> bool" where
  "guarded S A B w \<longleftrightarrow> tracked w \<and> safe S (w_trace w)
     \<and> (\<forall>op \<in> A. durable_claim S op (w_trace w)) \<and> (\<forall>op \<in> B. dispatches op (w_trace w) = 0)"

text \<open>Predicates that look only at the files and the history.\<close>

definition stable :: "(('x, 'o) world \<Rightarrow> bool) \<Rightarrow> bool" where
  "stable I \<longleftrightarrow> (\<forall>w h. I (w\<lparr>w_host := h\<rparr>) = I w) \<and> (\<forall>w s. I (w\<lparr>w_outcomes := s\<rparr>) = I w)"

lemma stable_guarded [simp]: "stable (guarded S A B)"
  by (simp add: stable_def guarded_def tracked_def)

lemma stable_file [simp]: "stable (\<lambda>w. P (w_files w f))"
  by (simp add: stable_def)

lemma stable_conj [simp]: "stable I \<Longrightarrow> stable J \<Longrightarrow> stable (\<lambda>w. I w \<and> J w)"
  by (simp add: stable_def)

lemma keeps_on_host [keeps_rules]: "stable I \<Longrightarrow> keeps I (on_host m)"
  by (simp add: keeps_def on_host_def stable_def split: prod.splits)

lemma keeps_on_outcomes [keeps_rules]: "stable I \<Longrightarrow> keeps I (on_outcomes m)"
  by (simp add: keeps_def on_outcomes_def stable_def split: prod.splits)

lemma keeps_get_file [keeps_rules]: "keeps I (get_file f)"
  by (simp add: keeps_def get_file_def)

lemma keeps_io_step [keeps_rules]: "stable I \<Longrightarrow> keeps I io_step"
  unfolding io_step_def by (rule keeps_bind, erule keeps_on_host) (simp add: keeps_return split: io_result.split)

lemma keeps_case_io [keeps_rules]:
  "keeps I m \<Longrightarrow> (\<And>k. keeps I (f k)) \<Longrightarrow> keeps I (case r of IoOk \<Rightarrow> m | IoFail k \<Rightarrow> f k)"
  by (cases r) simp_all

lemma guarded_event:
  assumes "guarded S A B w" and "keeps_claims S (w_trace w) e"
    and "\<And>g. apply_event g e (content (w_files w g)) = content (files g)"
  shows "guarded S A B (w\<lparr>w_files := files, w_trace := w_trace w @ [e]\<rparr>)"
  using assms durable_claim_event [OF _ assms(2)] good_snoc [OF safe_good assms(2)] not_dispatch [OF assms(2)]
  by (auto simp: guarded_def tracked_def safe_snoc dispatches_snoc)

lemma keeps_write_all [keeps_rules]: "keeps (guarded S A B) (write_all f s)"
  unfolding write_all_def
  by (intro keeps_rules stable_guarded)
    (auto simp: keeps_def change_file_def content_def intro!: guarded_event keeps_claims_append)

lemma keeps_sync_all [keeps_rules]: "keeps (guarded S A B) (sync_all f)"
  unfolding sync_all_def
  by (intro keeps_rules stable_guarded)
    (auto simp: keeps_def change_file_def content_def intro!: guarded_event keeps_claims_sync split: option.splits)

lemma keeps_open_create [keeps_rules]: "keeps (guarded S A B) (open_create f)"
  unfolding open_create_def
  by (intro keeps_rules stable_guarded)
    (auto simp: keeps_def change_file_def guarded_def tracked_def split: option.splits)

lemma keeps_append_line [keeps_rules]: "keeps (guarded S A B) (append_line f line)"
  unfolding append_line_def by (intro keeps_rules stable_guarded)

lemma keeps_lock_attempts [keeps_rules]: "stable I \<Longrightarrow> keeps I (lock_attempts deadline n)"
  by (induction n) (simp_all, (intro keeps_rules; assumption)+)

lemma keeps_acquire_ledger_lock [keeps_rules]: "keeps (guarded S A B) (acquire_ledger_lock f boundary)"
  unfolding acquire_ledger_lock_def by (intro keeps_rules stable_guarded)

section \<open>Repairing, reading and appending\<close>

definition ends_line :: "file_id \<Rightarrow> ('x, 'o) world \<Rightarrow> bool" where
  "ends_line f w \<longleftrightarrow> content (w_files w f) = [] \<or> last (content (w_files w f)) = newline"

lemma stable_ends_line [simp]: "stable (ends_line f)"
  by (simp add: stable_def ends_line_def)

lemma hoare_get_file: "hoare I (get_file f) (\<lambda>c w. I w \<and> w_files w f = c)"
  by (auto simp: hoare_def get_file_def)

lemma hoare_io_step: "stable I \<Longrightarrow> hoare I io_step (\<lambda>_. I)"
  by (rule hoare_keeps, rule keeps_io_step)

lemma hoare_set_len:
  assumes "n = durable_len bytes"
  shows "hoare (\<lambda>w :: ('x, 'o) world. guarded S A B w \<and> w_files w f = Some bytes) (set_len f n)
    (\<lambda>r w. guarded S A B w \<and> (r = Inr () \<longrightarrow> w_files w f = Some (take n bytes)))"
  unfolding set_len_def
proof (rule hoare_try_keeps)
  show "keeps (\<lambda>w. guarded S A B w \<and> w_files w f = Some bytes) io_step"
    by (intro keeps_io_step stable_conj stable_guarded stable_file)
  show "hoare (\<lambda>w :: ('x, 'o) world. guarded S A B w \<and> w_files w f = Some bytes)
      (do { change_file f (take n) [EvTruncate f n]; ret (Inr ()) })
      (\<lambda>r w. guarded S A B w \<and> (r = Inr () \<longrightarrow> w_files w f = Some (take n bytes)))" for x
  proof (rule hoareI)
    fix w :: "('x, 'o) world" and r t
    assume w: "guarded S A B w \<and> w_files w f = Some bytes"
      and run: "run_state (do { change_file f (take n) [EvTruncate f n]; ret (Inr ()) }) w = (r, t)"
    from w have "f = LedgerFile \<longrightarrow> n = durable_len (replay LedgerFile (w_trace w))"
      using assms by (auto simp: guarded_def tracked_def)
    then have "guarded S A B (w\<lparr>w_files := (w_files w)(f := Some (take n bytes)),
        w_trace := w_trace w @ [EvTruncate f n]\<rparr>)"
      using w by (intro guarded_event keeps_claims_truncate) auto
    with w run show "guarded S A B t \<and> (r = Inr () \<longrightarrow> w_files t f = Some (take n bytes))"
      by (auto simp: change_file_def)
  qed
qed simp

lemma hoare_repair:
  "hoare (guarded S A B :: ('x, 'o) world \<Rightarrow> bool) (repair_jsonl_tail f parse message)
    (\<lambda>r w. guarded S A B w \<and> (r = Inr () \<longrightarrow> ends_line f w))" (is "hoare _ _ ?Q")
  unfolding repair_jsonl_tail_def
proof (rule hoare_try_keeps [OF keeps_io_step], simp, simp,
    rule hoare_bind [OF hoare_get_file], rule hoare_case_option)
  fix c
  show "hoare (\<lambda>w. guarded S A B w \<and> w_files w f = c) (ret (Inr ())) ?Q" if "c = None"
    using that by (auto intro!: hoare_return simp: ends_line_def)
next
  fix c bytes
  let ?P = "\<lambda>w. guarded S A B w \<and> w_files w f = c"
  assume c: "c = Some bytes"
  have last: "hoare ?P (case repaired parse bytes of None \<Rightarrow> ret (Inl (InvalidRequest message))
      | Some kept \<Rightarrow> if length kept = length bytes then ret (Inr ())
          else try_bind (set_len f (length kept)) (\<lambda>_. sync_all f)) ?Q"
  proof (rule hoare_case_option)
    fix kept assume k: "repaired parse bytes = Some kept"
    have kept: "kept = take (durable_len bytes) bytes" and ends: "kept = [] \<or> last kept = newline"
      using repaired_durable [OF k] repaired_ends_line [OF k] by simp_all
    have whole: "take (length kept) bytes = kept" by (simp add: kept min_def)
    have at_end: "w_files w f = Some kept \<Longrightarrow> ends_line f w" for w :: "('x, 'o) world"
      using ends by (simp add: ends_line_def)
    show "hoare ?P (if length kept = length bytes then ret (Inr ())
        else try_bind (set_len f (length kept)) (\<lambda>_. sync_all f)) ?Q"
    proof (rule hoare_if)
      assume "length kept = length bytes"
      then have "kept = bytes" using kept by (metis length_take min.absorb_iff2 nat_le_linear take_all)
      then show "hoare ?P (ret (Inr ())) ?Q"
        using ends c by (auto intro!: hoare_return simp: ends_line_def)
    next
      have n: "length kept = durable_len bytes" if "length kept \<noteq> length bytes"
        using that kept by (metis length_take min_def)
      assume ne: "length kept \<noteq> length bytes"
      have sync: "hoare (\<lambda>w. guarded S A B w \<and> ends_line f w) (sync_all f) ?Q"
      proof (rule hoareI, intro conjI impI)
        fix w :: "('x, 'o) world" and r t
        assume w: "guarded S A B w \<and> ends_line f w" and run: "run_state (sync_all f) w = (r, t)"
        show "guarded S A B t" using keepsD [OF keeps_sync_all _ run] w by blast
        show "ends_line f t"
          using w run by (auto simp: sync_all_def io_step_def on_host_def next_io_def change_file_def
              ends_line_def content_def split: io_result.splits option.splits)
      qed
      show "hoare ?P (try_bind (set_len f (length kept)) (\<lambda>_. sync_all f)) ?Q"
        by (intro hoare_try [OF hoare_set_len [OF n [OF ne], of S A B f, folded c]])
          (auto intro!: hoare_pre [OF sync] simp: whole at_end)
    qed
  qed (auto intro!: hoare_return)
  show "hoare ?P (try_bind io_step (\<lambda>_. try_bind io_step (\<lambda>_. case repaired parse bytes of
        None \<Rightarrow> ret (Inl (InvalidRequest message))
      | Some kept \<Rightarrow> if length kept = length bytes then ret (Inr ())
          else try_bind (set_len f (length kept)) (\<lambda>_. sync_all f)))) ?Q"
    by (intro hoare_try_keeps last keeps_io_step stable_conj stable_guarded stable_file) auto
qed

lemma keeps_repair [keeps_rules]: "keeps (guarded S A B) (repair_jsonl_tail f parse message)"
  by (rule keeps_hoare, rule hoare_repair)

definition codec_sound :: "setting \<Rightarrow> bool" where
  "codec_sound S \<longleftrightarrow> codec_ok (write_record (s_codec S)) (read_record (s_codec S))"

lemma hoare_records:
  assumes "stable I"
  shows "hoare I (records S) (\<lambda>r w. I w \<and> (\<forall>rs. r = Inr rs \<longrightarrow>
      read_records (read_record (s_codec S)) (content (w_files w LedgerFile)) = Inr rs))"
    (is "hoare _ _ ?Q")
  unfolding records_def
proof (rule hoare_try_keeps [OF keeps_io_step [OF assms]], simp,
    rule hoare_bind [OF hoare_get_file], rule hoare_case_option)
  fix c :: "string option" assume "c = None"
  then show "hoare (\<lambda>w. I w \<and> w_files w LedgerFile = c) (ret (Inr [])) ?Q"
    by (auto intro!: hoare_return simp: read_records_def buffered_lines_def)
next
  fix c :: "string option" and bytes assume "c = Some bytes"
  then show "hoare (\<lambda>w. I w \<and> w_files w LedgerFile = c)
      (try_bind io_step (\<lambda>_. try_bind io_step (\<lambda>_. case read_records (read_record (s_codec S)) bytes of
         Inl e \<Rightarrow> ret (Inl (read_failure e)) | Inr rs \<Rightarrow> ret (Inr rs)))) ?Q"
    using assms
    by (intro hoare_try_keeps keeps_io_step stable_conj stable_file)
      (auto intro!: hoare_return hoare_case_sum)
qed

lemma keeps_records [keeps_rules]: "stable I \<Longrightarrow> keeps I (records S)"
  by (rule keeps_hoare, rule hoare_records)

lemma scan_records_snoc:
  "scan_records op (rs @ [r]) = scan_record op (scan_records op rs) r"
  by (simp add: scan_records_def)

lemma scan_records_claim:
  "ClaimRecord c \<in> set rs \<Longrightarrow> lc_operation_id c = op \<Longrightarrow> \<exists>c' t. scan_records op rs = (Some c', t)"
proof (induction rs rule: rev_induct)
  case (snoc r rs)
  obtain cl t where s: "scan_records op rs = (cl, t)" by force
  show ?case using snoc by (cases r) (auto simp: scan_records_snoc s)
qed simp

lemma claimed_scanned:
  assumes "codec_sound S" and "claimed S op bytes"
    and "read_records (read_record (s_codec S)) bytes = Inr rs"
  shows "\<exists>c t. scan_records op rs = (Some c, t)"
  using assms read_records_mem [OF assms(1) [unfolded codec_sound_def] assms(3)] scan_records_claim
  unfolding claimed_def by blast

lemma hoare_write_claim:
  assumes "codec_sound S"
  shows "hoare (\<lambda>w. guarded S A B w \<and> ends_line LedgerFile w)
    (write_all LedgerFile (write_record (s_codec S) (ClaimRecord c) @ [newline]))
    (\<lambda>r w. guarded S A B w
      \<and> (r = Inr () \<longrightarrow> claimed S (lc_operation_id c) (content (w_files w LedgerFile))))"
proof (rule hoareI, intro conjI impI)
  fix w :: "('x, 'o) world" and r t
  let ?line = "write_record (s_codec S) (ClaimRecord c)"
  assume w: "guarded S A B w \<and> ends_line LedgerFile w"
    and run: "run_state (write_all LedgerFile (?line @ [newline])) w = (r, t)"
  show "guarded S A B t" using keepsD [OF keeps_write_all _ run] w by blast
  assume "r = Inr ()"
  then have "content (w_files t LedgerFile) = content (w_files w LedgerFile) @ ?line @ [newline]"
    using run by (auto simp: write_all_def on_host_def next_io_def change_file_def content_def
        split: io_result.splits option.splits)
  moreover have "newline \<notin> set ?line"
    by (rule codec_line(1) [OF assms [unfolded codec_sound_def]])
  ultimately show "claimed S (lc_operation_id c) (content (w_files t LedgerFile))"
    using w raw_lines_append [of "content (w_files w LedgerFile)" "?line @ [newline]"]
      raw_lines_line [of ?line "[]"]
    by (auto simp: claimed_def ends_line_def)
qed

lemma hoare_sync_claim:
  "hoare (\<lambda>w. guarded S A B w \<and> claimed S op (content (w_files w LedgerFile))) (sync_all LedgerFile)
    (\<lambda>r w. guarded S A B w \<and> (r = Inr () \<longrightarrow> durable_claim S op (w_trace w)))"
proof (rule hoareI, intro conjI impI)
  fix w :: "('x, 'o) world" and r t
  assume w: "guarded S A B w \<and> claimed S op (content (w_files w LedgerFile))"
    and run: "run_state (sync_all LedgerFile) w = (r, t)"
  show "guarded S A B t" using keepsD [OF keeps_sync_all _ run] w by blast
  assume "r = Inr ()"
  then have "w_trace t = w_trace w @ [EvSync LedgerFile]"
    using run by (auto simp: sync_all_def io_step_def on_host_def next_io_def change_file_def
        split: io_result.splits)
  then show "durable_claim S op (w_trace t)"
    using w by (simp add: durable_claim_sync guarded_def tracked_def)
qed

lemma keeps_open_create_ends_line:
  "keeps (\<lambda>w. guarded S A B w \<and> ends_line f w) (open_create f)"
proof (rule keepsI)
  fix w :: "('x, 'o) world" and r t
  assume w: "guarded S A B w \<and> ends_line f w" and run: "run_state (open_create f) w = (r, t)"
  have "guarded S A B t" using keepsD [OF keeps_open_create _ run] w by blast
  moreover have "ends_line f t"
    using w run by (auto simp: open_create_def io_step_def on_host_def next_io_def change_file_def
        ends_line_def content_def split: io_result.splits option.splits)
  ultimately show "guarded S A B t \<and> ends_line f t" ..
qed

lemma guarded_insert:
  "guarded S (insert op A) B w \<longleftrightarrow> guarded S A B w \<and> durable_claim S op (w_trace w)"
  "guarded S A (insert op B) w \<longleftrightarrow> guarded S A B w \<and> dispatches op (w_trace w) = 0"
  by (auto simp: guarded_def)

lemma hoare_append_claim:
  assumes "codec_sound S"
  shows "hoare (\<lambda>w. guarded S A B w \<and> ends_line LedgerFile w) (append_record S (ClaimRecord c))
    (\<lambda>r w. guarded S A B w \<and> (r = Inr () \<longrightarrow> durable_claim S (lc_operation_id c) (w_trace w)))"
proof -
  let ?P = "\<lambda>w. guarded S A B w \<and> ends_line LedgerFile w"
  let ?D = "guarded S (insert (lc_operation_id c) A) B"
  let ?Q = "\<lambda>r w. guarded S A B w \<and> (r = Inr () \<longrightarrow> durable_claim S (lc_operation_id c) (w_trace w))"
  have last: "hoare (\<lambda>w. guarded S A B w \<and> (Inr x = (Inr () :: protocol_error + unit) \<longrightarrow>
      durable_claim S (lc_operation_id c) (w_trace w))) (if e then io_step else ret (Inr ())) ?Q" for e x
    by (rule hoare_pre [of ?D], rule hoare_post [of _ _ "\<lambda>_. ?D"])
      (auto simp: guarded_insert intro!: hoare_if hoare_io_step hoare_return)
  have sync: "hoare (\<lambda>w. guarded S A B w \<and> (Inr x = (Inr () :: protocol_error + unit) \<longrightarrow>
      claimed S (lc_operation_id c) (content (w_files w LedgerFile)))) (try_bind (sync_all LedgerFile)
        (\<lambda>_. if e then io_step else ret (Inr ()))) ?Q" for e x
    by (rule hoare_pre, rule hoare_try [OF hoare_sync_claim], simp, rule last) simp
  show ?thesis
    unfolding append_record_def append_line_def
    by (rule hoare_try_keeps, rule keeps_io_step, simp, simp,
        rule hoare_bind_keeps [OF keeps_get_file],
        rule hoare_try_keeps [OF keeps_open_create_ends_line], simp,
        rule hoare_try_keeps [OF keeps_io_step], simp, simp,
        rule hoare_try [OF hoare_write_claim [OF assms]], simp, rule sync)
qed

lemma keeps_append_record [keeps_rules]: "keeps (guarded S A B) (append_record S' r)"
  unfolding append_record_def by (intro keeps_rules stable_guarded)

text \<open>
  A new claim is durable, and the operation was not dispatched before: had it been, its claim
  would have been read.
\<close>

lemma unclaimed_not_dispatched:
  "guarded S A B w \<Longrightarrow> \<not> claimed S op (content (w_files w LedgerFile)) \<Longrightarrow> dispatches op (w_trace w) = 0"
  using durable_claim_claimed [of S op "w_trace w"] safe_good [of S "w_trace w"]
  by (auto simp: guarded_def good_def tracked_def)

lemma hoare_case_scan:
  "(\<And>t. p = (None, t) \<Longrightarrow> hoare P (f t) Q) \<Longrightarrow> (\<And>c t. p = (Some c, t) \<Longrightarrow> hoare P (g c t) Q)
    \<Longrightarrow> hoare P (case p of (None, t) \<Rightarrow> f t | (Some c, t) \<Rightarrow> g c t) Q"
  by (cases p; cases "fst p") auto

lemma new_claim_operation [simp]:
  "lc_operation_id (new_claim S request h isolation now) = rq_operation_id request"
  by (simp add: new_claim_def)

lemma hoare_claim_operation:
  assumes "codec_sound S"
  shows "hoare (\<lambda>w :: ('x, 'o) world. guarded S A B w \<and> ends_line LedgerFile w)
    (claim_operation S request action_hash isolation)
    (\<lambda>r w. guarded S A B w \<and> (r = Inr NewClaim \<longrightarrow>
       guarded S {rq_operation_id request} {rq_operation_id request} w))" (is "hoare ?P _ ?Q")
  unfolding claim_operation_def
proof (rule hoare_try, rule hoare_records, simp, simp, rule hoare_case_scan)
  let ?op = "rq_operation_id request"
  fix rs t assume s: "scan_records ?op rs = (None, t)"
  have unclaimed: "?P w \<Longrightarrow> read_records (read_record (s_codec S)) (content (w_files w LedgerFile)) = Inr rs
      \<Longrightarrow> dispatches ?op (w_trace w) = 0" for w
    using claimed_scanned [OF assms, of ?op "content (w_files w LedgerFile)" rs] s
    by (intro unclaimed_not_dispatched [of S A B]) auto
  have append: "hoare (\<lambda>w. guarded S A (insert ?op B) w \<and> ends_line LedgerFile w)
      (try_bind (append_record S (ClaimRecord (new_claim S request action_hash isolation now)))
        (\<lambda>_. ret (Inr NewClaim))) ?Q" for now
    by (rule hoare_try, rule hoare_append_claim [OF assms])
      (auto simp: guarded_insert intro!: hoare_return, auto simp: guarded_def)
  show "hoare (\<lambda>w. ?P w \<and> (\<forall>rs'. Inr rs = (Inr rs' :: protocol_error + ledger_record list) \<longrightarrow>
        read_records (read_record (s_codec S)) (content (w_files w LedgerFile)) = Inr rs'))
      (do {
        now \<leftarrow> on_host now_ms;
        try_bind (append_record S (ClaimRecord (new_claim S request action_hash isolation now)))
          (\<lambda>_. ret (Inr NewClaim)) }) ?Q"
    by (rule hoare_pre, rule hoare_bind_keeps [OF keeps_on_host [OF stable_conj [OF stable_guarded stable_ends_line]] append])
      (auto simp: guarded_insert intro: unclaimed)
qed (auto intro!: hoare_if hoare_return split: option.splits)

lemma keeps_claim_operation [keeps_rules]: "keeps (guarded S A B) (claim_operation S' request h isolation)"
  unfolding claim_operation_def by (intro keeps_rules stable_guarded)

lemma keeps_trajectory [keeps_rules]: "keeps (guarded S A B) (trajectory S' a)"
  unfolding trajectory_def trajectory_lock_def by (intro keeps_rules stable_guarded)

lemma keeps_finish [keeps_rules]: "keeps (guarded S A B) (finish S' a)"
  unfolding finish_def by (intro keeps_rules stable_guarded)

lemma keeps_repair_tail [keeps_rules]: "keeps (guarded S A B) (repair_tail S')"
  unfolding repair_tail_def by (intro keeps_rules)

lemma keeps_finish_after_effect [keeps_rules]: "keeps (guarded S A B) (finish_after_effect S' a)"
  unfolding finish_after_effect_def by (intro keeps_rules)

lemma keeps_case_decision [keeps_rules]:
  "keeps I m \<Longrightarrow> (\<And>t. keeps I (f t)) \<Longrightarrow> keeps I n \<Longrightarrow>
    keeps I (case d of Dispatch \<Rightarrow> m | Recorded t \<Rightarrow> f t | Interrupted \<Rightarrow> n)"
  by (cases d) simp_all

lemma keeps_reconcile [keeps_rules]: "keeps (guarded S A B) (reconcile_interrupted S' outcomes a)"
  unfolding reconcile_interrupted_def Let_def by (intro keeps_rules stable_guarded)

lemma keeps_ledger_status [keeps_rules]: "keeps (guarded S A B) (ledger_status S' outcomes op)"
  unfolding ledger_status_def execution_lock_def Let_def by (intro keeps_rules stable_guarded)

section \<open>The wait for the lock ends\<close>

text \<open>
  Once the clock has passed the deadline for good (from read \<open>limit\<close> on), a waiter gives up
  within two more reads, however often the lock is still found taken.
\<close>

lemma lock_attempts_bounded:
  assumes "\<And>k. limit \<le> k \<Longrightarrow> deadline \<le> now_at env k"
  shows "h_env (w_host w) = env \<Longrightarrow> run_state (lock_attempts deadline n) w = (r, w') \<Longrightarrow>
    h_tick (w_host w') \<le> max limit (h_tick (w_host w)) + 2"
proof (induction n arbitrary: w)
  case 0
  then show ?case
    by (auto simp: io_step_def on_host_def next_io_def split: io_result.splits)
next
  case (Suc n)
  let ?t = "h_tick (w_host w)"
  have env: "h_env (w_host w) = env" by (rule Suc.prems(1))
  show ?case
  proof (cases "cancelled_at env ?t \<or> deadline \<le> now_at env (Suc ?t)")
    case True
    with Suc.prems(2) env show ?thesis
      by (auto simp: on_host_def boundary_reached_def is_cancelled_def now_ms_def split: if_splits)
  next
    case False
    then have early: "Suc ?t < limit" using assms [of "Suc ?t"] by (meson not_le)
    let ?w = "w\<lparr>w_host := (w_host w)\<lparr>h_tick := Suc (Suc ?t)\<rparr>\<rparr>"
    have "run_state (lock_attempts deadline n) ?w = (r, w')"
      using Suc.prems(2) env False
      by (simp add: on_host_def boundary_reached_def is_cancelled_def now_ms_def)
    from Suc.IH [OF _ this] env early show ?thesis by simp
  qed
qed

end
