(* ===== verification/Authority.thy ===== *)
theory Authority
  imports Hashing
begin

text \<open>
  Authority (lib.rs: \<open>Ed25519AuthorityVerifier\<close>, \<open>DenyAuthority\<close>).  The key type, the
  strict Ed25519 check and \<open>hex::decode\<close> belong to other crates: they are the record
  \<open>crypto\<close> of parameters.
\<close>

record verified_authority =
  va_expires_at_ms :: i64

record 'k crypto =
  hex_decode :: "string \<Rightarrow> string option"
  verify_strict :: "'k \<Rightarrow> string \<Rightarrow> string \<Rightarrow> bool"

text \<open>An authority verifier is a function of the request and its action hash.\<close>

type_synonym authority_verifier = "action_request \<Rightarrow> string \<Rightarrow> protocol_error + verified_authority"

type_synonym 'k keyring = "(string \<times> string) \<rightharpoonup> (string \<times> 'k)"

section \<open>The keyring\<close>

definition invalid_keyring :: protocol_error where
  "invalid_keyring = InvalidRequest ''invalid authority keyring''"

fun keyring_loop ::
  "(string \<times> string \<times> string \<times> 'k) list \<Rightarrow> 'k keyring \<Rightarrow> protocol_error + 'k keyring" where
  "keyring_loop [] issuers = Inr issuers"
| "keyring_loop ((issuer, key_id, generation, key) # rest) issuers =
     (if \<not> valid_identifier issuer \<or> \<not> valid_identifier key_id \<or> \<not> valid_identifier generation
         \<or> issuers (issuer, key_id) \<noteq> None
      then Inl invalid_keyring
      else keyring_loop rest (issuers((issuer, key_id) \<mapsto> (generation, key))))"

definition new_verifier ::
  "(string \<times> string \<times> string \<times> 'k) list \<Rightarrow> protocol_error + 'k keyring" where
  "new_verifier keys = keyring_loop keys Map.empty"

section \<open>Checking a grant\<close>

definition grant_matches :: "action_request \<Rightarrow> string \<Rightarrow> bool" where
  "grant_matches request action_hash \<longleftrightarrow>
     (let grant = sa_grant (rq_authority request) in
        g_protocol_version grant = protocol_version
      \<and> g_operation_id grant = rq_operation_id request
      \<and> g_subject grant = rq_subject request
      \<and> g_session_id grant = rq_session_id request
      \<and> g_risk grant = rq_safety request
      \<and> g_action_hash grant = action_hash
      \<and> 0 < g_expires_at_ms grant
      \<and> valid_identifier (g_issuer grant)
      \<and> valid_identifier (g_key_id grant)
      \<and> valid_identifier (g_policy_generation grant)
      \<and> is_hash (g_action_hash grant))"

definition verify_authority :: "hashing \<Rightarrow> 'k crypto \<Rightarrow> 'k keyring \<Rightarrow> authority_verifier" where
  "verify_authority H C issuers request action_hash =
     (let grant = sa_grant (rq_authority request) in
      if \<not> grant_matches request action_hash then Inl AuthorityDenied
      else case issuers (g_issuer grant, g_key_id grant) of
        None \<Rightarrow> Inl AuthorityDenied
      | Some (generation, key) \<Rightarrow>
          if generation \<noteq> g_policy_generation grant then Inl AuthorityDenied
          else case hex_decode C (sa_signature (rq_authority request)) of
            None \<Rightarrow> Inl AuthorityDenied
          | Some signature \<Rightarrow>
              if length signature \<noteq> 64 then Inl AuthorityDenied
              else if verify_strict C key (canonical_authority_bytes H grant) signature
              then Inr \<lparr>va_expires_at_ms = g_expires_at_ms grant\<rparr>
              else Inl AuthorityDenied)"

definition deny_authority :: authority_verifier where
  "deny_authority request action_hash = Inl AuthorityDenied"

section \<open>Properties\<close>

text \<open>What a list of keys denotes: its entries by issuer and key id.\<close>

fun key_entry :: "string \<times> string \<times> string \<times> 'k \<Rightarrow> (string \<times> string) \<times> (string \<times> 'k)" where
  "key_entry (issuer, key_id, generation, key) = ((issuer, key_id), (generation, key))"

fun key_names_valid :: "string \<times> string \<times> string \<times> 'k \<Rightarrow> bool" where
  "key_names_valid (issuer, key_id, generation, key) \<longleftrightarrow>
     valid_identifier issuer \<and> valid_identifier key_id \<and> valid_identifier generation"

lemma keyring_loop_ok:
  "keyring_loop keys issuers = Inr ring \<longleftrightarrow>
     list_all key_names_valid keys \<and> distinct (map (fst \<circ> key_entry) keys)
   \<and> list_all (\<lambda>e. issuers (fst (key_entry e)) = None) keys
   \<and> ring = issuers ++ map_of (map key_entry keys)"
proof (induction keys issuers rule: keyring_loop.induct)
  case (2 issuer key_id generation key rest issuers)
  let ?new = "issuers((issuer, key_id) \<mapsto> (generation, key))"
  show ?case
  proof (cases "valid_identifier issuer \<and> valid_identifier key_id \<and> valid_identifier generation
      \<and> issuers (issuer, key_id) = None")
    case True
    have absent: "list_all (\<lambda>e. ?new (fst (key_entry e)) = None) rest \<longleftrightarrow>
        list_all (\<lambda>e. issuers (fst (key_entry e)) = None) rest
        \<and> (issuer, key_id) \<notin> set (map (fst \<circ> key_entry) rest)"
      by (induction rest) (auto simp del: key_entry.simps)
    have fresh: "(issuer, key_id) \<notin> set (map (fst \<circ> key_entry) rest) \<Longrightarrow>
        ?new ++ map_of (map key_entry rest)
          = (issuers ++ map_of (map key_entry rest))((issuer, key_id) \<mapsto> (generation, key))"
      by (rule map_add_upd_left) (simp add: dom_map_of_conv_image_fst image_comp)
    have "keyring_loop ((issuer, key_id, generation, key) # rest) issuers = keyring_loop rest ?new"
      using True by simp
    moreover have "keyring_loop rest ?new = Inr ring \<longleftrightarrow>
        list_all key_names_valid rest \<and> distinct (map (fst \<circ> key_entry) rest)
      \<and> list_all (\<lambda>e. ?new (fst (key_entry e)) = None) rest
      \<and> ring = ?new ++ map_of (map key_entry rest)"
      using True by (intro "2.IH") simp
    ultimately show ?thesis
      unfolding absent using True fresh by (auto simp: comp_def simp del: fun_upd_apply)
  qed (auto simp: invalid_keyring_def)
qed auto

lemma new_verifier_ok:
  "new_verifier keys = Inr ring \<longleftrightarrow>
     list_all key_names_valid keys \<and> distinct (map (fst \<circ> key_entry) keys)
   \<and> ring = map_of (map key_entry keys)"
  by (auto simp: new_verifier_def keyring_loop_ok list_all_iff)

text \<open>A grant is accepted exactly when it names this request and a listed key signed it.\<close>

lemma verify_authority_ok:
  "verify_authority H C issuers request action_hash = Inr granted \<longleftrightarrow>
     grant_matches request action_hash
   \<and> granted = \<lparr>va_expires_at_ms = g_expires_at_ms (sa_grant (rq_authority request))\<rparr>
   \<and> (\<exists>key signature.
        issuers (g_issuer (sa_grant (rq_authority request)), g_key_id (sa_grant (rq_authority request)))
          = Some (g_policy_generation (sa_grant (rq_authority request)), key)
      \<and> hex_decode C (sa_signature (rq_authority request)) = Some signature
      \<and> length signature = 64
      \<and> verify_strict C key (canonical_authority_bytes H (sa_grant (rq_authority request))) signature)"
  by (auto simp: verify_authority_def Let_def split: option.splits if_splits)

lemma verify_authority_error:
  "verify_authority H C issuers request action_hash = Inl e \<Longrightarrow> e = AuthorityDenied"
  by (auto simp: verify_authority_def Let_def split: option.splits if_splits)

end
