(* ===== verification/Engine.thy ===== *)
theory Engine
  imports History Authority
begin

text \<open>
  The engine (lib.rs: \<open>Executor\<close>, \<open>Engine::execute\<close>, \<open>execute_batch\<close>, \<open>status\<close>, \<open>verify\<close>,
  \<open>strict_action_capability\<close>, \<open>background_capability_is_authorized\<close>, \<open>protocol_failure\<close>).
  The executor, the authority verifier and the outcome ledger are parameters, as they are
  trait objects of the code.  \<open>execute\<close> is split where the code has its early returns; each
  stage calls the next.
\<close>

section \<open>The executor\<close>

record 'x executor =
  x_session_isolation :: "('x host, session_isolation) state"
  x_capabilities :: "('x host, protocol_error + capabilities) state"
  x_context_hash :: "i64 \<Rightarrow> ('x host, protocol_error + string) state"
  x_observe :: "target_ref \<Rightarrow> i64 \<Rightarrow> ('x host, protocol_error + observation) state"
  x_resolve :: "target_ref \<Rightarrow> i64 \<Rightarrow> ('x host, protocol_error + resolved_target) state"
  x_dispatch :: "action \<Rightarrow> resolved_target \<Rightarrow> verification_policy \<Rightarrow> i64
    \<Rightarrow> ('x host, dispatch_error + dispatch_receipt) state"

text \<open>The trait's provided methods: a call between two looks at the boundary.\<close>

definition with_boundary ::
  "('x host, protocol_error + 'a) state \<Rightarrow> i64 \<Rightarrow> ('x host, protocol_error + 'a) state" where
  "with_boundary m deadline = try_bind (check_protocol_boundary deadline) (\<lambda>_. do {
     result \<leftarrow> m;
     try_bind (check_protocol_boundary deadline) (\<lambda>_. ret result)
   })"

definition no_shared_context :: "('x host, protocol_error + string) state" where
  "no_shared_context = ret (Inl (ExecutorError ''shared desktop context is unavailable''))"

record ('x, 'o) engine =
  en_setting :: setting
  en_executor :: "'x executor"
  en_authority :: authority_verifier
  en_outcomes :: "'o outcome_ops"
  en_parent_is_dir :: "string \<Rightarrow> bool"

section \<open>Capabilities\<close>

definition route_is_valid :: "action_capability \<Rightarrow> bool" where
  "route_is_valid c \<longleftrightarrow>
     (if ac_action c \<in> {''invoke'', ''set_value'', ''select_text'', ''perform_secondary_action''}
      then ac_delivery_route c = TargetAddressed
      else if ac_action c = ''application''
      then ac_delivery_route c = Pointer \<and> ac_background_support c = Unavailable
      else if ac_action c \<in> {''click'', ''drag'', ''type_text'', ''press'', ''paste'', ''hotkey'', ''move''}
      then ac_delivery_route c \<in> {Pointer, PerProcessEvent}
      else if ac_action c = ''scroll''
      then ac_delivery_route c \<in> {Pointer, TargetAddressed, PerProcessEvent}
      else False)"

fun capability_facts :: "action_capability list \<Rightarrow> (string \<times> action_capability) list
    \<Rightarrow> (string \<times> action_capability) list option" where
  "capability_facts [] facts = Some facts"
| "capability_facts (c # cs) facts =
     (if \<not> route_is_valid c \<or> ac_action c \<in> set (map fst facts) then None
      else capability_facts cs ((ac_action c, c) # facts))"

definition strict_action_capability :: "capabilities \<Rightarrow> action \<Rightarrow> action_capability option" where
  "strict_action_capability cs action =
     (if \<not> distinct (c_supported_actions cs) then None
      else case capability_facts (c_action_capabilities cs) [] of
        None \<Rightarrow> None
      | Some facts \<Rightarrow>
          if length (c_supported_actions cs) \<noteq> length facts
             \<or> \<not> set (c_supported_actions cs) \<subseteq> set (map fst facts) then None
          else if action_name action \<in> set (c_supported_actions cs)
          then map_of facts (action_name action) else None)"

definition background_capability_is_authorized ::
  "action_capability \<Rightarrow> session_isolation \<Rightarrow> bool" where
  "background_capability_is_authorized c isolation = (case isolation of
       SharedDesktop \<Rightarrow> ac_delivery_route c = TargetAddressed \<and> ac_background_support c = Guarded
     | HostIsolated \<Rightarrow> ac_background_support c \<in> {Guarded, HostIsolatedOnly}
     | UnknownIsolation \<Rightarrow> False)"

section \<open>Failures\<close>

fun protocol_failure :: "protocol_error \<Rightarrow> terminal" where
  "protocol_failure ObservationCancelled = CancelledBeforeEffect"
| "protocol_failure ObservationExpired = ExpiredBeforeEffect"
| "protocol_failure (StaleTarget _) = Rejected StaleTargetCode ''stale target''"
| "protocol_failure (TargetNotFound _) = Rejected TargetNotFoundCode ''target not found''"
| "protocol_failure (InvalidRequest _) = Rejected InvalidRequestCode ''invalid request''"
| "protocol_failure AuthorityDenied = Failed DispatchFailed ''authority denied''"
| "protocol_failure _ = Failed DispatchFailed ''executor failed''"

fun dispatch_message :: "effect_knowledge \<Rightarrow> string" where
  "dispatch_message EffectUnknown = ''the action outcome is unknown''"
| "dispatch_message NoEffect = ''the action was not dispatched''"
| "dispatch_message CancelledBefore = ''the action was cancelled before dispatch''"
| "dispatch_message ExpiredBefore = ''the action expired before dispatch''"

section \<open>Verification of an effect\<close>

definition same_target :: "observation \<Rightarrow> observation \<Rightarrow> string option \<Rightarrow> bool" where
  "same_target before after expected \<longleftrightarrow>
     e_target_fingerprint_hash (o_evidence before) \<noteq> None
   \<and> e_target_fingerprint_hash (o_evidence before) = e_target_fingerprint_hash (o_evidence after)
   \<and> e_target_fingerprint_hash (o_evidence before) = expected
   \<and> e_display_geometry_hash (o_evidence before) = e_display_geometry_hash (o_evidence after)"

fun verify :: "verification_policy \<Rightarrow> observation \<Rightarrow> observation option \<Rightarrow> string option
    \<Rightarrow> effect \<times> string list" where
  "verify NoVerification before _ expected_hash =
     (ExecutedUnverified, [''post-action verification was not requested''])"
| "verify _ before None expected_hash = (ExecutedUnverified, [''post-action observation failed''])"
| "verify SnapshotChanged before (Some after) expected_hash =
     (if e_observation_hash (o_evidence before) \<noteq> e_observation_hash (o_evidence after)
      then (ExecutedUnverified,
        [''post-action observation changed but does not verify the requested effect''])
      else (ExecutedUnverified, [''post-action observation did not change'']))"
| "verify (TargetValueHash sha256) before (Some after) expected_hash =
     (if get_str (o_state after) ''value_hash'' = Some sha256 \<and> same_target before after expected_hash
      then (Verified, [])
      else (ExecutedUnverified, [''target value hash did not match the expected value'']))"
| "verify (TargetState expected) before (Some after) expected_hash =
     (if o_state after = expected \<and> same_target before after expected_hash
      then (Verified, [])
      else (ExecutedUnverified, [''target state did not match the expected value'']))"

section \<open>Terminal acknowledgements\<close>

definition outcome_key :: "action_request \<Rightarrow> string \<Rightarrow> outcome_key" where
  "outcome_key request action_hash =
     \<lparr>k_operation_id = rq_operation_id request, k_action_hash = action_hash\<rparr>"

definition record_outcome :: "('x, 'o) engine \<Rightarrow> outcome_key \<Rightarrow> action_ack
    \<Rightarrow> (('x, 'o) world, protocol_error + unit) state" where
  "record_outcome E key a = (case a_state a of
       Terminal terminal \<Rightarrow> on_outcomes (oo_record (en_outcomes E) key terminal)
     | _ \<Rightarrow> ret (Inr ()))"

definition accepted_ack :: "action_request \<Rightarrow> string \<Rightarrow> action_ack" where
  "accepted_ack request action_hash = ack request action_hash 0 Accepted False"

definition executing_ack :: "action_request \<Rightarrow> string \<Rightarrow> action_ack" where
  "executing_ack request action_hash = ack request action_hash 1 Executing False"

definition finish_early :: "('x, 'o) engine \<Rightarrow> action_request \<Rightarrow> string \<Rightarrow> terminal
    \<Rightarrow> (('x, 'o) world, protocol_error + execute_report) state" where
  "finish_early E request action_hash terminal =
     (let a = terminal_ack request action_hash terminal False in
      try_bind (record_outcome E (outcome_key request action_hash) a) (\<lambda>_.
      try_bind (finish (en_setting E) a) (\<lambda>_.
      ret (Inr [accepted_ack request action_hash, a]))))"

text \<open>The two checks that end a request at its boundary.\<close>

definition unless_boundary :: "('x, 'o) engine \<Rightarrow> action_request \<Rightarrow> string \<Rightarrow> i64
    \<Rightarrow> (('x, 'o) world, protocol_error + execute_report) state
    \<Rightarrow> (('x, 'o) world, protocol_error + execute_report) state" where
  "unless_boundary E request action_hash deadline continue = do {
     cancelled \<leftarrow> on_host is_cancelled;
     if cancelled then finish_early E request action_hash CancelledBeforeEffect
     else do {
       now \<leftarrow> on_host now_ms;
       if deadline \<le> now then finish_early E request action_hash ExpiredBeforeEffect
       else continue
     }
   }"

definition context_preservation :: "('x, 'o) engine \<Rightarrow> interaction_mode \<Rightarrow> session_isolation
    \<Rightarrow> string option \<Rightarrow> i64 \<Rightarrow> (('x, 'o) world, context_preservation) state" where
  "context_preservation E mode isolation before deadline =
     (if mode \<noteq> BackgroundOnly then ret NotApplicable
      else if isolation = HostIsolated then ret ContextHostIsolated
      else case before of
        None \<Rightarrow> ret ContextUnavailable
      | Some context \<Rightarrow> do {
          r \<leftarrow> on_host (x_context_hash (en_executor E) deadline);
          ret (case r of
              Inr after \<Rightarrow> if after = context then UnchangedAtBoundaries else ContextChanged
            | Inl _ \<Rightarrow> ContextUnavailable)
        })"

section \<open>After the dispatch\<close>

definition unknown_receipt :: "('x, 'o) engine \<Rightarrow> action_request \<Rightarrow> string \<Rightarrow> session_isolation
    \<Rightarrow> observation \<Rightarrow> string option \<Rightarrow> i64 \<Rightarrow> i64 \<Rightarrow> string \<Rightarrow> string list
    \<Rightarrow> (('x, 'o) world, receipt) state" where
  "unknown_receipt E request action_hash isolation before context deadline started backend chain = do {
     r \<leftarrow> on_host (empty_receipt (s_platform (en_setting E)) request action_hash UnknownEffect isolation);
     finished \<leftarrow> on_host now_ms;
     preservation \<leftarrow> context_preservation E (rq_interaction_mode request) isolation context deadline;
     ret (r\<lparr>rc_started_at_ms := started, rc_finished_at_ms := finished,
            rc_before := Some (o_evidence before), rc_backend := backend,
            rc_fallback_chain := chain, rc_context_preservation := preservation\<rparr>)
   }"

definition boundary_message :: string where
  "boundary_message = ''action completed at the cancellation or deadline boundary''"

definition expected_fingerprint :: "target_ref \<Rightarrow> string option" where
  "expected_fingerprint target = (case target of
       Element t \<Rightarrow> Some (t_fingerprint_hash t) | _ \<Rightarrow> None)"

definition context_lost :: "context_preservation \<Rightarrow> bool" where
  "context_lost p \<longleftrightarrow> p = ContextChanged \<or> p = ContextUnavailable"

definition at_boundary :: "protocol_error + 'a \<Rightarrow> bool" where
  "at_boundary r \<longleftrightarrow> r = Inl ObservationCancelled \<or> r = Inl ObservationExpired"

text \<open>What a receipt says, and the terminal it leads to.\<close>

definition judge :: "verification_policy \<Rightarrow> bool \<Rightarrow> receipt \<Rightarrow> terminal" where
  "judge policy boundary r =
     (if rc_effect r \<noteq> UnknownEffect \<and> (policy = NoVerification \<or> rc_effect r = Verified)
      then Succeeded r
      else OutcomeUnknown r
        (if boundary then boundary_message
         else if context_lost (rc_context_preservation r)
         then ''action result or shared desktop context preservation could not be proven''
         else ''action dispatched but requested verification failed''))"

definition verified_terminal :: "('x, 'o) engine \<Rightarrow> action_request \<Rightarrow> string \<Rightarrow> session_isolation
    \<Rightarrow> delivery_route \<Rightarrow> observation \<Rightarrow> string option \<Rightarrow> i64 \<Rightarrow> i64 \<Rightarrow> dispatch_receipt
    \<Rightarrow> (('x, 'o) world, terminal) state" where
  "verified_terminal E request action_hash isolation route before context deadline started d = do {
     preservation \<leftarrow> context_preservation E (rq_interaction_mode request) isolation context deadline;
     after \<leftarrow> on_host (x_observe (en_executor E) (rq_target request) deadline);
     let seen = (case after of Inr obs \<Rightarrow> Some obs | Inl _ \<Rightarrow> None);
     let (eff, warnings) = verify (rq_verification request) before seen
                             (expected_fingerprint (rq_target request));
     reached \<leftarrow> on_host (boundary_reached deadline);
     let boundary = (reached \<or> at_boundary after);
     let warnings = (if boundary then warnings @ [boundary_message] else warnings);
     let lost = context_lost preservation;
     let warnings = (if lost then warnings @ [''shared desktop context preservation is unknown'']
                     else warnings);
     finished \<leftarrow> on_host now_ms;
     ret (judge (rq_verification request) boundary
       \<lparr>rc_protocol_version = protocol_version,
        rc_action_name = action_name (rq_action request),
        rc_action_hash = action_hash,
        rc_started_at_ms = started,
        rc_finished_at_ms = finished,
        rc_backend = dr_backend d,
        rc_fallback_chain = dr_fallback_chain d,
        rc_delivery_route = route,
        rc_session_isolation = isolation,
        rc_interaction_mode = rq_interaction_mode request,
        rc_context_preservation = preservation,
        rc_effect = (if boundary \<or> lost then UnknownEffect else eff),
        rc_before = Some (o_evidence before),
        rc_after = map_option o_evidence seen,
        rc_warnings = warnings\<rparr>)
   }"

text \<open>The terminal, and whether an effect may have occurred.\<close>

definition dispatched_terminal :: "('x, 'o) engine \<Rightarrow> action_request \<Rightarrow> string \<Rightarrow> session_isolation
    \<Rightarrow> delivery_route \<Rightarrow> observation \<Rightarrow> string option \<Rightarrow> i64 \<Rightarrow> i64
    \<Rightarrow> dispatch_error + dispatch_receipt \<Rightarrow> (('x, 'o) world, terminal \<times> bool) state" where
  "dispatched_terminal E request action_hash isolation route before context deadline started result =
     (case result of
        Inr d \<Rightarrow> do {
          reached \<leftarrow> on_host (boundary_reached deadline);
          if reached then do {
            r \<leftarrow> unknown_receipt E request action_hash isolation before context deadline started
                   (dr_backend d) (dr_fallback_chain d);
            ret (OutcomeUnknown r boundary_message, True)
          } else do {
            terminal \<leftarrow> verified_terminal E request action_hash isolation route before context
                          deadline started d;
            ret (terminal, True)
          }
        }
      | Inl e \<Rightarrow> (case de_effect e of
          EffectUnknown \<Rightarrow> do {
            r \<leftarrow> unknown_receipt E request action_hash isolation before context deadline started
                   ''unknown'' [];
            ret (OutcomeUnknown r (dispatch_message (de_effect e)), True)
          }
        | CancelledBefore \<Rightarrow> ret (CancelledBeforeEffect, False)
        | ExpiredBefore \<Rightarrow> ret (ExpiredBeforeEffect, False)
        | NoEffect \<Rightarrow> do {
            cancelled \<leftarrow> on_host is_cancelled;
            if cancelled then ret (CancelledBeforeEffect, False)
            else do {
              now \<leftarrow> on_host now_ms;
              if deadline \<le> now then ret (ExpiredBeforeEffect, False)
              else ret (Rejected (de_code e) (dispatch_message (de_effect e)), False)
            }
          }))"

definition conclude :: "('x, 'o) engine \<Rightarrow> action_request \<Rightarrow> string \<Rightarrow> terminal \<times> bool
    \<Rightarrow> (('x, 'o) world, protocol_error + execute_report) state" where
  "conclude E request action_hash result =
     (let a = terminal_ack request action_hash (fst result) False;
          key = outcome_key request action_hash;
          earlier = [accepted_ack request action_hash, executing_ack request action_hash] in
      if snd result then do {
        recorded \<leftarrow> record_outcome E key a;
        a' \<leftarrow> finish_after_effect (en_setting E)
               (case recorded of Inr _ \<Rightarrow> a | Inl _ \<Rightarrow> persistence_unknown_ack a);
        ret (Inr (earlier @ [a']))
      } else
        try_bind (record_outcome E key a) (\<lambda>_.
        try_bind (finish (en_setting E) a) (\<lambda>_.
        ret (Inr (earlier @ [a])))))"

section \<open>The stages of execute\<close>

definition record_dispatch :: "string \<Rightarrow> string \<Rightarrow> (('x, 'o) world, unit) state" where
  "record_dispatch op action_hash =
     State (\<lambda>w. ((), w\<lparr>w_trace := w_trace w @ [EvDispatch op action_hash]\<rparr>))"

definition execute_dispatch :: "('x, 'o) engine \<Rightarrow> action_request \<Rightarrow> string \<Rightarrow> session_isolation
    \<Rightarrow> delivery_route \<Rightarrow> observation \<Rightarrow> resolved_target \<Rightarrow> string option \<Rightarrow> i64
    \<Rightarrow> (('x, 'o) world, protocol_error + execute_report) state" where
  "execute_dispatch E request action_hash isolation route before resolved context deadline = do {
     started \<leftarrow> on_host now_ms;
     record_dispatch (rq_operation_id request) action_hash;
     result \<leftarrow> on_host (x_dispatch (en_executor E) (rq_action request) resolved
                 (rq_verification request) deadline);
     outcome \<leftarrow> dispatched_terminal E request action_hash isolation route before context deadline
                 started result;
     conclude E request action_hash outcome
   }"

definition execute_context :: "('x, 'o) engine \<Rightarrow> action_request \<Rightarrow> string \<Rightarrow> session_isolation
    \<Rightarrow> delivery_route \<Rightarrow> observation \<Rightarrow> resolved_target \<Rightarrow> i64
    \<Rightarrow> (('x, 'o) world, protocol_error + execute_report) state" where
  "execute_context E request action_hash isolation route before resolved deadline =
     (if rq_interaction_mode request = BackgroundOnly \<and> isolation = SharedDesktop then do {
        r \<leftarrow> on_host (x_context_hash (en_executor E) deadline);
        case r of
          Inr context \<Rightarrow> execute_dispatch E request action_hash isolation route before resolved
                          (Some context) deadline
        | Inl e \<Rightarrow> finish_early E request action_hash
            (if e = ObservationCancelled then CancelledBeforeEffect
             else if e = ObservationExpired then ExpiredBeforeEffect
             else Rejected Unsupported ''shared desktop context cannot be guarded'')
      } else execute_dispatch E request action_hash isolation route before resolved None deadline)"

definition execute_observed :: "('x, 'o) engine \<Rightarrow> action_request \<Rightarrow> string \<Rightarrow> session_isolation
    \<Rightarrow> delivery_route \<Rightarrow> i64 \<Rightarrow> (('x, 'o) world, protocol_error + execute_report) state" where
  "execute_observed E request action_hash isolation route deadline = do {
     observed \<leftarrow> on_host (x_observe (en_executor E) (rq_target request) deadline);
     case observed of
       Inl e \<Rightarrow> finish_early E request action_hash (protocol_failure e)
     | Inr before \<Rightarrow> do {
         found \<leftarrow> on_host (x_resolve (en_executor E) (rq_target request) deadline);
         case found of
           Inl e \<Rightarrow> finish_early E request action_hash (protocol_failure e)
         | Inr resolved \<Rightarrow> do {
             _ \<leftarrow> trajectory (en_setting E) (executing_ack request action_hash);
             unless_boundary E request action_hash deadline
               (execute_context E request action_hash isolation route before resolved deadline)
           }
       }
   }"

definition execute_capable :: "('x, 'o) engine \<Rightarrow> action_request \<Rightarrow> string \<Rightarrow> session_isolation
    \<Rightarrow> i64 \<Rightarrow> protocol_error + capabilities
    \<Rightarrow> (('x, 'o) world, protocol_error + execute_report) state" where
  "execute_capable E request action_hash isolation deadline reported = (case reported of
       Inl e \<Rightarrow> finish_early E request action_hash (protocol_failure e)
     | Inr cs \<Rightarrow> (case strict_action_capability cs (rq_action request) of
         None \<Rightarrow> finish_early E request action_hash (Rejected Unsupported
           ''runtime action capability facts are missing or inconsistent'')
       | Some c \<Rightarrow>
           if rq_interaction_mode request = BackgroundOnly
              \<and> \<not> background_capability_is_authorized c isolation
           then finish_early E request action_hash (Rejected Unsupported
             ''background action is unavailable for this delivery route and session isolation'')
           else execute_observed E request action_hash isolation (ac_delivery_route c) deadline))"

definition execute_granted :: "('x, 'o) engine \<Rightarrow> action_request \<Rightarrow> string \<Rightarrow> session_isolation
    \<Rightarrow> i64 \<Rightarrow> (('x, 'o) world, protocol_error + execute_report) state" where
  "execute_granted E request action_hash isolation deadline = do {
     _ \<leftarrow> trajectory (en_setting E) (accepted_ack request action_hash);
     unless_boundary E request action_hash deadline
       (if isolation = UnknownIsolation
        then finish_early E request action_hash
               (Rejected Unsupported ''runtime session isolation is unknown'')
        else do {
          reported \<leftarrow> on_host (x_capabilities (en_executor E));
          unless_boundary E request action_hash deadline
            (execute_capable E request action_hash isolation deadline reported)
        })
   }"

definition execute_new :: "('x, 'o) engine \<Rightarrow> action_request \<Rightarrow> string \<Rightarrow> session_isolation
    \<Rightarrow> i64 \<Rightarrow> (('x, 'o) world, protocol_error + execute_report) state" where
  "execute_new E request action_hash isolation deadline =
     try_bind (on_outcomes (oo_begin (en_outcomes E) (outcome_key request action_hash)))
     (\<lambda>decision. case decision of
        Dispatch \<Rightarrow> execute_granted E request action_hash isolation deadline
      | _ \<Rightarrow> do {
          terminal \<leftarrow> (case decision of
              Recorded terminal \<Rightarrow> ret terminal
            | _ \<Rightarrow> do {
                r \<leftarrow> on_host (empty_receipt (s_platform (en_setting E)) request action_hash
                       UnknownEffect isolation);
                ret (OutcomeUnknown r interrupted_outcome_message)
              });
          let a = terminal_ack request action_hash terminal False;
          try_bind (finish (en_setting E) a) (\<lambda>_.
          ret (Inr [accepted_ack request action_hash, a]))
        })"

definition execute_replay :: "('x, 'o) engine \<Rightarrow> action_ack
    \<Rightarrow> (('x, 'o) world, protocol_error + execute_report) state" where
  "execute_replay E a = try_bind (reconcile_interrupted (en_setting E) (en_outcomes E) a)
     (\<lambda>a'. ret (Inr [a'\<lparr>a_replayed := True\<rparr>]))"

definition execute_recovered :: "('x, 'o) engine \<Rightarrow> action_request \<Rightarrow> string \<Rightarrow> string option
    \<Rightarrow> delivery_route option \<Rightarrow> session_isolation option \<Rightarrow> interaction_mode option
    \<Rightarrow> (('x, 'o) world, protocol_error + execute_report) state" where
  "execute_recovered E request action_hash name route isolation mode = do {
     r \<leftarrow> on_host (empty_receipt (s_platform (en_setting E)) request action_hash UnknownEffect
            (unwrap_or isolation UnknownIsolation));
     let r = r\<lparr>rc_action_name := unwrap_or name ''unknown'',
               rc_delivery_route := unwrap_or route UnknownRoute,
               rc_interaction_mode := unwrap_or mode UnknownInteraction\<rparr>;
     try_bind (on_outcomes (oo_begin (en_outcomes E) (outcome_key request action_hash)))
     (\<lambda>decision.
        let terminal = (case decision of
                Recorded terminal \<Rightarrow> terminal
              | _ \<Rightarrow> OutcomeUnknown r interrupted_outcome_message);
            a = terminal_ack request action_hash terminal False in
        try_bind (finish (en_setting E) a) (\<lambda>_. ret (Inr [a])))
   }"

definition execute :: "('x, 'o) engine \<Rightarrow> action_request
    \<Rightarrow> (('x, 'o) world, protocol_error + execute_report) state" where
  "execute E request = (case validate_request (s_hashing (en_setting E)) (en_parent_is_dir E) request of
       Inl e \<Rightarrow> ret (Inl e)
     | Inr _ \<Rightarrow> (case normalized_action_hash (s_hashing (en_setting E)) request of
         Inl e \<Rightarrow> ret (Inl e)
       | Inr action_hash \<Rightarrow> (case en_authority E request action_hash of
           Inl e \<Rightarrow> ret (Inl e)
         | Inr authority \<Rightarrow> do {
             let deadline = min (rq_deadline_at_ms request) (va_expires_at_ms authority);
             isolation \<leftarrow> on_host (x_session_isolation (en_executor E));
             try_bind (execution_lock (Some deadline)) (\<lambda>_.
             try_bind (repair_tail (en_setting E)) (\<lambda>_.
             try_bind (claim_operation (en_setting E) request action_hash isolation) (\<lambda>claim.
             case claim of
               Replay a \<Rightarrow> execute_replay E a
             | RecoveredUnknown name route claimed_isolation mode \<Rightarrow>
                 execute_recovered E request action_hash name route claimed_isolation mode
             | NewClaim \<Rightarrow> execute_new E request action_hash isolation deadline)))
           })))"

section \<open>Batches and status\<close>

definition is_verified :: "protocol_error + execute_report \<Rightarrow> bool" where
  "is_verified result = (case result of
       Inl _ \<Rightarrow> False
     | Inr [] \<Rightarrow> False
     | Inr (a # as) \<Rightarrow> (case a_state (last (a # as)) of
         Terminal (Succeeded r) \<Rightarrow> rc_effect r = Verified
       | _ \<Rightarrow> False))"

fun execute_batch :: "('x, 'o) engine \<Rightarrow> action_request list
    \<Rightarrow> (('x, 'o) world, (protocol_error + execute_report) list) state" where
  "execute_batch E [] = ret []"
| "execute_batch E (request # requests) = do {
     result \<leftarrow> execute E request;
     if is_verified result then do {
       rest \<leftarrow> execute_batch E requests;
       ret (result # rest)
     } else ret [result]
   }"

definition status :: "('x, 'o) engine \<Rightarrow> string
    \<Rightarrow> (('x, 'o) world, protocol_error + action_ack option) state" where
  "status E op =
     (if \<not> valid_identifier op then ret (Inl (InvalidRequest ''invalid operation_id''))
      else ledger_status (en_setting E) (en_outcomes E) op)"

section \<open>Capability facts\<close>

lemma capability_facts_ok:
  "capability_facts cs facts = Some r \<longleftrightarrow> list_all route_is_valid cs \<and> distinct (map ac_action cs)
     \<and> set (map ac_action cs) \<inter> set (map fst facts) = {}
     \<and> r = rev (map (\<lambda>c. (ac_action c, c)) cs) @ facts"
  by (induction cs facts rule: capability_facts.induct) auto

lemma same_size_subset:
  "distinct xs \<Longrightarrow> distinct ys \<Longrightarrow> length xs = length ys \<Longrightarrow> set xs \<subseteq> set ys \<Longrightarrow> set xs = set ys"
  by (metis card_subset_eq distinct_card finite_set)

lemma map_of_named:
  assumes "distinct (map f cs)"
  shows "map_of (rev (map (\<lambda>c. (f c, c)) cs)) k = Some c \<longleftrightarrow> c \<in> set cs \<and> f c = k"
proof -
  have "distinct (map fst (rev (map (\<lambda>c. (f c, c)) cs)))"
    using assms by (simp add: rev_map [symmetric] comp_def)
  from map_of_eq_Some_iff [OF this] show ?thesis by auto
qed

lemma strict_action_capability_ok:
  "strict_action_capability cs action = Some c \<longleftrightarrow>
     distinct (c_supported_actions cs) \<and> distinct (map ac_action (c_action_capabilities cs))
   \<and> list_all route_is_valid (c_action_capabilities cs)
   \<and> set (c_supported_actions cs) = ac_action ` set (c_action_capabilities cs)
   \<and> c \<in> set (c_action_capabilities cs) \<and> ac_action c = action_name action"
proof (cases "capability_facts (c_action_capabilities cs) []")
  case None
  have "capability_facts (c_action_capabilities cs) [] =
      Some (rev (map (\<lambda>c. (ac_action c, c)) (c_action_capabilities cs)))"
    if "list_all route_is_valid (c_action_capabilities cs)"
      and "distinct (map ac_action (c_action_capabilities cs))"
    using that by (simp add: capability_facts_ok)
  with None show ?thesis by (auto simp: strict_action_capability_def)
next
  case (Some facts)
  then have f: "list_all route_is_valid (c_action_capabilities cs)"
    "distinct (map ac_action (c_action_capabilities cs))"
    "facts = rev (map (\<lambda>c. (ac_action c, c)) (c_action_capabilities cs))"
    by (simp_all add: capability_facts_ok)
  have names: "fst ` set facts = ac_action ` set (c_action_capabilities cs)"
    "length facts = length (c_action_capabilities cs)"
    using f(3) by (simp_all add: image_image)
  have same: "length (c_supported_actions cs) = length (c_action_capabilities cs)
      \<and> set (c_supported_actions cs) \<subseteq> ac_action ` set (c_action_capabilities cs)
      \<longleftrightarrow> set (c_supported_actions cs) = ac_action ` set (c_action_capabilities cs)"
    if "distinct (c_supported_actions cs)"
    using same_size_subset [OF that f(2)] distinct_card [OF that] distinct_card [OF f(2)] by auto
  have found: "map_of facts (action_name action) = Some c \<longleftrightarrow>
      c \<in> set (c_action_capabilities cs) \<and> ac_action c = action_name action"
    by (simp only: f(3) map_of_named [OF f(2)])
  show ?thesis
  proof (cases "distinct (c_supported_actions cs)
      \<and> set (c_supported_actions cs) = ac_action ` set (c_action_capabilities cs)")
    case True
    then have eqs: "length (c_supported_actions cs) = length facts"
      "set (c_supported_actions cs) \<subseteq> set (map fst facts)"
      using same names by auto
    have "strict_action_capability cs action =
        (if action_name action \<in> set (c_supported_actions cs)
         then map_of facts (action_name action) else None)"
      using True eqs by (simp add: strict_action_capability_def Some)
    then show ?thesis using True f(1,2)
      by (cases "action_name action \<in> set (c_supported_actions cs)")
         (auto simp: found intro: rev_image_eqI)
  next
    case False
    then have "strict_action_capability cs action = None"
      using same names by (auto simp: strict_action_capability_def Some)
    then show ?thesis using False by auto
  qed
qed

end
