(* ===== verification/EngineSafety.thy ===== *)
theory EngineSafety
  imports Engine
begin

text \<open>
  No operation is dispatched twice.  \<open>execute\<close> and \<open>status\<close> keep the invariant \<open>guarded\<close> of
  the histories; \<open>history\<close> is what a ledger can have gone through: calls on any world whose
  files are the replay of the history, and crashes, which cut the last call short and lose
  whatever was not synced.
\<close>

lemma guarded_mono: "guarded S A B w \<Longrightarrow> A' \<subseteq> A \<Longrightarrow> B' \<subseteq> B \<Longrightarrow> guarded S A' B' w"
  by (auto simp: guarded_def)

section \<open>The stages keep the invariant\<close>

lemma keeps_case_ack_state [keeps_rules]:
  "keeps I m \<Longrightarrow> keeps I n \<Longrightarrow> (\<And>t. keeps I (f t)) \<Longrightarrow>
    keeps I (case st of Accepted \<Rightarrow> m | Executing \<Rightarrow> n | Terminal t \<Rightarrow> f t)"
  by (cases st) simp_all

lemma keeps_case_effect [keeps_rules]:
  "keeps I a \<Longrightarrow> keeps I b \<Longrightarrow> keeps I c \<Longrightarrow> keeps I d \<Longrightarrow>
    keeps I (case e of NoEffect \<Rightarrow> a | EffectUnknown \<Rightarrow> b | CancelledBefore \<Rightarrow> c | ExpiredBefore \<Rightarrow> d)"
  by (cases e) simp_all

lemma keeps_record_outcome [keeps_rules]: "keeps (guarded S A B) (record_outcome E key a)"
  unfolding record_outcome_def by (intro keeps_rules stable_guarded)

lemma keeps_finish_early [keeps_rules]: "keeps (guarded S A B) (finish_early E request h t)"
  unfolding finish_early_def Let_def by (intro keeps_rules)

lemma keeps_context_preservation [keeps_rules]:
  "keeps (guarded S A B) (context_preservation E mode isolation before deadline)"
  unfolding context_preservation_def by (intro keeps_rules stable_guarded)

lemma keeps_unknown_receipt [keeps_rules]:
  "keeps (guarded S A B) (unknown_receipt E request h isolation before context deadline started b c)"
  unfolding unknown_receipt_def by (intro keeps_rules stable_guarded)

lemma keeps_verified_terminal [keeps_rules]:
  "keeps (guarded S A B) (verified_terminal E request h isolation route before context deadline started d)"
  unfolding verified_terminal_def Let_def by (intro keeps_rules stable_guarded)

lemma keeps_dispatched_terminal [keeps_rules]:
  "keeps (guarded S A B) (dispatched_terminal E request h isolation route before context deadline started r)"
  unfolding dispatched_terminal_def by (intro keeps_rules stable_guarded)

lemma keeps_conclude [keeps_rules]: "keeps (guarded S A B) (conclude E request h r)"
  unfolding conclude_def Let_def by (intro keeps_rules)

lemma keeps_execute_replay [keeps_rules]: "keeps (guarded S A B) (execute_replay E a)"
  unfolding execute_replay_def by (intro keeps_rules)

lemma keeps_execute_recovered [keeps_rules]:
  "keeps (guarded S A B) (execute_recovered E request h name route isolation mode)"
  unfolding execute_recovered_def Let_def by (intro keeps_rules stable_guarded)

section \<open>The stages that lead to the dispatch\<close>

text \<open>What a dispatch needs: a durable claim of an operation not dispatched before.\<close>

abbreviation armed :: "setting \<Rightarrow> string \<Rightarrow> ('x, 'o) world \<Rightarrow> bool" where
  "armed S op \<equiv> guarded S {op} {op}"

abbreviation intact :: "setting \<Rightarrow> ('x, 'o) world \<Rightarrow> bool" where
  "intact S \<equiv> guarded S {} {}"

lemma armed_intact: "armed S op w \<Longrightarrow> intact S w"
  by (erule guarded_mono) simp_all

lemma hoare_armed: "keeps (armed S op) m \<Longrightarrow> hoare (armed S op) m (\<lambda>_. intact S)"
  by (rule hoareI) (blast dest: keepsD armed_intact)

lemma hoare_record_dispatch: "hoare (armed S op) (record_dispatch op h) (\<lambda>_. intact S)"
proof (rule hoareI)
  fix w :: "('x, 'o) world" and r t
  assume w: "armed S op w" and run: "run_state (record_dispatch op h) w = (r, t)"
  then have "good S (w_trace w @ [EvDispatch op h])"
    by (intro good_dispatch) (auto simp: guarded_def safe_good)
  with w run show "intact S t"
    by (auto simp: record_dispatch_def guarded_def tracked_def safe_snoc)
qed

lemma hoare_execute_dispatch:
  "hoare (armed S (rq_operation_id request))
    (execute_dispatch E request h isolation route before resolved context deadline) (\<lambda>_. intact S)"
  unfolding execute_dispatch_def
  by (rule hoare_bind_keeps, intro keeps_rules stable_guarded,
      rule hoare_bind [OF hoare_record_dispatch], rule hoare_keeps, intro keeps_rules stable_guarded)

lemma hoare_unless_boundary:
  assumes "hoare (armed S op) m (\<lambda>_. intact S)"
  shows "hoare (armed S op) (unless_boundary E request h deadline m) (\<lambda>_. intact S)"
proof -
  have early: "hoare (armed S op) (finish_early E request h t) (\<lambda>_. intact S)" for t
    by (intro hoare_armed keeps_rules)
  show ?thesis
    unfolding unless_boundary_def
    by (intro hoare_bind_keeps hoare_if early assms keeps_on_host stable_guarded)
qed

lemma hoare_execute_context:
  "hoare (armed S (rq_operation_id request))
    (execute_context E request h isolation route before resolved deadline) (\<lambda>_. intact S)"
  unfolding execute_context_def
  by (intro hoare_if hoare_bind_keeps hoare_case_sum hoare_execute_dispatch hoare_armed keeps_rules
      stable_guarded)

lemma hoare_execute_observed:
  "hoare (armed S (rq_operation_id request))
    (execute_observed E request h isolation route deadline) (\<lambda>_. intact S)"
  unfolding execute_observed_def
  by (intro hoare_bind_keeps hoare_case_sum hoare_unless_boundary hoare_execute_context hoare_armed
      keeps_rules stable_guarded)

lemma hoare_execute_capable:
  "hoare (armed S (rq_operation_id request))
    (execute_capable E request h isolation deadline reported) (\<lambda>_. intact S)"
  unfolding execute_capable_def
  by (intro hoare_case_sum hoare_case_option hoare_if hoare_execute_observed hoare_armed keeps_rules)

lemma hoare_execute_granted:
  "hoare (armed S (rq_operation_id request))
    (execute_granted E request h isolation deadline) (\<lambda>_. intact S)"
  unfolding execute_granted_def
  by (intro hoare_bind_keeps hoare_unless_boundary hoare_if hoare_execute_capable hoare_armed
      keeps_rules stable_guarded)

lemma hoare_execute_new:
  "hoare (armed S (rq_operation_id request)) (execute_new E request h isolation deadline) (\<lambda>_. intact S)"
proof -
  let ?op = "rq_operation_id request"
  have settled: "keeps (armed S ?op) (do {
      terminal \<leftarrow> m;
      let a = terminal_ack request h terminal False;
      try_bind (finish (en_setting E) a) (\<lambda>_. ret (Inr [accepted_ack request h, a])) })"
    if "keeps (armed S ?op) m" for m :: "(('x, 'o) world, terminal) state"
    unfolding Let_def by (intro keeps_rules that)
  show ?thesis
    unfolding execute_new_def
  proof (rule hoare_try_keeps, intro keeps_rules stable_guarded, erule armed_intact)
    fix decision
    show "hoare (armed S ?op) (case decision of
        Dispatch \<Rightarrow> execute_granted E request h isolation deadline
      | _ \<Rightarrow> do {
          terminal \<leftarrow> (case decision of
              Recorded terminal \<Rightarrow> ret terminal
            | _ \<Rightarrow> do {
                r \<leftarrow> on_host (empty_receipt (s_platform (en_setting E)) request h UnknownEffect isolation);
                ret (OutcomeUnknown r interrupted_outcome_message)
              });
          let a = terminal_ack request h terminal False;
          try_bind (finish (en_setting E) a) (\<lambda>_. ret (Inr [accepted_ack request h, a]))
        }) (\<lambda>_. intact S)"
      by (cases decision)
        (simp_all only: ledger_decision.case hoare_execute_granted,
         (intro hoare_armed settled keeps_rules stable_guarded)+)
  qed
qed

lemma hoare_case_claim:
  "hoare P a Q \<Longrightarrow> (\<And>x. hoare P (b x) Q) \<Longrightarrow> (\<And>n r i m. hoare P (c n r i m) Q) \<Longrightarrow>
    hoare P (case cl of NewClaim \<Rightarrow> a | Replay x \<Rightarrow> b x | RecoveredUnknown n r i m \<Rightarrow> c n r i m) Q"
  by (cases cl) simp_all

theorem execute_intact:
  fixes E :: "('x, 'o) engine"
  assumes "codec_sound (en_setting E)"
  shows "keeps (intact (en_setting E)) (execute E request)"
proof -
  let ?S = "en_setting E" and ?op = "rq_operation_id request"
  have repaired: "hoare (intact ?S) (repair_tail ?S)
      (\<lambda>r w. intact ?S w \<and> (r = Inr () \<longrightarrow> ends_line LedgerFile w))"
    unfolding repair_tail_def by (rule hoare_repair)
  have after_claim: "hoare (\<lambda>w. intact ?S w \<and> (Inr claim = Inr NewClaim \<longrightarrow> armed ?S ?op w))
      (case claim of
         Replay a \<Rightarrow> execute_replay E a
       | RecoveredUnknown n r i m \<Rightarrow> execute_recovered E request h n r i m
       | NewClaim \<Rightarrow> execute_new E request h isolation deadline) (\<lambda>_. intact ?S)"
    for claim and h isolation deadline
    by (cases claim)
      (auto intro: hoare_pre [OF hoare_execute_new] hoare_pre [OF hoare_keeps] keeps_rules)
  have claim: "hoare (\<lambda>w. intact ?S w \<and> (Inr x = Inr () \<longrightarrow> ends_line LedgerFile w))
      (try_bind (claim_operation ?S request h isolation) (\<lambda>claim. case claim of
         Replay a \<Rightarrow> execute_replay E a
       | RecoveredUnknown n r i m \<Rightarrow> execute_recovered E request h n r i m
       | NewClaim \<Rightarrow> execute_new E request h isolation deadline)) (\<lambda>_. intact ?S)"
    for x h isolation deadline
    by (rule hoare_pre, rule hoare_try [OF hoare_claim_operation [OF assms]], simp)
      (rule hoare_pre [OF after_claim], auto)
  have "hoare (intact ?S) (execute E request) (\<lambda>_. intact ?S)"
    unfolding execute_def execution_lock_def Let_def
    by (intro hoare_case_sum hoare_return hoare_bind_keeps hoare_try_keeps
        hoare_try [OF repaired] claim) (simp_all add: keeps_rules)
  then show ?thesis by (rule keeps_hoare [OF hoare_post]) simp
qed

lemma status_intact: "keeps (intact S) (status E op)"
  unfolding status_def by (intro keeps_rules)

lemma execute_batch_intact:
  "codec_sound (en_setting E) \<Longrightarrow> keeps (intact (en_setting E)) (execute_batch E requests)"
  by (induction requests) (auto intro!: keeps_rules execute_intact)

section \<open>Crashes\<close>

fun ledger_event :: "event \<Rightarrow> bool" where
  "ledger_event (EvAppend f s) \<longleftrightarrow> f = LedgerFile"
| "ledger_event (EvTruncate f n) \<longleftrightarrow> f = LedgerFile"
| "ledger_event (EvSync f) \<longleftrightarrow> f = LedgerFile"
| "ledger_event (EvDispatch op h) \<longleftrightarrow> False"

fun dispatch_event :: "event \<Rightarrow> bool" where
  "dispatch_event (EvDispatch op h) \<longleftrightarrow> True"
| "dispatch_event _ \<longleftrightarrow> False"

text \<open>
  A crash keeps the ledger's events up to some point not before its last sync, and possibly a
  part of the next append; what became of the other files is open; a dispatch cannot be undone.
\<close>

definition crash :: "event list \<Rightarrow> event list \<Rightarrow> bool" where
  "crash tr tr' \<longleftrightarrow> (\<exists>k torn others.
       EvSync LedgerFile \<notin> set (drop k tr)
     \<and> tr' = take k tr @ torn @ others
     \<and> (torn = [] \<or> (\<exists>s m. k < length tr \<and> tr ! k = EvAppend LedgerFile s
          \<and> torn = [EvAppend LedgerFile (take m s)]))
     \<and> list_all (\<lambda>e. \<not> ledger_event e) others
     \<and> filter dispatch_event others = filter dispatch_event (drop k tr))"

lemma dispatches_append: "dispatches op (a @ b) = dispatches op a + dispatches op b"
  by (simp add: dispatches_def)

lemma dispatches_filter: "dispatches op tr = dispatches op (filter dispatch_event tr)"
proof -
  have "is_dispatch op e \<Longrightarrow> dispatch_event e" for e by (cases e) simp_all
  then have "filter (is_dispatch op) (filter dispatch_event tr) = filter (is_dispatch op) tr"
    by (induction tr) auto
  then show ?thesis by (simp add: dispatches_def)
qed

lemma other_event_keeps_claims:
  "\<not> ledger_event e \<Longrightarrow> \<not> dispatch_event e \<Longrightarrow> keeps_claims S tr e"
  by (cases e) (auto simp: keeps_claims_def)

lemma safe_extend:
  assumes "safe S a" and "list_all (\<lambda>e. \<not> ledger_event e) b"
    and "\<And>op. dispatches op a + dispatches op b \<le> 1"
    and "\<And>op. 0 < dispatches op b \<Longrightarrow> durable_claim S op a"
  shows "safe S (a @ b) \<and> (\<forall>op. durable_claim S op a \<longrightarrow> durable_claim S op (a @ b))"
  using assms(2-4)
proof (induction b rule: rev_induct)
  case Nil
  then show ?case using assms(1) by simp
next
  case (snoc e b)
  have le: "dispatches op a + dispatches op b \<le> 1" for op
    using snoc.prems(2) [of op] by (simp add: dispatches_snoc split: if_splits)
  have du: "0 < dispatches op b \<Longrightarrow> durable_claim S op a" for op
    using snoc.prems(3) [of op] by (simp add: dispatches_snoc)
  have ih: "safe S (a @ b)" "\<And>op. durable_claim S op a \<Longrightarrow> durable_claim S op (a @ b)"
    using snoc.IH le du snoc.prems(1) by simp_all
  have kept: "replay LedgerFile ((a @ b) @ [e]) = replay LedgerFile (a @ b)"
    unfolding replay_snoc using snoc.prems(1) by (cases e) auto
  have durable: "durable_claim S op a \<Longrightarrow> durable_claim S op ((a @ b) @ [e])" for op
    using ih(2) kept by (metis durable_claim_claimed durable_claim_snoc)
  have "good S ((a @ b) @ [e])"
  proof (cases "dispatch_event e")
    case True
    then obtain op h where e: "e = EvDispatch op h" by (cases e) auto
    have "dispatches op (a @ b) = 0" using snoc.prems(2) [of op] by (simp add: e dispatches_append) (simp add: dispatches_def)
    moreover have "durable_claim S op (a @ b)"
      using snoc.prems(3) [of op] ih(2) by (simp add: e dispatches_snoc)
    ultimately show ?thesis unfolding e using ih(1) by (intro good_dispatch safe_good)
  next
    case False
    with snoc.prems(1) have "keeps_claims S (a @ b) e" by (simp add: other_event_keeps_claims)
    then show ?thesis using ih(1) by (intro good_snoc safe_good)
  qed
  with ih(1) durable show ?case using safe_snoc [of S "a @ b" e] by simp
qed

lemma durable_claim_take:
  assumes "durable_claim S op tr" and "EvSync LedgerFile \<notin> set (drop k tr)"
  shows "durable_claim S op (take k tr)"
proof -
  from assms(1) obtain j where j: "j < length tr" "tr ! j = EvSync LedgerFile"
    "\<And>n. j \<le> n \<Longrightarrow> n \<le> length tr \<Longrightarrow> claimed S op (replay LedgerFile (take n tr))"
    unfolding durable_claim_def by blast
  have "j < k"
  proof (rule ccontr)
    assume "\<not> j < k"
    then have "tr ! j \<in> set (drop k tr)"
      using j(1) by (auto simp: in_set_conv_nth intro: exI [of _ "j - k"])
    with j(2) assms(2) show False by simp
  qed
  with j show ?thesis
    unfolding durable_claim_def by (auto intro!: exI [of _ j] simp: min_def)
qed

lemma safe_crash:
  assumes "safe S tr" and "crash tr tr'"
  shows "safe S tr'"
proof -
  from assms(2) obtain k torn others where k: "EvSync LedgerFile \<notin> set (drop k tr)"
    and tr': "tr' = take k tr @ torn @ others"
    and torn: "torn = [] \<or> (\<exists>s m. k < length tr \<and> tr ! k = EvAppend LedgerFile s
          \<and> torn = [EvAppend LedgerFile (take m s)])"
    and others: "list_all (\<lambda>e. \<not> ledger_event e) others"
    and same: "filter dispatch_event others = filter dispatch_event (drop k tr)"
    unfolding crash_def by blast
  have count: "dispatches op others = dispatches op (drop k tr)" for op
    using same dispatches_filter by metis
  have total: "dispatches op (take k tr) + dispatches op (drop k tr) = dispatches op tr" for op
    by (metis append_take_drop_id dispatches_append)
  have safe_torn: "safe S (take k tr @ torn)"
    using torn safe_take [OF assms(1), of k]
    by (auto simp: safe_snoc intro!: good_snoc [OF safe_good] keeps_claims_append)
  have no: "dispatches op torn = 0" for op using torn by (auto simp: dispatches_def)
  have good: "good S tr" by (rule safe_good [OF assms(1)])
  have "safe S ((take k tr @ torn) @ others)"
  proof (rule conjunct1 [OF safe_extend [OF safe_torn others]])
    fix op
    show "dispatches op (take k tr @ torn) + dispatches op others \<le> 1"
      using good by (simp add: dispatches_append no count total good_def)
    assume "0 < dispatches op others"
    then have "durable_claim S op tr" using good total [of op] by (simp add: count good_def)
    then have "durable_claim S op (take k tr)" using k by (rule durable_claim_take)
    then show "durable_claim S op (take k tr @ torn)"
      using torn by (auto intro: durable_claim_event keeps_claims_append)
  qed
  then show ?thesis by (simp add: tr')
qed

section \<open>Histories\<close>

text \<open>The world of a process that finds the files as the history left them.\<close>

definition resumes :: "event list \<Rightarrow> ('x, 'o) world \<Rightarrow> bool" where
  "resumes tr w \<longleftrightarrow> w_trace w = tr \<and> tracked w"

text \<open>One call of the engine's interface, from start to end.\<close>

inductive engine_call :: "('x, 'o) engine \<Rightarrow> ('x, 'o) world \<Rightarrow> ('x, 'o) world \<Rightarrow> bool"
  for E where
  call_execute: "run_state (execute E request) w = (r, w') \<Longrightarrow> engine_call E w w'"
| call_batch: "run_state (execute_batch E requests) w = (rs, w') \<Longrightarrow> engine_call E w w'"
| call_status: "run_state (status E op) w = (a, w') \<Longrightarrow> engine_call E w w'"

inductive history :: "('x, 'o) engine \<Rightarrow> event list \<Rightarrow> bool" for E where
  history_start: "history E []"
| history_call: "history E tr \<Longrightarrow> resumes tr w \<Longrightarrow> engine_call E w w' \<Longrightarrow> history E (w_trace w')"
| history_crash: "history E tr \<Longrightarrow> resumes tr w \<Longrightarrow> engine_call E w w' \<Longrightarrow>
    crash (take n (w_trace w')) tr' \<Longrightarrow> history E tr'"

inductive_cases history_cases: "history E tr"

lemma engine_call_intact:
  assumes "codec_sound (en_setting E)" and "engine_call E w w'" and "intact (en_setting E) w"
  shows "intact (en_setting E) w'"
  using assms(2,3)
proof cases
  case (call_execute request r)
  then show ?thesis using keepsD [OF execute_intact [OF assms(1)]] assms(3) by blast
next
  case (call_batch requests rs)
  then show ?thesis using keepsD [OF execute_batch_intact [OF assms(1)]] assms(3) by blast
next
  case (call_status op a)
  then show ?thesis using keepsD [OF status_intact] assms(3) by blast
qed

lemma history_safe:
  assumes codec: "codec_sound (en_setting E)"
  shows "history E tr \<Longrightarrow> safe (en_setting E) tr"
proof (induction rule: history.induct)
  case (history_call tr w w')
  then have "intact (en_setting E) w" by (simp add: resumes_def guarded_def)
  from engine_call_intact [OF codec history_call(3) this] show ?case by (simp add: guarded_def)
next
  case (history_crash tr w w' n tr')
  then have "intact (en_setting E) w" by (simp add: resumes_def guarded_def)
  from engine_call_intact [OF codec history_crash(3) this] history_crash(4) show ?case
    by (auto simp: guarded_def intro: safe_crash safe_take)
qed simp

end
