(* ===== verification/Frame.thy ===== *)
theory Frame
  imports EngineSafety
begin

text \<open>
  What the operations leave alone.  \<open>blind I\<close>: the predicate \<open>I\<close> does not see the clock, the
  files or any event but a dispatch.  Every operation of the ledger keeps such a predicate if
  the outcome ledger's two operations do; so does every stage of the engine but the dispatch,
  if the executor's other calls keep it.  \<open>aloof I\<close>: it does not see the executor's state either.
  The contracts of the outcome ledger and of the executor, two locales, rest on this.
\<close>

definition blind :: "(('x, 'o) world \<Rightarrow> bool) \<Rightarrow> bool" where
  "blind I \<longleftrightarrow> (\<forall>w h. h_exec h = h_exec (w_host w) \<longrightarrow> I (w\<lparr>w_host := h\<rparr>) = I w)
     \<and> (\<forall>w files evs. list_all (\<lambda>e. \<not> dispatch_event e) evs \<longrightarrow>
          I (w\<lparr>w_files := files, w_trace := w_trace w @ evs\<rparr>) = I w)"

definition aloof :: "(('x, 'o) world \<Rightarrow> bool) \<Rightarrow> bool" where
  "aloof I \<longleftrightarrow> (\<forall>w h. I (w\<lparr>w_host := h\<rparr>) = I w)"

definition outcomes_keep :: "'o outcome_ops \<Rightarrow> (('x, 'o) world \<Rightarrow> bool) \<Rightarrow> bool" where
  "outcomes_keep ops I \<longleftrightarrow> (\<forall>key. keeps I (on_outcomes (oo_begin ops key)))
     \<and> (\<forall>key t. keeps I (on_outcomes (oo_record ops key t)))"

text \<open>The executor's calls other than a dispatch.\<close>

definition calls_keep :: "'x executor \<Rightarrow> (('x, 'o) world \<Rightarrow> bool) \<Rightarrow> bool" where
  "calls_keep X I \<longleftrightarrow> keeps I (on_host (x_session_isolation X)) \<and> keeps I (on_host (x_capabilities X))
     \<and> (\<forall>d. keeps I (on_host (x_context_hash X d)))
     \<and> (\<forall>target d. keeps I (on_host (x_observe X target d)))
     \<and> (\<forall>target d. keeps I (on_host (x_resolve X target d)))"

named_theorems blind_rules \<open>operations that keep a blind predicate\<close>

lemmas [blind_rules] = keeps_return keeps_bind keeps_if keeps_case_sum keeps_case_option
  keeps_case_prod keeps_try keeps_case_io keeps_case_decision keeps_case_ack_state
  keeps_case_effect keeps_get_file

lemma aloof_on_host: "aloof I \<Longrightarrow> keeps I (on_host m)"
  by (simp add: keeps_def on_host_def aloof_def split: prod.splits)

lemma aloof_calls: "aloof I \<Longrightarrow> calls_keep X I"
  by (simp add: calls_keep_def aloof_on_host)

lemma calls_keepD [blind_rules]:
  assumes "calls_keep X I"
  shows "keeps I (on_host (x_session_isolation X))" "keeps I (on_host (x_capabilities X))"
    "keeps I (on_host (x_context_hash X d))" "keeps I (on_host (x_observe X target d))"
    "keeps I (on_host (x_resolve X target d))"
  using assms by (simp_all add: calls_keep_def)

lemma blind_on_host: "blind I \<Longrightarrow> (\<And>h. h_exec (snd (run_state m h)) = h_exec h) \<Longrightarrow> keeps I (on_host m)"
  by (auto simp: keeps_def on_host_def blind_def split: prod.splits) (metis snd_conv)+

lemma blind_clock [blind_rules]:
  assumes "blind I"
  shows "keeps I (on_host now_ms)" "keeps I (on_host is_cancelled)" "keeps I (on_host next_io)"
    "keeps I (on_host (read_oracle f))" "keeps I (on_host (boundary_reached d))"
    "keeps I (on_host (empty_receipt platform request h effect isolation))"
  by (rule blind_on_host [OF assms];
      simp add: now_ms_def is_cancelled_def next_io_def boundary_reached_def empty_receipt_def)+

lemma blind_change_file: "blind I \<Longrightarrow> list_all (\<lambda>e. \<not> dispatch_event e) evs \<Longrightarrow> keeps I (change_file f g evs)"
  by (simp add: keeps_def change_file_def blind_def)

lemma blind_io_step [blind_rules]: "blind I \<Longrightarrow> keeps I io_step"
  unfolding io_step_def by (intro blind_rules)

lemma blind_open_create [blind_rules]: "blind I \<Longrightarrow> keeps I (open_create f)"
  unfolding open_create_def by (intro blind_rules blind_change_file) simp_all

lemma blind_write_all [blind_rules]: "blind I \<Longrightarrow> keeps I (write_all f s)"
  unfolding write_all_def by (intro blind_rules blind_change_file) simp_all

lemma blind_sync_all [blind_rules]: "blind I \<Longrightarrow> keeps I (sync_all f)"
  unfolding sync_all_def by (intro blind_rules blind_change_file) simp_all

lemma blind_set_len [blind_rules]: "blind I \<Longrightarrow> keeps I (set_len f n)"
  unfolding set_len_def by (intro blind_rules blind_change_file) simp_all

lemma blind_append_line [blind_rules]: "blind I \<Longrightarrow> keeps I (append_line f line)"
  unfolding append_line_def by (intro blind_rules)

lemma blind_repair [blind_rules]: "blind I \<Longrightarrow> keeps I (repair_jsonl_tail f parse message)"
  unfolding repair_jsonl_tail_def by (intro blind_rules)

lemma blind_lock_attempts [blind_rules]: "blind I \<Longrightarrow> keeps I (lock_attempts deadline n)"
  by (induction n) (simp_all, (intro blind_rules; assumption?)+)

lemma blind_lock [blind_rules]: "blind I \<Longrightarrow> keeps I (acquire_ledger_lock f boundary)"
  unfolding acquire_ledger_lock_def by (intro blind_rules)

lemma blind_records [blind_rules]: "blind I \<Longrightarrow> keeps I (records S)"
  unfolding records_def by (intro blind_rules)

lemma blind_append_record [blind_rules]: "blind I \<Longrightarrow> keeps I (append_record S r)"
  unfolding append_record_def by (intro blind_rules)

lemma blind_claim [blind_rules]: "blind I \<Longrightarrow> keeps I (claim_operation S request h isolation)"
  unfolding claim_operation_def by (intro blind_rules)

lemma blind_trajectory [blind_rules]: "blind I \<Longrightarrow> keeps I (trajectory S a)"
  unfolding trajectory_def trajectory_lock_def by (intro blind_rules)

lemma blind_finish [blind_rules]: "blind I \<Longrightarrow> keeps I (finish S a)"
  unfolding finish_def by (intro blind_rules)

lemma blind_repair_tail [blind_rules]: "blind I \<Longrightarrow> keeps I (repair_tail S)"
  unfolding repair_tail_def by (intro blind_rules)

lemma blind_finish_after_effect [blind_rules]: "blind I \<Longrightarrow> keeps I (finish_after_effect S a)"
  unfolding finish_after_effect_def by (intro blind_rules)

lemma blind_context_preservation [blind_rules]:
  "blind I \<Longrightarrow> calls_keep (en_executor E) I \<Longrightarrow> keeps I (context_preservation E mode isolation before deadline)"
  unfolding context_preservation_def by (intro blind_rules)

lemma blind_dispatched_terminal [blind_rules]:
  "blind I \<Longrightarrow> calls_keep (en_executor E) I \<Longrightarrow> keeps I (dispatched_terminal E request h isolation route before context deadline started r)"
  unfolding dispatched_terminal_def unknown_receipt_def verified_terminal_def Let_def
  by (intro blind_rules)

lemma outcomes_keep_begin: "outcomes_keep ops I \<Longrightarrow> keeps I (on_outcomes (oo_begin ops key))"
  by (simp add: outcomes_keep_def)

lemma outcomes_keep_record: "outcomes_keep ops I \<Longrightarrow> keeps I (on_outcomes (oo_record ops key t))"
  by (simp add: outcomes_keep_def)

named_theorems frame_rules \<open>stages that keep a blind predicate the outcome ledger keeps\<close>

lemma frame_reconcile [frame_rules]:
  "blind I \<Longrightarrow> outcomes_keep ops I \<Longrightarrow> keeps I (reconcile_interrupted S ops a)"
  unfolding reconcile_interrupted_def Let_def by (intro blind_rules outcomes_keep_begin)

lemma frame_status [frame_rules]:
  "blind I \<Longrightarrow> outcomes_keep (en_outcomes E) I \<Longrightarrow> keeps I (status E op)"
  unfolding status_def ledger_status_def execution_lock_def Let_def
  by (intro blind_rules frame_rules outcomes_keep_begin)

lemma frame_record_outcome [frame_rules]:
  "outcomes_keep (en_outcomes E) I \<Longrightarrow> keeps I (record_outcome E key a)"
  unfolding record_outcome_def by (intro blind_rules outcomes_keep_record)

lemma frame_finish_early [frame_rules]:
  "blind I \<Longrightarrow> outcomes_keep (en_outcomes E) I \<Longrightarrow> keeps I (finish_early E request h t)"
  unfolding finish_early_def Let_def by (intro blind_rules frame_rules)

lemma frame_conclude [frame_rules]:
  "blind I \<Longrightarrow> outcomes_keep (en_outcomes E) I \<Longrightarrow> keeps I (conclude E request h r)"
  unfolding conclude_def Let_def by (intro blind_rules frame_rules)

lemma frame_replay [frame_rules]:
  "blind I \<Longrightarrow> outcomes_keep (en_outcomes E) I \<Longrightarrow> keeps I (execute_replay E a)"
  unfolding execute_replay_def by (intro blind_rules frame_rules)

lemma frame_recovered [frame_rules]:
  "blind I \<Longrightarrow> outcomes_keep (en_outcomes E) I \<Longrightarrow>
    keeps I (execute_recovered E request h name route isolation mode)"
  unfolding execute_recovered_def Let_def by (intro blind_rules outcomes_keep_begin)

section \<open>The stages before the dispatch\<close>

text \<open>
  \<open>P\<close> holds until the dispatch.  What every early end and the dispatch establish from it, the
  stages before establish.
\<close>

lemma hoare_keeps_post: "keeps P m \<Longrightarrow> (\<And>r w. P w \<Longrightarrow> R r w) \<Longrightarrow> hoare P m R"
  by (rule hoare_post [OF hoare_keeps])

lemma stage_boundary:
  assumes "blind P" and "\<And>t. hoare P (finish_early E request h t) R" and "hoare P m R"
  shows "hoare P (unless_boundary E request h deadline m) R"
  unfolding unless_boundary_def by (intro hoare_bind_keeps hoare_if blind_rules assms)

lemma stage_granted:
  assumes "blind P" and "calls_keep (en_executor E) P"
    and "\<And>t. hoare P (finish_early E request h t) R"
    and "\<And>route before resolved context.
      hoare P (execute_dispatch E request h isolation route before resolved context deadline) R"
  shows "hoare P (execute_granted E request h isolation deadline) R"
  unfolding execute_granted_def execute_capable_def execute_observed_def execute_context_def
  by (intro hoare_bind_keeps hoare_if hoare_case_sum hoare_case_option stage_boundary blind_rules assms)

lemma stage_execute:
  assumes "blind P" and "outcomes_keep (en_outcomes E) P" and "calls_keep (en_executor E) P"
    and ended: "\<And>r w. P w \<Longrightarrow> R r w"
    and "\<And>h isolation deadline. hoare P (execute_new E request h isolation deadline) R"
  shows "hoare P (execute E request) R"
proof -
  have claim: "hoare P (case c of
      NewClaim \<Rightarrow> execute_new E request h isolation deadline
    | Replay a \<Rightarrow> execute_replay E a
    | RecoveredUnknown n r i m \<Rightarrow> execute_recovered E request h n r i m) R" for c h isolation deadline
    by (cases c) (simp_all add: assms hoare_keeps_post frame_replay frame_recovered)
  show ?thesis
    unfolding execute_def execution_lock_def Let_def
    by (intro hoare_case_sum hoare_return hoare_bind_keeps hoare_try_keeps claim ended blind_rules assms;
        assumption)
qed

text \<open>
  Two predicates that do not see the executor: \<open>P\<close> holds until the dispatch, \<open>Q\<close> after it; \<open>P\<close>
  gives \<open>Q\<close> for the runs that end without one.
\<close>

definition two_phase :: "('x, 'o) engine \<Rightarrow> string \<Rightarrow> string \<Rightarrow> (('x, 'o) world \<Rightarrow> bool)
    \<Rightarrow> (('x, 'o) world \<Rightarrow> bool) \<Rightarrow> bool" where
  "two_phase E op h P Q \<longleftrightarrow> blind P \<and> aloof P \<and> outcomes_keep (en_outcomes E) P
     \<and> blind Q \<and> aloof Q \<and> outcomes_keep (en_outcomes E) Q \<and> (\<forall>w. P w \<longrightarrow> Q w)
     \<and> hoare P (record_dispatch op h) (\<lambda>_. Q)"

lemma phase_granted:
  assumes "two_phase E (rq_operation_id request) h P Q"
  shows "hoare P (execute_granted E request h isolation deadline) (\<lambda>_. Q)"
proof (rule stage_granted)
  show "blind P" "calls_keep (en_executor E) P" using assms by (simp_all add: two_phase_def aloof_calls)
  show "hoare P (finish_early E request h t) (\<lambda>_. Q)" for t
    using assms by (intro hoare_keeps_post frame_finish_early) (simp_all add: two_phase_def)
  show "hoare P (execute_dispatch E request h isolation route before resolved shared deadline) (\<lambda>_. Q)"
    for route before resolved shared
    unfolding execute_dispatch_def using assms
    by (intro hoare_bind_keeps [where P = P] hoare_bind [where R = "\<lambda>_. Q"] hoare_keeps blind_rules frame_rules aloof_on_host)
      (simp_all add: two_phase_def aloof_calls)
qed

end
