(* ===== verification/OutcomeSafety.thy ===== *)
theory OutcomeSafety
  imports Frame
begin

text \<open>
  The outcome ledger as a second line of defence: with a ledger that honours the contract of
  \<open>outcome_ledger\<close>, an operation and action hash are dispatched at most once over any sequence
  of sessions, whatever happened to the files in between (deleted, replaced, restored from a
  backup).
\<close>

definition key_dispatches :: "outcome_key \<Rightarrow> event list \<Rightarrow> nat" where
  "key_dispatches key tr =
     length (filter (\<lambda>e. e = EvDispatch (k_operation_id key) (k_action_hash key)) tr)"

lemma key_dispatches_append: "key_dispatches key (a @ b) = key_dispatches key a + key_dispatches key b"
  by (simp add: key_dispatches_def)

lemma key_dispatches_none:
  "list_all (\<lambda>e. \<not> dispatch_event e) evs \<Longrightarrow> key_dispatches key evs = 0"
  by (induction evs) (auto simp: key_dispatches_def)

text \<open>\<open>before\<close> dispatches of earlier sessions and those of this one fit the ledger's entry.\<close>

definition budget :: "('o \<Rightarrow> outcome_key \<Rightarrow> terminal option option) \<Rightarrow> nat \<Rightarrow> outcome_key
    \<Rightarrow> ('x, 'o) world \<Rightarrow> bool" where
  "budget entry before key w \<longleftrightarrow> before + key_dispatches key (w_trace w)
     \<le> (if entry (w_outcomes w) key = None then 0 else 1)"

definition granted :: "('o \<Rightarrow> outcome_key \<Rightarrow> terminal option option) \<Rightarrow> nat \<Rightarrow> outcome_key
    \<Rightarrow> ('x, 'o) world \<Rightarrow> bool" where
  "granted entry before key w \<longleftrightarrow> before + key_dispatches key (w_trace w) = 0
     \<and> entry (w_outcomes w) key \<noteq> None"

lemma blind_budget: "blind (budget entry before key)"
  by (simp add: blind_def budget_def key_dispatches_append key_dispatches_none)

lemma blind_granted: "blind (granted entry before key)"
  by (simp add: blind_def granted_def key_dispatches_append key_dispatches_none)

lemma aloof_budget: "aloof (budget entry before key)" "aloof (granted entry before key)"
  by (simp_all add: aloof_def budget_def granted_def)

lemma hoare_on_outcomes:
  "(\<And>w r s'. P w \<Longrightarrow> run_state m (w_outcomes w) = (r, s') \<Longrightarrow> Q r (w\<lparr>w_outcomes := s'\<rparr>))
    \<Longrightarrow> hoare P (on_outcomes m) Q"
  by (auto simp: hoare_def on_outcomes_def split: prod.splits)

lemma keeps_on_outcomes_hoare: "hoare I (on_outcomes m) (\<lambda>_. I) \<Longrightarrow> keeps I (on_outcomes m)"
  by (auto simp: hoare_def intro: keepsI)

context outcome_ledger
begin

lemma keeps_budget:
  "outcomes_keep ops (budget entry before key :: ('x, 'o) world \<Rightarrow> bool)"
  unfolding outcomes_keep_def budget_def
  by (auto intro!: keeps_on_outcomes_hoare hoare_on_outcomes
      split: if_splits dest: begin_keeps_known record_keeps_known)

lemma keeps_granted:
  "outcomes_keep ops (granted entry before key :: ('x, 'o) world \<Rightarrow> bool)"
  unfolding outcomes_keep_def granted_def
  by (auto intro!: keeps_on_outcomes_hoare hoare_on_outcomes
      dest: begin_keeps_known record_keeps_known)

lemma phases:
  assumes "en_outcomes E = ops"
  shows "two_phase E op h (granted entry before \<lparr>k_operation_id = op, k_action_hash = h\<rparr>)
    (budget entry before \<lparr>k_operation_id = op, k_action_hash = h\<rparr>)"
  unfolding two_phase_def
  by (auto simp: assms blind_budget blind_granted aloof_budget keeps_budget keeps_granted budget_def granted_def
      hoare_def record_dispatch_def key_dispatches_def)

lemma phases_other:
  assumes "en_outcomes E = ops" and "key \<noteq> \<lparr>k_operation_id = op, k_action_hash = h\<rparr>"
  shows "two_phase E op h (budget entry before key) (budget entry before key)"
  using assms(2) unfolding two_phase_def
  by (auto simp: assms(1) blind_budget aloof_budget keeps_budget budget_def hoare_def record_dispatch_def
      key_dispatches_def outcome_key.equality)

lemma begin_grants:
  "hoare (budget entry before key) (on_outcomes (oo_begin ops key))
    (\<lambda>r w. budget entry before key w \<and> (r = Inr Dispatch \<longrightarrow> granted entry before key w))"
proof (rule hoare_on_outcomes)
  fix w :: "('x, 'o) world" and r s'
  assume b: "budget entry before key w" and run: "run_state (oo_begin ops key) (w_outcomes w) = (r, s')"
  have "r = Inr Dispatch \<Longrightarrow> granted entry before key (w\<lparr>w_outcomes := s'\<rparr>)"
    using b run by (auto simp: granted_def budget_def dest!: begin_dispatch)
  moreover have "budget entry before key (w\<lparr>w_outcomes := s'\<rparr>)"
    using b begin_keeps_known [OF run, of key] by (auto simp: budget_def split: if_splits)
  ultimately show "budget entry before key (w\<lparr>w_outcomes := s'\<rparr>) \<and>
      (r = Inr Dispatch \<longrightarrow> granted entry before key (w\<lparr>w_outcomes := s'\<rparr>))" by blast
qed

lemma execute_new_budget:
  assumes "en_outcomes E = ops"
  shows "hoare (budget entry before key) (execute_new E request h isolation deadline)
    (\<lambda>_. budget entry before key)"
proof -
  let ?own = "outcome_key request h"
  have own: "?own = \<lparr>k_operation_id = rq_operation_id request, k_action_hash = h\<rparr>"
    by (simp add: outcome_key_def)
  have begun: "hoare (budget entry before key) (on_outcomes (oo_begin ops ?own))
      (\<lambda>r w. budget entry before key w \<and> (r = Inr Dispatch \<longrightarrow> key = ?own \<longrightarrow> granted entry before key w))"
  proof (cases "key = ?own")
    case True
    then show ?thesis using begin_grants [of before key] by simp
  next
    case False
    have "keeps (budget entry before key) (on_outcomes (oo_begin ops ?own))"
      by (rule outcomes_keep_begin [OF keeps_budget])
    then show ?thesis using False by (auto intro: hoare_post [OF hoare_keeps])
  qed
  have grant: "hoare (\<lambda>w. budget entry before key w \<and> (key = ?own \<longrightarrow> granted entry before key w))
      (execute_granted E request h isolation deadline) (\<lambda>_. budget entry before key)"
  proof (cases "key = ?own")
    case True
    have "two_phase E (rq_operation_id request) h (granted entry before key) (budget entry before key)"
      unfolding True own by (rule phases [OF assms])
    from phase_granted [OF this] show ?thesis by (rule hoare_pre) (simp add: True)
  next
    case False
    then have "two_phase E (rq_operation_id request) h (budget entry before key) (budget entry before key)"
      unfolding own by (rule phases_other [OF assms])
    from phase_granted [OF this] show ?thesis by (rule hoare_pre) simp
  qed
  have "outcomes_keep (en_outcomes E) (budget entry before key)" by (simp add: assms keeps_budget)
  then show ?thesis
    unfolding execute_new_def assms
    apply (intro hoare_try [OF begun])
     apply simp
    subgoal for decision
      by (cases decision)
        (auto simp: Let_def intro!: hoare_pre [OF grant] hoare_pre [OF hoare_keeps] blind_rules blind_budget)
    done
qed

lemma execute_budget:
  assumes "en_outcomes E = ops"
  shows "keeps (budget entry before key) (execute E request)"
proof -
  have keep: "outcomes_keep (en_outcomes E) (budget entry before key)" by (simp add: assms keeps_budget)
  have "hoare (budget entry before key) (execute E request) (\<lambda>_. budget entry before key)"
    by (rule stage_execute [OF blind_budget keep aloof_calls [OF aloof_budget(1)] _ execute_new_budget [OF assms]])
  then show ?thesis by (auto simp: hoare_def intro: keepsI)
qed

end

section \<open>Sessions\<close>

text \<open>
  A session is a call of \<open>execute\<close> on some world (its clock, files and executor are arbitrary)
  with the outcome ledger as the session before left it; the result is the events it adds.
\<close>

fun sessions :: "('x, 'o) engine \<Rightarrow> (action_request \<times> ('x, 'o) world) list \<Rightarrow> 'o \<Rightarrow> event list" where
  "sessions E [] s = []"
| "sessions E ((request, w) # rest) s =
     (let (_, w') = run_state (execute E request) (w\<lparr>w_outcomes := s, w_trace := []\<rparr>) in
      w_trace w' @ sessions E rest (w_outcomes w'))"

context outcome_ledger
begin

lemma sessions_dispatch_once:
  assumes "en_outcomes E = ops"
  shows "before \<le> (if entry s key = None then 0 else 1) \<Longrightarrow>
    before + key_dispatches key (sessions E calls s) \<le> 1"
proof (induction calls arbitrary: s before)
  case Nil
  then show ?case by (auto simp: key_dispatches_def split: if_splits)
next
  case (Cons call calls)
  obtain request w where call: "call = (request, w)" by (cases call)
  obtain r w' where run:
    "run_state (execute E request) (w\<lparr>w_outcomes := s, w_trace := []\<rparr>) = (r, w')" by force
  have "budget entry before key (w\<lparr>w_outcomes := s, w_trace := []\<rparr>)"
    using Cons.prems by (simp add: budget_def key_dispatches_def)
  then have "budget entry before key w'" using keepsD [OF execute_budget [OF assms] _ run] by blast
  then have "before + key_dispatches key (w_trace w') \<le> (if entry (w_outcomes w') key = None then 0 else 1)"
    by (simp add: budget_def)
  from Cons.IH [OF this] show ?case by (simp add: call run key_dispatches_append)
qed

end

end
