(* ===== verification/Results.thy ===== *)
theory Results
  imports EngineSafety
begin

text \<open>
  What \<open>execute\<close> can answer.  \<open>yields Q m\<close>: every result of \<open>m\<close> satisfies \<open>Q\<close>; the rules in
  \<open>yields_rules\<close> push \<open>Q\<close> through the stages.  Two facts result: the shape of every report,
  and what a reported success stands for.
\<close>

definition yields :: "('a \<Rightarrow> bool) \<Rightarrow> ('s, 'a) state \<Rightarrow> bool" where
  "yields Q m \<longleftrightarrow> (\<forall>s. Q (fst (run_state m s)))"

named_theorems yields_rules \<open>rules that propagate a property of results\<close>

lemma yieldsD: "yields Q m \<Longrightarrow> run_state m s = (r, t) \<Longrightarrow> Q r"
  by (metis fst_conv yields_def)

lemma yields_return [yields_rules]: "Q x \<Longrightarrow> yields Q (ret x)"
  by (simp add: yields_def)

lemma yields_bind [yields_rules]: "(\<And>a. yields Q (f a)) \<Longrightarrow> yields Q (State_Monad.bind m f)"
  by (simp add: yields_def split: prod.splits)

lemma yields_bind_result: "yields R m \<Longrightarrow> (\<And>a. R a \<Longrightarrow> yields Q (f a)) \<Longrightarrow> yields Q (State_Monad.bind m f)"
  by (simp add: yields_def split: prod.splits) (metis fst_conv)

lemma yields_if [yields_rules]:
  "(c \<Longrightarrow> yields Q m) \<Longrightarrow> (\<not> c \<Longrightarrow> yields Q n) \<Longrightarrow> yields Q (if c then m else n)"
  by simp

lemma yields_case_sum [yields_rules]:
  "(\<And>e. r = Inl e \<Longrightarrow> yields Q (f e)) \<Longrightarrow> (\<And>x. r = Inr x \<Longrightarrow> yields Q (g x))
    \<Longrightarrow> yields Q (case r of Inl e \<Rightarrow> f e | Inr x \<Rightarrow> g x)"
  by (cases r) simp_all

lemma yields_case_option [yields_rules]:
  "(r = None \<Longrightarrow> yields Q m) \<Longrightarrow> (\<And>x. r = Some x \<Longrightarrow> yields Q (f x))
    \<Longrightarrow> yields Q (case r of None \<Rightarrow> m | Some x \<Rightarrow> f x)"
  by (cases r) simp_all

lemma yields_try [yields_rules]:
  "(\<And>e. Q (Inl e)) \<Longrightarrow> (\<And>x. yields Q (f x)) \<Longrightarrow> yields Q (try_bind m f)"
  unfolding try_bind_def by (intro yields_rules)

lemma yields_try_result:
  "yields R m \<Longrightarrow> (\<And>e. Q (Inl e)) \<Longrightarrow> (\<And>x. R (Inr x) \<Longrightarrow> yields Q (f x)) \<Longrightarrow> yields Q (try_bind m f)"
  unfolding try_bind_def by (rule yields_bind_result, assumption) (auto split: sum.splits intro: yields_return)

lemma yields_case_decision [yields_rules]:
  "yields Q m \<Longrightarrow> (\<And>t. yields Q (f t)) \<Longrightarrow> yields Q n \<Longrightarrow>
    yields Q (case d of Dispatch \<Rightarrow> m | Recorded t \<Rightarrow> f t | Interrupted \<Rightarrow> n)"
  by (cases d) simp_all

lemma yields_case_scan [yields_rules]:
  "(\<And>t. p = (None, t) \<Longrightarrow> yields Q (f t)) \<Longrightarrow> (\<And>c t. p = (Some c, t) \<Longrightarrow> yields Q (g c t))
    \<Longrightarrow> yields Q (case p of (None, t) \<Rightarrow> f t | (Some c, t) \<Rightarrow> g c t)"
  by (cases p; cases "fst p") auto

section \<open>The shape of a report\<close>

text \<open>
  A request that was claimed before is answered with one terminal acknowledgement; a new one
  with its acknowledgements in order: accepted, executing if it came that far, terminal.
\<close>

definition well_formed_report :: "action_request \<Rightarrow> string \<Rightarrow> execute_report \<Rightarrow> bool" where
  "well_formed_report request h report \<longleftrightarrow>
     (\<exists>a. report = [a] \<and> a_operation_id a = rq_operation_id request \<and> a_replayed a)
   \<or> (\<exists>t. report = [terminal_ack request h t False])
   \<or> (\<exists>t. report = [accepted_ack request h, terminal_ack request h t False])
   \<or> (\<exists>t. report = [accepted_ack request h, executing_ack request h, terminal_ack request h t False])"

definition answers :: "action_request \<Rightarrow> string \<Rightarrow> protocol_error + execute_report \<Rightarrow> bool" where
  "answers request h r \<longleftrightarrow> (\<forall>report. r = Inr report \<longrightarrow> well_formed_report request h report)"

lemma answers_Inl [simp]: "answers request h (Inl e)"
  by (simp add: answers_def)

lemma answers_shapes [simp]:
  "answers request h (Inr [terminal_ack request h t False])"
  "answers request h (Inr [accepted_ack request h, terminal_ack request h t False])"
  "answers request h (Inr [accepted_ack request h, executing_ack request h, terminal_ack request h t False])"
  by (auto simp: answers_def well_formed_report_def)

lemma persistence_unknown_terminal:
  "\<exists>t'. persistence_unknown_ack (terminal_ack request h t False) = terminal_ack request h t' False"
proof -
  have "\<exists>t'. persistence_unknown_state (Terminal t) = Terminal t'" by (cases t) auto
  then show ?thesis by (auto simp: persistence_unknown_ack_def terminal_ack_def ack_def)
qed

lemma yields_finish_after_effect:
  "yields (\<lambda>a. \<exists>t'. a = terminal_ack request h t' False) (finish_after_effect S (terminal_ack request h t False))"
  unfolding finish_after_effect_def
  by (intro yields_rules) (use persistence_unknown_terminal in auto)

lemma answers_finish_early: "yields (answers request h) (finish_early E request h t)"
  unfolding finish_early_def Let_def by (intro yields_rules) simp_all

lemma answers_unless_boundary:
  "yields (answers request h) m \<Longrightarrow> yields (answers request h) (unless_boundary E request h deadline m)"
  unfolding unless_boundary_def by (intro yields_rules answers_finish_early)

lemma answers_conclude: "yields (answers request h) (conclude (E :: ('x, 'o) engine) request h result)"
proof -
  have recorded: "\<exists>t'. (case r of Inr _ \<Rightarrow> terminal_ack request h t False
      | Inl _ \<Rightarrow> persistence_unknown_ack (terminal_ack request h t False)) = terminal_ack request h t' False"
    for r :: "protocol_error + unit" and t
    using persistence_unknown_terminal by (cases r) auto
  have "yields (answers request h) (do {
      a' \<leftarrow> finish_after_effect (en_setting E) (case r of Inr _ \<Rightarrow> terminal_ack request h t False
        | Inl _ \<Rightarrow> persistence_unknown_ack (terminal_ack request h t False));
      ret (Inr ([accepted_ack request h, executing_ack request h] @ [a'])) })"
    for r :: "protocol_error + unit" and t
    using recorded [where r = r and t = t]
    by (auto intro!: yields_bind_result [OF yields_finish_after_effect] yields_return)
  then have effect: "yields (answers request h) (do {
      recorded \<leftarrow> m;
      a' \<leftarrow> finish_after_effect (en_setting E) (case recorded of Inr _ \<Rightarrow> terminal_ack request h t False
        | Inl _ \<Rightarrow> persistence_unknown_ack (terminal_ack request h t False));
      ret (Inr ([accepted_ack request h, executing_ack request h] @ [a'])) })"
    for m :: "(('x, 'o) world, protocol_error + unit) state" and t
    by (rule yields_bind)
  show ?thesis
    unfolding conclude_def Let_def
    by (rule yields_if, rule effect) (intro yields_rules; simp)
qed

lemma answers_granted:
  "yields (answers request h) (execute_granted E request h isolation deadline)"
  unfolding execute_granted_def execute_capable_def execute_observed_def execute_context_def
    execute_dispatch_def
  by (intro yields_rules answers_unless_boundary answers_finish_early answers_conclude)

lemma answers_new: "yields (answers request h) (execute_new E request h isolation deadline)"
  unfolding execute_new_def Let_def by (intro yields_rules answers_granted) simp_all

lemma scan_records_terminal:
  "scan_records op rs = (c, Some a) \<Longrightarrow> a_operation_id a = op"
proof (induction rs arbitrary: c rule: rev_induct)
  case (snoc r rs)
  obtain cl t where s: "scan_records op rs = (cl, t)" by force
  from snoc show ?case by (cases r) (auto simp: scan_records_snoc s split: if_splits)
qed (simp add: scan_records_def)

lemma claim_replays:
  "yields (\<lambda>r. \<forall>a. r = Inr (Replay a) \<longrightarrow> a_operation_id a = rq_operation_id request)
    (claim_operation S request h isolation)"
  unfolding claim_operation_def
  by (intro yields_rules) (auto dest: scan_records_terminal split: option.splits)

lemma answers_replay:
  "a_operation_id a = rq_operation_id request \<Longrightarrow> yields (answers request h) (execute_replay E a)"
proof -
  assume op: "a_operation_id a = rq_operation_id request"
  have "yields (\<lambda>r. \<forall>a'. r = Inr a' \<longrightarrow> a_operation_id a' = a_operation_id a)
      (reconcile_interrupted (en_setting E) (en_outcomes E) a)"
    unfolding reconcile_interrupted_def Let_def
    by (intro yields_rules) simp_all
  then show ?thesis
    unfolding execute_replay_def
    by (rule yields_try_result)
      (auto intro!: yields_return simp: answers_def well_formed_report_def op)
qed

lemma answers_recovered: "yields (answers request h) (execute_recovered E request h n r i m)"
  unfolding execute_recovered_def Let_def by (intro yields_rules) simp_all

lemma execute_answers:
  "normalized_action_hash (s_hashing (en_setting E)) request = Inr h \<Longrightarrow>
    yields (answers request h) (execute E request)"
proof -
  assume h: "normalized_action_hash (s_hashing (en_setting E)) request = Inr h"
  have stage: "yields (answers request h) (case c of
      NewClaim \<Rightarrow> execute_new E request h isolation deadline
    | Replay a \<Rightarrow> execute_replay E a
    | RecoveredUnknown n r i m \<Rightarrow> execute_recovered E request h n r i m)"
    if "\<forall>a. Inr c = (Inr (Replay a) :: protocol_error + claim_result) \<longrightarrow>
      a_operation_id a = rq_operation_id request" for c isolation deadline
    using that by (cases c) (auto intro: answers_new answers_replay answers_recovered)
  show ?thesis
    unfolding execute_def h Let_def
    by (auto intro!: yields_rules yields_try_result [OF claim_replays] stage split: sum.splits)
qed

section \<open>What a success stands for\<close>

text \<open>
  The receipt of a fresh success: the effect is known and the desktop context was preserved;
  if verification was requested it succeeded, and then the observations before and after the
  dispatch are of the very element the request names, under one display geometry.
\<close>

definition trustworthy :: "action_request \<Rightarrow> string \<Rightarrow> receipt \<Rightarrow> bool" where
  "trustworthy request h r \<longleftrightarrow>
     rc_action_hash r = h \<and> rc_action_name r = action_name (rq_action request)
   \<and> rc_effect r \<noteq> UnknownEffect
   \<and> (rq_verification request \<noteq> NoVerification \<longrightarrow> rc_effect r = Verified)
   \<and> \<not> context_lost (rc_context_preservation r)
   \<and> (rq_interaction_mode request = BackgroundOnly \<longrightarrow>
        rc_context_preservation r \<in> {UnchangedAtBoundaries, ContextHostIsolated}
      \<and> (rc_session_isolation r = SharedDesktop \<longrightarrow> rc_delivery_route r = TargetAddressed))
   \<and> (rc_effect r = Verified \<longrightarrow> (\<exists>b a fp. rc_before r = Some b \<and> rc_after r = Some a
        \<and> expected_fingerprint (rq_target request) = Some fp
        \<and> e_target_fingerprint_hash b = Some fp \<and> e_target_fingerprint_hash a = Some fp
        \<and> e_display_geometry_hash b = e_display_geometry_hash a))"

definition background_ok :: "action_request \<Rightarrow> session_isolation \<Rightarrow> delivery_route \<Rightarrow> bool" where
  "background_ok request isolation route \<longleftrightarrow> rq_interaction_mode request = BackgroundOnly \<longrightarrow>
     isolation = SharedDesktop \<longrightarrow> route = TargetAddressed"

definition success_sound :: "action_request \<Rightarrow> string \<Rightarrow> terminal \<Rightarrow> bool" where
  "success_sound request h t \<longleftrightarrow> (\<forall>r. t = Succeeded r \<longrightarrow> trustworthy request h r)"

definition fresh_success_sound :: "action_request \<Rightarrow> string \<Rightarrow> protocol_error + execute_report \<Rightarrow> bool" where
  "fresh_success_sound request h result \<longleftrightarrow> (\<forall>report r. result = Inr report \<longrightarrow> length report = 3 \<longrightarrow>
     a_state (last report) = Terminal (Succeeded r) \<longrightarrow> trustworthy request h r)"

lemma success_sound_other [simp]:
  "success_sound request h (OutcomeUnknown r m)" "success_sound request h (Rejected c m)"
  "success_sound request h CancelledBeforeEffect" "success_sound request h ExpiredBeforeEffect"
  by (simp_all add: success_sound_def)

lemma fresh_success_sound_other [simp]:
  "fresh_success_sound request h (Inl e)" "fresh_success_sound request h (Inr [a])"
  "fresh_success_sound request h (Inr [a, b])"
  by (simp_all add: fresh_success_sound_def)

lemma verify_verified:
  "verify policy before after expected = (Verified, ws) \<Longrightarrow>
    \<exists>obs. after = Some obs \<and> same_target before obs expected \<and> policy \<noteq> NoVerification"
  by (cases "(policy, before, after, expected)" rule: verify.cases) (auto split: if_splits)

lemma verify_known: "verify policy before after expected = (eff, ws) \<Longrightarrow> eff \<noteq> UnknownEffect"
  by (cases "(policy, before, after, expected)" rule: verify.cases) (auto split: if_splits)

lemma yields_context_preservation:
  "yields (\<lambda>p. mode = BackgroundOnly \<longrightarrow> p \<noteq> NotApplicable) (context_preservation E mode isolation before deadline)"
  unfolding context_preservation_def
  by (intro yields_rules) (auto split: sum.splits)

lemma judged_sound:
  assumes "verify (rq_verification request) before seen (expected_fingerprint (rq_target request)) = (eff, ws)"
    and "rq_interaction_mode request = BackgroundOnly \<longrightarrow> preservation \<noteq> NotApplicable"
    and "background_ok request isolation route"
  shows "success_sound request h (judge (rq_verification request) boundary
       \<lparr>rc_protocol_version = v, rc_action_name = action_name (rq_action request), rc_action_hash = h,
        rc_started_at_ms = t0, rc_finished_at_ms = t1, rc_backend = b, rc_fallback_chain = c,
        rc_delivery_route = route, rc_session_isolation = isolation,
        rc_interaction_mode = rq_interaction_mode request, rc_context_preservation = preservation,
        rc_effect = (if boundary \<or> context_lost preservation then UnknownEffect else eff),
        rc_before = Some (o_evidence before), rc_after = map_option o_evidence seen, rc_warnings = w\<rparr>)"
proof (cases "boundary \<or> context_lost preservation")
  case False
  have "\<exists>obs fp. seen = Some obs \<and> expected_fingerprint (rq_target request) = Some fp
      \<and> e_target_fingerprint_hash (o_evidence before) = Some fp
      \<and> e_target_fingerprint_hash (o_evidence obs) = Some fp
      \<and> e_display_geometry_hash (o_evidence before) = e_display_geometry_hash (o_evidence obs)"
    if "eff = Verified"
    using verify_verified [OF assms(1) [unfolded that]] by (auto simp: same_target_def)
  moreover have "rq_interaction_mode request = BackgroundOnly \<Longrightarrow>
      preservation \<in> {UnchangedAtBoundaries, ContextHostIsolated}"
    using assms(2) False by (cases preservation) (auto simp: context_lost_def)
  ultimately show ?thesis
    using False verify_known [OF assms(1)] assms(3)
    by (auto simp: success_sound_def judge_def trustworthy_def background_ok_def)
qed (simp add: judge_def)

lemma yields_verified_terminal:
  "background_ok request isolation route \<Longrightarrow> yields (success_sound request h)
    (verified_terminal E request h isolation route before context deadline started d)"
  unfolding verified_terminal_def Let_def
  apply (rule yields_bind_result [OF yields_context_preservation])
  apply (intro yields_bind)
  apply (simp only: prod.case_eq_if)
  apply (intro yields_bind yields_return judged_sound [OF prod.collapse [symmetric]])
   apply simp_all
  done

lemma yields_dispatched_terminal:
  assumes "background_ok request isolation route"
  shows "yields (\<lambda>p. success_sound request h (fst p))
    (dispatched_terminal E request h isolation route before context deadline started result)"
proof -
  have verified: "yields (\<lambda>p. success_sound request h (fst p)) (do {
      terminal \<leftarrow> verified_terminal E request h isolation route before context deadline started d;
      ret (terminal, True) })" for d
    by (rule yields_bind_result [OF yields_verified_terminal [OF assms]]) (simp add: yields_return)
  show ?thesis
    unfolding dispatched_terminal_def
    apply (intro yields_case_sum)
    subgoal for e by (cases "de_effect e") (auto intro!: yields_rules)
    subgoal for d by (rule yields_bind, rule yields_if) (auto intro!: verified yields_rules)
    done
qed

lemma success_sound_conclude:
  assumes "success_sound request h (fst result)"
  shows "yields (fresh_success_sound request h) (conclude (E :: ('x, 'o) engine) request h result)"
proof -
  let ?a = "terminal_ack request h (fst result) False"
  let ?sound = "\<lambda>a. \<forall>r. a_state a = Terminal (Succeeded r) \<longrightarrow> trustworthy request h r"
  have unknown: "?sound (persistence_unknown_ack a)" for a
  proof -
    have "persistence_unknown_state st \<noteq> Terminal (Succeeded r)" for st r
      by (cases st rule: persistence_unknown_state.cases) auto
    then show ?thesis by (simp add: persistence_unknown_ack_def)
  qed
  have finished: "yields ?sound (finish_after_effect S a)" if "?sound a" for S a
    unfolding finish_after_effect_def by (intro yields_rules) (use that unknown in auto)
  have recorded: "?sound (case r of Inr _ \<Rightarrow> ?a | Inl _ \<Rightarrow> persistence_unknown_ack ?a)"
    for r :: "protocol_error + unit"
    using assms unknown by (cases r) (auto simp: success_sound_def)
  have report: "fresh_success_sound request h
      (Inr ([accepted_ack request h, executing_ack request h] @ [a]))" if "?sound a" for a
    using that by (simp add: fresh_success_sound_def)
  have effect: "yields (fresh_success_sound request h) (do {
      recorded \<leftarrow> m;
      a' \<leftarrow> finish_after_effect (en_setting E)
        (case recorded of Inr _ \<Rightarrow> ?a | Inl _ \<Rightarrow> persistence_unknown_ack ?a);
      ret (Inr ([accepted_ack request h, executing_ack request h] @ [a'])) })"
    for m :: "(('x, 'o) world, protocol_error + unit) state"
    by (rule yields_bind, rule yields_bind_result [OF finished [OF recorded]], rule yields_return, rule report)
  show ?thesis
    unfolding conclude_def Let_def
    by (rule yields_if, rule effect)
      (intro yields_rules; use report [of ?a] assms in \<open>simp add: success_sound_def\<close>)
qed

lemma success_sound_finish_early: "yields (fresh_success_sound request h) (finish_early E request h t)"
  unfolding finish_early_def Let_def by (intro yields_rules) simp_all

lemma success_sound_unless_boundary:
  "yields (fresh_success_sound request h) m \<Longrightarrow>
    yields (fresh_success_sound request h) (unless_boundary E request h deadline m)"
  unfolding unless_boundary_def by (intro yields_rules success_sound_finish_early)

lemma success_sound_dispatch:
  "background_ok request isolation route \<Longrightarrow> yields (fresh_success_sound request h)
    (execute_dispatch E request h isolation route before resolved context deadline)"
  unfolding execute_dispatch_def
  by (rule yields_bind, rule yields_bind, rule yields_bind,
      rule yields_bind_result [OF yields_dispatched_terminal], assumption, erule success_sound_conclude)

lemma success_sound_granted:
  "yields (fresh_success_sound request h) (execute_granted E request h isolation deadline)"
  unfolding execute_granted_def execute_capable_def execute_observed_def execute_context_def
  by (intro yields_rules success_sound_unless_boundary success_sound_finish_early success_sound_dispatch)
    (auto simp: background_ok_def background_capability_is_authorized_def)

lemma success_sound_new:
  "yields (fresh_success_sound request h) (execute_new E request h isolation deadline)"
  unfolding execute_new_def Let_def by (intro yields_rules success_sound_granted) simp_all

lemma yields_case_claim:
  "yields Q a \<Longrightarrow> (\<And>x. yields Q (b x)) \<Longrightarrow> (\<And>n r i m. yields Q (c n r i m)) \<Longrightarrow>
    yields Q (case cl of NewClaim \<Rightarrow> a | Replay x \<Rightarrow> b x | RecoveredUnknown n r i m \<Rightarrow> c n r i m)"
  by (cases cl) simp_all

lemma execute_success_sound:
  "normalized_action_hash (s_hashing (en_setting E)) request = Inr h \<Longrightarrow>
    yields (fresh_success_sound request h) (execute E request)"
  unfolding execute_def execute_replay_def execute_recovered_def Let_def
  by (auto intro!: yields_rules yields_case_claim success_sound_new)

end
