(* ===== verification/Recovery.thy ===== *)
theory Recovery
  imports Results
begin

text \<open>
  Replay, conflict and recovery.  On a file system that answers every call (\<open>healthy\<close>) the
  result of \<open>execute\<close> and \<open>status\<close> on an operation the ledger already knows is determined by
  the records in the file alone: the stored acknowledgement, a conflict, or "outcome unknown",
  and nothing is dispatched.
\<close>

definition healthy :: "('x, 'o) world \<Rightarrow> bool" where
  "healthy w \<longleftrightarrow> (\<forall>n. io_at (h_env (w_host w)) n = IoOk \<and> contention_at (h_env (w_host w)) n = 0)"

definition tick :: "nat \<Rightarrow> ('x, 'o) world \<Rightarrow> ('x, 'o) world" where
  "tick k w = w\<lparr>w_host := (w_host w)\<lparr>h_tick := k + h_tick (w_host w)\<rparr>\<rparr>"

definition put_file :: "file_id \<Rightarrow> string \<Rightarrow> ('x, 'o) world \<Rightarrow> ('x, 'o) world" where
  "put_file f b w = w\<lparr>w_files := (w_files w)(f \<mapsto> b)\<rparr>"

definition log_events :: "event list \<Rightarrow> ('x, 'o) world \<Rightarrow> ('x, 'o) world" where
  "log_events evs w = w\<lparr>w_trace := w_trace w @ evs\<rparr>"

lemma world_simps [simp]:
  "healthy (tick k w) = healthy w" "healthy (put_file f b w) = healthy w"
  "healthy (log_events evs w) = healthy w"
  "w_files (tick k w) = w_files w" "w_files (put_file f b w) = (w_files w)(f \<mapsto> b)"
  "w_files (log_events evs w) = w_files w"
  "w_trace (tick k w) = w_trace w" "w_trace (put_file f b w) = w_trace w"
  "w_trace (log_events evs w) = w_trace w @ evs"
  "w_outcomes (tick k w) = w_outcomes w" "w_outcomes (put_file f b w) = w_outcomes w"
  "w_outcomes (log_events evs w) = w_outcomes w"
  "tick j (tick k w) = tick (j + k) w"
  "tick k (put_file f b w) = put_file f b (tick k w)"
  "tick k (log_events evs w) = log_events evs (tick k w)"
  by (simp_all add: healthy_def tick_def put_file_def log_events_def)

lemma tick_0 [simp]: "tick 0 w = w"
  by (simp add: tick_def)

section \<open>Running the file operations\<close>

lemma run_io_step: "healthy w \<Longrightarrow> run_state io_step w = (Inr (), tick 1 w)"
  by (simp add: io_step_def on_host_def next_io_def healthy_def tick_def)

lemma run_get_file: "run_state (get_file f) w = (w_files w f, w)"
  by (simp add: get_file_def)

lemma run_open_create:
  "healthy w \<Longrightarrow> run_state (open_create f) w = (Inr (), put_file f (content (w_files w f)) (tick 1 w))"
  by (simp add: open_create_def run_io_step change_file_def put_file_def content_def)

lemma run_write_all:
  "healthy w \<Longrightarrow> run_state (write_all f s) w =
    (Inr (), log_events [EvAppend f s] (put_file f (content (w_files w f) @ s) (tick 1 w)))"
  by (simp add: write_all_def on_host_def next_io_def healthy_def change_file_def put_file_def
      log_events_def content_def tick_def)

lemma run_sync_all:
  "healthy w \<Longrightarrow> run_state (sync_all f) w =
    (Inr (), log_events [EvSync f] (put_file f (content (w_files w f)) (tick 1 w)))"
  by (simp add: sync_all_def run_io_step change_file_def put_file_def log_events_def content_def)

lemmas run_files = run_io_step run_get_file run_open_create run_write_all run_sync_all

lemma run_read_contention:
  "healthy w \<Longrightarrow> run_state (on_host (read_oracle contention_at)) w = (0, tick 1 w)"
  by (simp add: on_host_def healthy_def tick_def)

lemma run_now: "\<exists>t. run_state (on_host now_ms) w = (t, tick 1 w)"
  by (simp add: on_host_def now_ms_def tick_def)

lemma put_file_twice [simp]: "put_file f a (put_file f b w) = put_file f a w"
  by (simp add: put_file_def)

lemma run_lock:
  "healthy w \<Longrightarrow> \<exists>k. run_state (acquire_ledger_lock f boundary) w
    = (Inr (), put_file f (content (w_files w f)) (tick k w))"
  by (cases "w_files w f"; cases boundary)
    (auto simp: acquire_ledger_lock_def run_files run_read_contention)

lemma run_repair_intact:
  assumes "healthy w" and "w_files w f = Some bytes" and "repaired parse bytes = Some bytes"
  shows "run_state (repair_jsonl_tail f parse message) w = (Inr (), tick 3 w)"
  using assms by (simp add: repair_jsonl_tail_def run_files eval_nat_numeral)

lemma run_records:
  assumes "codec_sound S" and "healthy w"
    and "w_files w LedgerFile = Some (journal (write_record (s_codec S)) rs)"
  shows "run_state (records S) w = (Inr rs, tick 3 w)"
  using assms read_journal [of "write_record (s_codec S)" "read_record (s_codec S)"]
  by (simp add: records_def run_files codec_sound_def eval_nat_numeral)

lemma run_repair_tail:
  assumes "codec_sound S" and "healthy w"
    and "w_files w LedgerFile = Some (journal (write_record (s_codec S)) rs)"
  shows "run_state (repair_tail S) w = (Inr (), tick 3 w)"
  unfolding repair_tail_def
  using assms(1) by (intro run_repair_intact [OF assms(2,3)] repaired_journal) (simp add: codec_sound_def)

section \<open>Appending to the journal\<close>

text \<open>The trajectory is best effort: it leaves the ledger, the outcomes and the dispatches alone.\<close>

definition ledger_view :: "('x, 'o) world \<Rightarrow> string option \<times> 'o \<times> event list" where
  "ledger_view w = (w_files w LedgerFile, w_outcomes w, filter dispatch_event (w_trace w))"

lemma view_change_file:
  "f \<noteq> LedgerFile \<Longrightarrow> list_all (\<lambda>e. \<not> dispatch_event e) evs \<Longrightarrow>
    keeps (\<lambda>w. ledger_view w = v) (change_file f g evs)"
  by (simp add: keeps_def change_file_def ledger_view_def list_all_iff)

lemma view_host: "keeps (\<lambda>w. ledger_view w = v) (on_host m)"
  by (simp add: keeps_def on_host_def ledger_view_def split: prod.splits)

lemma view_io_step: "keeps (\<lambda>w. ledger_view w = v) io_step"
  unfolding io_step_def by (intro keeps_bind keeps_case_io keeps_return view_host)

lemma view_other_file:
  assumes "f \<noteq> LedgerFile"
  shows "keeps (\<lambda>w. ledger_view w = v) (open_create f)" "keeps (\<lambda>w. ledger_view w = v) (write_all f s)"
    "keeps (\<lambda>w. ledger_view w = v) (sync_all f)" "keeps (\<lambda>w. ledger_view w = v) (set_len f n)"
  unfolding open_create_def write_all_def sync_all_def set_len_def using assms
  by (intro keeps_bind keeps_try keeps_case_io keeps_return view_host view_io_step view_change_file;
      simp)+

lemma view_lock_attempts: "keeps (\<lambda>w. ledger_view w = v) (lock_attempts deadline n)"
  by (induction n) (auto intro!: view_io_step keeps_bind keeps_if keeps_return view_host)

lemma view_trajectory: "keeps (\<lambda>w. ledger_view w = v) (trajectory S a)"
proof -
  note get = keeps_get_file [of "\<lambda>w. ledger_view w = v"]
  have lock: "keeps (\<lambda>w. ledger_view w = v) trajectory_lock"
    unfolding trajectory_lock_def acquire_ledger_lock_def
    by (intro keeps_try keeps_bind keeps_if keeps_case_option keeps_return get view_io_step view_other_file
        view_host view_lock_attempts) simp_all
  have repair: "keeps (\<lambda>w. ledger_view w = v) (repair_jsonl_tail TrajectoryFile parse message)"
    for parse :: "string \<Rightarrow> 'r option" and message
    unfolding repair_jsonl_tail_def
    by (intro keeps_try keeps_bind keeps_if keeps_case_option keeps_return get view_io_step view_other_file) simp_all
  have append: "keeps (\<lambda>w. ledger_view w = v) (append_line TrajectoryFile line)" for line
    unfolding append_line_def
    by (intro keeps_try keeps_bind keeps_if keeps_return get view_io_step view_other_file) simp_all
  show ?thesis
    unfolding trajectory_def by (intro keeps_try keeps_bind keeps_return view_io_step view_host lock repair append)
qed

lemma run_append_record:
  assumes "healthy w" and "w_files w LedgerFile = Some (journal (write_record (s_codec S)) rs)"
  shows "\<exists>w'. run_state (append_record S r) w = (Inr (), w')
    \<and> ledger_view w' = (Some (journal (write_record (s_codec S)) (rs @ [r])), w_outcomes w,
        filter dispatch_event (w_trace w))"
  using assms by (simp add: append_record_def append_line_def run_files ledger_view_def journal_snoc)

lemma run_finish:
  assumes "healthy w" and "w_files w LedgerFile = Some (journal (write_record (s_codec S)) rs)"
  shows "\<exists>w'. run_state (finish S a) w = (Inr (), w')
    \<and> ledger_view w' = (Some (journal (write_record (s_codec S)) (rs @ [TerminalRecord a])),
        w_outcomes w, filter dispatch_event (w_trace w))"
proof -
  obtain w' where w': "run_state (append_record S (TerminalRecord a)) w = (Inr (), w')"
    and v: "ledger_view w' = (Some (journal (write_record (s_codec S)) (rs @ [TerminalRecord a])),
        w_outcomes w, filter dispatch_event (w_trace w))"
    using run_append_record [OF assms] by blast
  obtain r t where t: "run_state (trajectory S a) w' = (r, t)" by force
  have "ledger_view t = ledger_view w'" using keepsD [OF view_trajectory _ t] by blast
  with w' v t show ?thesis by (simp add: finish_def)
qed

section \<open>Known operations\<close>

text \<open>The beginning of every call: the lock, the repair, the records.\<close>

lemma run_prelude:
  assumes "codec_sound S" and "healthy w"
    and "w_files w LedgerFile = Some (journal (write_record (s_codec S)) rs)"
  shows "\<exists>w'. run_state (execution_lock boundary) w = (Inr (), w') \<and> healthy w'
    \<and> w_files w' LedgerFile = Some (journal (write_record (s_codec S)) rs)
    \<and> w_outcomes w' = w_outcomes w \<and> w_trace w' = w_trace w"
proof -
  obtain k where "run_state (execution_lock boundary) w
      = (Inr (), put_file LedgerLockFile (content (w_files w LedgerLockFile)) (tick k w))"
    using run_lock [OF assms(2), of LedgerLockFile boundary] by (auto simp: execution_lock_def)
  with assms show ?thesis by simp
qed

definition accepted_request :: "('x, 'o) engine \<Rightarrow> action_request \<Rightarrow> string \<Rightarrow> bool" where
  "accepted_request E request h \<longleftrightarrow>
     validate_request (s_hashing (en_setting E)) (en_parent_is_dir E) request = Inr ()
   \<and> normalized_action_hash (s_hashing (en_setting E)) request = Inr h
   \<and> (\<exists>authority. en_authority E request h = Inr authority)"

lemma run_execute_claimed:
  assumes codec: "codec_sound (en_setting E)" and request: "accepted_request E request h"
    and isolation: "x_session_isolation (en_executor E) = ret isolation"
    and w: "healthy w" "w_files w LedgerFile = Some (journal (write_record (s_codec (en_setting E))) rs)"
    and scan: "scan_records (rq_operation_id request) rs = (Some c, terminal)"
  shows "\<exists>w'. healthy w'
    \<and> w_files w' LedgerFile = Some (journal (write_record (s_codec (en_setting E))) rs)
    \<and> w_outcomes w' = w_outcomes w \<and> w_trace w' = w_trace w
    \<and> run_state (execute E request) w =
        (if lc_action_hash c \<noteq> h then (Inl Conflict, w')
         else case terminal of
           Some a \<Rightarrow> run_state (execute_replay E a) w'
         | None \<Rightarrow> run_state (execute_recovered E request h (lc_action_name c) (lc_delivery_route c)
             (lc_session_isolation c) (lc_interaction_mode c)) w')"
proof -
  from request obtain authority where ok:
    "validate_request (s_hashing (en_setting E)) (en_parent_is_dir E) request = Inr ()"
    "normalized_action_hash (s_hashing (en_setting E)) request = Inr h"
    "en_authority E request h = Inr authority"
    unfolding accepted_request_def by blast
  let ?d = "min (rq_deadline_at_ms request) (va_expires_at_ms authority)"
  obtain w1 where w1: "run_state (execution_lock (Some ?d)) w = (Inr (), w1)" "healthy w1"
    "w_files w1 LedgerFile = Some (journal (write_record (s_codec (en_setting E))) rs)"
    "w_outcomes w1 = w_outcomes w" "w_trace w1 = w_trace w"
    using run_prelude [OF codec w] by blast
  have tail: "run_state (repair_tail (en_setting E)) w1 = (Inr (), tick 3 w1)"
    by (rule run_repair_tail [OF codec w1(2,3)])
  have recs: "run_state (records (en_setting E)) (tick 3 w1) = (Inr rs, tick 6 w1)"
    using run_records [OF codec, of "tick 3 w1" rs] w1(2,3) by simp
  have iso: "run_state (on_host (ret isolation)) w = (isolation, w)"
    by (simp add: on_host_def)
  show ?thesis
    using ok w1 by (intro exI [of _ "tick 6 w1"])
      (auto simp: execute_def isolation iso tail claim_operation_def recs scan Let_def split: option.splits)
qed

lemma execute_replays:
  assumes "codec_sound (en_setting E)" and "accepted_request E request h"
    and "x_session_isolation (en_executor E) = ret isolation"
    and "healthy w" "w_files w LedgerFile = Some (journal (write_record (s_codec (en_setting E))) rs)"
    and "scan_records (rq_operation_id request) rs = (Some c, Some a)"
    and "lc_action_hash c = h" and "\<not> is_interrupted (a_state a)"
  shows "\<exists>w'. run_state (execute E request) w = (Inr [a\<lparr>a_replayed := True\<rparr>], w')
    \<and> ledger_view w' = ledger_view w"
  using run_execute_claimed [OF assms(1-6)] assms(4-8)
  by (auto simp: execute_replay_def reconcile_interrupted_def ledger_view_def)

lemma execute_conflicts:
  assumes "codec_sound (en_setting E)" and "accepted_request E request h"
    and "x_session_isolation (en_executor E) = ret isolation"
    and "healthy w" "w_files w LedgerFile = Some (journal (write_record (s_codec (en_setting E))) rs)"
    and "scan_records (rq_operation_id request) rs = (Some c, terminal)"
    and "lc_action_hash c \<noteq> h"
  shows "\<exists>w'. run_state (execute E request) w = (Inl Conflict, w') \<and> ledger_view w' = ledger_view w"
  using run_execute_claimed [OF assms(1-6)] assms(4-7) by (auto simp: ledger_view_def)

text \<open>A claim without a terminal: the outcome is unknown, and says so from then on.\<close>

lemma execute_recovers:
  assumes "codec_sound (en_setting E)" and "accepted_request E request h"
    and "x_session_isolation (en_executor E) = ret isolation"
    and "healthy w" and "w_files w LedgerFile = Some (journal (write_record (s_codec (en_setting E))) rs)"
    and "scan_records (rq_operation_id request) rs = (Some c, None)"
    and "lc_action_hash c = h"
    and granted: "run_state (oo_begin (en_outcomes E) (outcome_key request h)) (w_outcomes w) = (Inr d, s)"
    and unknown: "\<forall>t. d \<noteq> Recorded t"
  shows "\<exists>r w'. run_state (execute E request) w =
      (Inr [terminal_ack request h (OutcomeUnknown r interrupted_outcome_message) False], w')
    \<and> rc_effect r = UnknownEffect
    \<and> ledger_view w' = (Some (journal (write_record (s_codec (en_setting E))) (rs @ [TerminalRecord
        (terminal_ack request h (OutcomeUnknown r interrupted_outcome_message) False)])),
        s, filter dispatch_event (w_trace w))"
proof -
  obtain w1 where w1: "healthy w1"
    "w_files w1 LedgerFile = Some (journal (write_record (s_codec (en_setting E))) rs)"
    "w_outcomes w1 = w_outcomes w" "w_trace w1 = w_trace w"
    and run: "run_state (execute E request) w = run_state (execute_recovered E request h
      (lc_action_name c) (lc_delivery_route c) (lc_session_isolation c) (lc_interaction_mode c)) w1"
    using run_execute_claimed [OF assms(1-6)] assms(7) by auto
  obtain r where r: "run_state (on_host (empty_receipt (s_platform (en_setting E)) request h
      UnknownEffect (unwrap_or (lc_session_isolation c) UnknownIsolation))) w1 = (r, tick 2 w1)"
    and eff: "rc_effect r = UnknownEffect"
    by (simp add: on_host_def empty_receipt_def now_ms_def tick_def)
  define r' where "r' = r\<lparr>rc_action_name := unwrap_or (lc_action_name c) ''unknown'',
      rc_delivery_route := unwrap_or (lc_delivery_route c) UnknownRoute,
      rc_interaction_mode := unwrap_or (lc_interaction_mode c) UnknownInteraction\<rparr>"
  let ?a = "terminal_ack request h (OutcomeUnknown r' interrupted_outcome_message) False"
  have begun: "run_state (on_outcomes (oo_begin (en_outcomes E) (outcome_key request h))) (tick 2 w1)
      = (Inr d, (tick 2 w1)\<lparr>w_outcomes := s\<rparr>)"
    using granted w1(3) by (simp add: on_outcomes_def)
  let ?w2 = "(tick 2 w1)\<lparr>w_outcomes := s\<rparr>"
  have "healthy ?w2" "w_files ?w2 LedgerFile = Some (journal (write_record (s_codec (en_setting E))) rs)"
    using w1(1,2) by (simp_all add: healthy_def tick_def)
  from run_finish [OF this, of ?a] obtain w3 where
    "run_state (finish (en_setting E) ?a) ?w2 = (Inr (), w3)"
    "ledger_view w3 = (Some (journal (write_record (s_codec (en_setting E))) (rs @ [TerminalRecord ?a])),
        s, filter dispatch_event (w_trace w))"
    using w1(4) by (auto simp: tick_def)
  then have run': "run_state (execute E request) w = (Inr [?a], w3)"
    and view: "ledger_view w3 = (Some (journal (write_record (s_codec (en_setting E)))
        (rs @ [TerminalRecord ?a])), s, filter dispatch_event (w_trace w))"
    unfolding run execute_recovered_def using unknown
    by (cases d; simp add: r begun Let_def r'_def)+
  have "rc_effect r' = UnknownEffect" by (simp add: r'_def eff)
  with run' view show ?thesis by blast
qed

section \<open>Status\<close>

lemma run_status_records:
  assumes "codec_sound (en_setting E)" and "valid_identifier op" and "healthy w"
    and "w_files w LedgerFile = Some (journal (write_record (s_codec (en_setting E))) rs)"
  shows "\<exists>w'. healthy w'
    \<and> w_files w' LedgerFile = Some (journal (write_record (s_codec (en_setting E))) rs)
    \<and> w_outcomes w' = w_outcomes w \<and> w_trace w' = w_trace w
    \<and> run_state (status E op) w = run_state
        (case scan_records op rs of
           (_, Some a) \<Rightarrow> try_bind (reconcile_interrupted (en_setting E) (en_outcomes E) a)
             (\<lambda>a'. ret (Inr (Some a')))
         | (None, None) \<Rightarrow> ret (Inr None)
         | (Some c, None) \<Rightarrow> do {
             finished \<leftarrow> on_host now_ms;
             let a = generate_interrupted_ack c finished;
             try_bind (on_outcomes (oo_begin (en_outcomes E) (outcome_key_of a))) (\<lambda>decision.
               let a' = (case decision of
                   Recorded terminal \<Rightarrow> a\<lparr>a_state := Terminal terminal\<rparr>
                 | _ \<Rightarrow> a) in
               try_bind (finish (en_setting E) a') (\<lambda>_. ret (Inr (Some a'))))
           }) w'"
proof -
  obtain w1 where w1: "run_state (execution_lock None) w = (Inr (), w1)" "healthy w1"
    "w_files w1 LedgerFile = Some (journal (write_record (s_codec (en_setting E))) rs)"
    "w_outcomes w1 = w_outcomes w" "w_trace w1 = w_trace w"
    using run_prelude [OF assms(1,3,4)] by blast
  have tail: "run_state (repair_tail (en_setting E)) w1 = (Inr (), tick 3 w1)"
    by (rule run_repair_tail [OF assms(1) w1(2,3)])
  have recs: "run_state (records (en_setting E)) (tick 3 w1) = (Inr rs, tick 6 w1)"
    using run_records [OF assms(1), of "tick 3 w1" rs] w1(2,3) by simp
  show ?thesis
    using w1 assms(2)
    by (intro exI [of _ "tick 6 w1"]) (simp add: status_def ledger_status_def tail recs)
qed

lemma status_returns_terminal:
  assumes "codec_sound (en_setting E)" and "valid_identifier op" and "healthy w"
    and "w_files w LedgerFile = Some (journal (write_record (s_codec (en_setting E))) rs)"
    and "scan_records op rs = (c, Some a)" and "\<not> is_interrupted (a_state a)"
  shows "\<exists>w'. run_state (status E op) w = (Inr (Some a), w') \<and> ledger_view w' = ledger_view w"
  using run_status_records [OF assms(1-4)] assms(4-6)
  by (cases c) (auto simp: reconcile_interrupted_def ledger_view_def)

lemma status_unknown_operation:
  assumes "codec_sound (en_setting E)" and "valid_identifier op" and "healthy w"
    and "w_files w LedgerFile = Some (journal (write_record (s_codec (en_setting E))) rs)"
    and "scan_records op rs = (None, None)"
  shows "\<exists>w'. run_state (status E op) w = (Inr None, w') \<and> ledger_view w' = ledger_view w"
  using run_status_records [OF assms(1-4)] assms(4-5) by (auto simp: ledger_view_def)

end
