(* ===== verification/Sample.thy ===== *)
theory Sample
  imports EngineSafety "HOL-Library.Countable"
begin

text \<open>
  A concrete instance of the parameters, on which the theorems with hypotheses are applied:
  a codec of ledger records that meets \<open>codec_sound\<close>, hashing functions, a request that
  passes validation, an engine and a world.  The codec numbers the records (they are
  countable) and prints a number in unary between braces.
\<close>

section \<open>A codec\<close>

instance safety_class :: countable by countable_datatype
instance interaction_mode :: countable by countable_datatype
instance session_isolation :: countable by countable_datatype
instance delivery_route :: countable by countable_datatype
instance context_preservation :: countable by countable_datatype
instance failure_code :: countable by countable_datatype
instance effect :: countable by countable_datatype

instance evidence_ext :: (countable) countable
proof
  show "\<exists>f :: 'a evidence_scheme \<Rightarrow> nat. inj f"
    by (rule exI [of _ "\<lambda>e. to_nat (e_observation_hash e, e_target_fingerprint_hash e,
        e_display_geometry_hash e, e_observed_at_ms e, evidence.more e)"]) (auto intro!: injI evidence.equality)
qed

instance receipt_ext :: (countable) countable
proof
  show "\<exists>f :: 'a receipt_scheme \<Rightarrow> nat. inj f"
    by (rule exI [of _ "\<lambda>r. to_nat ((rc_protocol_version r, rc_action_name r, rc_action_hash r,
        rc_started_at_ms r, rc_finished_at_ms r, rc_backend r, rc_fallback_chain r),
        (rc_delivery_route r, rc_session_isolation r, rc_interaction_mode r,
        rc_context_preservation r, rc_effect r, rc_before r, rc_after r, rc_warnings r), receipt.more r)"])
      (auto intro!: injI receipt.equality)
qed

instance terminal :: countable by countable_datatype
instance ack_state :: countable by countable_datatype

instance action_ack_ext :: (countable) countable
proof
  show "\<exists>f :: 'a action_ack_scheme \<Rightarrow> nat. inj f"
    by (rule exI [of _ "\<lambda>a. to_nat (a_protocol_version a, a_operation_id a, a_sequence a,
        a_action_hash a, a_replayed a, a_state a, action_ack.more a)"])
      (auto intro!: injI action_ack.equality)
qed

instance ledger_claim_ext :: (countable) countable
proof
  show "\<exists>f :: 'a ledger_claim_scheme \<Rightarrow> nat. inj f"
    by (rule exI [of _ "\<lambda>c. to_nat (lc_operation_id c, lc_action_hash c, lc_claimed_at_ms c,
        lc_action_name c, lc_delivery_route c, lc_session_isolation c, lc_interaction_mode c,
        ledger_claim.more c)"])
      (auto intro!: injI ledger_claim.equality)
qed

instance ledger_record :: countable by countable_datatype

definition sample_write :: "ledger_record \<Rightarrow> string" where
  "sample_write r = CHR 0x7B # replicate (to_nat r) CHR 0x78 @ [CHR 0x7D]"

definition sample_read :: "string \<Rightarrow> ledger_record option" where
  "sample_read s = (if 2 \<le> length s \<and> s = CHR 0x7B # replicate (length s - 2) CHR 0x78 @ [CHR 0x7D]
     then Some (from_nat (length s - 2)) else None)"

definition sample_codec :: codec where
  "sample_codec = \<lparr>write_record = sample_write, read_record = sample_read, read_value = \<lambda>_. None\<rparr>"

lemma sample_codec_ok: "codec_ok sample_write sample_read"
proof -
  have "sample_read (sample_write r) = Some r" for r
    by (simp add: sample_write_def sample_read_def)
  moreover have "valid_utf8 (sample_write r)" for r
    by (rule valid_utf8_ascii) (simp add: sample_write_def list_all_iff)
  moreover have "newline \<notin> set (sample_write r)" for r
    by (simp add: sample_write_def newline_def)
  ultimately show ?thesis by (auto simp: codec_ok_def sample_write_def)
qed

section \<open>An engine and a request\<close>

definition zero_hash :: string where "zero_hash = replicate 64 CHR ''0''"

definition sample_hashing :: hashing where
  "sample_hashing = \<lparr>sha256_hex = \<lambda>_. zero_hash, json_text = \<lambda>_. []\<rparr>"

definition sample_setting :: setting where
  "sample_setting = \<lparr>s_platform = Linux, s_hashing = sample_hashing, s_codec = sample_codec\<rparr>"

definition sample_evidence :: evidence where
  "sample_evidence = \<lparr>e_observation_hash = zero_hash, e_target_fingerprint_hash = Some zero_hash,
     e_display_geometry_hash = zero_hash, e_observed_at_ms = 1\<rparr>"

definition sample_observation :: observation where
  "sample_observation = \<lparr>o_evidence = sample_evidence, o_element = None,
     o_state = JObj [(''value_hash'', JStr zero_hash)]\<rparr>"

definition sample_executor :: "unit executor" where
  "sample_executor = \<lparr>x_session_isolation = ret SharedDesktop,
     x_capabilities = ret (Inr \<lparr>c_platform = ''linux'', c_backend = ''test'',
       c_session_isolation = SharedDesktop, c_supported_actions = [''invoke'', ''set_value''],
       c_action_capabilities = [
         \<lparr>ac_action = ''invoke'', ac_delivery_route = TargetAddressed, ac_background_support = Guarded\<rparr>,
         \<lparr>ac_action = ''set_value'', ac_delivery_route = TargetAddressed, ac_background_support = Guarded\<rparr>],
       c_permissions = [], c_display_geometry_hash = zero_hash\<rparr>),
     x_context_hash = \<lambda>_. ret (Inr zero_hash),
     x_observe = \<lambda>_ _. ret (Inr sample_observation),
     x_resolve = \<lambda>_ _. ret (Inr NoResolved),
     x_dispatch = \<lambda>_ _ _ _. ret (Inr \<lparr>dr_backend = ''test'', dr_fallback_chain = []\<rparr>)\<rparr>"

definition sample_target :: semantic_target_ref where
  "sample_target = \<lparr>t_observation_id = zero_hash, t_generation = 1, t_provenance_hash = zero_hash,
     t_element_id = zero_hash, t_fingerprint_hash = zero_hash\<rparr>"

definition sample_grant :: authority_grant where
  "sample_grant = \<lparr>g_protocol_version = 2, g_issuer = ''i'', g_key_id = ''k'',
     g_operation_id = ''op'', g_subject = ''u'', g_session_id = ''s'', g_risk = Reversible,
     g_expires_at_ms = 1000, g_policy_generation = ''p'', g_action_hash = zero_hash\<rparr>"

definition sample_request :: action_request where
  "sample_request = \<lparr>rq_protocol_version = 2, rq_action_version = 2, rq_target_version = 2,
     rq_verification_version = 2, rq_operation_id = ''op'', rq_subject = ''u'', rq_session_id = ''s'',
     rq_authority = \<lparr>sa_grant = sample_grant, sa_signature = replicate 128 CHR ''0''\<rparr>,
     rq_action = SetValue ''v'', rq_target = Element sample_target,
     rq_interaction_mode = BackgroundOnly, rq_deadline_at_ms = 1000,
     rq_verification = TargetValueHash zero_hash, rq_safety = Reversible\<rparr>"

definition sample_engine :: "(unit, memory_ledger) engine" where
  "sample_engine = \<lparr>en_setting = sample_setting, en_executor = sample_executor,
     en_authority = \<lambda>request h. Inr \<lparr>va_expires_at_ms = 1000\<rparr>,
     en_outcomes = memory_outcomes, en_parent_is_dir = \<lambda>_. True\<rparr>"

text \<open>The clock stands still, nobody cancels, the file system never fails.\<close>

definition sample_env :: env where
  "sample_env = \<lparr>now_at = \<lambda>_. 5, cancelled_at = \<lambda>_. False, io_at = \<lambda>_. IoOk, contention_at = \<lambda>_. 0\<rparr>"

definition sample_world :: "(unit, memory_ledger) world" where
  "sample_world = \<lparr>w_host = \<lparr>h_env = sample_env, h_tick = 0, h_exec = ()\<rparr>,
     w_files = \<lambda>_. None, w_outcomes = memory_new, w_trace = []\<rparr>"

lemmas sample_defs = sample_engine_def sample_setting_def sample_executor_def sample_codec_def
  sample_hashing_def sample_observation_def sample_evidence_def sample_env_def sample_world_def
  sample_request_def sample_grant_def sample_target_def

lemma sample_codec_sound: "codec_sound sample_setting"
  by (simp add: codec_sound_def sample_setting_def sample_codec_def sample_codec_ok)

section \<open>Running the sample\<close>

lemma run_on_host: "run_state (on_host m) w = (fst (run_state m (w_host w)), w\<lparr>w_host := snd (run_state m (w_host w))\<rparr>)"
  by (simp add: on_host_def case_prod_unfold Let_def)

lemma run_on_outcomes: "run_state (on_outcomes m) w = (fst (run_state m (w_outcomes w)), w\<lparr>w_outcomes := snd (run_state m (w_outcomes w))\<rparr>)"
  by (simp add: on_outcomes_def case_prod_unfold Let_def)

lemma zero_hash_valid: "length zero_hash = 64" "list_all is_lower_hexdigit zero_hash" "list_all is_ascii_hexdigit zero_hash"
  "semantic_hash zero_hash" "is_hash zero_hash" "valid_protocol_snapshot_id zero_hash"
  by (simp_all add: zero_hash_def list_all_iff byte_defs semantic_hash_def is_hash_def valid_protocol_snapshot_id_def chars_ascii)

lemma sample_request_valid: "validate_request sample_hashing (\<lambda>_. True) sample_request = Inr ()"
  using zero_hash_valid by (simp add: validation_defs sample_request_def sample_target_def sample_hashing_def sample_grant_def
    protocol_version_def valid_identifier_def identifier_byte_def is_ascii_alphanumeric_def is_ascii_alphabetic_def value_verification_ok_def bounded_text_def
    max_select_text_range_def)
     (simp add: list_all_iff byte_defs)?

lemma sample_action_hash: "normalized_action_hash sample_hashing sample_request = Inr zero_hash"
  by (simp add: normalized_action_hash_def sample_request_def sample_hashing_def hash_serializable_def canonical_json_bytes_def validate_verification_def)

definition sample_state :: "nat \<Rightarrow> (file_id \<Rightarrow> string option) \<Rightarrow> memory_ledger \<Rightarrow> event list \<Rightarrow> (unit, memory_ledger) world" where
  "sample_state n files os tr = \<lparr>w_host = \<lparr>h_env = sample_env, h_tick = n, h_exec = ()\<rparr>,
     w_files = files, w_outcomes = os, w_trace = tr\<rparr>"

lemma sample_run_io_step [simp]: "run_state io_step (sample_state n f os t) = (Inr (), sample_state (Suc n) f os t)"
  by (simp add: run_on_host io_step_def next_io_def sample_state_def sample_env_def)

lemma sample_run_now [simp]: "run_state (on_host now_ms) (sample_state n f os t) = (5, sample_state (Suc n) f os t)"
  by (simp add: run_on_host now_ms_def sample_state_def sample_env_def)

lemma sample_run_contention [simp]: "run_state (on_host (read_oracle contention_at)) (sample_state n f os t) = (0, sample_state (Suc n) f os t)"
  by (simp add: run_on_host now_ms_def sample_state_def sample_env_def)

lemma sample_run_cancelled [simp]: "run_state (on_host is_cancelled) (sample_state n f os t) = (False, sample_state (Suc n) f os t)"
  by (simp add: run_on_host is_cancelled_def sample_state_def sample_env_def)

lemma sample_run_boundary [simp]: "run_state (on_host (boundary_reached d)) (sample_state n f os t) = (d \<le> 5, sample_state (Suc (Suc n)) f os t)"
  by (simp add: run_on_host boundary_reached_def is_cancelled_def now_ms_def sample_state_def sample_env_def)

lemma sample_run_return [simp]: "run_state (on_host (ret x)) (sample_state n f os t) = (x, sample_state n f os t)"
  by (simp add: run_on_host sample_state_def)

lemma sample_run_get_file [simp]: "run_state (get_file g) (sample_state n f os t) = (f g, sample_state n f os t)"
  by (simp add: get_file_def sample_state_def)

lemma sample_run_change_file [simp]: "run_state (change_file g u evs) (sample_state n f os t) = ((), sample_state n (f(g \<mapsto> u (content (f g)))) os (t @ evs))"
  by (simp add: change_file_def sample_state_def content_def)

lemma sample_run_write_all [simp]: "run_state (write_all g s) (sample_state n f os t) = (Inr (), sample_state (Suc n) (f(g \<mapsto> content (f g) @ s)) os (t @ [EvAppend g s]))"
  by (simp add: run_on_host write_all_def next_io_def change_file_def content_def sample_state_def sample_env_def)

lemma sample_run_outcomes [simp]: "run_state (on_outcomes m) (sample_state n f os t) = (fst (run_state m os), sample_state n f (snd (run_state m os)) t)"
  by (simp add: run_on_outcomes sample_state_def)

lemma sample_run_record_dispatch [simp]: "run_state (record_dispatch op h) (sample_state n f os t) = ((), sample_state n f os (t @ [EvDispatch op h]))"
  by (simp add: record_dispatch_def sample_state_def)

lemma sample_run_open_create [simp]: "run_state (open_create g) (sample_state n f os t) = (Inr (), sample_state (Suc n) (f(g \<mapsto> content (f g))) os t)"
  by (simp add: open_create_def)

lemma sample_run_sync_all [simp]: "run_state (sync_all g) (sample_state n f os t) = (Inr (), sample_state (Suc n) (f(g \<mapsto> content (f g))) os (t @ [EvSync g]))"
  by (simp add: sync_all_def)

lemma sample_lock: "run_state (acquire_ledger_lock g None) (sample_state n f os t) =
  (Inr (), sample_state (if f g = None then n + 5 else n + 4) (f(g \<mapsto> content (f g))) os t)"
  by (simp add: acquire_ledger_lock_def eval_nat_numeral)

lemma sample_append_line: "run_state (append_line g l) (sample_state n f os t) =
  (Inr (), sample_state (if f g = None then n + 5 else n + 4) (f(g \<mapsto> content (f g) @ l @ [newline])) os (t @ [EvAppend g (l @ [newline]), EvSync g]))"
  by (simp add: append_line_def eval_nat_numeral)

lemma sample_append_record: "run_state (append_record S r) (sample_state n f os t) =
  (Inr (), sample_state (if f LedgerFile = None then n + 6 else n + 5) (f(LedgerFile \<mapsto> content (f LedgerFile) @ write_record (s_codec S) r @ [newline])) os (t @ [EvAppend LedgerFile (write_record (s_codec S) r @ [newline]), EvSync LedgerFile]))"
  by (simp add: append_record_def sample_append_line eval_nat_numeral)



lemma sample_first_trajectory: "f TrajectoryFile = None \<Longrightarrow> run_state (trajectory sample_setting a) (sample_state n f os t) =
  (Inr (), sample_state (n + (if f TrajectoryLockFile = None then 13 else 12)) (f(TrajectoryLockFile \<mapsto> content (f TrajectoryLockFile), TrajectoryFile \<mapsto> [newline])) os (t @ [EvAppend TrajectoryFile [newline], EvSync TrajectoryFile]))"
  by (simp add: trajectory_def trajectory_lock_def sample_lock sample_append_line repair_jsonl_tail_def sample_setting_def sample_hashing_def eval_nat_numeral)

lemma sample_trajectory: "f TrajectoryFile = Some b \<Longrightarrow> repaired (read_value sample_codec) b = Some b \<Longrightarrow> run_state (trajectory sample_setting a) (sample_state n f os t) =
  ((Inr (), sample_state (n + (if f TrajectoryLockFile = None then 14 else 13)) (f(TrajectoryLockFile \<mapsto> content (f TrajectoryLockFile), TrajectoryFile \<mapsto> b @ [newline])) os (t @ [EvAppend TrajectoryFile [newline], EvSync TrajectoryFile])))"
  by (simp add: trajectory_def trajectory_lock_def sample_lock sample_append_line repair_jsonl_tail_def sample_setting_def sample_hashing_def eval_nat_numeral)


lemma sample_selectors [simp]: "en_setting sample_engine = sample_setting" "en_executor sample_engine = sample_executor"
  "en_authority sample_engine = (\<lambda>request h. Inr \<lparr>va_expires_at_ms = 1000\<rparr>)" "en_outcomes sample_engine = memory_outcomes"
  "en_parent_is_dir sample_engine = (\<lambda>_. True)" "s_hashing sample_setting = sample_hashing" "s_platform sample_setting = Linux" "s_codec sample_setting = sample_codec"
  "rq_operation_id sample_request = ''op''" "rq_action sample_request = SetValue ''v''" "rq_target sample_request = Element sample_target"
  "rq_interaction_mode sample_request = BackgroundOnly" "rq_deadline_at_ms sample_request = 1000" "rq_verification sample_request = TargetValueHash zero_hash"
  "x_context_hash sample_executor d = ret (Inr zero_hash)" "x_observe sample_executor tg d = ret (Inr sample_observation)"
  "x_resolve sample_executor tg d = ret (Inr NoResolved)" "x_session_isolation sample_executor = ret SharedDesktop" "x_dispatch sample_executor a b c d = ret (Inr \<lparr>dr_backend = ''test'', dr_fallback_chain = []\<rparr>)"
  by (simp_all add: sample_engine_def sample_setting_def sample_request_def sample_executor_def)

lemma sample_finish: "f TrajectoryFile = Some b \<Longrightarrow> repaired (read_value sample_codec) b = Some b \<Longrightarrow> f LedgerFile = Some l \<Longrightarrow> run_state (finish sample_setting a) (sample_state n f os t) =
  ((Inr (), sample_state (n + (if f TrajectoryLockFile = None then 19 else 18)) (f(LedgerFile \<mapsto> l @ write_record sample_codec (TerminalRecord a) @ [newline], TrajectoryLockFile \<mapsto> content (f TrajectoryLockFile), TrajectoryFile \<mapsto> b @ [newline])) os (t @ [EvAppend LedgerFile (write_record sample_codec (TerminalRecord a) @ [newline]), EvSync LedgerFile, EvAppend TrajectoryFile [newline], EvSync TrajectoryFile])))"
  by (simp add: finish_def sample_append_record sample_trajectory eval_nat_numeral)

definition sample_receipt :: "receipt" where
  "sample_receipt = \<lparr>rc_protocol_version = protocol_version, rc_action_name = ''set_value'', rc_action_hash = zero_hash,
   rc_started_at_ms = 5, rc_finished_at_ms = 5, rc_backend = ''test'', rc_fallback_chain = [], rc_delivery_route = TargetAddressed,
   rc_session_isolation = SharedDesktop, rc_interaction_mode = BackgroundOnly, rc_context_preservation = UnchangedAtBoundaries,
   rc_effect = Verified, rc_before = Some sample_evidence, rc_after = Some sample_evidence, rc_warnings = []\<rparr>"

lemma sample_verify:
  "get_str (o_state sample_observation) ''value_hash'' = Some zero_hash"
  "same_target sample_observation sample_observation (expected_fingerprint (Element sample_target))"
  by (simp_all add: sample_observation_def get_str_def same_target_def sample_evidence_def
      expected_fingerprint_def sample_target_def)

lemma sample_observation_evidence: "o_evidence sample_observation = sample_evidence"
  by (simp add: sample_observation_def)

lemma sample_dispatched: "run_state (dispatched_terminal sample_engine sample_request zero_hash SharedDesktop TargetAddressed sample_observation (Some zero_hash) 1000 5 (Inr \<lparr>dr_backend = ''test'', dr_fallback_chain = []\<rparr>)) (sample_state n f os t)
  = ((Succeeded sample_receipt, True), sample_state (n + 5) f os t)"
  by (simp add: dispatched_terminal_def verified_terminal_def context_preservation_def sample_verify
      at_boundary_def context_lost_def judge_def sample_receipt_def sample_observation_evidence Let_def
      eval_nat_numeral)

definition sample_terminal_ack :: "action_ack" where
  "sample_terminal_ack = terminal_ack sample_request zero_hash (Succeeded sample_receipt) False"

definition sample_key :: "outcome_key" where
  "sample_key = outcome_key sample_request zero_hash"

definition sample_report :: "execute_report" where
  "sample_report = [accepted_ack sample_request zero_hash, executing_ack sample_request zero_hash, sample_terminal_ack]"

lemma memory_ops [simp]: "oo_begin memory_outcomes = memory_begin" "oo_record memory_outcomes = memory_record"
  by (simp_all add: memory_outcomes_def)

lemma run_memory_record: "\<not> m_poisoned os \<Longrightarrow>
    run_state (memory_record key terminal) os = (Inr (), os\<lparr>m_entries := (m_entries os)(key \<mapsto> Some terminal)\<rparr>)"
  by (simp add: memory_record_def)

lemma sample_conclude: "f TrajectoryFile = Some b \<Longrightarrow> repaired (read_value sample_codec) b = Some b \<Longrightarrow> f LedgerFile = Some l \<Longrightarrow> \<not> m_poisoned os \<Longrightarrow>
  run_state (conclude sample_engine sample_request zero_hash (Succeeded sample_receipt, True)) (sample_state n f os t) =
  ((Inr sample_report, sample_state (n + (if f TrajectoryLockFile = None then 19 else 18)) (f(LedgerFile \<mapsto> l @ write_record sample_codec (TerminalRecord sample_terminal_ack) @ [newline], TrajectoryLockFile \<mapsto> content (f TrajectoryLockFile), TrajectoryFile \<mapsto> b @ [newline])) (os\<lparr>m_entries := (m_entries os)(sample_key \<mapsto> Some (Succeeded sample_receipt))\<rparr>) (t @ [EvAppend LedgerFile (write_record sample_codec (TerminalRecord sample_terminal_ack) @ [newline]), EvSync LedgerFile, EvAppend TrajectoryFile [newline], EvSync TrajectoryFile])))"
  by (simp add: conclude_def record_outcome_def run_memory_record finish_after_effect_def sample_finish
      sample_report_def sample_terminal_ack_def sample_key_def Let_def)

definition sample_claim :: "ledger_claim" where
  "sample_claim = new_claim sample_setting sample_request zero_hash SharedDesktop 5"

definition sample_claim_line :: "string" where
  "sample_claim_line = write_record sample_codec (ClaimRecord sample_claim) @ [newline]"

definition sample_terminal_line :: "string" where
  "sample_terminal_line = write_record sample_codec (TerminalRecord sample_terminal_ack) @ [newline]"

definition sample_trace :: "event list" where
  "sample_trace = [EvAppend LedgerFile sample_claim_line, EvSync LedgerFile, EvAppend TrajectoryFile [newline],
  EvSync TrajectoryFile, EvAppend TrajectoryFile [newline], EvSync TrajectoryFile, EvDispatch ''op'' zero_hash,
  EvAppend LedgerFile sample_terminal_line, EvSync LedgerFile, EvAppend TrajectoryFile [newline], EvSync TrajectoryFile]"

definition sample_files :: "file_id \<Rightarrow> string option" where
  "sample_files = (\<lambda>_. None)(LedgerLockFile \<mapsto> [], LedgerFile \<mapsto> sample_claim_line @ sample_terminal_line, TrajectoryLockFile \<mapsto> [], TrajectoryFile \<mapsto> [newline, newline, newline])"

definition sample_outcomes :: "memory_ledger" where
  "sample_outcomes = \<lparr>m_poisoned = False, m_entries = [sample_key \<mapsto> Some (Succeeded sample_receipt)]\<rparr>"

lemma newlines_repaired:
  "repaired parse [newline] = Some [newline]"
  "repaired parse [newline, newline] = Some [newline, newline]"
  by (simp_all add: repaired_def durable_len_def raw_lines_step line_ok_def)

lemma sample_dispatch: "f TrajectoryFile = Some [newline,newline] \<Longrightarrow> f LedgerFile = Some l \<Longrightarrow> f TrajectoryLockFile = Some [] \<Longrightarrow> \<not> m_poisoned os \<Longrightarrow>
  run_state (execute_dispatch sample_engine sample_request zero_hash SharedDesktop TargetAddressed sample_observation NoResolved (Some zero_hash) 1000) (sample_state n f os t) =
  (Inr sample_report, sample_state (n + 24) (f(LedgerFile \<mapsto> l @ sample_terminal_line, TrajectoryLockFile \<mapsto> [], TrajectoryFile \<mapsto> [newline,newline,newline]))
    (os\<lparr>m_entries := (m_entries os)(sample_key \<mapsto> Some (Succeeded sample_receipt))\<rparr>)
    (t @ [EvDispatch ''op'' zero_hash, EvAppend LedgerFile sample_terminal_line, EvSync LedgerFile, EvAppend TrajectoryFile [newline], EvSync TrajectoryFile]))"
  by (simp add: execute_dispatch_def sample_dispatched sample_conclude newlines_repaired sample_terminal_line_def eval_nat_numeral)

lemma sample_capability: "strict_action_capability \<lparr>c_platform = ''linux'', c_backend = ''test'',
       c_session_isolation = SharedDesktop, c_supported_actions = [''invoke'', ''set_value''],
       c_action_capabilities = [
         \<lparr>ac_action = ''invoke'', ac_delivery_route = TargetAddressed, ac_background_support = Guarded\<rparr>,
         \<lparr>ac_action = ''set_value'', ac_delivery_route = TargetAddressed, ac_background_support = Guarded\<rparr>],
       c_permissions = [], c_display_geometry_hash = zero_hash\<rparr> (SetValue ''v'') = Some \<lparr>ac_action = ''set_value'', ac_delivery_route = TargetAddressed, ac_background_support = Guarded\<rparr>"
  by (simp add: strict_action_capability_def route_is_valid_def)

lemma sample_observed: "f TrajectoryFile = Some [newline] \<Longrightarrow> f LedgerFile = Some l \<Longrightarrow> f TrajectoryLockFile = Some [] \<Longrightarrow> \<not> m_poisoned os \<Longrightarrow>
  run_state (execute_observed sample_engine sample_request zero_hash SharedDesktop TargetAddressed 1000) (sample_state n f os t) =
  (Inr sample_report, sample_state (n + 39) (f(LedgerFile \<mapsto> l @ sample_terminal_line, TrajectoryLockFile \<mapsto> [], TrajectoryFile \<mapsto> [newline,newline,newline]))
    (os\<lparr>m_entries := (m_entries os)(sample_key \<mapsto> Some (Succeeded sample_receipt))\<rparr>)
    (t @ [EvAppend TrajectoryFile [newline], EvSync TrajectoryFile, EvDispatch ''op'' zero_hash, EvAppend LedgerFile sample_terminal_line, EvSync LedgerFile, EvAppend TrajectoryFile [newline], EvSync TrajectoryFile]))"
  by (simp add: execute_observed_def sample_trajectory newlines_repaired unless_boundary_def execute_context_def sample_dispatch fun_upd_twist eval_nat_numeral)

lemma sample_new:
  "f LedgerFile = Some l \<Longrightarrow> f TrajectoryFile = None \<Longrightarrow> f TrajectoryLockFile = None \<Longrightarrow>
   run_state (execute_new sample_engine sample_request zero_hash SharedDesktop 1000)
     (sample_state n f memory_new t) =
   (Inr sample_report, sample_state (n + 56)
     (f(LedgerFile \<mapsto> l @ sample_terminal_line, TrajectoryLockFile \<mapsto> [],
        TrajectoryFile \<mapsto> [newline, newline, newline])) sample_outcomes
     (t @ drop 2 sample_trace))"
  apply (simp add: execute_new_def memory_outcomes_def memory_begin_def memory_new_def execute_granted_def
      sample_first_trajectory unless_boundary_def)
  apply (simp add: sample_executor_def)
  apply (simp add: execute_capable_def sample_capability background_capability_is_authorized_def)
  apply (simp add: sample_observed sample_outcomes_def sample_trace_def sample_key_def add.commute)
  done

lemma sample_world_state: "sample_world = sample_state 0 (\<lambda>_. None) memory_new []"
  by (simp add: sample_world_def sample_state_def)

text \<open>The whole run: claim, dispatch, verified terminal.\<close>

lemma sample_run:
  "run_state (execute sample_engine sample_request) sample_world
    = (Inr sample_report, sample_state 71 sample_files sample_outcomes sample_trace)"
  apply (simp add: sample_world_state execute_def sample_request_valid sample_action_hash Let_def
      execution_lock_def acquire_ledger_lock_def repair_tail_def repair_jsonl_tail_def
      claim_operation_def records_def scan_records_def sample_append_record)
  apply (simp add: sample_new)
  apply (simp add: sample_trace_def sample_files_def sample_claim_line_def sample_claim_def fun_upd_twist)
  done

end
