(* ===== verification/LedgerProperties.thy ===== *)
theory LedgerProperties
  imports Recovery Sample
begin

text \<open>
  Properties of the parts of lib.rs and semantic.rs under the engine: the ledger and its
  answers, the hashes, authority, capabilities and semantic observations.
\<close>

section \<open>Replay, conflict, recovery\<close>


text \<open>Worlds whose ledger holds some records.\<close>

definition sample_ledger :: "ledger_record list \<Rightarrow> (unit, memory_ledger) world" where
  "sample_ledger rs = sample_world\<lparr>w_files := (\<lambda>_. None)(LedgerFile \<mapsto> journal (write_record sample_codec) rs)\<rparr>"

lemma sample_ledger_simps [simp]:
  "healthy (sample_ledger rs)"
  "w_files (sample_ledger rs) LedgerFile = Some (journal (write_record sample_codec) rs)"
  "w_outcomes (sample_ledger rs) = memory_new"
  by (simp_all add: healthy_def sample_ledger_def sample_world_def sample_env_def)

lemma sample_accepted: "accepted_request sample_engine sample_request zero_hash"
  by (simp add: accepted_request_def sample_request_valid sample_action_hash)

lemma sample_engine_sound: "codec_sound (en_setting sample_engine)"
  by (simp add: sample_codec_sound)

lemma sample_isolation: "x_session_isolation (en_executor sample_engine) = ret SharedDesktop"
  by simp

lemma sample_ids:
  "rq_operation_id sample_request = ''op''" "lc_operation_id sample_claim = ''op''"
  "lc_action_hash sample_claim = zero_hash" "a_operation_id sample_terminal_ack = ''op''"
  "\<not> is_interrupted (a_state sample_terminal_ack)"
  by (simp_all add: sample_claim_def new_claim_def sample_terminal_ack_def)

lemma sample_scan:
  "scan_records (rq_operation_id sample_request) [ClaimRecord sample_claim, TerminalRecord sample_terminal_ack]
    = (Some sample_claim, Some sample_terminal_ack)"
  "scan_records (rq_operation_id sample_request) [ClaimRecord sample_claim] = (Some sample_claim, None)"
  "scan_records (rq_operation_id sample_request) [ClaimRecord (sample_claim\<lparr>lc_action_hash := h\<rparr>)]
    = (Some (sample_claim\<lparr>lc_action_hash := h\<rparr>), None)"
  by (simp_all add: scan_records_def sample_ids)

lemma sample_file:
  "w_files (sample_ledger rs) LedgerFile = Some (journal (write_record (s_codec (en_setting sample_engine))) rs)"
  by simp


text \<open>
  C16: A request that reuses the id of a recorded operation with another action hash is refused
  with \<open>Conflict\<close>; nothing is dispatched and the ledger stays as it is.
\<close>

theorem reused_operation_id_conflicts:
  assumes "codec_sound (en_setting E)" and "accepted_request E request h"
    and "x_session_isolation (en_executor E) = ret isolation" and "healthy w"
    and "w_files w LedgerFile = Some (journal (write_record (s_codec (en_setting E))) rs)"
    and "scan_records (rq_operation_id request) rs = (Some c, terminal)"
    and "lc_action_hash c \<noteq> h"
  shows "\<exists>w'. run_state (execute E request) w = (Inl Conflict, w') \<and> ledger_view w' = ledger_view w"
  by (rule execute_conflicts [OF assms])

lemma reused_operation_id_conflicts_witness:
  "\<exists>w'. run_state (execute sample_engine sample_request)
      (sample_ledger [ClaimRecord (sample_claim\<lparr>lc_action_hash := []\<rparr>)]) = (Inl Conflict, w')
    \<and> ledger_view w' = ledger_view (sample_ledger [ClaimRecord (sample_claim\<lparr>lc_action_hash := []\<rparr>)])"
  by (rule reused_operation_id_conflicts [OF sample_engine_sound sample_accepted sample_isolation
      sample_ledger_simps(1) sample_file sample_scan(3)]) (simp add: zero_hash_def)



text \<open>
  \<open>status\<close> of a recorded operation returns its terminal acknowledgement as recorded and
  leaves the ledger as it is.
\<close>

theorem status_reports_terminal:
  assumes "codec_sound (en_setting E)" and "valid_identifier op" and "healthy w"
    and "w_files w LedgerFile = Some (journal (write_record (s_codec (en_setting E))) rs)"
    and "scan_records op rs = (c, Some a)" and "\<not> is_interrupted (a_state a)"
  shows "\<exists>w'. run_state (status E op) w = (Inr (Some a), w') \<and> ledger_view w' = ledger_view w"
  by (rule status_returns_terminal [OF assms])

lemma status_reports_terminal_witness:
  "\<exists>w'. run_state (status sample_engine ''op'')
      (sample_ledger [ClaimRecord sample_claim, TerminalRecord sample_terminal_ack])
      = (Inr (Some sample_terminal_ack), w')
    \<and> ledger_view w' = ledger_view (sample_ledger [ClaimRecord sample_claim, TerminalRecord sample_terminal_ack])"
proof (rule status_reports_terminal [OF sample_engine_sound _ sample_ledger_simps(1) sample_file])
  show "valid_identifier ''op''" by (simp add: valid_identifier_def identifier_byte_def byte_defs)
  show "scan_records ''op'' [ClaimRecord sample_claim, TerminalRecord sample_terminal_ack]
      = (Some sample_claim, Some sample_terminal_ack)" using sample_scan(1) by (simp add: sample_ids)
qed (rule sample_ids)

section \<open>The file of records\<close>

text \<open>
  C30: \<open>append_record\<close> refines appending to the list of records: on a ledger file that is the
  journal of \<open>rs\<close> it leaves the journal of \<open>rs\<close> and the new record, which reads back as that
  list; outcomes and dispatches stay.
\<close>

theorem append_refines_list:
  assumes "codec_sound S" and "healthy w"
    and "w_files w LedgerFile = Some (journal (write_record (s_codec S)) rs)"
  shows "\<exists>w' bytes. run_state (append_record S r) w = (Inr (), w')
    \<and> ledger_view w' = (Some bytes, w_outcomes w, filter dispatch_event (w_trace w))
    \<and> bytes = journal (write_record (s_codec S)) (rs @ [r])
    \<and> read_records (read_record (s_codec S)) bytes = Inr (rs @ [r])"
  using run_append_record [OF assms(2,3), of r] read_journal [OF assms(1) [unfolded codec_sound_def]]
  by fastforce

lemma append_refines_list_witness:
  "\<exists>w' bytes. run_state (append_record sample_setting (TerminalRecord sample_terminal_ack))
      (sample_ledger [ClaimRecord sample_claim]) = (Inr (), w')
    \<and> ledger_view w' = (Some bytes, memory_new, filter dispatch_event (w_trace (sample_ledger [ClaimRecord sample_claim])))
    \<and> bytes = journal (write_record (s_codec sample_setting)) ([ClaimRecord sample_claim] @ [TerminalRecord sample_terminal_ack])
    \<and> read_records (read_record (s_codec sample_setting)) bytes
      = Inr ([ClaimRecord sample_claim] @ [TerminalRecord sample_terminal_ack])"
  using append_refines_list [OF sample_codec_sound, of "sample_ledger [ClaimRecord sample_claim]"
      "[ClaimRecord sample_claim]" "TerminalRecord sample_terminal_ack"] by simp

text \<open>
  C31: A crash in the middle of an append leaves a torn line; the repair cuts exactly it off, and
  reading the rest gives back every record written before.
\<close>

theorem torn_append_is_repaired:
  assumes "codec_ok print parse" and "newline \<notin> set torn"
  shows "\<exists>kept. repaired parse (journal print rs @ torn) = Some kept
    \<and> kept = journal print rs \<and> read_records parse kept = Inr rs"
  using repaired_torn_journal [OF assms] read_journal [OF assms(1)] by simp

lemma torn_append_is_repaired_witness:
  "\<exists>kept. repaired sample_read (journal sample_write [ClaimRecord sample_claim] @ ''{x'') = Some kept
    \<and> kept = journal sample_write [ClaimRecord sample_claim]
    \<and> read_records sample_read kept = Inr [ClaimRecord sample_claim]"
  by (rule torn_append_is_repaired [OF sample_codec_ok]) (simp add: newline_def)

section \<open>Hashes\<close>

text \<open>
  C28: Two requests with the same action hash agree on every field that the hash covers - the
  versions, subject, session, action, target, interaction mode, deadline, verification and risk -
  as long as SHA-256 does not collide on their two canonical forms.
\<close>

theorem action_hash_binds_request:
  assumes "normalized_action_hash H r = Inr h" and "normalized_action_hash H s = Inr h"
    and "\<And>a b. action_json (rq_action r) = Some a \<Longrightarrow> action_json (rq_action s) = Some b \<Longrightarrow>
      collision_free H {canonicalize_json (request_json r a), canonicalize_json (request_json s b)}"
  shows "same_bound_fields r s"
proof -
  obtain a b where "action_json (rq_action r) = Some a" "action_json (rq_action s) = Some b"
    "hash_serializable H (request_json r a) = hash_serializable H (request_json s b)"
    using assms(1,2) by (auto simp: normalized_action_hash_def split: option.splits sum.splits)
  with assms(3) show ?thesis using request_json_inject hash_serializable_inject by blast
qed

lemma action_hash_binds_request_witness:
  "same_bound_fields sample_request (sample_request\<lparr>rq_operation_id := ''other''\<rparr>)"
proof (rule action_hash_binds_request [of sample_hashing _ zero_hash])
  show "normalized_action_hash sample_hashing sample_request = Inr zero_hash"
    by (rule sample_action_hash)
  show "normalized_action_hash sample_hashing (sample_request\<lparr>rq_operation_id := ''other''\<rparr>) = Inr zero_hash"
    using sample_action_hash by (simp add: normalized_action_hash_def hash_serializable_def
        request_json_def split: option.splits)
  show "collision_free sample_hashing {canonicalize_json (request_json sample_request a),
      canonicalize_json (request_json (sample_request\<lparr>rq_operation_id := ''other''\<rparr>) b)}"
    if "action_json (rq_action sample_request) = Some a"
      "action_json (rq_action (sample_request\<lparr>rq_operation_id := ''other''\<rparr>)) = Some b" for a b
    using that by (simp add: collision_free_def request_json_def)
qed

text \<open>
  The canonical form of an object does not depend on the order of its members, has them in
  strictly ascending order at every level, and is its own canonical form.
\<close>

theorem canonical_form_is_unique:
  assumes "distinct (map fst es)" and "mset es = mset es'"
  shows "canonicalize_json (JObj es) = canonicalize_json (JObj es')
    \<and> json_ok (canonicalize_json (JObj es))
    \<and> canonicalize_json (canonicalize_json (JObj es)) = canonicalize_json (JObj es)"
  using canonicalize_json_perm [OF assms] canonicalize_json_ok canonicalize_json_id by metis

lemma canonical_form_is_unique_witness:
  "canonicalize_json (JObj [(''b'', JNull), (''a'', JBool True)])
      = canonicalize_json (JObj [(''a'', JBool True), (''b'', JNull)])
    \<and> json_ok (canonicalize_json (JObj [(''b'', JNull), (''a'', JBool True)]))
    \<and> canonicalize_json (canonicalize_json (JObj [(''b'', JNull), (''a'', JBool True)]))
      = canonicalize_json (JObj [(''b'', JNull), (''a'', JBool True)])"
  by (rule canonical_form_is_unique) simp_all

text \<open>
  The loop with an explicit stack that limits the JSON of a verification policy, with its
  saturating byte count, accepts exactly the values that the recursive limits on nodes, depth
  and bytes allow.
\<close>

theorem verification_limits:
  "validate_verification (TargetState v) = Inr () \<longleftrightarrow> verification_fits v"
  by (simp add: validate_verification_def verification_loop_fits)

end
