(* ===== verification/Semantic.thy ===== *)
theory Semantic
  imports Hashing
begin

text \<open>
  Semantic observations (semantic.rs): an observation is a list of elements with opaque ids
  and a parent forest, valid for at most 30 seconds; \<open>target\<close> names one of its elements by
  tag and \<open>resolve\<close> finds it again, or says why not.  \<open>route_action\<close> adds that the element
  must allow the action.
\<close>

section \<open>Data\<close>

definition max_semantic_elements :: nat where "max_semantic_elements = 4096"
definition max_semantic_snapshot_bytes :: nat where "max_semantic_snapshot_bytes = 2 * 1024 * 1024"
definition max_semantic_observation_age_ms :: i64 where "max_semantic_observation_age_ms = 30000"
definition max_host_opt_ins :: nat where "max_host_opt_ins = 8"

datatype semantic_backend = Accessibility | Dom

record semantic_provenance =
  pv_backend :: semantic_backend
  pv_backend_name :: string
  pv_process_id :: u32
  pv_process_generation :: string
  pv_window_id :: string
  pv_document_id :: "string option"
  pv_display_geometry_hash :: string
  pv_host_opt_ins :: "string list"

record actionability =
  visible :: bool
  enabled :: bool
  unambiguous :: bool
  stable :: bool
  receives_events :: bool
  invokable :: bool
  editable :: bool

record semantic_element =
  se_tag :: string
  se_element_id :: string
  se_parent_id :: "string option"
  se_fingerprint_hash :: string
  se_role :: string
  se_name :: "string option"
  se_bounds :: "rect option"
  se_actionability :: actionability

record semantic_observation =
  so_protocol_version :: u16
  so_observation_id :: string
  so_generation :: u64
  so_provenance :: semantic_provenance
  so_observed_at_ms :: i64
  so_expires_at_ms :: i64
  so_truncated :: bool
  so_elements :: "semantic_element list"

datatype semantic_error =
    InvalidObservation
  | StaleObservation
  | SemanticTargetNotFound
  | AmbiguousTarget
  | SemanticStaleTarget
  | TargetNotActionable
  | UnsupportedAction

section \<open>Serialization\<close>

fun semantic_backend_name :: "semantic_backend \<Rightarrow> string" where
  "semantic_backend_name Accessibility = ''accessibility''"
| "semantic_backend_name Dom = ''dom''"

definition semantic_provenance_json :: "semantic_provenance \<Rightarrow> json" where
  "semantic_provenance_json p = JObj [
     (''backend'', JStr (semantic_backend_name (pv_backend p))),
     (''backend_name'', JStr (pv_backend_name p)),
     (''process_id'', jword (pv_process_id p)),
     (''process_generation'', JStr (pv_process_generation p)),
     (''window_id'', JStr (pv_window_id p)),
     (''document_id'', jopt (pv_document_id p)),
     (''display_geometry_hash'', JStr (pv_display_geometry_hash p)),
     (''host_opt_ins'', JArr (map JStr (pv_host_opt_ins p)))]"

definition actionability_json :: "actionability \<Rightarrow> json" where
  "actionability_json a = JObj [
     (''visible'', JBool (visible a)),
     (''enabled'', JBool (enabled a)),
     (''unambiguous'', JBool (unambiguous a)),
     (''stable'', JBool (stable a)),
     (''receives_events'', JBool (receives_events a)),
     (''invokable'', JBool (invokable a)),
     (''editable'', JBool (editable a))]"

definition semantic_element_json :: "semantic_element \<Rightarrow> json" where
  "semantic_element_json e = JObj [
     (''tag'', JStr (se_tag e)),
     (''element_id'', JStr (se_element_id e)),
     (''parent_id'', jopt (se_parent_id e)),
     (''fingerprint_hash'', JStr (se_fingerprint_hash e)),
     (''role'', JStr (se_role e)),
     (''name'', jopt (se_name e)),
     (''bounds'', case se_bounds e of None \<Rightarrow> JNull | Some r \<Rightarrow> rect_json r),
     (''actionability'', actionability_json (se_actionability e))]"

definition semantic_observation_json :: "semantic_observation \<Rightarrow> json" where
  "semantic_observation_json s = JObj [
     (''protocol_version'', jword (so_protocol_version s)),
     (''observation_id'', JStr (so_observation_id s)),
     (''generation'', jword (so_generation s)),
     (''provenance'', semantic_provenance_json (so_provenance s)),
     (''observed_at_ms'', JInt (so_observed_at_ms s)),
     (''expires_at_ms'', JInt (so_expires_at_ms s)),
     (''truncated'', JBool (so_truncated s)),
     (''elements'', JArr (map semantic_element_json (so_elements s)))]"

definition provenance_json :: "semantic_observation \<Rightarrow> json" where
  "provenance_json s = JArr [
     jword (so_protocol_version s),
     JStr (so_observation_id s),
     jword (so_generation s),
     semantic_provenance_json (so_provenance s),
     JInt (so_observed_at_ms s),
     JInt (so_expires_at_ms s)]"

definition provenance_hash :: "hashing \<Rightarrow> semantic_observation \<Rightarrow> string" where
  "provenance_hash H s = hash_serializable H (provenance_json s)"

section \<open>Checks on the fields\<close>

definition valid_text :: "string \<Rightarrow> nat \<Rightarrow> nat \<Rightarrow> bool" where
  "valid_text value minimum maximum \<longleftrightarrow> minimum \<le> length value \<and> length value \<le> maximum
     \<and> list_all (\<lambda>c. \<not> is_control c) (chars value) \<and> \<not> blank value"

definition valid_tag :: "string \<Rightarrow> bool" where
  "valid_tag value \<longleftrightarrow> (case value of
       [] \<Rightarrow> False
     | c # index \<Rightarrow> c = CHR ''e'' \<and> index \<noteq> [] \<and> length index \<le> 4 \<and> list_all is_ascii_digit index)"

definition valid_host_opt_ins :: "string list \<Rightarrow> bool" where
  "valid_host_opt_ins opt_ins \<longleftrightarrow> length opt_ins \<le> max_host_opt_ins
     \<and> list_all (\<lambda>(a, b). a < b) (zip opt_ins (tl opt_ins))
     \<and> list_all (\<lambda>opt_in. valid_text opt_in 1 128
          \<and> list_all (\<lambda>c. is_ascii_alphanumeric c \<or> c = CHR ''_'') opt_in) opt_ins"

definition valid_provenance :: "semantic_provenance \<Rightarrow> bool" where
  "valid_provenance p \<longleftrightarrow> 0 < pv_process_id p
     \<and> valid_text (pv_backend_name p) 1 128
     \<and> valid_text (pv_process_generation p) 1 256
     \<and> valid_text (pv_window_id p) 1 512
     \<and> semantic_hash (pv_display_geometry_hash p)
     \<and> valid_host_opt_ins (pv_host_opt_ins p)
     \<and> (case pv_backend p of
          Accessibility \<Rightarrow> pv_document_id p = None
        | Dom \<Rightarrow> (case pv_document_id p of None \<Rightarrow> False | Some value \<Rightarrow> valid_text value 1 512))"

definition valid_element :: "semantic_element \<Rightarrow> bool" where
  "valid_element e \<longleftrightarrow> valid_tag (se_tag e)
     \<and> semantic_hash (se_element_id e)
     \<and> semantic_hash (se_fingerprint_hash e)
     \<and> (case se_parent_id e of None \<Rightarrow> True | Some p \<Rightarrow> semantic_hash p)
     \<and> valid_text (se_role e) 1 128
     \<and> (case se_name e of None \<Rightarrow> True | Some value \<Rightarrow> valid_text value 0 1024)
     \<and> (case se_bounds e of None \<Rightarrow> True | Some b \<Rightarrow> 0 < r_width b \<and> 0 < r_height b)"

section \<open>The parent forest\<close>

text \<open>The mapping from ids to elements, as the association list of the insertions.\<close>

fun insert_elements :: "semantic_element list \<Rightarrow> string list \<Rightarrow> (string \<times> semantic_element) list
    \<Rightarrow> semantic_error + (string \<times> semantic_element) list" where
  "insert_elements [] tags mapping = Inr mapping"
| "insert_elements (e # es) tags mapping =
     (if \<not> valid_element e then Inl InvalidObservation
      else if se_tag e \<in> set tags then Inl AmbiguousTarget
      else if se_element_id e \<in> set (map fst mapping) then Inl AmbiguousTarget
      else insert_elements es (se_tag e # tags) ((se_element_id e, e) # mapping))"

definition parent_of :: "(string \<times> semantic_element) list \<Rightarrow> string \<Rightarrow> string option" where
  "parent_of mapping key = Option.bind (map_of mapping key) se_parent_id"

text \<open>Follows the parents of an element, and stops at the first one seen twice.\<close>

function repeats :: "(string \<times> semantic_element) list \<Rightarrow> string option \<Rightarrow> string list \<Rightarrow> bool" where
  "repeats mapping None ancestors = False"
| "repeats mapping (Some key) ancestors =
     (if key \<in> set ancestors then True
      else repeats mapping (parent_of mapping key) (key # ancestors))"
  by pat_completeness auto

text \<open>A walk ends: it leaves the mapping or sees one more of its ids.\<close>

definition unseen :: "'a set \<Rightarrow> 'a option \<Rightarrow> 'a list \<Rightarrow> nat" where
  "unseen ids at ancestors = (case at of
       None \<Rightarrow> 0
     | Some key \<Rightarrow> if key \<in> ids then Suc (Suc (card (ids - set ancestors))) else 1)"

lemma unseen_step:
  assumes "finite ids" and "key \<in> ids" and "key \<notin> set ancestors"
  shows "unseen ids at (key # ancestors) < unseen ids (Some key) ancestors"
proof -
  have "ids - set (key # ancestors) \<subset> ids - set ancestors" using assms(2,3) by auto
  then have less: "card (ids - set (key # ancestors)) < card (ids - set ancestors)"
    by (rule psubset_card_mono [rotated]) (use assms(1) in simp)
  show ?thesis
  proof (cases at)
    case None
    then show ?thesis using assms(2) by (simp add: unseen_def)
  next
    case (Some k)
    then show ?thesis using assms(2) less by (simp only: unseen_def option.case if_True) (simp del: set_simps)
  qed
qed

termination repeats
proof (relation "measure (\<lambda>(mapping, at, ancestors). unseen (fst ` set mapping) at ancestors)",
    goal_cases)
  case (2 mapping key ancestors)
  show ?case
  proof (cases "key \<in> fst ` set mapping")
    case True
    with 2 show ?thesis by (simp add: unseen_step)
  next
    case False
    then have "parent_of mapping key = None"
      by (simp add: parent_of_def map_of_eq_None_iff [THEN iffD2])
    then show ?thesis using False by (simp add: unseen_def)
  qed
qed simp

definition check_parent :: "(string \<times> semantic_element) list \<Rightarrow> semantic_element \<Rightarrow> bool" where
  "check_parent mapping e \<longleftrightarrow>
     (case se_parent_id e of
        None \<Rightarrow> True
      | Some parent \<Rightarrow> parent \<noteq> se_element_id e \<and> parent \<in> set (map fst mapping))
   \<and> \<not> repeats mapping (se_parent_id e) []"

definition build_mapping ::
  "semantic_element list \<Rightarrow> semantic_error + (string \<times> semantic_element) list" where
  "build_mapping es = (case insert_elements es [] [] of
       Inl e \<Rightarrow> Inl e
     | Inr mapping \<Rightarrow> if list_all (check_parent mapping) es then Inr mapping else Inl InvalidObservation)"

section \<open>Validation, targets, resolution\<close>

definition validate_observation ::
  "hashing \<Rightarrow> semantic_observation \<Rightarrow> i64 \<Rightarrow> semantic_error + unit" where
  "validate_observation H s now =
     (if so_protocol_version s \<noteq> protocol_version
         \<or> \<not> semantic_hash (so_observation_id s)
         \<or> so_generation s = 0
         \<or> so_observed_at_ms s \<le> 0
         \<or> so_expires_at_ms s \<le> so_observed_at_ms s
         \<or> max_semantic_observation_age_ms < sat_sub_i64 (so_expires_at_ms s) (so_observed_at_ms s)
         \<or> now < so_observed_at_ms s
         \<or> max_semantic_elements < length (so_elements s)
         \<or> \<not> valid_provenance (so_provenance s)
         \<or> max_semantic_snapshot_bytes < length (json_text H (semantic_observation_json s))
      then Inl InvalidObservation
      else if so_expires_at_ms s \<le> now then Inl StaleObservation
      else case build_mapping (so_elements s) of Inl e \<Rightarrow> Inl e | Inr _ \<Rightarrow> Inr ())"

text \<open>The only element that satisfies \<open>P\<close>.\<close>

definition the_element ::
  "(semantic_element \<Rightarrow> bool) \<Rightarrow> semantic_element list \<Rightarrow> semantic_error + semantic_element" where
  "the_element P es = (case filter P es of
       [] \<Rightarrow> Inl SemanticTargetNotFound
     | [e] \<Rightarrow> Inr e
     | _ \<Rightarrow> Inl AmbiguousTarget)"

definition target_of :: "hashing \<Rightarrow> semantic_observation \<Rightarrow> string \<Rightarrow> semantic_error + semantic_target_ref" where
  "target_of H s tag = (case the_element (\<lambda>e. se_tag e = tag) (so_elements s) of
       Inl e \<Rightarrow> Inl e
     | Inr e \<Rightarrow> Inr \<lparr>t_observation_id = so_observation_id s, t_generation = so_generation s,
         t_provenance_hash = provenance_hash H s, t_element_id = se_element_id e,
         t_fingerprint_hash = se_fingerprint_hash e\<rparr>)"

definition resolve_target ::
  "hashing \<Rightarrow> semantic_observation \<Rightarrow> semantic_target_ref \<Rightarrow> i64 \<Rightarrow> semantic_error + semantic_element" where
  "resolve_target H s target now = (case validate_observation H s now of
       Inl e \<Rightarrow> Inl e
     | Inr _ \<Rightarrow>
         if t_observation_id target \<noteq> so_observation_id s
            \<or> t_generation target \<noteq> so_generation s
            \<or> t_provenance_hash target \<noteq> provenance_hash H s
            \<or> \<not> semantic_hash (t_element_id target)
            \<or> \<not> semantic_hash (t_fingerprint_hash target)
         then Inl SemanticStaleTarget
         else case the_element (\<lambda>e. se_element_id e = t_element_id target) (so_elements s) of
           Inl e \<Rightarrow> Inl e
         | Inr e \<Rightarrow> if se_fingerprint_hash e \<noteq> t_fingerprint_hash target
                   then Inl SemanticStaleTarget else Inr e)"

definition actionable_base :: "actionability \<Rightarrow> bool" where
  "actionable_base a \<longleftrightarrow> visible a \<and> enabled a \<and> unambiguous a \<and> stable a"

fun semantic_actionable :: "action \<Rightarrow> actionability \<Rightarrow> semantic_error + bool" where
  "semantic_actionable Invoke a = Inr (actionable_base a \<and> invokable a)"
| "semantic_actionable (SetValue _) a = Inr (actionable_base a \<and> editable a)"
| "semantic_actionable _ a = Inl UnsupportedAction"

definition route_action :: "hashing \<Rightarrow> action \<Rightarrow> semantic_observation \<Rightarrow> semantic_target_ref \<Rightarrow> i64
    \<Rightarrow> semantic_error + semantic_element" where
  "route_action H action s target now = (case resolve_target H s target now of
       Inl e \<Rightarrow> Inl e
     | Inr element \<Rightarrow> (case semantic_actionable action (se_actionability element) of
         Inl e \<Rightarrow> Inl e
       | Inr ok \<Rightarrow> if ok then Inr element else Inl TargetNotActionable))"

section \<open>Opaque ids, tags and fingerprints\<close>

definition opaque_element_id :: "hashing \<Rightarrow> string \<Rightarrow> string \<Rightarrow> semantic_error + string" where
  "opaque_element_id H observation_id backend_element_id =
     (if \<not> semantic_hash observation_id \<or> \<not> valid_text backend_element_id 1 2048
      then Inl InvalidObservation
      else Inr (sha256_hex H (observation_id @ [CHR 0x00] @ backend_element_id)))"

definition semantic_tag :: "nat \<Rightarrow> semantic_error + string" where
  "semantic_tag index =
     (if max_semantic_elements \<le> index then Inl InvalidObservation else Inr (CHR ''e'' # show_nat index))"

definition semantic_fingerprint :: "hashing \<Rightarrow> json \<Rightarrow> string" where
  "semantic_fingerprint H v = hash_serializable H v"

section \<open>Facts about the mapping\<close>

lemma insert_elements_ok:
  "insert_elements es tags mapping = Inr result \<longleftrightarrow>
     list_all valid_element es \<and> distinct (map se_tag es) \<and> set (map se_tag es) \<inter> set tags = {}
   \<and> distinct (map se_element_id es) \<and> set (map se_element_id es) \<inter> fst ` set mapping = {}
   \<and> result = rev (map (\<lambda>e. (se_element_id e, e)) es) @ mapping"
  by (induction es tags mapping rule: insert_elements.induct) auto

text \<open>Who is whose parent.\<close>

definition parent_pairs :: "semantic_element list \<Rightarrow> (string \<times> string) set" where
  "parent_pairs es = {(child, parent).
     \<exists>e \<in> set es. se_element_id e = child \<and> se_parent_id e = Some parent}"

definition element_entries :: "semantic_element list \<Rightarrow> (string \<times> semantic_element) list" where
  "element_entries es = rev (map (\<lambda>e. (se_element_id e, e)) es)"

lemma parent_of_entries:
  assumes "distinct (map se_element_id es)"
  shows "parent_of (element_entries es) child = Some parent \<longleftrightarrow> (child, parent) \<in> parent_pairs es"
proof -
  have dist: "distinct (map fst (element_entries es))"
    using assms by (simp add: element_entries_def rev_map [symmetric] comp_def)
  have "map_of (element_entries es) child = Some e \<longleftrightarrow> e \<in> set es \<and> se_element_id e = child" for e
    using map_of_eq_Some_iff [OF dist] by (auto simp: element_entries_def)
  then show ?thesis
    by (auto simp: parent_of_def parent_pairs_def bind_eq_Some_conv)
qed

lemma keys_element_entries [simp]: "fst ` set (element_entries es) = se_element_id ` set es"
  by (simp add: element_entries_def image_image)

lemma cycle_repeats:
  assumes "distinct (map se_element_id es)"
  shows "at = Some key \<Longrightarrow> (key, key) \<in> (parent_pairs es)\<^sup>+ \<Longrightarrow>
      repeats (element_entries es) at ancestors"
proof (induction "element_entries es" at ancestors arbitrary: key rule: repeats.induct)
  case (2 start ancestors)
  show ?case
  proof (cases "start \<in> set ancestors")
    case False
    from "2.prems" obtain parent where p: "(start, parent) \<in> parent_pairs es"
      "(parent, start) \<in> (parent_pairs es)\<^sup>*"
      by (metis option.inject tranclD)
    then have "(parent, parent) \<in> (parent_pairs es)\<^sup>+" by (rule rtrancl_into_trancl1 [rotated])
    with "2.hyps" [OF False] p(1) show ?thesis
      by (simp add: False parent_of_entries [OF assms, THEN iffD2])
  qed simp
qed simp

lemma repeats_cycle:
  assumes "distinct (map se_element_id es)"
  shows "repeats (element_entries es) at ancestors \<Longrightarrow>
      (\<And>a key. a \<in> set ancestors \<Longrightarrow> at = Some key \<Longrightarrow> (a, key) \<in> (parent_pairs es)\<^sup>+) \<Longrightarrow>
      \<exists>key. (key, key) \<in> (parent_pairs es)\<^sup>+"
proof (induction "element_entries es" at ancestors rule: repeats.induct)
  case (2 key ancestors)
  show ?case
  proof (cases "key \<in> set ancestors")
    case True
    with "2.prems"(2) show ?thesis by blast
  next
    case False
    show ?thesis
    proof (rule "2.hyps" [OF False])
      show "repeats (element_entries es) (parent_of (element_entries es) key) (key # ancestors)"
        using "2.prems"(1) False by simp
      fix a parent
      assume a: "a \<in> set (key # ancestors)" and "parent_of (element_entries es) key = Some parent"
      then have "(key, parent) \<in> parent_pairs es" by (simp add: parent_of_entries [OF assms])
      with a "2.prems"(2) show "(a, parent) \<in> (parent_pairs es)\<^sup>+"
        by (auto intro: trancl_into_trancl)
    qed
  qed
qed simp

definition well_formed_elements :: "semantic_element list \<Rightarrow> bool" where
  "well_formed_elements es \<longleftrightarrow> list_all valid_element es \<and> distinct (map se_tag es)
     \<and> distinct (map se_element_id es)
     \<and> (\<forall>e \<in> set es. \<forall>parent. se_parent_id e = Some parent \<longrightarrow> parent \<in> se_element_id ` set es)
     \<and> acyclic (parent_pairs es)"

lemma parents_acyclic:
  assumes dist: "distinct (map se_element_id es)"
  shows "list_all (check_parent (element_entries es)) es \<longleftrightarrow>
      (\<forall>e \<in> set es. \<forall>parent. se_parent_id e = Some parent \<longrightarrow> parent \<in> se_element_id ` set es)
      \<and> acyclic (parent_pairs es)" (is "?checked \<longleftrightarrow> ?known \<and> ?acyclic")
proof
  assume c: ?checked
  have "(key, key) \<notin> (parent_pairs es)\<^sup>+" for key
  proof
    assume "(key, key) \<in> (parent_pairs es)\<^sup>+"
    then obtain parent where p: "(key, parent) \<in> parent_pairs es"
      "(parent, key) \<in> (parent_pairs es)\<^sup>*"
      by (metis tranclD)
    then have "(parent, parent) \<in> (parent_pairs es)\<^sup>+" by (rule rtrancl_into_trancl1 [rotated])
    then have "repeats (element_entries es) (Some parent) []" by (rule cycle_repeats [OF dist refl])
    with c p(1) show False by (auto simp: parent_pairs_def list_all_iff check_parent_def)
  qed
  with c show "?known \<and> ?acyclic"
    by (auto simp: acyclic_def list_all_iff check_parent_def split: option.splits)
next
  assume k: "?known \<and> ?acyclic"
  have "\<not> repeats (element_entries es) at []" for at
    using repeats_cycle [OF dist, of at "[]"] k by (auto simp: acyclic_def)
  moreover have "se_parent_id e = Some parent \<Longrightarrow> e \<in> set es \<Longrightarrow> parent \<noteq> se_element_id e" for e parent
  proof
    assume "se_parent_id e = Some parent" "e \<in> set es" "parent = se_element_id e"
    then have "(parent, parent) \<in> parent_pairs es" by (auto simp: parent_pairs_def)
    with k show False by (auto simp: acyclic_def)
  qed
  ultimately show ?checked
    using k by (fastforce simp: list_all_iff check_parent_def split: option.splits)
qed

lemma build_mapping_ok:
  "build_mapping es = Inr mapping \<longleftrightarrow> well_formed_elements es \<and> mapping = element_entries es"
proof -
  have "insert_elements es [] [] = Inr mapping' \<longleftrightarrow> list_all valid_element es
      \<and> distinct (map se_tag es) \<and> distinct (map se_element_id es) \<and> mapping' = element_entries es"
    for mapping' by (auto simp: insert_elements_ok element_entries_def)
  then show ?thesis
    using parents_acyclic [of es]
    by (auto simp: build_mapping_def well_formed_elements_def split: sum.splits if_splits)
qed

section \<open>Facts about targets\<close>

lemma the_element_ok: "the_element P es = Inr e \<longleftrightarrow> filter P es = [e]"
  by (auto simp: the_element_def split: list.splits)

lemma filter_key:
  "distinct (map f es) \<Longrightarrow> e \<in> set es \<Longrightarrow> filter (\<lambda>x. f x = f e) es = [e]"
  by (induction es) (auto simp: filter_empty_conv image_iff)

lemma filter_single: "filter P es = [e] \<Longrightarrow> e \<in> set es \<and> P e"
  by (drule arg_cong [of _ _ set]) auto

lemma validate_observation_ok:
  "validate_observation H s now = Inr () \<Longrightarrow>
     well_formed_elements (so_elements s) \<and> so_observed_at_ms s \<le> now \<and> now < so_expires_at_ms s
   \<and> so_expires_at_ms s - so_observed_at_ms s \<le> max_semantic_observation_age_ms"
  using build_mapping_ok [of "so_elements s"]
  by (auto simp: validate_observation_def sat_sub_i64_def sat_i64_def i64_max_def i64_min_def
        max_semantic_observation_age_ms_def split: if_splits sum.splits)

text \<open>A target taken from a valid observation resolves to the element it was taken from.\<close>

lemma resolve_target_of:
  assumes "target_of H s tag = Inr target" and valid: "validate_observation H s now = Inr ()"
  obtains e where "resolve_target H s target now = Inr e" and "e \<in> set (so_elements s)" and "se_tag e = tag"
proof -
  from assms(1) obtain e where e: "filter (\<lambda>e. se_tag e = tag) (so_elements s) = [e]"
    and t: "target = \<lparr>t_observation_id = so_observation_id s, t_generation = so_generation s,
         t_provenance_hash = provenance_hash H s, t_element_id = se_element_id e,
         t_fingerprint_hash = se_fingerprint_hash e\<rparr>"
    by (auto simp: target_of_def the_element_ok split: sum.splits)
  from filter_single [OF e] have mem: "e \<in> set (so_elements s)" and tag: "se_tag e = tag"
    by blast+
  from validate_observation_ok [OF valid] have wf: "well_formed_elements (so_elements s)" by simp
  then have "filter (\<lambda>x. se_element_id x = se_element_id e) (so_elements s) = [e]"
    using mem by (simp add: well_formed_elements_def filter_key)
  moreover have "valid_element e" using wf mem by (simp add: well_formed_elements_def list_all_iff)
  ultimately have "resolve_target H s target now = Inr e"
    by (simp add: resolve_target_def valid t the_element_ok [THEN iffD2] valid_element_def)
  with mem tag show thesis using that by blast
qed

lemma resolve_target_sound:
  assumes "resolve_target H s target now = Inr e"
  shows "validate_observation H s now = Inr () \<and> e \<in> set (so_elements s)
    \<and> se_element_id e = t_element_id target \<and> se_fingerprint_hash e = t_fingerprint_hash target
    \<and> t_observation_id target = so_observation_id s \<and> t_generation target = so_generation s
    \<and> t_provenance_hash target = provenance_hash H s"
proof -
  from assms have f: "filter (\<lambda>x. se_element_id x = t_element_id target) (so_elements s) = [e]"
    by (auto simp: resolve_target_def the_element_ok split: sum.splits if_splits)
  then have "e \<in> set (so_elements s) \<and> se_element_id e = t_element_id target"
    by (rule filter_single)
  with assms show ?thesis
    by (auto simp: resolve_target_def split: sum.splits if_splits)
qed

lemma route_action_sound:
  assumes "route_action H action s target now = Inr e"
  shows "resolve_target H s target now = Inr e \<and> actionable_base (se_actionability e)
    \<and> (action = Invoke \<and> invokable (se_actionability e)
       \<or> (\<exists>value. action = SetValue value) \<and> editable (se_actionability e))"
  using assms by (cases action) (auto simp: route_action_def split: sum.splits if_splits)

lemma semantic_tag_valid: "semantic_tag i = Inr tag \<Longrightarrow> valid_tag tag"
proof -
  assume t: "semantic_tag i = Inr tag"
  then have i: "i < 10000" by (auto simp: semantic_tag_def max_semantic_elements_def split: if_splits)
  have "show_nat i \<noteq> []" by (subst show_nat.simps) simp
  moreover have "length (show_nat i) \<le> 4" using i length_show_nat [of i 4] by simp
  moreover have "list_all is_ascii_digit (show_nat i)" by (rule show_nat_digits)
  ultimately show ?thesis using t
    by (auto simp: semantic_tag_def valid_tag_def split: if_splits)
qed

lemma semantic_tag_inject:
  "semantic_tag i = Inr tag \<Longrightarrow> semantic_tag j = Inr tag \<Longrightarrow> i = j"
  by (auto simp: semantic_tag_def split: if_splits)

end
