(* ===== verification/Float64.thy ===== *)
theory Float64
  imports Complex_Main
begin

text \<open>
  Rust's \<open>f64\<close>, as far as cdp.rs computes with it: the finite values as rationals, rounded to
  the nearest 53-bit significand with ties to even after every operation, the two infinities
  and NaN.  The two zeros are one value, as nothing in the code tells them apart.
\<close>

datatype f64 = Finite rat | Infinite bool | NotANumber

text \<open>\<open>Infinite True\<close> is the positive infinity.\<close>

fun bit_length :: "int \<Rightarrow> int" where
  "bit_length n = (if n \<le> 0 then 0 else 1 + bit_length (n div 2))"

declare bit_length.simps [simp del]

definition pow2 :: "int \<Rightarrow> rat" where
  "pow2 k = (if 0 \<le> k then 2 ^ nat k else 1 / 2 ^ nat (- k))"

text \<open>The exponent of the unit in the last place of a positive number.\<close>

definition ulp_exponent :: "rat \<Rightarrow> int" where
  "ulp_exponent x = (case quotient_of x of (p, q) \<Rightarrow>
     let e = bit_length p - bit_length q;
         magnitude = (if pow2 e \<le> x then e else e - 1)
     in max (magnitude - 52) (- 1074))"

definition half_even :: "rat \<Rightarrow> int" where
  "half_even m = (let n = \<lfloor>m\<rfloor>; rest = m - of_int n in
     if rest < 1 / 2 \<or> (rest = 1 / 2 \<and> even n) then n else n + 1)"

definition round_positive :: "rat \<Rightarrow> f64" where
  "round_positive x = (let u = pow2 (ulp_exponent x); r = of_int (half_even (x / u)) * u in
     if r < pow2 1024 then Finite r else Infinite True)"

fun f64_neg :: "f64 \<Rightarrow> f64" where
  "f64_neg (Finite a) = Finite (- a)"
| "f64_neg (Infinite s) = Infinite (\<not> s)"
| "f64_neg NotANumber = NotANumber"

definition f64_of_rat :: "rat \<Rightarrow> f64" where
  "f64_of_rat x =
     (if x = 0 then Finite 0
      else if 0 < x then round_positive x
      else f64_neg (round_positive (- x)))"

fun is_finite :: "f64 \<Rightarrow> bool" where
  "is_finite (Finite _) = True"
| "is_finite _ = False"

fun f64_add :: "f64 \<Rightarrow> f64 \<Rightarrow> f64" where
  "f64_add (Finite a) (Finite b) = f64_of_rat (a + b)"
| "f64_add (Infinite s) (Infinite t) = (if s = t then Infinite s else NotANumber)"
| "f64_add (Infinite s) (Finite _) = Infinite s"
| "f64_add (Finite _) (Infinite s) = Infinite s"
| "f64_add _ _ = NotANumber"

definition f64_sub :: "f64 \<Rightarrow> f64 \<Rightarrow> f64" where
  "f64_sub a b = f64_add a (f64_neg b)"

text \<open>Division by a positive finite constant.\<close>

fun f64_div :: "f64 \<Rightarrow> rat \<Rightarrow> f64" where
  "f64_div (Finite a) c = f64_of_rat (a / c)"
| "f64_div x _ = x"

fun f64_abs :: "f64 \<Rightarrow> f64" where
  "f64_abs (Finite a) = Finite \<bar>a\<bar>"
| "f64_abs (Infinite _) = Infinite True"
| "f64_abs NotANumber = NotANumber"

fun f64_less :: "f64 \<Rightarrow> f64 \<Rightarrow> bool" where
  "f64_less (Finite a) (Finite b) = (a < b)"
| "f64_less (Finite _) (Infinite s) = s"
| "f64_less (Infinite s) (Finite _) = (\<not> s)"
| "f64_less (Infinite s) (Infinite t) = (\<not> s \<and> t)"
| "f64_less _ _ = False"

fun f64_eq :: "f64 \<Rightarrow> f64 \<Rightarrow> bool" where
  "f64_eq NotANumber _ = False"
| "f64_eq _ NotANumber = False"
| "f64_eq a b = (a = b)"

definition f64_le :: "f64 \<Rightarrow> f64 \<Rightarrow> bool" where
  "f64_le a b \<longleftrightarrow> f64_less a b \<or> f64_eq a b"

text \<open>\<open>(0.0..limit).contains(x)\<close>.\<close>

definition in_extent :: "f64 \<Rightarrow> f64 \<Rightarrow> bool" where
  "in_extent limit x \<longleftrightarrow> f64_le (Finite 0) x \<and> f64_less x limit"

text \<open>\<open>f64::round\<close>: half away from zero.\<close>

fun f64_round :: "f64 \<Rightarrow> f64" where
  "f64_round (Finite a) =
     Finite (of_int (if 0 \<le> a then \<lfloor>a + 1 / 2\<rfloor> else - \<lfloor>- a + 1 / 2\<rfloor>))"
| "f64_round x = x"

text \<open>\<open>x as i64\<close>: towards zero, saturating, NaN is 0.\<close>

fun f64_as_i64 :: "f64 \<Rightarrow> int" where
  "f64_as_i64 (Finite a) = max (- (2 ^ 63)) (min (2 ^ 63 - 1) (if 0 \<le> a then \<lfloor>a\<rfloor> else - \<lfloor>- a\<rfloor>))"
| "f64_as_i64 (Infinite s) = (if s then 2 ^ 63 - 1 else - (2 ^ 63))"
| "f64_as_i64 NotANumber = 0"

lemma in_extent_finite: "in_extent (Finite limit) x \<longleftrightarrow> (\<exists>a. x = Finite a \<and> 0 \<le> a \<and> a < limit)"
  by (cases x) (auto simp: in_extent_def f64_le_def)

text \<open>A rounded coordinate inside the extent is the integer the code sends.\<close>

lemma as_i64_in_extent:
  assumes "in_extent (Finite limit) (f64_round x)" and "limit \<le> 2 ^ 62"
  shows "0 \<le> f64_as_i64 (f64_round x) \<and> of_int (f64_as_i64 (f64_round x)) < limit"
proof -
  from assms(1) obtain a where a: "f64_round x = Finite a" "0 \<le> a" "a < limit"
    by (auto simp: in_extent_finite)
  then obtain n where n: "a = of_int n" by (cases x) auto
  have "n < 2 ^ 62" using a(3) assms(2) n by (metis less_le_trans of_int_less_iff of_int_numeral of_int_power)
  then show ?thesis using a n by simp
qed

end
