(* ===== verification/CdpData.thy ===== *)
theory CdpData
  imports Semantic Float64
begin

text \<open>
  The data of the browser backend (cdp.rs): its configuration and errors, the JSON it reads
  from the browser - the accessibility tree, the frame's node ids, boxes and the viewport -
  and the semantic elements it builds from them.

  \<open>parse_ax_tree\<close> follows \<open>parentId\<close> links that the browser sends until it meets a selected
  node.  Nothing in the code bounds that walk, so it is a partial function here: \<open>None\<close>
  means that it does not return.
\<close>

section \<open>Errors and configuration\<close>

datatype cdp_error =
    InvalidConfig
  | CdpProtocol
  | CdpStaleTarget
  | CdpTargetNotFound
  | CdpCancelled
  | CdpExpired
  | CdpUnsupported

datatype channel_error = BeforeSend | AfterSend

record cdp_config =
  cf_port :: u16
  cf_target_id :: string
  cf_browser_process_id :: u32
  cf_process_generation :: string
  cf_session_isolation :: session_isolation

definition backend_name :: string where "backend_name = ''praefectus-chromium-cdp''"
definition max_cdp_message_bytes :: nat where "max_cdp_message_bytes = 2 * 1024 * 1024"
definition max_cdp_messages_per_command :: nat where "max_cdp_messages_per_command = 128"
definition max_edit_bytes :: nat where "max_edit_bytes = 64 * 1024"

definition valid_cdp_identifier :: "string \<Rightarrow> nat \<Rightarrow> bool" where
  "valid_cdp_identifier value maximum \<longleftrightarrow> value \<noteq> [] \<and> length value \<le> maximum
     \<and> list_all (\<lambda>c. is_ascii_alphanumeric c \<or> c = CHR ''-'' \<or> c = CHR ''_'') value"

text \<open>\<open>live\<close> is the answer of \<open>live_process_generation\<close>.\<close>

definition same_process :: "cdp_error + string \<Rightarrow> string \<Rightarrow> bool" where
  "same_process live generation \<longleftrightarrow> live = Inr generation"

definition localhost_with_isolation :: "(u32 \<Rightarrow> cdp_error + string) \<Rightarrow> u16 \<Rightarrow> string \<Rightarrow> u32
    \<Rightarrow> string \<Rightarrow> session_isolation \<Rightarrow> cdp_error + cdp_config" where
  "localhost_with_isolation live port target_id process_id generation isolation =
     (if port = 0 \<or> process_id = 0
         \<or> \<not> valid_cdp_identifier target_id 128
         \<or> \<not> valid_cdp_identifier generation 256
         \<or> \<not> same_process (live process_id) generation
      then Inl InvalidConfig
      else Inr \<lparr>cf_port = port, cf_target_id = target_id, cf_browser_process_id = process_id,
        cf_process_generation = generation, cf_session_isolation = isolation\<rparr>)"

definition localhost :: "(u32 \<Rightarrow> cdp_error + string) \<Rightarrow> u16 \<Rightarrow> string \<Rightarrow> u32 \<Rightarrow> string
    \<Rightarrow> cdp_error + cdp_config" where
  "localhost live port target_id process_id generation =
     localhost_with_isolation live port target_id process_id generation SharedDesktop"

definition host_isolated_localhost :: "(u32 \<Rightarrow> cdp_error + string) \<Rightarrow> u16 \<Rightarrow> string \<Rightarrow> u32
    \<Rightarrow> string \<Rightarrow> cdp_error + cdp_config" where
  "host_isolated_localhost live port target_id process_id generation =
     localhost_with_isolation live port target_id process_id generation HostIsolated"

text \<open>A socket address: IPv4 address and port.\<close>

definition endpoint :: "cdp_config \<Rightarrow> string \<times> u16" where
  "endpoint config = (''127.0.0.1'', cf_port config)"

definition validate_websocket_url :: "cdp_config \<Rightarrow> string \<Rightarrow> cdp_error + string" where
  "validate_websocket_url config url =
     (let expected = ''ws://127.0.0.1:'' @ show_nat (unat (cf_port config)) @ ''/devtools/page/''
                       @ cf_target_id config
      in if url \<noteq> expected then Inl InvalidConfig else Inr expected)"

text \<open>The set of owners is the list of its members in order.\<close>

definition endpoint_is_exclusively_owned_by :: "u32 list \<Rightarrow> u32 \<Rightarrow> bool" where
  "endpoint_is_exclusively_owned_by owners process_id \<longleftrightarrow>
     length owners = 1 \<and> process_id \<in> set owners"

section \<open>Mapping of errors\<close>

fun map_semantic_error :: "semantic_error \<Rightarrow> cdp_error" where
  "map_semantic_error SemanticTargetNotFound = CdpTargetNotFound"
| "map_semantic_error StaleObservation = CdpStaleTarget"
| "map_semantic_error SemanticStaleTarget = CdpStaleTarget"
| "map_semantic_error _ = CdpProtocol"

definition backend_error :: protocol_error where
  "backend_error = ExecutorError ''browser backend operation failed''"

fun map_cdp_protocol_error :: "cdp_error \<Rightarrow> protocol_error" where
  "map_cdp_protocol_error CdpCancelled = ObservationCancelled"
| "map_cdp_protocol_error CdpExpired = ObservationExpired"
| "map_cdp_protocol_error CdpStaleTarget = StaleTarget ''browser target changed''"
| "map_cdp_protocol_error CdpTargetNotFound = TargetNotFound ''browser target was not found''"
| "map_cdp_protocol_error _ = backend_error"

definition no_effect :: "string \<Rightarrow> dispatch_error" where
  "no_effect message = \<lparr>de_message = message, de_effect = NoEffect, de_code = StaleTargetCode\<rparr>"

definition unknown :: "string \<Rightarrow> dispatch_error" where
  "unknown message = \<lparr>de_message = message, de_effect = EffectUnknown, de_code = DispatchFailed\<rparr>"

definition unsupported :: dispatch_error where
  "unsupported = \<lparr>de_message = ''browser action is unsupported'', de_effect = NoEffect,
     de_code = Unsupported\<rparr>"

definition success_receipt :: dispatch_receipt where
  "success_receipt = \<lparr>dr_backend = backend_name, dr_fallback_chain = []\<rparr>"

definition or_else :: "'a option \<Rightarrow> 'e \<Rightarrow> 'e + 'a" where
  "or_else v e = (case v of None \<Rightarrow> Inl e | Some x \<Rightarrow> Inr x)"

section \<open>Reading JSON\<close>

text \<open>\<open>Value::pointer\<close> with names of object members.\<close>

definition jpointer :: "json \<Rightarrow> string list \<Rightarrow> json option" where
  "jpointer v path = foldl (\<lambda>here k. Option.bind here (\<lambda>v. jget v k)) (Some v) path"

fun find_map :: "('a \<Rightarrow> 'b option) \<Rightarrow> 'a list \<Rightarrow> 'b option" where
  "find_map f [] = None"
| "find_map f (x # xs) = (case f x of None \<Rightarrow> find_map f xs | Some y \<Rightarrow> Some y)"

definition required_string :: "json \<Rightarrow> string \<Rightarrow> cdp_error + string" where
  "required_string value key = (case get_str value key of
       None \<Rightarrow> Inl CdpProtocol
     | Some s \<Rightarrow> if s = [] then Inl CdpProtocol else Inr s)"

definition redacted_name :: "string \<Rightarrow> string option" where
  "redacted_name value =
     (let trimmed = trim_chars (chars value) in
      if trimmed = [] then None
      else let kept = utf8_encode (take 1024 (filter (\<lambda>c. \<not> is_control c) trimmed)) in
        if kept = [] then None else Some kept)"

definition ax_value :: "json option \<Rightarrow> string option" where
  "ax_value value = Option.bind value (\<lambda>v. Option.bind (get_str v ''value'') redacted_name)"

definition ax_property :: "json \<Rightarrow> string \<Rightarrow> json option" where
  "ax_property node name = Option.bind (jget node ''properties'') (\<lambda>ps. Option.bind (as_array ps)
     (find_map (\<lambda>v. Option.bind (get_str v ''name'') (\<lambda>n.
        if n = name then jget v ''value'' else None))))"

definition ax_bool_property :: "json \<Rightarrow> string \<Rightarrow> bool option" where
  "ax_bool_property node name = Option.bind (ax_property node name) (\<lambda>v. get_bool v ''value'')"

text \<open>The two steps of \<open>redacted_probe\<close>: the three fields leave the object; they come back
  under their new names unless the node is protected.\<close>

definition obj_remove :: "string \<Rightarrow> (string \<times> json) list \<Rightarrow> (string \<times> json) list" where
  "obj_remove k es = filter (\<lambda>e. fst e \<noteq> k) es"

definition rename_field :: "bool \<Rightarrow> string \<times> string \<Rightarrow> (string \<times> json) list \<Rightarrow> (string \<times> json) list" where
  "rename_field protected names es = (case map_of es (fst names) of
       None \<Rightarrow> es
     | Some field \<Rightarrow>
         if protected then obj_remove (fst names) es
         else obj_insert (snd names) field (obj_remove (fst names) es))"

definition renamed_fields :: "(string \<times> string) list" where
  "renamed_fields = [(''valueHash'', ''value_hash''), (''valueLength'', ''value_length''),
     (''valueTooLarge'', ''value_too_large'')]"

fun redacted_probe :: "json \<Rightarrow> bool \<Rightarrow> json" where
  "redacted_probe (JObj es) protected = JObj (fold (rename_field protected) renamed_fields es)"
| "redacted_probe v protected = v"

end
