(* ===== verification/CdpTree.thy ===== *)
theory CdpTree
  imports CdpData
begin

text \<open>
  The answers of the browser (cdp.rs): the result of a command, the node ids of the root
  frame, the accessibility tree and the elements read from it, boxes and viewports.

  A \<open>HashSet\<close> of ids is the list of what was inserted, a \<open>BTreeMap\<close> a finite map.
  \<open>parse\<close> reads the text of a JSON number that is not an integer; it is a parameter.
\<close>

section \<open>Commands\<close>

definition cdp_command_result :: "json \<Rightarrow> nat \<Rightarrow> channel_error + json option" where
  "cdp_command_result response command_id = (case get_u64 response ''id'' of
       Some n \<Rightarrow>
         if n = command_id \<and> jget response ''error'' = None
         then map_sum id Some (or_else (jget response ''result'') AfterSend)
         else Inl AfterSend
     | None \<Rightarrow> (case get_str response ''method'' of
         Some method \<Rightarrow> if method \<noteq> [] then Inr None else Inl AfterSend
       | None \<Rightarrow> Inl AfterSend))"

section \<open>The nodes of the root frame\<close>

definition nth_opt :: "'a list \<Rightarrow> nat \<Rightarrow> 'a option" where
  "nth_opt xs i = (if i < length xs then Some (xs ! i) else None)"

fun sequence_results :: "('e + 'a) list \<Rightarrow> 'e + 'a list" where
  "sequence_results [] = Inr []"
| "sequence_results (Inl e # rs) = Inl e"
| "sequence_results (Inr x # rs) = map_sum id ((#) x) (sequence_results rs)"

definition is_root_document :: "json list option \<Rightarrow> string \<Rightarrow> json \<Rightarrow> bool" where
  "is_root_document strings root_frame_id document = (case jget document ''frameId'' of
       None \<Rightarrow> False
     | Some frame_id \<Rightarrow> as_str frame_id = Some root_frame_id
         \<or> Option.bind (as_u64 frame_id) (\<lambda>index. Option.bind strings (\<lambda>values.
             Option.bind (nth_opt values index) as_str)) = Some root_frame_id)"

definition positive_id :: "json \<Rightarrow> cdp_error + nat" where
  "positive_id v = (case as_u64 v of
       None \<Rightarrow> Inl CdpProtocol
     | Some n \<Rightarrow> if 0 < n then Inr n else Inl CdpProtocol)"

definition root_backend_node_ids :: "json \<Rightarrow> string \<Rightarrow> cdp_error + nat list" where
  "root_backend_node_ids snapshot root_frame_id =
     (let strings = Option.bind (jget snapshot ''strings'') as_array in
      case Option.bind (jget snapshot ''documents'') as_array of
        None \<Rightarrow> Inl CdpProtocol
      | Some documents \<Rightarrow> (case filter (is_root_document strings root_frame_id) documents of
          [document] \<Rightarrow>
            (case Option.bind (jpointer document [''nodes'', ''backendNodeId'']) as_array of
               None \<Rightarrow> Inl CdpProtocol
             | Some values \<Rightarrow> sequence_results (map positive_id values))
        | _ \<Rightarrow> Inl CdpProtocol))"

section \<open>Accessibility semantics of a node\<close>

record ax_semantics =
  ax_role :: string
  ax_name :: "string option"
  ax_protected :: bool
  ax_visible :: bool
  ax_enabled :: bool
  ax_invokable :: bool
  ax_editable :: bool

definition invokable_roles :: "string list" where
  "invokable_roles = [''button'', ''checkbox'', ''link'', ''menuitem'', ''menuitemcheckbox'',
     ''menuitemradio'', ''option'', ''radio'', ''switch'', ''tab'', ''treeitem'']"

definition redacted_text :: string where "redacted_text = ''[redacted]''"

definition flag :: "json \<Rightarrow> string \<Rightarrow> bool" where
  "flag node name = (case ax_bool_property node name of None \<Rightarrow> False | Some b \<Rightarrow> b)"

definition ax_semantics_of :: "json \<Rightarrow> cdp_error + ax_semantics" where
  "ax_semantics_of node = (case ax_value (jget node ''role'') of
       None \<Rightarrow> Inl CdpProtocol
     | Some role \<Rightarrow>
         if role = [] \<or> role = ''none'' then Inl CdpProtocol
         else let protected = flag node ''protected'' in
           Inr \<lparr>ax_role = role,
             ax_name = (if protected then Some redacted_text else ax_value (jget node ''name'')),
             ax_protected = protected,
             ax_visible = (\<not> flag node ''hidden''),
             ax_enabled = (\<not> flag node ''disabled''),
             ax_invokable = (role \<in> set invokable_roles),
             ax_editable = (\<not> flag node ''readonly''
               \<and> (ax_property node ''editable'' \<noteq> None \<or> role = ''textbox'' \<or> role = ''searchbox''))\<rparr>)"

definition live_ax_semantics :: "json \<Rightarrow> nat \<Rightarrow> dispatch_error + ax_semantics" where
  "live_ax_semantics tree backend_node_id =
     (case Option.bind (jget tree ''nodes'') as_array of
        None \<Rightarrow> Inl (no_effect ''browser target changed'')
      | Some nodes \<Rightarrow>
          (case filter (\<lambda>node. get_u64 node ''backendDOMNodeId'' = Some backend_node_id
                          \<and> get_bool node ''ignored'' \<noteq> Some True) nodes of
             [] \<Rightarrow> Inl (no_effect ''browser target changed'')
           | [node] \<Rightarrow> map_sum (\<lambda>_. no_effect ''browser target changed'') id (ax_semantics_of node)
           | _ \<Rightarrow> Inl (no_effect ''browser target is ambiguous'')))"

definition fingerprint_json :: "string \<Rightarrow> nat \<Rightarrow> ax_semantics \<Rightarrow> json" where
  "fingerprint_json document_id backend_node_id s =
     JArr [JStr document_id, JInt (int backend_node_id), JStr (ax_role s), jopt (ax_name s)]"

section \<open>The accessibility tree\<close>

record cdp_node =
  cn_backend_node_id :: nat
  cn_protected :: bool
  cn_element :: semantic_element

type_synonym selected_node = "string \<times> nat \<times> ax_semantics"

text \<open>The first loop: the parent of every node, and the nodes that become elements.\<close>

fun select_nodes :: "nat list \<Rightarrow> json list \<Rightarrow> (string \<rightharpoonup> string) \<Rightarrow> nat list \<Rightarrow> selected_node list
    \<Rightarrow> cdp_error + (string \<rightharpoonup> string) \<times> selected_node list" where
  "select_nodes roots [] parents seen selected = Inr (parents, selected)"
| "select_nodes roots (raw # rest) parents seen selected =
     (case required_string raw ''nodeId'' of
        Inl e \<Rightarrow> Inl e
      | Inr raw_id \<Rightarrow>
          let parents = (case get_str raw ''parentId'' of
                None \<Rightarrow> parents | Some parent_id \<Rightarrow> parents(raw_id \<mapsto> parent_id));
              skip = select_nodes roots rest parents in
          if get_bool raw ''ignored'' = Some True then skip seen selected
          else case get_u64 raw ''backendDOMNodeId'' of
            None \<Rightarrow> skip seen selected
          | Some n \<Rightarrow>
              if n \<notin> set roots then skip seen selected
              else if n = 0 \<or> n \<in> set seen then Inl CdpProtocol
              else case ax_value (jget raw ''role'') of
                None \<Rightarrow> Inl CdpProtocol
              | Some role \<Rightarrow>
                  if role = [] \<or> role = ''none'' then skip (n # seen) selected
                  else case ax_semantics_of raw of
                    Inl e \<Rightarrow> Inl e
                  | Inr semantics \<Rightarrow> skip (n # seen) (selected @ [(raw_id, n, semantics)]))"

text \<open>The walk from a node to its nearest selected ancestor.\<close>

partial_function (option) nearest ::
  "(string \<rightharpoonup> string) \<Rightarrow> string set \<Rightarrow> string option \<Rightarrow> string option option" where
  "nearest parents selected_ids node =
     (if (case node of None \<Rightarrow> True | Some raw_id \<Rightarrow> raw_id \<in> selected_ids) then Some node
      else nearest parents selected_ids (Option.bind node parents))"

definition opaque_ids :: "hashing \<Rightarrow> string \<Rightarrow> selected_node list
    \<Rightarrow> cdp_error + (string \<times> string) list" where
  "opaque_ids H observation_id selected = sequence_results (map (\<lambda>(raw_id, n, s).
     map_sum (\<lambda>_. CdpProtocol) (Pair raw_id) (opaque_element_id H observation_id (show_nat n))) selected)"

definition element_of :: "hashing \<Rightarrow> string \<Rightarrow> string \<Rightarrow> string option \<Rightarrow> nat \<Rightarrow> selected_node
    \<Rightarrow> cdp_error + cdp_node" where
  "element_of H document_id element_id parent_id index sel = (case sel of (raw_id, n, s) \<Rightarrow>
     (case semantic_tag index of
        Inl _ \<Rightarrow> Inl CdpProtocol
      | Inr tag \<Rightarrow> Inr \<lparr>cn_backend_node_id = n, cn_protected = ax_protected s, cn_element =
          \<lparr>se_tag = tag, se_element_id = element_id, se_parent_id = parent_id,
           se_fingerprint_hash = semantic_fingerprint H (fingerprint_json document_id n s),
           se_role = ax_role s, se_name = ax_name s, se_bounds = None,
           se_actionability = \<lparr>visible = ax_visible s, enabled = ax_enabled s,
             unambiguous = True, stable = False, receives_events = False,
             invokable = ax_invokable s, editable = ax_editable s\<rparr>\<rparr>\<rparr>))"

text \<open>The last loop; \<open>ids\<close> holds the latest insertion of a key first.\<close>

fun build_elements :: "hashing \<Rightarrow> string \<Rightarrow> (string \<rightharpoonup> string) \<Rightarrow> string set \<Rightarrow> (string \<times> string) list
    \<Rightarrow> nat \<Rightarrow> selected_node list \<Rightarrow> (cdp_error + cdp_node list) option" where
  "build_elements H document_id parents selected_ids ids index [] = Some (Inr [])"
| "build_elements H document_id parents selected_ids ids index (sel # rest) =
     (case nearest parents selected_ids (parents (fst sel)) of
        None \<Rightarrow> None
      | Some parent \<Rightarrow> (case map_of ids (fst sel) of
          None \<Rightarrow> Some (Inl CdpProtocol)
        | Some element_id \<Rightarrow>
            (case element_of H document_id element_id (Option.bind parent (map_of ids)) index sel of
               Inl e \<Rightarrow> Some (Inl e)
             | Inr node \<Rightarrow> map_option (map_sum id ((#) node))
                 (build_elements H document_id parents selected_ids ids (Suc index) rest))))"

definition node_map :: "cdp_node list \<Rightarrow> string \<rightharpoonup> cdp_node" where
  "node_map nodes = map_of (rev (map (\<lambda>n. (se_element_id (cn_element n), n)) nodes))"

definition parse_ax_tree :: "hashing \<Rightarrow> json \<Rightarrow> string \<Rightarrow> string \<Rightarrow> nat list
    \<Rightarrow> (cdp_error + semantic_element list \<times> (string \<rightharpoonup> cdp_node)) option" where
  "parse_ax_tree H tree observation_id document_id roots =
     (case Option.bind (jget tree ''nodes'') as_array of
        None \<Rightarrow> Some (Inl CdpProtocol)
      | Some raw_nodes \<Rightarrow>
          if max_semantic_elements < length raw_nodes then Some (Inl CdpProtocol)
          else case select_nodes roots raw_nodes Map.empty [] [] of
            Inl e \<Rightarrow> Some (Inl e)
          | Inr (parents, selected) \<Rightarrow> (case opaque_ids H observation_id selected of
              Inl e \<Rightarrow> Some (Inl e)
            | Inr ids \<Rightarrow>
                map_option (map_sum id (\<lambda>nodes. (map cn_element nodes, node_map nodes)))
                  (build_elements H document_id parents (fst ` set selected) (rev ids) 0 selected)))"

section \<open>Boxes, the viewport, scrolling\<close>

fun as_f64 :: "(string \<Rightarrow> f64) \<Rightarrow> json \<Rightarrow> f64 option" where
  "as_f64 parse (JInt n) = Some (f64_of_rat (of_int n))"
| "as_f64 parse (JFloat t) = Some (parse t)"
| "as_f64 parse _ = None"

definition finite_f64 :: "(string \<Rightarrow> f64) \<Rightarrow> json option \<Rightarrow> f64 option" where
  "finite_f64 parse v = Option.bind v (\<lambda>v. Option.bind (as_f64 parse v) (\<lambda>x.
     if is_finite x then Some x else None))"

definition border_quad :: "(string \<Rightarrow> f64) \<Rightarrow> json \<Rightarrow> dispatch_error + f64 list" where
  "border_quad parse response =
     (let unstable = no_effect ''browser target has no stable box'' in
      case Option.bind (jpointer response [''model'', ''border'']) as_array of
        None \<Rightarrow> Inl unstable
      | Some values \<Rightarrow>
          if length values \<noteq> 8 then Inl unstable
          else sequence_results (map (\<lambda>v. or_else (finite_f64 parse (Some v)) unstable) values))"

definition layout_viewport :: "json \<Rightarrow> json option" where
  "layout_viewport layout = (case jget layout ''cssVisualViewport'' of
       Some v \<Rightarrow> Some v | None \<Rightarrow> jget layout ''visualViewport'')"

definition viewport_extent :: "(string \<Rightarrow> f64) \<Rightarrow> json \<Rightarrow> string \<Rightarrow> f64 option" where
  "viewport_extent parse viewport key = Option.bind (finite_f64 parse (jget viewport key)) (\<lambda>x.
     if f64_less (Finite 0) x then Some x else None)"

definition viewport_offset :: "(string \<Rightarrow> f64) \<Rightarrow> json \<Rightarrow> string \<Rightarrow> f64" where
  "viewport_offset parse viewport key =
     (case Option.bind (jget viewport key) (as_f64 parse) of None \<Rightarrow> Finite 0 | Some x \<Rightarrow> x)"

definition mean4 :: "f64 \<Rightarrow> f64 \<Rightarrow> f64 \<Rightarrow> f64 \<Rightarrow> f64" where
  "mean4 a b c d = f64_div (f64_add (f64_add (f64_add a b) c) d) 4"

definition viewport_point :: "(string \<Rightarrow> f64) \<Rightarrow> f64 list \<Rightarrow> json \<Rightarrow> dispatch_error + i64 \<times> i64" where
  "viewport_point parse quad layout =
     (let unavailable = no_effect ''browser viewport is unavailable'';
          outside = no_effect ''browser target is outside the viewport'' in
      case layout_viewport layout of
        None \<Rightarrow> Inl unavailable
      | Some viewport \<Rightarrow>
        let page_x = viewport_offset parse viewport ''pageX'';
            page_y = viewport_offset parse viewport ''pageY'' in
        (case viewport_extent parse viewport ''clientWidth'' of
           None \<Rightarrow> Inl unavailable
         | Some width \<Rightarrow> (case viewport_extent parse viewport ''clientHeight'' of
             None \<Rightarrow> Inl unavailable
           | Some height \<Rightarrow>
               let q = (\<lambda>i. quad ! i) in
               if \<not> list_all (\<lambda>i. in_extent width (f64_sub (q i) page_x)
                      \<and> in_extent height (f64_sub (q (i + 1)) page_y)) [0, 2, 4, 6]
               then Inl outside
               else
                 let x = f64_round (f64_sub (mean4 (q 0) (q 2) (q 4) (q 6)) page_x);
                     y = f64_round (f64_sub (mean4 (q 1) (q 3) (q 5) (q 7)) page_y) in
                 if \<not> in_extent width x \<or> \<not> in_extent height y then Inl outside
                 else Inr (f64_as_i64 x, f64_as_i64 y))))"

definition scroll_direction_name :: "direction \<Rightarrow> string" where
  "scroll_direction_name d = (case d of Up \<Rightarrow> ''up'' | Down \<Rightarrow> ''down'' | Leftward \<Rightarrow> ''left''
     | Rightward \<Rightarrow> ''right'')"

definition scroll_delta_css_px :: i64 where "scroll_delta_css_px = 100"

definition scroll_axis_delta :: "direction \<Rightarrow> string \<times> i64" where
  "scroll_axis_delta d = (case d of
       Up \<Rightarrow> (''y'', - scroll_delta_css_px)
     | Down \<Rightarrow> (''y'', scroll_delta_css_px)
     | Leftward \<Rightarrow> (''x'', - scroll_delta_css_px)
     | Rightward \<Rightarrow> (''x'', scroll_delta_css_px))"

text \<open>Two boxes are stable if no coordinate moved by more than a quarter of a pixel.\<close>

definition stable_boxes :: "f64 list \<Rightarrow> f64 list \<Rightarrow> bool" where
  "stable_boxes xs ys \<longleftrightarrow>
     list_all (\<lambda>(x, y). \<not> f64_less (Finite (1 / 4)) (f64_abs (f64_sub x y))) (zip xs ys)"

section \<open>The walk\<close>

definition links_of :: "(string \<rightharpoonup> string) \<Rightarrow> (string \<times> string) set" where
  "links_of parents = {(child, parent). parents child = Some parent}"

lemma nearest_None [simp]: "nearest parents S None = Some None"
  by (simp add: nearest.simps)

lemma nearest_Some:
  "nearest parents S (Some raw_id) =
    (if raw_id \<in> S then Some (Some raw_id) else nearest parents S (parents raw_id))"
  by (subst nearest.simps) simp

text \<open>The walk returns if the links have no cycle.\<close>

lemma nearest_returns:
  assumes fin: "finite (dom parents)" and ac: "acyclic (links_of parents)"
  shows "nearest parents S node \<noteq> None"
proof -
  have "links_of parents = Map.graph parents" by (auto simp: links_of_def Map.graph_def)
  then have "finite (links_of parents)" using fin by simp
  then have "wf ((links_of parents)\<inverse>)" using ac by (rule finite_acyclic_wf_converse)
  then have some: "nearest parents S (Some raw_id) \<noteq> None" for raw_id
  proof (induction raw_id rule: wf_induct_rule)
    case (less raw_id)
    then show ?case
      by (cases "parents raw_id") (auto simp: nearest_Some links_of_def)
  qed
  show ?thesis by (cases node) (simp_all add: some)
qed

text \<open>It does not return from a set of unselected nodes that it cannot leave.\<close>

lemma nearest_stuck:
  assumes closed: "\<And>a. a \<in> C \<Longrightarrow> a \<notin> S \<and> (\<exists>b \<in> C. parents a = Some b)"
    and start: "a \<in> C"
  shows "nearest parents S (Some a) = None"
proof (rule ccontr)
  assume "nearest parents S (Some a) \<noteq> None"
  then obtain r where r: "nearest parents S (Some a) = Some r" by auto
  have "parents = parents \<longrightarrow> S = S \<longrightarrow> (\<forall>b \<in> C. Some a \<noteq> Some b)"
  proof (rule nearest.raw_induct [OF _ r, of "\<lambda>ps T node _. ps = parents \<longrightarrow> T = S \<longrightarrow> (\<forall>b \<in> C. node \<noteq> Some b)"],
      intro impI ballI notI)
    fix f ps T node y b
    assume IH: "\<And>ps T node y. f ps T node = Some y \<Longrightarrow>
        ps = parents \<longrightarrow> T = S \<longrightarrow> (\<forall>b \<in> C. node \<noteq> Some b)"
      and step: "(if case node of None \<Rightarrow> True | Some raw_id \<Rightarrow> raw_id \<in> T then Some node
        else f ps T (node \<bind> ps)) = Some y"
      and eqs: "ps = parents" "T = S" and b: "b \<in> C" "node = Some b"
    obtain c where c: "c \<in> C" "parents b = Some c" "b \<notin> S" using closed [OF b(1)] by blast
    then have "f parents S (Some c) = Some y" using step eqs b(2) by simp
    with IH c(1) show False by blast
  qed
  then show False using start by blast
qed

lemma nearest_selected:
  assumes "nearest parents S node = Some r"
  shows "r = None \<or> (\<exists>raw_id \<in> S. r = Some raw_id)"
  by (rule nearest.raw_induct [OF _ assms, of "\<lambda>_ S _ r. r = None \<or> (\<exists>raw_id \<in> S. r = Some raw_id)"])
    (auto split: if_splits option.splits)

section \<open>What is selected\<close>

definition parent_links :: "json list \<Rightarrow> (string \<times> string) set" where
  "parent_links raws = {(child, parent). \<exists>raw \<in> set raws.
     required_string raw ''nodeId'' = Inr child \<and> get_str raw ''parentId'' = Some parent}"

definition read_from :: "json list \<Rightarrow> selected_node \<Rightarrow> bool" where
  "read_from raws sel \<longleftrightarrow> (case sel of (raw_id, n, s) \<Rightarrow> 0 < n \<and> (\<exists>raw \<in> set raws.
     required_string raw ''nodeId'' = Inr raw_id \<and> get_u64 raw ''backendDOMNodeId'' = Some n
     \<and> ax_semantics_of raw = Inr s))"

abbreviation selected_id :: "selected_node \<Rightarrow> nat" where
  "selected_id sel \<equiv> fst (snd sel)"

lemma read_from_mono: "read_from raws sel \<Longrightarrow> read_from (raw # raws) sel"
  by (auto simp: read_from_def split: prod.splits)

lemma links_of_update: "links_of (parents(c \<mapsto> p)) \<subseteq> insert (c, p) (links_of parents)"
  by (auto simp: links_of_def split: if_splits)

lemma select_nodes_ok:
  "select_nodes roots raws parents seen selected = Inr (parents', selected') \<Longrightarrow>
    \<exists>added. selected' = selected @ added \<and> list_all (read_from raws) added
      \<and> distinct (map selected_id added) \<and> selected_id ` set added \<subseteq> set roots - set seen"
proof (induction roots raws parents seen selected arbitrary: parents' selected' rule: select_nodes.induct)
  case (2 roots raw rest parents seen selected)
  obtain raw_id where raw_id: "required_string raw ''nodeId'' = Inr raw_id"
    using "2.prems" by (cases "required_string raw ''nodeId''") auto
  let ?parents = "case get_str raw ''parentId'' of None \<Rightarrow> parents | Some p \<Rightarrow> parents(raw_id \<mapsto> p)"
  have weaken: ?case if "select_nodes roots rest ?parents seen' selected = Inr (parents', selected')"
      and "set seen \<subseteq> set seen'"
      and "\<exists>added. selected' = selected @ added \<and> list_all (read_from rest) added
        \<and> distinct (map selected_id added) \<and> selected_id ` set added \<subseteq> set roots - set seen'"
    for seen'
    using that read_from_mono [of rest _ raw] by (fastforce simp: list_all_iff)
  consider
    (skip) seen' where "select_nodes roots rest ?parents seen' selected = Inr (parents', selected')"
      "set seen \<subseteq> set seen'"
      "\<exists>added. selected' = selected @ added \<and> list_all (read_from rest) added
        \<and> distinct (map selected_id added) \<and> selected_id ` set added \<subseteq> set roots - set seen'"
  | (take) n s where "get_u64 raw ''backendDOMNodeId'' = Some n" "n \<in> set roots" "0 < n" "n \<notin> set seen"
      "ax_semantics_of raw = Inr s"
      "\<exists>added. selected' = (selected @ [(raw_id, n, s)]) @ added \<and> list_all (read_from rest) added
        \<and> distinct (map selected_id added) \<and> selected_id ` set added \<subseteq> set roots - set (n # seen)"
  proof (cases "get_bool raw ''ignored'' = Some True")
    case True
    with "2.prems" "2.IH" [OF raw_id refl] show ?thesis
      by (intro that(1) [of seen]) (auto simp: raw_id Let_def)
  next
    case F1: False
    show ?thesis
    proof (cases "get_u64 raw ''backendDOMNodeId''")
      case None
      with "2.prems" "2.IH" [OF raw_id refl] F1 show ?thesis
        by (intro that(1) [of seen]) (auto simp: raw_id Let_def)
    next
      case (Some n)
      show ?thesis
      proof (cases "n \<in> set roots")
        case False
        with "2.prems" "2.IH" [OF raw_id refl] F1 Some show ?thesis
          by (intro that(1) [of seen]) (auto simp: raw_id Let_def)
      next
        case root: True
        then have nz: "\<not> (n = 0 \<or> n \<in> set seen)"
          using "2.prems" F1 Some by (auto simp: raw_id Let_def split: if_splits)
        then obtain role where role: "ax_value (jget raw ''role'') = Some role"
          using "2.prems" F1 Some root by (cases "ax_value (jget raw ''role'')") (auto simp: raw_id Let_def)
        show ?thesis
        proof (cases "role = [] \<or> role = ''none''")
          case True
          then have eq: "select_nodes roots rest ?parents (n # seen) selected = Inr (parents', selected')"
            using "2.prems" F1 Some root nz role by (auto simp: raw_id Let_def)
          show ?thesis by (rule that(1) [OF eq _ "2.IH" [OF raw_id refl eq]]) auto
        next
          case False
          then obtain s where s: "ax_semantics_of raw = Inr s"
            using "2.prems" F1 Some root nz role
            by (cases "ax_semantics_of raw") (auto simp: raw_id Let_def)
          then have eq: "select_nodes roots rest ?parents (n # seen) (selected @ [(raw_id, n, s)])
              = Inr (parents', selected')"
            using "2.prems" F1 Some root nz role False by (auto simp: raw_id Let_def)
          show ?thesis
            by (rule that(2) [OF Some root _ _ s "2.IH" [OF raw_id refl eq]]) (use nz in auto)
        qed
      qed
    qed
  qed
  then show ?case
  proof cases
    case (skip seen')
    then show ?thesis by (rule weaken)
  next
    case (take n s)
    then obtain added where "selected' = selected @ (raw_id, n, s) # added" "list_all (read_from rest) added"
      "distinct (map selected_id added)" "selected_id ` set added \<subseteq> set roots - set (n # seen)" by auto
    moreover have "read_from (raw # rest) (raw_id, n, s)"
      using take(1,3,5) raw_id by (auto simp: read_from_def)
    ultimately show ?thesis using take(2,4) read_from_mono
      by (intro exI [of _ "(raw_id, n, s) # added"]) (auto simp: list_all_iff)
  qed
qed simp

lemma select_nodes_links:
  "select_nodes roots raws parents seen selected = Inr (parents', selected') \<Longrightarrow> finite (dom parents) \<Longrightarrow>
    finite (dom parents') \<and> links_of parents' \<subseteq> links_of parents \<union> parent_links raws"
proof (induction roots raws parents seen selected arbitrary: parents' selected' rule: select_nodes.induct)
  case (2 roots raw rest parents seen selected)
  obtain raw_id where raw_id: "required_string raw ''nodeId'' = Inr raw_id"
    using "2.prems" by (cases "required_string raw ''nodeId''") auto
  let ?parents = "case get_str raw ''parentId'' of None \<Rightarrow> parents | Some p \<Rightarrow> parents(raw_id \<mapsto> p)"
  have fin: "finite (dom ?parents)" using "2.prems"(2) by (simp split: option.split)
  have links: "links_of ?parents \<subseteq> links_of parents \<union> parent_links (raw # rest)"
  proof (cases "get_str raw ''parentId''")
    case (Some p)
    then have "(raw_id, p) \<in> parent_links (raw # rest)" using raw_id by (auto simp: parent_links_def)
    then show ?thesis using links_of_update [of parents raw_id p] Some by auto
  qed simp
  obtain seen' selected'' where
    "select_nodes roots rest ?parents seen' selected'' = Inr (parents', selected')"
    using "2.prems"(1) by (auto simp: raw_id Let_def split: if_splits option.splits sum.splits)
  from "2.IH" [OF raw_id refl this fin] links show ?case
    by (auto simp: parent_links_def)
qed (simp add: parent_links_def)

section \<open>What the elements are\<close>

lemma map_sum_Inr_iff: "map_sum f g r = Inr y \<longleftrightarrow> (\<exists>x. r = Inr x \<and> y = g x)"
  by (cases r) auto

lemma sequence_results_Inr:
  "sequence_results rs = Inr xs \<longleftrightarrow> rs = map Inr xs"
proof (induction rs arbitrary: xs rule: sequence_results.induct)
  case (3 x rs)
  then show ?case by (cases xs) (auto simp: map_sum_Inr_iff)
qed auto

lemma opaque_ids_keys:
  "opaque_ids H observation_id selected = Inr ids \<Longrightarrow> map fst ids = map fst selected"
  unfolding opaque_ids_def sequence_results_Inr
  by (induction selected arbitrary: ids) (auto simp: map_eq_Cons_conv Cons_eq_map_conv map_sum_Inr_iff split: prod.splits)

text \<open>How one node is built from what was selected.\<close>

definition built_from :: "hashing \<Rightarrow> string \<Rightarrow> (string \<times> string) list \<Rightarrow> selected_node \<Rightarrow> cdp_node \<Rightarrow> bool" where
  "built_from H document_id ids sel node \<longleftrightarrow> (case sel of (raw_id, n, s) \<Rightarrow>
     cn_backend_node_id node = n \<and> cn_protected node = ax_protected s
   \<and> map_of ids raw_id = Some (se_element_id (cn_element node))
   \<and> (\<forall>p. se_parent_id (cn_element node) = Some p \<longrightarrow> p \<in> ran (map_of ids))
   \<and> se_fingerprint_hash (cn_element node) = semantic_fingerprint H (fingerprint_json document_id n s)
   \<and> se_role (cn_element node) = ax_role s \<and> se_name (cn_element node) = ax_name s
   \<and> visible (se_actionability (cn_element node)) = ax_visible s
   \<and> enabled (se_actionability (cn_element node)) = ax_enabled s)"

lemma element_of_built:
  assumes "element_of H document_id element_id parent_id index sel = Inr node"
    and "map_of ids (fst sel) = Some element_id"
    and "\<And>p. parent_id = Some p \<Longrightarrow> p \<in> ran (map_of ids)"
  shows "built_from H document_id ids sel node"
    and "semantic_tag index = Inr (se_tag (cn_element node))"
  using assms by (auto simp: element_of_def built_from_def split: prod.splits sum.splits)

lemma build_elements_ok:
  "build_elements H document_id parents selected_ids ids index selected = Some (Inr nodes) \<Longrightarrow>
    list_all2 (built_from H document_id ids) selected nodes
    \<and> map (Inr \<circ> se_tag \<circ> cn_element) nodes = map semantic_tag [index..<index + length selected]"
proof (induction H document_id parents selected_ids ids index selected arbitrary: nodes rule: build_elements.induct)
  case (2 H document_id parents selected_ids ids index sel rest)
  from "2.prems" obtain parent where parent: "nearest parents selected_ids (parents (fst sel)) = Some parent"
    by (auto split: option.splits)
  from "2.prems" parent obtain element_id where element_id: "map_of ids (fst sel) = Some element_id"
    by (auto split: option.splits)
  from "2.prems" parent element_id obtain node nodes' where
    node: "element_of H document_id element_id (Option.bind parent (map_of ids)) index sel = Inr node"
    and rest: "build_elements H document_id parents selected_ids ids (Suc index) rest = Some (Inr nodes')"
    and nodes: "nodes = node # nodes'"
    by (auto split: option.splits sum.splits simp: map_sum_Inr_iff)
  have "built_from H document_id ids sel node" "semantic_tag index = Inr (se_tag (cn_element node))"
    by (rule element_of_built [OF node element_id]; auto simp: bind_eq_Some_conv ranI)+
  then show ?case using "2.IH" [OF parent element_id node rest] nodes
    by (simp add: upt_conv_Cons del: upt_Suc)
qed simp

lemma build_elements_returns:
  assumes "finite (dom parents)" and "acyclic (links_of parents)"
  shows "build_elements H document_id parents selected_ids ids index selected \<noteq> None"
proof (induction selected arbitrary: index)
  case (Cons sel rest)
  obtain parent where "nearest parents selected_ids (parents (fst sel)) = Some parent"
    using nearest_returns [OF assms, of selected_ids "parents (fst sel)"] by auto
  then show ?case using Cons [of "Suc index"] by (auto split: option.splits sum.splits)
qed simp

definition ax_nodes :: "json \<Rightarrow> json list" where
  "ax_nodes tree = (case Option.bind (jget tree ''nodes'') as_array of None \<Rightarrow> [] | Some raws \<Rightarrow> raws)"

lemma parse_ax_tree_returns:
  assumes "acyclic (parent_links (ax_nodes tree))"
  shows "parse_ax_tree H tree observation_id document_id roots \<noteq> None"
proof (cases "Option.bind (jget tree ''nodes'') as_array")
  case (Some raws)
  then have raws: "ax_nodes tree = raws" by (simp add: ax_nodes_def)
  show ?thesis
  proof (cases "select_nodes roots raws Map.empty [] []")
    case (Inr result)
    obtain parents selected where result: "result = (parents, selected)" by (cases result)
    have "links_of Map.empty = {}" by (simp add: links_of_def)
    with select_nodes_links [OF Inr [unfolded result]]
    have "finite (dom parents)" "links_of parents \<subseteq> parent_links raws" by auto
    then have "finite (dom parents)" "acyclic (links_of parents)"
      using assms raws acyclic_subset by auto
    then show ?thesis
      using Some Inr result
        build_elements_returns [of parents H document_id "fst ` set selected" _ 0 selected]
      by (simp add: parse_ax_tree_def split: sum.split)
  qed (use Some in \<open>auto simp: parse_ax_tree_def\<close>)
qed (auto simp: parse_ax_tree_def)

text \<open>An element stands for a node of the tree, in the root frame.\<close>

definition stands_for :: "hashing \<Rightarrow> json list \<Rightarrow> string \<Rightarrow> nat list \<Rightarrow> cdp_node \<Rightarrow> bool" where
  "stands_for H raws document_id roots node \<longleftrightarrow> (\<exists>raw \<in> set raws. \<exists>s.
     get_u64 raw ''backendDOMNodeId'' = Some (cn_backend_node_id node)
   \<and> cn_backend_node_id node \<in> set roots \<and> ax_semantics_of raw = Inr s
   \<and> se_fingerprint_hash (cn_element node)
       = semantic_fingerprint H (fingerprint_json document_id (cn_backend_node_id node) s)
   \<and> se_role (cn_element node) = ax_role s \<and> se_name (cn_element node) = ax_name s
   \<and> cn_protected node = ax_protected s)"

lemma semantic_tag_Inr: "semantic_tag i = Inr t \<longleftrightarrow> i < max_semantic_elements \<and> t = CHR ''e'' # show_nat i"
  by (auto simp: semantic_tag_def)

lemma node_map_Some: "node_map nodes k = Some n \<Longrightarrow> n \<in> set nodes \<and> se_element_id (cn_element n) = k"
  unfolding node_map_def by (drule map_of_SomeD) auto

lemma parse_ax_tree_ok:
  assumes "parse_ax_tree H tree observation_id document_id roots = Some (Inr (elements, nodes))"
  obtains built where "elements = map cn_element built" "nodes = node_map built"
    "list_all (stands_for H (ax_nodes tree) document_id roots) built"
    "distinct (map cn_backend_node_id built)" "distinct (map se_tag elements)"
    "\<And>e p. e \<in> set elements \<Longrightarrow> se_parent_id e = Some p \<Longrightarrow> p \<in> se_element_id ` set elements"
proof -
  obtain raws where raws: "Option.bind (jget tree ''nodes'') as_array = Some raws"
    using assms by (auto simp: parse_ax_tree_def split: option.splits)
  then have ax: "ax_nodes tree = raws" by (simp add: ax_nodes_def)
  have small: "\<not> max_semantic_elements < length raws"
    using assms raws by (auto simp: parse_ax_tree_def)
  obtain parents selected where sel: "select_nodes roots raws Map.empty [] [] = Inr (parents, selected)"
    using assms raws small by (auto simp: parse_ax_tree_def split: sum.splits)
  obtain ids where ids: "opaque_ids H observation_id selected = Inr ids"
    using assms raws small sel by (auto simp: parse_ax_tree_def split: sum.splits)
  obtain built where b: "build_elements H document_id parents (fst ` set selected) (rev ids) 0 selected
      = Some (Inr built)" "elements = map cn_element built" "nodes = node_map built"
    using assms raws small sel ids by (auto simp: parse_ax_tree_def map_sum_Inr_iff)
  from select_nodes_ok [OF sel] have selected: "list_all (read_from raws) selected"
    "distinct (map selected_id selected)" "selected_id ` set selected \<subseteq> set roots" by auto
  from build_elements_ok [OF b(1)]
  have all: "list_all2 (built_from H document_id (rev ids)) selected built"
    and tags: "map (Inr \<circ> se_tag \<circ> cn_element) built = map semantic_tag [0..<length selected]"
    by simp_all
  have "list_all (stands_for H raws document_id roots) built"
  proof (unfold list_all_length, intro allI impI)
    fix i
    assume i: "i < length built"
    then have "i < length selected" using list_all2_lengthD [OF all] by simp
    then have "read_from raws (selected ! i)" "selected_id (selected ! i) \<in> set roots"
      using selected(1,3) by (auto simp: list_all_length)
    moreover have "built_from H document_id (rev ids) (selected ! i) (built ! i)"
      using all i by (simp add: list_all2_conv_all_nth)
    ultimately show "stands_for H raws document_id roots (built ! i)"
      by (auto simp: stands_for_def read_from_def built_from_def split: prod.splits)
  qed
  moreover have "map cn_backend_node_id built = map selected_id selected"
    using all by (induction rule: list_all2_induct) (auto simp: built_from_def split: prod.splits)
  moreover have "distinct (map se_tag elements)"
  proof -
    have "distinct (map semantic_tag [0..<length selected])"
    proof -
      have "inj_on semantic_tag (set [0..<length selected])"
      proof (rule inj_onI)
        fix i j
        assume i: "i \<in> set [0..<length selected]" and eq: "semantic_tag i = semantic_tag j"
        have "semantic_tag i \<in> set (map semantic_tag [0..<length selected])"
          using i by (simp only: set_map imageI)
        then obtain t where "semantic_tag i = Inr t" by (auto simp only: tags [symmetric] set_map comp_def)
        then have "semantic_tag i = Inr t" "semantic_tag j = Inr t" using eq by simp_all
        then show "i = j" by (simp add: semantic_tag_Inr)
      qed
      then show ?thesis by (simp add: distinct_map)
    qed
    then have "distinct (map Inr (map se_tag elements) :: (semantic_error + string) list)"
      using tags b(2) by (simp add: comp_def)
    then show ?thesis by (simp only: distinct_map [of Inr "map se_tag elements"])
  qed
  moreover have "p \<in> se_element_id ` set elements" if e: "e \<in> set elements" "se_parent_id e = Some p" for e p
  proof -
    obtain i where i: "i < length built" "e = cn_element (built ! i)"
      using e(1) b(2) by (auto simp: in_set_conv_nth)
    then have "built_from H document_id (rev ids) (selected ! i) (built ! i)"
      using all by (simp add: list_all2_conv_all_nth)
    then have "p \<in> ran (map_of (rev ids))" using e(2) i(2) by (auto simp: built_from_def split: prod.splits)
    then obtain raw_id where r: "map_of (rev ids) raw_id = Some p" by (auto simp: ran_def)
    then have "raw_id \<in> fst ` set ids" by (metis domI dom_map_of_conv_image_fst set_rev)
    then have "raw_id \<in> set (map fst selected)" using opaque_ids_keys [OF ids] by (metis set_map)
    then obtain j where j: "j < length selected" "fst (selected ! j) = raw_id"
      by (auto simp: in_set_conv_nth)
    then have "built_from H document_id (rev ids) (selected ! j) (built ! j)" "j < length built"
      using all by (simp_all add: list_all2_conv_all_nth)
    then have "se_element_id (cn_element (built ! j)) = p"
      using r j(2) by (auto simp: built_from_def split: prod.splits)
    then show ?thesis using b(2) \<open>j < length built\<close> by (auto intro!: image_eqI [OF _ nth_mem])
  qed
  ultimately show ?thesis using that [OF b(2,3)] selected(2) ax by simp
qed

section \<open>Redaction\<close>

lemma protected_name: "ax_semantics_of raw = Inr s \<Longrightarrow> ax_protected s \<Longrightarrow> ax_name s = Some redacted_text"
  by (auto simp: ax_semantics_of_def Let_def split: option.splits if_splits)

lemma stands_for_protected:
  "stands_for H raws document_id roots node \<Longrightarrow> cn_protected node \<Longrightarrow>
    se_name (cn_element node) = Some redacted_text"
  by (auto simp: stands_for_def protected_name)

lemma map_of_obj_remove: "map_of (obj_remove k es) = (map_of es)(k := None)"
  by (induction es) (auto simp: obj_remove_def fun_eq_iff)

lemma map_of_obj_insert: "sorted_wrt (<) (map fst es) \<Longrightarrow> map_of (obj_insert k v es) = (map_of es)(k \<mapsto> v)"
  by (induction es) (auto simp: fun_eq_iff)

lemma map_of_rename_protected: "map_of (rename_field True names es) = (map_of es)(fst names := None)"
  by (auto simp: rename_field_def map_of_obj_remove fun_eq_iff split: option.split)

lemma map_of_fold_protected:
  "map_of (fold (rename_field True) fs es) k = (if k \<in> fst ` set fs then None else map_of es k)"
  by (induction fs arbitrary: es) (simp_all add: map_of_rename_protected)

text \<open>A protected probe shows nothing of the value.\<close>

lemma redacted_probe_protected:
  "jget (redacted_probe v True) k = (if k \<in> fst ` set renamed_fields then None else jget v k)"
  by (cases v) (simp_all add: map_of_fold_protected)

text \<open>What a name is reduced to.\<close>

lemma redacted_name_ok:
  assumes "redacted_name value = Some s" and "list_all (\<lambda>c. c < 1114112) (chars value)"
  shows "length (chars s) \<le> 1024 \<and> list_all (\<lambda>c. \<not> is_control c) (chars s) \<and> s \<noteq> []"
proof -
  let ?kept = "take 1024 (filter (\<lambda>c. \<not> is_control c) (trim_chars (chars value)))"
  have trim: "set (trim_chars cs) \<subseteq> set cs" for cs
    unfolding trim_chars_def by (auto dest!: set_dropWhileD)
  have "set ?kept \<subseteq> set (trim_chars (chars value))" by (auto dest!: in_set_takeD)
  then have "set ?kept \<subseteq> set (chars value)" using trim by blast
  then have "list_all (\<lambda>c. c < 1114112) ?kept" using assms(2) by (auto simp: list_all_iff)
  then have "chars s = ?kept" "s \<noteq> []"
    using assms(1) by (auto simp: redacted_name_def Let_def chars_utf8_encode split: if_splits)
  then show ?thesis by (auto simp: list_all_iff dest!: in_set_takeD)
qed

lemma utf8_encode_ascii: "list_all (\<lambda>c. byte c < 128) s \<Longrightarrow> utf8_encode (map byte s) = s"
  by (induction s) (simp_all add: utf8_encode_def utf8_char_def)

lemma redacted_name_printable:
  assumes "list_all (\<lambda>c. 33 \<le> byte c \<and> byte c < 127) s" and "s \<noteq> []" and "length s \<le> 1024"
  shows "redacted_name s = Some s"
proof -
  have ascii: "list_all (\<lambda>c. byte c < 128) s"
    using assms(1) by (auto simp: list_all_iff)
  have plain: "\<not> is_whitespace (byte c) \<and> \<not> is_control (byte c)" if "c \<in> set s" for c
    using assms(1) that by (auto simp: list_all_iff is_whitespace_def is_control_def)
  then have keep: "dropWhile is_whitespace (map byte s) = map byte s"
    "dropWhile is_whitespace (map byte (rev s)) = map byte (rev s)"
    using assms(2) by (auto simp: dropWhile_eq_self_iff hd_map hd_in_set hd_rev)
  then have "trim_chars (map byte s) = map byte s" by (simp add: trim_chars_def rev_map)
  moreover have "filter (\<lambda>c. \<not> is_control c) (map byte s) = map byte s"
    using plain by (auto simp: filter_id_conv)
  ultimately show ?thesis
    using assms(2,3) ascii by (simp add: redacted_name_def chars_ascii utf8_encode_ascii Let_def)
qed

text \<open>
  The limit on a name counts characters here and bytes in \<open>valid_element\<close>: an element whose
  name has 600 two-byte characters is read and then makes its observation invalid.
\<close>

lemma long_name:
  "redacted_name (utf8_encode (replicate 600 233)) = Some (utf8_encode (replicate 600 233))"
  "\<not> valid_text (utf8_encode (replicate 600 233)) 0 1024"
proof -
  have chars: "chars (utf8_encode (replicate 600 233)) = replicate 600 233"
    by (rule chars_utf8_encode) (simp add: list_all_iff)
  have "dropWhile is_whitespace (replicate n 233) = replicate n 233" for n
    by (cases n) (simp_all add: is_whitespace_def)
  then have trim: "trim_chars (replicate 600 233) = replicate 600 233"
    by (simp add: trim_chars_def)
  have control: "filter (\<lambda>c. \<not> is_control c) (replicate 600 233) = replicate 600 233"
    by (simp add: is_control_def)
  have length: "length (utf8_encode (replicate n 233)) = 2 * n" for n
    by (induction n) (simp_all add: utf8_encode_def utf8_char_def)
  have nonempty: "utf8_encode (replicate 600 233) \<noteq> []"
    using length [of 600] by auto
  show "redacted_name (utf8_encode (replicate 600 233)) = Some (utf8_encode (replicate 600 233))"
    using nonempty by (simp add: redacted_name_def chars trim control Let_def)
  show "\<not> valid_text (utf8_encode (replicate 600 233)) 0 1024"
    by (simp add: valid_text_def length)
qed

section \<open>Command results\<close>

lemma cdp_command_result_Inr:
  "cdp_command_result response n = Inr (Some v) \<longleftrightarrow>
    get_u64 response ''id'' = Some n \<and> jget response ''error'' = None \<and> jget response ''result'' = Some v"
  "cdp_command_result response n = Inr None \<longleftrightarrow>
    get_u64 response ''id'' = None \<and> (\<exists>m. get_str response ''method'' = Some m \<and> m \<noteq> [])"
  by (auto simp: cdp_command_result_def or_else_def split: option.splits)

end
