(* ===== verification/Cdp.thy ===== *)
theory Cdp
  imports CdpTree Engine
begin

text \<open>
  The browser executor (cdp.rs: \<open>CdpExecutor\<close>): its state, the commands it sends, the semantic
  observation, live probes, the three dispatches and the \<open>Executor\<close> implementation.

  The channel to the browser, the operating system's answers about the browser process and
  the text of a JSON number are parameters (\<open>cdp\<close>).  \<open>cx_log\<close> is a ghost: every command that
  was given to the channel, with its answer.  A page function is named by its constant instead
  of its JavaScript text, and its \<open>functionDeclaration\<close> is kept apart from the parameters.
  A poisoned lock is a flag of the state.
\<close>

section \<open>Commands and the channel\<close>

datatype page_function =
    ProbeFunction
  | ProtectedProbeFunction
  | ScrollProbeFunction
  | ScrollEffectFunction
  | InvokeEffectFunction
  | SetValueEffectFunction

record command =
  cm_method :: string
  cm_function :: "page_function option"
  cm_parameters :: json

record 'c channel =
  ch_endpoint :: "'c \<Rightarrow> string \<times> u16"
  ch_target_id :: "'c \<Rightarrow> string"
  ch_command :: "command \<Rightarrow> i64 \<Rightarrow> ('c host, channel_error + json) state"

definition plain_command :: "string \<Rightarrow> (string \<times> json) list \<Rightarrow> command" where
  "plain_command m params = \<lparr>cm_method = m, cm_function = None, cm_parameters = JObj params\<rparr>"

definition call_function :: "string \<Rightarrow> page_function \<Rightarrow> (string \<times> json) list \<Rightarrow> command" where
  "call_function object_id f params = \<lparr>cm_method = ''Runtime.callFunctionOn'', cm_function = Some f,
     cm_parameters = JObj (params @ [(''objectId'', JStr object_id), (''returnByValue'', JBool True)])\<rparr>"

definition is_effect :: "command \<times> (channel_error + json) \<Rightarrow> bool" where
  "is_effect entry \<longleftrightarrow> cm_function (fst entry)
     \<in> {Some ScrollEffectFunction, Some InvokeEffectFunction, Some SetValueEffectFunction}"

section \<open>State\<close>

record stored_observation =
  st_observation :: semantic_observation
  st_execution_context_id :: nat
  st_nodes :: "string \<rightharpoonup> cdp_node"

record 'c cdp_state =
  cx_channel :: 'c
  cx_channel_poisoned :: bool
  cx_generation :: u64
  cx_latest :: "stored_observation option"
  cx_latest_poisoned :: bool
  cx_log :: "(command \<times> (channel_error + json)) list"

text \<open>
  The parameters.  The operating system may answer differently at every call, so its answers
  depend on the tick; \<open>cd_samples\<close> is how often the wait for a stable box sleeps.
\<close>

record 'c cdp =
  cd_config :: cdp_config
  cd_hashing :: hashing
  cd_channel :: "'c channel"
  cd_float :: "string \<Rightarrow> f64"
  cd_live :: "nat \<Rightarrow> u32 \<Rightarrow> cdp_error + string"
  cd_owners :: "nat \<Rightarrow> cdp_error + u32 list"
  cd_samples :: "nat \<Rightarrow> nat"

definition on_channel :: "('c host, 'a) state \<Rightarrow> ('c cdp_state host, 'a) state" where
  "on_channel m = State (\<lambda>h.
     let (a, h') = run_state m \<lparr>h_env = h_env h, h_tick = h_tick h, h_exec = cx_channel (h_exec h)\<rparr>
     in (a, h\<lparr>h_tick := h_tick h', h_exec := (h_exec h)\<lparr>cx_channel := h_exec h'\<rparr>\<rparr>))"

text \<open>\<open>channel.lock()\<close> and \<open>command\<close>; \<open>None\<close> if the lock is poisoned.\<close>

definition send_command :: "'c cdp \<Rightarrow> i64 \<Rightarrow> command \<Rightarrow> ('c cdp_state host, (channel_error + json) option) state"
where
  "send_command D deadline cmd = do {
     poisoned \<leftarrow> get_exec cx_channel_poisoned;
     if poisoned then ret None
     else do {
       answer \<leftarrow> on_channel (ch_command (cd_channel D) cmd deadline);
       update_exec (cx_log_update (\<lambda>l. l @ [(cmd, answer)]));
       ret (Some answer)
     }
   }"

section \<open>The browser process\<close>

definition verify_process :: "'c cdp \<Rightarrow> ('c cdp_state host, cdp_error + unit) state" where
  "verify_process D = do {
     live \<leftarrow> ask (\<lambda>t. cd_live D t (cf_browser_process_id (cd_config D)));
     ret (if same_process live (cf_process_generation (cd_config D)) then Inr () else Inl CdpStaleTarget)
   }"

definition verify_endpoint_owner :: "'c cdp \<Rightarrow> ('c cdp_state host, cdp_error + unit) state" where
  "verify_endpoint_owner D =
     try_bind (verify_process D) (\<lambda>_.
     try_bind (ask (cd_owners D)) (\<lambda>owners.
       if \<not> endpoint_is_exclusively_owned_by owners (cf_browser_process_id (cd_config D))
       then ret (Inl CdpStaleTarget)
       else verify_process D))"

section \<open>Boundaries\<close>

definition cdp_boundary :: "i64 \<Rightarrow> ('x host, cdp_error + unit) state" where
  "cdp_boundary deadline = do {
     c \<leftarrow> is_cancelled;
     if c then ret (Inl CdpCancelled)
     else do { t \<leftarrow> now_ms; ret (if deadline \<le> t then Inl CdpExpired else Inr ()) }
   }"

definition check_effect_boundary :: "i64 \<Rightarrow> ('x host, dispatch_error + unit) state" where
  "check_effect_boundary deadline = do {
     c \<leftarrow> is_cancelled;
     if c then ret (Inl \<lparr>de_message = ''browser effect cancelled before dispatch'',
       de_effect = CancelledBefore, de_code = DispatchFailed\<rparr>)
     else do {
       t \<leftarrow> now_ms;
       ret (if deadline \<le> t then Inl \<lparr>de_message = ''browser effect expired before dispatch'',
         de_effect = ExpiredBefore, de_code = DispatchFailed\<rparr> else Inr ())
     }
   }"

definition check_after_effect_boundary :: "i64 \<Rightarrow> ('x host, dispatch_error + unit) state" where
  "check_after_effect_boundary deadline = do {
     reached \<leftarrow> boundary_reached deadline;
     ret (if reached
       then Inl (unknown ''browser effect completed at the cancellation or deadline boundary'')
       else Inr ())
   }"

fun wait_samples :: "i64 \<Rightarrow> nat \<Rightarrow> ('x host, dispatch_error + unit) state" where
  "wait_samples deadline 0 = check_effect_boundary deadline"
| "wait_samples deadline (Suc n) =
     try_bind (check_effect_boundary deadline) (\<lambda>_. do {
       t \<leftarrow> now_ms;
       if sat_sub_i64 deadline t \<le> 0 then check_effect_boundary deadline
       else wait_samples deadline n
     })"

definition wait_for_stability_sample :: "'c cdp \<Rightarrow> i64 \<Rightarrow> ('c cdp_state host, dispatch_error + unit) state"
where
  "wait_for_stability_sample D deadline = do {
     n \<leftarrow> ask (cd_samples D);
     wait_samples deadline n
   }"

section \<open>The semantic observation\<close>

definition cdp_command :: "'c cdp \<Rightarrow> i64 \<Rightarrow> command \<Rightarrow> ('c cdp_state host, cdp_error + json) state" where
  "cdp_command D deadline cmd = try_bind (cdp_boundary deadline) (\<lambda>_. do {
     answer \<leftarrow> send_command D deadline cmd;
     case answer of
       None \<Rightarrow> ret (Inl CdpProtocol)
     | Some r \<Rightarrow> try_bind (cdp_boundary deadline) (\<lambda>_. ret (map_sum (\<lambda>_. CdpProtocol) id r))
   })"

definition get_frame_tree :: command where
  "get_frame_tree = plain_command ''Page.getFrameTree'' []"

definition get_layout_metrics :: command where
  "get_layout_metrics = plain_command ''Page.getLayoutMetrics'' []"

definition get_target_info :: "string \<Rightarrow> command" where
  "get_target_info target_id = plain_command ''Target.getTargetInfo'' [(''targetId'', JStr target_id)]"

definition create_isolated_world :: "string \<Rightarrow> command" where
  "create_isolated_world frame_id = plain_command ''Page.createIsolatedWorld''
     [(''frameId'', JStr frame_id), (''grantUniversalAccess'', JBool False),
      (''worldName'', JStr ''praefectus'')]"

definition capture_snapshot :: command where
  "capture_snapshot = plain_command ''DOMSnapshot.captureSnapshot''
     [(''computedStyles'', JArr []), (''includeBlendedBackgroundColors'', JBool False),
      (''includeDOMRects'', JBool False), (''includePaintOrder'', JBool False),
      (''includeTextColorOpacities'', JBool False)]"

definition get_full_ax_tree :: "string \<Rightarrow> command" where
  "get_full_ax_tree frame_id = plain_command ''Accessibility.getFullAXTree'' [(''frameId'', JStr frame_id)]"

definition frame_of :: "json \<Rightarrow> json option" where
  "frame_of frame_tree = jpointer frame_tree [''frameTree'', ''frame'']"

text \<open>The frame's id and its loader id.\<close>

definition frame_ids :: "json \<Rightarrow> cdp_error + string \<times> string" where
  "frame_ids frame_tree = (case frame_of frame_tree of
       None \<Rightarrow> Inl CdpProtocol
     | Some frame \<Rightarrow> (case required_string frame ''id'' of
         Inl e \<Rightarrow> Inl e
       | Inr frame_id \<Rightarrow> (case required_string frame ''loaderId'' of
           Inl e \<Rightarrow> Inl e
         | Inr loader_id \<Rightarrow> Inr (frame_id, loader_id))))"

text \<open>The frame is still the one of \<open>ids\<close>; the loader is read only if the id is the same.\<close>

definition same_frame :: "json \<Rightarrow> string \<times> string \<Rightarrow> cdp_error + unit" where
  "same_frame frame_tree ids = (case frame_of frame_tree of
       None \<Rightarrow> Inl CdpProtocol
     | Some frame \<Rightarrow> (case required_string frame ''id'' of
         Inl e \<Rightarrow> Inl e
       | Inr frame_id \<Rightarrow>
           if frame_id \<noteq> fst ids then Inl CdpStaleTarget
           else case required_string frame ''loaderId'' of
             Inl e \<Rightarrow> Inl e
           | Inr loader_id \<Rightarrow> if loader_id \<noteq> snd ids then Inl CdpStaleTarget else Inr ()))"

definition document_id_of :: "'c cdp \<Rightarrow> string \<times> string \<Rightarrow> string" where
  "document_id_of D ids = semantic_fingerprint (cd_hashing D) (JArr [JStr backend_name,
     JStr (cf_target_id (cd_config D)), JStr (fst ids), JStr (snd ids)])"

definition is_page_target :: "string \<Rightarrow> json \<Rightarrow> bool" where
  "is_page_target target_id info \<longleftrightarrow> get_str info ''targetId'' = Some target_id
     \<and> get_str info ''type'' \<in> {Some ''page'', Some ''webview''}"

definition observation_id_of :: "'c cdp \<Rightarrow> string \<Rightarrow> u64 \<Rightarrow> i64 \<Rightarrow> string" where
  "observation_id_of D document_id generation observed_at = semantic_fingerprint (cd_hashing D)
     (JArr [JStr backend_name, JStr (cf_target_id (cd_config D)), JStr document_id,
            jword generation, JInt observed_at])"

definition new_observation :: "'c cdp \<Rightarrow> string \<Rightarrow> string \<Rightarrow> string \<Rightarrow> u64 \<Rightarrow> i64 \<Rightarrow> i64
    \<Rightarrow> semantic_element list \<Rightarrow> semantic_observation" where
  "new_observation D observation_id document_id geometry generation observed_at deadline elements =
     \<lparr>so_protocol_version = protocol_version, so_observation_id = observation_id,
      so_generation = generation,
      so_provenance = \<lparr>pv_backend = Dom, pv_backend_name = backend_name,
        pv_process_id = cf_browser_process_id (cd_config D),
        pv_process_generation = cf_process_generation (cd_config D),
        pv_window_id = cf_target_id (cd_config D), pv_document_id = Some document_id,
        pv_display_geometry_hash = geometry, pv_host_opt_ins = []\<rparr>,
      so_observed_at_ms = observed_at,
      so_expires_at_ms = min deadline (sat_add_i64 observed_at max_semantic_observation_age_ms),
      so_truncated = False, so_elements = elements\<rparr>"

text \<open>What was read from the browser, and what is made of it.  \<open>None\<close>: it does not return.\<close>

definition store_observation :: "'c cdp \<Rightarrow> i64 \<Rightarrow> string \<Rightarrow> nat \<Rightarrow> string \<Rightarrow> nat list \<Rightarrow> json
    \<Rightarrow> ('c cdp_state host, (cdp_error + semantic_observation) option) state" where
  "store_observation D deadline document_id context_id geometry roots tree = do {
     observed_at \<leftarrow> now_ms;
     update_exec (cx_generation_update (\<lambda>g. g + 1));
     generation \<leftarrow> get_exec cx_generation;
     let observation_id = observation_id_of D document_id generation observed_at;
     case parse_ax_tree (cd_hashing D) tree observation_id document_id roots of
       None \<Rightarrow> ret None
     | Some (Inl e) \<Rightarrow> ret (Some (Inl e))
     | Some (Inr (elements, nodes)) \<Rightarrow> do {
         let observation = new_observation D observation_id document_id geometry generation
           observed_at deadline elements;
         poisoned \<leftarrow> get_exec cx_latest_poisoned;
         if validate_observation (cd_hashing D) observation observed_at \<noteq> Inr () \<or> poisoned
         then ret (Some (Inl CdpProtocol))
         else do {
           update_exec (cx_latest_update (\<lambda>_. Some \<lparr>st_observation = observation,
             st_execution_context_id = context_id, st_nodes = nodes\<rparr>));
           ret (Some (Inr observation))
         }
       }
   }"

definition read_browser :: "'c cdp \<Rightarrow> i64
    \<Rightarrow> ('c cdp_state host, cdp_error + string \<times> nat \<times> string \<times> nat list \<times> json) state" where
  "read_browser D deadline =
     try_bind (cdp_boundary deadline) (\<lambda>_.
     try_bind (verify_process D) (\<lambda>_.
     try_bind (cdp_command D deadline (get_target_info (cf_target_id (cd_config D)))) (\<lambda>target.
     try_bind (ret (or_else (jget target ''targetInfo'') CdpProtocol)) (\<lambda>info.
     if \<not> is_page_target (cf_target_id (cd_config D)) info then ret (Inl CdpStaleTarget)
     else
     try_bind (cdp_command D deadline get_frame_tree) (\<lambda>frame_tree.
     try_bind (ret (frame_ids frame_tree)) (\<lambda>ids.
     try_bind (cdp_command D deadline (create_isolated_world (fst ids))) (\<lambda>context.
     try_bind (ret (case get_u64 context ''executionContextId'' of
         None \<Rightarrow> Inl CdpProtocol | Some n \<Rightarrow> if 0 < n then Inr n else Inl CdpProtocol)) (\<lambda>context_id.
     try_bind (cdp_command D deadline get_layout_metrics) (\<lambda>layout.
     try_bind (ret (or_else (layout_viewport layout) CdpProtocol)) (\<lambda>viewport.
     try_bind (cdp_command D deadline capture_snapshot) (\<lambda>snapshot.
     try_bind (ret (root_backend_node_ids snapshot (fst ids))) (\<lambda>roots.
     try_bind (cdp_command D deadline (get_full_ax_tree (fst ids))) (\<lambda>tree.
     try_bind (cdp_command D deadline get_frame_tree) (\<lambda>final_tree.
     try_bind (ret (same_frame final_tree ids)) (\<lambda>_.
     try_bind (cdp_boundary deadline) (\<lambda>_.
     ret (Inr (document_id_of D ids, context_id,
       semantic_fingerprint (cd_hashing D) viewport, roots, tree))))))))))))))))))"

definition semantic_observation_of :: "'c cdp \<Rightarrow> i64
    \<Rightarrow> ('c cdp_state host, (cdp_error + semantic_observation) option) state" where
  "semantic_observation_of D deadline = do {
     r \<leftarrow> read_browser D deadline;
     case r of
       Inl e \<Rightarrow> ret (Some (Inl e))
     | Inr (document_id, context_id, geometry, roots, tree) \<Rightarrow>
         store_observation D deadline document_id context_id geometry roots tree
   }"

end
