(* ===== verification/CdpExecutor.thy ===== *)
theory CdpExecutor
  imports Cdp
begin

text \<open>
  The browser executor's live checks, its three dispatches and its \<open>Executor\<close> methods
  (cdp.rs).  A dispatch is split where the code passes from checking to acting.
\<close>

section \<open>Stored nodes\<close>

record node_identity =
  ni_backend_node_id :: nat
  ni_execution_context_id :: nat
  ni_document_id :: string
  ni_protected :: bool
  ni_fingerprint_hash :: string
  ni_display_geometry_hash :: string

definition identity_of :: "cdp_node \<Rightarrow> stored_observation \<Rightarrow> node_identity" where
  "identity_of node stored =
     \<lparr>ni_backend_node_id = cn_backend_node_id node,
      ni_execution_context_id = st_execution_context_id stored,
      ni_document_id = (case pv_document_id (so_provenance (st_observation stored)) of
        None \<Rightarrow> [] | Some d \<Rightarrow> d),
      ni_protected = cn_protected node,
      ni_fingerprint_hash = se_fingerprint_hash (cn_element node),
      ni_display_geometry_hash = pv_display_geometry_hash (so_provenance (st_observation stored))\<rparr>"

text \<open>\<open>i32::try_from\<close> of a process id.\<close>

definition as_i32 :: "u32 \<Rightarrow> int option" where
  "as_i32 w = (if uint w < 2147483648 then Some (uint w) else None)"

definition native_element_of :: "cdp_node \<Rightarrow> stored_observation \<Rightarrow> native_element" where
  "native_element_of node stored =
     \<lparr>ne_backend = backend_name, ne_id = se_element_id (cn_element node), ne_app = ''chromium'',
      ne_process_id = as_i32 (pv_process_id (so_provenance (st_observation stored))),
      ne_window = Some (pv_window_id (so_provenance (st_observation stored))),
      ne_role = se_role (cn_element node), ne_label = se_name (cn_element node), ne_title = None,
      ne_bounds = None, ne_state = actionability_json (se_actionability (cn_element node)),
      ne_enabled = Some (enabled (se_actionability (cn_element node)))\<rparr>"

definition stored_node :: "'c cdp \<Rightarrow> semantic_target_ref \<Rightarrow> i64
    \<Rightarrow> ('c cdp_state host, cdp_error + cdp_node \<times> stored_observation) state" where
  "stored_node D target now = do {
     poisoned \<leftarrow> get_exec cx_latest_poisoned;
     latest \<leftarrow> get_exec cx_latest;
     ret (if poisoned then Inl CdpProtocol
       else case latest of
         None \<Rightarrow> Inl CdpTargetNotFound
       | Some stored \<Rightarrow>
           (case resolve_target (cd_hashing D) (st_observation stored) target now of
              Inl e \<Rightarrow> Inl (map_semantic_error e)
            | Inr _ \<Rightarrow> (case st_nodes stored (t_element_id target) of
                None \<Rightarrow> Inl CdpTargetNotFound
              | Some node \<Rightarrow> Inr (node, stored))))
   }"

definition engine_target :: "'c cdp \<Rightarrow> semantic_target_ref \<Rightarrow> i64
    \<Rightarrow> ('c cdp_state host, cdp_error + target_ref) state" where
  "engine_target D target now = try_bind (stored_node D target now) (\<lambda>_. ret (Inr (Element target)))"

section \<open>Live checks\<close>

definition backend_command :: "'c cdp \<Rightarrow> i64 \<Rightarrow> command \<Rightarrow> ('c cdp_state host, protocol_error + json) state"
where
  "backend_command D deadline cmd = do {
     answer \<leftarrow> send_command D deadline cmd;
     ret (case answer of Some (Inr v) \<Rightarrow> Inr v | _ \<Rightarrow> Inl backend_error)
   }"

definition current_document_id :: "'c cdp \<Rightarrow> i64 \<Rightarrow> ('c cdp_state host, protocol_error + string) state" where
  "current_document_id D deadline =
     try_bind (backend_command D deadline get_frame_tree) (\<lambda>frame_tree.
     ret (map_sum (\<lambda>_. backend_error) (document_id_of D) (frame_ids frame_tree)))"

definition resolve_node :: "nat \<Rightarrow> nat \<Rightarrow> command" where
  "resolve_node backend_node_id context_id = plain_command ''DOM.resolveNode''
     [(''backendNodeId'', JInt (int backend_node_id)), (''executionContextId'', JInt (int context_id))]"

definition get_partial_ax_tree :: "nat \<Rightarrow> command" where
  "get_partial_ax_tree backend_node_id = plain_command ''Accessibility.getPartialAXTree''
     [(''backendNodeId'', JInt (int backend_node_id)), (''fetchRelatives'', JBool False)]"

definition changed :: protocol_error where
  "changed = StaleTarget ''browser target changed''"

definition nonempty :: "string option \<Rightarrow> string option" where
  "nonempty v = (case v of Some [] \<Rightarrow> None | _ \<Rightarrow> v)"

definition resolve_object :: "'c cdp \<Rightarrow> nat \<Rightarrow> nat \<Rightarrow> i64 \<Rightarrow> ('c cdp_state host, protocol_error + string) state"
where
  "resolve_object D backend_node_id context_id deadline =
     try_bind (backend_command D deadline (resolve_node backend_node_id context_id)) (\<lambda>response.
     ret (or_else (nonempty (Option.bind (jpointer response [''object'', ''objectId'']) as_str)) changed))"

definition probe_command :: "string \<Rightarrow> bool \<Rightarrow> command" where
  "probe_command object_id protected = call_function object_id
     (if protected then ProtectedProbeFunction else ProbeFunction) [(''awaitPromise'', JBool True)]"

record live_probe =
  lp_state :: json
  lp_fingerprint_hash :: string
  lp_display_geometry_hash :: string

definition live_fingerprint :: "'c cdp \<Rightarrow> string \<Rightarrow> nat \<Rightarrow> ax_semantics \<Rightarrow> string" where
  "live_fingerprint D document_id backend_node_id s =
     semantic_fingerprint (cd_hashing D) (fingerprint_json document_id backend_node_id s)"

text \<open>The probe of a stored node, behind the look-up.\<close>

definition probe_node :: "'c cdp \<Rightarrow> node_identity \<Rightarrow> i64
    \<Rightarrow> ('c cdp_state host, protocol_error + live_probe) state" where
  "probe_node D node deadline =
     try_bind (current_document_id D deadline) (\<lambda>document_id.
     if document_id \<noteq> ni_document_id node then ret (Inl (StaleTarget ''browser document changed''))
     else
     try_bind (resolve_object D (ni_backend_node_id node) (ni_execution_context_id node) deadline)
       (\<lambda>object_id.
     try_bind (backend_command D deadline (probe_command object_id (ni_protected node))) (\<lambda>response.
     if jget response ''exceptionDetails'' \<noteq> None then ret (Inl changed)
     else
     try_bind (ret (or_else (jpointer response [''result'', ''value'']) backend_error)) (\<lambda>v.
     if get_bool v ''connected'' \<noteq> Some True then ret (Inl changed)
     else
     try_bind (backend_command D deadline get_layout_metrics) (\<lambda>layout.
     try_bind (ret (or_else (layout_viewport layout) backend_error)) (\<lambda>viewport.
     try_bind (backend_command D deadline (get_partial_ax_tree (ni_backend_node_id node))) (\<lambda>tree.
     try_bind (ret (map_sum (\<lambda>_. changed) id (live_ax_semantics tree (ni_backend_node_id node))))
       (\<lambda>semantics. do {
         p \<leftarrow> verify_process D;
         let geometry = semantic_fingerprint (cd_hashing D) viewport;
         let fingerprint = live_fingerprint D document_id (ni_backend_node_id node) semantics;
         ret (if p \<noteq> Inr () then Inl backend_error
           else if geometry \<noteq> ni_display_geometry_hash node \<or> fingerprint \<noteq> ni_fingerprint_hash node
           then Inl changed
           else Inr \<lparr>lp_state = redacted_probe v (ni_protected node),
             lp_fingerprint_hash = fingerprint, lp_display_geometry_hash = geometry\<rparr>)
       }))))))))"

definition live_probe_of :: "'c cdp \<Rightarrow> semantic_target_ref \<Rightarrow> i64
    \<Rightarrow> ('c cdp_state host, protocol_error + live_probe) state" where
  "live_probe_of D target deadline = do {
     p \<leftarrow> verify_process D;
     if p \<noteq> Inr () then ret (Inl backend_error) else do {
       now \<leftarrow> now_ms;
       stored \<leftarrow> stored_node D target now;
       try_bind (ret (map_sum map_cdp_protocol_error (\<lambda>(n, st). identity_of n st) stored)) (\<lambda>node.
       probe_node D node deadline)
     }
   }"

section \<open>Checks before an effect\<close>

text \<open>A step between two looks at the boundary; its own error is \<open>no_effect message\<close>.\<close>

definition around_effect :: "i64 \<Rightarrow> string \<Rightarrow> ('x host, 'e + 'a) state \<Rightarrow> ('x host, dispatch_error + 'a) state"
where
  "around_effect deadline message m = try_bind (check_effect_boundary deadline) (\<lambda>_. do {
     r \<leftarrow> m;
     try_bind (check_effect_boundary deadline) (\<lambda>_. ret (map_sum (\<lambda>_. no_effect message) id r))
   })"

definition verify_process_for_effect :: "'c cdp \<Rightarrow> i64 \<Rightarrow> ('c cdp_state host, dispatch_error + unit) state" where
  "verify_process_for_effect D deadline =
     around_effect deadline ''browser process changed'' (verify_process D)"

definition current_document_id_for_effect ::
  "'c cdp \<Rightarrow> i64 \<Rightarrow> ('c cdp_state host, dispatch_error + string) state" where
  "current_document_id_for_effect D deadline =
     around_effect deadline ''browser document is unavailable'' (current_document_id D deadline)"

definition resolve_object_for_effect ::
  "'c cdp \<Rightarrow> node_identity \<Rightarrow> i64 \<Rightarrow> ('c cdp_state host, dispatch_error + string) state" where
  "resolve_object_for_effect D target deadline = around_effect deadline ''browser target changed''
     (resolve_object D (ni_backend_node_id target) (ni_execution_context_id target) deadline)"

definition effect_unknown :: dispatch_error where
  "effect_unknown = unknown ''browser effect outcome is unknown''"

text \<open>The answer to a command that may have an effect; \<open>None\<close> is a poisoned lock.\<close>

definition effect_answer :: "i64 \<Rightarrow> bool \<Rightarrow> (channel_error + json) option
    \<Rightarrow> ('x host, dispatch_error + json) state" where
  "effect_answer deadline effect_started answer = (case answer of
       None \<Rightarrow> ret (Inl (if effect_started then effect_unknown
                   else no_effect ''browser channel is unavailable''))
     | Some (Inr v) \<Rightarrow> ret (Inr v)
     | Some (Inl e) \<Rightarrow>
         if effect_started \<or> e = AfterSend then ret (Inl effect_unknown)
         else try_bind (check_effect_boundary deadline) (\<lambda>_.
           ret (Inl (no_effect ''browser effect was not dispatched''))))"

definition effect_command :: "'c cdp \<Rightarrow> i64 \<Rightarrow> bool \<Rightarrow> command
    \<Rightarrow> ('c cdp_state host, dispatch_error + json) state" where
  "effect_command D deadline effect_started cmd =
     try_bind (if effect_started then check_after_effect_boundary deadline
               else check_effect_boundary deadline) (\<lambda>_. do {
     answer \<leftarrow> send_command D deadline cmd;
     effect_answer deadline effect_started answer
   })"

definition query_for_effect :: "'c cdp \<Rightarrow> i64 \<Rightarrow> command \<Rightarrow> ('c cdp_state host, dispatch_error + json) state"
where
  "query_for_effect D deadline cmd = try_bind (check_effect_boundary deadline) (\<lambda>_. do {
     answer \<leftarrow> send_command D deadline cmd;
     case answer of
       None \<Rightarrow> ret (Inl (no_effect ''browser channel is unavailable''))
     | Some r \<Rightarrow> try_bind (check_effect_boundary deadline) (\<lambda>_.
         ret (map_sum (\<lambda>_. no_effect ''browser target is unavailable'') id r))
   })"

record effect_probe =
  ep_protected :: bool
  ep_reveal_value :: bool
  ep_effect_started :: bool

definition probe_object_for_effect :: "'c cdp \<Rightarrow> string \<Rightarrow> effect_probe \<Rightarrow> i64
    \<Rightarrow> ('c cdp_state host, dispatch_error + json) state" where
  "probe_object_for_effect D object_id options deadline =
     (let cmd = probe_command object_id (ep_protected options \<and> \<not> ep_reveal_value options);
          lost = (if ep_effect_started options then effect_unknown else no_effect ''browser target changed'') in
      try_bind (if ep_effect_started options then effect_command D deadline True cmd
                else query_for_effect D deadline cmd) (\<lambda>response.
      if jget response ''exceptionDetails'' \<noteq> None then ret (Inl lost)
      else ret (or_else (jpointer response [''result'', ''value'']) lost)))"

record live_target_requirements =
  lr_invokable :: bool
  lr_editable :: bool

definition meets :: "live_target_requirements \<Rightarrow> ax_semantics \<Rightarrow> bool" where
  "meets requirements s \<longleftrightarrow> ax_visible s \<and> ax_enabled s
     \<and> (lr_invokable requirements \<longrightarrow> ax_invokable s)
     \<and> (lr_editable requirements \<longrightarrow> ax_editable s)"

definition verify_live_target_for_effect :: "'c cdp \<Rightarrow> node_identity \<Rightarrow> live_target_requirements \<Rightarrow> i64
    \<Rightarrow> ('c cdp_state host, dispatch_error + unit) state" where
  "verify_live_target_for_effect D target requirements deadline =
     try_bind (query_for_effect D deadline get_layout_metrics) (\<lambda>layout.
     try_bind (ret (or_else (layout_viewport layout) (no_effect ''browser viewport is unavailable'')))
       (\<lambda>viewport.
     if semantic_fingerprint (cd_hashing D) viewport \<noteq> ni_display_geometry_hash target
     then ret (Inl (no_effect ''browser viewport changed''))
     else
     try_bind (current_document_id_for_effect D deadline) (\<lambda>document_id.
     try_bind (query_for_effect D deadline (get_partial_ax_tree (ni_backend_node_id target))) (\<lambda>tree.
     try_bind (ret (live_ax_semantics tree (ni_backend_node_id target))) (\<lambda>s.
     ret (if live_fingerprint D document_id (ni_backend_node_id target) s \<noteq> ni_fingerprint_hash target
             \<or> \<not> meets requirements s
          then Inl (no_effect ''browser target changed'') else Inr ()))))))"

text \<open>Fields that must all be \<open>true\<close>.\<close>

definition all_true :: "json \<Rightarrow> string list \<Rightarrow> bool" where
  "all_true v names \<longleftrightarrow> list_all (\<lambda>k. get_bool v k = Some True) names"

definition require :: "bool \<Rightarrow> string \<Rightarrow> ('s, dispatch_error + unit) state" where
  "require c message = ret (if c then Inr () else Inl (no_effect message))"

text \<open>The last look before an effect.\<close>

definition ready_for_effect :: "'c cdp \<Rightarrow> i64 \<Rightarrow> ('c cdp_state host, dispatch_error + unit) state" where
  "ready_for_effect D deadline =
     try_bind (check_effect_boundary deadline) (\<lambda>_. verify_process_for_effect D deadline)"

section \<open>Dispatches\<close>

text \<open>What the page answered to an effect function.\<close>

definition eligible :: "json \<Rightarrow> bool option" where
  "eligible response = Option.bind (jpointer response [''result'', ''value'', ''eligible'']) as_bool"

definition judge_response :: "string \<Rightarrow> string \<Rightarrow> i64 \<Rightarrow> json \<Rightarrow> ('x host, dispatch_error + unit) state" where
  "judge_response unclear refused deadline response =
     try_bind (check_after_effect_boundary deadline) (\<lambda>_.
     ret (if jget response ''exceptionDetails'' \<noteq> None then Inl (unknown unclear)
       else case eligible response of
         Some True \<Rightarrow> Inr ()
       | Some False \<Rightarrow> Inl (no_effect refused)
       | None \<Rightarrow> Inl (unknown unclear)))"

definition invoke_command :: "string \<Rightarrow> command" where
  "invoke_command object_id = call_function object_id InvokeEffectFunction []"

definition dispatch_invoke :: "'c cdp \<Rightarrow> node_identity \<Rightarrow> i64
    \<Rightarrow> ('c cdp_state host, dispatch_error + dispatch_receipt) state" where
  "dispatch_invoke D target deadline =
     try_bind (ready_for_effect D deadline) (\<lambda>_.
     try_bind (resolve_object_for_effect D target deadline) (\<lambda>object_id.
     try_bind (probe_object_for_effect D object_id \<lparr>ep_protected = ni_protected target,
       ep_reveal_value = False, ep_effect_started = False\<rparr> deadline) (\<lambda>probe.
     try_bind (require (all_true probe [''connected'', ''visible'', ''enabled''])
       ''browser target is not actionable'') (\<lambda>_.
     try_bind (ready_for_effect D deadline) (\<lambda>_.
     try_bind (verify_live_target_for_effect D target \<lparr>lr_invokable = True, lr_editable = False\<rparr> deadline) (\<lambda>_.
     try_bind (ready_for_effect D deadline) (\<lambda>_.
     try_bind (effect_command D deadline False (invoke_command object_id)) (\<lambda>response.
     try_bind (judge_response ''browser invoke outcome is unknown'' ''browser target is not invokable''
       deadline response) (\<lambda>_.
     ret (Inr success_receipt))))))))))"

definition scroll_probe_command :: "string \<Rightarrow> command" where
  "scroll_probe_command object_id = call_function object_id ScrollProbeFunction []"

definition scroll_effect_command :: "string \<Rightarrow> direction \<Rightarrow> command" where
  "scroll_effect_command object_id d = call_function object_id ScrollEffectFunction
     [(''arguments'', JArr [JObj [(''value'', JStr (fst (scroll_axis_delta d)))],
                            JObj [(''value'', JInt (snd (scroll_axis_delta d)))]])]"

definition get_box_model :: "nat \<Rightarrow> command" where
  "get_box_model n = plain_command ''DOM.getBoxModel'' [(''backendNodeId'', JInt (int n))]"

definition get_node_for_location :: "i64 \<times> i64 \<Rightarrow> command" where
  "get_node_for_location p = plain_command ''DOM.getNodeForLocation''
     [(''ignorePointerEventsNone'', JBool False), (''includeUserAgentShadowDOM'', JBool True),
      (''x'', JInt (fst p)), (''y'', JInt (snd p))]"

text \<open>Two equal boxes, and the point in their middle belongs to the target.\<close>

definition hit_test :: "'c cdp \<Rightarrow> node_identity \<Rightarrow> i64 \<Rightarrow> ('c cdp_state host, dispatch_error + unit) state"
where
  "hit_test D target deadline =
     try_bind (query_for_effect D deadline (get_box_model (ni_backend_node_id target))) (\<lambda>first_box.
     try_bind (wait_for_stability_sample D deadline) (\<lambda>_.
     try_bind (query_for_effect D deadline (get_box_model (ni_backend_node_id target))) (\<lambda>second_box.
     try_bind (ret (border_quad (cd_float D) first_box)) (\<lambda>first_quad.
     try_bind (ret (border_quad (cd_float D) second_box)) (\<lambda>second_quad.
     try_bind (require (stable_boxes first_quad second_quad) ''browser target is not stable'') (\<lambda>_.
     try_bind (query_for_effect D deadline get_layout_metrics) (\<lambda>layout.
     try_bind (ret (viewport_point (cd_float D) second_quad layout)) (\<lambda>p.
     try_bind (query_for_effect D deadline (get_node_for_location p)) (\<lambda>hit.
     require (get_u64 hit ''backendNodeId'' = Some (ni_backend_node_id target))
       ''browser target does not receive events'')))))))))"

definition moved_in_direction :: "direction \<Rightarrow> f64 \<Rightarrow> f64 \<Rightarrow> bool" where
  "moved_in_direction d before after = (case d of
       Up \<Rightarrow> f64_less after before | Leftward \<Rightarrow> f64_less after before
     | Down \<Rightarrow> f64_less before after | Rightward \<Rightarrow> f64_less before after)"

definition scroll_verified :: "(string \<Rightarrow> f64) \<Rightarrow> direction \<Rightarrow> json \<Rightarrow> dispatch_error + unit" where
  "scroll_verified parse d response =
     (let unclear = unknown ''browser scroll outcome is unknown'';
          field = (\<lambda>k. finite_f64 parse (jpointer response [''result'', ''value'', k])) in
      case field ''before'' of None \<Rightarrow> Inl unclear
      | Some before \<Rightarrow> (case field ''intended'' of None \<Rightarrow> Inl unclear
        | Some intended \<Rightarrow> (case field ''after'' of None \<Rightarrow> Inl unclear
          | Some after \<Rightarrow>
              if \<not> f64_eq after intended \<or> \<not> moved_in_direction d before after
              then Inl (unknown ''browser scroll verification failed'') else Inr ())))"

definition dispatch_scroll :: "'c cdp \<Rightarrow> node_identity \<Rightarrow> direction \<Rightarrow> i64
    \<Rightarrow> ('c cdp_state host, dispatch_error + dispatch_receipt) state" where
  "dispatch_scroll D target d deadline =
     try_bind (ready_for_effect D deadline) (\<lambda>_.
     try_bind (resolve_object_for_effect D target deadline) (\<lambda>object_id.
     try_bind (query_for_effect D deadline (scroll_probe_command object_id)) (\<lambda>response.
     try_bind (ret (or_else (jpointer response [''result'', ''value''])
       (no_effect ''browser target changed''))) (\<lambda>probe.
     try_bind (require (all_true probe [''connected'', ''visible'', ''enabled'', ''receives'',
       scroll_direction_name d]) ''browser target is not scrollable'') (\<lambda>_.
     try_bind (hit_test D target deadline) (\<lambda>_.
     try_bind (ready_for_effect D deadline) (\<lambda>_.
     try_bind (verify_live_target_for_effect D target \<lparr>lr_invokable = False, lr_editable = False\<rparr> deadline) (\<lambda>_.
     try_bind (query_for_effect D deadline (scroll_probe_command object_id)) (\<lambda>again.
     try_bind (require (Option.bind (jpointer again [''result'', ''value'', scroll_direction_name d]) as_bool
       = Some True) ''browser target is not scrollable'') (\<lambda>_.
     try_bind (ready_for_effect D deadline) (\<lambda>_.
     try_bind (effect_command D deadline False (scroll_effect_command object_id d)) (\<lambda>response.
     try_bind (judge_response ''browser scroll outcome is unknown'' ''browser target is not scrollable''
       deadline response) (\<lambda>_.
     try_bind (ret (scroll_verified (cd_float D) d response)) (\<lambda>_.
     ret (Inr success_receipt)))))))))))))))"

definition set_value_command :: "string \<Rightarrow> string \<Rightarrow> command" where
  "set_value_command object_id v = call_function object_id SetValueEffectFunction
     [(''arguments'', JArr [JObj [(''value'', JStr v)]])]"

text \<open>The value read back is the value set.\<close>

definition value_matches :: "hashing \<Rightarrow> string \<Rightarrow> json \<Rightarrow> bool" where
  "value_matches H v after \<longleftrightarrow> get_str after ''valueHash'' = Some (sha256_hex H v)
     \<and> get_u64 after ''valueLength'' = Some (length v)
     \<and> get_bool after ''valueTooLarge'' = Some False"

definition confirm_value :: "'c cdp \<Rightarrow> node_identity \<Rightarrow> string \<Rightarrow> string \<Rightarrow> i64
    \<Rightarrow> ('c cdp_state host, dispatch_error + dispatch_receipt) state" where
  "confirm_value D target object_id v deadline = do {
     p \<leftarrow> verify_process D;
     if p \<noteq> Inr () then ret (Inl effect_unknown)
     else try_bind (probe_object_for_effect D object_id \<lparr>ep_protected = ni_protected target,
         ep_reveal_value = True, ep_effect_started = True\<rparr> deadline) (\<lambda>after.
       ret (if value_matches (cd_hashing D) v after then Inr success_receipt
            else Inl (unknown ''browser value verification failed'')))
   }"

definition dispatch_set_value :: "'c cdp \<Rightarrow> node_identity \<Rightarrow> string \<Rightarrow> i64
    \<Rightarrow> ('c cdp_state host, dispatch_error + dispatch_receipt) state" where
  "dispatch_set_value D target v deadline =
     try_bind (check_effect_boundary deadline) (\<lambda>_.
     try_bind (require (length v \<le> max_edit_bytes) ''browser value is too large'') (\<lambda>_.
     try_bind (verify_process_for_effect D deadline) (\<lambda>_.
     try_bind (resolve_object_for_effect D target deadline) (\<lambda>object_id.
     try_bind (probe_object_for_effect D object_id \<lparr>ep_protected = ni_protected target,
       ep_reveal_value = False, ep_effect_started = False\<rparr> deadline) (\<lambda>probe.
     try_bind (require (all_true probe [''connected'', ''visible'', ''enabled'', ''editable''])
       ''browser target is not actionable'') (\<lambda>_.
     try_bind (verify_live_target_for_effect D target \<lparr>lr_invokable = False, lr_editable = True\<rparr> deadline) (\<lambda>_.
     try_bind (ready_for_effect D deadline) (\<lambda>_.
     try_bind (effect_command D deadline False (set_value_command object_id v)) (\<lambda>response.
     try_bind (judge_response ''browser value outcome is unknown'' ''browser target is not editable''
       deadline response) (\<lambda>_.
     confirm_value D target object_id v deadline))))))))))"

section \<open>The executor's methods\<close>

definition cdp_observe :: "'c cdp \<Rightarrow> target_ref \<Rightarrow> i64 \<Rightarrow> ('c cdp_state host, protocol_error + observation) state"
where
  "cdp_observe D target deadline = do {
     b \<leftarrow> cdp_boundary deadline;
     try_bind (ret (map_sum map_cdp_protocol_error id b)) (\<lambda>_.
     case target of
       Element t \<Rightarrow> do {
         probe \<leftarrow> live_probe_of D t deadline;
         b \<leftarrow> cdp_boundary deadline;
         try_bind (ret (map_sum map_cdp_protocol_error id b)) (\<lambda>_.
         try_bind (ret probe) (\<lambda>probe. do {
         poisoned \<leftarrow> get_exec cx_latest_poisoned;
         latest \<leftarrow> get_exec cx_latest;
         if poisoned \<or> latest = None then ret (Inl backend_error)
         else do {
           let observation_hash = semantic_fingerprint (cd_hashing D)
             (JArr [semantic_target_ref_json t, lp_state probe]);
           b \<leftarrow> cdp_boundary deadline;
           try_bind (ret (map_sum map_cdp_protocol_error id b)) (\<lambda>_. do {
             observed_at \<leftarrow> now_ms;
             ret (Inr \<lparr>o_evidence = \<lparr>e_observation_hash = observation_hash,
                 e_target_fingerprint_hash = Some (lp_fingerprint_hash probe),
                 e_display_geometry_hash = lp_display_geometry_hash probe,
                 e_observed_at_ms = observed_at\<rparr>,
               o_element = None, o_state = lp_state probe\<rparr>)
           })
         }
         }))
       }
     | _ \<Rightarrow> ret (Inl (TargetNotFound ''browser semantic target required'')))
   }"

definition cdp_resolve :: "'c cdp \<Rightarrow> target_ref \<Rightarrow> i64 \<Rightarrow> ('c cdp_state host, protocol_error + resolved_target) state"
where
  "cdp_resolve D target deadline = do {
     b \<leftarrow> cdp_boundary deadline;
     try_bind (ret (map_sum map_cdp_protocol_error id b)) (\<lambda>_.
     case target of
       Element t \<Rightarrow> do {
         now \<leftarrow> now_ms;
         r \<leftarrow> stored_node D t now;
         ret (map_sum map_cdp_protocol_error (\<lambda>(n, st). ElementTarget (native_element_of n st)) r)
       }
     | _ \<Rightarrow> ret (Inl (TargetNotFound ''browser semantic target required'')))
   }"

text \<open>The actions that are refused whatever the target.\<close>

definition refused_action :: "action \<Rightarrow> verification_policy \<Rightarrow> bool" where
  "refused_action action policy = (case action of
       Scroll _ amount \<Rightarrow> amount \<noteq> 1 \<or> policy \<noteq> NoVerification
     | Click _ _ _ \<Rightarrow> True
     | _ \<Rightarrow> False)"

definition dispatch_action :: "'c cdp \<Rightarrow> action \<Rightarrow> node_identity \<Rightarrow> actionability \<Rightarrow> i64
    \<Rightarrow> ('c cdp_state host, dispatch_error + dispatch_receipt) state" where
  "dispatch_action D action identity a deadline = (case action of
       Invoke \<Rightarrow> if invokable a then dispatch_invoke D identity deadline else ret (Inl unsupported)
     | SetValue v \<Rightarrow> if editable a then dispatch_set_value D identity v deadline else ret (Inl unsupported)
     | Scroll d amount \<Rightarrow>
         if amount = 1 then dispatch_scroll D identity d deadline else ret (Inl unsupported)
     | _ \<Rightarrow> ret (Inl unsupported))"

definition dispatch_element :: "'c cdp \<Rightarrow> action \<Rightarrow> string \<Rightarrow> i64
    \<Rightarrow> ('c cdp_state host, dispatch_error + dispatch_receipt) state" where
  "dispatch_element D action element_id deadline = do {
     poisoned \<leftarrow> get_exec cx_latest_poisoned;
     latest \<leftarrow> get_exec cx_latest;
     case (if poisoned then None else latest) of
       None \<Rightarrow> ret (Inl (no_effect ''browser target is unavailable''))
     | Some stored \<Rightarrow> (case st_nodes stored element_id of
         None \<Rightarrow> ret (Inl (no_effect ''browser target changed''))
       | Some node \<Rightarrow>
           let identity = identity_of node stored; a = se_actionability (cn_element node) in
           try_bind (current_document_id_for_effect D deadline) (\<lambda>document_id.
           try_bind (require (document_id = ni_document_id identity) ''browser document changed'') (\<lambda>_.
           try_bind (check_effect_boundary deadline) (\<lambda>_.
           try_bind (require (visible a \<and> enabled a) ''browser target is not actionable'') (\<lambda>_.
           dispatch_action D action identity a deadline)))))
   }"

definition cdp_dispatch :: "'c cdp \<Rightarrow> action \<Rightarrow> resolved_target \<Rightarrow> verification_policy \<Rightarrow> i64
    \<Rightarrow> ('c cdp_state host, dispatch_error + dispatch_receipt) state" where
  "cdp_dispatch D action target policy deadline =
     try_bind (check_effect_boundary deadline) (\<lambda>_.
     case target of
       ElementTarget element \<Rightarrow>
         if ne_backend element \<noteq> backend_name
         then ret (Inl (no_effect ''browser semantic target changed''))
         else if refused_action action policy then ret (Inl unsupported)
         else dispatch_element D action (ne_id element) deadline
     | _ \<Rightarrow> ret (Inl (no_effect ''browser semantic target required'')))"

definition browser_capability :: "string \<Rightarrow> action_capability" where
  "browser_capability name = \<lparr>ac_action = name, ac_delivery_route = TargetAddressed,
     ac_background_support = HostIsolatedOnly\<rparr>"

definition browser_actions :: "string list" where
  "browser_actions = [''invoke'', ''scroll'', ''set_value'']"

definition zero_geometry :: string where "zero_geometry = replicate 64 (CHR ''0'')"

definition cdp_capabilities :: "'c cdp \<Rightarrow> ('c cdp_state host, protocol_error + capabilities) state" where
  "cdp_capabilities D = do {
     owner \<leftarrow> verify_endpoint_owner D;
     poisoned \<leftarrow> get_exec cx_channel_poisoned;
     c \<leftarrow> get_exec cx_channel;
     let backend_available = (owner = Inr () \<and> \<not> poisoned
       \<and> ch_endpoint (cd_channel D) c = endpoint (cd_config D)
       \<and> ch_target_id (cd_channel D) c = cf_target_id (cd_config D));
     poisoned \<leftarrow> get_exec cx_latest_poisoned;
     latest \<leftarrow> get_exec cx_latest;
     if poisoned then ret (Inl backend_error)
     else do {
       current \<leftarrow> (case latest of
           None \<Rightarrow> ret None
         | Some stored \<Rightarrow> do {
             now \<leftarrow> now_ms;
             ret (if validate_observation (cd_hashing D) (st_observation stored) now = Inr ()
                  then Some stored else None)
           });
       let available = (backend_available \<and> current \<noteq> None);
       ret (Inr \<lparr>c_platform = ''browser'', c_backend = backend_name,
         c_session_isolation = cf_session_isolation (cd_config D),
         c_supported_actions = (if available then browser_actions else []),
         c_action_capabilities = (if available then map browser_capability browser_actions else []),
         c_permissions = [(''cdp'', available), (''coordinates'', False),
           (''root_frame_only'', True), (''screenshots'', False)],
         c_display_geometry_hash = (case current of
             Some stored \<Rightarrow> if backend_available
               then pv_display_geometry_hash (so_provenance (st_observation stored)) else zero_geometry
           | None \<Rightarrow> zero_geometry)\<rparr>)
     }
   }"

text \<open>\<open>impl Executor for CdpExecutor\<close>; the context hash is the trait's default.\<close>

definition cdp_executor :: "'c cdp \<Rightarrow> 'c cdp_state executor" where
  "cdp_executor D = \<lparr>x_session_isolation = ret (cf_session_isolation (cd_config D)),
     x_capabilities = cdp_capabilities D,
     x_context_hash = with_boundary no_shared_context,
     x_observe = cdp_observe D,
     x_resolve = cdp_resolve D,
     x_dispatch = cdp_dispatch D\<rparr>"

text \<open>\<open>CdpExecutor::new\<close>.\<close>

definition new_executor :: "'c cdp \<Rightarrow> 'c \<Rightarrow> cdp_error + string \<Rightarrow> cdp_error + 'c cdp_state" where
  "new_executor D c live =
     (if ch_endpoint (cd_channel D) c \<noteq> endpoint (cd_config D)
         \<or> ch_target_id (cd_channel D) c \<noteq> cf_target_id (cd_config D)
      then Inl InvalidConfig
      else if \<not> same_process live (cf_process_generation (cd_config D)) then Inl CdpStaleTarget
      else Inr \<lparr>cx_channel = c, cx_channel_poisoned = False, cx_generation = 0, cx_latest = None,
        cx_latest_poisoned = False, cx_log = []\<rparr>)"

end
