(* ===== verification/Trace.thy ===== *)
theory Trace
  imports Effects
begin

text \<open>
  Reasoning about a trace that a computation only extends: the commands sent to the browser,
  the input events sent to the desktop.  \<open>grows tr P m\<close>: what \<open>m\<close> adds to \<open>tr\<close> satisfies \<open>P\<close>,
  together with its result.
\<close>

definition grows :: "('s \<Rightarrow> 'e list) \<Rightarrow> ('a \<Rightarrow> 'e list \<Rightarrow> bool) \<Rightarrow> ('s, 'a) state \<Rightarrow> bool" where
  "grows tr P m \<longleftrightarrow> (\<forall>s r s'. run_state m s = (r, s') \<longrightarrow>
     (\<exists>added. tr s' = tr s @ added \<and> P r added))"

lemma growsD:
  assumes "grows tr P m" and "run_state m s = (r, s')"
  obtains added where "tr s' = tr s @ added" "P r added"
  using assms unfolding grows_def by blast

lemma grows_return: "P x [] \<Longrightarrow> grows tr P (ret x)"
  by (auto simp: grows_def)

lemma grows_bind:
  assumes "grows tr Q m" and "\<And>a l. Q a l \<Longrightarrow> grows tr (\<lambda>r l'. P r (l @ l')) (f a)"
  shows "grows tr P (State_Monad.bind m f)"
  unfolding grows_def
proof (intro allI impI)
  fix s r s'
  assume run: "run_state (State_Monad.bind m f) s = (r, s')"
  obtain a k where a: "run_state m s = (a, k)" by force
  with run have b: "run_state (f a) k = (r, s')" by simp
  obtain l where l: "tr k = tr s @ l" "Q a l"
    using growsD [OF assms(1) a] .
  obtain l' where "tr s' = tr k @ l'" "P r (l @ l')"
    using growsD [OF assms(2) [OF l(2)] b] .
  with l(1) show "\<exists>added. tr s' = tr s @ added \<and> P r added" by auto
qed

lemma grows_try:
  assumes "grows tr Q m" and "\<And>e l. Q (Inl e) l \<Longrightarrow> P (Inl e) l"
    and "\<And>x l. Q (Inr x) l \<Longrightarrow> grows tr (\<lambda>r l'. P r (l @ l')) (f x)"
  shows "grows tr P (try_bind m f)"
  unfolding try_bind_def
  by (rule grows_bind [OF assms(1)]) (auto intro!: grows_return assms(2,3) split: sum.split)

lemma grows_mono: "grows tr P m \<Longrightarrow> (\<And>r l. P r l \<Longrightarrow> Q r l) \<Longrightarrow> grows tr Q m"
  unfolding grows_def by blast

lemma grows_if: "(c \<Longrightarrow> grows tr P m) \<Longrightarrow> (\<not> c \<Longrightarrow> grows tr P n) \<Longrightarrow> grows tr P (if c then m else n)"
  by simp

lemma grows_case_sum:
  "(\<And>e. r = Inl e \<Longrightarrow> grows tr P (f e)) \<Longrightarrow> (\<And>x. r = Inr x \<Longrightarrow> grows tr P (g x))
    \<Longrightarrow> grows tr P (case r of Inl e \<Rightarrow> f e | Inr x \<Rightarrow> g x)"
  by (cases r) simp_all

lemma grows_case_option:
  "(r = None \<Longrightarrow> grows tr P m) \<Longrightarrow> (\<And>x. r = Some x \<Longrightarrow> grows tr P (f x))
    \<Longrightarrow> grows tr P (case r of None \<Rightarrow> m | Some x \<Rightarrow> f x)"
  by (cases r) simp_all

lemma grows_case_prod: "(\<And>a b. p = (a, b) \<Longrightarrow> grows tr P (f a b)) \<Longrightarrow> grows tr P (case p of (a, b) \<Rightarrow> f a b)"
  by (cases p) simp

text \<open>What leaves the trace alone.\<close>

lemma grows_unchanged: "(\<And>s. tr (snd (run_state m s)) = tr s) \<Longrightarrow> grows tr (\<lambda>_ l. l = []) m"
  unfolding grows_def by (metis append_Nil2 snd_conv)

text \<open>Two facts about the same computation.\<close>

lemma grows_conj: "grows tr P m \<Longrightarrow> grows tr Q m \<Longrightarrow> grows tr (\<lambda>r l. P r l \<and> Q r l) m"
  unfolding grows_def by (metis same_append_eq)

end
