(* ===== verification/ExecutorContract.thy ===== *)
theory ExecutorContract
  imports Frame Trace
begin

text \<open>
  The contract between the engine and the executor below it, as a locale: what only reads has no
  effect on the outside, and a dispatch that fails has had none unless it says that the effect is
  unknown.  For such an executor the engine never denies an effect: if a call of \<open>execute\<close> had
  any, it returns a report that ends in a success or in an unknown outcome, whatever becomes of
  the ledgers, the clock and the files.  Each executor of the program is an interpretation.
\<close>

section \<open>Effects of an executor\<close>

text \<open>\<open>effects\<close> reads the effects so far from the state of the executor.\<close>

definition host_effects :: "('x \<Rightarrow> 'e list) \<Rightarrow> 'x host \<Rightarrow> 'e list" where
  "host_effects effects h = effects (h_exec h)"

definition world_effects :: "('x \<Rightarrow> 'e list) \<Rightarrow> ('x, 'o) world \<Rightarrow> 'e list" where
  "world_effects effects w = effects (h_exec (w_host w))"

abbreviation effectless :: "('x \<Rightarrow> 'e list) \<Rightarrow> ('x host, 'a) state \<Rightarrow> bool" where
  "effectless effects \<equiv> grows (host_effects effects) (\<lambda>_ l. l = [])"

text \<open>The dispatch disclaims any effect.\<close>

definition disclaimed :: "dispatch_error + 'a \<Rightarrow> bool" where
  "disclaimed r \<longleftrightarrow> (case r of Inl e \<Rightarrow> de_effect e \<noteq> EffectUnknown | Inr _ \<Rightarrow> False)"

lemma disclaimed_iff: "(disclaimed r \<longrightarrow> l = []) \<longleftrightarrow> (\<forall>e. r = Inl e \<longrightarrow> de_effect e \<noteq> EffectUnknown \<longrightarrow> l = [])"
  by (auto simp: disclaimed_def split: sum.split)

text \<open>\<open>l\<close> and no more so far.\<close>

definition effects_so_far :: "('x \<Rightarrow> 'e list) \<Rightarrow> 'e list \<Rightarrow> ('x, 'o) world \<Rightarrow> bool" where
  "effects_so_far effects l w \<longleftrightarrow> world_effects effects w = l"

lemma blind_so_far: "blind (effects_so_far effects l)"
  by (simp add: blind_def effects_so_far_def world_effects_def)

lemma outcomes_keep_so_far: "outcomes_keep ops (effects_so_far effects l)"
  by (simp add: outcomes_keep_def keeps_def on_outcomes_def effects_so_far_def world_effects_def split: prod.splits)

lemma effectless_keeps: "effectless effects m \<Longrightarrow> keeps (effects_so_far effects l) (on_host m)"
  by (fastforce simp: grows_def keeps_def on_host_def effects_so_far_def world_effects_def host_effects_def
      split: prod.splits)

section \<open>What the report admits\<close>

fun admits :: "terminal \<Rightarrow> bool" where
  "admits (Succeeded r) = True"
| "admits (OutcomeUnknown r message) = True"
| "admits t = False"

definition admits_effect :: "protocol_error + execute_report \<Rightarrow> bool" where
  "admits_effect r \<longleftrightarrow> (case r of
       Inl _ \<Rightarrow> False
     | Inr report \<Rightarrow> report \<noteq> [] \<and> (case a_state (last report) of Terminal t \<Rightarrow> admits t | _ \<Rightarrow> False))"

text \<open>A computation of the engine that had an effect, if any, and admits it.\<close>

definition told :: "('x \<Rightarrow> 'e list) \<Rightarrow> 'e list \<Rightarrow> protocol_error + execute_report \<Rightarrow> ('x, 'o) world \<Rightarrow> bool" where
  "told effects l r w \<longleftrightarrow> (\<exists>new. world_effects effects w = l @ new \<and> (new \<noteq> [] \<longrightarrow> admits_effect r))"

text \<open>The effects of a call of \<open>execute\<close>, if there are any, are admitted by its result.\<close>

definition never_denies :: "('x \<Rightarrow> 'e list) \<Rightarrow> (('x, 'o) world, protocol_error + execute_report) state \<Rightarrow> bool" where
  "never_denies effects m \<longleftrightarrow> grows (world_effects effects) (\<lambda>r new. new \<noteq> [] \<longrightarrow> admits_effect r) m"

lemma never_denies_told: "(\<And>l. hoare (effects_so_far effects l) m (told effects l)) \<Longrightarrow> never_denies effects m"
  by (auto simp: never_denies_def grows_def hoare_def effects_so_far_def told_def)

lemma so_far_told: "effects_so_far effects l w \<Longrightarrow> told effects l r w"
  by (simp add: effects_so_far_def told_def)

lemma admits_judge: "admits (judge policy boundary r)"
  by (simp add: judge_def)

text \<open>After the dispatch: an effect that was not disclaimed is told, and its record cannot be refused.\<close>

definition terminal_admits :: "bool \<Rightarrow> terminal \<times> bool \<Rightarrow> bool" where
  "terminal_admits must p \<longleftrightarrow> (must \<longrightarrow> snd p \<and> admits (fst p))"

lemma verified_terminal_admits:
  assumes "blind P" and "calls_keep (en_executor E) P"
  shows "hoare P (verified_terminal E request h isolation route before context deadline started d)
    (\<lambda>t w. P w \<and> admits t)"
  unfolding verified_terminal_def Let_def
  by (intro hoare_bind_keeps hoare_case_prod hoare_return conjI admits_judge blind_rules assms; assumption)

lemma dispatched_terminal_admits:
  assumes "blind P" and "calls_keep (en_executor E) P"
  shows "hoare P (dispatched_terminal E request h isolation route before context deadline started r)
    (\<lambda>p w. P w \<and> terminal_admits (\<not> disclaimed r) p)"
proof (cases r)
  case (Inr d)
  have unknown: "keeps P (unknown_receipt E request h isolation before context deadline started b c)" for b c
    unfolding unknown_receipt_def by (intro blind_rules assms)
  show ?thesis
    unfolding dispatched_terminal_def Inr sum.case
    by (intro hoare_bind_keeps hoare_if hoare_bind [OF verified_terminal_admits] hoare_return unknown blind_rules assms)
      (simp_all add: terminal_admits_def)
next
  case (Inl e)
  have unknown: "keeps P (unknown_receipt E request h isolation before context deadline started b c)" for b c
    unfolding unknown_receipt_def by (intro blind_rules assms)
  show ?thesis
    unfolding dispatched_terminal_def Inl sum.case
    by (cases "de_effect e"; simp only: effect_knowledge.case;
        intro hoare_bind_keeps hoare_if hoare_return unknown blind_rules assms)
      (simp_all add: terminal_admits_def disclaimed_def)
qed

lemma finish_after_effect_admits:
  assumes "blind P" and "a_state a = Terminal t" and "admits t"
  shows "hoare P (finish_after_effect S a) (\<lambda>a' w. P w \<and> (\<exists>t'. a_state a' = Terminal t' \<and> admits t'))"
  unfolding finish_after_effect_def
  by (intro hoare_bind_keeps hoare_case_sum hoare_return conjI blind_rules assms)
    (use assms(2,3) in \<open>cases t; simp add: persistence_unknown_ack_def\<close>)+

lemma conclude_admits:
  assumes "blind P" and "outcomes_keep (en_outcomes E) P" and "terminal_admits True p"
  shows "hoare P (conclude E request h p) (\<lambda>r w. P w \<and> admits_effect r)"
proof -
  have started: "snd p" and admits: "admits (fst p)" using assms(3) by (simp_all add: terminal_admits_def)
  let ?a = "terminal_ack request h (fst p) False"
  have a: "a_state ?a = Terminal (fst p)" by (simp add: terminal_ack_def)
  have unsaved: "\<exists>t. a_state (persistence_unknown_ack ?a) = Terminal t \<and> admits t"
    using admits by (cases "fst p") (simp_all add: persistence_unknown_ack_def terminal_ack_def)
  have ack: "\<exists>t. a_state (case recorded of Inr _ \<Rightarrow> ?a | Inl _ \<Rightarrow> persistence_unknown_ack ?a) = Terminal t \<and> admits t"
    for recorded :: "protocol_error + unit"
    using a admits unsaved by (cases recorded) auto
  show ?thesis
    unfolding conclude_def Let_def if_P [OF started]
    apply (rule hoare_bind_keeps [OF frame_record_outcome [OF assms(2)]])
    subgoal for recorded
      using ack [of recorded]
      by (elim exE conjE) (rule hoare_bind [OF finish_after_effect_admits [OF assms(1)]], assumption+,
          auto intro!: hoare_return simp: admits_effect_def)
    done
qed

section \<open>The contract\<close>

locale truthful_executor =
  fixes X :: "'x executor" and effects :: "'x \<Rightarrow> 'e list"
  assumes isolation_reads: "effectless effects (x_session_isolation X)"
    and capabilities_read: "effectless effects (x_capabilities X)"
    and context_reads: "effectless effects (x_context_hash X d)"
    and observe_reads: "effectless effects (x_observe X target d)"
    and resolve_reads: "effectless effects (x_resolve X target d)"
    and dispatch_admits: "grows (host_effects effects) (\<lambda>r l. disclaimed r \<longrightarrow> l = []) (x_dispatch X action resolved policy d)"
begin

lemma calls_keep_so_far: "calls_keep X (effects_so_far effects l)"
  unfolding calls_keep_def
  by (intro conjI allI effectless_keeps isolation_reads capabilities_read context_reads observe_reads resolve_reads)

lemma dispatch_adds:
  "hoare (effects_so_far effects l) (on_host (x_dispatch X action resolved policy d))
     (\<lambda>r w. \<exists>new. effects_so_far effects (l @ new) w \<and> (disclaimed r \<longrightarrow> new = []))"
proof (rule hoareI)
  fix w r w'
  assume l: "effects_so_far effects l w" and run: "run_state (on_host (x_dispatch X action resolved policy d)) w = (r, w')"
  obtain h where h: "run_state (x_dispatch X action resolved policy d) (w_host w) = (r, h)" "w' = w\<lparr>w_host := h\<rparr>"
    using run by (auto simp: on_host_def split: prod.splits)
  obtain new where "host_effects effects h = host_effects effects (w_host w) @ new" "disclaimed r \<longrightarrow> new = []"
    by (rule growsD [OF dispatch_admits h(1)])
  then show "\<exists>new. effects_so_far effects (l @ new) w' \<and> (disclaimed r \<longrightarrow> new = [])"
    using l by (auto simp: h(2) effects_so_far_def world_effects_def host_effects_def)
qed

lemma dispatch_told:
  assumes "en_executor E = X"
  shows "hoare (effects_so_far effects l)
    (execute_dispatch E request h isolation route before resolved context deadline) (told effects l)"
proof -
  note P = blind_so_far outcomes_keep_so_far
  have calls: "calls_keep (en_executor E) (effects_so_far effects l')" for l' :: "'e list"
    unfolding assms by (rule calls_keep_so_far)
  have unseen: "keeps (effects_so_far effects l) (record_dispatch op h)" for op
    by (simp add: keeps_def record_dispatch_def effects_so_far_def world_effects_def)
  have rest: "hoare (effects_so_far effects (l @ new))
      (do { outcome \<leftarrow> dispatched_terminal E request h isolation route before context deadline started r;
            conclude E request h outcome }) (told effects l)" if "disclaimed r \<longrightarrow> new = []" for new started r
  proof (rule hoare_bind [OF dispatched_terminal_admits [OF P(1) calls]])
    fix p
    show "hoare (\<lambda>w. effects_so_far effects (l @ new) w \<and> terminal_admits (\<not> disclaimed r) p) (conclude E request h p) (told effects l)"
    proof (cases "disclaimed r")
      case True
      have "hoare (effects_so_far effects l) (conclude E request h p) (told effects l)"
        by (rule hoare_keeps_post [OF frame_conclude [OF P] so_far_told])
      then show ?thesis by (rule hoare_pre) (use True that in simp)
    next
      case False
      show ?thesis
      proof (cases "terminal_admits True p")
        case True
        have "hoare (effects_so_far effects (l @ new)) (conclude E request h p) (told effects l)"
          by (rule hoare_post [OF conclude_admits [OF P True]]) (auto simp: told_def effects_so_far_def)
        then show ?thesis by (rule hoare_pre) simp
      qed (use False in \<open>simp add: hoare_def\<close>)
    qed
  qed
  show ?thesis
    unfolding execute_dispatch_def assms
    by (rule hoare_bind_keeps [OF blind_clock(1) [OF P(1)]], rule hoare_bind_keeps [OF unseen],
        rule hoare_bind [OF dispatch_adds]) (auto simp: hoare_def dest: rest [THEN hoareD, rotated])
qed

lemma effects_are_told:
  assumes "en_executor E = X"
  shows "hoare (effects_so_far effects l) (execute E request) (told effects l)"
proof (rule stage_execute [OF blind_so_far outcomes_keep_so_far _ so_far_told])
  note P = blind_so_far outcomes_keep_so_far
  show calls: "calls_keep (en_executor E) (effects_so_far effects l)" unfolding assms by (rule calls_keep_so_far)
  have early: "hoare (effects_so_far effects l) (finish_early E request h t) (told effects l)" for h t
    by (rule hoare_keeps_post [OF frame_finish_early [OF P] so_far_told])
  have granted: "hoare (effects_so_far effects l) (execute_granted E request h isolation deadline) (told effects l)"
    for h isolation deadline
    by (rule stage_granted [OF P(1) calls early dispatch_told [OF assms]])
  show "hoare (effects_so_far effects l) (execute_new E request h isolation deadline) (told effects l)"
    for h isolation deadline
    unfolding execute_new_def
  proof (rule hoare_try_keeps [OF outcomes_keep_begin [OF P(2)] so_far_told])
    fix decision
    show "hoare (effects_so_far effects l) (case decision of
        Dispatch \<Rightarrow> execute_granted E request h isolation deadline
      | _ \<Rightarrow> do {
          terminal \<leftarrow> (case decision of Recorded terminal \<Rightarrow> ret terminal
            | _ \<Rightarrow> do {
                r \<leftarrow> on_host (empty_receipt (s_platform (en_setting E)) request h UnknownEffect isolation);
                ret (OutcomeUnknown r interrupted_outcome_message)
              });
          let a = terminal_ack request h terminal False;
          try_bind (finish (en_setting E) a) (\<lambda>_. ret (Inr [accepted_ack request h, a]))
        }) (told effects l)"
      by (cases decision) (auto simp: Let_def intro!: granted hoare_keeps_post [OF _ so_far_told] blind_rules P(1))
  qed
qed

lemma no_effect_denied:
  assumes "en_executor E = X"
  shows "never_denies effects (execute E request)"
  by (rule never_denies_told [OF effects_are_told [OF assms]])

end

end
