(* ===== verification/CdpSafety.thy ===== *)
theory CdpSafety
  imports CdpExecutor ExecutorContract
begin

text \<open>
  What the browser executor does to the page.  \<open>logs P m\<close>: the commands that \<open>m\<close> adds to the
  log, together with its result, satisfy \<open>P\<close>.  A computation is \<open>quiet\<close> if it sends no effect
  function.  Two facts result: a dispatch's answer is honest about the effect it had, and no
  effect is sent without a live check of the target.
\<close>

section \<open>Reasoning about the log\<close>

type_synonym log = "(command \<times> (channel_error + json)) list"

abbreviation logs :: "('a \<Rightarrow> log \<Rightarrow> bool) \<Rightarrow> ('c cdp_state host, 'a) state \<Rightarrow> bool" where
  "logs \<equiv> grows (\<lambda>h. cx_log (h_exec h))"

lemmas logs_def = grows_def
lemmas logsD = growsD
lemmas logs_return = grows_return
lemmas logs_bind = grows_bind
lemmas logs_try = grows_try
lemmas logs_mono = grows_mono
lemmas logs_if = grows_if

definition silent :: "log \<Rightarrow> bool" where
  "silent l \<longleftrightarrow> filter is_effect l = []"

lemma silent_simps [simp]: "silent []" "silent (l @ l') \<longleftrightarrow> silent l \<and> silent l'"
  "silent [e] \<longleftrightarrow> \<not> is_effect e"
  by (auto simp: silent_def filter_empty_conv)

section \<open>Quiet computations\<close>

definition quiet :: "('c cdp_state host, 'a) state \<Rightarrow> bool" where
  "quiet m \<longleftrightarrow> logs (\<lambda>_. silent) m"

named_theorems quiet_rules \<open>computations that send no effect function\<close>

lemma channel_quiet_return [quiet_rules]: "quiet (ret x)"
  by (simp add: quiet_def logs_return)

lemma channel_quiet_bind [quiet_rules]: "quiet m \<Longrightarrow> (\<And>a. quiet (f a)) \<Longrightarrow> quiet (State_Monad.bind m f)"
  unfolding quiet_def by (rule logs_bind, assumption) (auto elim: logs_mono)

lemma channel_quiet_try [quiet_rules]: "quiet m \<Longrightarrow> (\<And>x. quiet (f x)) \<Longrightarrow> quiet (try_bind m f)"
  unfolding try_bind_def by (auto intro!: quiet_rules split: sum.split)

lemma channel_quiet_if [quiet_rules]: "(c \<Longrightarrow> quiet m) \<Longrightarrow> (\<not> c \<Longrightarrow> quiet n) \<Longrightarrow> quiet (if c then m else n)"
  by simp

lemma quiet_case_sum [quiet_rules]:
  "(\<And>e. quiet (f e)) \<Longrightarrow> (\<And>x. quiet (g x)) \<Longrightarrow> quiet (case r of Inl e \<Rightarrow> f e | Inr x \<Rightarrow> g x)"
  by (cases r) simp_all

lemma quiet_case_option [quiet_rules]:
  "quiet m \<Longrightarrow> (\<And>x. quiet (f x)) \<Longrightarrow> quiet (case r of None \<Rightarrow> m | Some x \<Rightarrow> f x)"
  by (cases r) simp_all

lemma quiet_case_prod [quiet_rules]: "(\<And>a b. quiet (f a b)) \<Longrightarrow> quiet (case p of (a, b) \<Rightarrow> f a b)"
  by (cases p) simp

text \<open>What does not touch the executor's state.\<close>

lemma quiet_unchanged: "(\<And>h. h_exec (snd (run_state m h)) = h_exec h) \<Longrightarrow> quiet m"
  unfolding quiet_def logs_def by (metis append_Nil2 silent_simps(1) snd_conv)

lemma channel_quiet_primitives [quiet_rules]:
  "quiet now_ms" "quiet is_cancelled" "quiet (ask f)" "quiet (get_exec g)" "quiet (check_protocol_boundary d)"
  by (rule quiet_unchanged,
      simp add: now_ms_def is_cancelled_def ask_def get_exec_def check_protocol_boundary_def)+

lemma quiet_boundaries [quiet_rules]:
  "quiet (boundary_reached d)" "quiet (cdp_boundary d)" "quiet (check_effect_boundary d)"
  "quiet (check_after_effect_boundary d)"
  by (simp_all add: boundary_reached_def cdp_boundary_def check_effect_boundary_def
      check_after_effect_boundary_def quiet_rules)

lemma quiet_wait_samples [quiet_rules]: "quiet (wait_samples d n)"
  by (induction n) (auto intro!: quiet_rules)

text \<open>A command is logged once, with its answer.\<close>

lemma logs_send_command:
  "logs (\<lambda>r l. case r of None \<Rightarrow> l = [] | Some answer \<Rightarrow> l = [(cmd, answer)]) (send_command D deadline cmd)"
  by (auto simp: logs_def send_command_def get_exec_def on_channel_def update_exec_def Let_def
      split: prod.splits)

lemma quiet_send_command: "cm_function cmd \<notin> {Some ScrollEffectFunction, Some InvokeEffectFunction,
    Some SetValueEffectFunction} \<Longrightarrow> quiet (send_command D deadline cmd)"
  unfolding quiet_def
  by (rule logs_mono [OF logs_send_command]) (auto simp: is_effect_def split: option.splits)

lemma quiet_commands [quiet_rules]:
  "quiet (send_command D deadline (plain_command m params))"
  "quiet (send_command D deadline (probe_command object_id protected))"
  "quiet (send_command D deadline (scroll_probe_command object_id))"
  by (auto intro!: quiet_send_command
      simp: plain_command_def probe_command_def call_function_def scroll_probe_command_def)

lemmas plain_commands = get_frame_tree_def get_layout_metrics_def get_target_info_def
  create_isolated_world_def capture_snapshot_def get_full_ax_tree_def resolve_node_def
  get_partial_ax_tree_def get_box_model_def get_node_for_location_def

lemma quiet_named_commands [quiet_rules]:
  "quiet (send_command D deadline get_frame_tree)"
  "quiet (send_command D deadline get_layout_metrics)"
  "quiet (send_command D deadline (get_target_info t))"
  "quiet (send_command D deadline (create_isolated_world f))"
  "quiet (send_command D deadline capture_snapshot)"
  "quiet (send_command D deadline (get_full_ax_tree f))"
  "quiet (send_command D deadline (resolve_node n c))"
  "quiet (send_command D deadline (get_partial_ax_tree n))"
  "quiet (send_command D deadline (get_box_model n))"
  "quiet (send_command D deadline (get_node_for_location p))"
  by (simp_all add: plain_commands quiet_rules)

lemma quiet_via_command [quiet_rules]:
  "quiet (send_command D deadline cmd) \<Longrightarrow> quiet (cdp_command D deadline cmd)"
  "quiet (send_command D deadline cmd) \<Longrightarrow> quiet (backend_command D deadline cmd)"
  "quiet (send_command D deadline cmd) \<Longrightarrow> quiet (query_for_effect D deadline cmd)"
  "quiet (send_command D deadline cmd) \<Longrightarrow> quiet (effect_command D deadline started cmd)"
  unfolding cdp_command_def backend_command_def query_for_effect_def effect_command_def effect_answer_def
  by (intro quiet_rules; assumption)+

lemma quiet_around [quiet_rules]: "quiet m \<Longrightarrow> quiet (around_effect deadline message m)"
  unfolding around_effect_def by (intro quiet_rules)

lemma quiet_require [quiet_rules]: "quiet (require c message)"
  unfolding require_def by (rule quiet_rules)

lemma channel_quiet_checks [quiet_rules]:
  "quiet (verify_process D)"
  "quiet (verify_endpoint_owner D)"
  "quiet (current_document_id D deadline)"
  "quiet (resolve_object D n c deadline)"
  "quiet (stored_node D target now)"
  "quiet (wait_for_stability_sample D deadline)"
  unfolding verify_process_def verify_endpoint_owner_def current_document_id_def resolve_object_def
    stored_node_def wait_for_stability_sample_def
  by (intro quiet_rules)+

lemma quiet_effect_checks [quiet_rules]:
  "quiet (verify_process_for_effect D deadline)"
  "quiet (current_document_id_for_effect D deadline)"
  "quiet (resolve_object_for_effect D target deadline)"
  "quiet (probe_object_for_effect D object_id options deadline)"
  "quiet (verify_live_target_for_effect D target requirements deadline)"
  "quiet (ready_for_effect D deadline)"
  "quiet (hit_test D target deadline)"
  "quiet (judge_response a b deadline response)"
  unfolding verify_process_for_effect_def current_document_id_for_effect_def
    resolve_object_for_effect_def probe_object_for_effect_def verify_live_target_for_effect_def
    ready_for_effect_def hit_test_def judge_response_def Let_def
  by (intro quiet_rules)+

lemma quiet_observe [quiet_rules]:
  "quiet (live_probe_of D t deadline)"
  "quiet (cdp_observe D target deadline)"
  "quiet (cdp_resolve D target deadline)"
  "quiet (cdp_capabilities D)"
  "quiet (engine_target D t now)"
  unfolding live_probe_of_def probe_node_def cdp_observe_def cdp_resolve_def cdp_capabilities_def engine_target_def Let_def
  by (cases target; intro quiet_rules; simp add: quiet_rules)+

section \<open>Honest answers\<close>

text \<open>
  What a dispatch may answer, given the effect functions it sent.  \<open>Ok\<close>: exactly one, and the
  page said that it acted.  An error that claims to know that nothing happened: none was sent,
  or the channel did not send it, or the page said that it did not act.
\<close>

definition acted :: "json \<Rightarrow> bool" where
  "acted response \<longleftrightarrow> eligible response = Some True \<and> jget response ''exceptionDetails'' = None"

definition did_not_act :: "channel_error + json \<Rightarrow> bool" where
  "did_not_act answer \<longleftrightarrow> answer = Inl BeforeSend
     \<or> (\<exists>response. answer = Inr response \<and> eligible response = Some False
          \<and> jget response ''exceptionDetails'' = None)"

definition honest :: "dispatch_error + 'a \<Rightarrow> log \<Rightarrow> bool" where
  "honest r l \<longleftrightarrow> (case (r, filter is_effect l) of
       (Inr _, es) \<Rightarrow> \<exists>cmd response. es = [(cmd, Inr response)] \<and> acted response
     | (Inl e, []) \<Rightarrow> True
     | (Inl e, [(cmd, answer)]) \<Rightarrow> de_effect e = EffectUnknown \<or> did_not_act answer
     | (Inl e, _) \<Rightarrow> False)"

lemma honest_silent: "silent l \<Longrightarrow> honest r (l @ l') \<longleftrightarrow> honest r l'"
  by (simp add: honest_def silent_def)

lemma honest_error: "silent l \<Longrightarrow> honest (Inl e) l"
  by (simp add: honest_def silent_def)

text \<open>A quiet check before the rest, and the error that needs no check.\<close>

lemma channel_honest_try:
  assumes "quiet m" and "\<And>x. logs honest (f x)"
  shows "logs honest (try_bind m f)"
proof (rule logs_try [OF assms(1) [unfolded quiet_def]])
  show "silent l \<Longrightarrow> honest (Inl e) l" for e :: dispatch_error and l by (rule honest_error)
  show "silent l \<Longrightarrow> logs (\<lambda>r l'. honest r (l @ l')) (f x)" for x l
    using assms(2) [of x] by (simp add: honest_silent)
qed

lemma channel_honest_bind:
  assumes "quiet m" and "\<And>x. logs honest (f x)"
  shows "logs honest (State_Monad.bind m f)"
  by (rule logs_bind [OF assms(1) [unfolded quiet_def]]) (use assms(2) in \<open>simp add: honest_silent\<close>)

lemma honest_refuse: "logs honest (ret (Inl e))"
  by (simp add: logs_return honest_error)

text \<open>An effect command and the judgement of its response.\<close>

definition sent :: "command \<Rightarrow> dispatch_error + json \<Rightarrow> log \<Rightarrow> bool" where
  "sent cmd r l \<longleftrightarrow> (case r of
       Inr v \<Rightarrow> l = [(cmd, Inr v)]
     | Inl e \<Rightarrow> l = [] \<or> (\<exists>answer. l = [(cmd, answer)] \<and> (de_effect e = EffectUnknown \<or> did_not_act answer)))"

lemma logs_quiet_step:
  "(\<And>h. cx_log (h_exec (snd (run_state m h))) = cx_log (h_exec h)) \<Longrightarrow> logs (\<lambda>_ l. l = []) m"
  unfolding logs_def by (metis append_Nil2 snd_conv)

lemma logs_boundaries:
  "logs (\<lambda>_ l. l = []) (check_effect_boundary deadline)"
  "logs (\<lambda>_ l. l = []) (check_after_effect_boundary deadline)"
  by (rule logs_quiet_step, simp add: check_effect_boundary_def check_after_effect_boundary_def
      boundary_reached_def is_cancelled_def now_ms_def)+

lemma answer_cases:
  "answer = None \<or> (\<exists>v. answer = Some (Inr v)) \<or> answer = Some (Inl BeforeSend)
    \<or> answer = Some (Inl AfterSend)"
proof (cases answer)
  case (Some a)
  then show ?thesis
  proof (cases a)
    case (Inl e)
    then show ?thesis using Some by (cases e) auto
  qed auto
qed simp

lemma logs_effect_answer:
  assumes "case answer of None \<Rightarrow> l = [] | Some a \<Rightarrow> l = [(cmd, a)]"
  shows "logs (\<lambda>r l'. sent cmd r (l @ l')) (effect_answer deadline False answer)"
proof -
  have unsent: "logs (\<lambda>r l'. sent cmd r ((cmd, Inl BeforeSend) # l'))
     (try_bind (check_effect_boundary deadline) (\<lambda>_. ret (Inl (no_effect message))))" for message
    by (rule logs_try [OF logs_boundaries(1)])
      (auto intro!: logs_return simp: sent_def did_not_act_def)
  consider "answer = None" | v where "answer = Some (Inr v)" | "answer = Some (Inl BeforeSend)"
    | "answer = Some (Inl AfterSend)"
    using answer_cases [of answer] by blast
  then show ?thesis
  proof cases
    case 3
    then show ?thesis using assms unsent by (simp add: effect_answer_def)
  qed (use assms in \<open>auto intro!: logs_return simp: effect_answer_def sent_def effect_unknown_def unknown_def\<close>)
qed

lemma logs_effect_command: "logs (sent cmd) (effect_command D deadline False cmd)"
  unfolding effect_command_def if_False
proof (rule logs_try [OF logs_boundaries(1)])
  show "l = [] \<Longrightarrow> sent cmd (Inl e) l" for e l by (simp add: sent_def)
next
  fix u :: unit and l :: log
  assume "l = []"
  then show "logs (\<lambda>r l'. sent cmd r (l @ l'))
      (do { answer \<leftarrow> send_command D deadline cmd; effect_answer deadline False answer })"
    by (auto intro!: logs_bind [OF logs_send_command] logs_effect_answer)
qed

text \<open>What follows an effect: the response is judged, then only quiet steps that answer
  \<open>EffectUnknown\<close> when they fail.\<close>

definition doubtful :: "('c cdp_state host, dispatch_error + 'a) state \<Rightarrow> bool" where
  "doubtful m \<longleftrightarrow> logs (\<lambda>r l. silent l \<and> (\<forall>e. r = Inl e \<longrightarrow> de_effect e = EffectUnknown)) m"

definition judged :: "json \<Rightarrow> dispatch_error + unit \<Rightarrow> log \<Rightarrow> bool" where
  "judged response r l \<longleftrightarrow> l = [] \<and> (case r of
       Inr _ \<Rightarrow> acted response
     | Inl e \<Rightarrow> de_effect e = EffectUnknown \<or> did_not_act (Inr response))"

lemma logs_judge_response: "logs (judged response) (judge_response unclear refused deadline response)"
proof -
  have after: "logs (\<lambda>r l. l = [] \<and> (\<forall>e. r = Inl e \<longrightarrow> de_effect e = EffectUnknown))
      (check_after_effect_boundary deadline)"
    by (auto simp: logs_def check_after_effect_boundary_def boundary_reached_def is_cancelled_def
        now_ms_def unknown_def split: if_splits)
  show ?thesis
    unfolding judge_response_def
    by (rule logs_try [OF after])
      (auto intro!: logs_return simp: judged_def acted_def did_not_act_def unknown_def
        split: option.split bool.split)
qed

lemma honest_effect:
  assumes effect: "cm_function cmd \<in> {Some ScrollEffectFunction, Some InvokeEffectFunction,
      Some SetValueEffectFunction}"
    and rest: "\<And>response. doubtful (rest response)"
  shows "logs honest (try_bind (effect_command D deadline False cmd) (\<lambda>response.
    try_bind (judge_response unclear refused deadline response) (\<lambda>_. rest response)))"
proof (rule logs_try [OF logs_effect_command])
  have is_effect: "is_effect (cmd, answer)" for answer using effect by (simp add: is_effect_def)
  show "honest (Inl e) l" if "sent cmd (Inl e) l" for e l
    using that is_effect by (auto simp: sent_def honest_def)
  show "logs (\<lambda>r l'. honest r (l @ l'))
      (try_bind (judge_response unclear refused deadline response) (\<lambda>_. rest response))"
    if s: "sent cmd (Inr response) l" for response l
  proof (rule logs_try [OF logs_judge_response])
    show "honest (Inl e) (l @ l')" if "judged response (Inl e) l'" for e l'
      using that s is_effect by (auto simp: judged_def sent_def honest_def)
    show "logs (\<lambda>r l''. honest r (l @ l' @ l'')) (rest response)" if j: "judged response (Inr u) l'" for u l'
    proof (rule logs_mono [OF rest [unfolded doubtful_def]])
      fix r :: "dispatch_error + 'b" and l'' :: log
      assume "silent l'' \<and> (\<forall>e. r = Inl e \<longrightarrow> de_effect e = EffectUnknown)"
      then show "honest r (l @ l' @ l'')"
        using j s is_effect by (auto simp: judged_def sent_def honest_def silent_def split: sum.split)
    qed
  qed
qed

section \<open>The dispatches are honest\<close>

lemma effect_functions:
  "cm_function (invoke_command object_id) = Some InvokeEffectFunction"
  "cm_function (scroll_effect_command object_id d) = Some ScrollEffectFunction"
  "cm_function (set_value_command object_id v) = Some SetValueEffectFunction"
  by (simp_all add: invoke_command_def scroll_effect_command_def set_value_command_def call_function_def)

lemma doubtful_return: "(\<And>e. r = Inl e \<Longrightarrow> de_effect e = EffectUnknown) \<Longrightarrow> doubtful (ret r)"
  unfolding doubtful_def by (rule logs_return) auto

lemma doubtful_bind: "quiet m \<Longrightarrow> (\<And>x. doubtful (f x)) \<Longrightarrow> doubtful (State_Monad.bind m f)"
  unfolding doubtful_def quiet_def by (rule logs_bind, assumption) (auto elim: logs_mono)

lemma doubtful_try: "doubtful m \<Longrightarrow> (\<And>x. doubtful (f x)) \<Longrightarrow> doubtful (try_bind m f)"
  unfolding doubtful_def by (rule logs_try, assumption) (auto elim: logs_mono)

lemma doubtful_if: "(c \<Longrightarrow> doubtful m) \<Longrightarrow> (\<not> c \<Longrightarrow> doubtful n) \<Longrightarrow> doubtful (if c then m else n)"
  by simp

lemma doubtful_after_boundary: "doubtful (check_after_effect_boundary deadline)"
  unfolding check_after_effect_boundary_def
  by (intro doubtful_bind doubtful_return quiet_rules) (auto simp: unknown_def split: if_splits)

lemma doubtful_effect_command:
  "quiet (send_command D deadline cmd) \<Longrightarrow> doubtful (effect_command D deadline True cmd)"
  unfolding effect_command_def if_True
  by (intro doubtful_try doubtful_after_boundary doubtful_bind, assumption)
    (auto intro!: doubtful_return simp: effect_answer_def effect_unknown_def unknown_def split: option.split sum.split)

lemma doubtful_confirm_value: "doubtful (confirm_value D target object_id v deadline)"
proof -
  have "doubtful (probe_object_for_effect D object_id \<lparr>ep_protected = p, ep_reveal_value = True,
      ep_effect_started = True\<rparr> deadline)" for p
    unfolding probe_object_for_effect_def Let_def
    by (simp, intro doubtful_try doubtful_if doubtful_return doubtful_effect_command quiet_rules)
      (auto simp: effect_unknown_def unknown_def or_else_def split: option.splits)
  then show ?thesis
    unfolding confirm_value_def
    by (intro doubtful_bind doubtful_if doubtful_try doubtful_return quiet_rules)
      (auto simp: effect_unknown_def unknown_def split: if_splits)
qed

lemma doubtful_scroll_verified:
  "doubtful (try_bind (ret (scroll_verified parse d response)) (\<lambda>_. ret (Inr receipt)))"
  by (intro doubtful_try doubtful_return)
    (auto simp: scroll_verified_def unknown_def Let_def split: option.splits if_splits)

lemma honest_dispatch_invoke: "logs honest (dispatch_invoke D target deadline)"
  unfolding dispatch_invoke_def
  by (intro channel_honest_try quiet_rules honest_effect doubtful_return) (simp_all add: effect_functions)

lemma honest_dispatch_scroll: "logs honest (dispatch_scroll D target d deadline)"
  unfolding dispatch_scroll_def
  by (intro channel_honest_try quiet_rules honest_effect doubtful_scroll_verified) (simp add: effect_functions)

lemma honest_dispatch_set_value: "logs honest (dispatch_set_value D target v deadline)"
  unfolding dispatch_set_value_def
  by (intro channel_honest_try quiet_rules honest_effect doubtful_confirm_value) (simp add: effect_functions)

lemma honest_dispatch_action: "logs honest (dispatch_action D action identity a deadline)"
  unfolding dispatch_action_def
  by (cases action)
    (auto intro: honest_refuse honest_dispatch_invoke honest_dispatch_scroll honest_dispatch_set_value)

lemma honest_dispatch_element: "logs honest (dispatch_element D action element_id deadline)"
  unfolding dispatch_element_def
proof (intro channel_honest_bind quiet_rules)
  fix poisoned latest
  show "logs honest (case (if poisoned then None else latest) of
      None \<Rightarrow> ret (Inl (no_effect ''browser target is unavailable''))
    | Some stored \<Rightarrow> (case st_nodes stored element_id of
        None \<Rightarrow> ret (Inl (no_effect ''browser target changed''))
      | Some node \<Rightarrow>
          let identity = identity_of node stored; a = se_actionability (cn_element node) in
          try_bind (current_document_id_for_effect D deadline) (\<lambda>document_id.
          try_bind (require (document_id = ni_document_id identity) ''browser document changed'') (\<lambda>_.
          try_bind (check_effect_boundary deadline) (\<lambda>_.
          try_bind (require (visible a \<and> enabled a) ''browser target is not actionable'') (\<lambda>_.
          dispatch_action D action identity a deadline))))))"
    unfolding Let_def
    by (auto intro!: honest_refuse channel_honest_try quiet_rules honest_dispatch_action split: option.split)
qed

lemma honest_cdp_dispatch: "logs honest (cdp_dispatch D action target policy deadline)"
  unfolding cdp_dispatch_def
  by (intro channel_honest_try quiet_rules, cases target)
    (auto intro: honest_refuse honest_dispatch_element)

section \<open>No effect without a live check\<close>

text \<open>
  The check: the browser described the node as one element whose fingerprint, under the
  current document, is the stored one, visible and enabled.
\<close>

definition live_checked :: "'c cdp \<Rightarrow> node_identity \<Rightarrow> log \<Rightarrow> bool" where
  "live_checked D target l \<longleftrightarrow> (\<exists>tree s document_id.
     (get_partial_ax_tree (ni_backend_node_id target), Inr tree) \<in> set l
   \<and> live_ax_semantics tree (ni_backend_node_id target) = Inr s
   \<and> live_fingerprint D document_id (ni_backend_node_id target) s = ni_fingerprint_hash target
   \<and> ax_visible s \<and> ax_enabled s)"

lemma live_checkedI:
  "(get_partial_ax_tree (ni_backend_node_id target), Inr tree) \<in> set l \<Longrightarrow>
   live_ax_semantics tree (ni_backend_node_id target) = Inr s \<Longrightarrow>
   live_fingerprint D document_id (ni_backend_node_id target) s = ni_fingerprint_hash target \<Longrightarrow>
   ax_visible s \<Longrightarrow> ax_enabled s \<Longrightarrow> live_checked D target l"
  unfolding live_checked_def by blast

text \<open>The log up to the first effect function holds such a check.\<close>

definition checked_first :: "'c cdp \<Rightarrow> node_identity \<Rightarrow> log \<Rightarrow> bool" where
  "checked_first D target l \<longleftrightarrow>
     silent l \<or> live_checked D target (takeWhile (\<lambda>e. \<not> is_effect e) l)"

lemma takeWhile_silent: "silent l \<Longrightarrow> takeWhile (\<lambda>e. \<not> is_effect e) (l @ l') = l @ takeWhile (\<lambda>e. \<not> is_effect e) l'"
  by (induction l) (auto simp: silent_def split: if_splits)

lemma live_checked_append: "live_checked D target l' \<Longrightarrow> live_checked D target (l @ l')"
  "live_checked D target l \<Longrightarrow> live_checked D target (l @ l')"
  by (auto simp: live_checked_def)

lemma checked_first_silent: "silent l \<Longrightarrow> checked_first D target l' \<Longrightarrow> checked_first D target (l @ l')"
  by (auto simp: checked_first_def takeWhile_silent live_checked_append)

lemma checked_try:
  assumes "quiet m" and "\<And>x. logs (\<lambda>_. checked_first D target) (f x)"
  shows "logs (\<lambda>_. checked_first D target) (try_bind m f)"
proof (rule logs_try [OF assms(1) [unfolded quiet_def]])
  show "silent l \<Longrightarrow> checked_first D target l" for l by (simp add: checked_first_def)
  show "silent l \<Longrightarrow> logs (\<lambda>r l'. checked_first D target (l @ l')) (f x)" for x l
    by (rule logs_mono [OF assms(2)]) (rule checked_first_silent)
qed

lemma logs_query:
  assumes "quiet (send_command D deadline cmd)"
  shows "logs (\<lambda>r l. silent l \<and> (\<forall>v. r = Inr v \<longrightarrow> (cmd, Inr v) \<in> set l)) (query_for_effect D deadline cmd)"
proof -
  let ?Q = "\<lambda>(r :: dispatch_error + json) l. silent l \<and> (\<forall>v. r = Inr v \<longrightarrow> (cmd, Inr v) \<in> set l)"
  have send: "logs (\<lambda>r l. silent l \<and> (\<forall>answer. r = Some answer \<longrightarrow> l = [(cmd, answer)])) (send_command D deadline cmd)"
    unfolding logs_def
  proof (intro allI impI)
    fix h r h'
    assume run: "run_state (send_command D deadline cmd) h = (r, h')"
    obtain l where l: "cx_log (h_exec h') = cx_log (h_exec h) @ l" "silent l"
      using logsD [OF assms [unfolded quiet_def] run] .
    obtain l' where l': "cx_log (h_exec h') = cx_log (h_exec h) @ l'"
      "case r of None \<Rightarrow> l' = [] | Some answer \<Rightarrow> l' = [(cmd, answer)]"
      using logsD [OF logs_send_command run] .
    with l show "\<exists>added. cx_log (h_exec h') = cx_log (h_exec h) @ added \<and> silent added
        \<and> (\<forall>answer. r = Some answer \<longrightarrow> added = [(cmd, answer)])" by auto
  qed
  have answered: "logs (\<lambda>r l'. ?Q r (l @ l')) (case answer of
      None \<Rightarrow> ret (Inl (no_effect ''browser channel is unavailable''))
    | Some r \<Rightarrow> try_bind (check_effect_boundary deadline) (\<lambda>_.
        ret (map_sum (\<lambda>_. no_effect ''browser target is unavailable'') id r)))"
    if "silent l" "\<forall>a. answer = Some a \<longrightarrow> l = [(cmd, a)]" for answer l
    using that by (auto intro!: logs_return logs_try [OF logs_boundaries(1)] simp: map_sum_Inr_iff split: option.split)
  show ?thesis
    unfolding query_for_effect_def
    by (rule logs_try [OF logs_boundaries(1)], simp, simp, rule logs_bind [OF send], rule answered) auto
qed

lemma logs_verify_live:
  "logs (\<lambda>r l. silent l \<and> (r = Inr () \<longrightarrow> live_checked D target l))
    (verify_live_target_for_effect D target requirements deadline)"
proof -
  let ?P = "\<lambda>(r :: dispatch_error + unit) l. silent l \<and> (r = Inr () \<longrightarrow> live_checked D target l)"
  have quietly: "logs ?P (try_bind m f)" if "quiet m" "\<And>x. logs ?P (f x)"
    for m :: "('c cdp_state host, dispatch_error + 'b) state" and f
    by (rule logs_try [OF that(1) [unfolded quiet_def]], simp)
      (rule logs_mono [OF that(2)], auto intro: live_checked_append)
  have refuse: "logs ?P (ret (Inl e))" for e by (simp add: logs_return)
  have tree: "logs ?P (try_bind (query_for_effect D deadline (get_partial_ax_tree (ni_backend_node_id target)))
      (\<lambda>tree. try_bind (ret (live_ax_semantics tree (ni_backend_node_id target))) (\<lambda>s.
        ret (if live_fingerprint D document_id (ni_backend_node_id target) s \<noteq> ni_fingerprint_hash target
               \<or> \<not> meets requirements s
             then Inl (no_effect ''browser target changed'') else Inr ()))))" for document_id
    by (rule logs_try [OF logs_query [OF quiet_named_commands(8)]])
      (auto intro!: logs_try [OF logs_return [where P = "\<lambda>r l. l = [] \<and> live_ax_semantics _ _ = r"]] logs_return
        intro: live_checkedI simp: meets_def split: if_splits)
  show ?thesis
    unfolding verify_live_target_for_effect_def
    by (intro quietly quiet_rules logs_if refuse tree)
qed

lemma checked_live:
  assumes "\<And>x. logs honest (f x)"
  shows "logs (\<lambda>_. checked_first D target)
    (try_bind (verify_live_target_for_effect D target requirements deadline) f)"
proof (rule logs_try [OF logs_verify_live])
  show "silent l \<and> (Inl e = Inr () \<longrightarrow> live_checked D target l) \<Longrightarrow> checked_first D target l"
    for e :: dispatch_error and l by (simp add: checked_first_def)
  show "silent l \<and> (Inr x = Inr () \<longrightarrow> live_checked D target l) \<Longrightarrow>
      logs (\<lambda>r l'. checked_first D target (l @ l')) (f x)" for x l
    by (rule logs_mono [OF assms]) (auto simp: checked_first_def takeWhile_silent live_checked_append)
qed

lemma checked_dispatch_invoke: "logs (\<lambda>_. checked_first D target) (dispatch_invoke D target deadline)"
  unfolding dispatch_invoke_def
  by (intro checked_live checked_try quiet_rules channel_honest_try honest_effect doubtful_return)
    (simp_all add: effect_functions)

lemma checked_dispatch_scroll: "logs (\<lambda>_. checked_first D target) (dispatch_scroll D target d deadline)"
  unfolding dispatch_scroll_def
  by (intro checked_live checked_try quiet_rules channel_honest_try honest_effect doubtful_scroll_verified)
    (simp add: effect_functions)

lemma checked_dispatch_set_value: "logs (\<lambda>_. checked_first D target) (dispatch_set_value D target v deadline)"
  unfolding dispatch_set_value_def
  by (intro checked_live checked_try quiet_rules channel_honest_try honest_effect doubtful_confirm_value)
    (simp add: effect_functions)

lemma checked_refuse: "logs (\<lambda>_. checked_first D target) (ret (Inl e))"
  by (simp add: logs_return checked_first_def)

lemma checked_dispatch_action: "logs (\<lambda>_. checked_first D identity) (dispatch_action D action identity a deadline)"
  unfolding dispatch_action_def
  by (cases action)
    (auto intro: checked_refuse checked_dispatch_invoke checked_dispatch_scroll checked_dispatch_set_value)

section \<open>The contract of an executor\<close>

text \<open>
  The effects on the page: the effect functions that were sent, but for those of which the channel
  or the page said that they did nothing.  The browser executor meets the contract with them.
\<close>

definition page_effects :: "'c cdp_state \<Rightarrow> log" where
  "page_effects s = filter (\<lambda>e. is_effect e \<and> \<not> did_not_act (snd e)) (cx_log s)"

lemma quiet_effectless: "quiet m \<Longrightarrow> effectless page_effects m"
  unfolding quiet_def grows_def host_effects_def page_effects_def silent_def
  by (fastforce simp: filter_empty_conv)

lemma honest_dispatch_contract:
  "grows (host_effects page_effects) (\<lambda>r l. disclaimed r \<longrightarrow> l = []) (cdp_dispatch D action target policy d)"
proof -
  have "filter (\<lambda>e. is_effect e \<and> \<not> did_not_act (snd e)) l = []" if honest: "honest r l" and none: "disclaimed r"
    for r :: "dispatch_error + dispatch_receipt" and l
  proof -
    obtain e where e: "r = Inl e" "de_effect e \<noteq> EffectUnknown"
      using none by (auto simp: disclaimed_def split: sum.splits)
    then have "list_all (\<lambda>e. did_not_act (snd e)) (filter is_effect l)"
      using honest
      by (cases "filter is_effect l"; cases "tl (filter is_effect l)") (auto simp: honest_def split: prod.splits)
    then show ?thesis by (auto simp: list_all_iff filter_empty_conv)
  qed
  then show ?thesis
    using honest_cdp_dispatch [of D action target policy d]
    unfolding grows_def host_effects_def page_effects_def by fastforce
qed

interpretation browser: truthful_executor "cdp_executor D" page_effects
  by unfold_locales
    (auto simp: cdp_executor_def with_boundary_def no_shared_context_def
      intro!: quiet_effectless honest_dispatch_contract intro: quiet_rules)

end
