(* ===== verification/CdpFacts.thy ===== *)
theory CdpFacts
  imports CdpSafety
begin

text \<open>
  The browser executor's state and its answers: the stored observation is always a valid one
  with a node for each element, an observed element is a target of the engine until the
  observation expires, and the capabilities are ones the engine accepts.
\<close>

section \<open>The stored observation\<close>

definition well_stored :: "'c cdp \<Rightarrow> stored_observation \<Rightarrow> bool" where
  "well_stored D stored \<longleftrightarrow>
     validate_observation (cd_hashing D) (st_observation stored)
       (so_observed_at_ms (st_observation stored)) = Inr ()
   \<and> (\<forall>e \<in> set (so_elements (st_observation stored)). \<exists>node.
        st_nodes stored (se_element_id e) = Some node \<and> cn_element node = e)"

definition cdp_invariant :: "'c cdp \<Rightarrow> 'c cdp_state host \<Rightarrow> bool" where
  "cdp_invariant D h \<longleftrightarrow> (\<forall>stored. cx_latest (h_exec h) = Some stored \<longrightarrow> well_stored D stored)"

lemma node_map_element:
  assumes "distinct (map (se_element_id \<circ> cn_element) nodes)" and "node \<in> set nodes"
  shows "node_map nodes (se_element_id (cn_element node)) = Some node"
proof -
  have "distinct (map fst (rev (map (\<lambda>n. (se_element_id (cn_element n), n)) nodes)))"
    using assms(1) by (simp add: rev_map [symmetric] comp_def)
  then show ?thesis
    unfolding node_map_def using assms(2) by (simp add: map_of_eq_Some_iff)
qed

lemma stored_well:
  assumes "parse_ax_tree H tree observation_id document_id roots = Some (Inr (elements, nodes))"
    and "validate_observation H observation now = Inr ()" and "so_elements observation = elements"
    and "e \<in> set elements"
  shows "\<exists>node. nodes (se_element_id e) = Some node \<and> cn_element node = e"
proof -
  obtain built where b: "elements = map cn_element built" "nodes = node_map built"
    using parse_ax_tree_ok [OF assms(1)] .
  have "distinct (map se_element_id elements)"
    using validate_observation_ok [OF assms(2)] assms(3) by (simp add: well_formed_elements_def)
  then have "distinct (map (se_element_id \<circ> cn_element) built)" using b(1) by simp
  with assms(4) b node_map_element show ?thesis by force
qed

text \<open>Everything but \<open>store_observation\<close> leaves the stored observation alone.\<close>

definition keeps_latest :: "('c cdp_state host, 'a) state \<Rightarrow> bool" where
  "keeps_latest m \<longleftrightarrow> (\<forall>L. keeps (\<lambda>h. cx_latest (h_exec h) = L) m)"

named_theorems latest_rules \<open>computations that leave the stored observation alone\<close>

lemma latest_structure [latest_rules]:
  "keeps_latest (ret x)"
  "keeps_latest m \<Longrightarrow> (\<And>a. keeps_latest (f a)) \<Longrightarrow> keeps_latest (State_Monad.bind m f)"
  "keeps_latest m' \<Longrightarrow> (\<And>x. keeps_latest (g x)) \<Longrightarrow> keeps_latest (try_bind m' g)"
  by (auto simp: keeps_latest_def intro: keeps_rules)

lemma latest_cases [latest_rules]:
  "(c \<Longrightarrow> keeps_latest m) \<Longrightarrow> (\<not> c \<Longrightarrow> keeps_latest n) \<Longrightarrow> keeps_latest (if c then m else n)"
  "(\<And>e. keeps_latest (f e)) \<Longrightarrow> (\<And>x. keeps_latest (g x)) \<Longrightarrow>
    keeps_latest (case r of Inl e \<Rightarrow> f e | Inr x \<Rightarrow> g x)"
  "keeps_latest m' \<Longrightarrow> (\<And>x. keeps_latest (k x)) \<Longrightarrow> keeps_latest (case v of None \<Rightarrow> m' | Some x \<Rightarrow> k x)"
  "(\<And>a b. keeps_latest (p a b)) \<Longrightarrow> keeps_latest (case q of (a, b) \<Rightarrow> p a b)"
  by (simp, cases r, simp_all, cases v, simp_all, cases q, simp)

lemma latest_primitives [latest_rules]:
  "keeps_latest now_ms" "keeps_latest is_cancelled" "keeps_latest (ask f)" "keeps_latest (get_exec g)"
  by (simp_all add: keeps_latest_def keeps_def now_ms_def is_cancelled_def ask_def get_exec_def)

lemma latest_send_command [latest_rules]: "keeps_latest (send_command D deadline cmd)"
  by (auto simp: keeps_latest_def keeps_def send_command_def get_exec_def on_channel_def update_exec_def
      Let_def split: prod.splits)

lemma latest_boundaries [latest_rules]:
  "keeps_latest (boundary_reached d)" "keeps_latest (cdp_boundary d)"
  "keeps_latest (check_effect_boundary d)" "keeps_latest (check_after_effect_boundary d)"
  by (simp_all add: boundary_reached_def cdp_boundary_def check_effect_boundary_def
      check_after_effect_boundary_def latest_rules)

lemma latest_wait [latest_rules]: "keeps_latest (wait_samples d n)"
  "keeps_latest (wait_for_stability_sample D d)"
proof -
  show "keeps_latest (wait_samples d n)" for n by (induction n) (auto intro!: latest_rules)
  then show "keeps_latest (wait_for_stability_sample D d)"
    unfolding wait_for_stability_sample_def by (intro latest_rules)
qed

lemma latest_steps [latest_rules]:
  "keeps_latest (verify_process D)"
  "keeps_latest (verify_endpoint_owner D)"
  "keeps_latest (cdp_command D d cmd)"
  "keeps_latest (backend_command D d cmd)"
  "keeps_latest (current_document_id D d)"
  "keeps_latest (resolve_object D n c d)"
  "keeps_latest (stored_node D target now)"
  "keeps_latest (require b message)"
  "keeps_latest (effect_answer d started answer)"
  "keeps_latest (judge_response unclear refused d response)"
  unfolding verify_process_def verify_endpoint_owner_def cdp_command_def backend_command_def
    current_document_id_def resolve_object_def stored_node_def require_def effect_answer_def
    judge_response_def
  by (intro latest_rules)+

lemma latest_around [latest_rules]: "keeps_latest m \<Longrightarrow> keeps_latest (around_effect d message m)"
  unfolding around_effect_def by (intro latest_rules)

lemma latest_effect_steps [latest_rules]:
  "keeps_latest (verify_process_for_effect D d)"
  "keeps_latest (current_document_id_for_effect D d)"
  "keeps_latest (resolve_object_for_effect D target d)"
  "keeps_latest (effect_command D d started cmd)"
  "keeps_latest (query_for_effect D d cmd)"
  "keeps_latest (probe_object_for_effect D object_id options d)"
  "keeps_latest (verify_live_target_for_effect D target requirements d)"
  "keeps_latest (ready_for_effect D d)"
  "keeps_latest (hit_test D target d)"
  "keeps_latest (confirm_value D target object_id v d)"
  unfolding verify_process_for_effect_def current_document_id_for_effect_def resolve_object_for_effect_def
    effect_command_def query_for_effect_def probe_object_for_effect_def verify_live_target_for_effect_def
    ready_for_effect_def hit_test_def confirm_value_def Let_def
  by (intro latest_rules)+

lemma latest_dispatches [latest_rules]:
  "keeps_latest (dispatch_invoke D target d)"
  "keeps_latest (dispatch_scroll D target dir d)"
  "keeps_latest (dispatch_set_value D target v d)"
  unfolding dispatch_invoke_def dispatch_scroll_def dispatch_set_value_def
  by (intro latest_rules)+

lemma latest_dispatch_action [latest_rules]: "keeps_latest (dispatch_action D action identity a d)"
  unfolding dispatch_action_def by (cases action) (auto intro: latest_rules)

lemma latest_dispatch_element [latest_rules]: "keeps_latest (dispatch_element D action element_id d)"
  unfolding dispatch_element_def Let_def by (intro latest_rules)

lemma latest_cdp_dispatch: "keeps_latest (cdp_dispatch D action target policy d)"
  unfolding cdp_dispatch_def by (intro latest_rules, cases target) (auto intro: latest_rules)

lemma latest_reads:
  "keeps_latest (cdp_observe D target d)"
  "keeps_latest (cdp_resolve D target d)"
  "keeps_latest (cdp_capabilities D)"
  "keeps_latest (read_browser D d)"
  unfolding cdp_observe_def cdp_resolve_def cdp_capabilities_def live_probe_of_def probe_node_def read_browser_def Let_def
  by (cases target; intro latest_rules; simp add: latest_rules)+

text \<open>\<open>store_observation\<close> stores what it returns, and that is well formed.\<close>

lemma run_store_observation:
  assumes "run_state (store_observation D deadline document_id context_id geometry roots tree) h = (r, h')"
  shows "(cx_latest (h_exec h') = cx_latest (h_exec h) \<and> (\<forall>obs. r \<noteq> Some (Inr obs)))
    \<or> (\<exists>stored. r = Some (Inr (st_observation stored)) \<and> cx_latest (h_exec h') = Some stored
        \<and> \<not> cx_latest_poisoned (h_exec h') \<and> well_stored D stored)"
  using assms
  by (auto simp: store_observation_def now_ms_def update_exec_def get_exec_def Let_def well_stored_def
      new_observation_def stored_well split: option.splits sum.splits prod.splits if_splits)

lemma run_semantic_observation:
  assumes "run_state (semantic_observation_of D deadline) h = (Some (Inr obs), h')"
  obtains stored where "obs = st_observation stored" "cx_latest (h_exec h') = Some stored"
    "\<not> cx_latest_poisoned (h_exec h')" "well_stored D stored"
proof -
  obtain r k where r: "run_state (read_browser D deadline) h = (r, k)" by force
  with assms obtain a b c d e where "run_state (store_observation D deadline a b c d e) k = (Some (Inr obs), h')"
    by (auto simp: semantic_observation_of_def split: sum.splits prod.splits)
  from run_store_observation [OF this] that show ?thesis by auto
qed

lemma keeps_cdp_invariant: "keeps_latest m \<Longrightarrow> keeps (cdp_invariant D) m"
  by (rule keepsI) (metis (mono_tags, lifting) cdp_invariant_def keepsD keeps_latest_def)

lemma keeps_semantic_observation: "keeps (cdp_invariant D) (semantic_observation_of D deadline)"
proof -
  have store: "keeps (cdp_invariant D) (store_observation D deadline a b c d e)" for a b c d e
    by (rule keepsI) (auto simp: cdp_invariant_def dest!: run_store_observation)
  show ?thesis
    unfolding semantic_observation_of_def
    by (rule keeps_bind [OF keeps_cdp_invariant [OF latest_reads(4)]], rule keeps_case_sum)
      (auto intro: keeps_rules store split: prod.split)
qed

section \<open>Targets\<close>

lemma run_stored_node:
  assumes "cx_latest (h_exec h) = Some stored" and "\<not> cx_latest_poisoned (h_exec h)"
    and "resolve_target (cd_hashing D) (st_observation stored) target now = Inr e"
    and "st_nodes stored (t_element_id target) = Some node"
  shows "run_state (stored_node D target now) h = (Inr (node, stored), h)"
  using assms by (simp add: stored_node_def get_exec_def)

lemma observed_target:
  assumes "run_state (semantic_observation_of D deadline) h = (Some (Inr obs), h')"
    and "target_of (cd_hashing D) obs tag = Inr target"
    and "validate_observation (cd_hashing D) obs now = Inr ()"
  shows "run_state (engine_target D target now) h' = (Inr (Element target), h')"
proof -
  obtain stored where s: "obs = st_observation stored" "cx_latest (h_exec h') = Some stored"
    "\<not> cx_latest_poisoned (h_exec h')" "well_stored D stored"
    using run_semantic_observation [OF assms(1)] .
  obtain e where e: "resolve_target (cd_hashing D) obs target now = Inr e" "e \<in> set (so_elements obs)"
    using resolve_target_of [OF assms(2,3)] by metis
  from resolve_target_sound [OF e(1)] have "se_element_id e = t_element_id target" by simp
  then obtain node where "st_nodes stored (t_element_id target) = Some node"
    using s(1,4) e(2) by (auto simp: well_stored_def)
  then show ?thesis
    using run_stored_node [OF s(2,3)] e(1) s(1) by (simp add: engine_target_def)
qed

section \<open>Capabilities\<close>

lemma browser_capability_accepted:
  assumes "c_supported_actions caps = browser_actions"
    and "c_action_capabilities caps = map browser_capability browser_actions"
  shows "strict_action_capability caps action = Some c \<longleftrightarrow>
    action_name action \<in> set browser_actions \<and> c = browser_capability (action_name action)"
  unfolding strict_action_capability_ok assms
  by (auto simp: browser_actions_def browser_capability_def route_is_valid_def)

lemma run_cdp_capabilities:
  assumes "run_state (cdp_capabilities D) h = (Inr caps, h')"
  shows "c_session_isolation caps = cf_session_isolation (cd_config D)
    \<and> (c_supported_actions caps = [] \<and> c_action_capabilities caps = []
      \<or> c_supported_actions caps = browser_actions
        \<and> c_action_capabilities caps = map browser_capability browser_actions
        \<and> cx_latest (h_exec h) \<noteq> None)"
proof -
  have "keeps_latest (verify_endpoint_owner D)" by (rule latest_rules)
  obtain owner k where run: "run_state (verify_endpoint_owner D) h = (owner, k)" by force
  with \<open>keeps_latest _\<close> have latest: "cx_latest (h_exec k) = cx_latest (h_exec h)"
    unfolding keeps_latest_def by (metis (mono_tags, lifting) keepsD)
  show ?thesis
  proof (cases "cx_latest (h_exec k)")
    case None
    then show ?thesis using assms run
      by (auto simp: cdp_capabilities_def get_exec_def Let_def split: if_splits)
  next
    case (Some stored)
    then show ?thesis using assms run latest
      by (auto simp: cdp_capabilities_def get_exec_def now_ms_def Let_def split: if_splits)
  qed
qed

section \<open>Which element a dispatch acts on\<close>

definition log_after :: "('c cdp_state host, 'a) state \<Rightarrow> 'c cdp_state host \<Rightarrow> (log \<Rightarrow> bool) \<Rightarrow> bool" where
  "log_after m h P \<longleftrightarrow>
     (\<exists>added. cx_log (h_exec (snd (run_state m h))) = cx_log (h_exec h) @ added \<and> P added)"

lemma log_afterI: "logs (\<lambda>_. P) m \<Longrightarrow> log_after m h P"
  unfolding log_after_def by (rule growsD [OF _ prod.collapse [symmetric]], assumption) blast

lemma log_after_honest:
  "logs honest m \<Longrightarrow> log_after m h (honest (fst (run_state m h)))"
  unfolding log_after_def by (rule growsD [OF _ prod.collapse [symmetric]], assumption) blast

lemma checked_dispatch_element:
  assumes "cx_latest (h_exec h) = Some stored" and "st_nodes stored element_id = Some node"
  shows "log_after (dispatch_element D action element_id deadline) h
    (checked_first D (identity_of node stored))"
proof -
  let ?i = "identity_of node stored" and ?a = "se_actionability (cn_element node)"
  let ?body = "try_bind (current_document_id_for_effect D deadline) (\<lambda>document_id.
    try_bind (require (document_id = ni_document_id ?i) ''browser document changed'') (\<lambda>_.
    try_bind (check_effect_boundary deadline) (\<lambda>_.
    try_bind (require (visible ?a \<and> enabled ?a) ''browser target is not actionable'') (\<lambda>_.
    dispatch_action D action ?i ?a deadline))))"
  have "logs (\<lambda>_. checked_first D ?i) ?body"
    by (intro checked_try quiet_rules checked_dispatch_action)
  then have body: "log_after ?body h (checked_first D ?i)" by (rule log_afterI)
  have "run_state (dispatch_element D action element_id deadline) h =
      (if cx_latest_poisoned (h_exec h)
       then (Inl (no_effect ''browser target is unavailable''), h) else run_state ?body h)"
    using assms by (simp add: dispatch_element_def get_exec_def Let_def)
  then show ?thesis using body by (auto simp: log_after_def checked_first_def)
qed

lemma run_check_effect_boundary:
  "h_exec (snd (run_state (check_effect_boundary d) h)) = h_exec h"
  by (simp add: check_effect_boundary_def is_cancelled_def now_ms_def)

lemma checked_cdp_dispatch:
  assumes "cx_latest (h_exec h) = Some stored" and "st_nodes stored (ne_id element) = Some node"
  shows "log_after (cdp_dispatch D action (ElementTarget element) policy deadline) h
    (checked_first D (identity_of node stored))"
proof -
  obtain b k where run: "run_state (check_effect_boundary deadline) h = (b, k)" by force
  then have k: "h_exec k = h_exec h" using run_check_effect_boundary by (metis snd_conv)
  have "log_after (dispatch_element D action (ne_id element) deadline) k
      (checked_first D (identity_of node stored))"
    by (rule checked_dispatch_element) (simp_all add: assms k)
  then show ?thesis
    using run k by (cases b) (auto simp: log_after_def cdp_dispatch_def checked_first_def)
qed

end
