(* ===== verification/CdpSample.thy ===== *)
theory CdpSample
  imports CdpFacts Sample
begin

text \<open>
  A run of the browser executor: the browser answers from a list, the page has one button, the
  observation is taken and the button is invoked.
\<close>

definition sample_config :: cdp_config where
  "sample_config = \<lparr>cf_port = 9222, cf_target_id = ''t'', cf_browser_process_id = 42,
     cf_process_generation = ''g'', cf_session_isolation = HostIsolated\<rparr>"

text \<open>The next answer of the list; at its end nothing is sent.\<close>

definition scripted :: "json list channel" where
  "scripted = \<lparr>ch_endpoint = \<lambda>_. endpoint sample_config, ch_target_id = \<lambda>_. ''t'',
     ch_command = \<lambda>_ _. State (\<lambda>h. case h_exec h of
        [] \<Rightarrow> (Inl BeforeSend, h) | v # vs \<Rightarrow> (Inr v, h\<lparr>h_exec := vs\<rparr>))\<rparr>"

definition sample_cdp :: "json list cdp" where
  "sample_cdp = \<lparr>cd_config = sample_config, cd_hashing = sample_hashing, cd_channel = scripted,
     cd_float = \<lambda>_. Finite 0, cd_live = \<lambda>_ _. Inr ''g'', cd_owners = \<lambda>_. Inr [42],
     cd_samples = \<lambda>_. 0\<rparr>"

definition cdp_host :: "nat \<Rightarrow> json list \<Rightarrow> u64 \<Rightarrow> stored_observation option
    \<Rightarrow> (command \<times> (channel_error + json)) list \<Rightarrow> json list cdp_state host" where
  "cdp_host n vs g latest l = \<lparr>h_env = sample_env, h_tick = n,
     h_exec = \<lparr>cx_channel = vs, cx_channel_poisoned = False, cx_generation = g,
       cx_latest = latest, cx_latest_poisoned = False, cx_log = l\<rparr>\<rparr>"

section \<open>Steps\<close>

lemma sample_cdp_simps [simp]:
  "cd_config sample_cdp = sample_config" "cd_hashing sample_cdp = sample_hashing"
  "cf_target_id sample_config = ''t''" "cf_process_generation sample_config = ''g''"
  "cf_browser_process_id sample_config = 42"
  by (simp_all add: sample_cdp_def sample_config_def)

lemma step_send [simp]:
  "run_state (send_command sample_cdp d cmd) (cdp_host n (v # vs) g st l)
    = (Some (Inr v), cdp_host n vs g st (l @ [(cmd, Inr v)]))"
  by (simp add: send_command_def cdp_host_def get_exec_def on_channel_def update_exec_def sample_cdp_def
      scripted_def Let_def)

lemma step_boundary [simp]:
  "run_state (cdp_boundary d) (cdp_host n vs g st l) = (if d \<le> 5 then Inl CdpExpired else Inr (), cdp_host (Suc (Suc n)) vs g st l)"
  "run_state (check_effect_boundary 1000) (cdp_host n vs g st l) = (Inr (), cdp_host (Suc (Suc n)) vs g st l)"
  "run_state (check_after_effect_boundary 1000) (cdp_host n vs g st l) = (Inr (), cdp_host (Suc (Suc n)) vs g st l)"
  "run_state now_ms (cdp_host n vs g st l) = (5, cdp_host (Suc n) vs g st l)"
  by (simp_all add: cdp_boundary_def check_effect_boundary_def check_after_effect_boundary_def
      boundary_reached_def is_cancelled_def now_ms_def cdp_host_def sample_env_def)

lemma step_process [simp]:
  "run_state (verify_process sample_cdp) (cdp_host n vs g st l) = (Inr (), cdp_host (Suc n) vs g st l)"
  by (simp add: verify_process_def ask_def cdp_host_def same_process_def) (simp add: sample_cdp_def)

lemma step_state [simp]:
  "run_state (update_exec (cx_generation_update f)) (cdp_host n vs g st l) = ((), cdp_host n vs (f g) st l)"
  "run_state (update_exec (cx_latest_update k)) (cdp_host n vs g st l) = ((), cdp_host n vs g (k st) l)"
  "run_state (get_exec cx_generation) (cdp_host n vs g st l) = (g, cdp_host n vs g st l)"
  "run_state (get_exec cx_latest) (cdp_host n vs g st l) = (st, cdp_host n vs g st l)"
  "run_state (get_exec cx_latest_poisoned) (cdp_host n vs g st l) = (False, cdp_host n vs g st l)"
  by (simp_all add: update_exec_def get_exec_def cdp_host_def)

lemma sample_fingerprint [simp]: "semantic_fingerprint sample_hashing v = zero_hash"
  by (simp add: semantic_fingerprint_def hash_serializable_def sample_hashing_def)

section \<open>Answers of the browser\<close>

definition frame_answer :: json where
  "frame_answer = JObj [(''frameTree'', JObj [(''frame'', JObj [(''id'', JStr ''f''), (''loaderId'', JStr ''l'')])])]"

definition layout_answer :: json where
  "layout_answer = JObj [(''cssVisualViewport'', JObj [])]"

definition button_node :: json where
  "button_node = JObj [(''backendDOMNodeId'', JInt 7), (''name'', JObj [(''value'', JStr ''Save'')]),
     (''nodeId'', JStr ''1''), (''role'', JObj [(''value'', JStr ''button'')])]"

definition tree_answer :: json where
  "tree_answer = JObj [(''nodes'', JArr [button_node])]"

definition observe_answers :: "json list" where
  "observe_answers = [
     JObj [(''targetInfo'', JObj [(''targetId'', JStr ''t''), (''type'', JStr ''page'')])],
     frame_answer,
     JObj [(''executionContextId'', JInt 3)],
     layout_answer,
     JObj [(''documents'', JArr [JObj [(''frameId'', JStr ''f''),
       (''nodes'', JObj [(''backendNodeId'', JArr [JInt 7])])]])],
     tree_answer,
     frame_answer]"

definition invoke_answers :: "json list" where
  "invoke_answers = [
     frame_answer,
     JObj [(''object'', JObj [(''objectId'', JStr ''o'')])],
     JObj [(''result'', JObj [(''value'', JObj [(''connected'', JBool True), (''enabled'', JBool True),
       (''visible'', JBool True)])])],
     layout_answer, frame_answer, tree_answer,
     JObj [(''result'', JObj [(''value'', JObj [(''eligible'', JBool True)])])]]"

definition button_semantics :: ax_semantics where
  "button_semantics = \<lparr>ax_role = ''button'', ax_name = Some ''Save'', ax_protected = False, ax_visible = True,
     ax_enabled = True, ax_invokable = True, ax_editable = False\<rparr>"

definition button_element :: semantic_element where
  "button_element = \<lparr>se_tag = ''e0'', se_element_id = zero_hash, se_parent_id = None,
     se_fingerprint_hash = zero_hash, se_role = ''button'', se_name = Some ''Save'', se_bounds = None,
     se_actionability = \<lparr>visible = True, enabled = True, unambiguous = True, stable = False,
       receives_events = False, invokable = True, editable = False\<rparr>\<rparr>"

definition button_cdp_node :: cdp_node where
  "button_cdp_node = \<lparr>cn_backend_node_id = 7, cn_protected = False, cn_element = button_element\<rparr>"

definition button_observation :: semantic_observation where
  "button_observation = new_observation sample_cdp zero_hash zero_hash zero_hash 1 5 1000 [button_element]"

definition button_stored :: stored_observation where
  "button_stored = \<lparr>st_observation = button_observation, st_execution_context_id = 3,
     st_nodes = node_map [button_cdp_node]\<rparr>"

section \<open>The observation\<close>

lemma name_kept: "redacted_name ''button'' = Some ''button''" "redacted_name ''Save'' = Some ''Save''"
  by (simp_all add: redacted_name_printable)

lemma button_semantics_of: "ax_semantics_of button_node = Inr button_semantics"
  by (simp add: ax_semantics_of_def button_node_def button_semantics_def ax_value_def get_str_def name_kept
      flag_def ax_bool_property_def ax_property_def invokable_roles_def Let_def)

lemma zero_hash_semantic: "semantic_hash zero_hash"
  by (rule zero_hash_valid)

lemma button_tree: "parse_ax_tree sample_hashing tree_answer zero_hash zero_hash [7]
    = Some (Inr ([button_element], node_map [button_cdp_node]))"
proof -
  have node: "required_string button_node ''nodeId'' = Inr ''1''" "get_str button_node ''parentId'' = None"
    "get_bool button_node ''ignored'' = None" "get_u64 button_node ''backendDOMNodeId'' = Some 7"
    "ax_value (jget button_node ''role'') = Some ''button''"
    by (simp_all add: button_node_def required_string_def get_str_def get_bool_def get_u64_def
        ax_value_def name_kept)
  have select: "select_nodes [7] [button_node] Map.empty [] [] = Inr (Map.empty, [(''1'', 7, button_semantics)])"
    by (simp add: node button_semantics_of Let_def)
  have "show_nat 7 = ''7''" by (subst show_nat.simps) (simp add: digit_def char_of_eq_iff)
  then have short: "valid_text (show_nat 7) 1 2048"
    by (simp add: valid_text_def is_control_def blank_def is_whitespace_def)
  have tag: "show_nat 0 = ''0''" by (subst show_nat.simps) (simp add: digit_def char_of_eq_iff)
  have ids: "opaque_ids sample_hashing zero_hash [(''1'', 7, button_semantics)] = Inr [(''1'', zero_hash)]"
    using short by (simp add: opaque_ids_def opaque_element_id_def zero_hash_semantic)
      (simp add: sample_hashing_def)
  have build: "build_elements sample_hashing zero_hash Map.empty {''1''} [(''1'', zero_hash)] 0
      [(''1'', 7, button_semantics)] = Some (Inr [button_cdp_node])"
    by (simp add: element_of_def semantic_tag_def max_semantic_elements_def tag button_semantics_def
        button_cdp_node_def button_element_def)
  have "Option.bind (jget tree_answer ''nodes'') as_array = Some [button_node]"
    by (simp add: tree_answer_def)
  then show ?thesis using select ids build
    by (simp add: parse_ax_tree_def max_semantic_elements_def button_cdp_node_def)
qed

lemma button_like_valid:
  "validate_observation sample_hashing
     (button_observation\<lparr>so_elements := [button_element\<lparr>se_actionability := a\<rparr>]\<rparr>) 5 = Inr ()"
proof -
  let ?e = "button_element\<lparr>se_actionability := a\<rparr>"
  have names: "valid_text backend_name 1 128" "valid_text ''g'' 1 256" "valid_text ''t'' 1 512"
    "valid_text zero_hash 1 512" "valid_text ''button'' 1 128" "valid_text ''Save'' 0 1024"
    by (simp_all add: valid_text_def backend_name_def is_control_def blank_def is_whitespace_def zero_hash_def
        chars_ascii list_all_iff)
  have element: "valid_element ?e"
    using names by (simp add: valid_element_def button_element_def valid_tag_def is_ascii_digit_def zero_hash_semantic)
  have "build_mapping [?e] = Inr [(zero_hash, ?e)]"
    using element by (simp add: build_mapping_def check_parent_def) (simp add: button_element_def)
  then show ?thesis
    using names by (simp add: validate_observation_def button_observation_def new_observation_def
        protocol_version_def zero_hash_semantic max_semantic_observation_age_ms_def
        max_semantic_elements_def max_semantic_snapshot_bytes_def valid_provenance_def valid_host_opt_ins_def
        sat_sub_i64_def sat_add_i64_def sat_i64_def i64_max_def i64_min_def)
      (simp add: sample_hashing_def)
qed

lemma button_valid: "validate_observation sample_hashing button_observation 5 = Inr ()"
  using button_like_valid [of "se_actionability button_element"]
  by (simp add: button_observation_def new_observation_def)

lemma sample_observes:
  "\<exists>n l. run_state (semantic_observation_of sample_cdp 1000) (cdp_host 0 observe_answers 0 None [])
    = (Some (Inr button_observation), cdp_host n [] 1 (Some button_stored) l)"
proof -
  have frames: "frame_ids frame_answer = Inr (''f'', ''l'')" "same_frame frame_answer (''f'', ''l'') = Inr ()"
    by (simp_all add: frame_ids_def same_frame_def frame_of_def jpointer_def frame_answer_def
        required_string_def get_str_def)
  have roots: "root_backend_node_ids (JObj [(''documents'', JArr [JObj [(''frameId'', JStr ''f''),
       (''nodes'', JObj [(''backendNodeId'', JArr [JInt 7])])]])]) ''f'' = Inr [7]"
    by (simp add: root_backend_node_ids_def is_root_document_def jpointer_def positive_id_def)
  have read: "\<exists>n l. run_state (read_browser sample_cdp 1000) (cdp_host 0 observe_answers 0 None [])
      = (Inr (zero_hash, 3, zero_hash, [7], tree_answer), cdp_host n [] 0 None l)"
    by (simp add: read_browser_def cdp_command_def observe_answers_def frames roots or_else_def
        is_page_target_def get_str_def get_u64_def layout_viewport_def layout_answer_def document_id_of_def) blast
  have store: "run_state (store_observation sample_cdp 1000 zero_hash 3 zero_hash [7] tree_answer)
      (cdp_host n [] 0 None l) = (Some (Inr button_observation), cdp_host (Suc n) [] 1 (Some button_stored) l)" for n l
    using button_valid
    by (simp add: store_observation_def observation_id_of_def button_tree Let_def
        button_observation_def [symmetric] button_stored_def)
  from read obtain n l where "run_state (read_browser sample_cdp 1000) (cdp_host 0 observe_answers 0 None [])
      = (Inr (zero_hash, 3, zero_hash, [7], tree_answer), cdp_host n [] 0 None l)" by blast
  then show ?thesis by (auto simp: semantic_observation_of_def store)
qed

section \<open>The invocation\<close>

definition button_native :: native_element where
  "button_native = native_element_of button_cdp_node button_stored"

lemma sample_invokes:
  "\<exists>n. run_state (cdp_dispatch sample_cdp Invoke (ElementTarget button_native) NoVerification 1000)
      (cdp_host 0 invoke_answers 1 (Some button_stored) [])
    = (Inr success_receipt, cdp_host n [] 1 (Some button_stored)
        (zip [get_frame_tree, resolve_node 7 3, probe_command ''o'' False, get_layout_metrics,
          get_frame_tree, get_partial_ax_tree 7, invoke_command ''o''] (map Inr invoke_answers)))"
proof -
  have frames: "frame_ids frame_answer = Inr (''f'', ''l'')"
    by (simp add: frame_ids_def frame_of_def jpointer_def frame_answer_def required_string_def get_str_def)
  have live: "live_ax_semantics tree_answer 7 = Inr button_semantics"
    by (simp add: live_ax_semantics_def tree_answer_def button_semantics_of)
      (simp add: button_node_def get_u64_def get_bool_def)
  have node: "st_nodes button_stored zero_hash = Some button_cdp_node"
    by (simp add: button_stored_def node_map_def button_cdp_node_def button_element_def)
  have identity: "identity_of button_cdp_node button_stored = \<lparr>ni_backend_node_id = 7,
      ni_execution_context_id = 3, ni_document_id = zero_hash, ni_protected = False,
      ni_fingerprint_hash = zero_hash, ni_display_geometry_hash = zero_hash\<rparr>"
    by (simp add: identity_of_def button_cdp_node_def button_element_def button_stored_def
        button_observation_def new_observation_def)
  have native: "ne_backend button_native = backend_name" "ne_id button_native = zero_hash"
    by (simp_all add: button_native_def native_element_of_def button_cdp_node_def button_element_def)
  have action: "se_actionability (cn_element button_cdp_node) = \<lparr>visible = True, enabled = True,
      unambiguous = True, stable = False, receives_events = False, invokable = True, editable = False\<rparr>"
    by (simp add: button_cdp_node_def button_element_def)
  have document: "run_state (current_document_id sample_cdp 1000) (cdp_host n (frame_answer # vs) g st l)
      = (Inr zero_hash, cdp_host n vs g st (l @ [(get_frame_tree, Inr frame_answer)]))" for n vs g st l
    by (simp add: current_document_id_def backend_command_def frames document_id_of_def)
  have element: "\<exists>n'. run_state (dispatch_element sample_cdp Invoke zero_hash 1000)
      (cdp_host n invoke_answers 1 (Some button_stored) [])
    = (Inr success_receipt, cdp_host n' [] 1 (Some button_stored)
        (zip [get_frame_tree, resolve_node 7 3, probe_command ''o'' False, get_layout_metrics,
          get_frame_tree, get_partial_ax_tree 7, invoke_command ''o''] (map Inr invoke_answers)))" for n
    by (simp add: dispatch_element_def node identity action invoke_answers_def document
        current_document_id_for_effect_def around_effect_def require_def dispatch_action_def
        dispatch_invoke_def ready_for_effect_def verify_process_for_effect_def resolve_object_for_effect_def
        resolve_object_def backend_command_def nonempty_def jpointer_def or_else_def
        probe_object_for_effect_def query_for_effect_def all_true_def get_bool_def
        verify_live_target_for_effect_def layout_viewport_def layout_answer_def live live_fingerprint_def
        meets_def button_semantics_def effect_command_def effect_answer_def judge_response_def eligible_def Let_def) blast
  then show ?thesis by (simp add: cdp_dispatch_def native refused_action_def)
qed

end
