(* ===== verification/SemanticProperties.thy ===== *)
theory SemanticProperties
  imports CdpSample Outcome
begin

text \<open>
  Properties of authority and capabilities (lib.rs), the memory outcome ledger (lib.rs) and
  semantic observations (semantic.rs).
\<close>

section \<open>Authority and capabilities\<close>


text \<open>
  A keyring is built exactly from valid names without a repeated issuer and key id, and holds
  what the list says.
\<close>

theorem keyring_holds_its_keys:
  "new_verifier keys = Inr ring \<longleftrightarrow>
     list_all key_names_valid keys \<and> distinct (map (fst \<circ> key_entry) keys)
   \<and> ring = map_of (map key_entry keys)"
  by (rule new_verifier_ok)

text \<open>
  A capability is found exactly when the supported actions and the capabilities are the same
  names without repetition, every capability has a route its action allows, and this is the
  capability of the action.
\<close>

theorem capability_is_strict:
  "strict_action_capability cs action = Some c \<longleftrightarrow>
     distinct (c_supported_actions cs) \<and> distinct (map ac_action (c_action_capabilities cs))
   \<and> list_all route_is_valid (c_action_capabilities cs)
   \<and> set (c_supported_actions cs) = ac_action ` set (c_action_capabilities cs)
   \<and> c \<in> set (c_action_capabilities cs) \<and> ac_action c = action_name action"
  by (rule strict_action_capability_ok)

section \<open>The memory outcome ledger\<close>

text \<open>
  Over any sequence of calls - with the lock poisoned or not - \<open>MemoryOutcomeLedger\<close> grants
  a dispatch at most once for each operation and action hash.
\<close>

theorem memory_grants_once: "distinct (fst (run_calls memory_outcomes calls memory))"
  by (rule memory_granted_once)

section \<open>Semantic observations\<close>

text \<open>
  C36: The checks with the walk up from every element accept exactly the lists of valid elements
  with distinct tags and ids whose parents exist and form no cycle; the mapping then is the
  elements by id.
\<close>

theorem mapping_accepts_forests:
  "build_mapping es = Inr mapping \<longleftrightarrow> well_formed_elements es \<and> mapping = element_entries es"
  by (rule build_mapping_ok)

text \<open>
  A target made from an observation resolves in that observation to the element with its tag
  for as long as the observation is valid.
\<close>

theorem target_resolves_to_its_element:
  assumes "target_of H s tag = Inr target" and "validate_observation H s now = Inr ()"
  shows "\<exists>e. resolve_target H s target now = Inr e \<and> e \<in> set (so_elements s) \<and> se_tag e = tag"
  by (rule resolve_target_of [OF assms]) blast

definition button_target :: semantic_target_ref where
  "button_target = \<lparr>t_observation_id = zero_hash, t_generation = 1, t_provenance_hash = zero_hash,
     t_element_id = zero_hash, t_fingerprint_hash = zero_hash\<rparr>"

lemma button_target_of: "target_of sample_hashing button_observation ''e0'' = Inr button_target"
  by (simp add: target_of_def the_element_ok button_observation_def new_observation_def button_element_def
      the_element_def button_target_def provenance_hash_def)
    (simp add: sample_hashing_def hash_serializable_def)

lemma target_resolves_to_its_element_witness:
  "\<exists>e. resolve_target sample_hashing button_observation button_target 5 = Inr e
    \<and> e \<in> set (so_elements button_observation) \<and> se_tag e = ''e0''"
  by (rule target_resolves_to_its_element [OF button_target_of button_valid])

text \<open>
  An action is routed to an element only if the observation is valid now, the target is of
  this observation, generation and provenance, the element has its id and fingerprint, is
  visible, enabled, unambiguous and stable, and can do the action.
\<close>

theorem routed_action_is_fenced:
  assumes "route_action H action s target now = Inr e"
  shows "validate_observation H s now = Inr () \<and> e \<in> set (so_elements s)
    \<and> se_element_id e = t_element_id target \<and> se_fingerprint_hash e = t_fingerprint_hash target
    \<and> t_observation_id target = so_observation_id s \<and> t_generation target = so_generation s
    \<and> t_provenance_hash target = provenance_hash H s
    \<and> actionable_base (se_actionability e)
    \<and> (action = Invoke \<and> invokable (se_actionability e)
       \<or> (\<exists>value. action = SetValue value) \<and> editable (se_actionability e))"
  using route_action_sound [OF assms] resolve_target_sound by blast

text \<open>The button, after a backend found it stable.\<close>

definition stable_button :: semantic_element where
  "stable_button = button_element\<lparr>se_actionability := (se_actionability button_element)\<lparr>stable := True\<rparr>\<rparr>"

definition stable_observation :: semantic_observation where
  "stable_observation = button_observation\<lparr>so_elements := [stable_button]\<rparr>"

lemma stable_routed:
  "route_action sample_hashing Invoke stable_observation button_target 5 = Inr stable_button"
proof -
  have valid: "validate_observation sample_hashing stable_observation 5 = Inr ()"
    unfolding stable_observation_def stable_button_def by (rule button_like_valid)
  have "target_of sample_hashing stable_observation ''e0'' = Inr button_target"
    by (simp add: target_of_def the_element_def stable_observation_def stable_button_def button_observation_def
        new_observation_def button_element_def button_target_def provenance_hash_def)
      (simp add: sample_hashing_def hash_serializable_def)
  then obtain e where "resolve_target sample_hashing stable_observation button_target 5 = Inr e"
    "e \<in> set (so_elements stable_observation)"
    using resolve_target_of valid by metis
  moreover from this have "e = stable_button" by (simp add: stable_observation_def)
  ultimately show ?thesis
    by (simp add: route_action_def actionable_base_def stable_button_def button_element_def)
qed

lemma routed_action_is_fenced_witness:
  "actionable_base (se_actionability stable_button) \<and> invokable (se_actionability stable_button)"
  using routed_action_is_fenced [OF stable_routed] by simp

end
