(* ===== verification/CdpProbe.thy ===== *)
theory CdpProbe
  imports CdpFacts Results
begin

text \<open>
  What the browser executor's \<open>observe\<close> answers: the evidence is about the element that the
  target names, as the stored observation has it and as the browser described it just now.
\<close>

definition probed :: "node_identity \<Rightarrow> live_probe \<Rightarrow> bool" where
  "probed node p \<longleftrightarrow> lp_fingerprint_hash p = ni_fingerprint_hash node
   \<and> lp_display_geometry_hash p = ni_display_geometry_hash node
   \<and> (\<exists>v. get_bool v ''connected'' = Some True \<and> lp_state p = redacted_probe v (ni_protected node))"

lemma yields_probe_node: "yields (\<lambda>r. \<forall>p. r = Inr p \<longrightarrow> probed node p) (probe_node D node deadline)"
  unfolding probe_node_def Let_def
  by (intro yields_try yields_if yields_bind yields_return) (auto simp: probed_def)

text \<open>The stored node of a target.\<close>

definition node_of :: "'c cdp \<Rightarrow> stored_observation option \<Rightarrow> semantic_target_ref \<Rightarrow> cdp_node
    \<Rightarrow> stored_observation \<Rightarrow> bool" where
  "node_of D latest target node stored \<longleftrightarrow> latest = Some stored
     \<and> st_nodes stored (t_element_id target) = Some node
     \<and> (\<exists>now e. resolve_target (cd_hashing D) (st_observation stored) target now = Inr e)"

lemma hoare_stored_node:
  "hoare (\<lambda>h. cx_latest (h_exec h) = L) (stored_node D target now)
    (\<lambda>r _. \<forall>n st. r = Inr (n, st) \<longrightarrow> node_of D L target n st)"
  by (rule hoareI) (auto simp: stored_node_def get_exec_def node_of_def split: option.splits sum.splits if_splits)

lemma hoare_yields: "yields Q m \<Longrightarrow> hoare P m (\<lambda>r _. Q r)"
  by (rule hoareI) (rule yieldsD)

lemma hoare_latest:
  "keeps_latest m \<Longrightarrow> (\<And>a. hoare (\<lambda>h. cx_latest (h_exec h) = L) (f a) Q)
    \<Longrightarrow> hoare (\<lambda>h. cx_latest (h_exec h) = L) (State_Monad.bind m f) Q"
  by (rule hoare_bind_keeps) (simp_all add: keeps_latest_def)

definition probe_of :: "'c cdp \<Rightarrow> stored_observation option \<Rightarrow> semantic_target_ref \<Rightarrow> live_probe \<Rightarrow> bool" where
  "probe_of D latest target p \<longleftrightarrow>
     (\<exists>node stored. node_of D latest target node stored \<and> probed (identity_of node stored) p)"

lemma live_probe_sound:
  "hoare (\<lambda>h. cx_latest (h_exec h) = L) (live_probe_of D target deadline)
    (\<lambda>r _. \<forall>p. r = Inr p \<longrightarrow> probe_of D L target p)"
proof -
  let ?Q = "\<lambda>r. \<forall>p. r = Inr p \<longrightarrow> probe_of D L target p"
  have looked_up: "yields ?Q (try_bind (ret (map_sum map_cdp_protocol_error (\<lambda>(n, st). identity_of n st) stored))
      (\<lambda>node. probe_node D node deadline))"
    if "\<forall>n st. stored = Inr (n, st) \<longrightarrow> node_of D L target n st" for stored
  proof (cases stored)
    case (Inl e)
    then show ?thesis by (simp add: try_bind_def yields_return)
  next
    case (Inr ns)
    obtain n st where pair: "ns = (n, st)" by (cases ns)
    then have ns: "ns = (n, st)" "node_of D L target n st" using that Inr by simp_all
    have "yields ?Q (probe_node D (identity_of n st) deadline)"
      using yields_probe_node [of "identity_of n st" D deadline] ns(2)
      unfolding yields_def probe_of_def by blast
    then show ?thesis using Inr ns by (simp add: try_bind_def)
  qed
  have rest: "hoare (\<lambda>_. \<forall>n st. stored = Inr (n, st) \<longrightarrow> node_of D L target n st)
      (try_bind (ret (map_sum map_cdp_protocol_error (\<lambda>(n, st). identity_of n st) stored))
        (\<lambda>node. probe_node D node deadline)) (\<lambda>r _. ?Q r)" for stored
    by (rule hoareI) (rule yieldsD [OF looked_up])
  show ?thesis
    unfolding live_probe_of_def
    by (rule hoare_latest, rule latest_rules, rule hoare_if, rule hoare_return, simp,
        rule hoare_latest, rule latest_rules, rule hoare_bind [OF hoare_stored_node], rule rest)
qed

lemma observe_sound:
  "hoare (\<lambda>h. cx_latest (h_exec h) = L) (cdp_observe D (Element t) deadline)
    (\<lambda>r _. \<forall>obs. r = Inr obs \<longrightarrow> (\<exists>p. probe_of D L t p \<and> o_state obs = lp_state p
      \<and> e_target_fingerprint_hash (o_evidence obs) = Some (lp_fingerprint_hash p)
      \<and> e_display_geometry_hash (o_evidence obs) = lp_display_geometry_hash p))"
proof -
  let ?L = "\<lambda>h. cx_latest (h_exec h) = L"
  let ?Q = "\<lambda>r. \<forall>obs. r = Inr obs \<longrightarrow> (\<exists>p. probe_of D L t p \<and> o_state obs = lp_state p
      \<and> e_target_fingerprint_hash (o_evidence obs) = Some (lp_fingerprint_hash p)
      \<and> e_display_geometry_hash (o_evidence obs) = lp_display_geometry_hash p)"
  have boundary: "hoare ?L (do { b \<leftarrow> cdp_boundary deadline;
      try_bind (ret (map_sum map_cdp_protocol_error id b)) (\<lambda>_. m) }) (\<lambda>r _. ?Q r)"
    if "hoare ?L m (\<lambda>r _. ?Q r)" for m :: "('a cdp_state host, protocol_error + observation) state"
    by (rule hoare_latest [OF latest_boundaries(2)], rule hoare_try_keeps)
      (auto intro: keeps_return that)
  have boundary': "yields ?Q (do { b \<leftarrow> cdp_boundary deadline;
      try_bind (ret (map_sum map_cdp_protocol_error id b)) (\<lambda>_. m) })" if "yields ?Q m" for m
    by (intro yields_bind yields_try that) simp
  have probed: "yields ?Q (do { b \<leftarrow> cdp_boundary deadline;
      try_bind (ret (map_sum map_cdp_protocol_error id b)) (\<lambda>_. try_bind (ret probe) (\<lambda>probe. f probe)) })"
    if "\<And>p. probe = Inr p \<Longrightarrow> yields ?Q (f p)" for probe f
    using that by (intro boundary') (cases probe; simp add: try_bind_def yields_return)
  have rest: "hoare (\<lambda>_. \<forall>p. probe = Inr p \<longrightarrow> probe_of D L t p) (do { b \<leftarrow> cdp_boundary deadline;
      try_bind (ret (map_sum map_cdp_protocol_error id b)) (\<lambda>_. try_bind (ret probe) (\<lambda>probe. f probe)) })
      (\<lambda>r _. ?Q r)"
    if "\<And>p. probe = Inr p \<Longrightarrow> probe_of D L t p \<Longrightarrow> yields ?Q (f p)" for probe f
    by (rule hoareI, rule yieldsD [OF probed], rule that) simp_all
  show ?thesis
    unfolding cdp_observe_def Let_def target_ref.case
    by (rule boundary, rule hoare_bind [OF live_probe_sound], rule rest)
      (intro yields_bind yields_if yields_return yields_try, auto)
qed

lemma observed_element:
  assumes inv: "cdp_invariant D h"
    and run: "run_state (cdp_observe D (Element t) deadline) h = (Inr obs, h')"
  obtains stored e node v where "cx_latest (h_exec h) = Some stored" "e \<in> set (so_elements (st_observation stored))"
    "se_element_id e = t_element_id t" "st_nodes stored (t_element_id t) = Some node" "cn_element node = e"
    "e_target_fingerprint_hash (o_evidence obs) = Some (t_fingerprint_hash t)"
    "e_display_geometry_hash (o_evidence obs)
      = pv_display_geometry_hash (so_provenance (st_observation stored))"
    "o_state obs = redacted_probe v (cn_protected node)"
proof -
  obtain p where p: "probe_of D (cx_latest (h_exec h)) t p" "o_state obs = lp_state p"
    "e_target_fingerprint_hash (o_evidence obs) = Some (lp_fingerprint_hash p)"
    "e_display_geometry_hash (o_evidence obs) = lp_display_geometry_hash p"
    using hoareD [OF observe_sound refl run] by blast
  then obtain node stored where n: "node_of D (cx_latest (h_exec h)) t node stored"
    "probed (identity_of node stored) p" by (auto simp: probe_of_def)
  then obtain now e where e: "resolve_target (cd_hashing D) (st_observation stored) t now = Inr e"
    and stored: "cx_latest (h_exec h) = Some stored" "st_nodes stored (t_element_id t) = Some node"
    by (auto simp: node_of_def)
  from resolve_target_sound [OF e] have el: "e \<in> set (so_elements (st_observation stored))"
    "se_element_id e = t_element_id t" "se_fingerprint_hash e = t_fingerprint_hash t" by simp_all
  have "cn_element node = e"
    using inv stored el(1,2) by (auto simp: cdp_invariant_def well_stored_def)
  with p n(2) stored el that show ?thesis
    by (auto simp: probed_def identity_of_def)
qed

end
