(* ===== verification/CdpChannel.thy ===== *)
theory CdpChannel
  imports CdpExecutor "HOL-Library.Sublist"
begin

text \<open>
  The connection to the browser (cdp.rs): finding the web socket's address over HTTP, the
  process that owns the port and its generation on Linux, and \<open>TungsteniteChannel::command\<close>,
  which sends one command and reads until its answer.

  The socket, the JSON parser and the text of a page function are parameters; a file that
  cannot be read is \<open>None\<close>.
\<close>

section \<open>Finding the web socket\<close>

definition max_http_bytes :: nat where "max_http_bytes = 1024 * 1024"

definition crlf2 :: string where "crlf2 = [cr, newline, cr, newline]"

text \<open>Reads byte by byte up to the empty line.\<close>

function read_headers :: "string \<Rightarrow> string \<Rightarrow> cdp_error + string \<times> string" where
  "read_headers headers stream =
     (if ends_with headers crlf2 then Inr (headers, stream)
      else if max_http_bytes \<le> length headers then Inl CdpProtocol
      else case stream of [] \<Rightarrow> Inl CdpProtocol | b # bs \<Rightarrow> read_headers (headers @ [b]) bs)"
  by pat_completeness auto
termination by (relation "measure (\<lambda>(headers, stream). length stream)") auto

declare read_headers.simps [simp del]

fun header_length :: "nat option \<Rightarrow> string list \<Rightarrow> cdp_error + nat option" where
  "header_length content_length [] = Inr content_length"
| "header_length content_length (line # lines) = (case split_once CHR '':'' line of
       None \<Rightarrow> Inl CdpProtocol
     | Some (name, v) \<Rightarrow>
         if eq_ignore_ascii_case name ''transfer-encoding''
            \<and> \<not> eq_ignore_ascii_case (trim v) ''identity'' then Inl CdpProtocol
         else if eq_ignore_ascii_case name ''content-length''
         then if content_length \<noteq> None then Inl CdpProtocol
           else (case parse_unsigned (usize_max + 1) (trim v) of
               None \<Rightarrow> Inl CdpProtocol
             | Some n \<Rightarrow> header_length (Some n) lines)
         else header_length content_length lines)"

definition http_body :: "string \<Rightarrow> cdp_error + string" where
  "http_body stream = (case read_headers [] stream of
       Inl e \<Rightarrow> Inl e
     | Inr (raw, rest) \<Rightarrow>
         let headers = take (length raw - 4) raw in
         if \<not> valid_utf8 headers then Inl CdpProtocol
         else case split_crlf [] headers of
           [] \<Rightarrow> Inl CdpProtocol
         | first # lines \<Rightarrow>
             if first \<notin> {''HTTP/1.1 200 OK'', ''HTTP/1.0 200 OK''} then Inl CdpProtocol
             else case header_length None lines of
               Inl e \<Rightarrow> Inl e
             | Inr None \<Rightarrow> Inl CdpProtocol
             | Inr (Some n) \<Rightarrow>
                 if max_http_bytes - (length headers + 4) < n then Inl CdpProtocol
                 else if length rest < n then Inl CdpProtocol
                 else Inr (take n rest))"

definition find_target :: "cdp_config \<Rightarrow> json \<Rightarrow> cdp_error + string" where
  "find_target config targets = (case as_array targets of
       None \<Rightarrow> Inl CdpProtocol
     | Some ts \<Rightarrow> (case filter (\<lambda>t. get_str t ''id'' = Some (cf_target_id config)) ts of
         [] \<Rightarrow> Inl CdpTargetNotFound
       | t # others \<Rightarrow>
           if others \<noteq> [] \<or> get_str t ''type'' \<notin> {Some ''page'', Some ''webview''} then Inl CdpProtocol
           else case get_str t ''webSocketDebuggerUrl'' of
             None \<Rightarrow> Inl CdpProtocol
           | Some url \<Rightarrow> validate_websocket_url config url))"

text \<open>\<open>stream\<close> is what the browser sends; connecting and writing the request are left out.\<close>

definition discover_websocket_url :: "(string \<Rightarrow> json option) \<Rightarrow> cdp_config \<Rightarrow> string \<Rightarrow> cdp_error + string"
where
  "discover_websocket_url parse config stream = (case http_body stream of
       Inl e \<Rightarrow> Inl e
     | Inr body \<Rightarrow> (case parse body of None \<Rightarrow> Inl CdpProtocol | Some targets \<Rightarrow> find_target config targets))"

section \<open>Processes on Linux\<close>

definition hex_upper :: "nat \<Rightarrow> char" where
  "hex_upper d = (if d < 10 then char_of (48 + d) else char_of (55 + d))"

definition port_hex :: "u16 \<Rightarrow> string" where
  "port_hex port = map (\<lambda>i. hex_upper (unat port div 16 ^ i mod 16)) [3, 2, 1, 0]"

text \<open>The inodes of the sockets that listen on the port; a set as the list of insertions.\<close>

fun listening_inodes :: "string \<Rightarrow> string list \<Rightarrow> nat list \<Rightarrow> cdp_error + nat list" where
  "listening_inodes expected [] inodes = Inr inodes"
| "listening_inodes expected (line # lines) inodes =
     (let fields = split_whitespace line in
      if length fields < 10 then Inl CdpProtocol
      else if fields ! 1 = expected \<and> fields ! 3 = ''0A''
      then (case parse_unsigned 18446744073709551616 (fields ! 9) of
          None \<Rightarrow> Inl CdpProtocol
        | Some n \<Rightarrow> if 0 < n then listening_inodes expected lines (List.insert n inodes) else Inl CdpProtocol)
      else listening_inodes expected lines inodes)"

text \<open>An entry of \<open>/proc\<close>: its name, and the links of its descriptors.\<close>

type_synonym proc_entry = "string option \<times> string option list option"

definition owner_of :: "string \<Rightarrow> proc_entry \<Rightarrow> nat option" where
  "owner_of socket entry = (case Option.bind (fst entry) (parse_unsigned 4294967296) of
       None \<Rightarrow> None
     | Some pid \<Rightarrow> (case snd entry of
         None \<Rightarrow> None
       | Some links \<Rightarrow> if Some socket \<in> set links then Some pid else None))"

fun socket_owners :: "string \<Rightarrow> (unit + proc_entry) list \<Rightarrow> nat list \<Rightarrow> cdp_error + nat list" where
  "socket_owners socket [] owners = Inr owners"
| "socket_owners socket (Inl _ # entries) owners = Inl CdpStaleTarget"
| "socket_owners socket (Inr entry # entries) owners =
     socket_owners socket entries (case owner_of socket entry of
       None \<Rightarrow> owners | Some pid \<Rightarrow> List.insert pid owners)"

definition endpoint_owner_process_ids ::
  "u16 \<Rightarrow> string option \<Rightarrow> (unit + proc_entry) list option \<Rightarrow> cdp_error + nat list" where
  "endpoint_owner_process_ids port table entries = (case table of
       None \<Rightarrow> Inl CdpStaleTarget
     | Some text \<Rightarrow>
         (case listening_inodes (''0100007F:'' @ port_hex port) (drop 1 (text_lines [] text)) [] of
            Inl e \<Rightarrow> Inl e
          | Inr [inode] \<Rightarrow> (case entries of
              None \<Rightarrow> Inl CdpStaleTarget
            | Some es \<Rightarrow> socket_owners (''socket:['' @ show_nat inode @ '']'') es [])
          | Inr _ \<Rightarrow> Inr []))"

text \<open>The part behind the last closing parenthesis and blank.\<close>

fun after_paren :: "string \<Rightarrow> string option" where
  "after_paren (a # b # s) = (case after_paren (b # s) of
       Some rest \<Rightarrow> Some rest
     | None \<Rightarrow> if a = CHR '')'' \<and> b = CHR '' '' then Some s else None)"
| "after_paren _ = None"

definition start_ticks :: "string \<Rightarrow> string option" where
  "start_ticks stat = Option.bind (after_paren stat) (\<lambda>fields.
     Option.bind (nth_opt (split_whitespace fields) 19) (\<lambda>v.
       if list_all is_ascii_digit v then Some v else None))"

definition live_process_generation :: "hashing \<Rightarrow> string option \<Rightarrow> string option \<Rightarrow> cdp_error + string" where
  "live_process_generation H boot stat = (case boot of
       None \<Rightarrow> Inl CdpStaleTarget
     | Some text \<Rightarrow>
         let boot_id = trim text in
         if length boot_id \<noteq> 36 \<or> \<not> list_all (\<lambda>c. is_ascii_hexdigit c \<or> c = CHR ''-'') boot_id
         then Inl CdpStaleTarget
         else case Option.bind stat start_ticks of
           None \<Rightarrow> Inl CdpStaleTarget
         | Some ticks \<Rightarrow> Inr (''linux-'' @ semantic_fingerprint H (JArr [JStr boot_id, JStr ticks])))"

section \<open>The web socket\<close>

datatype message = TextMessage string | PingMessage | PongMessage | OtherMessage

record 's socket_ops =
  sk_set_read_timeout :: "int \<Rightarrow> 's \<Rightarrow> bool \<times> 's"
  sk_set_write_timeout :: "int \<Rightarrow> 's \<Rightarrow> bool \<times> 's"
  sk_send :: "string \<Rightarrow> 's \<Rightarrow> bool \<times> 's"
  sk_read :: "'s \<Rightarrow> message option \<times> 's"

record 's websocket =
  ws_next_id :: u64
  ws_socket :: 's

record 's web_channel =
  wc_ops :: "'s socket_ops"
  wc_json_text :: "json \<Rightarrow> string"
  wc_parse :: "string \<Rightarrow> json option"
  wc_source :: "page_function \<Rightarrow> string"

definition on_socket :: "('s \<Rightarrow> 'a \<times> 's) \<Rightarrow> ('s websocket host, 'a) state" where
  "on_socket f = State (\<lambda>h. let (a, s) = f (ws_socket (h_exec h)) in
     (a, h\<lparr>h_exec := (h_exec h)\<lparr>ws_socket := s\<rparr>\<rparr>))"

text \<open>Milliseconds; \<open>False\<close> is an error.\<close>

definition set_stream_deadline :: "'s web_channel \<Rightarrow> i64 \<Rightarrow> ('s websocket host, bool) state" where
  "set_stream_deadline W deadline = do {
     now \<leftarrow> now_ms;
     let remaining = sat_sub_i64 deadline now;
     if remaining \<le> 0 then ret False
     else do {
       let timeout = min remaining 2000;
       a \<leftarrow> on_socket (sk_set_read_timeout (wc_ops W) timeout);
       if \<not> a then ret False else on_socket (sk_set_write_timeout (wc_ops W) timeout)
     }
   }"

definition command_json :: "(page_function \<Rightarrow> string) \<Rightarrow> u64 \<Rightarrow> command \<Rightarrow> json" where
  "command_json source n cmd = JObj [(''id'', jword n), (''method'', JStr (cm_method cmd)),
     (''params'', case (cm_function cmd, cm_parameters cmd) of
        (Some f, JObj es) \<Rightarrow> JObj (obj_insert ''functionDeclaration'' (JStr (source f)) es)
      | _ \<Rightarrow> cm_parameters cmd)]"

text \<open>One turn of the read loop per message; \<open>received\<close> counts the bytes of the texts.\<close>

fun read_answer :: "'s web_channel \<Rightarrow> i64 \<Rightarrow> u64 \<Rightarrow> nat \<Rightarrow> nat
    \<Rightarrow> ('s websocket host, channel_error + json) state" where
  "read_answer W deadline n received 0 = ret (Inl AfterSend)"
| "read_answer W deadline n received (Suc turns) = do {
     in_time \<leftarrow> set_stream_deadline W deadline;
     if \<not> in_time then ret (Inl AfterSend)
     else do {
       m \<leftarrow> on_socket (sk_read (wc_ops W));
       case m of
         None \<Rightarrow> ret (Inl AfterSend)
       | Some PingMessage \<Rightarrow> read_answer W deadline n received turns
       | Some PongMessage \<Rightarrow> read_answer W deadline n received turns
       | Some OtherMessage \<Rightarrow> ret (Inl AfterSend)
       | Some (TextMessage text) \<Rightarrow>
           if max_cdp_message_bytes < received + length text then ret (Inl AfterSend)
           else (case wc_parse W text of
               None \<Rightarrow> ret (Inl AfterSend)
             | Some response \<Rightarrow> (case cdp_command_result response (unat n) of
                 Inl e \<Rightarrow> ret (Inl e)
               | Inr (Some v) \<Rightarrow> ret (Inr v)
               | Inr None \<Rightarrow> read_answer W deadline n (received + length text) turns))
     }
   }"

definition web_command :: "'s web_channel \<Rightarrow> command \<Rightarrow> i64 \<Rightarrow> ('s websocket host, channel_error + json) state" where
  "web_command W cmd deadline = do {
     last_id \<leftarrow> get_exec ws_next_id;
     if last_id = - 1 then ret (Inl BeforeSend)
     else do {
       update_exec (ws_next_id_update (\<lambda>_. last_id + 1));
       in_time \<leftarrow> set_stream_deadline W deadline;
       let request = wc_json_text W (command_json (wc_source W) (last_id + 1) cmd);
       if \<not> in_time \<or> max_cdp_message_bytes < length request then ret (Inl BeforeSend)
       else do {
         ok \<leftarrow> on_socket (sk_send (wc_ops W) request);
         if \<not> ok then ret (Inl AfterSend)
         else read_answer W deadline (last_id + 1) 0 max_cdp_messages_per_command
       }
     }
   }"

section \<open>Facts\<close>

lemma find_target_expected:
  "find_target config targets = Inr url \<Longrightarrow> validate_websocket_url config url = Inr url"
  by (auto simp: find_target_def validate_websocket_url_def Let_def split: option.splits list.splits if_splits)

lemma discover_expected:
  "discover_websocket_url parse config stream = Inr url \<Longrightarrow> validate_websocket_url config url = Inr url"
  by (auto simp: discover_websocket_url_def find_target_expected split: sum.splits option.splits)

lemma read_headers_ok:
  "read_headers headers stream = Inr (raw, rest) \<Longrightarrow> length headers \<le> max_http_bytes \<Longrightarrow>
    headers @ stream = raw @ rest \<and> ends_with raw crlf2 \<and> length raw \<le> max_http_bytes"
proof (induction headers stream rule: read_headers.induct)
  case (1 headers stream)
  show ?case
  proof (cases "ends_with headers crlf2 \<or> max_http_bytes \<le> length headers \<or> stream = []")
    case True
    then show ?thesis using "1.prems"
      by (subst (asm) read_headers.simps) (auto split: if_splits)
  next
    case False
    then obtain b bs where "stream = b # bs" by (cases stream) auto
    then show ?thesis using 1 False
      by (subst (asm) (2) read_headers.simps) auto
  qed
qed

text \<open>What is read of an answer stays within the limit on its size.\<close>

lemma http_body_bounded:
  assumes "http_body stream = Inr body"
  obtains raw where "prefix (raw @ body) stream" "length raw + length body \<le> max_http_bytes"
proof -
  obtain raw rest where r: "read_headers [] stream = Inr (raw, rest)"
    using assms by (auto simp: http_body_def split: sum.splits)
  have e: "stream = raw @ rest" "ends_with raw crlf2" "length raw \<le> max_http_bytes"
    using read_headers_ok [OF r] by auto
  then have "4 \<le> length raw" by (simp add: ends_with_def crlf2_def)
  moreover obtain n where "body = take n rest" "n \<le> max_http_bytes - (length raw - 4 + 4)"
    using assms r by (auto simp: http_body_def Let_def split: list.splits if_splits sum.splits option.splits)
  ultimately show ?thesis using e that [of raw] by (auto simp: take_is_prefix)
qed

section \<open>The generation of a process\<close>

lemma hex_identifier:
  assumes "list_all is_lower_hexdigit h"
  shows "list_all (\<lambda>c. is_ascii_alphanumeric c \<or> c = CHR ''-'' \<or> c = CHR ''_'') h"
  using assms by (auto simp: list_all_iff byte_defs)

lemma generation_is_identifier:
  assumes hex: "\<And>s. length (sha256_hex H s) = 64 \<and> list_all is_lower_hexdigit (sha256_hex H s)"
    and "live_process_generation H boot stat = Inr g"
  shows "valid_cdp_identifier g 256"
proof -
  obtain v where g: "g = ''linux-'' @ semantic_fingerprint H v"
    using assms(2) by (auto simp: live_process_generation_def Let_def split: option.splits if_splits)
  show ?thesis
    using hex hex_identifier
    by (auto simp: g valid_cdp_identifier_def semantic_fingerprint_def hash_serializable_def byte_defs)
qed

section \<open>The web socket's answers\<close>

lemma command_result_error: "cdp_command_result response n = Inl e \<Longrightarrow> e = AfterSend"
  by (auto simp: cdp_command_result_def or_else_def split: option.splits if_splits)

definition answers_command :: "'s web_channel \<Rightarrow> u64 \<Rightarrow> channel_error + json \<Rightarrow> bool" where
  "answers_command W n r \<longleftrightarrow> (case r of
       Inl e \<Rightarrow> e = AfterSend
     | Inr v \<Rightarrow> \<exists>text response. wc_parse W text = Some response
         \<and> get_u64 response ''id'' = Some (unat n) \<and> jget response ''error'' = None
         \<and> jget response ''result'' = Some v)"

lemma read_answer_sound: "hoare (\<lambda>_. True) (read_answer W deadline n received turns) (\<lambda>r _. answers_command W n r)"
proof (induction turns arbitrary: received)
  case 0
  then show ?case by (simp add: hoare_def answers_command_def)
next
  case (Suc turns)
  have fail: "hoare (\<lambda>_. True) (ret (Inl AfterSend)) (\<lambda>r _. answers_command W n r)"
    by (rule hoare_return) (simp add: answers_command_def)
  have parsed: "hoare (\<lambda>_. True) (case cdp_command_result response (unat n) of
        Inl e \<Rightarrow> ret (Inl e)
      | Inr (Some v) \<Rightarrow> ret (Inr v)
      | Inr None \<Rightarrow> read_answer W deadline n received' turns) (\<lambda>r _. answers_command W n r)"
    if "wc_parse W t = Some response" for t response received'
    using Suc [of received'] that
    by (auto intro!: fail hoare_return simp: answers_command_def cdp_command_result_Inr
        dest: command_result_error split: option.split sum.split) blast
  show ?case
    unfolding read_answer.simps
    by (rule hoare_bind [where R = "\<lambda>_ _. True"], simp add: hoare_def, rule hoare_if, rule fail,
        rule hoare_bind [where R = "\<lambda>_ _. True"], simp add: hoare_def)
      (auto intro!: fail parsed Suc split: option.split message.split)
qed

text \<open>\<open>BeforeSend\<close> means that nothing was written: whatever setting a timeout leaves true of the
  socket is still true.\<close>

lemma before_send_unsent:
  assumes read: "\<And>t s. I s \<Longrightarrow> I (snd (sk_set_read_timeout (wc_ops W) t s))"
    and "write": "\<And>t s. I s \<Longrightarrow> I (snd (sk_set_write_timeout (wc_ops W) t s))"
    and start: "I (ws_socket (h_exec h))"
    and run: "run_state (web_command W cmd deadline) h = (Inl BeforeSend, h')"
  shows "I (ws_socket (h_exec h'))"
proof -
  let ?J = "\<lambda>h. I (ws_socket (h_exec h))"
  have "keeps ?J (on_socket f)" if "\<And>s. I s \<Longrightarrow> I (snd (f s))" for f :: "'a \<Rightarrow> bool \<times> 'a"
    using that by (auto simp: keeps_def on_socket_def Let_def case_prod_beta)
  then have deadline: "keeps ?J (set_stream_deadline W deadline)"
    unfolding set_stream_deadline_def Let_def
    by (intro keeps_rules) (auto simp: keeps_def now_ms_def intro: read "write")
  let ?Q = "\<lambda>r h. r = Inl BeforeSend \<longrightarrow> ?J h"
  have answer: "hoare P (read_answer W deadline n received turns) ?Q" for P n received turns
    by (rule hoareI) (use hoareD [OF read_answer_sound] in \<open>fastforce simp: answers_command_def\<close>)
  have sent: "hoare P (on_socket f) (\<lambda>_ _. True)" for P and f :: "'a \<Rightarrow> bool \<times> 'a"
    by (simp add: hoare_def)
  have "hoare ?J (web_command W cmd deadline) ?Q"
    unfolding web_command_def Let_def
    by (rule hoare_bind_keeps, simp add: keeps_def get_exec_def, rule hoare_if, rule hoare_return, simp,
        rule hoare_bind_keeps, simp add: keeps_def update_exec_def, rule hoare_bind_keeps [OF deadline],
        rule hoare_if, rule hoare_return, simp, rule hoare_bind [OF sent], rule hoare_if,
        rule hoare_return, simp, rule answer)
  from hoareD [OF this start run] show ?thesis by simp
qed

lemma web_command_answers:
  assumes "run_state (web_command W cmd deadline) h = (Inr v, h')"
  shows "answers_command W (ws_next_id (h_exec h) + 1) (Inr v)"
  using assms
  by (auto simp: web_command_def get_exec_def update_exec_def Let_def split: if_splits prod.splits
      dest!: hoareD [OF read_answer_sound TrueI])

end
