(* ===== verification/BrowserProperties.thy ===== *)
theory BrowserProperties
  imports CdpProbe CdpSample CdpChannel
begin

text \<open>Properties of the browser executor and its channel (cdp.rs).\<close>

section \<open>Dispatch\<close>

text \<open>
  C4: A dispatch tells the truth about the effect functions it sent.  Success: exactly one was
  sent and the page said that it acted.  An error that does not say \<open>Unknown\<close>: none was sent, or
  the channel did not send it, or the page said that it did not act.  Never are two sent.
\<close>

theorem browser_dispatch_is_honest:
  "log_after (cdp_dispatch D action target policy deadline) h
    (honest (fst (run_state (cdp_dispatch D action target policy deadline) h)))"
  by (rule log_after_honest [OF honest_cdp_dispatch])

text \<open>
  C10: Before the first effect function of a dispatch, the browser has described the stored node
  of the target as exactly one element, visible and enabled, with the stored fingerprint.
\<close>

theorem effect_follows_live_check:
  assumes "cx_latest (h_exec h) = Some stored" and "st_nodes stored (ne_id element) = Some node"
  shows "log_after (cdp_dispatch D action (ElementTarget element) policy deadline) h
    (checked_first D (identity_of node stored))"
  by (rule checked_cdp_dispatch [OF assms])

lemma button_node_map: "node_map [button_cdp_node] zero_hash = Some button_cdp_node"
  by (simp add: node_map_def button_cdp_node_def button_element_def)

lemma button_stored_simps [simp]:
  "st_observation button_stored = button_observation"
  "cx_latest (h_exec (cdp_host n vs g st l)) = st" "cx_log (h_exec (cdp_host n vs g st l)) = l"
  "st_nodes button_stored zero_hash = Some button_cdp_node" "ne_id button_native = zero_hash"
  by (simp_all add: cdp_host_def button_stored_def button_node_map)
    (simp add: button_native_def native_element_of_def button_cdp_node_def button_element_def)

lemma effect_follows_live_check_witness:
  "checked_first sample_cdp (identity_of button_cdp_node button_stored)
     (zip [get_frame_tree, resolve_node 7 3, probe_command ''o'' False, get_layout_metrics,
        get_frame_tree, get_partial_ax_tree 7, invoke_command ''o''] (map Inr invoke_answers))"
  using effect_follows_live_check [of "cdp_host 0 invoke_answers 1 (Some button_stored) []" button_stored
      button_native button_cdp_node sample_cdp Invoke NoVerification 1000] sample_invokes
  by (auto simp: log_after_def)

section \<open>State and targets\<close>

text \<open>
  C35: Every operation keeps the invariant of the stored observation: it was valid when it was
  taken, and each of its elements has a node that holds this element.
\<close>

theorem stored_observation_stays_valid:
  "keeps (cdp_invariant D) (semantic_observation_of D deadline)
   \<and> keeps (cdp_invariant D) (cdp_dispatch D action resolved policy deadline)
   \<and> keeps (cdp_invariant D) (cdp_observe D target deadline)
   \<and> keeps (cdp_invariant D) (cdp_resolve D target deadline)
   \<and> keeps (cdp_invariant D) (cdp_capabilities D)"
  by (simp add: keeps_semantic_observation keeps_cdp_invariant latest_cdp_dispatch latest_reads)

text \<open>
  Round trip: an element of an observation that was just taken can be made a target, and the
  executor accepts that target for the engine while the observation is valid.
\<close>

theorem observed_element_is_target:
  assumes "run_state (semantic_observation_of D deadline) h = (Some (Inr obs), h')"
    and "target_of (cd_hashing D) obs tag = Inr target"
    and "validate_observation (cd_hashing D) obs now = Inr ()"
  shows "run_state (engine_target D target now) h' = (Inr (Element target), h')"
  by (rule observed_target [OF assms])

definition button_ref :: semantic_target_ref where
  "button_ref = \<lparr>t_observation_id = zero_hash, t_generation = 1, t_provenance_hash = zero_hash,
     t_element_id = zero_hash, t_fingerprint_hash = zero_hash\<rparr>"

lemma button_ref_of: "target_of sample_hashing button_observation ''e0'' = Inr button_ref"
  by (simp add: target_of_def the_element_def button_observation_def new_observation_def button_element_def
      button_ref_def provenance_hash_def)
    (simp add: sample_hashing_def hash_serializable_def)

lemma observed_element_is_target_witness:
  "\<exists>h. run_state (engine_target sample_cdp button_ref 5) h = (Inr (Element button_ref), h)"
proof -
  obtain n l where "run_state (semantic_observation_of sample_cdp 1000) (cdp_host 0 observe_answers 0 None [])
      = (Some (Inr button_observation), cdp_host n [] 1 (Some button_stored) l)"
    using sample_observes by blast
  from observed_element_is_target [OF this] show ?thesis
    using button_ref_of button_valid by auto
qed






section \<open>The accessibility tree\<close>

text \<open>
  C38: Reading the accessibility tree ends if the browser's \<open>parentId\<close> links form no cycle.
\<close>

theorem acyclic_tree_is_read:
  assumes "acyclic (parent_links (ax_nodes tree))"
  shows "parse_ax_tree H tree observation_id document_id roots \<noteq> None"
  by (rule parse_ax_tree_returns [OF assms])

lemma acyclic_tree_is_read_witness:
  "parse_ax_tree sample_hashing tree_answer zero_hash zero_hash [7] \<noteq> None"
proof (rule acyclic_tree_is_read)
  have "ax_nodes tree_answer = [button_node]" by (simp add: ax_nodes_def tree_answer_def)
  moreover have "get_str button_node ''parentId'' = None" by (simp add: button_node_def get_str_def)
  ultimately have "parent_links (ax_nodes tree_answer) = {}" by (simp add: parent_links_def)
  then show "acyclic (parent_links (ax_nodes tree_answer))" by (simp add: acyclic_def)
qed




text \<open>
  C37: The elements read from a tree have distinct tags and known parents; each stands for one
  node of the root frame that the browser sent, under the fingerprint of that node's
  semantics, and a protected node's name is redacted.
\<close>

theorem read_elements_are_well_formed:
  assumes "parse_ax_tree H tree observation_id document_id roots = Some (Inr (elements, nodes))"
  shows "distinct (map se_tag elements)
    \<and> (\<forall>e \<in> set elements. \<forall>p. se_parent_id e = Some p \<longrightarrow> p \<in> se_element_id ` set elements)
    \<and> (\<forall>k node. nodes k = Some node \<longrightarrow> cn_element node \<in> set elements
        \<and> stands_for H (ax_nodes tree) document_id roots node
        \<and> (cn_protected node \<longrightarrow> se_name (cn_element node) = Some redacted_text))"
proof -
  obtain built where b: "elements = map cn_element built" "nodes = node_map built"
    "list_all (stands_for H (ax_nodes tree) document_id roots) built" "distinct (map se_tag elements)"
    "\<And>e p. e \<in> set elements \<Longrightarrow> se_parent_id e = Some p \<Longrightarrow> p \<in> se_element_id ` set elements"
    using parse_ax_tree_ok [OF assms] by metis
  have "node \<in> set built" if "nodes k = Some node" for k node
    using node_map_Some [of built k node] that b(2) by simp
  with b show ?thesis by (auto simp: list_all_iff dest: stands_for_protected)
qed

lemma read_elements_are_well_formed_witness:
  "distinct (map se_tag [button_element])
    \<and> stands_for sample_hashing (ax_nodes tree_answer) zero_hash [7] button_cdp_node"
  using read_elements_are_well_formed [OF button_tree] button_node_map by auto

text \<open>
  The bound on a name is in characters where it is read, and in bytes where the observation
  is validated: a name of 600 two-byte characters is kept whole, and no observation that holds
  an element of that name is ever valid.
\<close>

definition wide_name :: string where
  "wide_name = utf8_encode (replicate 600 233)"

theorem wide_name_spoils_observation:
  assumes "e \<in> set (so_elements s)" and "se_name e = Some wide_name"
  shows "redacted_name wide_name = Some wide_name \<and> validate_observation H s now \<noteq> Inr ()"
proof -
  have "\<not> valid_element e" using assms(2) long_name(2) by (simp add: valid_element_def wide_name_def)
  then have "\<not> well_formed_elements (so_elements s)"
    using assms(1) by (auto simp: well_formed_elements_def list_all_iff)
  then show ?thesis using validate_observation_ok long_name(1) by (auto simp: wide_name_def)
qed

lemma wide_name_spoils_observation_witness:
  "validate_observation sample_hashing
    (button_observation\<lparr>so_elements := [button_element\<lparr>se_name := Some wide_name\<rparr>]\<rparr>) 5 \<noteq> Inr ()"
  using wide_name_spoils_observation [of "button_element\<lparr>se_name := Some wide_name\<rparr>"
      "button_observation\<lparr>so_elements := [button_element\<lparr>se_name := Some wide_name\<rparr>]\<rparr>" sample_hashing 5]
  by simp

section \<open>Capabilities\<close>

text \<open>
  C23: The engine finds in the browser's capabilities the three browser actions and no other, only
  while an observation is stored, and it never authorizes one of them in the background of a
  shared desktop.
\<close>

theorem browser_capabilities_are_guarded:
  assumes "run_state (cdp_capabilities D) h = (Inr caps, h')"
    and "strict_action_capability caps action = Some c"
  shows "action_name action \<in> set browser_actions \<and> ac_action c = action_name action
    \<and> cx_latest (h_exec h) \<noteq> None
    \<and> \<not> background_capability_is_authorized c SharedDesktop
    \<and> background_capability_is_authorized c HostIsolated"
proof -
  have "c \<in> set (c_action_capabilities caps)" using assms(2) by (simp add: strict_action_capability_ok)
  then have caps: "c_supported_actions caps = browser_actions"
    "c_action_capabilities caps = map browser_capability browser_actions" "cx_latest (h_exec h) \<noteq> None"
    using run_cdp_capabilities [OF assms(1)] by auto
  from assms(2) have "action_name action \<in> set browser_actions" "c = browser_capability (action_name action)"
    by (simp_all add: browser_capability_accepted [OF caps(1,2)])
  then show ?thesis
    using caps(3) by (simp add: browser_capability_def background_capability_is_authorized_def)
qed

lemma browser_capabilities_are_guarded_witness:
  "\<exists>caps h. run_state (cdp_capabilities sample_cdp) (cdp_host 0 [] 1 (Some button_stored) []) = (Inr caps, h)
    \<and> strict_action_capability caps Invoke = Some (browser_capability ''invoke'')
    \<and> \<not> background_capability_is_authorized (browser_capability ''invoke'') SharedDesktop"
proof -
  have asked: "run_state (ask (cd_owners sample_cdp)) (cdp_host n [] 1 st [])
      = (Inr [42], cdp_host (Suc n) [] 1 st [])" for n st
    by (simp add: ask_def cdp_host_def sample_cdp_def)
  have owner: "run_state (verify_endpoint_owner sample_cdp) (cdp_host n [] 1 st [])
      = (Inr (), cdp_host (Suc (Suc (Suc n))) [] 1 st [])" for n st
    using asked by (simp add: verify_endpoint_owner_def endpoint_is_exclusively_owned_by_def)
  have channel: "run_state (get_exec cx_channel_poisoned) (cdp_host n vs g st l) = (False, cdp_host n vs g st l)"
    "run_state (get_exec cx_channel) (cdp_host n vs g st l) = (vs, cdp_host n vs g st l)"
    "ch_endpoint (cd_channel sample_cdp) vs = endpoint sample_config"
    "ch_target_id (cd_channel sample_cdp) vs = ''t''" for n vs g st l
    by (simp_all add: get_exec_def cdp_host_def sample_cdp_def scripted_def)
  have "\<exists>caps h. run_state (cdp_capabilities sample_cdp) (cdp_host 0 [] 1 (Some button_stored) []) = (Inr caps, h)
      \<and> c_supported_actions caps = browser_actions
      \<and> c_action_capabilities caps = map browser_capability browser_actions"
    using button_valid
    by (simp add: cdp_capabilities_def owner channel Let_def)
  then obtain caps h where c: "run_state (cdp_capabilities sample_cdp) (cdp_host 0 [] 1 (Some button_stored) []) = (Inr caps, h)"
      "strict_action_capability caps Invoke = Some (browser_capability ''invoke'')"
    using browser_capability_accepted by (auto simp: browser_actions_def)
  with browser_capabilities_are_guarded [OF c] show ?thesis by blast
qed

section \<open>The channel\<close>

text \<open>
  The web-socket address taken from the browser's list is the one that the configuration
  determines: the loopback address, the configured port and the configured page.
\<close>

theorem discovered_url_is_expected:
  assumes "discover_websocket_url parse config stream = Inr url"
  shows "url = ''ws://127.0.0.1:'' @ show_nat (unat (cf_port config)) @ ''/devtools/page/'' @ cf_target_id config"
  using discover_expected [OF assms] by (simp add: validate_websocket_url_def Let_def split: if_splits)

text \<open>An answer of the browser with an empty body, which stands for the list of the page.\<close>

definition page_list :: "string \<Rightarrow> json option" where
  "page_list _ = Some (JArr [JObj [(''id'', JStr ''t''), (''type'', JStr ''page''),
     (''webSocketDebuggerUrl'', JStr (''ws://127.0.0.1:'' @ show_nat (unat (cf_port sample_config)) @ ''/devtools/page/t''))]])"

definition page_stream :: string where
  "page_stream = ''HTTP/1.1 200 OK'' @ [cr, newline] @ ''Content-Length: 0'' @ crlf2"

lemma page_discovered:
  "discover_websocket_url page_list sample_config page_stream
    = Inr (''ws://127.0.0.1:'' @ show_nat (unat (cf_port sample_config)) @ ''/devtools/page/t'')"
proof -
  define head where "head = ''HTTP/1.1 200 OK'' @ [cr, newline] @ ''Content-Length: 0''"
  have read: "read_headers [] page_stream = Inr (head @ crlf2, [])"
    by (simp add: head_def page_stream_def read_headers.simps ends_with_def crlf2_def cr_def newline_def max_http_bytes_def)
  have "length head = 34" by (simp add: head_def)
  moreover have "valid_utf8 head" by (rule valid_utf8_ascii) (simp add: head_def cr_def newline_def)
  moreover have "split_crlf [] head = [''HTTP/1.1 200 OK'', ''Content-Length: 0'']"
    by (simp add: head_def cr_def newline_def)
  moreover have "header_length None [''Content-Length: 0''] = Inr (Some 0)"
  proof -
    have "trim '' 0'' = ''0''" by (simp add: trim_def trim_chars_def is_whitespace_def utf8_encode_def utf8_char_def char_of_eq_iff)
    then show ?thesis
      by (simp add: eq_ignore_ascii_case_def ascii_lower_def parse_unsigned_def usize_max_def char_of_eq_iff
          is_ascii_digit_def read_digit_def)
  qed
  ultimately have "http_body page_stream = Inr []"
    by (simp add: http_body_def read crlf2_def max_http_bytes_def)
  then show ?thesis
    by (simp add: discover_websocket_url_def page_list_def find_target_def get_str_def validate_websocket_url_def)
qed

text \<open>
  \<open>BeforeSend\<close> means that nothing was written to the socket: what the setting of timeouts
  leaves true of the socket is still true after the command.
\<close>

theorem before_send_wrote_nothing:
  assumes "\<And>t s. I s \<Longrightarrow> I (snd (sk_set_read_timeout (wc_ops W) t s))"
    and "\<And>t s. I s \<Longrightarrow> I (snd (sk_set_write_timeout (wc_ops W) t s))"
    and "I (ws_socket (h_exec h))"
    and "run_state (web_command W cmd deadline) h = (Inl BeforeSend, h')"
  shows "I (ws_socket (h_exec h'))"
  by (rule before_send_unsent [OF assms])

text \<open>A socket that is the list of messages to come and counts what was sent.\<close>

definition sample_socket :: "(nat \<times> message list) socket_ops" where
  "sample_socket = \<lparr>sk_set_read_timeout = \<lambda>_ s. (True, s), sk_set_write_timeout = \<lambda>_ s. (True, s),
     sk_send = \<lambda>_ (n, ms). (True, (Suc n, ms)),
     sk_read = \<lambda>(n, ms). (case ms of [] \<Rightarrow> (None, (n, [])) | m # ms \<Rightarrow> (Some m, (n, ms)))\<rparr>"

definition sample_web :: "(nat \<times> message list) web_channel" where
  "sample_web = \<lparr>wc_ops = sample_socket, wc_json_text = \<lambda>_. [],
     wc_parse = \<lambda>_. Some (JObj [(''id'', JInt 1), (''result'', JNull)]), wc_source = \<lambda>_. []\<rparr>"

definition web_host :: "nat \<Rightarrow> u64 \<Rightarrow> nat \<times> message list \<Rightarrow> (nat \<times> message list) websocket host" where
  "web_host n i s = \<lparr>h_env = sample_env, h_tick = n, h_exec = \<lparr>ws_next_id = i, ws_socket = s\<rparr>\<rparr>"

lemma before_send_wrote_nothing_witness:
  "\<exists>h. run_state (web_command sample_web get_frame_tree 1) (web_host 0 0 (0, [])) = (Inl BeforeSend, h)
    \<and> fst (ws_socket (h_exec h)) = 0"
proof -
  obtain h where run: "run_state (web_command sample_web get_frame_tree 1) (web_host 0 0 (0, [])) = (Inl BeforeSend, h)"
    by (simp add: web_command_def get_exec_def update_exec_def set_stream_deadline_def now_ms_def web_host_def
        sample_env_def sat_sub_i64_def sat_i64_def i64_max_def i64_min_def Let_def)
  have "fst (ws_socket (h_exec h)) = 0"
    by (rule before_send_wrote_nothing [OF _ _ _ run, where I = "\<lambda>s. fst s = 0"])
      (simp_all add: sample_web_def sample_socket_def web_host_def)
  with run show ?thesis by blast
qed

text \<open>
  A command is answered with the result of a message that carries this command's own id and
  no error: an answer to an earlier command is never taken for it.
\<close>

theorem answer_has_own_id:
  assumes "run_state (web_command W cmd deadline) h = (Inr v, h')"
  shows "\<exists>text response. wc_parse W text = Some response
    \<and> get_u64 response ''id'' = Some (unat (ws_next_id (h_exec h) + 1))
    \<and> jget response ''error'' = None \<and> jget response ''result'' = Some v"
  using web_command_answers [OF assms] by (simp add: answers_command_def)

lemma answer_has_own_id_witness:
  "\<exists>h text response. run_state (web_command sample_web get_frame_tree 1000)
      (web_host 0 0 (0, [PingMessage, TextMessage ''x''])) = (Inr JNull, h)
    \<and> wc_parse sample_web text = Some response \<and> get_u64 response ''id'' = Some 1"
proof -
  have in_time: "run_state (set_stream_deadline sample_web 1000) (web_host n i s) = (True, web_host (Suc n) i s)" for n i s
    by (simp add: set_stream_deadline_def now_ms_def web_host_def sample_env_def sat_sub_i64_def sat_i64_def
        i64_max_def i64_min_def on_socket_def sample_web_def sample_socket_def Let_def)
  have read: "run_state (on_socket (sk_read (wc_ops sample_web))) (web_host n i (k, m # ms))
      = (Some m, web_host n i (k, ms))" for n i k m ms
    by (simp add: on_socket_def sample_web_def sample_socket_def web_host_def)
  have parsed: "wc_parse sample_web t = Some (JObj [(''id'', JInt 1), (''result'', JNull)])"
    "cdp_command_result (JObj [(''id'', JInt 1), (''result'', JNull)]) (Suc 0) = Inr (Some JNull)" for t
    by (simp_all add: sample_web_def cdp_command_result_def get_u64_def or_else_def)
  have "\<exists>h. run_state (read_answer sample_web 1000 1 0 (Suc (Suc k)))
      (web_host n 1 (1, [PingMessage, TextMessage ''x''])) = (Inr JNull, h)" for n k
    by (simp add: in_time read parsed max_cdp_message_bytes_def)
  moreover have "Suc (Suc 126) = max_cdp_messages_per_command" by (simp add: max_cdp_messages_per_command_def)
  ultimately have answer: "\<exists>h. run_state (read_answer sample_web 1000 1 0 max_cdp_messages_per_command)
      (web_host n 1 (1, [PingMessage, TextMessage ''x''])) = (Inr JNull, h)" for n by metis
  have next_id: "run_state (get_exec ws_next_id) (web_host n i s) = (i, web_host n i s)"
    "run_state (update_exec (ws_next_id_update (\<lambda>_. j))) (web_host n i s) = ((), web_host n j s)" for n i j s
    by (simp_all add: get_exec_def update_exec_def web_host_def)
  have sent: "run_state (on_socket (sk_send (wc_ops sample_web) r)) (web_host n i (k, ms)) = (True, web_host n i (Suc k, ms))"
    for n i k ms r by (simp add: on_socket_def sample_web_def sample_socket_def web_host_def)
  have json: "wc_json_text sample_web j = []" for j by (simp add: sample_web_def)
  obtain h where run: "run_state (web_command sample_web get_frame_tree 1000)
      (web_host 0 0 (0, [PingMessage, TextMessage ''x''])) = (Inr JNull, h)"
    using answer [of "Suc 0"] by (auto simp: web_command_def next_id in_time json sent Let_def)
  from answer_has_own_id [OF run] run show ?thesis by (auto simp: web_host_def)
qed

text \<open>
  The generation of a process on Linux is a valid identifier of a configuration: letters,
  digits and dashes, at most 256 - given that SHA-256 is written as 64 hexadecimal digits.
\<close>

theorem generation_is_valid_identifier:
  assumes "\<And>s. length (sha256_hex H s) = 64 \<and> list_all is_lower_hexdigit (sha256_hex H s)"
    and "live_process_generation H boot stat = Inr g"
  shows "valid_cdp_identifier g 256"
  by (rule generation_is_identifier [OF assms])

lemma generation_is_valid_identifier_witness:
  "\<exists>g. live_process_generation sample_hashing (Some ''aaaaaaaaaaaaaaaaaaaaaaaaaaaaaaaaaaaa'')
      (Some ''1 (x) 5 5 5 5 5 5 5 5 5 5 5 5 5 5 5 5 5 5 5 5 '') = Inr g
    \<and> valid_cdp_identifier g 256"
proof -
  have boot: "trim (''aaaaaaaaaaaaaaaaaaaaaaaaaaaaaaaaaaaa'') = ''aaaaaaaaaaaaaaaaaaaaaaaaaaaaaaaaaaaa''"
    by (simp add: trim_def trim_chars_def is_whitespace_def utf8_encode_def utf8_char_def char_of_eq_iff)
  have "start_ticks ''1 (x) 5 5 5 5 5 5 5 5 5 5 5 5 5 5 5 5 5 5 5 5 '' = Some ''5''"
    by (simp add: start_ticks_def split_whitespace_def is_whitespace_def nth_opt_def utf8_encode_def utf8_char_def
        char_of_eq_iff is_ascii_digit_def)
  then obtain g where g: "live_process_generation sample_hashing (Some ''aaaaaaaaaaaaaaaaaaaaaaaaaaaaaaaaaaaa'')
      (Some ''1 (x) 5 5 5 5 5 5 5 5 5 5 5 5 5 5 5 5 5 5 5 5 '') = Inr g"
    using boot by (simp add: live_process_generation_def is_ascii_hexdigit_def)
  from generation_is_valid_identifier [OF _ g] zero_hash_valid g show ?thesis by (simp add: sample_hashing_def)
qed

lemma discovered_url_is_expected_witness:
  "\<exists>url. discover_websocket_url page_list sample_config page_stream = Inr url
    \<and> url = ''ws://127.0.0.1:'' @ show_nat (unat (cf_port sample_config)) @ ''/devtools/page/'' @ cf_target_id sample_config"
  using discovered_url_is_expected [OF page_discovered] page_discovered by blast

end
