(* ===== verification/GlobalInput.thy ===== *)
theory GlobalInput
  imports Protocol
begin

text \<open>
  The switch for global input (lib.rs: \<open>global_input_env_restriction\<close>, \<open>persist_no_yolo\<close>,
  \<open>global_input_allowance\<close>).  The state is what stands at the path of the file \<open>no-yolo\<close> and
  whether its parent is a directory; the environment variables are a function, with the bytes
  of a value.  \<open>allowed\<close> is what decides whether input that cannot be aimed at one process may
  be sent.
\<close>

datatype dir_entry = Absent | RegularFile | OtherEntry

record restriction =
  rs_entry :: dir_entry
  rs_parent_is_dir :: bool

type_synonym env_vars = "string \<Rightarrow> string option"

definition env_value :: "env_vars \<Rightarrow> string \<Rightarrow> string option" where
  "env_value get_env k = (case get_env k of
       None \<Rightarrow> None | Some s \<Rightarrow> if valid_utf8 s then Some s else None)"

definition global_input_env_restriction :: "env_vars \<Rightarrow> bool option" where
  "global_input_env_restriction get_env =
     (if env_value get_env ''PRAEFECTUS_ALLOW_GLOBAL_INPUT'' = Some ''1'' then Some False
      else if env_value get_env ''PRAEFECTUS_ALLOW_GLOBAL_INPUT'' = Some ''0'' then Some True
      else if env_value get_env ''PRAEFECTUS_NO_YOLO'' = Some ''1'' then Some True
      else if env_value get_env ''PRAEFECTUS_NO_YOLO'' = Some ''0'' then Some False
      else None)"

section \<open>The file\<close>

definition host_io :: "('x host, protocol_error + unit) state" where
  "host_io = do {
     r \<leftarrow> next_io;
     ret (case r of IoOk \<Rightarrow> Inr () | IoFail _ \<Rightarrow> Inl (IoError OtherIo))
   }"

definition get_entry :: "(restriction host, dir_entry) state" where
  "get_entry = State (\<lambda>h. (rs_entry (h_exec h), h))"

definition put_entry :: "dir_entry \<Rightarrow> (restriction host, unit) state" where
  "put_entry e = State (\<lambda>h. ((), h\<lparr>h_exec := (h_exec h)\<lparr>rs_entry := e\<rparr>\<rparr>))"

definition parent_is_dir :: "(restriction host, bool) state" where
  "parent_is_dir = State (\<lambda>h. (rs_parent_is_dir (h_exec h), h))"

definition make_parent :: "(restriction host, unit) state" where
  "make_parent = State (\<lambda>h. ((), h\<lparr>h_exec := (h_exec h)\<lparr>rs_parent_is_dir := True\<rparr>\<rparr>))"

text \<open>\<open>symlink_metadata\<close> may fail, and then the file counts as absent.\<close>

definition restriction_file_is_present :: "(restriction host, bool) state" where
  "restriction_file_is_present = do {
     r \<leftarrow> host_io;
     e \<leftarrow> get_entry;
     ret (r = Inr () \<and> e = RegularFile)
   }"

text \<open>On Windows the path is locked first.\<close>

definition lock_path :: "platform \<Rightarrow> ('x host, protocol_error + unit) state" where
  "lock_path os = (if os = Windows then host_io else ret (Inr ()))"

definition persistent_no_yolo :: "platform \<Rightarrow> (restriction host, bool) state" where
  "persistent_no_yolo os = do {
     guard \<leftarrow> lock_path os;
     if guard \<noteq> Inr () then ret False else restriction_file_is_present
   }"

text \<open>\<open>ensure_directory\<close> is reduced to its outcome.\<close>

definition ensure_parent :: "(restriction host, protocol_error + unit) state" where
  "ensure_parent = do {
     r \<leftarrow> host_io;
     is_dir \<leftarrow> parent_is_dir;
     if r = Inr () \<and> is_dir then ret (Inr ())
     else try_bind host_io (\<lambda>_. do { make_parent; ret (Inr ()) })
   }"

definition persist_no_yolo_at :: "platform \<Rightarrow> bool \<Rightarrow> (restriction host, protocol_error + unit) state" where
  "persist_no_yolo_at os restricted =
     (if restricted then
        try_bind ensure_parent (\<lambda>_.
        try_bind (lock_path os) (\<lambda>_.
        try_bind host_io (\<lambda>_. do {
          e \<leftarrow> get_entry;
          try_bind
            (if e = Absent then do {
               put_entry RegularFile;
               try_bind host_io (\<lambda>_. host_io)
             }
             else do {
               present \<leftarrow> restriction_file_is_present;
               if \<not> present then ret (Inl (IoError PermissionDenied))
               else try_bind host_io (\<lambda>_. host_io)
             }) (\<lambda>_. host_io)
        })))
      else do {
        present \<leftarrow> restriction_file_is_present;
        if present then
          try_bind (lock_path os) (\<lambda>_.
          try_bind host_io (\<lambda>_. do { put_entry Absent; host_io }))
        else ret (Inr ())
      })"

section \<open>The allowance\<close>

record global_input_allowance =
  al_allowed :: bool
  al_no_yolo :: bool
  al_persisted :: bool
  al_environment :: bool

definition global_input_allowed_with_env :: "platform \<Rightarrow> env_vars \<Rightarrow> (restriction host, bool) state" where
  "global_input_allowed_with_env os get_env = (case global_input_env_restriction get_env of
       Some restricted \<Rightarrow> ret (\<not> restricted)
     | None \<Rightarrow> do { persisted \<leftarrow> persistent_no_yolo os; ret (\<not> persisted) })"

definition global_input_allowance_with_env ::
  "platform \<Rightarrow> env_vars \<Rightarrow> (restriction host, global_input_allowance) state" where
  "global_input_allowance_with_env os get_env = do {
     persisted \<leftarrow> persistent_no_yolo os;
     allowed \<leftarrow> global_input_allowed_with_env os get_env;
     ret \<lparr>al_allowed = allowed, al_no_yolo = (\<not> allowed), al_persisted = persisted,
          al_environment = (global_input_env_restriction get_env = Some True)\<rparr>
   }"

definition persist_no_yolo ::
  "platform \<Rightarrow> env_vars \<Rightarrow> bool \<Rightarrow> (restriction host, protocol_error + global_input_allowance) state" where
  "persist_no_yolo os get_env restricted = try_bind (persist_no_yolo_at os restricted) (\<lambda>_. do {
     a \<leftarrow> global_input_allowance_with_env os get_env;
     ret (Inr a)
   })"

section \<open>Facts\<close>

definition entry_is :: "dir_entry \<Rightarrow> restriction host \<Rightarrow> bool" where
  "entry_is e h \<longleftrightarrow> rs_entry (h_exec h) = e"

lemma keeps_entry_io [keeps_rules]:
  "keeps (entry_is e) host_io" "keeps (entry_is e) get_entry" "keeps (entry_is e) parent_is_dir"
  "keeps (entry_is e) make_parent" "keeps (entry_is e) (lock_path os)"
  by (simp_all add: keeps_def entry_is_def host_io_def next_io_def get_entry_def parent_is_dir_def
      make_parent_def lock_path_def)

lemma keeps_entry_reads [keeps_rules]:
  "keeps (entry_is e) restriction_file_is_present" "keeps (entry_is e) (persistent_no_yolo os)"
  "keeps (entry_is e) ensure_parent"
  unfolding restriction_file_is_present_def persistent_no_yolo_def ensure_parent_def
  by (intro keeps_rules)+

lemma keeps_allowance [keeps_rules]:
  "keeps (entry_is e) (global_input_allowance_with_env os get_env)"
  unfolding global_input_allowance_with_env_def global_input_allowed_with_env_def
  by (intro keeps_rules)

lemma hoare_get_entry: "hoare P get_entry (\<lambda>e h. P h \<and> entry_is e h)"
  by (simp add: hoare_def get_entry_def entry_is_def)

lemma hoare_put_entry: "hoare P (put_entry e) (\<lambda>_. entry_is e)"
  by (simp add: hoare_def put_entry_def entry_is_def)

text \<open>Whatever stood at the path: if the restriction was persisted, the file is there.\<close>

lemma persist_restricted:
  "hoare (\<lambda>_. True) (persist_no_yolo_at os True) (\<lambda>r h. r = Inr () \<longrightarrow> entry_is RegularFile h)"
proof -
  let ?Q = "\<lambda>r h. r = Inr () \<longrightarrow> entry_is RegularFile h"
  have kept: "hoare (entry_is e) m (\<lambda>r h. r = Inr () \<longrightarrow> entry_is e h)"
    if "keeps (entry_is e) m" for m :: "(restriction host, protocol_error + unit) state" and e
    by (rule hoare_post [OF hoare_keeps [OF that]]) simp
  have any: "hoare (\<lambda>_. True) m (\<lambda>_ _. True)" for m :: "(restriction host, protocol_error + unit) state"
    by (simp add: hoare_def)
  have present: "hoare (entry_is e) restriction_file_is_present (\<lambda>b h. entry_is e h \<and> (b \<longrightarrow> e = RegularFile))" for e
    by (auto simp: hoare_def restriction_file_is_present_def host_io_def next_io_def get_entry_def entry_is_def)
  have created: "hoare (\<lambda>h. entry_is e h) (if e = Absent then do {
        put_entry RegularFile;
        try_bind host_io (\<lambda>_. host_io)
      } else do {
        present \<leftarrow> restriction_file_is_present;
        if \<not> present then ret (Inl (IoError PermissionDenied))
        else try_bind host_io (\<lambda>_. host_io)
      }) ?Q" for e
  proof (rule hoare_if)
    show "hoare (entry_is e) (do { put_entry RegularFile; try_bind host_io (\<lambda>_. host_io) }) ?Q"
      by (rule hoare_bind [OF hoare_put_entry], rule kept, intro keeps_rules)
    show "hoare (entry_is e) (do {
        present \<leftarrow> restriction_file_is_present;
        if \<not> present then ret (Inl (IoError PermissionDenied)) else try_bind host_io (\<lambda>_. host_io) }) ?Q"
    proof (rule hoare_bind [OF present], rule hoare_if)
      show "hoare (\<lambda>h. entry_is e h \<and> (b \<longrightarrow> e = RegularFile)) (ret (Inl (IoError PermissionDenied))) ?Q" for b
        by (rule hoare_return) simp
      show "hoare (\<lambda>h. entry_is e h \<and> (b \<longrightarrow> e = RegularFile)) (try_bind host_io (\<lambda>_. host_io)) ?Q"
        if "\<not> \<not> b" for b
        by (rule hoare_pre [OF kept [of RegularFile]], intro keeps_rules) (use that in auto)
    qed
  qed
  have last: "hoare (?Q (Inr ())) host_io ?Q"
    by (rule hoare_pre [OF kept]) (auto intro: keeps_rules)
  show ?thesis
    unfolding persist_no_yolo_at_def if_True
    by (rule hoare_try [OF any], simp, rule hoare_try [OF any], simp, rule hoare_try [OF any], simp,
        rule hoare_bind [OF hoare_get_entry], rule hoare_try, rule hoare_pre [OF created], simp, simp)
      (use last in \<open>simp add: hoare_def\<close>)
qed

lemma persist_no_yolo_file:
  assumes "run_state (persist_no_yolo os get_env True) h = (Inr a, h')"
  shows "rs_entry (h_exec h') = RegularFile"
proof -
  have "hoare (\<lambda>_. True) (persist_no_yolo os get_env True) (\<lambda>r h. \<forall>a. r = Inr a \<longrightarrow> entry_is RegularFile h)"
    unfolding persist_no_yolo_def
  proof (rule hoare_try [OF persist_restricted])
    fix u :: unit
    have "hoare (entry_is RegularFile) (global_input_allowance_with_env os get_env) (\<lambda>_. entry_is RegularFile)"
      by (rule hoare_keeps) (rule keeps_rules)
    then show "hoare (\<lambda>h. Inr u = Inr () \<longrightarrow> entry_is RegularFile h)
        (do { a \<leftarrow> global_input_allowance_with_env os get_env; ret (Inr a) })
        (\<lambda>r h. \<forall>a. r = Inr a \<longrightarrow> entry_is RegularFile h)"
      by (intro hoare_bind) (auto simp: hoare_def)
  qed simp
  from hoareD [OF this _ assms] show ?thesis by (simp add: entry_is_def)
qed

text \<open>As long as its metadata can be read, the file restricts unless a variable says otherwise.\<close>

lemma file_restricts:
  assumes "rs_entry (h_exec h) = RegularFile" and "\<forall>n. io_at (h_env h) n = IoOk"
    and "global_input_env_restriction get_env = None"
  shows "fst (run_state (global_input_allowed_with_env os get_env) h) = False"
  using assms
  by (simp add: global_input_allowed_with_env_def persistent_no_yolo_def restriction_file_is_present_def
      lock_path_def host_io_def next_io_def get_entry_def)

end
