(* ===== verification/Cli.thy ===== *)
theory Cli
  imports Engine Semantic GlobalInput
begin

text \<open>
  The command line (main.rs).  \<open>parse_arguments\<close> and \<open>run\<close> choose a command; \<open>execute_input\<close>
  builds a request for an element of an observation, signs it with a fresh key and runs it on
  an engine whose keyring holds that key alone.

  Parameters: standard input, the parser of its JSON, the random seed, Ed25519, the native
  executor with its answers to the reading commands, the default ledger path.  The result is
  the value that \<open>serialize\<close> turns to JSON, with the exit code.
\<close>

section \<open>Errors\<close>

datatype cli_output =
    ReportOutput execute_report
  | StatusOutput "action_ack option"
  | CapabilitiesOutput capabilities
  | AllowanceOutput global_input_allowance
  | JsonOutput json

record cli_error =
  ce_code :: string
  ce_message :: string
  ce_exit :: nat
  ce_report :: "execute_report option"

definition exit_usage :: nat where "exit_usage = 2"
definition exit_protocol :: nat where "exit_protocol = 3"

definition cli_usage :: "string \<Rightarrow> cli_error" where
  "cli_usage message = \<lparr>ce_code = ''usage'', ce_message = message, ce_exit = exit_usage, ce_report = None\<rparr>"

definition cli_protocol :: "string \<Rightarrow> cli_error" where
  "cli_protocol code = \<lparr>ce_code = code, ce_message = ''protocol operation failed'',
     ce_exit = exit_protocol, ce_report = None\<rparr>"

definition protocol_result :: "string \<Rightarrow> 'e + 'a \<Rightarrow> cli_error + 'a" where
  "protocol_result code r = map_sum (\<lambda>_. cli_protocol code) id r"

section \<open>Arguments\<close>

definition is_option :: "string \<Rightarrow> bool" where
  "is_option argument \<longleftrightarrow> argument \<noteq> [] \<and> hd argument = CHR ''-''"

text \<open>The loop over the arguments after the command.\<close>

fun parse_loop :: "string list \<Rightarrow> string option \<Rightarrow> string list \<Rightarrow> bool
    \<Rightarrow> cli_error + string option \<times> string list \<times> bool" where
  "parse_loop [] ledger positional no_yolo = Inr (ledger, positional, no_yolo)"
| "parse_loop (argument # rest) ledger positional no_yolo =
     (if argument = ''--ledger'' then
        if ledger \<noteq> None then Inl (cli_usage ''--ledger may only be specified once'')
        else (case rest of
            [] \<Rightarrow> Inl (cli_usage ''--ledger requires a path'')
          | path # rest' \<Rightarrow>
              if is_option path then Inl (cli_usage ''--ledger requires a path'')
              else parse_loop rest' (Some path) positional no_yolo)
      else if argument = ''--no-yolo'' then parse_loop rest ledger positional True
      else if is_option argument then Inl (cli_usage (''unknown option: '' @ argument))
      else parse_loop rest ledger (positional @ [argument]) no_yolo)"

definition parse_arguments :: "string \<Rightarrow> string list \<Rightarrow> cli_error + string \<times> string list \<times> bool" where
  "parse_arguments default_ledger arguments = map_sum id
     (\<lambda>(ledger, positional, no_yolo). (case ledger of None \<Rightarrow> default_ledger | Some p \<Rightarrow> p, positional, no_yolo))
     (parse_loop (drop 1 arguments) None [] False)"

text \<open>The options in front of the command: what is left, and whether \<open>--no-yolo\<close> was given.\<close>

fun leading_options :: "string list \<Rightarrow> bool \<Rightarrow> cli_error + string list \<times> bool" where
  "leading_options [] no_yolo = Inr ([], no_yolo)"
| "leading_options (argument # rest) no_yolo =
     (if \<not> is_option argument then Inr (argument # rest, no_yolo)
      else if argument = ''--no-yolo'' then leading_options rest True
      else Inl (cli_usage (''unknown option: '' @ argument)))"

section \<open>The world of the command line\<close>

record cli_input =
  ei_observation :: semantic_observation
  ei_tag :: string
  ei_action :: action
  ei_verification :: "verification_policy option"
  ei_interaction_mode :: "interaction_mode option"

text \<open>Signing: the public key of a seed, its bytes, a signature, and \<open>hex::encode\<close>.\<close>

record 'k signer =
  sg_public :: "string \<Rightarrow> 'k"
  sg_public_bytes :: "string \<Rightarrow> string"
  sg_sign :: "string \<Rightarrow> string \<Rightarrow> string"
  sg_hex_encode :: "string \<Rightarrow> string"

record 'x cli_state =
  cs_world :: "('x, unit) world"
  cs_restriction :: "restriction host"

record ('x, 'k) cli =
  cl_platform :: platform
  cl_env :: env_vars
  cl_default_ledger :: string
  cl_setting :: "string \<Rightarrow> setting"
  cl_executor :: "'x executor"
  cl_parent_is_dir :: "string \<Rightarrow> bool"
  cl_stdin :: "unit + string"
  cl_parse_input :: "string \<Rightarrow> cli_input option"
  cl_seed :: "unit + string"
  cl_crypto :: "'k crypto"
  cl_signer :: "'k signer"
  cl_observe_semantic :: "i64 \<Rightarrow> ('x host, protocol_error + json) state"
  cl_list_surfaces :: "i64 \<Rightarrow> ('x host, protocol_error + json) state"
  cl_observe_surface :: "string \<Rightarrow> i64 \<Rightarrow> ('x host, protocol_error + json) state"

definition on_world :: "(('x, unit) world, 'a) state \<Rightarrow> ('x cli_state, 'a) state" where
  "on_world m = State (\<lambda>s. let (a, w) = run_state m (cs_world s) in (a, s\<lparr>cs_world := w\<rparr>))"

definition on_restriction :: "(restriction host, 'a) state \<Rightarrow> ('x cli_state, 'a) state" where
  "on_restriction m = State (\<lambda>s. let (a, r) = run_state m (cs_restriction s) in (a, s\<lparr>cs_restriction := r\<rparr>))"

text \<open>\<open>Engine::new\<close> on a ledger path.\<close>

definition engine_new :: "('x, 'k) cli \<Rightarrow> string \<Rightarrow> authority_verifier \<Rightarrow> ('x, unit) engine" where
  "engine_new P ledger authority = \<lparr>en_setting = cl_setting P ledger, en_executor = cl_executor P,
     en_authority = authority, en_outcomes = null_outcomes, en_parent_is_dir = cl_parent_is_dir P\<rparr>"

section \<open>execute\<close>

fun execute_supports :: "action \<Rightarrow> bool" where
  "execute_supports (Drag _ _) = False"
| "execute_supports (Screenshot _) = False"
| "execute_supports (Application _ _) = False"
| "execute_supports (Window _ _ _) = False"
| "execute_supports (Open _ _ _) = False"
| "execute_supports (ClipboardWrite _) = False"
| "execute_supports _ = True"

definition default_verification :: "hashing \<Rightarrow> action \<Rightarrow> verification_policy option \<Rightarrow> verification_policy" where
  "default_verification H action v = (case (action, v) of
       (SetValue s, None) \<Rightarrow> TargetValueHash (sha256_hex H s)
     | (_, Some p) \<Rightarrow> p
     | (_, None) \<Rightarrow> NoVerification)"

definition cli_issuer :: string where "cli_issuer = ''self-authorized-cli''"
definition cli_key_id :: string where "cli_key_id = ''ephemeral''"
definition cli_generation :: string where "cli_generation = ''cli-v1''"

definition unsigned_request :: "hashing \<Rightarrow> string \<Rightarrow> cli_input \<Rightarrow> semantic_target_ref \<Rightarrow> i64 \<Rightarrow> action_request"
where
  "unsigned_request H operation_id input target deadline =
     \<lparr>rq_protocol_version = protocol_version, rq_action_version = protocol_version,
      rq_target_version = protocol_version, rq_verification_version = protocol_version,
      rq_operation_id = operation_id, rq_subject = ''cli-user'', rq_session_id = ''cli-session'',
      rq_authority = \<lparr>sa_grant =
        \<lparr>g_protocol_version = protocol_version, g_issuer = cli_issuer, g_key_id = cli_key_id,
         g_operation_id = operation_id, g_subject = ''cli-user'', g_session_id = ''cli-session'',
         g_risk = External, g_expires_at_ms = deadline, g_policy_generation = cli_generation,
         g_action_hash = []\<rparr>, sa_signature = []\<rparr>,
      rq_action = ei_action input, rq_target = Element target,
      rq_interaction_mode = (case ei_interaction_mode input of None \<Rightarrow> Interactive | Some m \<Rightarrow> m),
      rq_deadline_at_ms = deadline,
      rq_verification = default_verification H (ei_action input) (ei_verification input),
      rq_safety = External\<rparr>"

definition with_grant_hash :: "action_request \<Rightarrow> string \<Rightarrow> action_request" where
  "with_grant_hash request h = request\<lparr>rq_authority := (rq_authority request)
     \<lparr>sa_grant := (sa_grant (rq_authority request))\<lparr>g_action_hash := h\<rparr>\<rparr>\<rparr>"

definition with_signature :: "action_request \<Rightarrow> string \<Rightarrow> action_request" where
  "with_signature request s = request\<lparr>rq_authority := (rq_authority request)\<lparr>sa_signature := s\<rparr>\<rparr>"

text \<open>Hash, grant, signature.\<close>

definition sign_request :: "hashing \<Rightarrow> 'k signer \<Rightarrow> string \<Rightarrow> action_request \<Rightarrow> protocol_error + action_request" where
  "sign_request H S seed request = (case normalized_action_hash H request of
       Inl e \<Rightarrow> Inl e
     | Inr h \<Rightarrow>
         let granted = with_grant_hash request h in
         Inr (with_signature granted (sg_hex_encode S
           (sg_sign S seed (canonical_authority_bytes H (sa_grant (rq_authority granted)))))))"

definition cli_keys :: "'k signer \<Rightarrow> string \<Rightarrow> (string \<times> string \<times> string \<times> 'k) list" where
  "cli_keys S seed = [(cli_issuer, cli_key_id, cli_generation, sg_public S seed)]"

definition succeeded_report :: "execute_report \<Rightarrow> bool" where
  "succeeded_report report \<longleftrightarrow> report \<noteq> []
     \<and> (case a_state (last report) of Terminal (Succeeded _) \<Rightarrow> True | _ \<Rightarrow> False)"

definition run_signed :: "('x, 'k) cli \<Rightarrow> string \<Rightarrow> string \<Rightarrow> action_request
    \<Rightarrow> (('x, unit) world, cli_error + cli_output \<times> nat) state" where
  "run_signed P ledger seed request =
     (let H = s_hashing (cl_setting P ledger); code = ''protocol_error'' in
      try_bind (ret (protocol_result code (sign_request H (cl_signer P) seed request))) (\<lambda>signed.
      try_bind (ret (protocol_result code (new_verifier (cli_keys (cl_signer P) seed)))) (\<lambda>ring. do {
        r \<leftarrow> execute (engine_new P ledger (verify_authority H (cl_crypto P) ring)) signed;
        try_bind (ret (protocol_result code r)) (\<lambda>report.
        ret (if succeeded_report report then Inr (ReportOutput report, 0)
          else Inl \<lparr>ce_code = ''execution_failed'',
            ce_message = ''action did not succeed; reconcile before retrying'',
            ce_exit = exit_protocol, ce_report = Some report\<rparr>))
      })))"

definition execute_input :: "('x, 'k) cli \<Rightarrow> string \<Rightarrow> cli_input
    \<Rightarrow> (('x, unit) world, cli_error + cli_output \<times> nat) state" where
  "execute_input P ledger input =
     (let H = s_hashing (cl_setting P ledger); observation = ei_observation input;
          code = ''observation_error'' in
      if \<not> execute_supports (ei_action input) then ret (Inl (cli_usage ''unsupported execute action''))
      else do {
        now \<leftarrow> on_host now_ms;
        try_bind (ret (protocol_result code (validate_observation H observation now))) (\<lambda>_.
        try_bind (ret (protocol_result code (target_of H observation (ei_tag input)))) (\<lambda>target.
        try_bind (ret (protocol_result code (resolve_target H observation target now))) (\<lambda>_.
        try_bind (ret (protocol_result ''protocol_error'' (cl_seed P))) (\<lambda>seed.
        let deadline = min (sat_add_i64 now 20000) (so_expires_at_ms observation);
            operation_id = ''cli-'' @ sg_hex_encode (cl_signer P) (take 16 (sg_public_bytes (cl_signer P) seed))
        in run_signed P ledger seed (unsigned_request H operation_id input target deadline)))))
      })"

definition max_input_bytes :: nat where "max_input_bytes = 3 * 1024 * 1024"

definition run_execute :: "('x, 'k) cli \<Rightarrow> string list \<Rightarrow> string \<Rightarrow> bool
    \<Rightarrow> (('x, unit) world, cli_error + cli_output \<times> nat) state" where
  "run_execute P positional ledger self_authorize =
     (if \<not> self_authorize \<or> positional \<noteq> []
      then ret (Inl (cli_usage ''execute requires --self-authorize-no-host-boundary and JSON on stdin''))
      else try_bind (ret (protocol_result ''protocol_error'' (cl_stdin P))) (\<lambda>bytes.
        if max_input_bytes < length bytes then ret (Inl (cli_usage ''execute input is too large''))
        else case cl_parse_input P bytes of
          None \<Rightarrow> ret (Inl (cli_usage ''execute requires a valid action and fenced observation''))
        | Some input \<Rightarrow> execute_input P ledger input))"

section \<open>The other commands\<close>

definition run_status :: "('x, 'k) cli \<Rightarrow> string list \<Rightarrow> string
    \<Rightarrow> (('x, unit) world, cli_error + cli_output \<times> nat) state" where
  "run_status P positional ledger = (case positional of
       [op] \<Rightarrow> do {
         r \<leftarrow> status (engine_new P ledger deny_authority) op;
         ret (map_sum id (\<lambda>a. (StatusOutput a, 0)) (protocol_result ''protocol_error'' r))
       }
     | [] \<Rightarrow> ret (Inl (cli_usage ''status requires an operation ID''))
     | _ \<Rightarrow> ret (Inl (cli_usage ''status accepts exactly one operation ID'')))"

definition run_capabilities :: "('x, 'k) cli \<Rightarrow> string list
    \<Rightarrow> (('x, unit) world, cli_error + cli_output \<times> nat) state" where
  "run_capabilities P positional =
     (if positional \<noteq> [] then ret (Inl (cli_usage ''capabilities does not accept positional arguments''))
      else do {
        r \<leftarrow> on_host (x_capabilities (cl_executor P));
        ret (map_sum id (\<lambda>c. (CapabilitiesOutput c, 0)) (protocol_result ''protocol_error'' r))
      })"

text \<open>The commands that read the desktop, with 30 seconds to do so.\<close>

definition run_reading :: "(i64 \<Rightarrow> ('x host, protocol_error + json) state)
    \<Rightarrow> (('x, unit) world, cli_error + cli_output \<times> nat) state" where
  "run_reading read = do {
     now \<leftarrow> on_host now_ms;
     r \<leftarrow> on_host (read (sat_add_i64 now 30000));
     ret (map_sum id (\<lambda>v. (JsonOutput v, 0)) (protocol_result ''observation_error'' r))
   }"

definition run_observe :: "('x, 'k) cli \<Rightarrow> string list
    \<Rightarrow> (('x, unit) world, cli_error + cli_output \<times> nat) state" where
  "run_observe P positional =
     (if positional \<noteq> [] then ret (Inl (cli_usage ''observe does not accept positional arguments''))
      else run_reading (cl_observe_semantic P))"

definition run_surfaces :: "('x, 'k) cli \<Rightarrow> string list
    \<Rightarrow> (('x, unit) world, cli_error + cli_output \<times> nat) state" where
  "run_surfaces P positional =
     (if positional \<noteq> [] then ret (Inl (cli_usage ''surfaces does not accept positional arguments''))
      else run_reading (cl_list_surfaces P))"

definition run_observe_surface :: "('x, 'k) cli \<Rightarrow> string list
    \<Rightarrow> (('x, unit) world, cli_error + cli_output \<times> nat) state" where
  "run_observe_surface P positional = (case positional of
       [surface] \<Rightarrow> run_reading (cl_observe_surface P surface)
     | [] \<Rightarrow> ret (Inl (cli_usage ''observe-surface requires a surface ID''))
     | _ \<Rightarrow> ret (Inl (cli_usage ''observe-surface accepts exactly one surface ID'')))"

definition run_allow_global_input :: "('x, 'k) cli \<Rightarrow> string list
    \<Rightarrow> (restriction host, cli_error + cli_output \<times> nat) state" where
  "run_allow_global_input P positional =
     (let persist = (\<lambda>restricted. do {
            r \<leftarrow> persist_no_yolo (cl_platform P) (cl_env P) restricted;
            ret (map_sum id (\<lambda>a. (AllowanceOutput a, 0)) (protocol_result ''protocol_error'' r))
          }) in
      if positional = [] then do {
        a \<leftarrow> global_input_allowance_with_env (cl_platform P) (cl_env P);
        ret (Inr (AllowanceOutput a, 0))
      }
      else if positional = [''allow''] then persist False
      else if positional = [''deny''] \<or> positional = [''--no-yolo''] then persist True
      else ret (Inl (cli_usage ''allow-global-input accepts no arguments, allow, deny, or --no-yolo'')))"

section \<open>run\<close>

definition self_authorize_flag :: string where
  "self_authorize_flag = ''--self-authorize-no-host-boundary''"

definition persist_if :: "('x, 'k) cli \<Rightarrow> bool \<Rightarrow> ('x cli_state, cli_error + unit) state" where
  "persist_if P wanted = (if wanted then do {
       r \<leftarrow> on_restriction (persist_no_yolo (cl_platform P) (cl_env P) True);
       ret (map_sum id (\<lambda>_. ()) (protocol_result ''protocol_error'' r))
     } else ret (Inr ()))"

definition run_command :: "('x, 'k) cli \<Rightarrow> string \<Rightarrow> string \<Rightarrow> string list \<Rightarrow> bool
    \<Rightarrow> ('x cli_state, cli_error + cli_output \<times> nat) state" where
  "run_command P name ledger positional self_authorize =
     (if name = ''execute'' then on_world (run_execute P positional ledger self_authorize)
      else if name = ''status'' then on_world (run_status P positional ledger)
      else if name = ''capabilities'' then on_world (run_capabilities P positional)
      else if name = ''observe'' then on_world (run_observe P positional)
      else if name = ''surfaces'' then on_world (run_surfaces P positional)
      else if name = ''observe-surface'' then on_world (run_observe_surface P positional)
      else if name = ''allow-global-input'' then on_restriction (run_allow_global_input P positional)
      else ret (Inl (cli_usage (''unknown command: '' @ name))))"

definition cli_synopsis :: string where
  "cli_synopsis = ''usage: praefectus [--no-yolo] execute|status|capabilities|surfaces|observe|observe-surface|allow-global-input''"

definition run :: "('x, 'k) cli \<Rightarrow> string list \<Rightarrow> ('x cli_state, cli_error + cli_output \<times> nat) state" where
  "run P arguments =
     try_bind (ret (leading_options arguments False)) (\<lambda>(arguments, no_yolo).
     try_bind (persist_if P no_yolo) (\<lambda>_.
     case arguments of
       [] \<Rightarrow> ret (Inl (cli_usage cli_synopsis))
     | name # _ \<Rightarrow>
         let self_authorize = (name = ''execute'' \<and> self_authorize_flag \<in> set arguments);
             kept = filter (\<lambda>a. name \<noteq> ''execute'' \<or> a \<noteq> self_authorize_flag) arguments in
         try_bind (ret (parse_arguments (cl_default_ledger P) kept)) (\<lambda>(ledger, positional, no_yolo).
         try_bind (persist_if P no_yolo) (\<lambda>_.
         run_command P name ledger positional self_authorize))))"

text \<open>The exit code of \<open>main\<close>; \<open>written\<close>: the answer could be written to standard output.\<close>

definition exit_code :: "bool \<Rightarrow> cli_error + cli_output \<times> nat \<Rightarrow> nat" where
  "exit_code written r = (if \<not> written then 1
     else case r of Inl e \<Rightarrow> ce_exit e | Inr (_, n) \<Rightarrow> n)"

end
