(* ===== verification/CliFacts.thy ===== *)
theory CliFacts
  imports Cli Results
begin

text \<open>
  Facts about the command line: what the parser accepts, the exit codes, and that the request
  \<open>execute\<close> builds is granted by the keyring it builds.
\<close>

section \<open>Arguments\<close>

lemma parse_loop_positional:
  "parse_loop arguments ledger positional no_yolo = Inr (ledger', positional', no_yolo') \<Longrightarrow>
    \<exists>added. positional' = positional @ added \<and> list_all (\<lambda>a. \<not> is_option a) added
      \<and> (no_yolo' \<longleftrightarrow> no_yolo \<or> ''--no-yolo'' \<in> set arguments)
      \<and> (case ledger' of None \<Rightarrow> ledger = None | Some p \<Rightarrow> ledger = Some p \<or> \<not> is_option p)"
proof (induction arguments ledger positional no_yolo arbitrary: ledger' positional' no_yolo'
    rule: parse_loop.induct)
  case (2 argument rest ledger positional no_yolo)
  consider (ledger) "argument = ''--ledger''" | (yolo) "argument = ''--no-yolo''"
    | (other) "argument \<noteq> ''--ledger''" "argument \<noteq> ''--no-yolo''" by blast
  then show ?case
  proof cases
    case ledger
    then obtain path rest' where rest: "rest = path # rest'" "ledger = None" "\<not> is_option path"
      "parse_loop rest' (Some path) positional no_yolo = Inr (ledger', positional', no_yolo')"
      using "2.prems" by (auto split: if_splits list.splits)
    moreover have "path \<noteq> ''--no-yolo''" using rest(3) by (auto simp: is_option_def)
    ultimately show ?thesis
      using "2.IH"(1) [OF ledger] ledger by (fastforce split: option.splits)
  next
    case yolo
    then show ?thesis using "2.prems" "2.IH"(2) by fastforce
  next
    case other
    then have "\<not> is_option argument"
      "parse_loop rest ledger (positional @ [argument]) no_yolo = Inr (ledger', positional', no_yolo')"
      using "2.prems" by (auto split: if_splits)
    then show ?thesis using "2.IH"(3) other by fastforce
  qed
qed (auto split: option.split)

lemma parse_loop_plain:
  "list_all (\<lambda>a. \<not> is_option a) xs \<Longrightarrow>
    parse_loop (xs @ rest) ledger positional no_yolo = parse_loop rest ledger (positional @ xs) no_yolo"
proof (induction xs arbitrary: positional)
  case (Cons x xs)
  then have "x \<noteq> ''--ledger''" "x \<noteq> ''--no-yolo''" by (auto simp: is_option_def)
  then show ?case using Cons by simp
qed simp

definition ledger_arguments :: "string option \<Rightarrow> string list" where
  "ledger_arguments ledger = (case ledger of None \<Rightarrow> [] | Some p \<Rightarrow> [''--ledger'', p])"

definition no_yolo_arguments :: "bool \<Rightarrow> string list" where
  "no_yolo_arguments no_yolo = (if no_yolo then [''--no-yolo''] else [])"

lemma parse_arguments_written:
  assumes "list_all (\<lambda>a. \<not> is_option a) before" and "list_all (\<lambda>a. \<not> is_option a) after"
    and "\<And>p. ledger = Some p \<Longrightarrow> \<not> is_option p"
  shows "parse_arguments default_ledger
      (name # before @ ledger_arguments ledger @ no_yolo_arguments no_yolo @ after)
    = Inr (case ledger of None \<Rightarrow> default_ledger | Some p \<Rightarrow> p, before @ after, no_yolo)"
proof -
  have after: "parse_loop after l ps n = Inr (l, ps @ after, n)" for l ps n
    using parse_loop_plain [OF assms(2), of "[]"] by simp
  have "parse_loop (before @ ledger_arguments ledger @ no_yolo_arguments no_yolo @ after) None [] False
      = parse_loop (ledger_arguments ledger @ no_yolo_arguments no_yolo @ after) None before False"
    using parse_loop_plain [OF assms(1), of _ None "[]"] by simp
  also have "\<dots> = Inr (ledger, before @ after, no_yolo)"
    using assms(3) after
    by (auto simp: ledger_arguments_def no_yolo_arguments_def is_option_def split: option.split)
  finally show ?thesis by (simp add: parse_arguments_def)
qed

section \<open>Exit codes\<close>

definition sound_exit :: "cli_error + cli_output \<times> nat \<Rightarrow> bool" where
  "sound_exit r \<longleftrightarrow> (case r of
       Inl e \<Rightarrow> ce_exit e \<in> {2, 3}
     | Inr (out, n) \<Rightarrow> n = 0 \<and> (case out of ReportOutput report \<Rightarrow> succeeded_report report | _ \<Rightarrow> True))"

lemma sound_exit_simps [simp]:
  "sound_exit (Inl (cli_usage m))" "sound_exit (Inl (cli_protocol c))"
  by (simp_all add: sound_exit_def cli_usage_def cli_protocol_def exit_usage_def exit_protocol_def)

lemma protocol_result_Inl: "protocol_result c r = Inl e \<Longrightarrow> e = cli_protocol c"
  by (cases r) (auto simp: protocol_result_def)

lemma sound_try:
  assumes "\<And>e. m = Inl e \<Longrightarrow> sound_exit (Inl e)" and "\<And>x. yields sound_exit (f x)"
  shows "yields sound_exit (try_bind (ret m) f)"
  using assms by (cases m) (auto simp: try_bind_def intro!: yields_rules)

lemma sound_protocol:
  "(\<And>x. yields sound_exit (f x)) \<Longrightarrow> yields sound_exit (try_bind (ret (protocol_result c r)) f)"
  by (rule sound_try) (auto dest: protocol_result_Inl)

lemma sound_result:
  "(\<And>x. sound_exit (Inr (g x, 0))) \<Longrightarrow>
    sound_exit (map_sum id (\<lambda>x. (g x, 0)) (protocol_result c r))"
  by (cases r) (auto simp: protocol_result_def)

lemma sound_run_signed: "yields sound_exit (run_signed P ledger seed request)"
  unfolding run_signed_def Let_def
  by (intro sound_protocol yields_bind yields_return)
    (simp add: sound_exit_def exit_protocol_def)

lemma sound_execute_input: "yields sound_exit (execute_input P ledger input)"
  unfolding execute_input_def Let_def
  by (intro yields_if yields_bind sound_protocol sound_run_signed yields_return) simp

lemma sound_run_execute: "yields sound_exit (run_execute P positional ledger self_authorize)"
  unfolding run_execute_def
  by (intro yields_if sound_protocol yields_case_option sound_execute_input yields_return) simp_all

lemma sound_run_reading: "yields sound_exit (run_reading read)"
  unfolding run_reading_def by (intro yields_bind yields_return sound_result) (simp add: sound_exit_def)

lemma sound_commands:
  "yields sound_exit (run_status P positional ledger)"
  "yields sound_exit (run_capabilities P positional)"
  "yields sound_exit (run_observe P positional)"
  "yields sound_exit (run_surfaces P positional)"
  "yields sound_exit (run_observe_surface P positional)"
  unfolding run_status_def run_capabilities_def run_observe_def run_surfaces_def run_observe_surface_def
  by (auto intro!: yields_bind yields_return sound_result sound_run_reading simp: sound_exit_def
      cli_usage_def exit_usage_def split: list.split)

lemma sound_run_allow: "yields sound_exit (run_allow_global_input P positional)"
  unfolding run_allow_global_input_def Let_def
  by (intro yields_if yields_bind yields_return sound_result)
    (simp_all add: sound_exit_def cli_usage_def exit_usage_def)

lemma yields_on_world: "yields Q m \<Longrightarrow> yields Q (on_world m)"
  by (simp add: yields_def on_world_def Let_def split: prod.split) (metis fst_conv)

lemma yields_on_restriction: "yields Q m \<Longrightarrow> yields Q (on_restriction m)"
  by (simp add: yields_def on_restriction_def Let_def split: prod.split) (metis fst_conv)

lemma sound_run_command: "yields sound_exit (run_command P name ledger positional self_authorize)"
  unfolding run_command_def
  by (intro yields_if yields_on_world yields_on_restriction sound_run_execute sound_commands
      sound_run_allow yields_return) simp

lemma sound_persist_if:
  assumes "\<And>x. yields sound_exit (f x)"
  shows "yields sound_exit (try_bind (persist_if P wanted) f)"
proof -
  have "yields (\<lambda>r. \<forall>e. r = Inl e \<longrightarrow> sound_exit (Inl e)) (persist_if P wanted)"
    unfolding persist_if_def
    by (intro yields_if yields_bind yields_return) (auto simp: protocol_result_def map_sum_def split: sum.splits)
  then show ?thesis
    unfolding try_bind_def
    by (rule yields_bind_result) (auto intro: yields_return assms split: sum.split)
qed

lemma leading_options_error: "leading_options arguments no_yolo = Inl e \<Longrightarrow> sound_exit (Inl e)"
  by (induction arguments no_yolo rule: leading_options.induct) (auto split: if_splits)

lemma parse_loop_error: "parse_loop arguments ledger positional no_yolo = Inl e \<Longrightarrow> sound_exit (Inl e)"
  by (induction arguments ledger positional no_yolo rule: parse_loop.induct)
    (auto split: if_splits list.splits)

lemma parse_arguments_error: "parse_arguments d arguments = Inl e \<Longrightarrow> sound_exit (Inl e)"
  by (auto simp: parse_arguments_def map_sum_def dest: parse_loop_error split: sum.splits prod.splits)

lemma sound_run: "yields sound_exit (run P arguments)"
proof -
  have rest: "yields sound_exit (case arguments of
       [] \<Rightarrow> ret (Inl (cli_usage cli_synopsis))
     | name # _ \<Rightarrow>
         let self_authorize = (name = ''execute'' \<and> self_authorize_flag \<in> set arguments);
             kept = filter (\<lambda>a. name \<noteq> ''execute'' \<or> a \<noteq> self_authorize_flag) arguments in
         try_bind (ret (parse_arguments (cl_default_ledger P) kept)) (\<lambda>(ledger, positional, no_yolo).
         try_bind (persist_if P no_yolo) (\<lambda>_.
         run_command P name ledger positional self_authorize)))" for arguments
    unfolding Let_def
    by (auto intro!: yields_return sound_try sound_persist_if sound_run_command
        dest: parse_arguments_error split: list.split)
  show ?thesis
    unfolding run_def
    by (rule sound_try) (auto intro!: sound_persist_if rest dest: leading_options_error)
qed

section \<open>The signed request\<close>

lemma hash_of_signed [simp]:
  "normalized_action_hash H (with_grant_hash request h) = normalized_action_hash H request"
  "normalized_action_hash H (with_signature request s) = normalized_action_hash H request"
  by (simp_all add: normalized_action_hash_def with_grant_hash_def with_signature_def request_json_def
      split: option.split)

lemma cli_names_valid: "valid_identifier cli_issuer" "valid_identifier cli_key_id" "valid_identifier cli_generation"
  by (simp_all add: valid_identifier_def identifier_byte_def cli_issuer_def cli_key_id_def cli_generation_def
      byte_defs)

lemma cli_keyring: "new_verifier (cli_keys S seed) = Inr [(cli_issuer, cli_key_id) \<mapsto> (cli_generation, sg_public S seed)]"
  by (simp add: new_verifier_def cli_keys_def cli_names_valid)

text \<open>What Ed25519, \<open>hex\<close> and SHA-256 promise.\<close>

definition signs_soundly :: "hashing \<Rightarrow> 'k crypto \<Rightarrow> 'k signer \<Rightarrow> bool" where
  "signs_soundly H C S \<longleftrightarrow>
     (\<forall>seed m. verify_strict C (sg_public S seed) m (sg_sign S seed m) \<and> length (sg_sign S seed m) = 64)
   \<and> (\<forall>s. hex_decode C (sg_hex_encode S s) = Some s)
   \<and> (\<forall>b. is_hash (sha256_hex H b))"

lemma normalized_action_hash_is_hash:
  "\<forall>b. is_hash (sha256_hex H b) \<Longrightarrow> normalized_action_hash H request = Inr h \<Longrightarrow> is_hash h"
  by (auto simp: normalized_action_hash_def hash_serializable_def split: option.splits if_splits sum.splits)

lemma self_signed_grant:
  assumes laws: "signs_soundly H C S"
    and signed: "sign_request H S seed (unsigned_request H op input target deadline) = Inr request"
    and keys: "new_verifier (cli_keys S seed) = Inr ring"
    and deadline: "0 < deadline"
  obtains h where "normalized_action_hash H request = Inr h"
    and "verify_authority H C ring request h = Inr \<lparr>va_expires_at_ms = deadline\<rparr>"
proof -
  let ?u = "unsigned_request H op input target deadline"
  obtain h where h: "normalized_action_hash H ?u = Inr h"
    and request: "request = with_signature (with_grant_hash ?u h) (sg_hex_encode S
      (sg_sign S seed (canonical_authority_bytes H (sa_grant (rq_authority (with_grant_hash ?u h))))))"
    using signed by (auto simp: sign_request_def Let_def split: sum.splits)
  have ring: "ring = [(cli_issuer, cli_key_id) \<mapsto> (cli_generation, sg_public S seed)]"
    using keys by (simp add: cli_keyring)
  have "normalized_action_hash H request = Inr h" using h by (simp add: request)
  moreover have "is_hash h"
    using laws h by (auto simp: signs_soundly_def intro: normalized_action_hash_is_hash)
  then have "verify_authority H C ring request h = Inr \<lparr>va_expires_at_ms = deadline\<rparr>"
    using laws deadline
    by (simp add: verify_authority_ok ring request grant_matches_def with_grant_hash_def with_signature_def
        unsigned_request_def cli_names_valid signs_soundly_def)
  ultimately show ?thesis by (rule that)
qed

end
