(* ===== verification/CommandProperties.thy ===== *)
theory CommandProperties
  imports CliFacts CdpSample
begin

text \<open>Properties of the command line (main.rs) and of the global input restriction (lib.rs).\<close>

text \<open>
  The arguments are read back as they were given: a command with positional arguments, a
  ledger path and \<open>--no-yolo\<close> between them parses to that ledger (or the default), all
  positional arguments in order, and the flag.
\<close>

theorem arguments_round_trip:
  assumes "list_all (\<lambda>a. \<not> is_option a) before" and "list_all (\<lambda>a. \<not> is_option a) after"
    and "\<And>p. ledger = Some p \<Longrightarrow> \<not> is_option p"
  shows "parse_arguments default_ledger
      (name # before @ ledger_arguments ledger @ no_yolo_arguments no_yolo @ after)
    = Inr (case ledger of None \<Rightarrow> default_ledger | Some p \<Rightarrow> p, before @ after, no_yolo)"
  by (rule parse_arguments_written [OF assms])

lemma arguments_round_trip_witness:
  "parse_arguments ''default'' (''status'' # [''a''] @ ledger_arguments (Some ''p'') @ no_yolo_arguments True @ [''b''])
    = Inr (''p'', [''a'', ''b''], True)"
  using arguments_round_trip [of "[''a'']" "[''b'']" "Some ''p''"] by (simp add: is_option_def)

text \<open>
  Every run of the command line ends in one of three ways: exit code 0 with an answer, and
  for \<open>execute\<close> only with a report whose last acknowledgement is \<open>Succeeded\<close>; code 2 for
  misuse; code 3 for a failed operation.
\<close>

theorem exit_codes_are_sound:
  "case fst (run_state (run P arguments) s) of
     Inl e \<Rightarrow> exit_code True (Inl e) \<in> {2, 3}
   | Inr (out, n) \<Rightarrow> exit_code True (Inr (out, n)) = 0
       \<and> (case out of ReportOutput report \<Rightarrow> succeeded_report report | _ \<Rightarrow> True)"
  using yieldsD [OF sound_run, of P arguments s] by (cases "run_state (run P arguments) s")
    (auto simp: sound_exit_def exit_code_def split: sum.splits)

text \<open>
  The request that \<open>execute\<close> builds and signs is granted by the keyring that it builds, for
  exactly the deadline of the request - given that Ed25519 verifies what it signed, hex decodes
  what it encoded and SHA-256 yields 64 hexadecimal digits.
\<close>

theorem self_signed_request_is_granted:
  assumes "signs_soundly H C S" and "new_verifier (cli_keys S seed) = Inr ring" and "0 < deadline"
    and "sign_request H S seed (unsigned_request H op input target deadline) = Inr request"
  shows "\<exists>h. normalized_action_hash H request = Inr h
    \<and> verify_authority H C ring request h = Inr \<lparr>va_expires_at_ms = deadline\<rparr>"
  by (rule self_signed_grant [OF assms(1,4,2,3)]) blast

text \<open>A signer whose signatures are 64 zero bytes.\<close>

definition sample_signer :: "unit signer" where
  "sample_signer = \<lparr>sg_public = \<lambda>_. (), sg_public_bytes = id, sg_sign = \<lambda>_ _. zero_hash, sg_hex_encode = id\<rparr>"

definition sample_crypto :: "unit crypto" where
  "sample_crypto = \<lparr>hex_decode = Some, verify_strict = \<lambda>_ _ s. s = zero_hash\<rparr>"

definition sample_input :: cli_input where
  "sample_input = \<lparr>ei_observation = button_observation, ei_tag = ''e0'', ei_action = Invoke, ei_verification = None,
     ei_interaction_mode = None\<rparr>"

lemma sample_signs: "signs_soundly sample_hashing sample_crypto sample_signer"
  using zero_hash_valid
  by (simp add: signs_soundly_def sample_crypto_def sample_signer_def sample_hashing_def)

lemma self_signed_request_is_granted_witness:
  "\<exists>request h. sign_request sample_hashing sample_signer [] (unsigned_request sample_hashing ''op'' sample_input sample_target 9)
      = Inr request
    \<and> normalized_action_hash sample_hashing request = Inr h
    \<and> verify_authority sample_hashing sample_crypto
        [(cli_issuer, cli_key_id) \<mapsto> (cli_generation, ())] request h = Inr \<lparr>va_expires_at_ms = 9\<rparr>"
proof -
  obtain request where signed: "sign_request sample_hashing sample_signer []
      (unsigned_request sample_hashing ''op'' sample_input sample_target 9) = Inr request"
    by (simp add: sign_request_def normalized_action_hash_def unsigned_request_def sample_input_def
        default_verification_def validate_verification_def Let_def)
  have "new_verifier (cli_keys sample_signer []) = Inr [(cli_issuer, cli_key_id) \<mapsto> (cli_generation, ())]"
    by (simp add: cli_keyring)
  from self_signed_request_is_granted [OF sample_signs this _ signed] signed show ?thesis by simp
qed





end
