(* ===== verification/LinuxInput.thy ===== *)
theory LinuxInput
  imports GlobalInput Float64 Validation
begin

text \<open>
  Input on Linux (linux_input.rs): key symbols, the X11 and the portal route of every input
  operation, the clipboard tools, screenshots and the list of screens.

  The X server, the portal, the programs that are run and the file system are parameters
  (\<open>linux_system\<close>), whose answers depend on the tick.  \<open>dk_events\<close> is a ghost: every
  input event in the order in which the code hands it over, also one whose request fails.
  A sleep takes time only.
\<close>

unbundle bit_operations_syntax

type_synonym u8 = "8 word"
type_synonym i16 = "16 word"

datatype native_error = NativeError

section \<open>Events\<close>

text \<open>
  \<open>Warp\<close>: root window and position.  \<open>FakeInput\<close>: type (2 and 3 press and release a key, 4 and 5
  a button), detail, root window and position.  \<open>Portal...\<close>: session handle and arguments.
  \<open>Copied\<close>: the program and the text given to it.
\<close>

datatype input_event =
    Warp u32 i16 i16
  | FakeInput u8 u8 u32 i16 i16
  | PortalMotion string f64 f64
  | PortalButton string u32 u32
  | PortalAxis string f64 f64
  | PortalKeysym string u32 u32
  | Copied string string

record desktop =
  dk_portal :: "string option"
  dk_portal_poisoned :: bool
  dk_events :: "input_event list"

section \<open>What the system answers\<close>

record x_setup =
  xs_root :: u32
  xs_width :: u16
  xs_height :: u16
  xs_min_keycode :: u8
  xs_max_keycode :: u8

record crtc_info =
  ci_x :: i16
  ci_y :: i16
  ci_width :: u16
  ci_height :: u16

datatype portal_value = PortalStr string | PortalOther

text \<open>The body of a reply, read at the two types that the code asks for.\<close>

record portal_reply =
  pr_status :: "u32 option"
  pr_results :: "(string \<rightharpoonup> portal_value) option"

datatype portal_call =
    CreateSession
  | Authorize string u32
  | Start string

record linux_system =
  ls_env :: env_vars
  ls_x11 :: "nat \<Rightarrow> x_setup option"
  ls_request :: "nat \<Rightarrow> bool"
  ls_keyboard :: "nat \<Rightarrow> u8 \<Rightarrow> u8 \<Rightarrow> (u8 \<times> u32 list) option"
  ls_crtcs :: "nat \<Rightarrow> u32 list option"
  ls_crtc :: "nat \<Rightarrow> u32 \<Rightarrow> crtc_info option"
  ls_bus :: "nat \<Rightarrow> bool"
  ls_portal :: "nat \<Rightarrow> portal_call \<Rightarrow> portal_reply option"
  ls_is_file :: "nat \<Rightarrow> string \<Rightarrow> bool"
  ls_feed :: "nat \<Rightarrow> bool"
  ls_output :: "nat \<Rightarrow> string \<Rightarrow> string list \<Rightarrow> string option"
  ls_json :: "string \<Rightarrow> json list option"
  ls_uppercase :: "nat \<Rightarrow> bool"

text \<open>
  \<open>ls_is_file\<close>: \<open>symlink_metadata\<close> finds a regular file.  \<open>ls_feed\<close>: the program was run, read its
  input and succeeded.  \<open>ls_output\<close>: what the program wrote, if it ran and succeeded.
  \<open>ls_uppercase\<close>: the upper-case letters beyond ASCII.
\<close>

type_synonym 'a input = "(desktop host, native_error + 'a) state"

definition native_if :: "bool \<Rightarrow> 'a \<Rightarrow> ('s, native_error + 'a) state" where
  "native_if c x = ret (if c then Inr x else Inl NativeError)"

definition native_ok :: "'a option \<Rightarrow> ('s, native_error + 'a) state" where
  "native_ok v = ret (case v of None \<Rightarrow> Inl NativeError | Some x \<Rightarrow> Inr x)"

definition ask_native :: "(nat \<Rightarrow> 'a option) \<Rightarrow> ('x host, native_error + 'a) state" where
  "ask_native f = do { v \<leftarrow> ask f; native_ok v }"

definition ask_ok :: "(nat \<Rightarrow> bool) \<Rightarrow> ('x host, native_error + unit) state" where
  "ask_ok f = do { ok \<leftarrow> ask f; native_if ok () }"

text \<open>\<open>thread::sleep\<close>\<close>

definition pause :: "u64 option \<Rightarrow> ('s, unit) state" where
  "pause delay_ms = ret ()"

section \<open>Commands and the session\<close>

definition command_directories :: "string list" where
  "command_directories = [''/usr/bin'', ''/usr/sbin'', ''/bin'', ''/sbin'']"

fun find_command :: "linux_system \<Rightarrow> string \<Rightarrow> string list \<Rightarrow> ('x host, native_error + string) state" where
  "find_command L name [] = ret (Inl NativeError)"
| "find_command L name (directory # rest) = do {
     let path = directory @ ''/'' @ name;
     found \<leftarrow> ask (\<lambda>t. ls_is_file L t path);
     if found then ret (Inr path) else find_command L name rest
   }"

definition nul :: char where "nul = CHR 0x00"

definition secure_command :: "linux_system \<Rightarrow> string \<Rightarrow> ('x host, native_error + string) state" where
  "secure_command L name =
     (if name = [] \<or> CHR ''/'' \<in> set name \<or> nul \<in> set name then ret (Inl NativeError)
      else find_command L name command_directories)"

definition session_type :: "env_vars \<Rightarrow> string" where
  "session_type get_env = (let v = env_value get_env ''XDG_SESSION_TYPE'' in
     if (case v of None \<Rightarrow> False | Some s \<Rightarrow> eq_ignore_ascii_case s ''wayland'') then ''wayland''
     else if (case v of None \<Rightarrow> False | Some s \<Rightarrow> eq_ignore_ascii_case s ''x11'') then ''x11''
     else if get_env ''WAYLAND_DISPLAY'' \<noteq> None then ''wayland''
     else if get_env ''DISPLAY'' \<noteq> None then ''x11''
     else ''unknown'')"

text \<open>\<open>match session_type()\<close>\<close>

definition by_session :: "linux_system \<Rightarrow> 'a input \<Rightarrow> 'a input \<Rightarrow> 'a input" where
  "by_session L x11 wayland =
     (if session_type (ls_env L) = ''x11'' then x11
      else if session_type (ls_env L) = ''wayland'' then wayland
      else ret (Inl NativeError))"

section \<open>Key symbols\<close>

definition key_names :: "(string \<times> u32) list" where
  "key_names = [(''backspace'', 0xff08), (''tab'', 0xff09), (''return'', 0xff0d), (''enter'', 0xff0d),
     (''escape'', 0xff1b), (''esc'', 0xff1b), (''delete'', 0xffff), (''del'', 0xffff),
     (''home'', 0xff50), (''end'', 0xff57), (''pageup'', 0xff55), (''page_up'', 0xff55),
     (''pagedown'', 0xff56), (''page_down'', 0xff56), (''insert'', 0xff63),
     (''printscreen'', 0xff61), (''print'', 0xff61), (''scrolllock'', 0xff14), (''pause'', 0xff13),
     (''numlock'', 0xff7f), (''left'', 0xff51), (''up'', 0xff52), (''right'', 0xff53), (''down'', 0xff54),
     (''f1'', 0xffbe), (''f2'', 0xffbf), (''f3'', 0xffc0), (''f4'', 0xffc1), (''f5'', 0xffc2),
     (''f6'', 0xffc3), (''f7'', 0xffc4), (''f8'', 0xffc5), (''f9'', 0xffc6), (''f10'', 0xffc7),
     (''f11'', 0xffc8), (''f12'', 0xffc9), (''shift'', 0xffe1), (''shift_l'', 0xffe1),
     (''shift_r'', 0xffe2), (''ctrl'', 0xffe3), (''ctrl_l'', 0xffe3), (''ctrl_r'', 0xffe4),
     (''control'', 0xffe3), (''alt'', 0xffe9), (''alt_l'', 0xffe9), (''alt_r'', 0xffea),
     (''super'', 0xffeb), (''super_l'', 0xffeb), (''super_r'', 0xffec), (''win'', 0xffeb),
     (''meta'', 0xffeb), (''space'', 0x0020)]"

definition keysym_for_name :: "string \<Rightarrow> u32 option" where
  "keysym_for_name name = map_of key_names name"

definition character_to_keysym :: "nat \<Rightarrow> u32" where
  "character_to_keysym ch =
     (if 32 \<le> ch \<and> ch \<le> 126 then of_nat ch
      else if ch = 9 then 0xff09
      else if ch = 10 then 0xff0d
      else of_nat ch)"

definition shift_symbols :: string where
  "shift_symbols = ''!@#$%^&*()_+{}|:<>?~'' @ [CHR 0x22]"

definition is_shift_symbol :: "nat \<Rightarrow> bool" where
  "is_shift_symbol ch \<longleftrightarrow> ch \<in> byte ` set shift_symbols"

definition is_uppercase :: "linux_system \<Rightarrow> nat \<Rightarrow> bool" where
  "is_uppercase L ch \<longleftrightarrow> (if ch < 128 then 65 \<le> ch \<and> ch \<le> 90 else ls_uppercase L ch)"

text \<open>\<open>keysym_for_name(key).or_else(|| key.chars().next().map(character_to_keysym))\<close>\<close>

definition key_keysym :: "string \<Rightarrow> u32 option" where
  "key_keysym key = (case keysym_for_name key of
       Some k \<Rightarrow> Some k
     | None \<Rightarrow> (case chars key of [] \<Rightarrow> None | c # _ \<Rightarrow> Some (character_to_keysym c)))"

section \<open>X11\<close>

definition connect_x11 :: "linux_system \<Rightarrow> x_setup input" where
  "connect_x11 L = ask_native (ls_x11 L)"

text \<open>One request that carries an event, and \<open>flush\<close>.\<close>

definition send_event :: "linux_system \<Rightarrow> input_event \<Rightarrow> unit input" where
  "send_event L e = do {
     update_exec (dk_events_update (\<lambda>l. l @ [e]));
     ask_ok (ls_request L)
   }"

definition flush :: "linux_system \<Rightarrow> unit input" where
  "flush L = ask_ok (ls_request L)"

definition send_and_flush :: "linux_system \<Rightarrow> input_event \<Rightarrow> unit input" where
  "send_and_flush L e = try_bind (send_event L e) (\<lambda>_. flush L)"

definition fake_key :: "linux_system \<Rightarrow> x_setup \<Rightarrow> u8 \<Rightarrow> u8 \<Rightarrow> unit input" where
  "fake_key L s kind keycode = send_and_flush L (FakeInput kind keycode (xs_root s) 0 0)"

definition mapping_slots :: "nat \<Rightarrow> nat \<Rightarrow> (nat \<times> nat) list" where
  "mapping_slots cnt levels = List.product [0..<cnt] [0..<levels]"

definition find_keycode :: "u8 \<Rightarrow> u8 \<Rightarrow> u8 \<Rightarrow> u32 list \<Rightarrow> u32 \<Rightarrow> native_error + u8" where
  "find_keycode min_keycode cnt per_keycode keysyms keysym =
     (let levels = unat per_keycode in
      if levels = 0 then Inl NativeError
      else case find (\<lambda>(offset, level). offset * levels + level < length keysyms
                        \<and> keysyms ! (offset * levels + level) = keysym)
             (mapping_slots (unat cnt) levels) of
        None \<Rightarrow> Inl NativeError
      | Some (offset, _) \<Rightarrow>
          if unat min_keycode + offset < 256 then Inr (of_nat (unat min_keycode + offset))
          else Inl NativeError)"

definition keysym_to_keycode :: "linux_system \<Rightarrow> x_setup \<Rightarrow> u32 \<Rightarrow> u8 input" where
  "keysym_to_keycode L s keysym =
     (let cnt = xs_max_keycode s - xs_min_keycode s + 1 in
      try_bind (ask_native (\<lambda>t. ls_keyboard L t (xs_min_keycode s) cnt)) (\<lambda>(per_keycode, keysyms).
      ret (find_keycode (xs_min_keycode s) cnt per_keycode keysyms keysym)))"

definition as_i16 :: "i64 \<Rightarrow> i16" where
  "as_i16 n = word_of_int n"

definition warp :: "x_setup \<Rightarrow> native_point \<Rightarrow> input_event" where
  "warp s p = Warp (xs_root s) (as_i16 (p_x p)) (as_i16 (p_y p))"

fun x11_button :: "mouse_button \<Rightarrow> u8" where
  "x11_button LeftButton = 1"
| "x11_button MiddleButton = 2"
| "x11_button RightButton = 3"

definition x11_click :: "linux_system \<Rightarrow> native_point \<Rightarrow> mouse_button \<Rightarrow> unit input" where
  "x11_click L p button =
     try_bind (connect_x11 L) (\<lambda>s.
     let event = (\<lambda>kind. FakeInput kind (x11_button button) (xs_root s) (as_i16 (p_x p)) (as_i16 (p_y p))) in
     try_bind (send_event L (warp s p)) (\<lambda>_.
     try_bind (send_event L (event 4)) (\<lambda>_.
     try_bind (send_event L (event 5)) (\<lambda>_.
     flush L))))"

definition x11_move :: "linux_system \<Rightarrow> native_point \<Rightarrow> unit input" where
  "x11_move L p =
     try_bind (connect_x11 L) (\<lambda>s.
     try_bind (send_event L (warp s p)) (\<lambda>_.
     flush L))"

text \<open>The keys of a combination, then their presses or releases.\<close>

fun keycodes_of :: "linux_system \<Rightarrow> x_setup \<Rightarrow> string list \<Rightarrow> u8 list input" where
  "keycodes_of L s [] = ret (Inr [])"
| "keycodes_of L s (key # keys) =
     try_bind (native_ok (key_keysym key)) (\<lambda>keysym.
     try_bind (keysym_to_keycode L s keysym) (\<lambda>keycode.
     try_bind (keycodes_of L s keys) (\<lambda>keycodes. ret (Inr (keycode # keycodes)))))"

fun each :: "('a \<Rightarrow> ('s, 'e + unit) state) \<Rightarrow> 'a list \<Rightarrow> ('s, 'e + unit) state" where
  "each f [] = ret (Inr ())"
| "each f (x # xs) = try_bind (f x) (\<lambda>_. each f xs)"

definition x11_hotkey :: "linux_system \<Rightarrow> string list \<Rightarrow> unit input" where
  "x11_hotkey L keys =
     try_bind (connect_x11 L) (\<lambda>s.
     try_bind (keycodes_of L s keys) (\<lambda>keycodes.
     try_bind (each (fake_key L s 2) keycodes) (\<lambda>_.
     each (fake_key L s 3) (rev keycodes))))"

text \<open>\<open>0..count\<close>: the presses after the first wait first.\<close>

definition press_keysym :: "string \<Rightarrow> ('s, native_error + u32) state" where
  "press_keysym key = (let keysym = (case key_keysym key of None \<Rightarrow> 0 | Some k \<Rightarrow> k) in
     native_if (keysym \<noteq> 0) keysym)"

definition x11_press :: "linux_system \<Rightarrow> string \<Rightarrow> nat \<Rightarrow> u64 option \<Rightarrow> unit input" where
  "x11_press L key cnt delay_ms =
     try_bind (connect_x11 L) (\<lambda>s.
     try_bind (press_keysym key) (\<lambda>keysym.
     try_bind (keysym_to_keycode L s keysym) (\<lambda>keycode.
     each (\<lambda>i. do {
         (if i > 0 then pause delay_ms else ret ());
         try_bind (fake_key L s 2 keycode) (\<lambda>_. fake_key L s 3 keycode)
       }) [0..<cnt])))"

definition x11_type_char :: "linux_system \<Rightarrow> x_setup \<Rightarrow> u64 option \<Rightarrow> nat \<Rightarrow> unit input" where
  "x11_type_char L s delay_ms ch =
     (let needs_shift = (is_uppercase L ch \<or> is_shift_symbol ch);
          with_shift = (\<lambda>kind. if needs_shift
             then try_bind (keysym_to_keycode L s 0xffe1) (fake_key L s kind) else ret (Inr ())) in
      try_bind (keysym_to_keycode L s (character_to_keysym ch)) (\<lambda>keycode.
      try_bind (with_shift 2) (\<lambda>_.
      try_bind (fake_key L s 2 keycode) (\<lambda>_.
      try_bind (with_shift 3) (\<lambda>_. do { pause delay_ms; ret (Inr ()) })))))"

definition x11_type_text :: "linux_system \<Rightarrow> string \<Rightarrow> bool \<Rightarrow> bool \<Rightarrow> u64 option \<Rightarrow> unit input" where
  "x11_type_text L txt clear press_return delay_ms =
     try_bind (if clear then
         try_bind (x11_hotkey L [''ctrl'', ''a'']) (\<lambda>_. do {
           pause (Some 10);
           try_bind (x11_press L ''BackSpace'' 1 None) (\<lambda>_. do { pause (Some 10); ret (Inr ()) })
         })
       else ret (Inr ())) (\<lambda>_.
     try_bind (connect_x11 L) (\<lambda>s.
     try_bind (each (x11_type_char L s delay_ms) (chars txt)) (\<lambda>_.
     if press_return then
       try_bind (keysym_to_keycode L s 0xff0d) (\<lambda>keycode.
       try_bind (fake_key L s 2 keycode) (\<lambda>_. fake_key L s 3 keycode))
     else ret (Inr ()))))"

fun x11_scroll_buttons :: "direction \<Rightarrow> u8 \<times> u8" where
  "x11_scroll_buttons Up = (4, 5)"
| "x11_scroll_buttons Down = (5, 4)"
| "x11_scroll_buttons Leftward = (6, 7)"
| "x11_scroll_buttons Rightward = (7, 6)"

definition x11_scroll :: "linux_system \<Rightarrow> direction \<Rightarrow> nat \<Rightarrow> unit input" where
  "x11_scroll L direction amount =
     try_bind (connect_x11 L) (\<lambda>s.
     let (down, up) = x11_scroll_buttons direction in
     each (\<lambda>_. try_bind (send_and_flush L (FakeInput 4 down (xs_root s) 0 0)) (\<lambda>_.
               send_and_flush L (FakeInput 5 up (xs_root s) 0 0))) [0..<amount])"

section \<open>The portal\<close>

text \<open>A call whose reply must be the status zero.\<close>

definition status_ok :: "portal_reply option \<Rightarrow> bool" where
  "status_ok reply = (case reply of None \<Rightarrow> False | Some r \<Rightarrow> pr_status r = Some 0)"

definition portal_create_session :: "linux_system \<Rightarrow> string input" where
  "portal_create_session L = do {
     reply \<leftarrow> ask (\<lambda>t. ls_portal L t CreateSession);
     if \<not> status_ok reply then ret (Inl NativeError)
     else native_ok (Option.bind reply (\<lambda>r. Option.bind (pr_results r) (\<lambda>results.
       case results ''session_handle'' of Some (PortalStr s) \<Rightarrow> Some s | _ \<Rightarrow> None)))
   }"

definition portal_authorize :: "linux_system \<Rightarrow> string \<Rightarrow> unit input" where
  "portal_authorize L handle = ask_ok (\<lambda>t. status_ok (ls_portal L t (Authorize handle (1 OR 2))))"

definition portal_start :: "linux_system \<Rightarrow> string \<Rightarrow> unit input" where
  "portal_start L handle = ask_ok (\<lambda>t. status_ok (ls_portal L t (Start handle)))"

definition ensure_portal_session :: "linux_system \<Rightarrow> string input" where
  "ensure_portal_session L = do {
     poisoned \<leftarrow> get_exec dk_portal_poisoned;
     session \<leftarrow> get_exec dk_portal;
     if poisoned then ret (Inl NativeError)
     else case session of
       Some handle \<Rightarrow> ret (Inr handle)
     | None \<Rightarrow>
         try_bind (ask_ok (ls_bus L)) (\<lambda>_.
         try_bind (portal_create_session L) (\<lambda>handle.
         try_bind (portal_authorize L handle) (\<lambda>_.
         try_bind (portal_start L handle) (\<lambda>_. do {
           update_exec (dk_portal_update (\<lambda>_. Some handle));
           ret (Inr handle)
         }))))
   }"

definition portal_click :: "linux_system \<Rightarrow> mouse_button \<Rightarrow> unit input" where
  "portal_click L button =
     try_bind (ensure_portal_session L) (\<lambda>handle.
     let code = (case button of LeftButton \<Rightarrow> 0x110 | RightButton \<Rightarrow> 0x111 | MiddleButton \<Rightarrow> 0x112) in
     try_bind (send_event L (PortalButton handle code 1)) (\<lambda>_.
     send_event L (PortalButton handle code 0)))"

definition int_f64 :: "int \<Rightarrow> f64" where
  "int_f64 n = f64_of_rat (of_int n)"

definition portal_move :: "linux_system \<Rightarrow> native_point \<Rightarrow> unit input" where
  "portal_move L p =
     try_bind (ensure_portal_session L) (\<lambda>handle.
     send_event L (PortalMotion handle (int_f64 (p_x p)) (int_f64 (p_y p))))"

definition portal_key :: "linux_system \<Rightarrow> string \<Rightarrow> u32 \<Rightarrow> unit input" where
  "portal_key L handle keysym =
     try_bind (send_event L (PortalKeysym handle keysym 1)) (\<lambda>_.
     send_event L (PortalKeysym handle keysym 0))"

fun keysyms_of :: "string list \<Rightarrow> u32 list option" where
  "keysyms_of [] = Some []"
| "keysyms_of (key # keys) = Option.bind (key_keysym key) (\<lambda>k. map_option ((#) k) (keysyms_of keys))"

definition portal_hotkey :: "linux_system \<Rightarrow> string list \<Rightarrow> unit input" where
  "portal_hotkey L keys =
     try_bind (ensure_portal_session L) (\<lambda>handle.
     try_bind (native_ok (keysyms_of keys)) (\<lambda>keysyms.
     try_bind (each (\<lambda>k. send_event L (PortalKeysym handle k 1)) keysyms) (\<lambda>_.
     each (\<lambda>k. send_event L (PortalKeysym handle k 0)) (rev keysyms))))"

definition portal_press :: "linux_system \<Rightarrow> string \<Rightarrow> nat \<Rightarrow> u64 option \<Rightarrow> unit input" where
  "portal_press L key cnt delay_ms =
     try_bind (press_keysym key) (\<lambda>keysym.
     try_bind (ensure_portal_session L) (\<lambda>handle.
     each (\<lambda>i. do {
         (if i > 0 then pause delay_ms else ret ());
         portal_key L handle keysym
       }) [0..<cnt]))"

definition portal_type_text :: "linux_system \<Rightarrow> string \<Rightarrow> bool \<Rightarrow> bool \<Rightarrow> u64 option \<Rightarrow> unit input" where
  "portal_type_text L txt clear press_return delay_ms =
     try_bind (if clear then
         try_bind (portal_hotkey L [''ctrl'', ''a'']) (\<lambda>_. do {
           pause (Some 10);
           try_bind (portal_press L ''BackSpace'' 1 None) (\<lambda>_. do { pause (Some 10); ret (Inr ()) })
         })
       else ret (Inr ())) (\<lambda>_.
     try_bind (ensure_portal_session L) (\<lambda>handle.
     try_bind (each (\<lambda>ch. try_bind (portal_key L handle (character_to_keysym ch))
         (\<lambda>_. do { pause delay_ms; ret (Inr ()) })) (chars txt)) (\<lambda>_.
     if press_return then portal_key L handle 0xff0d else ret (Inr ()))))"

definition portal_scroll :: "linux_system \<Rightarrow> direction \<Rightarrow> nat \<Rightarrow> unit input" where
  "portal_scroll L direction amount =
     try_bind (ensure_portal_session L) (\<lambda>handle.
     let step = int_f64 (10 * int amount);
         (dx, dy) = (case direction of
             Up \<Rightarrow> (Finite 0, f64_neg step) | Down \<Rightarrow> (Finite 0, step)
           | Leftward \<Rightarrow> (f64_neg step, Finite 0) | Rightward \<Rightarrow> (step, Finite 0)) in
     send_event L (PortalAxis handle dx dy))"

section \<open>The operations\<close>

definition native_click :: "linux_system \<Rightarrow> native_point \<Rightarrow> mouse_button \<Rightarrow> unit input" where
  "native_click L p button = by_session L (x11_click L p button) (portal_click L button)"

definition native_move :: "linux_system \<Rightarrow> native_point \<Rightarrow> unit input" where
  "native_move L p = by_session L (x11_move L p) (portal_move L p)"

definition native_type_text :: "linux_system \<Rightarrow> string \<Rightarrow> bool \<Rightarrow> bool \<Rightarrow> u64 option \<Rightarrow> unit input" where
  "native_type_text L txt clear press_return delay_ms =
     (if nul \<in> set txt then ret (Inl NativeError)
      else by_session L (x11_type_text L txt clear press_return delay_ms)
             (portal_type_text L txt clear press_return delay_ms))"

definition native_press :: "linux_system \<Rightarrow> string \<Rightarrow> nat \<Rightarrow> u64 option \<Rightarrow> unit input" where
  "native_press L key cnt delay_ms =
     (if cnt = 0 \<or> key = [] then ret (Inl NativeError)
      else by_session L (x11_press L key cnt delay_ms) (portal_press L key cnt delay_ms))"

definition native_hotkey :: "linux_system \<Rightarrow> string list \<Rightarrow> unit input" where
  "native_hotkey L keys =
     (if keys = [] then ret (Inl NativeError)
      else by_session L (x11_hotkey L keys) (portal_hotkey L keys))"

definition native_scroll :: "linux_system \<Rightarrow> direction \<Rightarrow> nat \<Rightarrow> unit input" where
  "native_scroll L direction amount =
     (if amount = 0 then ret (Inl NativeError)
      else by_session L (x11_scroll L direction amount) (portal_scroll L direction amount))"

text \<open>The text goes to the clipboard tool, then the paste keys are pressed.\<close>

definition copy_with :: "linux_system \<Rightarrow> string \<Rightarrow> string \<Rightarrow> unit input" where
  "copy_with L tool txt = try_bind (secure_command L tool) (\<lambda>path. do {
     update_exec (dk_events_update (\<lambda>l. l @ [Copied path txt]));
     ask_ok (ls_feed L)
   })"

definition native_paste :: "linux_system \<Rightarrow> string \<Rightarrow> unit input" where
  "native_paste L txt =
     (if nul \<in> set txt then ret (Inl NativeError)
      else by_session L
        (try_bind (copy_with L ''xclip'' txt) (\<lambda>_. x11_hotkey L [''ctrl'', ''v'']))
        (try_bind (copy_with L ''wl-copy'' txt) (\<lambda>_. portal_hotkey L [''ctrl'', ''v''])))"

section \<open>Screens\<close>

definition screenshot_with :: "linux_system \<Rightarrow> string \<Rightarrow> string list \<Rightarrow> string input" where
  "screenshot_with L tool arguments = try_bind (secure_command L tool) (\<lambda>path.
     try_bind (ask_native (\<lambda>t. ls_output L t path arguments)) (\<lambda>png. native_if (png \<noteq> []) png))"

definition native_screenshot :: "linux_system \<Rightarrow> string input" where
  "native_screenshot L = by_session L (screenshot_with L ''scrot'' [''-o'', ''/dev/stdout''])
     (screenshot_with L ''grim'' [''-''])"

definition screen_content_hash :: "hashing \<Rightarrow> linux_system \<Rightarrow> string input" where
  "screen_content_hash H L = try_bind (native_screenshot L) (\<lambda>png. ret (Inr (sha256_hex H png)))"

definition display_json :: "string \<Rightarrow> i64 \<Rightarrow> i64 \<Rightarrow> i64 \<Rightarrow> i64 \<Rightarrow> json" where
  "display_json name x y width height = JObj [(''display_id'', JStr name), (''height'', JInt height),
     (''width'', JInt width), (''x'', JInt x), (''y'', JInt y)]"

fun crtc_displays :: "linux_system \<Rightarrow> u32 list \<Rightarrow> json list input" where
  "crtc_displays L [] = ret (Inr [])"
| "crtc_displays L (crtc # rest) =
     try_bind (ask_native (\<lambda>t. ls_crtc L t crtc)) (\<lambda>info.
     try_bind (crtc_displays L rest) (\<lambda>displays.
     ret (Inr ((if 0 < ci_width info \<and> 0 < ci_height info
       then [display_json (show_nat (unat crtc)) (sint (ci_x info)) (sint (ci_y info))
               (uint (ci_width info)) (uint (ci_height info))] else []) @ displays))))"

definition x11_screens :: "linux_system \<Rightarrow> json input" where
  "x11_screens L =
     try_bind (connect_x11 L) (\<lambda>s.
     try_bind (ask_native (ls_crtcs L)) (\<lambda>crtcs.
     try_bind (crtc_displays L crtcs) (\<lambda>displays.
     ret (Inr (JArr (if displays = []
       then [display_json ''0'' 0 0 (uint (xs_width s)) (uint (xs_height s))] else displays))))))"

text \<open>\<open>parse_wlr_randr\<close>: an output starts at a line that is not indented.\<close>

definition starts_with :: "string \<Rightarrow> string \<Rightarrow> bool" where
  "starts_with s t \<longleftrightarrow> take (length t) s = t"

fun contains_text :: "string \<Rightarrow> string \<Rightarrow> bool" where
  "contains_text [] t = (t = [])"
| "contains_text (c # s) t = (starts_with (c # s) t \<or> contains_text s t)"

definition finished_output :: "string option \<Rightarrow> bool \<Rightarrow> json list" where
  "finished_output current on = (case current of
       Some name \<Rightarrow> if on then [display_json name 0 0 1920 1080] else []
     | None \<Rightarrow> [])"

fun wlr_outputs :: "string option \<Rightarrow> bool \<Rightarrow> string list \<Rightarrow> json list" where
  "wlr_outputs current on [] = finished_output current on"
| "wlr_outputs current on (line # rest) =
     (let trimmed = trim line in
      if \<not> starts_with line '' '' \<and> \<not> starts_with line [CHR 0x09] \<and> trimmed \<noteq> []
      then finished_output current on
        @ wlr_outputs (Some (case split_whitespace trimmed of [] \<Rightarrow> [] | w # _ \<Rightarrow> w)) False rest
      else if starts_with trimmed ''Enabled:'' then wlr_outputs current (contains_text trimmed ''yes'') rest
      else wlr_outputs current on rest)"

definition some_displays :: "json list \<Rightarrow> native_error + json" where
  "some_displays displays = (if displays = [] then Inl NativeError else Inr (JArr displays))"

definition parse_wlr_randr :: "string \<Rightarrow> native_error + json" where
  "parse_wlr_randr stdout =
     (if \<not> valid_utf8 stdout then Inl NativeError
      else some_displays (wlr_outputs None False (text_lines [] stdout)))"

definition rect_field :: "json \<Rightarrow> string \<Rightarrow> i64 \<Rightarrow> i64" where
  "rect_field output k fallback =
     (case Option.bind (jget output ''rect'') (\<lambda>r. get_i64 r k) of None \<Rightarrow> fallback | Some n \<Rightarrow> n)"

definition swaymsg_display :: "json \<Rightarrow> json list" where
  "swaymsg_display output =
     (let name = (case get_str output ''name'' of None \<Rightarrow> ''unknown'' | Some s \<Rightarrow> s);
          width = rect_field output ''width'' 1920; height = rect_field output ''height'' 1080 in
      if 0 < width \<and> 0 < height
      then [display_json name (rect_field output ''x'' 0) (rect_field output ''y'' 0) width height]
      else [])"

definition parse_swaymsg_outputs :: "linux_system \<Rightarrow> string \<Rightarrow> native_error + json" where
  "parse_swaymsg_outputs L stdout =
     (if \<not> valid_utf8 stdout then Inl NativeError
      else case ls_json L stdout of
        None \<Rightarrow> Inl NativeError
      | Some outputs \<Rightarrow> some_displays (concat (map swaymsg_display outputs)))"

text \<open>The output of a tool, if it is installed and succeeds.\<close>

definition tool_output :: "linux_system \<Rightarrow> string \<Rightarrow> string list \<Rightarrow> (desktop host, string option) state" where
  "tool_output L tool arguments = do {
     r \<leftarrow> try_bind (secure_command L tool) (\<lambda>path. ask_native (\<lambda>t. ls_output L t path arguments));
     ret (case r of Inl _ \<Rightarrow> None | Inr out \<Rightarrow> Some out)
   }"

definition wayland_screens :: "linux_system \<Rightarrow> json input" where
  "wayland_screens L = do {
     wlr \<leftarrow> tool_output L ''wlr-randr'' [];
     case wlr of
       Some out \<Rightarrow> ret (parse_wlr_randr out)
     | None \<Rightarrow> do {
         sway \<leftarrow> tool_output L ''swaymsg'' [''-t'', ''get_outputs'', ''-r''];
         case sway of
           Some out \<Rightarrow> ret (parse_swaymsg_outputs L out)
         | None \<Rightarrow> ret (Inr (JArr [display_json ''0'' 0 0 1920 1080]))
       }
   }"

definition native_screens :: "linux_system \<Rightarrow> json input" where
  "native_screens L = by_session L (x11_screens L) (wayland_screens L)"

end
