(* ===== verification/LinuxFacts.thy ===== *)
theory LinuxFacts
  imports LinuxInput Trace
begin

text \<open>
  Which events the input operations of Linux hand over.  \<open>emits P m\<close>: the events that \<open>m\<close> adds
  satisfy \<open>P\<close>, together with its result; \<open>still m\<close>: it adds none.  \<open>held\<close> are the keys and
  buttons that a sequence of events leaves pressed.
\<close>

abbreviation emits :: "('a \<Rightarrow> input_event list \<Rightarrow> bool) \<Rightarrow> (desktop host, 'a) state \<Rightarrow> bool" where
  "emits \<equiv> grows (\<lambda>h. dk_events (h_exec h))"

abbreviation still :: "(desktop host, 'a) state \<Rightarrow> bool" where
  "still \<equiv> emits (\<lambda>_ l. l = [])"

section \<open>Steps that send nothing\<close>

named_theorems still_rules \<open>computations that hand over no event\<close>

lemma still_return [still_rules]: "still (ret x)"
  by (rule grows_return) simp

lemma still_ask [still_rules]: "still (ask f)" "still (get_exec g)"
  by (rule grows_unchanged, simp add: ask_def get_exec_def)+

lemma still_bind [still_rules]: "still m \<Longrightarrow> (\<And>x. still (f x)) \<Longrightarrow> still (State_Monad.bind m f)"
  by (rule grows_bind, assumption) simp

lemma still_try [still_rules]: "still m \<Longrightarrow> (\<And>x. still (f x)) \<Longrightarrow> still (try_bind m f)"
  by (rule grows_try, assumption) simp_all

lemma still_if [still_rules]: "still m \<Longrightarrow> still n \<Longrightarrow> still (if c then m else n)"
  by simp

lemma still_case_option [still_rules]:
  "still m \<Longrightarrow> (\<And>x. still (f x)) \<Longrightarrow> still (case r of None \<Rightarrow> m | Some x \<Rightarrow> f x)"
  by (cases r) simp_all

lemma still_case_prod [still_rules]: "(\<And>a b. still (f a b)) \<Longrightarrow> still (case p of (a, b) \<Rightarrow> f a b)"
  by (cases p) simp

lemma still_native [still_rules]:
  "still (native_if c x)" "still (native_ok v)" "still (ask_native f')" "still (ask_ok f'')" "still (pause d)"
  unfolding native_if_def native_ok_def ask_native_def ask_ok_def pause_def
  by (intro still_rules)+

lemma still_update [still_rules]: "still (update_exec (dk_portal_update f))"
  by (rule grows_unchanged) (simp add: update_exec_def)

lemma still_find_command [still_rules]: "still (find_command L name directories)"
  by (induction directories) (auto intro!: still_rules simp: Let_def)

lemma still_connections [still_rules]:
  "still (connect_x11 L)" "still (flush L)" "still (keysym_to_keycode L s k)" "still (press_keysym key)"
  "still (ensure_portal_session L)" "still (secure_command L name)"
  unfolding connect_x11_def flush_def keysym_to_keycode_def press_keysym_def ensure_portal_session_def
    portal_create_session_def portal_authorize_def portal_start_def secure_command_def Let_def
  by (intro still_rules)+

lemma still_keycodes_of [still_rules]: "still (keycodes_of L s keys)"
  by (induction keys) (auto intro!: still_rules)

lemma still_by_session [still_rules]: "still m \<Longrightarrow> still n \<Longrightarrow> still (by_session L m n)"
  unfolding by_session_def by (intro still_rules)

lemma still_crtc_displays [still_rules]: "still (crtc_displays L crtcs)"
  by (induction crtcs) (auto intro!: still_rules)

lemma still_screens [still_rules]:
  "still (native_screens L)" "still (screen_content_hash H L)"
  unfolding native_screens_def x11_screens_def wayland_screens_def tool_output_def
    screen_content_hash_def native_screenshot_def screenshot_with_def
  by (intro still_rules)+

section \<open>What a step sends\<close>

text \<open>The sequences of a successful operation are described; a failed one may stop anywhere.\<close>

definition sends :: "(input_event list \<Rightarrow> bool) \<Rightarrow> (desktop host, 'e + 'a) state \<Rightarrow> bool" where
  "sends P m \<longleftrightarrow> emits (\<lambda>r l. \<forall>x. r = Inr x \<longrightarrow> P l) m"

lemma sends_emits: "emits (\<lambda>_ l. Q l) m \<Longrightarrow> (\<And>l. Q l \<Longrightarrow> P l) \<Longrightarrow> sends P m"
  unfolding sends_def by (rule grows_mono, assumption) blast

lemma sends_mono: "sends Q m \<Longrightarrow> (\<And>l. Q l \<Longrightarrow> P l) \<Longrightarrow> sends P m"
  unfolding sends_def by (rule grows_mono, assumption) blast

lemma sends_still: "still m \<Longrightarrow> P [] \<Longrightarrow> sends P m"
  by (rule sends_emits, assumption) simp

lemma sends_refuse: "sends P (ret (Inl e))"
  unfolding sends_def by (rule grows_return) simp

lemma sends_try:
  assumes "sends Q m" and "\<And>x l. Q l \<Longrightarrow> sends (\<lambda>l'. P (l @ l')) (f x)"
  shows "sends P (try_bind m f)"
  unfolding sends_def by (rule grows_try [OF assms(1) [unfolded sends_def]]) (use assms(2) in \<open>auto simp: sends_def\<close>)

lemma sends_after:
  assumes "still m" and "\<And>x. sends P (f x)"
  shows "sends P (try_bind m f)"
  by (rule sends_try [where Q = "\<lambda>l. l = []"], rule sends_emits [OF assms(1)])
    (use assms(2) in simp_all)

lemma sends_do: "still m \<Longrightarrow> (\<And>x. sends P (f x)) \<Longrightarrow> sends P (State_Monad.bind m f)"
  unfolding sends_def by (rule grows_bind, assumption) simp

lemma sendsD:
  assumes "sends P m" and "run_state m h = (Inr x, h')"
  obtains l where "dk_events (h_exec h') = dk_events (h_exec h) @ l" "P l"
  using growsD [OF assms(1) [unfolded sends_def] assms(2)] by blast

lemma emits_send_event: "emits (\<lambda>_ l. l = [e]) (send_event L e)"
  unfolding send_event_def
proof (rule grows_bind [where Q = "\<lambda>_ l. l = [e]"])
  show "emits (\<lambda>_ l. l = [e]) (update_exec (dk_events_update (\<lambda>l. l @ [e])))"
    by (simp add: grows_def update_exec_def)
  show "l = [e] \<Longrightarrow> emits (\<lambda>_ l'. l @ l' = [e]) (ask_ok (ls_request L))" for l
    by (rule grows_mono [OF still_native(4)]) simp
qed

lemma sends_send_event: "P [e] \<Longrightarrow> sends P (send_event L e)"
  by (rule sends_emits [OF emits_send_event]) simp

lemma emits_send_and_flush: "emits (\<lambda>_ l. l = [e]) (send_and_flush L e)"
  unfolding send_and_flush_def
  by (rule grows_try [OF emits_send_event]) (auto intro: grows_mono [OF still_connections(2)])

lemma sends_send_and_flush: "P [e] \<Longrightarrow> sends P (send_and_flush L e)"
  by (rule sends_emits [OF emits_send_and_flush]) simp

lemma sends_each:
  assumes "\<And>x. x \<in> set xs \<Longrightarrow> sends (\<lambda>l. l = g x) (f x)"
  shows "sends (\<lambda>l. l = concat (map g xs)) (each f xs)"
  using assms
proof (induction xs)
  case Nil
  show ?case by (simp add: sends_def grows_return)
next
  case (Cons x xs)
  show ?case
    unfolding each.simps
  proof (rule sends_try)
    show "sends (\<lambda>l. l = g x) (f x)" by (rule Cons.prems) simp
    have "sends (\<lambda>l. l = concat (map g xs)) (each f xs)" by (rule Cons.IH, rule Cons.prems, simp)
    then show "l = g x \<Longrightarrow> sends (\<lambda>l'. l @ l' = concat (map g (x # xs))) (each f xs)" for l
      by (rule sends_mono) simp
  qed
qed

text \<open>The same for a property that every part has and that sequences keep.\<close>

lemma sends_each_all:
  assumes "\<And>x. x \<in> set xs \<Longrightarrow> sends P (f x)" and "P []" and "\<And>l l'. P l \<Longrightarrow> P l' \<Longrightarrow> P (l @ l')"
  shows "sends P (each f xs)"
  using assms(1)
proof (induction xs)
  case Nil
  show ?case by (simp add: sends_def grows_return assms(2))
next
  case (Cons x xs)
  show ?case
    unfolding each.simps
  proof (rule sends_try)
    show "sends P (f x)" by (rule Cons.prems) simp
    have "sends P (each f xs)" by (rule Cons.IH, rule Cons.prems, simp)
    then show "P l \<Longrightarrow> sends (\<lambda>l'. P (l @ l')) (each f xs)" for l
      by (rule sends_mono) (simp add: assms(3))
  qed
qed

section \<open>Held keys and buttons\<close>

datatype held_input = HeldKey u8 | HeldButton u8 | HeldKeysym u32 | HeldPortalButton u32

fun change :: "input_event \<Rightarrow> (held_input \<times> bool) option" where
  "change (FakeInput kind detail _ _ _) =
     (if kind = 2 then Some (HeldKey detail, True)
      else if kind = 3 then Some (HeldKey detail, False)
      else if kind = 4 then Some (HeldButton detail, True)
      else if kind = 5 then Some (HeldButton detail, False)
      else None)"
| "change (PortalKeysym _ keysym pressed) = Some (HeldKeysym keysym, pressed \<noteq> 0)"
| "change (PortalButton _ button pressed) = Some (HeldPortalButton button, pressed \<noteq> 0)"
| "change _ = None"

definition hold :: "held_input set \<Rightarrow> input_event \<Rightarrow> held_input set" where
  "hold K e = (case change e of
       None \<Rightarrow> K
     | Some (k, True) \<Rightarrow> insert k K
     | Some (k, False) \<Rightarrow> K - {k})"

definition held :: "input_event list \<Rightarrow> held_input set" where
  "held l = foldl hold {} l"

text \<open>A sequence that leaves nothing pressed that was not pressed before.\<close>

definition releases :: "input_event list \<Rightarrow> bool" where
  "releases l \<longleftrightarrow> (\<forall>K. foldl hold K l \<subseteq> K)"

lemma releases_Nil [simp]: "releases []"
  by (simp add: releases_def)

lemma releases_append: "releases l \<Longrightarrow> releases l' \<Longrightarrow> releases (l @ l')"
  by (force simp: releases_def)

lemma releases_held: "releases l \<Longrightarrow> held (l' @ l) \<subseteq> held l'"
  by (simp add: releases_def held_def)

lemma releases_neutral: "change e = None \<Longrightarrow> releases [e]"
  by (simp add: releases_def hold_def)

text \<open>Presses, then the releases of the same.\<close>

lemma foldl_press: "(\<And>x. change (f x) = Some (k x, True)) \<Longrightarrow> foldl hold K (map f xs) = k ` set xs \<union> K"
  by (induction xs arbitrary: K) (auto simp: hold_def)

lemma foldl_release: "(\<And>x. change (f x) = Some (k x, False)) \<Longrightarrow> foldl hold K (map f xs) = K - k ` set xs"
  by (induction xs arbitrary: K) (auto simp: hold_def)

lemma releases_chord:
  assumes "\<And>x. change (f x) = Some (k x, True)" and "\<And>x. change (g x) = Some (k x, False)"
  shows "releases (map f xs @ map g (rev xs))"
  unfolding releases_def by (simp only: foldl_append foldl_press [OF assms(1)] foldl_release [OF assms(2)]) auto

lemma releases_tap:
  "change e = Some (k, True) \<Longrightarrow> change e' = Some (k, False) \<Longrightarrow> releases [e, e']"
  by (auto simp: releases_def hold_def)

section \<open>Operations that release what they press\<close>

named_theorems releasing_rules \<open>operations that leave nothing more pressed\<close>

lemma releasing_still: "still m \<Longrightarrow> sends releases m"
  by (rule sends_still) simp_all

lemma releasing_try: "sends releases m \<Longrightarrow> (\<And>x. sends releases (f x)) \<Longrightarrow> sends releases (try_bind m f)"
  by (rule sends_try, assumption) (rule sends_mono, assumption, simp add: releases_append)

lemma releasing_each: "(\<And>x. sends releases (f x)) \<Longrightarrow> sends releases (each f xs)"
  by (rule sends_each_all) (simp_all add: releases_append)

lemma releasing_if [releasing_rules]:
  "sends releases m \<Longrightarrow> sends releases n \<Longrightarrow> sends releases (if c then m else n)"
  by simp

lemma releasing_neutral: "change e = None \<Longrightarrow> sends releases (send_event L e)"
  by (rule sends_send_event) (rule releases_neutral)

text \<open>One event after another, of which the second undoes the first.\<close>

lemma sends_pair:
  assumes "emits (\<lambda>_ l. l = [e]) m" and "emits (\<lambda>_ l. l = [e']) m'" and "P [e, e']"
  shows "sends P (try_bind m (\<lambda>_. m'))"
proof (rule sends_try)
  show "sends (\<lambda>l. l = [e]) m" by (rule sends_emits [OF assms(1)])
  show "l = [e] \<Longrightarrow> sends (\<lambda>l'. P (l @ l')) m'" for l
    by (rule sends_emits [OF assms(2)]) (use assms(3) in simp)
qed

lemma emits_fake_key: "emits (\<lambda>_ l. l = [FakeInput kind k (xs_root s) 0 0]) (fake_key L s kind k)"
  unfolding fake_key_def by (rule emits_send_and_flush)

lemma releasing_tap [releasing_rules]:
  "sends releases (try_bind (fake_key L s 2 k) (\<lambda>_. fake_key L s 3 k))"
  by (rule sends_pair [OF emits_fake_key emits_fake_key], rule releases_tap) simp_all

lemma releasing_portal_key [releasing_rules]: "sends releases (portal_key L handle k)"
  unfolding portal_key_def
  by (rule sends_pair [OF emits_send_event emits_send_event], rule releases_tap) simp_all

lemma concat_single: "concat (map (\<lambda>x. [f x]) xs) = map f xs"
  by (induction xs) simp_all

lemma sends_chord:
  assumes "\<And>x. emits (\<lambda>_ l. l = [f x]) (m x)" and "\<And>x. emits (\<lambda>_ l. l = [g x]) (m' x)"
  shows "sends (\<lambda>l. l = map f xs @ map g (rev xs)) (try_bind (each m xs) (\<lambda>_. each m' (rev xs)))"
proof (rule sends_try)
  show "sends (\<lambda>l. l = concat (map (\<lambda>x. [f x]) xs)) (each m xs)"
    by (rule sends_each) (rule sends_emits [OF assms(1)], simp)
  have "sends (\<lambda>l. l = concat (map (\<lambda>x. [g x]) (rev xs))) (each m' (rev xs))"
    by (rule sends_each) (rule sends_emits [OF assms(2)], simp)
  then show "l = concat (map (\<lambda>x. [f x]) xs) \<Longrightarrow>
      sends (\<lambda>l'. l @ l' = map f xs @ map g (rev xs)) (each m' (rev xs))" for l
    by (rule sends_mono) (simp add: concat_single)
qed

lemma releasing_x11 [releasing_rules]:
  "sends releases (x11_hotkey L keys)"
  "sends releases (x11_press L key n delay_ms)"
  "sends releases (x11_click L p button)"
  "sends releases (x11_move L p)"
proof -
  show "sends releases (x11_hotkey L keys)"
    unfolding x11_hotkey_def
    by (intro sends_after still_rules sends_mono [OF sends_chord [OF emits_fake_key emits_fake_key]])
      (auto intro!: releases_chord)
  show "sends releases (x11_press L key n delay_ms)"
    unfolding x11_press_def
    by (intro sends_after still_rules releasing_each sends_do releasing_rules)
  show "sends releases (x11_move L p)"
    unfolding x11_move_def
    by (intro sends_after still_rules releasing_try releasing_neutral releasing_still) (simp add: warp_def)
  have "sends releases (try_bind (send_event L e) (\<lambda>_. try_bind (send_event L e') (\<lambda>_. flush L)))"
    if "change e = Some (k, True)" "change e' = Some (k, False)" for e e' k
  proof (rule sends_try)
    show "sends (\<lambda>l. l = [e]) (send_event L e)" by (rule sends_send_event) simp
    have "sends (\<lambda>l. l = [e']) (try_bind (send_event L e') (\<lambda>_. flush L))"
      by (rule sends_try [OF sends_send_event [where P = "\<lambda>l. l = [e']"]])
        (auto intro: sends_still still_rules)
    then show "l = [e] \<Longrightarrow> sends (\<lambda>l'. releases (l @ l')) (try_bind (send_event L e') (\<lambda>_. flush L))" for l
      by (rule sends_mono) (simp add: releases_tap [OF that])
  qed
  note pair = this
  show "sends releases (x11_click L p button)"
    unfolding x11_click_def Let_def
    by (rule sends_after, rule still_rules, rule releasing_try, rule releasing_neutral,
        simp add: warp_def, rule pair) simp_all
qed

lemma releasing_portal [releasing_rules]:
  "sends releases (portal_hotkey L keys)"
  "sends releases (portal_press L key n delay_ms)"
  "sends releases (portal_click L button)"
  "sends releases (portal_move L p)"
  "sends releases (portal_scroll L direction amount)"
proof -
  show "sends releases (portal_hotkey L keys)"
    unfolding portal_hotkey_def
    by (intro sends_after still_rules sends_mono [OF sends_chord [OF emits_send_event emits_send_event]])
      (auto intro!: releases_chord)
  show "sends releases (portal_press L key n delay_ms)"
    unfolding portal_press_def
    by (intro sends_after still_rules releasing_each sends_do releasing_rules)
  show "sends releases (portal_click L button)"
    unfolding portal_click_def Let_def
    by (intro sends_after still_rules sends_pair [OF emits_send_event emits_send_event] releases_tap)
      simp_all
  show "sends releases (portal_move L p)"
    unfolding portal_move_def by (intro sends_after still_rules releasing_neutral) simp
  show "sends releases (portal_scroll L direction amount)"
    unfolding portal_scroll_def Let_def
    by (intro sends_after still_rules) (auto intro!: releasing_neutral split: direction.splits)
qed

lemma releasing_portal_type_text [releasing_rules]:
  "sends releases (portal_type_text L txt clear press_return delay_ms)"
  unfolding portal_type_text_def
  by (intro releasing_try releasing_rules releasing_each sends_do still_rules releasing_still)

lemma releasing_copy [releasing_rules]: "sends releases (copy_with L tool txt)"
  unfolding copy_with_def
proof (intro sends_after still_rules)
  fix path
  have "emits (\<lambda>_ l. l = [Copied path txt]) (update_exec (dk_events_update (\<lambda>l. l @ [Copied path txt])))"
    by (simp add: grows_def update_exec_def)
  then show "sends releases (do {
      update_exec (dk_events_update (\<lambda>l. l @ [Copied path txt]));
      ask_ok (ls_feed L) })"
    unfolding sends_def by (rule grows_bind) (auto intro!: grows_mono [OF still_native(4)] simp: releases_neutral)
qed

lemma releasing_by_session [releasing_rules]:
  "sends releases m \<Longrightarrow> sends releases n \<Longrightarrow> sends releases (by_session L m n)"
  unfolding by_session_def by (simp add: sends_refuse)

lemma releasing_native [releasing_rules]:
  "sends releases (native_click L p button)"
  "sends releases (native_move L p)"
  "sends releases (native_press L key n delay_ms)"
  "sends releases (native_hotkey L keys)"
  "sends releases (native_paste L txt)"
  unfolding native_click_def native_move_def native_press_def native_hotkey_def native_paste_def
  by (intro releasing_rules releasing_try releasing_still still_rules)+

section \<open>Operations that do not\<close>

text \<open>On X11 a typed character that needs no shift is pressed and not released.\<close>

lemma sends_type_char:
  assumes "\<not> is_uppercase L ch" and "\<not> is_shift_symbol ch"
  shows "sends (\<lambda>l. \<exists>k root. l = [FakeInput 2 k root 0 0]) (x11_type_char L s delay_ms ch)"
proof -
  have "sends (\<lambda>l. l = [FakeInput 2 k (xs_root s) 0 0])
      (try_bind (fake_key L s 2 k) (\<lambda>_. try_bind (ret (Inr ())) (\<lambda>_. do { pause delay_ms; ret (Inr ()) })))" for k
    by (rule sends_try [OF sends_emits [OF emits_fake_key]]) (auto intro!: sends_after sends_do sends_still still_rules)
  note pressed = this
  have "sends (\<lambda>l. \<exists>k root. l = [FakeInput 2 k root 0 0])
      (try_bind (keysym_to_keycode L s (character_to_keysym ch)) (\<lambda>k. try_bind (ret (Inr ())) (\<lambda>_.
        try_bind (fake_key L s 2 k) (\<lambda>_. try_bind (ret (Inr ())) (\<lambda>_. do { pause delay_ms; ret (Inr ()) })))))"
    by (rule sends_after, rule still_rules, rule sends_after, rule still_rules,
        rule sends_mono, rule pressed) blast
  then show ?thesis
    unfolding x11_type_char_def Let_def using assms by simp
qed

section \<open>Every operation only adds events\<close>

abbreviation extends :: "(desktop host, 'a) state \<Rightarrow> bool" where
  "extends \<equiv> emits (\<lambda>_ _. True)"

named_theorems extends_rules \<open>operations that only add events\<close>

lemma extends_still: "still m \<Longrightarrow> extends m"
  by (rule grows_mono, assumption) simp

lemma extends_bind [extends_rules]: "extends m \<Longrightarrow> (\<And>x. extends (f x)) \<Longrightarrow> extends (State_Monad.bind m f)"
  by (rule grows_bind)

lemma extends_try [extends_rules]: "extends m \<Longrightarrow> (\<And>x. extends (f x)) \<Longrightarrow> extends (try_bind m f)"
  by (rule grows_try) simp_all

lemma extends_if [extends_rules]: "extends m \<Longrightarrow> extends n \<Longrightarrow> extends (if c then m else n)"
  by simp

lemma extends_case_prod [extends_rules]: "(\<And>a b. extends (f a b)) \<Longrightarrow> extends (case p of (a, b) \<Rightarrow> f a b)"
  by (cases p) simp

lemma extends_each [extends_rules]: "(\<And>x. extends (f x)) \<Longrightarrow> extends (each f xs)"
  by (induction xs) (simp_all add: extends_try extends_still still_return)

lemma extends_update [extends_rules]: "extends (update_exec (dk_events_update (\<lambda>l. l @ [e])))"
  by (simp add: grows_def update_exec_def)

lemma extends_steps [extends_rules]:
  "extends (send_event L e)" "extends (send_and_flush L e)" "extends (fake_key L s kind k)"
  "extends (portal_key L handle keysym)" "extends (copy_with L tool txt)"
  unfolding send_event_def send_and_flush_def fake_key_def portal_key_def copy_with_def
  by (intro extends_rules extends_still still_rules)+

lemma extends_by_session [extends_rules]: "extends m \<Longrightarrow> extends n \<Longrightarrow> extends (by_session L m n)"
  unfolding by_session_def by (simp add: extends_still still_return)

lemma extends_x11 [extends_rules]:
  "extends (x11_hotkey L keys)" "extends (x11_press L key n delay_ms)" "extends (x11_click L p button)"
  "extends (x11_move L p)" "extends (x11_scroll L direction amount)" "extends (x11_type_char L s delay_ms ch)"
  unfolding x11_hotkey_def x11_press_def x11_click_def x11_move_def x11_scroll_def x11_type_char_def Let_def
  by (intro extends_rules extends_still still_rules)+

lemma extends_portal [extends_rules]:
  "extends (portal_hotkey L keys)" "extends (portal_press L key n delay_ms)" "extends (portal_click L button)"
  "extends (portal_move L p)" "extends (portal_scroll L direction amount)"
  unfolding portal_hotkey_def portal_press_def portal_click_def portal_move_def portal_scroll_def Let_def
  by (intro extends_rules extends_still still_rules)+

lemma extends_native [extends_rules]:
  "extends (native_click L p button)" "extends (native_move L p)" "extends (native_press L key n delay_ms)"
  "extends (native_hotkey L keys)" "extends (native_paste L txt)" "extends (native_scroll L direction amount)"
  "extends (native_type_text L txt clear press_return delay_ms)"
  unfolding native_click_def native_move_def native_press_def native_hotkey_def native_paste_def
    native_scroll_def native_type_text_def x11_type_text_def portal_type_text_def
  by (intro extends_rules extends_still still_rules)+

end
