(* ===== verification/LinuxTyping.thy ===== *)
theory LinuxTyping
  imports LinuxFacts
begin

text \<open>
  Exactly which events typing and scrolling hand over: the portal gets every key of the text
  pressed and released; X11 gets presses without releases, and a wheel button that stays down.
\<close>

section \<open>The portal\<close>

definition keystroke :: "string \<Rightarrow> u32 \<Rightarrow> input_event list" where
  "keystroke handle keysym = [PortalKeysym handle keysym 1, PortalKeysym handle keysym 0]"

definition keystrokes :: "string \<Rightarrow> string \<Rightarrow> bool \<Rightarrow> input_event list" where
  "keystrokes handle txt press_return =
     concat (map (\<lambda>ch. keystroke handle (character_to_keysym ch)) (chars txt))
       @ (if press_return then keystroke handle 0xff0d else [])"

lemma sends_portal_key: "sends (\<lambda>l. l = keystroke handle k) (portal_key L handle k)"
  unfolding portal_key_def by (rule sends_pair [OF emits_send_event emits_send_event]) (simp add: keystroke_def)

lemma sends_then_still:
  assumes "sends P m" and "\<And>x. still (f x)"
  shows "sends P (try_bind m f)"
  by (rule sends_try [OF assms(1)], rule sends_still [OF assms(2)]) simp

lemma sends_typed_char:
  "sends (\<lambda>l. l = keystroke handle k) (try_bind (portal_key L handle k) (\<lambda>_. do { pause delay_ms; ret (Inr ()) }))"
  by (rule sends_then_still [OF sends_portal_key]) (intro still_rules)

lemma sends_portal_text:
  "sends (\<lambda>l. \<exists>handle. l = keystrokes handle txt press_return) (portal_type_text L txt False press_return delay_ms)"
proof -
  have letters: "sends (\<lambda>l. l = concat (map (\<lambda>ch. keystroke handle (character_to_keysym ch)) (chars txt)))
      (each (\<lambda>ch. try_bind (portal_key L handle (character_to_keysym ch))
         (\<lambda>_. do { pause delay_ms; ret (Inr ()) })) (chars txt))" for handle
    by (rule sends_each) (rule sends_typed_char)
  have enter: "sends (\<lambda>l. l = (if press_return then keystroke handle 0xff0d else []))
      (if press_return then portal_key L handle 0xff0d else ret (Inr ()))" for handle
    by (auto intro: sends_portal_key sends_still still_rules)
  show ?thesis
    unfolding portal_type_text_def
    by (simp, rule sends_after, rule still_rules, rule sends_after, rule still_rules,
        rule sends_try [OF letters], rule sends_mono [OF enter]) (auto simp: keystrokes_def)
qed

section \<open>X11\<close>

text \<open>Presses of keys, nothing else.\<close>

definition key_presses :: "nat \<Rightarrow> input_event list \<Rightarrow> bool" where
  "key_presses n l \<longleftrightarrow> length l = n \<and> (\<forall>e \<in> set l. \<exists>k w. e = FakeInput 2 k w 0 0)"

lemma key_presses_hold: "key_presses n l \<Longrightarrow> K \<subseteq> foldl hold K l"
proof (induction l arbitrary: n K)
  case (Cons e l)
  then obtain k w where e: "e = FakeInput 2 k w 0 0" by (auto simp: key_presses_def)
  have "key_presses (length l) l" using Cons.prems by (simp add: key_presses_def)
  from Cons.IH [OF this, of "insert (HeldKey k) K"] show ?case by (auto simp: e hold_def)
qed simp

lemma key_presses_held: "key_presses n l \<Longrightarrow> 0 < n \<Longrightarrow> held l \<noteq> {}"
proof (cases l)
  case (Cons e l')
  assume l: "key_presses n l"
  then obtain k w where e: "e = FakeInput 2 k w 0 0" by (auto simp: key_presses_def Cons)
  have "key_presses (length l') l'" using l by (simp add: key_presses_def Cons)
  from key_presses_hold [OF this, of "{HeldKey k}"] show ?thesis
    by (auto simp: held_def Cons e hold_def)
qed (simp add: key_presses_def)

definition plain :: "linux_system \<Rightarrow> string \<Rightarrow> bool" where
  "plain L txt \<longleftrightarrow> (\<forall>ch \<in> set (chars txt). \<not> is_uppercase L ch \<and> \<not> is_shift_symbol ch)"

lemma sends_plain_chars:
  assumes "\<forall>ch \<in> set cs. \<not> is_uppercase L ch \<and> \<not> is_shift_symbol ch"
  shows "sends (key_presses (length cs)) (each (x11_type_char L s delay_ms) cs)"
  using assms
proof (induction cs)
  case Nil
  then show ?case by (auto intro!: sends_still still_rules simp: key_presses_def)
next
  case (Cons c cs)
  have pressed: "sends (\<lambda>l. \<exists>k w. l = [FakeInput 2 k w 0 0]) (x11_type_char L s delay_ms c)"
    by (rule sends_type_char) (use Cons.prems in auto)
  have "sends (key_presses (length cs)) (each (x11_type_char L s delay_ms) cs)"
    by (rule Cons.IH) (use Cons.prems in auto)
  then have "sends (\<lambda>l'. key_presses (length (c # cs)) (l @ l')) (each (x11_type_char L s delay_ms) cs)"
    if "\<exists>k w. l = [FakeInput 2 k w 0 0]" for l
    by (rule sends_mono) (use that in \<open>auto simp: key_presses_def\<close>)
  with pressed show ?case
    unfolding each.simps by (rule sends_try)
qed

lemma sends_plain_text:
  assumes "plain L txt"
  shows "sends (key_presses (length (chars txt))) (x11_type_text L txt False False delay_ms)"
proof -
  have "sends (key_presses (length (chars txt)))
      (try_bind (each (x11_type_char L s delay_ms) (chars txt)) (\<lambda>_. ret (Inr ())))" for s
    by (rule sends_then_still [OF sends_plain_chars]) (use assms in \<open>simp_all add: plain_def still_return\<close>)
  then show ?thesis
    unfolding x11_type_text_def by (simp, intro sends_after [OF still_return] sends_after [OF still_connections(1)])
qed

text \<open>A wheel step presses one button and releases another.\<close>

definition wheel_steps :: "direction \<Rightarrow> u32 \<Rightarrow> nat \<Rightarrow> input_event list" where
  "wheel_steps direction w n = concat (replicate n
     [FakeInput 4 (fst (x11_scroll_buttons direction)) w 0 0, FakeInput 5 (snd (x11_scroll_buttons direction)) w 0 0])"

lemma sends_scroll: "sends (\<lambda>l. \<exists>w. l = wheel_steps direction w n) (x11_scroll L direction n)"
proof -
  obtain down up where b: "x11_scroll_buttons direction = (down, up)" by force
  have step: "sends (\<lambda>l. l = [FakeInput 4 down w 0 0, FakeInput 5 up w 0 0])
      (try_bind (send_and_flush L (FakeInput 4 down w 0 0)) (\<lambda>_. send_and_flush L (FakeInput 5 up w 0 0)))" for w
    by (rule sends_pair [OF emits_send_and_flush emits_send_and_flush]) simp
  have "sends (\<lambda>l. \<exists>w. l = wheel_steps direction w n)
      (each (\<lambda>_. try_bind (send_and_flush L (FakeInput 4 down w 0 0))
         (\<lambda>_. send_and_flush L (FakeInput 5 up w 0 0))) [0..<n])" for w
    by (rule sends_mono [OF sends_each [where g = "\<lambda>_. [FakeInput 4 down w 0 0, FakeInput 5 up w 0 0]"]])
      (auto intro: step simp: wheel_steps_def b map_replicate_const)
  then show ?thesis
    unfolding x11_scroll_def b prod.case Let_def by (intro sends_after [OF still_connections(1)])
qed

lemma concat_replicate_Suc: "concat (replicate (Suc n) xs) = concat (replicate n xs) @ xs"
  by (induction n) simp_all

lemma wheel_held:
  assumes "0 < n"
  shows "held (wheel_steps direction w n) = {HeldButton (fst (x11_scroll_buttons direction))}"
proof -
  have step: "foldl hold K [FakeInput 4 (fst (x11_scroll_buttons direction)) w 0 0,
      FakeInput 5 (snd (x11_scroll_buttons direction)) w 0 0]
    = insert (HeldButton (fst (x11_scroll_buttons direction))) K - {HeldButton (snd (x11_scroll_buttons direction))}" for K
    by (cases direction) (auto simp: hold_def)
  have "foldl hold {} (wheel_steps direction w (Suc n)) = {HeldButton (fst (x11_scroll_buttons direction))}" for n
  proof (induction n)
    case 0
    then show ?case by (cases direction) (simp_all add: wheel_steps_def hold_def)
  next
    case (Suc n)
    have "wheel_steps direction w (Suc (Suc n)) = wheel_steps direction w (Suc n)
        @ [FakeInput 4 (fst (x11_scroll_buttons direction)) w 0 0, FakeInput 5 (snd (x11_scroll_buttons direction)) w 0 0]"
      unfolding wheel_steps_def by (rule concat_replicate_Suc)
    with Suc step show ?case by (cases direction) (simp_all add: hold_def)
  qed
  with assms show ?thesis by (metis Suc_pred held_def)
qed

end
