(* ===== verification/Observations.thy ===== *)
theory Observations
  imports GlobalInput Hashing
begin

text \<open>
  Stored observations (lib.rs: \<open>persist_observation\<close>, \<open>unique_temporary_path\<close>,
  \<open>load_coordinate_observation\<close>): an observation is written to a temporary sibling, which
  then replaces the file.

  The files are a map from paths to bytes; every file-system operation may fail, a write after
  some of its bytes.  \<open>ensure_directory\<close> is reduced to its outcome, \<open>serde_json\<close>'s reader is a
  parameter, and so are the process id and the sequence number and hash that make the temporary
  name unique.
\<close>

type_synonym files = "string \<rightharpoonup> string"

section \<open>Files\<close>

definition on_file :: "(files \<Rightarrow> files) \<Rightarrow> (files host, protocol_error + unit) state" where
  "on_file f = try_bind host_io (\<lambda>_. do { update_exec f; ret (Inr ()) })"

definition create_new :: "string \<Rightarrow> (files host, protocol_error + unit) state" where
  "create_new path = do {
     there \<leftarrow> get_exec (\<lambda>files. files path \<noteq> None);
     if there then ret (Inl (IoError AlreadyExists))
     else on_file (\<lambda>files. files(path \<mapsto> []))
   }"

text \<open>A failed write leaves its first bytes.\<close>

definition append_bytes :: "string \<Rightarrow> string \<Rightarrow> protocol_error \<Rightarrow> (files host, protocol_error + unit) state" where
  "append_bytes path bytes failure = do {
     r \<leftarrow> next_io;
     let written = (case r of IoOk \<Rightarrow> bytes | IoFail k \<Rightarrow> take k bytes);
     update_exec (\<lambda>files. files(path := map_option (\<lambda>old. old @ written) (files path)));
     ret (case r of IoOk \<Rightarrow> Inr () | IoFail _ \<Rightarrow> Inl failure)
   }"

definition rename_file :: "string \<Rightarrow> string \<Rightarrow> (files host, protocol_error + unit) state" where
  "rename_file from_path to_path = on_file (\<lambda>files. files(to_path := files from_path, from_path := None))"

definition remove_file :: "string \<Rightarrow> (files host, protocol_error + unit) state" where
  "remove_file path = on_file (\<lambda>files. files(path := None))"

section \<open>Paths\<close>

definition path_join :: "string \<Rightarrow> string \<Rightarrow> string" where
  "path_join base name =
     (if base = [] \<or> last base = CHR ''/'' then base @ name else base @ ''/'' @ name)"

text \<open>\<open>fallback_temp_dir\<close> is the parameter \<open>fallback\<close>.\<close>

definition observation_root :: "env_vars \<Rightarrow> string \<Rightarrow> string" where
  "observation_root get_env fallback = (case get_env ''XDG_STATE_HOME'' of
       Some dir \<Rightarrow> dir
     | None \<Rightarrow> (case get_env ''HOME'' of
         Some home \<Rightarrow> path_join home ''.local/state''
       | None \<Rightarrow> fallback))"

definition coordinate_observation_path :: "env_vars \<Rightarrow> string \<Rightarrow> string \<Rightarrow> protocol_error + string" where
  "coordinate_observation_path get_env fallback snapshot_id =
     (if \<not> valid_native_snapshot_id snapshot_id then Inl (InvalidRequest ''invalid snapshot ID'')
      else Inr (path_join (path_join (path_join (observation_root get_env fallback) ''praefectus'')
        ''observations'') (snapshot_id @ ''.json'')))"

definition hex_digit :: "nat \<Rightarrow> char" where
  "hex_digit d = (if d < 10 then char_of (48 + d) else char_of (87 + d))"

fun hex_padded :: "nat \<Rightarrow> nat \<Rightarrow> string" where
  "hex_padded 0 n = []"
| "hex_padded (Suc k) n = hex_padded k (n div 16) @ [hex_digit (n mod 16)]"

text \<open>The process id, the sequence number and the hash of a temporary name.\<close>

type_synonym temporary = "u32 \<times> u64 \<times> u64"

fun unique_temporary_path :: "string \<Rightarrow> temporary \<Rightarrow> string" where
  "unique_temporary_path path (process, number, nonce) =
     path @ ''.'' @ show_nat (unat process) @ ''.'' @ show_nat (unat number) @ ''.''
       @ hex_padded 16 (unat nonce) @ ''.tmp''"

section \<open>Writing\<close>

definition write_observation :: "string \<Rightarrow> string \<Rightarrow> (files host, protocol_error + unit) state" where
  "write_observation temporary body =
     try_bind host_io (\<lambda>_.
     try_bind (append_bytes temporary body JsonError) (\<lambda>_.
     try_bind (append_bytes temporary [newline] (IoError OtherIo)) (\<lambda>_.
     host_io)))"

definition persist_observation :: "(nat \<Rightarrow> temporary) \<Rightarrow> string \<Rightarrow> string
    \<Rightarrow> (files host, protocol_error + unit) state" where
  "persist_observation names path body =
     try_bind host_io (\<lambda>_. do {
     unique \<leftarrow> ask names;
     let temporary = unique_temporary_path path unique;
     try_bind (create_new temporary) (\<lambda>_. do {
       replaced \<leftarrow> try_bind (write_observation temporary body) (\<lambda>_. rename_file temporary path);
       case replaced of
         Inl e \<Rightarrow> do { _ \<leftarrow> remove_file temporary; ret (Inl e) }
       | Inr _ \<Rightarrow> host_io
     })
   })"

section \<open>Coordinate observations\<close>

record display_geometry =
  dg_display_id :: string
  dg_x :: i64
  dg_y :: i64
  dg_width :: i64
  dg_height :: i64

record coordinate_observation =
  co_protocol_version :: u16
  co_snapshot_id :: string
  co_display_geometry_hash :: string
  co_snapshot_content_hash :: string
  co_observed_at_ms :: i64
  co_displays :: "display_geometry list"

definition display_geometry_json :: "display_geometry \<Rightarrow> json" where
  "display_geometry_json d = JObj [(''display_id'', JStr (dg_display_id d)), (''x'', JInt (dg_x d)),
     (''y'', JInt (dg_y d)), (''width'', JInt (dg_width d)), (''height'', JInt (dg_height d))]"

definition coordinate_observation_json :: "coordinate_observation \<Rightarrow> json" where
  "coordinate_observation_json obs = JObj
     [(''protocol_version'', jword (co_protocol_version obs)),
      (''snapshot_id'', JStr (co_snapshot_id obs)),
      (''display_geometry_hash'', JStr (co_display_geometry_hash obs)),
      (''snapshot_content_hash'', JStr (co_snapshot_content_hash obs)),
      (''observed_at_ms'', JInt (co_observed_at_ms obs)),
      (''displays'', JArr (map display_geometry_json (co_displays obs)))]"

record storing =
  so_env :: env_vars
  so_fallback :: string
  so_names :: "nat \<Rightarrow> temporary"
  so_print :: "json \<Rightarrow> string"
  so_read :: "string \<Rightarrow> coordinate_observation option"

definition persist_coordinates_to ::
  "storing \<Rightarrow> protocol_error + string \<Rightarrow> coordinate_observation \<Rightarrow> (files host, protocol_error + unit) state" where
  "persist_coordinates_to S path_result obs = (case path_result of
       Inl e \<Rightarrow> ret (Inl e)
     | Inr path \<Rightarrow> persist_observation (so_names S) path (so_print S (coordinate_observation_json obs)))"

definition persist_coordinate_observation ::
  "storing \<Rightarrow> coordinate_observation \<Rightarrow> (files host, protocol_error + unit) state" where
  "persist_coordinate_observation S obs =
     persist_coordinates_to S (coordinate_observation_path (so_env S) (so_fallback S) (co_snapshot_id obs)) obs"

definition load_coordinates_from ::
  "storing \<Rightarrow> protocol_error + string \<Rightarrow> (files host, protocol_error + coordinate_observation) state" where
  "load_coordinates_from S path_result = (case path_result of
       Inl e \<Rightarrow> ret (Inl e)
     | Inr path \<Rightarrow> do {
         opened \<leftarrow> host_io;
         content \<leftarrow> get_exec (\<lambda>files. files path);
         case content of
           None \<Rightarrow> ret (Inl (StaleTarget ''coordinate observation is unavailable''))
         | Some bytes \<Rightarrow>
             if opened \<noteq> Inr () then ret (Inl (StaleTarget ''coordinate observation is unavailable''))
             else try_bind host_io (\<lambda>_. do {
               r \<leftarrow> next_io;
               ret (case (r, so_read S bytes) of
                   (IoOk, Some obs) \<Rightarrow> Inr obs
                 | _ \<Rightarrow> Inl (StaleTarget ''coordinate observation is invalid''))
             })
       })"

definition load_coordinate_observation ::
  "storing \<Rightarrow> string \<Rightarrow> (files host, protocol_error + coordinate_observation) state" where
  "load_coordinate_observation S snapshot_id =
     load_coordinates_from S (coordinate_observation_path (so_env S) (so_fallback S) snapshot_id)"

section \<open>Facts\<close>

lemma temporary_differs [simp]:
  "unique_temporary_path path unique \<noteq> path" "path \<noteq> unique_temporary_path path unique"
  by (cases unique; auto)+

text \<open>Nothing but the temporary file changes while the observation is written to it.\<close>

definition beside :: "string \<Rightarrow> files \<Rightarrow> files host \<Rightarrow> bool" where
  "beside temporary files h \<longleftrightarrow> (\<forall>p. p \<noteq> temporary \<longrightarrow> h_exec h p = files p)"

definition holds :: "string \<Rightarrow> string \<Rightarrow> files host \<Rightarrow> bool" where
  "holds path bytes h \<longleftrightarrow> h_exec h path = Some bytes"

lemma hoare_host_io: "(\<And>h h'. P h \<Longrightarrow> h_exec h' = h_exec h \<Longrightarrow> P h') \<Longrightarrow>
    hoare P (host_io :: (files host, protocol_error + unit) state) (\<lambda>_. P)"
  by (auto simp: hoare_def host_io_def next_io_def split: io_result.splits)

lemma hoare_append_bytes:
  "hoare (\<lambda>h. beside t F h \<and> holds t old h) (append_bytes t bytes failure)
     (\<lambda>r h. beside t F h \<and> (r = Inr () \<longrightarrow> holds t (old @ bytes) h))"
  by (auto simp: hoare_def beside_def holds_def append_bytes_def next_io_def update_exec_def Let_def
      split: io_result.splits)

lemma hoare_write_observation:
  "hoare (\<lambda>h. beside t F h \<and> holds t [] h) (write_observation t body)
     (\<lambda>r h. beside t F h \<and> (r = Inr () \<longrightarrow> holds t (body @ [newline]) h))"
  unfolding write_observation_def
proof (rule hoare_try [OF hoare_host_io])
  fix u :: unit
  show "hoare (\<lambda>h. beside t F h \<and> holds t [] h)
      (try_bind (append_bytes t body JsonError) (\<lambda>_.
       try_bind (append_bytes t [newline] (IoError OtherIo)) (\<lambda>_. host_io)))
      (\<lambda>r h. beside t F h \<and> (r = Inr () \<longrightarrow> holds t (body @ [newline]) h))"
  proof (rule hoare_try [OF hoare_append_bytes])
    fix u :: unit
    have "hoare (\<lambda>h. beside t F h \<and> holds t body h)
        (try_bind (append_bytes t [newline] (IoError OtherIo)) (\<lambda>_. host_io))
        (\<lambda>r h. beside t F h \<and> (r = Inr () \<longrightarrow> holds t (body @ [newline]) h))"
      by (rule hoare_try [OF hoare_append_bytes])
        (auto simp: hoare_def beside_def holds_def host_io_def next_io_def split: io_result.splits)
    then show "hoare (\<lambda>h. beside t F h \<and> (Inr u = Inr () \<longrightarrow> holds t ([] @ body) h))
        (try_bind (append_bytes t [newline] (IoError OtherIo)) (\<lambda>_. host_io))
        (\<lambda>r h. beside t F h \<and> (r = Inr () \<longrightarrow> holds t (body @ [newline]) h))"
      by (rule hoare_pre) simp
  qed simp
qed (simp_all add: beside_def holds_def)

text \<open>The file is either as it was or holds the whole observation.\<close>

definition replaced :: "files \<Rightarrow> string \<Rightarrow> string \<Rightarrow> protocol_error + unit \<Rightarrow> files host \<Rightarrow> bool" where
  "replaced F path bytes r h \<longleftrightarrow> (h_exec h path = F path \<or> holds path bytes h)
     \<and> (r = Inr () \<longrightarrow> holds path bytes h)
     \<and> (\<forall>p. p \<noteq> path \<and> p \<notin> range (unique_temporary_path path) \<longrightarrow> h_exec h p = F p)"

lemma persist_observation_replaces:
  assumes "run_state (persist_observation names path body) h = (r, h')"
  shows "replaced (h_exec h) path (body @ [newline]) r h'"
proof -
  let ?F = "h_exec h" and ?Q = "replaced (h_exec h) path (body @ [newline])"
  have refused: "beside t ?F g \<Longrightarrow> t = unique_temporary_path path u \<Longrightarrow> ?Q (Inl e) g" for t u e g
    by (auto simp: beside_def replaced_def)
  have same: "h_exec g = ?F \<Longrightarrow> ?Q (Inl e) g" for e g
    by (auto simp: replaced_def)
  have renamed: "hoare (\<lambda>g. beside t ?F g \<and> holds t (body @ [newline]) g) (rename_file t path)
      (\<lambda>r g. case r of Inl _ \<Rightarrow> beside t ?F g | Inr _ \<Rightarrow> ?Q r g)" if "t = unique_temporary_path path u" for t u
    using that by (auto simp: hoare_def rename_file_def on_file_def host_io_def next_io_def update_exec_def
        beside_def holds_def replaced_def split: io_result.splits)
  have written: "hoare (\<lambda>g. beside t ?F g \<and> holds t [] g)
      (try_bind (write_observation t body) (\<lambda>_. rename_file t path))
      (\<lambda>r g. case r of Inl _ \<Rightarrow> beside t ?F g | Inr _ \<Rightarrow> ?Q r g)" if "t = unique_temporary_path path u" for t u
    by (rule hoare_try [OF hoare_write_observation])
      (auto intro: hoare_pre [OF renamed [OF that]])
  have last: "hoare (\<lambda>g. ?Q (Inr ()) g) host_io ?Q"
    by (auto simp: hoare_def host_io_def next_io_def replaced_def holds_def split: io_result.splits)
  have removed: "hoare (\<lambda>g. beside t ?F g) (do { _ \<leftarrow> remove_file t; ret (Inl e) }) ?Q"
    if "t = unique_temporary_path path u" for t u e
    using that by (auto simp: hoare_def remove_file_def on_file_def host_io_def next_io_def update_exec_def
        beside_def replaced_def split: io_result.splits)
  have created: "hoare (\<lambda>g. h_exec g = ?F) (create_new t)
      (\<lambda>r g. case r of Inl _ \<Rightarrow> h_exec g = ?F | Inr _ \<Rightarrow> beside t ?F g \<and> holds t [] g)" for t
    by (auto simp: hoare_def create_new_def get_exec_def on_file_def host_io_def next_io_def update_exec_def
        beside_def holds_def split: io_result.splits)
  have "hoare (\<lambda>g. h_exec g = ?F) (persist_observation names path body) ?Q"
    unfolding persist_observation_def
  proof (rule hoare_try [OF hoare_host_io])
    fix x :: unit
    show "hoare (\<lambda>g. h_exec g = ?F) (do {
        unique \<leftarrow> ask names;
        let temporary = unique_temporary_path path unique;
        try_bind (create_new temporary) (\<lambda>_. do {
          replaced \<leftarrow> try_bind (write_observation temporary body) (\<lambda>_. rename_file temporary path);
          case replaced of
            Inl e \<Rightarrow> do { _ \<leftarrow> remove_file temporary; ret (Inl e) }
          | Inr _ \<Rightarrow> host_io
        }) }) ?Q"
    proof (rule hoare_bind [where R = "\<lambda>_ g. h_exec g = ?F"], simp add: hoare_def ask_def,
        unfold Let_def, rule hoare_try [OF created])
      fix u and x :: unit
      show "hoare (\<lambda>g. case Inr x of Inl _ \<Rightarrow> h_exec g = ?F
            | Inr _ \<Rightarrow> beside (unique_temporary_path path u) ?F g \<and> holds (unique_temporary_path path u) [] g)
          (do { replaced \<leftarrow> try_bind (write_observation (unique_temporary_path path u) body)
                  (\<lambda>_. rename_file (unique_temporary_path path u) path);
                case replaced of
                  Inl e \<Rightarrow> do { _ \<leftarrow> remove_file (unique_temporary_path path u); ret (Inl e) }
                | Inr _ \<Rightarrow> host_io }) ?Q"
        unfolding sum.case
        by (rule hoare_bind [OF written [OF refl]])
          (auto intro!: hoare_case_sum removed [OF refl] last)
    qed (simp add: same)
  qed (simp_all add: same)
  from hoareD [OF this _ assms] show ?thesis by simp
qed

end
