(* ===== verification/NativeExecutor.thy ===== *)
theory NativeExecutor
  imports LinuxInput Observations Engine
begin

text \<open>
  \<open>NativeExecutor\<close> on Linux (lib.rs): its capabilities, observation and resolution of targets,
  and \<open>dispatch\<close> with every kind of input.

  The accessibility backend of linux_atspi.rs is used through the methods that the executor
  calls (\<open>atspi\<close>), over a state of its own; the input operations are those of \<open>LinuxInput\<close>, the
  stored observations those of \<open>Observations\<close>, and the switch for global input that of
  \<open>GlobalInput\<close>.
\<close>

section \<open>State\<close>

record 'b atspi =
  at_connect :: "nat \<Rightarrow> protocol_error + 'b"
  at_display_geometry_hash :: "('b host, protocol_error + string) state"
  at_focused_target :: "i64 \<Rightarrow> ('b host, protocol_error + semantic_target_ref) state"
  at_observe_target :: "semantic_target_ref \<Rightarrow> i64 \<Rightarrow> ('b host, protocol_error + observation) state"
  at_invoke :: "semantic_target_ref \<Rightarrow> i64 \<Rightarrow> ('b host, dispatch_error + dispatch_receipt) state"
  at_set_value :: "semantic_target_ref \<Rightarrow> string \<Rightarrow> i64 \<Rightarrow> ('b host, dispatch_error + dispatch_receipt) state"
  at_context_hash :: "('b host, protocol_error + string) state"

record 'b native_state =
  nx_desktop :: desktop
  nx_restriction :: restriction
  nx_files :: files
  nx_backend :: "'b option"
  nx_backend_poisoned :: bool
  nx_snapshots :: nat

text \<open>
  \<open>nv_process_id\<close> is \<open>std::process::id()\<close>, and \<open>nv_panic\<close> stands for what becomes of a panic.
\<close>

record 'b native =
  nv_hashing :: hashing
  nv_system :: linux_system
  nv_atspi :: "'b atspi"
  nv_isolation :: session_isolation
  nv_storing :: storing
  nv_parent_is_dir :: "string \<Rightarrow> bool"
  nv_process_id :: u32
  nv_panic :: "dispatch_error + dispatch_receipt"

section \<open>Parts of the state\<close>

definition on_part :: "('s \<Rightarrow> 'p) \<Rightarrow> (('p \<Rightarrow> 'p) \<Rightarrow> 's \<Rightarrow> 's) \<Rightarrow> ('p host, 'a) state \<Rightarrow> ('s host, 'a) state"
where
  "on_part get upd m = State (\<lambda>h.
     let (a, h') = run_state m \<lparr>h_env = h_env h, h_tick = h_tick h, h_exec = get (h_exec h)\<rparr>
     in (a, h\<lparr>h_tick := h_tick h', h_exec := upd (\<lambda>_. h_exec h') (h_exec h)\<rparr>))"

definition on_desktop :: "(desktop host, 'a) state \<Rightarrow> ('b native_state host, 'a) state" where
  "on_desktop = on_part nx_desktop nx_desktop_update"

definition in_restriction :: "(restriction host, 'a) state \<Rightarrow> ('b native_state host, 'a) state" where
  "in_restriction = on_part nx_restriction nx_restriction_update"

definition on_files :: "(files host, 'a) state \<Rightarrow> ('b native_state host, 'a) state" where
  "on_files = on_part nx_files nx_files_update"

text \<open>A method of the connected backend.\<close>

definition on_backend :: "('b host, 'a) state \<Rightarrow> 'b \<Rightarrow> ('b native_state host, 'a) state" where
  "on_backend m b = on_part (\<lambda>s. b) (\<lambda>f. nx_backend_update (\<lambda>_. Some (f b))) m"

definition backend_unavailable :: protocol_error where
  "backend_unavailable = ExecutorError ''desktop backend error''"

text \<open>
  \<open>self.linux_atspi.lock()\<close>, \<open>connect\<close> if there is no backend yet, and the call; \<open>poisoned\<close> is the
  error of the lock and \<open>wrap\<close> what becomes of one of \<open>connect\<close>.
\<close>

definition with_backend :: "'b native \<Rightarrow> 'e \<Rightarrow> (protocol_error \<Rightarrow> 'e) \<Rightarrow> ('b host, 'e + 'a) state
    \<Rightarrow> ('b native_state host, 'e + 'a) state" where
  "with_backend N poisoned wrap m = do {
     broken \<leftarrow> get_exec nx_backend_poisoned;
     current \<leftarrow> get_exec nx_backend;
     if broken then ret (Inl poisoned)
     else case current of
       Some b \<Rightarrow> on_backend m b
     | None \<Rightarrow> do {
         connected \<leftarrow> ask (at_connect (nv_atspi N));
         case connected of
           Inl e \<Rightarrow> ret (Inl (wrap e))
         | Inr b \<Rightarrow> do { update_exec (nx_backend_update (\<lambda>_. Some b)); on_backend m b }
       }
   }"

definition global_input_allowed :: "'b native \<Rightarrow> ('b native_state host, bool) state" where
  "global_input_allowed N = in_restriction (global_input_allowed_with_env Linux (ls_env (nv_system N)))"

section \<open>Dispatch errors (lib.rs)\<close>

definition refused :: "string \<Rightarrow> dispatch_error" where
  "refused message = \<lparr>de_message = message, de_effect = NoEffect, de_code = InvalidRequestCode\<rparr>"

definition interrupted :: "effect_knowledge \<Rightarrow> dispatch_error" where
  "interrupted eff = \<lparr>de_message = (case eff of
       CancelledBefore \<Rightarrow> ''cancelled before effect''
     | ExpiredBefore \<Rightarrow> ''expired before effect''
     | _ \<Rightarrow> ''interrupted''), de_effect = eff, de_code = DispatchFailed\<rparr>"

definition unavailable :: "string \<Rightarrow> dispatch_error" where
  "unavailable message = \<lparr>de_message = message, de_effect = NoEffect, de_code = Unsupported\<rparr>"

definition ambiguous :: "string \<Rightarrow> dispatch_error" where
  "ambiguous message = \<lparr>de_message = message, de_effect = EffectUnknown, de_code = DispatchFailed\<rparr>"

definition ambiguous_dispatch :: dispatch_error where
  "ambiguous_dispatch = ambiguous ''desktop backend failed after dispatch began''"

section \<open>Capabilities\<close>

definition display_protocol_permissions :: "string \<Rightarrow> bool \<Rightarrow> bool \<times> bool" where
  "display_protocol_permissions session native_x11 = (session = ''wayland'' \<and> \<not> native_x11, native_x11)"

definition backend_permissions :: "env_vars \<Rightarrow> bool \<Rightarrow> bool \<Rightarrow> bool \<Rightarrow> (string \<times> bool) list" where
  "backend_permissions get_env allowed display_geometry private_state =
     (let (wayland, x11) = display_protocol_permissions (session_type get_env) display_geometry in
      [(''accessibility'', True), (''atspi2'', True), (''coordinate_capture'', False),
       (''display_geometry'', display_geometry), (''global_input'', allowed),
       (''private_state'', private_state), (''screen_recording'', False),
       (''wayland'', wayland), (''x11'', x11)])"

definition missing_permissions :: "bool \<Rightarrow> (string \<times> bool) list" where
  "missing_permissions allowed =
     [(''accessibility'', False), (''atspi2'', False), (''coordinate_capture'', False),
      (''display_geometry'', False), (''global_input'', allowed), (''private_state'', False),
      (''screen_recording'', False)]"

definition permitted :: "(string \<times> bool) list \<Rightarrow> string \<Rightarrow> bool" where
  "permitted permissions name \<longleftrightarrow> map_of permissions name = Some True"

definition semantic_capability :: "string \<Rightarrow> action_capability" where
  "semantic_capability name = \<lparr>ac_action = name, ac_delivery_route = TargetAddressed,
     ac_background_support = Guarded\<rparr>"

definition pointer_capability :: "string \<Rightarrow> action_capability" where
  "pointer_capability name = \<lparr>ac_action = name, ac_delivery_route = Pointer,
     ac_background_support = Unavailable\<rparr>"

definition native_capability_list :: "(string \<times> bool) list \<Rightarrow> string \<Rightarrow> action_capability list" where
  "native_capability_list permissions session =
     (if permitted permissions ''accessibility'' \<and> permitted permissions ''display_geometry''
         \<and> permitted permissions ''private_state''
      then map semantic_capability [''invoke'', ''set_value''] else [])
     @ (if session = ''x11'' \<or> session = ''wayland''
        then map pointer_capability
          [''click'', ''type_text'', ''press'', ''paste'', ''hotkey'', ''move'', ''scroll''] else [])"

text \<open>The backend, if it is there or can be connected to.\<close>

definition connect_if_missing :: "'b native \<Rightarrow> ('b native_state host, 'b option) state" where
  "connect_if_missing N = do {
     current \<leftarrow> get_exec nx_backend;
     case current of
       Some b \<Rightarrow> ret (Some b)
     | None \<Rightarrow> do {
         connected \<leftarrow> ask (at_connect (nv_atspi N));
         case connected of
           Inl _ \<Rightarrow> ret None
         | Inr b \<Rightarrow> do { update_exec (nx_backend_update (\<lambda>_. Some b)); ret (Some b) }
       }
   }"

definition as_option :: "'e + 'a \<Rightarrow> 'a option" where
  "as_option r = (case r of Inl _ \<Rightarrow> None | Inr x \<Rightarrow> Some x)"

definition linux_capabilities :: "'b native \<Rightarrow> ('b native_state host, protocol_error + capabilities) state" where
  "linux_capabilities N = do {
     broken \<leftarrow> get_exec nx_backend_poisoned;
     if broken then ret (Inl backend_unavailable)
     else do {
       backend \<leftarrow> connect_if_missing N;
       geometry \<leftarrow> (case backend of
           None \<Rightarrow> ret None
         | Some b \<Rightarrow> do {
             r \<leftarrow> on_backend (at_display_geometry_hash (nv_atspi N)) b;
             ret (as_option r)
           });
       permissions \<leftarrow> (case backend of
           None \<Rightarrow> do { allowed \<leftarrow> global_input_allowed N; ret (missing_permissions allowed) }
         | Some b \<Rightarrow> do {
             private_state \<leftarrow> host_io;
             allowed \<leftarrow> global_input_allowed N;
             ret (backend_permissions (ls_env (nv_system N)) allowed (geometry \<noteq> None)
               (private_state = Inr ()))
           });
       let listed = native_capability_list permissions (session_type (ls_env (nv_system N)));
       ret (Inr \<lparr>c_platform = ''linux'', c_backend = ''praefectus-linux'',
         c_session_isolation = nv_isolation N,
         c_supported_actions = map ac_action listed,
         c_action_capabilities = listed,
         c_permissions = permissions,
         c_display_geometry_hash = (case geometry of
             Some hash \<Rightarrow> hash | None \<Rightarrow> replicate 64 (CHR ''0''))\<rparr>)
     }
   }"

section \<open>Coordinate observations\<close>

definition redacted_error :: protocol_error where
  "redacted_error = ExecutorError ''desktop backend error''"

text \<open>A call of the runtime whose error is redacted.\<close>

definition runtime_call :: "'a input \<Rightarrow> ('b native_state host, protocol_error + 'a) state" where
  "runtime_call m = do {
     r \<leftarrow> on_desktop m;
     ret (map_sum (\<lambda>_. redacted_error) id r)
   }"

text \<open>\<open>serde_json::from_value\<close>: every field is there and no other.\<close>

definition display_geometry_of :: "json \<Rightarrow> display_geometry option" where
  "display_geometry_of v = (case v of
       JObj es \<Rightarrow>
         if set (map fst es) \<noteq> {''display_id'', ''x'', ''y'', ''width'', ''height''} then None
         else Option.bind (get_str v ''display_id'') (\<lambda>name.
           Option.bind (get_i64 v ''x'') (\<lambda>x. Option.bind (get_i64 v ''y'') (\<lambda>y.
           Option.bind (get_i64 v ''width'') (\<lambda>w. Option.bind (get_i64 v ''height'') (\<lambda>h.
           Some \<lparr>dg_display_id = name, dg_x = x, dg_y = y, dg_width = w, dg_height = h\<rparr>)))))
     | _ \<Rightarrow> None)"

definition displays_of :: "json \<Rightarrow> display_geometry list option" where
  "displays_of v = Option.bind (as_array v) (\<lambda>vs. those (map display_geometry_of vs))"

definition native_snapshot_id :: "string \<Rightarrow> u32 \<Rightarrow> i64 \<Rightarrow> nat \<Rightarrow> string" where
  "native_snapshot_id geometry_hash process_id now number =
     ''native-'' @ geometry_hash @ ''-'' @ show_nat (unat process_id) @ ''-'' @ show_int now @ ''-''
       @ show_nat number"

text \<open>
  \<open>NativeRuntime::see\<close> and \<open>observe_coordinates\<close>: \<open>screens_now\<close>, \<open>content_now\<close>, \<open>next_number\<close> and
  \<open>persist\<close> are the displays, what they show, the sequence number and the storing.
\<close>

definition observe_coordinates_with :: "hashing \<Rightarrow> u32 \<Rightarrow> ('s host, protocol_error + json) state
    \<Rightarrow> ('s host, protocol_error + string) state \<Rightarrow> ('s host, nat) state
    \<Rightarrow> (coordinate_observation \<Rightarrow> ('s host, protocol_error + unit) state)
    \<Rightarrow> ('s host, protocol_error + coordinate_observation) state" where
  "observe_coordinates_with H process_id screens_now content_now next_number persist =
     try_bind screens_now (\<lambda>screens.
     try_bind (ret (case displays_of screens of None \<Rightarrow> Inl redacted_error | Some ds \<Rightarrow> Inr ds)) (\<lambda>displays.
     try_bind content_now (\<lambda>content_hash. do {
       let geometry_hash = hash_serializable H screens;
       now \<leftarrow> now_ms;
       number \<leftarrow> next_number;
       observed \<leftarrow> now_ms;
       let obs = \<lparr>co_protocol_version = protocol_version,
         co_snapshot_id = native_snapshot_id geometry_hash process_id now number,
         co_display_geometry_hash = geometry_hash, co_snapshot_content_hash = content_hash,
         co_observed_at_ms = observed, co_displays = displays\<rparr>;
       try_bind (persist obs) (\<lambda>_. ret (Inr obs))
     })))"

text \<open>The sequence number is a \<open>u64\<close> that wraps.\<close>

definition next_snapshot_number :: "('b native_state host, nat) state" where
  "next_snapshot_number = do {
     number \<leftarrow> get_exec nx_snapshots;
     update_exec (nx_snapshots_update (\<lambda>n. Suc n mod 18446744073709551616));
     ret number
   }"

definition observe_coordinates :: "'b native \<Rightarrow> ('b native_state host, protocol_error + coordinate_observation) state"
where
  "observe_coordinates N =
     observe_coordinates_with (nv_hashing N) (nv_process_id N) (runtime_call (native_screens (nv_system N)))
       (runtime_call (screen_content_hash (nv_hashing N) (nv_system N))) next_snapshot_number
       (\<lambda>obs. on_files (persist_coordinate_observation (nv_storing N) obs))"

section \<open>Resolution\<close>

definition max_coordinate_observation_age_ms :: i64 where "max_coordinate_observation_age_ms = 30000"

definition names_display :: "json \<Rightarrow> string \<Rightarrow> bool" where
  "names_display screen display_id \<longleftrightarrow>
     list_ex (\<lambda>k. get_str screen k = Some display_id) [''id'', ''name'', ''display_id'']"

definition on_screen :: "i64 \<Rightarrow> i64 \<Rightarrow> string \<Rightarrow> json \<Rightarrow> bool" where
  "on_screen x y display_id screen \<longleftrightarrow> names_display screen display_id
     \<and> (case (get_i64 screen ''x'', get_i64 screen ''y'', get_i64 screen ''width'', get_i64 screen ''height'') of
          (Some left, Some upper, Some width, Some height) \<Rightarrow> 0 < width \<and> 0 < height \<and> left \<le> x \<and> upper \<le> y
            \<and> x < sat_add_i64 left width \<and> y < sat_add_i64 upper height
        | _ \<Rightarrow> False)"

definition on_display :: "i64 \<Rightarrow> i64 \<Rightarrow> string \<Rightarrow> json \<Rightarrow> bool" where
  "on_display x y display_id screens = (case as_array screens of
       None \<Rightarrow> False
     | Some values \<Rightarrow> list_ex (on_screen x y display_id) values)"

definition stale :: "string \<Rightarrow> ('s, protocol_error + 'a) state" where
  "stale message = ret (Inl (StaleTarget message))"

text \<open>\<open>load\<close>, \<open>screens_now\<close> and \<open>content_now\<close>: the stored observation, the displays, what they show.\<close>

definition resolve_coordinates_with :: "hashing \<Rightarrow> ('s host, protocol_error + coordinate_observation) state
    \<Rightarrow> ('s host, protocol_error + json) state \<Rightarrow> ('s host, protocol_error + string) state
    \<Rightarrow> i64 \<Rightarrow> i64 \<Rightarrow> string \<Rightarrow> string \<Rightarrow> string \<Rightarrow> string
    \<Rightarrow> ('s host, protocol_error + resolved_target) state" where
  "resolve_coordinates_with H load screens_now content_now x y display_id geometry_hash snapshot_id content_hash =
     try_bind load (\<lambda>obs. do {
       now \<leftarrow> now_ms;
       later \<leftarrow> now_ms;
       if co_protocol_version obs \<noteq> protocol_version \<or> co_snapshot_id obs \<noteq> snapshot_id
          \<or> co_display_geometry_hash obs \<noteq> geometry_hash \<or> co_snapshot_content_hash obs \<noteq> content_hash
          \<or> now < co_observed_at_ms obs
          \<or> max_coordinate_observation_age_ms < sat_sub_i64 later (co_observed_at_ms obs)
       then stale ''coordinate observation provenance does not match''
       else
       try_bind screens_now (\<lambda>screens.
       if hash_serializable H screens \<noteq> geometry_hash then stale ''display geometry changed''
       else
       try_bind content_now (\<lambda>current.
       if current \<noteq> content_hash then stale ''screen observation changed''
       else if \<not> on_display x y display_id screens then stale ''coordinate is outside its named display''
       else ret (Inr (PointTarget \<lparr>p_x = x, p_y = y\<rparr>))))
     })"

definition resolve_coordinates :: "'b native \<Rightarrow> i64 \<Rightarrow> i64 \<Rightarrow> string \<Rightarrow> string \<Rightarrow> string \<Rightarrow> string
    \<Rightarrow> ('b native_state host, protocol_error + resolved_target) state" where
  "resolve_coordinates N x y display_id geometry_hash snapshot_id content_hash =
     resolve_coordinates_with (nv_hashing N) (on_files (load_coordinate_observation (nv_storing N) snapshot_id))
       (runtime_call (native_screens (nv_system N)))
       (runtime_call (screen_content_hash (nv_hashing N) (nv_system N)))
       x y display_id geometry_hash snapshot_id content_hash"

definition native_resolve :: "'b native \<Rightarrow> target_ref \<Rightarrow> i64
    \<Rightarrow> ('b native_state host, protocol_error + resolved_target) state" where
  "native_resolve N target deadline = try_bind (check_protocol_boundary deadline) (\<lambda>_.
     case target of
       Coordinates x y display_id geometry_hash snapshot_id content_hash \<Rightarrow>
         resolve_coordinates N x y display_id geometry_hash snapshot_id content_hash
     | Element t \<Rightarrow> ret (Inr (SemanticTarget t))
     | NoTarget \<Rightarrow> ret (Inr NoResolved))"

section \<open>Observation and context\<close>

text \<open>On Linux \<open>native_target_content_hash\<close> has no answer.\<close>

definition native_target_content_hash :: "native_point \<Rightarrow> string input" where
  "native_target_content_hash p = ret (Inl NativeError)"

definition observed_state :: "target_ref \<Rightarrow> ('b native_state host, protocol_error + json) state" where
  "observed_state target = (case target of
       Coordinates x y _ _ _ _ \<Rightarrow>
         try_bind (runtime_call (native_target_content_hash \<lparr>p_x = x, p_y = y\<rparr>)) (\<lambda>hash.
         ret (Inr (JObj [(''target_content_hash'', JStr hash)])))
     | _ \<Rightarrow> ret (Inr JNull))"

definition observe_plain_with :: "hashing \<Rightarrow> ('s host, protocol_error + capabilities) state
    \<Rightarrow> ('s host, protocol_error + json) state \<Rightarrow> i64 \<Rightarrow> ('s host, protocol_error + observation) state" where
  "observe_plain_with H capabilities_now state_now deadline =
     try_bind capabilities_now (\<lambda>cs.
     try_bind state_now (\<lambda>st.
     try_bind (check_protocol_boundary deadline) (\<lambda>_. do {
       now \<leftarrow> now_ms;
       ret (Inr \<lparr>o_evidence = \<lparr>
           e_observation_hash = hash_serializable H (JArr [JStr (c_display_geometry_hash cs), JNull, st]),
           e_target_fingerprint_hash = None,
           e_display_geometry_hash = c_display_geometry_hash cs,
           e_observed_at_ms = now\<rparr>, o_element = None, o_state = st\<rparr>)
     })))"

definition observe_plain :: "'b native \<Rightarrow> target_ref \<Rightarrow> i64
    \<Rightarrow> ('b native_state host, protocol_error + observation) state" where
  "observe_plain N target deadline =
     observe_plain_with (nv_hashing N) (linux_capabilities N) (observed_state target) deadline"

definition native_observe :: "'b native \<Rightarrow> target_ref \<Rightarrow> i64
    \<Rightarrow> ('b native_state host, protocol_error + observation) state" where
  "native_observe N target deadline = try_bind (check_protocol_boundary deadline) (\<lambda>_.
     case target of
       Element t \<Rightarrow> with_backend N backend_unavailable id (at_observe_target (nv_atspi N) t deadline)
     | _ \<Rightarrow> observe_plain N target deadline)"

text \<open>
  The second look at the boundary comes before the result of the call, but after an error of
  the lock or of \<open>connect\<close>.
\<close>

definition native_context_hash :: "'b native \<Rightarrow> i64 \<Rightarrow> ('b native_state host, protocol_error + string) state" where
  "native_context_hash N deadline = try_bind (check_protocol_boundary deadline) (\<lambda>_.
     if nv_isolation N \<noteq> SharedDesktop
     then ret (Inl (ExecutorError ''shared desktop context is unavailable''))
     else
     try_bind (with_backend N backend_unavailable id
         (do { r \<leftarrow> at_context_hash (nv_atspi N); ret (Inr r) })) (\<lambda>result.
     try_bind (check_protocol_boundary deadline) (\<lambda>_. ret result)))"

end
