(* ===== verification/Dispatch.thy ===== *)
theory Dispatch
  imports NativeExecutor
begin

text \<open>
  \<open>NativeExecutor::dispatch\<close> (lib.rs), as it is written for all platforms: the checks before an
  input, and the input in steps between which cancellation and the deadline are watched.

  What differs between the platforms is the \<open>runtime\<close>: the methods of \<open>NativeRuntime\<close> that send
  input, the capabilities, the switch for global input, the auxiliary actions.
\<close>

section \<open>Boundaries\<close>

definition check_before_effect :: "i64 \<Rightarrow> ('x host, dispatch_error + unit) state" where
  "check_before_effect deadline = do {
     c \<leftarrow> is_cancelled;
     if c then ret (Inl (interrupted CancelledBefore))
     else do {
       t \<leftarrow> now_ms;
       ret (if deadline \<le> t then Inl (interrupted ExpiredBefore) else Inr ())
     }
   }"

definition check_after_effect :: "i64 \<Rightarrow> ('x host, dispatch_error + unit) state" where
  "check_after_effect deadline = do {
     reached \<leftarrow> boundary_reached deadline;
     ret (if reached then Inl (ambiguous ''action completed at the cancellation or deadline boundary'')
          else Inr ())
   }"

definition check_partial_dispatch :: "nat \<Rightarrow> i64 \<Rightarrow> string \<Rightarrow> ('x host, dispatch_error + unit) state" where
  "check_partial_dispatch index deadline message =
     (if index = 0 then check_before_effect deadline
      else do {
        reached \<leftarrow> boundary_reached deadline;
        ret (if reached then Inl (ambiguous message) else Inr ())
      })"

section \<open>The runtime of a platform\<close>

text \<open>
  \<open>rt_per_process\<close>: input goes to one process and not to the whole session (macOS only).
  \<open>rt_auxiliary\<close>: a receipt if the action is one of the auxiliary ones.  \<open>rt_panic\<close> stands for what
  becomes of a panic.
\<close>

record 's runtime =
  rt_platform :: platform
  rt_backend :: string
  rt_parent_is_dir :: "string \<Rightarrow> bool"
  rt_panic :: "dispatch_error + dispatch_receipt"
  rt_auxiliary :: "action \<Rightarrow> i64 \<Rightarrow> ('s host, dispatch_error + dispatch_receipt option) state"
  rt_capabilities :: "('s host, protocol_error + capabilities) state"
  rt_allowed :: "('s host, bool) state"
  rt_per_process :: "('s host, bool) state"
  rt_resolve :: "target_ref \<Rightarrow> i64 \<Rightarrow> ('s host, protocol_error + resolved_target) state"
  rt_click :: "native_point \<Rightarrow> mouse_button \<Rightarrow> ('s host, native_error + unit) state"
  rt_move :: "native_point \<Rightarrow> ('s host, native_error + unit) state"
  rt_type_text :: "string \<Rightarrow> bool \<Rightarrow> bool \<Rightarrow> u64 option \<Rightarrow> ('s host, native_error + unit) state"
  rt_press :: "string \<Rightarrow> ('s host, native_error + unit) state"
  rt_paste :: "string \<Rightarrow> ('s host, native_error + unit) state"
  rt_hotkey :: "string list \<Rightarrow> ('s host, native_error + unit) state"
  rt_scroll :: "direction \<Rightarrow> ('s host, native_error + unit) state"
  rt_drag :: "native_point \<Rightarrow> native_point \<Rightarrow> i64 \<Rightarrow> ('s host, dispatch_error + unit) state"
  rt_set_value :: "native_element \<Rightarrow> string \<Rightarrow> i64 \<Rightarrow> ('s host, dispatch_error + unit) state"

type_synonym ('s, 'a) dispatching = "('s host, dispatch_error + 'a) state"

text \<open>\<open>map_err(ambiguous_dispatch)\<close>\<close>

definition sent :: "('s host, native_error + unit) state \<Rightarrow> ('s, unit) dispatching" where
  "sent m = do {
     r \<leftarrow> m;
     ret (map_sum (\<lambda>_. ambiguous_dispatch) id r)
   }"

definition runtime_receipt :: "'s runtime \<Rightarrow> dispatch_receipt" where
  "runtime_receipt R = \<lparr>dr_backend = rt_backend R, dr_fallback_chain = []\<rparr>"

definition finished :: "'s runtime \<Rightarrow> i64 \<Rightarrow> ('s, dispatch_receipt) dispatching" where
  "finished R deadline = try_bind (check_after_effect deadline) (\<lambda>_. ret (Inr (runtime_receipt R)))"

text \<open>A pointer action that nothing verifies is not known to have been delivered.\<close>

definition finished_pointer :: "'s runtime \<Rightarrow> verification_policy \<Rightarrow> i64 \<Rightarrow> ('s, dispatch_receipt) dispatching" where
  "finished_pointer R policy deadline =
     (if policy = NoVerification
      then ret (Inl (ambiguous ''native input event delivery cannot be verified''))
      else finished R deadline)"

section \<open>Typing\<close>

definition interrupted_typing :: "bool \<Rightarrow> ('s, 'a) dispatching" where
  "interrupted_typing effect_started =
     (if effect_started then ret (Inl (ambiguous ''type action interrupted after partial dispatch''))
      else do {
        c \<leftarrow> is_cancelled;
        ret (Inl (interrupted (if c then CancelledBefore else ExpiredBefore)))
      })"

definition watch_typing :: "bool \<Rightarrow> i64 \<Rightarrow> ('s, unit) dispatching" where
  "watch_typing effect_started deadline = do {
     reached \<leftarrow> boundary_reached deadline;
     if reached then interrupted_typing effect_started else ret (Inr ())
   }"

text \<open>The loop over the characters; \<open>chunk\<close> holds those not yet sent.\<close>

fun type_chunks :: "'s runtime \<Rightarrow> u64 option \<Rightarrow> i64 \<Rightarrow> nat \<Rightarrow> bool \<Rightarrow> nat list \<Rightarrow> nat list
    \<Rightarrow> ('s, bool \<times> nat list) dispatching" where
  "type_chunks R delay_ms deadline chunk_size effect_started chunk [] = ret (Inr (effect_started, chunk))"
| "type_chunks R delay_ms deadline chunk_size effect_started chunk (ch # rest) =
     try_bind (watch_typing effect_started deadline) (\<lambda>_.
     if length (chunk @ [ch]) = chunk_size then
       try_bind (sent (rt_type_text R (utf8_encode (chunk @ [ch])) False False delay_ms)) (\<lambda>_.
       type_chunks R delay_ms deadline chunk_size True [] rest)
     else type_chunks R delay_ms deadline chunk_size effect_started (chunk @ [ch]) rest)"

definition dispatch_type_text :: "'s runtime \<Rightarrow> string \<Rightarrow> bool \<Rightarrow> bool \<Rightarrow> u64 option \<Rightarrow> i64
    \<Rightarrow> ('s, unit) dispatching" where
  "dispatch_type_text R txt clear press_return delay_ms deadline =
     (if txt = [] \<or> 16 * 1024 < length txt \<or> \<not> delay_ok delay_ms
      then ret (Inl (refused ''type action parameters are invalid''))
      else
      try_bind (if clear then sent (rt_type_text R [] True False None) else ret (Inr ())) (\<lambda>_.
      try_bind (type_chunks R delay_ms deadline (if delay_ms \<noteq> None then 1 else 64) clear [] (chars txt))
        (\<lambda>(effect_started, chunk).
      try_bind (if chunk \<noteq> [] then sent (rt_type_text R (utf8_encode chunk) False False delay_ms)
                else ret (Inr ())) (\<lambda>_.
      try_bind (watch_typing (effect_started \<or> chunk \<noteq> []) deadline) (\<lambda>_.
      if press_return then sent (rt_type_text R [] False True None) else ret (Inr ()))))))"

section \<open>The other inputs\<close>

text \<open>\<open>click\<close> and \<open>move_cursor\<close> want a point.\<close>

definition runtime_click :: "'s runtime \<Rightarrow> resolved_target \<Rightarrow> mouse_button \<Rightarrow> ('s, unit) dispatching" where
  "runtime_click R target button = (case target of
       PointTarget p \<Rightarrow> sent (rt_click R p button)
     | ElementTarget _ \<Rightarrow> ret (Inl (unavailable ''click requires a pointer target''))
     | SemanticTarget _ \<Rightarrow> ret (Inl (refused ''semantic target was not routed''))
     | NoResolved \<Rightarrow> ret (Inl (refused ''action requires a target'')))"

definition runtime_move :: "'s runtime \<Rightarrow> resolved_target \<Rightarrow> ('s, unit) dispatching" where
  "runtime_move R target = (case target of
       PointTarget p \<Rightarrow> sent (rt_move R p)
     | ElementTarget _ \<Rightarrow> ret (Inl ambiguous_dispatch)
     | SemanticTarget _ \<Rightarrow> ret (Inl (refused ''semantic target was not routed''))
     | NoResolved \<Rightarrow> ret (Inl (refused ''action requires a target'')))"

definition is_element_target :: "resolved_target \<Rightarrow> bool" where
  "is_element_target target \<longleftrightarrow> (case target of ElementTarget _ \<Rightarrow> True | _ \<Rightarrow> False)"

definition dispatch_click :: "'s runtime \<Rightarrow> mouse_button \<Rightarrow> nat \<Rightarrow> resolved_target \<Rightarrow> verification_policy \<Rightarrow> i64
    \<Rightarrow> ('s, dispatch_receipt) dispatching" where
  "dispatch_click R button n target policy deadline =
     (if button = MiddleButton \<and> rt_platform R \<noteq> Windows
      then ret (Inl (unavailable ''middle click is not reliable on this backend''))
      else if is_element_target target \<and> button \<noteq> LeftButton
      then ret (Inl (unavailable ''semantic elements support only the accessibility press action''))
      else
      try_bind (each (\<lambda>index.
          try_bind (check_partial_dispatch index deadline ''click interrupted after partial dispatch'') (\<lambda>_.
          runtime_click R target button)) [0..<n]) (\<lambda>_.
      finished_pointer R policy deadline))"

definition dispatch_press :: "'s runtime \<Rightarrow> string \<Rightarrow> nat \<Rightarrow> u64 option \<Rightarrow> i64
    \<Rightarrow> ('s, dispatch_receipt) dispatching" where
  "dispatch_press R key n delay_ms deadline =
     try_bind (each (\<lambda>index.
         try_bind (check_partial_dispatch index deadline ''press interrupted after partial dispatch'') (\<lambda>_.
         try_bind (sent (rt_press R key)) (\<lambda>_. do {
           (if index + 1 < n then pause delay_ms else ret ());
           ret (Inr ())
         }))) [0..<n]) (\<lambda>_.
     finished R deadline)"

definition dispatch_scroll_steps :: "'s runtime \<Rightarrow> direction \<Rightarrow> nat \<Rightarrow> i64 \<Rightarrow> ('s, dispatch_receipt) dispatching" where
  "dispatch_scroll_steps R direction n deadline =
     try_bind (each (\<lambda>index.
         try_bind (check_partial_dispatch index deadline ''scroll interrupted after partial dispatch'') (\<lambda>_.
         sent (rt_scroll R direction))) [0..<n]) (\<lambda>_.
     finished R deadline)"

definition dispatch_move :: "'s runtime \<Rightarrow> resolved_target \<Rightarrow> verification_policy \<Rightarrow> i64
    \<Rightarrow> ('s, dispatch_receipt) dispatching" where
  "dispatch_move R target policy deadline =
     try_bind (check_before_effect deadline) (\<lambda>_.
     try_bind (runtime_move R target) (\<lambda>_.
     finished_pointer R policy deadline))"

definition dispatch_drag :: "'s runtime \<Rightarrow> target_ref \<Rightarrow> mouse_button \<Rightarrow> resolved_target \<Rightarrow> verification_policy \<Rightarrow> i64
    \<Rightarrow> ('s, dispatch_receipt) dispatching" where
  "dispatch_drag R destination button target policy deadline =
     (if button \<noteq> LeftButton then ret (Inl (unavailable ''drag supports only the left button''))
      else case target of
        PointTarget origin \<Rightarrow> do {
          r \<leftarrow> rt_resolve R destination deadline;
          case r of
            Inl _ \<Rightarrow> ret (Inl (refused ''drag destination is not fenced''))
          | Inr (PointTarget p) \<Rightarrow>
              try_bind (check_before_effect deadline) (\<lambda>_.
              try_bind (rt_drag R origin p deadline) (\<lambda>_.
              finished_pointer R policy deadline))
          | Inr _ \<Rightarrow> ret (Inl (refused ''drag destination is not a fenced coordinate''))
        }
      | _ \<Rightarrow> ret (Inl (refused ''drag requires a fenced coordinate target'')))"

definition dispatch_set_value :: "'s runtime \<Rightarrow> string \<Rightarrow> resolved_target \<Rightarrow> i64
    \<Rightarrow> ('s, dispatch_receipt) dispatching" where
  "dispatch_set_value R value target deadline =
     (if rt_platform R \<noteq> MacOS then ret (Inl (unavailable ''set_value is unavailable on this backend''))
      else case target of
        ElementTarget node \<Rightarrow>
          if ne_bounds node = None then ret (Inl (refused ''set_value requires an element with bounds''))
          else
          try_bind (check_before_effect deadline) (\<lambda>_.
          try_bind (rt_set_value R node value deadline) (\<lambda>_. finished R deadline))
      | _ \<Rightarrow> ret (Inl (refused ''set_value requires an element with bounds'')))"

definition failed_dispatch :: dispatch_error where
  "failed_dispatch = \<lparr>de_message = ''desktop backend error'', de_effect = EffectUnknown,
     de_code = DispatchFailed\<rparr>"

text \<open>\<open>paste\<close> and \<open>hotkey\<close>: one call whose error is redacted.\<close>

definition dispatch_once :: "'s runtime \<Rightarrow> ('s host, native_error + unit) state \<Rightarrow> i64
    \<Rightarrow> ('s, dispatch_receipt) dispatching" where
  "dispatch_once R m deadline = do {
     r \<leftarrow> m;
     try_bind (ret (map_sum (\<lambda>_. failed_dispatch) id r)) (\<lambda>_. finished R deadline)
   }"

section \<open>Choosing the input\<close>

fun dispatch_input :: "'s runtime \<Rightarrow> action \<Rightarrow> resolved_target \<Rightarrow> verification_policy \<Rightarrow> i64
    \<Rightarrow> ('s, dispatch_receipt) dispatching" where
  "dispatch_input R (TypeText txt clear press_return delay_ms) target policy deadline =
     try_bind (dispatch_type_text R txt clear press_return delay_ms deadline) (\<lambda>_. finished R deadline)"
| "dispatch_input R (Click button n _) target policy deadline =
     dispatch_click R button (unat n) target policy deadline"
| "dispatch_input R (Press key n delay_ms) target policy deadline =
     dispatch_press R key (unat n) delay_ms deadline"
| "dispatch_input R (Paste txt) target policy deadline = dispatch_once R (rt_paste R txt) deadline"
| "dispatch_input R (Hotkey keys) target policy deadline = dispatch_once R (rt_hotkey R keys) deadline"
| "dispatch_input R (Scroll direction amount) target policy deadline =
     dispatch_scroll_steps R direction (unat amount) deadline"
| "dispatch_input R Move target policy deadline = dispatch_move R target policy deadline"
| "dispatch_input R (Drag destination button) target policy deadline =
     dispatch_drag R destination button target policy deadline"
| "dispatch_input R (SelectText _ _) target policy deadline =
     ret (Inl (refused ''action requires a fenced semantic element target''))"
| "dispatch_input R (PerformSecondaryAction _) target policy deadline =
     ret (Inl (refused ''action requires a fenced semantic element target''))"
| "dispatch_input R (SetValue value) target policy deadline = dispatch_set_value R value target deadline"
| "dispatch_input R _ target policy deadline = ret (rt_panic R)"

fun global_input_action :: "action \<Rightarrow> bool" where
  "global_input_action (Click _ _ _) = True"
| "global_input_action Move = True"
| "global_input_action (Drag _ _) = True"
| "global_input_action (Scroll _ _) = True"
| "global_input_action (TypeText _ _ _ _) = True"
| "global_input_action (Press _ _ _) = True"
| "global_input_action (Paste _) = True"
| "global_input_action (Hotkey _) = True"
| "global_input_action _ = False"

definition repeated_click :: "action \<Rightarrow> bool" where
  "repeated_click action \<longleftrightarrow> (case action of Click _ n _ \<Rightarrow> 1 < n | _ \<Rightarrow> False)"

definition dispatch_fenced :: "'s runtime \<Rightarrow> action \<Rightarrow> resolved_target \<Rightarrow> verification_policy \<Rightarrow> i64
    \<Rightarrow> ('s, dispatch_receipt) dispatching" where
  "dispatch_fenced R action target policy deadline =
     (if repeated_click action \<and> is_element_target target
      then ret (Inl (unavailable ''repeated semantic clicks are unavailable''))
      else do {
        reported \<leftarrow> rt_capabilities R;
        case reported of
          Inl _ \<Rightarrow> ret (Inl (unavailable ''runtime capabilities are unavailable''))
        | Inr cs \<Rightarrow>
            if action_name action \<notin> set (c_supported_actions cs)
            then ret (Inl (unavailable ''action is unavailable with current permissions or backend''))
            else do {
              per_process \<leftarrow> rt_per_process R;
              allowed \<leftarrow> rt_allowed R;
              if \<not> allowed \<and> \<not> per_process \<and> global_input_action action
              then ret (Inl (refused ''global input delivery is disabled for this host''))
              else dispatch_input R action target policy deadline
            }
      })"

section \<open>Dispatch\<close>

definition validate_live_element :: "native_element \<Rightarrow> protocol_error + unit" where
  "validate_live_element node =
     ensure (ne_id node \<noteq> [] \<and> ne_app node \<noteq> []
         \<and> (case ne_window node of None \<Rightarrow> False | Some w \<Rightarrow> w \<noteq> [])
         \<and> (case ne_process_id node of None \<Rightarrow> False | Some pid \<Rightarrow> 0 < pid)
         \<and> ne_enabled node = Some True
         \<and> get_bool (ne_state node) ''visible'' = Some True \<and> get_bool (ne_state node) ''hidden'' \<noteq> Some True
         \<and> (case ne_bounds node of None \<Rightarrow> False | Some b \<Rightarrow> 0 < nb_width b \<and> 0 < nb_height b))
       (StaleTarget ''target is missing, disabled, or hidden'')"

definition unverified_set_value :: "action \<Rightarrow> verification_policy \<Rightarrow> bool" where
  "unverified_set_value action policy \<longleftrightarrow>
     (case action of SetValue _ \<Rightarrow> True | _ \<Rightarrow> False) \<and> (case policy of TargetValueHash _ \<Rightarrow> False | _ \<Rightarrow> True)"

text \<open>\<open>semantic\<close> is what happens to a semantic target.\<close>

definition dispatch_with :: "'s runtime \<Rightarrow> (semantic_target_ref \<Rightarrow> ('s, dispatch_receipt) dispatching)
    \<Rightarrow> action \<Rightarrow> resolved_target \<Rightarrow> verification_policy \<Rightarrow> i64 \<Rightarrow> ('s, dispatch_receipt) dispatching" where
  "dispatch_with R semantic action target policy deadline =
     try_bind (check_before_effect deadline) (\<lambda>_.
     if validate_action (rt_parent_is_dir R) action \<noteq> Inr ()
     then ret (Inl (refused ''action parameters are invalid''))
     else
     try_bind (rt_auxiliary R action deadline) (\<lambda>auxiliary.
     case auxiliary of
       Some receipt \<Rightarrow> ret (Inr receipt)
     | None \<Rightarrow>
         if unverified_set_value action policy
         then ret (Inl (refused ''set_value requires target value hash verification''))
         else (case target of
           SemanticTarget t \<Rightarrow> semantic t
         | NoResolved \<Rightarrow> ret (Inl (refused ''action requires a fenced target''))
         | ElementTarget node \<Rightarrow>
             if validate_live_element node \<noteq> Inr ()
             then ret (Inl (refused ''semantic target is unavailable''))
             else dispatch_fenced R action target policy deadline
         | PointTarget _ \<Rightarrow> dispatch_fenced R action target policy deadline)))"

text \<open>The actions that a semantic target takes as input while it has the focus.\<close>

fun focused_action :: "action \<Rightarrow> bool" where
  "focused_action (TypeText _ _ _ _) = True"
| "focused_action (Press _ _ _) = True"
| "focused_action (Paste _) = True"
| "focused_action (Hotkey _) = True"
| "focused_action (Scroll _ _) = True"
| "focused_action _ = False"

text \<open>The input of a focused target is dispatched again, at the point (0, 0) and unverified.\<close>

definition dispatch_focused :: "'s runtime \<Rightarrow> action \<Rightarrow> i64 \<Rightarrow> ('s, dispatch_receipt) dispatching" where
  "dispatch_focused R action deadline =
     dispatch_with R (\<lambda>_. ret (rt_panic R)) action (PointTarget \<lparr>p_x = 0, p_y = 0\<rparr>) NoVerification deadline"

text \<open>Off macOS the auxiliary actions are refused.\<close>

fun auxiliary_refusal :: "action \<Rightarrow> string option" where
  "auxiliary_refusal (Screenshot _) = Some ''screenshot is unavailable on this backend''"
| "auxiliary_refusal (Application _ _) = Some ''application actions are unavailable on this backend''"
| "auxiliary_refusal (Window _ _ _) = Some ''window actions are unavailable on this backend''"
| "auxiliary_refusal (Open _ _ _) = Some ''open is unavailable on this backend''"
| "auxiliary_refusal (ClipboardWrite _) = Some ''clipboard actions are unavailable on this backend''"
| "auxiliary_refusal _ = None"

definition refuse_auxiliary :: "action \<Rightarrow> i64 \<Rightarrow> ('s, dispatch_receipt option) dispatching" where
  "refuse_auxiliary action deadline = (case auxiliary_refusal action of
       None \<Rightarrow> ret (Inr None)
     | Some message \<Rightarrow> try_bind (check_before_effect deadline) (\<lambda>_. ret (Inl (unavailable message))))"

definition refuse_drag :: "native_point \<Rightarrow> native_point \<Rightarrow> i64 \<Rightarrow> ('s, unit) dispatching" where
  "refuse_drag origin destination deadline = ret (Inl (unavailable ''drag is unavailable on this backend''))"

text \<open>\<open>NativeRuntime::set_value\<close> is never called off macOS.\<close>

definition refuse_set_value :: "native_element \<Rightarrow> string \<Rightarrow> i64 \<Rightarrow> ('s, unit) dispatching" where
  "refuse_set_value node value deadline = ret (Inl (unavailable ''set_value is unavailable on this backend''))"

end
