(* ===== verification/NativeDispatch.thy ===== *)
theory NativeDispatch
  imports Dispatch
begin

text \<open>
  \<open>NativeExecutor::dispatch\<close> on Linux (lib.rs): the runtime of Linux - the input of LinuxInput, the
  accessibility backend for a semantic target - and the executor as the engine uses it.
\<close>

definition linux_runtime :: "'b native \<Rightarrow> 'b native_state runtime" where
  "linux_runtime N = \<lparr>rt_platform = Linux, rt_backend = ''praefectus-linux'',
     rt_parent_is_dir = nv_parent_is_dir N, rt_panic = nv_panic N, rt_auxiliary = refuse_auxiliary,
     rt_capabilities = linux_capabilities N, rt_allowed = global_input_allowed N, rt_per_process = ret False,
     rt_resolve = native_resolve N,
     rt_click = (\<lambda>p button. on_desktop (native_click (nv_system N) p button)),
     rt_move = (\<lambda>p. on_desktop (native_move (nv_system N) p)),
     rt_type_text = (\<lambda>txt clear press_return delay_ms.
       on_desktop (native_type_text (nv_system N) txt clear press_return delay_ms)),
     rt_press = (\<lambda>key. on_desktop (native_press (nv_system N) key 1 None)),
     rt_paste = (\<lambda>txt. on_desktop (native_paste (nv_system N) txt)),
     rt_hotkey = (\<lambda>keys. on_desktop (native_hotkey (nv_system N) keys)),
     rt_scroll = (\<lambda>direction. on_desktop (native_scroll (nv_system N) direction 1)),
     rt_drag = refuse_drag, rt_set_value = refuse_set_value\<rparr>"

definition no_backend :: dispatch_error where
  "no_backend = unavailable ''accessibility backend is unavailable''"

definition focused_target :: "'b native \<Rightarrow> i64 \<Rightarrow> ('b native_state, semantic_target_ref) dispatching" where
  "focused_target N deadline = with_backend N no_backend (\<lambda>_. no_backend) (do {
     r \<leftarrow> at_focused_target (nv_atspi N) deadline;
     ret (map_sum (\<lambda>_. refused ''focused target changed'') id r)
   })"

definition dispatch_semantic :: "'b native \<Rightarrow> action \<Rightarrow> i64 \<Rightarrow> semantic_target_ref
    \<Rightarrow> ('b native_state, dispatch_receipt) dispatching" where
  "dispatch_semantic N action deadline t =
     (if focused_action action then
        try_bind (focused_target N deadline) (\<lambda>focused.
        if focused \<noteq> t then ret (Inl (refused ''semantic target is not focused''))
        else dispatch_focused (linux_runtime N) action deadline)
      else case action of
        Invoke \<Rightarrow> with_backend N no_backend (\<lambda>_. no_backend) (at_invoke (nv_atspi N) t deadline)
      | SetValue value \<Rightarrow>
          with_backend N no_backend (\<lambda>_. no_backend) (at_set_value (nv_atspi N) t value deadline)
      | _ \<Rightarrow> with_backend N no_backend (\<lambda>_. no_backend) (ret (Inl (unavailable ''semantic action is unavailable''))))"

definition native_dispatch :: "'b native \<Rightarrow> action \<Rightarrow> resolved_target \<Rightarrow> verification_policy \<Rightarrow> i64
    \<Rightarrow> ('b native_state, dispatch_receipt) dispatching" where
  "native_dispatch N action target policy deadline =
     dispatch_with (linux_runtime N) (dispatch_semantic N action deadline) action target policy deadline"

text \<open>\<open>impl Executor for NativeExecutor\<close>\<close>

definition native_executor :: "'b native \<Rightarrow> 'b native_state executor" where
  "native_executor N = \<lparr>x_session_isolation = ret (nv_isolation N),
     x_capabilities = linux_capabilities N,
     x_context_hash = native_context_hash N,
     x_observe = native_observe N,
     x_resolve = native_resolve N,
     x_dispatch = native_dispatch N\<rparr>"

end
