(* ===== verification/HonestDispatch.thy ===== *)
theory HonestDispatch
  imports Dispatch ExecutorContract
begin

text \<open>
  What a dispatch may do, for any runtime.  Two contracts, as locales: an honest runtime, whose
  reads have no effect, never has its dispatch deny an effect; and a gated runtime, on which global
  input is disabled, does nothing that breaks the invariant of its reads.  Linux and Windows are
  interpretations.
\<close>

section \<open>Rules\<close>

text \<open>
  \<open>denies_honestly tr m\<close>: if \<open>m\<close> fails and does not say that the effect is unknown, nothing was
  added to \<open>tr\<close>.  \<open>admits_failure tr m\<close>: every failure says that the effect is unknown.
\<close>

definition denies_honestly :: "('s \<Rightarrow> 'e list) \<Rightarrow> ('s, dispatch_error + 'a) state \<Rightarrow> bool" where
  "denies_honestly tr m \<longleftrightarrow> grows tr (\<lambda>r l. \<forall>e. r = Inl e \<longrightarrow> de_effect e \<noteq> EffectUnknown \<longrightarrow> l = []) m"

definition admits_failure :: "('s \<Rightarrow> 'e list) \<Rightarrow> ('s, dispatch_error + 'a) state \<Rightarrow> bool" where
  "admits_failure tr m \<longleftrightarrow> grows tr (\<lambda>r l. \<forall>e. r = Inl e \<longrightarrow> de_effect e = EffectUnknown) m"

abbreviation quiet_on :: "('s \<Rightarrow> 'e list) \<Rightarrow> ('s, 'a) state \<Rightarrow> bool" where
  "quiet_on tr \<equiv> grows tr (\<lambda>_ l. l = [])"

named_theorems quiet_rules \<open>computations without an effect\<close>
named_theorems honest_rules \<open>computations that know when nothing happened\<close>
named_theorems admitting_rules \<open>computations whose failures are uncertain\<close>

lemma quiet_return [quiet_rules]: "quiet_on tr (ret x)"
  by (rule grows_return) simp

lemma quiet_bind [quiet_rules]:
  "quiet_on tr m \<Longrightarrow> (\<And>x. quiet_on tr (f x)) \<Longrightarrow> quiet_on tr (State_Monad.bind m f)"
  by (rule grows_bind, assumption) simp

lemma quiet_try [quiet_rules]:
  "quiet_on tr m \<Longrightarrow> (\<And>x. quiet_on tr (f x)) \<Longrightarrow> quiet_on tr (try_bind m f)"
  by (rule grows_try, assumption) simp_all

lemma quiet_if [quiet_rules]:
  "(c \<Longrightarrow> quiet_on tr m) \<Longrightarrow> (\<not> c \<Longrightarrow> quiet_on tr n) \<Longrightarrow> quiet_on tr (if c then m else n)"
  by simp

lemma quiet_cases [quiet_rules]:
  "quiet_on tr m \<Longrightarrow> (\<And>x. quiet_on tr (f x)) \<Longrightarrow> quiet_on tr (case v of None \<Rightarrow> m | Some x \<Rightarrow> f x)"
  "(\<And>e. quiet_on tr (g e)) \<Longrightarrow> (\<And>x. quiet_on tr (f' x)) \<Longrightarrow> quiet_on tr (case r of Inl e \<Rightarrow> g e | Inr x \<Rightarrow> f' x)"
  "(\<And>a b. quiet_on tr (k a b)) \<Longrightarrow> quiet_on tr (case p of (a, b) \<Rightarrow> k a b)"
  by (simp_all split: option.split sum.split prod.split)

lemma quiet_each [quiet_rules]: "(\<And>x. quiet_on tr (f x)) \<Longrightarrow> quiet_on tr (each f xs)"
  by (induction xs) (auto intro!: quiet_rules)

lemma quiet_primitives [quiet_rules]:
  "effectless effects now_ms" "effectless effects is_cancelled" "effectless effects (ask f)"
  "effectless effects (get_exec g)" "effectless effects (boundary_reached d)"
  "effectless effects (check_protocol_boundary d)" "effectless effects host_io" "effectless effects (pause delay)"
  by (rule grows_unchanged, simp add: host_effects_def now_ms_def is_cancelled_def ask_def get_exec_def
      boundary_reached_def check_protocol_boundary_def host_io_def next_io_def pause_def)+

lemma quiet_checks [quiet_rules]:
  "effectless effects (check_before_effect d)" "effectless effects (check_after_effect d)"
  "effectless effects (check_partial_dispatch i d message)" "effectless effects (interrupted_typing started)"
  "effectless effects (watch_typing started d)"
  unfolding check_before_effect_def check_after_effect_def check_partial_dispatch_def
    interrupted_typing_def watch_typing_def
  by (intro quiet_rules)+

lemma honest_quiet: "quiet_on tr m \<Longrightarrow> denies_honestly tr m"
  unfolding denies_honestly_def by (rule grows_mono, assumption) blast

lemma honest_try [honest_rules]:
  "quiet_on tr m \<Longrightarrow> (\<And>x. denies_honestly tr (f x)) \<Longrightarrow> denies_honestly tr (try_bind m f)"
  unfolding denies_honestly_def by (rule grows_try, assumption) simp_all

lemma honest_bind [honest_rules]:
  "quiet_on tr m \<Longrightarrow> (\<And>x. denies_honestly tr (f x)) \<Longrightarrow> denies_honestly tr (State_Monad.bind m f)"
  unfolding denies_honestly_def by (rule grows_bind, assumption) simp

lemma honest_if [honest_rules]:
  "(c \<Longrightarrow> denies_honestly tr m) \<Longrightarrow> (\<not> c \<Longrightarrow> denies_honestly tr n) \<Longrightarrow> denies_honestly tr (if c then m else n)"
  by simp

lemma honest_return [honest_rules]: "denies_honestly tr (ret x)"
  by (rule honest_quiet, rule quiet_return)

lemma admitting_return [admitting_rules]: "admits_failure tr (ret (Inr x))"
  unfolding admits_failure_def by (rule grows_return) simp

lemma admitting_ambiguous [admitting_rules]: "admits_failure tr (ret (Inl (ambiguous message)))"
  unfolding admits_failure_def by (rule grows_return) (simp add: ambiguous_def)

lemma admitting_try [admitting_rules]:
  "admits_failure tr m \<Longrightarrow> (\<And>x. admits_failure tr (f x)) \<Longrightarrow> admits_failure tr (try_bind m f)"
  unfolding admits_failure_def by (rule grows_try, assumption) (auto elim: grows_mono)

lemma admitting_bind:
  "quiet_on tr m \<Longrightarrow> (\<And>x. admits_failure tr (f x)) \<Longrightarrow> admits_failure tr (State_Monad.bind m f)"
  unfolding admits_failure_def by (rule grows_bind, assumption) simp

lemma admitting_if [admitting_rules]:
  "(c \<Longrightarrow> admits_failure tr m) \<Longrightarrow> (\<not> c \<Longrightarrow> admits_failure tr n) \<Longrightarrow> admits_failure tr (if c then m else n)"
  by simp

lemma honest_admitting: "admits_failure tr m \<Longrightarrow> denies_honestly tr m"
  unfolding denies_honestly_def admits_failure_def by (rule grows_mono, assumption) simp

text \<open>A first step that may fail without an effect, then steps whose failures are uncertain.\<close>

lemma honest_then:
  assumes "denies_honestly tr m" and "\<And>x. admits_failure tr (f x)"
  shows "denies_honestly tr (try_bind m f)"
  unfolding denies_honestly_def
proof (rule grows_try [OF assms(1) [unfolded denies_honestly_def]])
  fix x l
  show "grows tr (\<lambda>r l'. \<forall>e. r = Inl e \<longrightarrow> de_effect e \<noteq> EffectUnknown \<longrightarrow> l @ l' = []) (f x)"
    by (rule grows_mono [OF assms(2) [unfolded admits_failure_def]]) simp
qed simp

lemma admitting_each [admitting_rules]:
  "(\<And>x. x \<in> set xs \<Longrightarrow> admits_failure tr (f x)) \<Longrightarrow> admits_failure tr (each f xs)"
  by (induction xs) (auto intro!: admitting_rules)

text \<open>A loop whose first round may still fail without an effect.\<close>

lemma honest_each:
  assumes "denies_honestly tr (f 0)" and "\<And>i. admits_failure tr (f (Suc i))"
  shows "denies_honestly tr (each f [0..<n])"
proof (cases n)
  case 0
  then show ?thesis by (simp add: honest_return)
next
  case (Suc k)
  have "admits_failure tr (each f [1..<Suc k])"
    by (rule admitting_each) (use assms(2) in \<open>auto dest!: Suc_le_D\<close>)
  then show ?thesis
    unfolding Suc by (simp add: upt_conv_Cons del: upt_Suc) (rule honest_then [OF assms(1)])
qed

lemma disclaimed_denies: "denies_honestly tr m \<longleftrightarrow> grows tr (\<lambda>r l. disclaimed r \<longrightarrow> l = []) m"
  by (simp add: denies_honestly_def disclaimed_iff)

section \<open>Steps shared by the runtimes\<close>

lemma map_sum_Inl_iff: "map_sum f g r = Inl y \<longleftrightarrow> (\<exists>x. r = Inl x \<and> y = f x)"
  by (cases r) auto

abbreviation adds_effects :: "('s \<Rightarrow> 'e list) \<Rightarrow> ('s, 'a) state \<Rightarrow> bool" where
  "adds_effects tr \<equiv> grows tr (\<lambda>_ _. True)"

lemma admitting_sent: "adds_effects (host_effects effects) m \<Longrightarrow> admits_failure (host_effects effects) (sent m)"
  unfolding admits_failure_def sent_def
  by (rule grows_bind, assumption)
    (auto intro!: grows_return simp: ambiguous_dispatch_def ambiguous_def map_sum_Inl_iff)

lemma quiet_sent: "effectless effects m \<Longrightarrow> effectless effects (sent m)"
  unfolding sent_def by (intro quiet_rules)

lemma admitting_check_after: "admits_failure (host_effects effects) (check_after_effect d)"
  unfolding check_after_effect_def
  by (rule admitting_bind) (auto intro: quiet_rules admitting_rules)

lemma admitting_finished [admitting_rules]:
  "admits_failure (host_effects effects) (finished R d)"
  "admits_failure (host_effects effects) (finished_pointer R policy d)"
  unfolding finished_def finished_pointer_def by (intro admitting_rules admitting_check_after)+

lemma admitting_partial: "admits_failure (host_effects effects) (check_partial_dispatch (Suc i) d message)"
  unfolding check_partial_dispatch_def
  by (auto intro!: admitting_bind quiet_rules admitting_rules)

lemma honest_partial: "denies_honestly (host_effects effects) (check_partial_dispatch i d message)"
  by (rule honest_quiet, rule quiet_checks)

lemma admitting_watch: "admits_failure (host_effects effects) (watch_typing True d)"
  unfolding watch_typing_def interrupted_typing_def if_True
  by (auto intro!: admitting_bind quiet_rules admitting_rules)

lemma quiet_refuse [quiet_rules]:
  "effectless effects (refuse_auxiliary action d)" "effectless effects (refuse_drag p q d)"
  "effectless effects (refuse_set_value node v d)"
  unfolding refuse_auxiliary_def refuse_drag_def refuse_set_value_def by (intro quiet_rules)+

definition honest_typing :: "dispatch_error + bool \<times> nat list \<Rightarrow> 'e list \<Rightarrow> bool" where
  "honest_typing r l \<longleftrightarrow> (case r of
       Inl e \<Rightarrow> de_effect e \<noteq> EffectUnknown \<longrightarrow> l = []
     | Inr (started, chunk) \<Rightarrow> \<not> started \<longrightarrow> l = [])"

section \<open>The contract of an honest runtime\<close>

locale honest_runtime =
  fixes R :: "'s runtime" and effects :: "'s \<Rightarrow> 'e list"
  assumes capabilities_quiet: "effectless effects (rt_capabilities R)"
    and allowed_quiet: "effectless effects (rt_allowed R)"
    and per_process_quiet: "effectless effects (rt_per_process R)"
    and resolve_quiet: "effectless effects (rt_resolve R target d)"
    and click_adds: "adds_effects (host_effects effects) (rt_click R p button)"
    and move_adds: "adds_effects (host_effects effects) (rt_move R p)"
    and type_text_adds: "adds_effects (host_effects effects) (rt_type_text R txt clear press_return delay_ms)"
    and press_adds: "adds_effects (host_effects effects) (rt_press R key)"
    and paste_adds: "adds_effects (host_effects effects) (rt_paste R txt)"
    and hotkey_adds: "adds_effects (host_effects effects) (rt_hotkey R keys)"
    and scroll_adds: "adds_effects (host_effects effects) (rt_scroll R direction)"
    and auxiliary_honest: "denies_honestly (host_effects effects) (rt_auxiliary R action d)"
    and auxiliary_skips: "grows (host_effects effects) (\<lambda>r l. r = Inr None \<longrightarrow> l = []) (rt_auxiliary R action d)"
    and drag_honest: "denies_honestly (host_effects effects) (rt_drag R p q d)"
    and set_value_honest: "denies_honestly (host_effects effects) (rt_set_value R node v d)"
begin

abbreviation honest :: "('s host, dispatch_error + 'a) state \<Rightarrow> bool" where
  "honest \<equiv> denies_honestly (host_effects effects)"

abbreviation admitting :: "('s host, dispatch_error + 'a) state \<Rightarrow> bool" where
  "admitting \<equiv> admits_failure (host_effects effects)"

lemmas inputs_add = click_adds move_adds type_text_adds press_adds paste_adds hotkey_adds scroll_adds

lemmas admitting_inputs = inputs_add [THEN admitting_sent]

lemma admitting_type_chunks: "admitting (type_chunks R delay_ms d n True chunk rest)"
proof (induction rest arbitrary: chunk)
  case (Cons ch rest)
  show ?case
    unfolding type_chunks.simps by (intro admitting_rules admitting_watch admitting_inputs Cons.IH)
qed (simp add: admitting_rules)

lemma adds_typed: "adds_effects (host_effects effects) (sent (rt_type_text R txt clear press_return delay_ms))"
  by (rule grows_mono [OF admitting_inputs(3) [unfolded admits_failure_def]]) simp_all

lemma type_chunks_started:
  "grows (host_effects effects) (\<lambda>r l. \<forall>started c. r = Inr (started, c) \<longrightarrow> started)
     (type_chunks R delay_ms d n True chunk rest)"
proof (induction rest arbitrary: chunk)
  case Nil
  show ?case by (simp add: grows_return)
next
  case (Cons ch rest)
  have watch: "adds_effects (host_effects effects) (watch_typing True d)"
    by (rule grows_mono [OF quiet_checks(5)]) simp
  show ?case
    unfolding type_chunks.simps
    by (rule grows_try [OF watch], simp, rule grows_if, rule grows_try [OF adds_typed],
        simp, rule Cons.IH, rule Cons.IH)
qed

lemma honest_after_start:
  "grows (host_effects effects) (\<lambda>r l'. honest_typing r (l @ l')) (type_chunks R delay_ms d n True chunk rest)"
  by (rule grows_mono [OF grows_conj [OF type_chunks_started admitting_type_chunks [unfolded admits_failure_def]]])
    (auto simp: honest_typing_def split: sum.split)

lemma honest_type_chunks:
  "grows (host_effects effects) honest_typing (type_chunks R delay_ms d n False chunk rest)"
proof (induction rest arbitrary: chunk)
  case Nil
  show ?case by (simp add: grows_return honest_typing_def)
next
  case (Cons ch rest)
  have sent: "honest_typing (Inl e) l"
    if "\<forall>e'. (Inl e :: dispatch_error + unit) = Inl e' \<longrightarrow> de_effect e' = EffectUnknown" for e and l :: "'e list"
    using that by (simp add: honest_typing_def)
  show ?case
    unfolding type_chunks.simps
    by (rule grows_try [OF quiet_checks(5)], simp add: honest_typing_def, simp only: append_Nil,
        intro grows_if Cons.IH grows_try [OF admitting_inputs(3) [unfolded admits_failure_def]]
          honest_after_start sent)
qed

lemma honest_type_text: "honest (dispatch_type_text R txt clear press_return delay_ms d)"
proof -
  let ?n = "if delay_ms \<noteq> None then 1 else 64"
  define rest :: "bool \<times> nat list \<Rightarrow> ('s, unit) dispatching" where
    "rest = (\<lambda>(effect_started, chunk).
      try_bind (if chunk \<noteq> [] then sent (rt_type_text R (utf8_encode chunk) False False delay_ms)
                else ret (Inr ())) (\<lambda>_.
      try_bind (watch_typing (effect_started \<or> chunk \<noteq> []) d) (\<lambda>_.
      if press_return then sent (rt_type_text R [] False True None) else ret (Inr ()))))"
  have typed: "admitting (rest (started, chunk))" if "started \<or> chunk \<noteq> []" for started chunk
    using that unfolding rest_def prod.case
    by (simp, intro admitting_rules admitting_watch admitting_inputs conjI impI)
  have untyped: "honest (rest (False, []))"
    unfolding rest_def prod.case
    by (auto intro!: honest_try honest_if quiet_rules intro: honest_admitting admitting_rules admitting_inputs)
  have unstarted: "honest (try_bind (type_chunks R delay_ms d n False [] (chars txt)) rest)" for n
    unfolding denies_honestly_def
  proof (rule grows_try [OF honest_type_chunks])
    show "honest_typing (Inl e) l \<Longrightarrow> \<forall>e'. Inl e = Inl e' \<longrightarrow> de_effect e' \<noteq> EffectUnknown \<longrightarrow> l = []" for e l
      by (simp add: honest_typing_def)
    fix x and l :: "'e list"
    assume l: "honest_typing (Inr x) l"
    obtain started chunk where x: "x = (started, chunk)" by (cases x)
    show "grows (host_effects effects) (\<lambda>r l'. \<forall>e. r = Inl e \<longrightarrow> de_effect e \<noteq> EffectUnknown \<longrightarrow> l @ l' = []) (rest x)"
    proof (cases "started \<or> chunk \<noteq> []")
      case True
      then show ?thesis
        using typed [OF True] unfolding x admits_failure_def by (auto elim: grows_mono)
    next
      case False
      then show ?thesis
        using untyped l unfolding x denies_honestly_def by (simp add: honest_typing_def)
    qed
  qed
  have started: "admitting (try_bind (type_chunks R delay_ms d n True [] (chars txt)) rest)" for n
    unfolding admits_failure_def
  proof (rule grows_try [OF grows_conj [OF type_chunks_started admitting_type_chunks [unfolded admits_failure_def]]])
    fix x :: "bool \<times> nat list" and l :: "'e list"
    assume "(\<forall>started c. Inr x = Inr (started, c) \<longrightarrow> started) \<and>
      (\<forall>e. Inr x = Inl e \<longrightarrow> de_effect e = EffectUnknown)"
    then obtain chunk where "x = (True, chunk)" by (cases x) auto
    then show "grows (host_effects effects) (\<lambda>r l'. \<forall>e. r = Inl e \<longrightarrow> de_effect e = EffectUnknown) (rest x)"
      using typed [of True chunk] by (simp add: admits_failure_def)
  qed simp
  have "honest (try_bind (if clear then sent (rt_type_text R [] True False None) else ret (Inr ()))
      (\<lambda>_. try_bind (type_chunks R delay_ms d ?n clear [] (chars txt)) rest))"
  proof (cases clear)
    case True
    then have cleared: "clear = True" by simp
    show ?thesis unfolding cleared if_True
      by (rule honest_then [OF honest_admitting started]) (intro admitting_inputs)
  next
    case False
    then have unclear: "clear = False" by simp
    show ?thesis unfolding unclear if_False by (rule honest_try [OF quiet_return unstarted])
  qed
  then show ?thesis
    unfolding dispatch_type_text_def Let_def rest_def [symmetric]
    by (auto intro!: honest_rules)
qed

lemmas honest_inputs = admitting_inputs [THEN honest_admitting]

lemma honest_click: "honest (dispatch_click R button n target policy d)"
proof -
  let ?f = "\<lambda>index. try_bind (check_partial_dispatch index d ''click interrupted after partial dispatch'')
    (\<lambda>_. runtime_click R target button)"
  have "honest (each ?f [0..<n])"
  proof (cases target)
    case (PointTarget p)
    show ?thesis
      unfolding PointTarget runtime_click_def resolved_target.case
      by (rule honest_each) (intro honest_try quiet_checks honest_inputs admitting_try admitting_partial admitting_inputs)+
  qed (auto simp: runtime_click_def intro!: honest_quiet quiet_rules)
  then show ?thesis
    unfolding dispatch_click_def by (intro honest_rules honest_then admitting_rules)
qed

lemma honest_press: "honest (dispatch_press R key n delay_ms d)"
proof -
  have pressed: "admitting (try_bind (sent (rt_press R key)) (\<lambda>_. do {
      (if i + 1 < n then pause delay_ms else ret ()); ret (Inr ()) }))" for i
    by (intro admitting_rules admitting_inputs admitting_bind quiet_rules)
  show ?thesis
    unfolding dispatch_press_def
    by (rule honest_then [OF honest_each admitting_finished(1)], rule honest_then [OF honest_partial pressed],
        rule admitting_try [OF admitting_partial pressed])
qed

lemma honest_scroll: "honest (dispatch_scroll_steps R direction n d)"
  unfolding dispatch_scroll_steps_def
  by (rule honest_then [OF honest_each admitting_finished(1)], rule honest_then [OF honest_partial],
      rule admitting_inputs, rule admitting_try [OF admitting_partial], rule admitting_inputs)

lemma honest_move: "honest (dispatch_move R target policy d)"
proof -
  have "honest (runtime_move R target)"
    by (cases target) (auto simp: runtime_move_def intro!: honest_inputs honest_rules)
  then show ?thesis
    unfolding dispatch_move_def by (intro honest_try honest_then quiet_checks admitting_finished)
qed

lemma honest_after_check:
  "honest m \<Longrightarrow> (\<And>x. admitting (g x)) \<Longrightarrow> honest (try_bind (check_before_effect d) (\<lambda>_. try_bind m g))"
  by (intro honest_try quiet_checks honest_then)

lemma honest_drag: "honest (dispatch_drag R destination button target policy d)"
  unfolding dispatch_drag_def
  by (cases target) (auto intro!: honest_if honest_bind honest_return honest_after_check resolve_quiet drag_honest
      admitting_finished split: sum.split resolved_target.split)

lemma honest_set_value: "honest (dispatch_set_value R v target d)"
  unfolding dispatch_set_value_def
  by (cases target) (auto intro!: honest_return honest_after_check set_value_honest admitting_finished)

lemma honest_once: "adds_effects (host_effects effects) m \<Longrightarrow> honest (dispatch_once R m d)"
  unfolding dispatch_once_def denies_honestly_def
proof (rule grows_bind, assumption)
  fix r :: "native_error + unit" and l
  have "admitting (try_bind (ret (map_sum (\<lambda>_. failed_dispatch) id r)) (\<lambda>_. finished R d))"
    by (cases r) (auto intro!: admitting_try admitting_finished admitting_return grows_return
        simp: admits_failure_def [of _ "ret _"] failed_dispatch_def)
  then show "grows (host_effects effects) (\<lambda>r l'. \<forall>e. r = Inl e \<longrightarrow> de_effect e \<noteq> EffectUnknown \<longrightarrow> l @ l' = [])
      (try_bind (ret (map_sum (\<lambda>_. failed_dispatch) id r)) (\<lambda>_. finished R d))"
    unfolding admits_failure_def by (rule grows_mono) simp
qed

lemma honest_action: "honest (dispatch_input R action target policy d)"
proof (cases action)
  case (TypeText s clear press_return delay_ms)
  then show ?thesis by (simp add: honest_then honest_type_text admitting_finished)
qed (simp_all add: honest_rules honest_once inputs_add honest_click honest_press honest_scroll honest_move honest_drag
      honest_set_value)

lemma honest_fenced: "honest (dispatch_fenced R action target policy d)"
  unfolding dispatch_fenced_def
  by (auto intro!: honest_rules honest_action capabilities_quiet allowed_quiet per_process_quiet split: sum.split)

text \<open>What follows the auxiliary actions starts without an effect.\<close>

lemma honest_auxiliary:
  assumes "honest m" and "\<And>receipt. f (Some receipt) = ret (Inr receipt)" and "f None = m"
  shows "honest (try_bind (rt_auxiliary R action d) f)"
  unfolding denies_honestly_def
proof (rule grows_try [OF grows_conj [OF auxiliary_honest [unfolded denies_honestly_def] auxiliary_skips]])
  fix a :: "dispatch_receipt option" and l :: "'e list"
  assume l: "(\<forall>e. (Inr a :: dispatch_error + dispatch_receipt option) = Inl e \<longrightarrow> de_effect e \<noteq> EffectUnknown \<longrightarrow> l = []) \<and> (Inr a = Inr None \<longrightarrow> l = [])"
  show "grows (host_effects effects) (\<lambda>r l'. \<forall>e. r = Inl e \<longrightarrow> de_effect e \<noteq> EffectUnknown \<longrightarrow> l @ l' = []) (f a)"
    using l assms by (cases a) (auto simp: denies_honestly_def intro: grows_return)
qed simp

lemma dispatch_is_honest:
  assumes "\<And>t. honest (semantic t)"
  shows "honest (dispatch_with R semantic action target policy d)"
  unfolding dispatch_with_def
proof (intro honest_try [OF quiet_checks(1)] honest_if honest_return, rule honest_auxiliary)
  show "honest (case None of Some receipt \<Rightarrow> ret (Inr receipt) | None \<Rightarrow>
      if unverified_set_value action policy
      then ret (Inl (refused ''set_value requires target value hash verification''))
      else (case target of
        SemanticTarget t \<Rightarrow> semantic t
      | NoResolved \<Rightarrow> ret (Inl (refused ''action requires a fenced target''))
      | ElementTarget node \<Rightarrow>
          if validate_live_element node \<noteq> Inr ()
          then ret (Inl (refused ''semantic target is unavailable''))
          else dispatch_fenced R action target policy d
      | PointTarget _ \<Rightarrow> dispatch_fenced R action target policy d))"
    by (cases target) (auto intro!: honest_return honest_fenced assms)
qed simp_all

lemma focused_is_honest: "honest (dispatch_focused R action d)"
  unfolding dispatch_focused_def by (rule dispatch_is_honest, rule honest_return)

end

section \<open>The contract of a runtime that is gated\<close>

text \<open>
  \<open>I\<close> says, among other things, that global input is disabled; the reads of the runtime keep it,
  and so does any other use of it than for input.
\<close>

locale gated_runtime =
  fixes R :: "'s runtime" and I :: "'s host \<Rightarrow> bool"
  assumes clock_keeps: "keeps I now_ms" "keeps I is_cancelled"
    and capabilities_keep: "keeps I (rt_capabilities R)"
    and not_allowed: "hoare I (rt_allowed R) (\<lambda>r h. \<not> r \<and> I h)"
    and not_per_process: "hoare I (rt_per_process R) (\<lambda>r h. \<not> r \<and> I h)"
    and auxiliary_keeps: "keeps I (rt_auxiliary R action d)"
    and set_value_keeps: "keeps I (rt_set_value R node v d)"
begin

lemma before_keeps: "keeps I (check_before_effect d)"
  unfolding check_before_effect_def by (intro keeps_rules clock_keeps)

lemma after_keeps: "keeps I (finished R d)"
  unfolding finished_def check_after_effect_def boundary_reached_def by (intro keeps_rules clock_keeps)

lemma other_input_keeps:
  "\<not> global_input_action action \<Longrightarrow> keeps I (dispatch_input R action target policy d)"
  by (cases action; cases target)
    (auto simp: dispatch_set_value_def intro!: keeps_rules before_keeps after_keeps set_value_keeps)

lemma gate_keeps:
  "keeps I (do {
      per_process \<leftarrow> rt_per_process R;
      allowed \<leftarrow> rt_allowed R;
      if \<not> allowed \<and> \<not> per_process \<and> global_input_action action
      then ret (Inl (refused ''global input delivery is disabled for this host''))
      else dispatch_input R action target policy d })"
proof (rule keeps_hoare, rule hoare_bind [OF not_per_process])
  fix per_process
  show "hoare (\<lambda>h. \<not> per_process \<and> I h) (do {
      allowed \<leftarrow> rt_allowed R;
      if \<not> allowed \<and> \<not> per_process \<and> global_input_action action
      then ret (Inl (refused ''global input delivery is disabled for this host''))
      else dispatch_input R action target policy d }) (\<lambda>r h. I h \<and> True)"
  proof (cases per_process)
    case False
    have "hoare (\<lambda>h. \<not> allowed \<and> I h)
      (if \<not> allowed \<and> \<not> per_process \<and> global_input_action action
       then ret (Inl (refused ''global input delivery is disabled for this host''))
       else dispatch_input R action target policy d) (\<lambda>r h. I h \<and> True)" for allowed
      using hoare_keeps [OF other_input_keeps] False by (auto simp: hoare_def)
    then show ?thesis using False by (auto intro: hoare_bind [OF not_allowed])
  qed (simp add: hoare_def)
qed

lemma fenced_keeps: "keeps I (dispatch_fenced R action target policy d)"
  unfolding dispatch_fenced_def by (intro keeps_rules capabilities_keep gate_keeps)

lemma gated_dispatch_keeps:
  assumes "\<And>t. keeps I (semantic t)"
  shows "keeps I (dispatch_with R semantic action target policy d)"
  unfolding dispatch_with_def
  by (cases target; simp only: resolved_target.case;
      intro keeps_rules before_keeps auxiliary_keeps fenced_keeps assms)

lemma gated_focused_keeps: "keeps I (dispatch_focused R action d)"
  unfolding dispatch_focused_def by (rule gated_dispatch_keeps, rule keeps_return)

end

section \<open>Semantic targets\<close>

text \<open>Off macOS a dispatch for a semantic target either fails without an effect or is that of the platform.\<close>

lemma before_effect_denies:
  assumes "keeps P now_ms" and "keeps P is_cancelled"
  shows "hoare P (check_before_effect d) (\<lambda>r h. P h \<and> (\<forall>e. r = Inl e \<longrightarrow> de_effect e \<noteq> EffectUnknown))"
  unfolding check_before_effect_def
  by (intro hoare_bind_keeps assms hoare_if hoare_return) (auto simp: interrupted_def)

lemma auxiliary_denies:
  assumes "keeps P now_ms" and "keeps P is_cancelled"
  shows "hoare P (refuse_auxiliary action d)
    (\<lambda>r h. P h \<and> (\<forall>e. r = Inl e \<longrightarrow> de_effect e \<noteq> EffectUnknown) \<and> (\<forall>a. r = Inr a \<longrightarrow> a = None))"
proof (cases "auxiliary_refusal action")
  case (Some message)
  then show ?thesis
    unfolding refuse_auxiliary_def
    by (simp, intro hoare_try [OF before_effect_denies [OF assms]] hoare_return) (auto simp: unavailable_def)
qed (simp add: refuse_auxiliary_def hoare_return)

lemma semantic_dispatch:
  assumes "rt_auxiliary R = refuse_auxiliary" and "keeps P now_ms" and "keeps P is_cancelled"
    and "\<And>e h. P h \<Longrightarrow> de_effect e \<noteq> EffectUnknown \<Longrightarrow> Q (Inl e) h" and "hoare P (semantic t) Q"
  shows "hoare P (dispatch_with R semantic action (SemanticTarget t) policy d) Q"
proof -
  have refuse: "hoare P (ret (Inl (refused message))) Q" for message
    by (rule hoare_return, rule assms(4)) (simp_all add: refused_def)
  have rest: "hoare (\<lambda>h. P h \<and> (\<forall>e. Inr a = Inl e \<longrightarrow> de_effect e \<noteq> EffectUnknown) \<and> (\<forall>b. Inr a = Inr b \<longrightarrow> b = None))
      (case a of Some receipt \<Rightarrow> ret (Inr receipt) | None \<Rightarrow>
        if unverified_set_value action policy
        then ret (Inl (refused ''set_value requires target value hash verification''))
        else semantic t) Q" for a
  proof (cases a)
    case None
    then show ?thesis
      by (simp only: option.case) (rule hoare_pre [OF hoare_if [OF refuse assms(5)]], simp)
  qed (simp add: hoare_def)
  have auxiliary: "hoare P (try_bind (refuse_auxiliary action d) (\<lambda>a. case a of Some receipt \<Rightarrow> ret (Inr receipt) | None \<Rightarrow>
        if unverified_set_value action policy
        then ret (Inl (refused ''set_value requires target value hash verification''))
        else semantic t)) Q"
    by (rule hoare_try [OF auxiliary_denies [OF assms(2,3)] _ rest]) (use assms(4) in simp)
  show ?thesis
    unfolding dispatch_with_def resolved_target.case assms(1)
    by (rule hoare_try [OF before_effect_denies [OF assms(2,3)] _ hoare_pre [OF hoare_if [OF refuse auxiliary]]])
      (use assms(4) in simp_all)
qed

section \<open>The switch for global input\<close>

text \<open>The environment restricts global input, or the file does and can be read.\<close>

definition restricted_by :: "env_vars \<Rightarrow> ('s \<Rightarrow> restriction) \<Rightarrow> 's host \<Rightarrow> bool" where
  "restricted_by get_env get h \<longleftrightarrow> (case global_input_env_restriction get_env of
       Some restricted \<Rightarrow> restricted
     | None \<Rightarrow> rs_entry (get (h_exec h)) = RegularFile \<and> (\<forall>n. io_at (h_env h) n = IoOk))"

lemma keeps_entry_allowed: "keeps (entry_is e) (global_input_allowed_with_env os get_env)"
  unfolding global_input_allowed_with_env_def by (intro keeps_rules)

lemma part_not_allowed:
  assumes "restricted_by get_env get h" and "\<And>f s. get (upd f s) = f (get s)"
    and "run_state (on_part get upd (global_input_allowed_with_env os get_env)) h = (r, t)"
  shows "\<not> r \<and> h_env t = h_env h \<and> rs_entry (get (h_exec t)) = rs_entry (get (h_exec h))
    \<and> (\<exists>part. h_exec t = upd (\<lambda>_. part) (h_exec h))"
proof -
  let ?m = "global_input_allowed_with_env os get_env :: (restriction host, bool) state"
  let ?g = "\<lparr>h_env = h_env h, h_tick = h_tick h, h_exec = get (h_exec h)\<rparr>"
  obtain g' where g: "run_state ?m ?g = (r, g')" and t: "t = h\<lparr>h_tick := h_tick g', h_exec := upd (\<lambda>_. h_exec g') (h_exec h)\<rparr>"
    using assms(3) by (auto simp: on_part_def split: prod.splits)
  have "entry_is (rs_entry (get (h_exec h))) g'"
    using keepsD [OF keeps_entry_allowed _ g] by (simp add: entry_is_def)
  moreover have "\<not> r"
  proof (cases "global_input_env_restriction get_env")
    case None
    then have "fst (run_state ?m ?g) = False"
      using assms(1) by (intro file_restricts) (auto simp: restricted_by_def)
    then show ?thesis using g by simp
  next
    case (Some b)
    then show ?thesis using assms(1) g by (auto simp: restricted_by_def global_input_allowed_with_env_def)
  qed
  ultimately show ?thesis using assms(2) by (auto simp: t entry_is_def)
qed

end
