(* ===== verification/NativeSafety.thy ===== *)
theory NativeSafety
  imports NativeDispatch LinuxFacts HonestDispatch
begin

text \<open>
  What the native executor of Linux hands to the desktop: its runtime is an honest one, with the
  input events as the effects, so that a dispatch that fails and claims to know that nothing
  happened has handed over no event.
\<close>

definition input_effects :: "'b native_state \<Rightarrow> input_event list" where
  "input_effects s = dk_events (nx_desktop s)"

abbreviation events :: "'b native_state host \<Rightarrow> input_event list" where
  "events \<equiv> host_effects input_effects"

abbreviation quiet_input :: "('b native_state host, 'a) state \<Rightarrow> bool" where
  "quiet_input \<equiv> quiet_on events"

lemmas events_def = host_effects_def input_effects_def

lemma quiet_native_updates [quiet_rules]:
  "quiet_input (update_exec (nx_backend_update k))" "quiet_input (update_exec (nx_snapshots_update k'))"
  by (rule grows_unchanged, simp add: events_def update_exec_def)+

lemma quiet_parts [quiet_rules]:
  "quiet_input (in_restriction m)" "quiet_input (on_files m')" "quiet_input (on_backend m'' b)"
  by (rule grows_unchanged, simp add: events_def in_restriction_def on_files_def on_backend_def on_part_def
      split: prod.split)+

lemma on_desktop_grows: "grows (\<lambda>h. dk_events (h_exec h)) P m \<Longrightarrow> grows events P (on_desktop m)"
  by (fastforce simp: grows_def on_desktop_def on_part_def events_def split: prod.splits)

lemma quiet_on_desktop [quiet_rules]: "still m \<Longrightarrow> quiet_input (on_desktop m)"
  by (rule on_desktop_grows)

lemma quiet_runtime_call [quiet_rules]: "still m \<Longrightarrow> quiet_input (runtime_call m)"
  unfolding runtime_call_def by (intro quiet_rules)

lemma quiet_native_reads [quiet_rules]:
  "quiet_input (with_backend N poisoned wrap m)"
  "quiet_input (global_input_allowed N)"
  "quiet_input (linux_capabilities N)"
  "quiet_input (native_resolve N target deadline)"
  "quiet_input (observe_coordinates N)"
  unfolding with_backend_def global_input_allowed_def linux_capabilities_def connect_if_missing_def
    native_resolve_def resolve_coordinates_def resolve_coordinates_with_def stale_def observe_coordinates_def observe_coordinates_with_def
    next_snapshot_number_def Let_def
  by (cases target; intro quiet_rules still_rules; simp add: quiet_rules still_rules)+

lemma quiet_native_observe [quiet_rules]: "quiet_input (native_observe N target deadline)"
  unfolding native_observe_def observe_plain_def observe_plain_with_def observed_state_def native_target_content_hash_def
  by (cases target; simp; intro quiet_rules still_rules)

lemma quiet_context_hash [quiet_rules]: "quiet_input (native_context_hash N d)"
  unfolding native_context_hash_def by (intro quiet_rules)

lemma quiet_focused_target [quiet_rules]: "quiet_input (focused_target N d)"
  unfolding focused_target_def by (intro quiet_rules)

section \<open>The runtime of Linux\<close>

lemma desktop_adds: "extends m \<Longrightarrow> adds_effects events (on_desktop m)"
  by (rule on_desktop_grows) (simp add: grows_mono)

lemma grows_nothing: "quiet_on tr m \<Longrightarrow> grows tr (\<lambda>r l. P r \<longrightarrow> l = []) m"
  by (rule grows_mono, assumption) simp

interpretation linux_input: honest_runtime "linux_runtime N" input_effects
  by unfold_locales
    (simp_all add: linux_runtime_def quiet_rules quiet_refuse desktop_adds extends_rules honest_quiet grows_nothing)

lemma honest_semantic: "denies_honestly events (dispatch_semantic N action d t)"
proof (cases "focused_action action")
  case True
  then show ?thesis
    unfolding dispatch_semantic_def
    by (auto intro!: honest_rules linux_input.focused_is_honest quiet_rules)
next
  case False
  then show ?thesis
    unfolding dispatch_semantic_def by (cases action) (auto intro!: honest_quiet quiet_rules)
qed

lemma honest_dispatch: "denies_honestly events (native_dispatch N action target policy d)"
  unfolding native_dispatch_def by (rule linux_input.dispatch_is_honest, rule honest_semantic)

end
