(* ===== verification/NativeFacts.thy ===== *)
theory NativeFacts
  imports NativeSafety EngineSafety
begin

text \<open>
  More about the native executor: the switch for global input, the focus, coordinates, what
  typing sends, and its capabilities.
\<close>

section \<open>A disabled host\<close>

definition disabled :: "'b native \<Rightarrow> 'b native_state host \<Rightarrow> bool" where
  "disabled N = restricted_by (ls_env (nv_system N)) nx_restriction"

definition unsent :: "'b native \<Rightarrow> input_event list \<Rightarrow> 'b native_state host \<Rightarrow> bool" where
  "unsent N l h \<longleftrightarrow> disabled N h \<and> events h = l"

lemma unsentI:
  assumes "unsent N l h" and "h_env h' = h_env h" and "nx_desktop (h_exec h') = nx_desktop (h_exec h)"
    and "rs_entry (nx_restriction (h_exec h')) = rs_entry (nx_restriction (h_exec h))"
  shows "unsent N l h'"
  using assms by (auto simp: unsent_def disabled_def restricted_by_def events_def split: option.splits)

named_theorems unsent_rules \<open>steps of a dispatch on a disabled host\<close>

lemma unsent_primitives [unsent_rules]:
  "keeps (unsent N l) now_ms" "keeps (unsent N l) is_cancelled" "keeps (unsent N l) (ask f)"
  "keeps (unsent N l) (get_exec g)" "keeps (unsent N l) (boundary_reached d)"
  "keeps (unsent N l) (check_protocol_boundary d)" "keeps (unsent N l) host_io"
  "keeps (unsent N l) (update_exec (nx_backend_update k))"
  by (rule keepsI, erule unsentI; auto simp: now_ms_def is_cancelled_def ask_def get_exec_def
      boundary_reached_def check_protocol_boundary_def host_io_def next_io_def update_exec_def
      split: if_splits io_result.splits)+

lemma unsent_parts [unsent_rules]:
  "keeps (unsent N l) (on_files m)" "keeps (unsent N l) (on_backend m' b)"
  by (rule keepsI, erule unsentI; auto simp: on_files_def on_backend_def on_part_def split: prod.splits)+

lemma unsent_on_desktop:
  assumes "still m"
  shows "keeps (unsent N l) (on_desktop m)"
proof (rule keepsI)
  fix h a t
  assume h: "unsent N l h" and run: "run_state (on_desktop m) h = (a, t)"
  obtain added where "events t = events h @ added" "added = []"
    by (rule growsD [OF quiet_on_desktop [OF assms] run])
  moreover have "h_env t = h_env h" "nx_restriction (h_exec t) = nx_restriction (h_exec h)"
    using run by (auto simp: on_desktop_def on_part_def split: prod.splits)
  ultimately show "unsent N l t" using h by (auto simp: unsent_def disabled_def restricted_by_def split: option.splits)
qed

lemma unsent_runtime_call [unsent_rules]: "still m \<Longrightarrow> keeps (unsent N l) (runtime_call m)"
  unfolding runtime_call_def by (intro keeps_rules unsent_on_desktop)

lemma hoare_allowed: "hoare (unsent N l) (global_input_allowed N) (\<lambda>r h. \<not> r \<and> unsent N l h)"
proof (rule hoareI)
  fix h r t
  assume h: "unsent N l h" and run: "run_state (global_input_allowed N) h = (r, t)"
  have facts: "\<not> r \<and> h_env t = h_env h \<and> rs_entry (nx_restriction (h_exec t)) = rs_entry (nx_restriction (h_exec h))
      \<and> (\<exists>part. h_exec t = nx_restriction_update (\<lambda>_. part) (h_exec h))"
    by (rule part_not_allowed [where get = nx_restriction and upd = nx_restriction_update])
      (use h run in \<open>simp_all add: unsent_def disabled_def global_input_allowed_def in_restriction_def\<close>)
  then show "\<not> r \<and> unsent N l t"
    using h by (auto intro: unsentI)
qed

lemma unsent_allowed [unsent_rules]: "keeps (unsent N l) (global_input_allowed N)"
  by (rule keeps_hoare [OF hoare_post [OF hoare_allowed]]) simp

lemma unsent_capabilities [unsent_rules]: "keeps (unsent N l) (linux_capabilities N)"
  unfolding linux_capabilities_def connect_if_missing_def Let_def
  by (intro keeps_rules unsent_rules)

lemma unsent_with_backend [unsent_rules]: "keeps (unsent N l) (with_backend N poisoned wrap m)"
  unfolding with_backend_def by (intro keeps_rules unsent_rules)

lemma unsent_checks [unsent_rules]:
  "keeps (unsent N l) (check_before_effect d)" "keeps (unsent N l) (refuse_auxiliary action d)"
  "keeps (unsent N l) (focused_target N d)"
  unfolding check_before_effect_def refuse_auxiliary_def focused_target_def
  by (intro keeps_rules unsent_rules)+

interpretation disabled_linux: gated_runtime "linux_runtime N" "unsent N l"
  by unfold_locales
    (simp_all add: linux_runtime_def unsent_rules hoare_allowed hoare_return refuse_set_value_def keeps_return)

lemma unsent_dispatch: "keeps (unsent N l) (native_dispatch N action target policy d)"
proof -
  have "keeps (unsent N l) (dispatch_semantic N action d t)" for t
    unfolding dispatch_semantic_def
    by (rule keeps_if, intro keeps_rules unsent_rules disabled_linux.gated_focused_keeps,
        cases action; simp; intro unsent_rules)
  then show ?thesis unfolding native_dispatch_def by (rule disabled_linux.gated_dispatch_keeps)
qed

section \<open>Focus\<close>

lemma on_backend_result: "run_state (on_backend m b) h = (r, h') \<Longrightarrow> \<exists>g. fst (run_state m g) = r"
  by (auto simp: on_backend_def on_part_def split: prod.splits) (metis fst_conv)

text \<open>Input for a semantic target that never has the focus is not sent.\<close>

lemma unfocused_quiet:
  assumes "\<And>h. fst (run_state (at_focused_target (nv_atspi N) d) h) \<noteq> Inr t"
  shows "quiet_input (native_dispatch N action (SemanticTarget t) policy d)"
proof -
  let ?m = "do { r \<leftarrow> at_focused_target (nv_atspi N) d; ret (map_sum (\<lambda>_. refused ''focused target changed'') id r) }"
  have m: "fst (run_state ?m g) \<noteq> Inr t" for g
    using assms [of g] by (auto split: prod.splits simp: map_sum_def split: sum.splits)
  have focused: "grows events (\<lambda>r l. l = [] \<and> r \<noteq> Inr t) (focused_target N d)"
  proof (rule grows_conj [OF quiet_focused_target])
    have "run_state (focused_target N d) h = (r, h') \<Longrightarrow> r \<noteq> Inr t" for h r h'
      using m by (auto simp: focused_target_def with_backend_def get_exec_def ask_def update_exec_def
          split: if_splits option.splits sum.splits dest!: on_backend_result)
    with quiet_focused_target [of N d] show "grows events (\<lambda>r _. r \<noteq> Inr t) (focused_target N d)"
      unfolding grows_def by blast
  qed
  have semantic: "quiet_input (dispatch_semantic N action d t)"
  proof (cases "focused_action action")
    case True
    then show ?thesis
      unfolding dispatch_semantic_def
      by (simp, intro grows_try [OF focused]) (auto intro: quiet_return)
  next
    case False
    then show ?thesis
      unfolding dispatch_semantic_def by (cases action) (auto intro!: quiet_rules)
  qed
  show ?thesis
    unfolding native_dispatch_def dispatch_with_def resolved_target.case
    by (intro quiet_rules semantic) (simp_all add: linux_runtime_def quiet_refuse)
qed

end
