(* ===== verification/LinuxEngine.thy ===== *)
theory LinuxEngine
  imports NativeFacts ExecutorContract
begin

text \<open>
  The engine with the native executor of Linux: coordinates are never dispatched, because they
  cannot be observed; and what the advertised capabilities amount to.
\<close>

section \<open>Coordinates\<close>

lemma unobserved_coordinates:
  "run_state (native_observe N (Coordinates x y display_id g snapshot_id c) deadline) h \<noteq> (Inr obs, h')"
  unfolding native_observe_def observe_plain_def observe_plain_with_def observed_state_def native_target_content_hash_def runtime_call_def
  by (auto split: prod.splits sum.splits simp: on_desktop_def on_part_def)

definition dispatched :: "event list \<Rightarrow> ('x, 'o) world \<Rightarrow> bool" where
  "dispatched ds w \<longleftrightarrow> filter dispatch_event (w_trace w) = ds"

lemma blind_dispatched [simp]: "blind (dispatched ds)"
proof -
  have "filter dispatch_event evs = []" if "list_all (\<lambda>e. \<not> dispatch_event e) evs" for evs
    using that by (induction evs) auto
  then show ?thesis by (simp add: blind_def dispatched_def)
qed

lemma aloof_dispatched [simp]: "aloof (dispatched ds)"
  by (simp add: aloof_def dispatched_def)

lemma outcomes_keep_dispatched [simp]: "outcomes_keep ops (dispatched ds)"
  by (simp add: outcomes_keep_def keeps_def on_outcomes_def dispatched_def split: prod.splits)

lemma dispatched_finish_early: "keeps (dispatched ds) (finish_early E request h t)"
  by (rule frame_finish_early) simp_all

lemma dispatched_boundary: "keeps (dispatched ds) m \<Longrightarrow> keeps (dispatched ds) (unless_boundary E request h deadline m)"
  unfolding unless_boundary_def by (intro blind_rules dispatched_finish_early blind_dispatched)

lemma dispatched_observed:
  assumes "\<And>h obs h'. run_state (x_observe (en_executor E) (rq_target request) deadline) h \<noteq> (Inr obs, h')"
  shows "keeps (dispatched ds) (execute_observed E request action_hash isolation route deadline)"
proof (rule keepsI)
  fix w r w'
  assume w: "dispatched ds w"
    and run: "run_state (execute_observed E request action_hash isolation route deadline) w = (r, w')"
  obtain v w1 where v: "run_state (on_host (x_observe (en_executor E) (rq_target request) deadline)) w = (v, w1)"
    by force
  with assms obtain e where e: "v = Inl e"
    by (cases v) (auto simp: on_host_def split: prod.splits)
  have "dispatched ds w1" using keepsD [OF aloof_on_host [OF aloof_dispatched] w v] .
  moreover have "run_state (finish_early E request action_hash (protocol_failure e)) w1 = (r, w')"
    using run v e by (simp add: execute_observed_def)
  ultimately show "dispatched ds w'" by (rule keepsD [OF dispatched_finish_early])
qed

lemma dispatched_execute:
  assumes "\<And>deadline h obs h'. run_state (x_observe (en_executor E) (rq_target request) deadline) h \<noteq> (Inr obs, h')"
  shows "keeps (dispatched ds) (execute E request)"
proof -
  note quiet = blind_dispatched outcomes_keep_dispatched aloof_calls [OF aloof_dispatched]
  have granted: "keeps (dispatched ds) (execute_granted E request h isolation deadline)" for h isolation deadline
    unfolding execute_granted_def execute_capable_def
    by (intro blind_rules dispatched_boundary dispatched_finish_early dispatched_observed assms quiet)
  have "keeps (dispatched ds) (execute_new E request h isolation deadline)" for h isolation deadline
    unfolding execute_new_def Let_def by (intro blind_rules granted outcomes_keep_begin quiet)
  then have "hoare (dispatched ds) (execute E request) (\<lambda>_. dispatched ds)"
    by (intro stage_execute quiet hoare_keeps)
  then show ?thesis by (auto simp: hoare_def intro: keepsI)
qed

section \<open>Capabilities\<close>

lemma native_capability_facts:
  assumes "run_state (linux_capabilities N) h = (Inr caps, h')"
  shows "c_action_capabilities caps = native_capability_list (c_permissions caps) (session_type (ls_env (nv_system N)))"
    and "c_supported_actions caps = map ac_action (c_action_capabilities caps)"
  using assms unfolding linux_capabilities_def Let_def by (auto split: if_splits option.splits prod.splits)

lemma native_capability_list_strict:
  "distinct (map ac_action (native_capability_list permissions session))"
  "list_all route_is_valid (native_capability_list permissions session)"
  by (auto simp: native_capability_list_def semantic_capability_def pointer_capability_def route_is_valid_def)

lemma native_strict_capability:
  assumes "run_state (linux_capabilities N) h = (Inr caps, h')"
  shows "strict_action_capability caps action = Some c \<longleftrightarrow>
    c \<in> set (native_capability_list (c_permissions caps) (session_type (ls_env (nv_system N))))
    \<and> ac_action c = action_name action"
  using native_capability_list_strict [of "c_permissions caps" "session_type (ls_env (nv_system N))"]
  by (auto simp: strict_action_capability_ok native_capability_facts [OF assms])

text \<open>The permissions without which a host may not act in the background.\<close>

definition background_permissions :: "string list" where
  "background_permissions = [''accessibility'', ''display_geometry'', ''private_state'']"

lemma native_background:
  assumes "c \<in> set (native_capability_list permissions session)" and "background_capability_is_authorized c isolation"
  shows "ac_action c \<in> {''invoke'', ''set_value''}" "\<forall>p \<in> set background_permissions. permitted permissions p"
    "ac_delivery_route c = TargetAddressed"
  using assms
  by (auto simp: native_capability_list_def semantic_capability_def pointer_capability_def
      background_capability_is_authorized_def background_permissions_def split: session_isolation.splits if_splits)

section \<open>The contract of an executor: input\<close>

interpretation native: truthful_executor "native_executor N" input_effects
  by unfold_locales
    (simp_all add: native_executor_def quiet_rules honest_dispatch [unfolded disclaimed_denies])

end
