(* ===== verification/X11Desktop.thy ===== *)
theory X11Desktop
  imports Semantic LinuxInput "HOL-Library.Product_Lexorder"
begin

text \<open>
  What linux_atspi.rs asks the X server for: the trust in the server, the display topology and
  its hash, and the sentinel of the desktop - foreground window, its process, keyboard focus,
  pointer.

  The replies of the server, \<open>/proc\<close> and the display's authority file are parameters
  (\<open>x11_world\<close>), whose answers depend on the tick.
\<close>

unbundle bit_operations_syntax

section \<open>Data\<close>

record x11_display =
  xd_crtc :: u32
  xd_x :: i16
  xd_y :: i16
  xd_width :: u16
  xd_height :: u16
  xd_rotation :: u16
  xd_outputs :: "u32 list"

record x11_topology =
  xt_root :: u32
  xt_width :: u16
  xt_height :: u16
  xt_displays :: "x11_display list"

record desktop_sentinel =
  ds_foreground_window :: u32
  ds_foreground_process_id :: u32
  ds_foreground_process_generation :: string
  ds_keyboard_focus :: u32
  ds_pointer_root :: u32
  ds_pointer_x :: i16
  ds_pointer_y :: i16

record x11_server =
  sv_process_id :: u32
  sv_process_generation :: string
  sv_executable :: string
  sv_user_id :: u32

text \<open>What the server says of itself when a connection is opened; \<open>sr_\<close>: a root window.\<close>

record x11_root =
  sr_root :: u32
  sr_width :: u16
  sr_height :: u16

record x11_connection =
  cn_vendor :: string
  cn_roots :: "x11_root list"
  cn_screen :: nat
  cn_server :: x11_server

section \<open>What the world answers\<close>

record screen_geometry =
  sg_root :: u32
  sg_width :: u16
  sg_height :: u16

record screen_resources =
  rs_timestamp :: u32
  rs_config_timestamp :: u32
  rs_crtcs :: "u32 list"
  rs_outputs :: "u32 list"

record crtc_reply =
  cr_status :: u8
  cr_mode :: u32
  cr_x :: i16
  cr_y :: i16
  cr_width :: u16
  cr_height :: u16
  cr_rotation :: u16
  cr_outputs :: "u32 list"

record property_reply =
  pp_format :: u8
  pp_type :: u32
  pp_length :: u32
  pp_values :: "u32 list"

record pointer_reply =
  pt_same_screen :: bool
  pt_root :: u32
  pt_x :: i16
  pt_y :: i16

text \<open>
  \<open>xw_peer\<close>: process and user of the peer of the socket; \<open>xw_exe_file\<close>: whether the program of a
  process is a regular file, its owner and its mode.
\<close>

record x11_world =
  xw_stat :: "nat \<Rightarrow> u32 \<Rightarrow> string option"
  xw_boot_id :: "nat \<Rightarrow> string option"
  xw_screen :: "nat \<Rightarrow> nat option"
  xw_socket :: "nat \<Rightarrow> bool"
  xw_stream :: "nat \<Rightarrow> bool"
  xw_peer :: "nat \<Rightarrow> (int \<times> u32) option"
  xw_exe :: "nat \<Rightarrow> u32 \<Rightarrow> string option"
  xw_exe_file :: "nat \<Rightarrow> u32 \<Rightarrow> (bool \<times> u32 \<times> u32) option"
  xw_user :: "nat \<Rightarrow> u32"
  xw_auth :: "nat \<Rightarrow> (string \<times> string) option"
  xw_setup :: "nat \<Rightarrow> (string \<times> x11_root list) option"
  xw_extension :: "nat \<Rightarrow> string \<Rightarrow> bool option"
  xw_geometry :: "nat \<Rightarrow> u32 \<Rightarrow> screen_geometry option"
  xw_resources :: "nat \<Rightarrow> u32 \<Rightarrow> screen_resources option"
  xw_crtc :: "nat \<Rightarrow> u32 \<Rightarrow> u32 \<Rightarrow> crtc_reply option"
  xw_atom :: "nat \<Rightarrow> string \<Rightarrow> u32 option"
  xw_property :: "nat \<Rightarrow> u32 \<Rightarrow> u32 \<Rightarrow> u32 \<Rightarrow> property_reply option"
  xw_map_state :: "nat \<Rightarrow> u32 \<Rightarrow> u8 option"
  xw_focus :: "nat \<Rightarrow> u32 option"
  xw_tree :: "nat \<Rightarrow> u32 \<Rightarrow> (u32 \<times> u32) option"
  xw_pointer :: "nat \<Rightarrow> u32 \<Rightarrow> pointer_reply option"

text \<open>A reply that fails is an error without a cause.\<close>

type_synonym ('x, 'a) asking = "('x host, unit + 'a) state"

definition require :: "bool \<Rightarrow> ('s, unit + unit) state" where
  "require c = ret (if c then Inr () else Inl ())"

definition some_or_fail :: "'a option \<Rightarrow> ('s, unit + 'a) state" where
  "some_or_fail v = ret (case v of None \<Rightarrow> Inl () | Some x \<Rightarrow> Inr x)"

definition reply :: "(nat \<Rightarrow> 'a option) \<Rightarrow> ('x, 'a) asking" where
  "reply f = do { v \<leftarrow> ask f; some_or_fail v }"

section \<open>Generations of processes\<close>

definition valid_boot_id :: "string \<Rightarrow> bool" where
  "valid_boot_id value \<longleftrightarrow> length value = 36
     \<and> list_all (\<lambda>(index, c). if index \<in> {8, 13, 18, 23} then c = CHR ''-'' else is_lower_hexdigit c)
         (zip [0..<36] value)"

text \<open>\<open>rsplit_once(')')\<close>: what follows the last closing parenthesis.\<close>

fun after_last :: "char \<Rightarrow> string \<Rightarrow> string option" where
  "after_last c [] = None"
| "after_last c (x # xs) = (case after_last c xs of
       Some rest \<Rightarrow> Some rest
     | None \<Rightarrow> if x = c then Some xs else None)"

definition nth_word :: "nat \<Rightarrow> string \<Rightarrow> string option" where
  "nth_word n s = (let ws = split_whitespace s in if n < length ws then Some (ws ! n) else None)"

definition parse_process_start_time :: "string \<Rightarrow> string option" where
  "parse_process_start_time stat = Option.bind (after_last (CHR '')'') stat) (\<lambda>fields.
     Option.bind (nth_word 19 (trim fields)) (\<lambda>v. if list_all is_ascii_digit v then Some v else None))"

definition process_generation :: "hashing \<Rightarrow> x11_world \<Rightarrow> u32 \<Rightarrow> ('x host, protocol_error + string) state" where
  "process_generation H W process_id = do {
     stat \<leftarrow> ask (\<lambda>t. xw_stat W t process_id);
     case stat of
       None \<Rightarrow> ret (Inl (StaleTarget ''target process disappeared''))
     | Some text \<Rightarrow> (case parse_process_start_time text of
         None \<Rightarrow> ret (Inl (StaleTarget ''target process changed''))
       | Some start_time \<Rightarrow> do {
           boot \<leftarrow> ask (xw_boot_id W);
           ret (case boot of
               None \<Rightarrow> Inl (StaleTarget ''target process changed'')
             | Some boot_id \<Rightarrow>
                 if \<not> valid_boot_id (trim boot_id) then Inl (StaleTarget ''target process changed'')
                 else Inr (semantic_fingerprint H (JArr [JStr (trim boot_id), JStr start_time])))
         })
   }"

definition generation_of :: "hashing \<Rightarrow> x11_world \<Rightarrow> u32 \<Rightarrow> ('x, string) asking" where
  "generation_of H W process_id = do {
     r \<leftarrow> process_generation H W process_id;
     ret (map_sum (\<lambda>_. ()) id r)
   }"

section \<open>Trust in the server\<close>

text \<open>\<open>Path::file_name\<close>: the last component, unless it leads upwards.\<close>

fun path_components :: "string \<Rightarrow> string \<Rightarrow> string list" where
  "path_components part [] = [rev part]"
| "path_components part (c # s) =
     (if c = CHR ''/'' then rev part # path_components [] s else path_components (c # part) s)"

definition file_name :: "string \<Rightarrow> string option" where
  "file_name path = (case rev (filter (\<lambda>p. p \<noteq> [] \<and> p \<noteq> ''.'') (path_components [] path)) of
       [] \<Rightarrow> None
     | name # _ \<Rightarrow> if name = ''..'' then None else Some name)"

definition native_x11_server_executable :: "string \<Rightarrow> bool" where
  "native_x11_server_executable executable \<longleftrightarrow> file_name executable = Some ''Xorg''"

definition trusted_x11_server_file :: "u32 \<Rightarrow> u32 \<Rightarrow> bool" where
  "trusted_x11_server_file owner_id mode \<longleftrightarrow> owner_id = 0 \<and> mode AND 18 = 0"

definition trusted_x11_server :: "x11_world \<Rightarrow> u32 \<Rightarrow> u32 \<Rightarrow> string \<Rightarrow> ('x host, bool) state" where
  "trusted_x11_server W process_id user_id executable = do {
     current \<leftarrow> ask (xw_user W);
     metadata \<leftarrow> ask (\<lambda>t. xw_exe_file W t process_id);
     ret (case metadata of
         None \<Rightarrow> False
       | Some (regular, owner_id, mode) \<Rightarrow> native_x11_server_executable executable
           \<and> (user_id = 0 \<or> user_id = current) \<and> regular \<and> trusted_x11_server_file owner_id mode)
   }"

text \<open>\<open>X11ServerIdentity::validate\<close>\<close>

definition validate_server :: "hashing \<Rightarrow> x11_world \<Rightarrow> x11_connection \<Rightarrow> ('x, unit) asking" where
  "validate_server H W c = (let server = cn_server c in
     try_bind (generation_of H W (sv_process_id server)) (\<lambda>generation.
     try_bind (require (generation = sv_process_generation server)) (\<lambda>_.
     try_bind (reply (\<lambda>t. xw_exe W t (sv_process_id server))) (\<lambda>executable.
     try_bind (require (executable = sv_executable server)) (\<lambda>_. do {
     trusted \<leftarrow> trusted_x11_server W (sv_process_id server) (sv_user_id server) (sv_executable server);
     try_bind (require (trusted \<and> cn_vendor c = ''The X.Org Foundation'')) (\<lambda>_.
     try_bind (reply (\<lambda>t. xw_extension W t ''XWAYLAND'')) (\<lambda>present.
     require (\<not> present)))
   })))))"

definition process_number :: "int \<Rightarrow> u32 option" where
  "process_number pid = (if 0 \<le> pid \<and> pid < 4294967296 then Some (word_of_int pid) else None)"

text \<open>\<open>connect_x11\<close> of linux_atspi.rs\<close>

definition open_x11 :: "hashing \<Rightarrow> x11_world \<Rightarrow> ('x, x11_connection) asking" where
  "open_x11 H W =
     try_bind (reply (xw_screen W)) (\<lambda>screen. do {
     socket \<leftarrow> ask (xw_socket W);
     try_bind (require socket) (\<lambda>_. do {
     stream \<leftarrow> ask (xw_stream W);
     try_bind (require stream) (\<lambda>_.
     try_bind (reply (xw_peer W)) (\<lambda>(pid, user_id).
     try_bind (some_or_fail (process_number pid)) (\<lambda>process_id.
     try_bind (generation_of H W process_id) (\<lambda>generation.
     try_bind (reply (\<lambda>t. xw_exe W t process_id)) (\<lambda>executable. do {
     trusted \<leftarrow> trusted_x11_server W process_id user_id executable;
     try_bind (require trusted) (\<lambda>_.
     try_bind (reply (xw_auth W)) (\<lambda>(name, cookie).
     try_bind (require (name \<noteq> [] \<and> cookie \<noteq> [])) (\<lambda>_.
     try_bind (reply (xw_setup W)) (\<lambda>(vendor, roots).
     let c = \<lparr>cn_vendor = vendor, cn_roots = roots, cn_screen = screen,
       cn_server = \<lparr>sv_process_id = process_id, sv_process_generation = generation,
         sv_executable = executable, sv_user_id = user_id\<rparr>\<rparr> in
     try_bind (validate_server H W c) (\<lambda>_. ret (Inr c))))))
     })))))
     })
     })"

definition root_of :: "x11_connection \<Rightarrow> ('s, unit + x11_root) state" where
  "root_of c = some_or_fail (if cn_screen c < length (cn_roots c) then Some (cn_roots c ! cn_screen c) else None)"

section \<open>The topology\<close>

definition max_displays :: nat where "max_displays = 64"
definition max_outputs :: nat where "max_outputs = 256"

text \<open>A set that takes each value once.\<close>

fun insert_new :: "'a list \<Rightarrow> 'a list \<Rightarrow> 'a list option" where
  "insert_new seen [] = Some seen"
| "insert_new seen (x # xs) = (if x \<in> set seen then None else insert_new (x # seen) xs)"

fun normalize_displays :: "u32 list \<Rightarrow> u32 list \<Rightarrow> x11_display list \<Rightarrow> x11_display list option" where
  "normalize_displays crtcs outputs [] = Some []"
| "normalize_displays crtcs outputs (d # ds) =
     (if xd_width d = 0 \<or> xd_height d = 0 \<or> xd_outputs d = [] \<or> max_outputs < length (xd_outputs d)
         \<or> xd_crtc d \<in> set crtcs then None
      else Option.bind (insert_new outputs (sort (xd_outputs d))) (\<lambda>outputs'.
        map_option ((#) (d\<lparr>xd_outputs := sort (xd_outputs d)\<rparr>))
          (normalize_displays (xd_crtc d # crtcs) outputs' ds)))"

text \<open>The derived order of \<open>X11Display\<close>.\<close>

definition display_key :: "x11_display \<Rightarrow> nat \<times> int \<times> int \<times> nat \<times> nat \<times> nat \<times> nat list" where
  "display_key d = (unat (xd_crtc d), sint (xd_x d), sint (xd_y d), unat (xd_width d), unat (xd_height d),
     unat (xd_rotation d), map unat (xd_outputs d))"

definition normalize_topology :: "x11_topology \<Rightarrow> x11_topology option" where
  "normalize_topology t =
     (if xt_width t = 0 \<or> xt_height t = 0 \<or> xt_displays t = [] \<or> max_displays < length (xt_displays t)
      then None
      else map_option (\<lambda>ds. t\<lparr>xt_displays := sort_key display_key ds\<rparr>)
        (normalize_displays [] [] (xt_displays t)))"

definition x11_display_json :: "x11_display \<Rightarrow> json" where
  "x11_display_json d = JObj [(''crtc'', jword (xd_crtc d)), (''x'', JInt (sint (xd_x d))),
     (''y'', JInt (sint (xd_y d))), (''width'', jword (xd_width d)), (''height'', jword (xd_height d)),
     (''rotation'', jword (xd_rotation d)), (''outputs'', JArr (map jword (xd_outputs d)))]"

definition x11_topology_json :: "x11_topology \<Rightarrow> json" where
  "x11_topology_json t = JObj [(''root'', jword (xt_root t)), (''width'', jword (xt_width t)),
     (''height'', jword (xt_height t)), (''displays'', JArr (map x11_display_json (xt_displays t)))]"

text \<open>The displays of the controllers that have a mode.\<close>

fun active_displays :: "x11_world \<Rightarrow> u32 \<Rightarrow> u32 list \<Rightarrow> ('x, x11_display list) asking" where
  "active_displays W stamp [] = ret (Inr [])"
| "active_displays W stamp (crtc # crtcs) =
     try_bind (reply (\<lambda>t. xw_crtc W t crtc stamp)) (\<lambda>info.
     try_bind (require (cr_status info = 0)) (\<lambda>_.
     if cr_mode info = 0 then
       try_bind (require (cr_width info = 0 \<and> cr_height info = 0 \<and> cr_outputs info = [])) (\<lambda>_.
       active_displays W stamp crtcs)
     else
       try_bind (active_displays W stamp crtcs) (\<lambda>displays.
       ret (Inr (\<lparr>xd_crtc = crtc, xd_x = cr_x info, xd_y = cr_y info, xd_width = cr_width info,
         xd_height = cr_height info, xd_rotation = cr_rotation info, xd_outputs = cr_outputs info\<rparr>
         # displays)))))"

definition x11_topology_hash :: "hashing \<Rightarrow> x11_world \<Rightarrow> x11_connection \<Rightarrow> ('x, string) asking" where
  "x11_topology_hash H W c =
     try_bind (root_of c) (\<lambda>screen.
     let top_window = sr_root screen in
     try_bind (reply (\<lambda>t. xw_geometry W t top_window)) (\<lambda>before_geometry.
     try_bind (reply (\<lambda>t. xw_resources W t top_window)) (\<lambda>before.
     try_bind (require (length (rs_crtcs before) \<le> max_displays \<and> length (rs_outputs before) \<le> max_outputs)) (\<lambda>_.
     try_bind (active_displays W (rs_config_timestamp before) (rs_crtcs before)) (\<lambda>displays.
     try_bind (reply (\<lambda>t. xw_resources W t top_window)) (\<lambda>after.
     try_bind (reply (\<lambda>t. xw_geometry W t top_window)) (\<lambda>after_geometry.
     try_bind (require (before = after \<and> before_geometry = after_geometry)) (\<lambda>_.
     try_bind (some_or_fail (normalize_topology \<lparr>xt_root = top_window, xt_width = sg_width after_geometry,
         xt_height = sg_height after_geometry, xt_displays = displays\<rparr>)) (\<lambda>topology.
     ret (Inr (semantic_fingerprint H (x11_topology_json topology))))))))))))"

section \<open>The desktop\<close>

definition max_depth :: nat where "max_depth = 64"
definition viewable :: u8 where "viewable = 2"
definition atom_cardinal :: u32 where "atom_cardinal = 6"
definition atom_window :: u32 where "atom_window = 33"

definition valid_keyboard_focus :: "u32 \<Rightarrow> u32 \<Rightarrow> bool" where
  "valid_keyboard_focus focus top_window \<longleftrightarrow> 1 < focus \<and> focus \<noteq> top_window"

text \<open>Whether \<open>window\<close> is reached from \<open>current\<close> in less than \<open>n\<close> steps up the tree.\<close>

fun below_window :: "x11_world \<Rightarrow> u32 \<Rightarrow> u32 \<Rightarrow> nat \<Rightarrow> u32 \<Rightarrow> ('x, unit) asking" where
  "below_window W top_window window 0 current = ret (Inl ())"
| "below_window W top_window window (Suc n) current =
     (if current = window then ret (Inr ())
      else
      try_bind (reply (\<lambda>t. xw_tree W t current)) (\<lambda>(tree_root, parent).
      try_bind (require (tree_root = top_window \<and> parent \<noteq> 0 \<and> parent \<noteq> current \<and> parent \<noteq> top_window)) (\<lambda>_.
      below_window W top_window window n parent)))"

definition x11_keyboard_focus :: "x11_world \<Rightarrow> u32 \<Rightarrow> u32 \<Rightarrow> ('x, u32) asking" where
  "x11_keyboard_focus W top_window foreground_window =
     try_bind (reply (xw_focus W)) (\<lambda>focus.
     try_bind (require (valid_keyboard_focus focus top_window)) (\<lambda>_.
     try_bind (reply (\<lambda>t. xw_map_state W t focus)) (\<lambda>map_state.
     try_bind (require (map_state = viewable)) (\<lambda>_.
     try_bind (below_window W top_window foreground_window (max_depth + 1) focus) (\<lambda>_.
     ret (Inr focus))))))"

text \<open>A property that holds one 32-bit value.\<close>

definition single_property :: "x11_world \<Rightarrow> u32 \<Rightarrow> u32 \<Rightarrow> u32 \<Rightarrow> ('x, u32) asking" where
  "single_property W window property kind =
     try_bind (reply (\<lambda>t. xw_property W t window property kind)) (\<lambda>p.
     try_bind (require (pp_format p = 32 \<and> pp_type p = kind \<and> pp_length p = 1)) (\<lambda>_.
     some_or_fail (case pp_values p of [] \<Rightarrow> None | v # _ \<Rightarrow> Some v)))"

definition x11_desktop_sample :: "hashing \<Rightarrow> x11_world \<Rightarrow> x11_root \<Rightarrow> u32 \<Rightarrow> u32 \<Rightarrow> ('x, desktop_sentinel) asking"
where
  "x11_desktop_sample H W screen active_window_atom process_id_atom = (let top_window = sr_root screen in
     try_bind (single_property W top_window active_window_atom atom_window) (\<lambda>window.
     try_bind (require (window \<noteq> 0 \<and> window \<noteq> top_window)) (\<lambda>_.
     try_bind (reply (\<lambda>t. xw_map_state W t window)) (\<lambda>map_state.
     try_bind (require (map_state = viewable)) (\<lambda>_.
     try_bind (single_property W window process_id_atom atom_cardinal) (\<lambda>process_id.
     try_bind (require (0 < process_id)) (\<lambda>_.
     try_bind (generation_of H W process_id) (\<lambda>generation.
     try_bind (x11_keyboard_focus W top_window window) (\<lambda>focus.
     try_bind (reply (\<lambda>t. xw_pointer W t top_window)) (\<lambda>pointer.
     try_bind (require (pt_same_screen pointer \<and> pt_root pointer = top_window \<and> 0 \<le> sint (pt_x pointer)
         \<and> 0 \<le> sint (pt_y pointer) \<and> sint (pt_x pointer) < uint (sr_width screen)
         \<and> sint (pt_y pointer) < uint (sr_height screen))) (\<lambda>_.
     ret (Inr \<lparr>ds_foreground_window = window, ds_foreground_process_id = process_id,
       ds_foreground_process_generation = generation, ds_keyboard_focus = focus,
       ds_pointer_root = pt_root pointer, ds_pointer_x = pt_x pointer,
       ds_pointer_y = pt_y pointer\<rparr>))))))))))))"

definition atom_named :: "x11_world \<Rightarrow> string \<Rightarrow> ('x, u32) asking" where
  "atom_named W name = try_bind (reply (\<lambda>t. xw_atom W t name)) (\<lambda>atom.
     try_bind (require (atom \<noteq> 0)) (\<lambda>_. ret (Inr atom)))"

text \<open>Two samples must agree.\<close>

definition x11_desktop_sentinel :: "hashing \<Rightarrow> x11_world \<Rightarrow> x11_connection \<Rightarrow> ('x, desktop_sentinel) asking"
where
  "x11_desktop_sentinel H W c =
     try_bind (root_of c) (\<lambda>screen.
     try_bind (atom_named W ''_NET_ACTIVE_WINDOW'') (\<lambda>active_window_atom.
     try_bind (atom_named W ''_NET_WM_PID'') (\<lambda>process_id_atom.
     try_bind (x11_desktop_sample H W screen active_window_atom process_id_atom) (\<lambda>first.
     try_bind (x11_desktop_sample H W screen active_window_atom process_id_atom) (\<lambda>second.
     try_bind (require (first = second)) (\<lambda>_. ret (Inr second)))))))"

definition desktop_sentinel_json :: "desktop_sentinel \<Rightarrow> json" where
  "desktop_sentinel_json s = JObj [(''foreground_window'', jword (ds_foreground_window s)),
     (''foreground_process_id'', jword (ds_foreground_process_id s)),
     (''foreground_process_generation'', JStr (ds_foreground_process_generation s)),
     (''keyboard_focus'', jword (ds_keyboard_focus s)), (''pointer_root'', jword (ds_pointer_root s)),
     (''pointer_x'', JInt (sint (ds_pointer_x s))), (''pointer_y'', JInt (sint (ds_pointer_y s)))]"

end
