(* ===== verification/AtspiData.thy ===== *)
theory AtspiData
  imports X11Desktop Observations "HOL-Library.AList"
begin

text \<open>
  The data of the accessibility backend (linux_atspi.rs): objects on the accessibility bus and
  their checks, state and interface sets, the samples taken of a node and of a window, and
  stored snapshots with their validation.
\<close>

section \<open>Limits\<close>

definition atspi_backend_name :: string where "atspi_backend_name = ''praefectus-atspi2''"
definition max_applications :: nat where "max_applications = 64"
definition max_windows_per_application :: nat where "max_windows_per_application = 128"
definition max_surfaces :: nat where "max_surfaces = 512"
definition max_elements :: nat where "max_elements = 512"
definition max_actions :: nat where "max_actions = 32"
definition max_action_name_bytes :: nat where "max_action_name_bytes = 128"
definition max_text_bytes :: nat where "max_text_bytes = 1024"
definition max_value_characters :: nat where "max_value_characters = 16 * 1024"
definition max_value_bytes :: nat where "max_value_bytes = 16 * 1024"
definition observation_lifetime_ms :: i64 where "observation_lifetime_ms = 30000"
definition focus_sentinel_timeout_ms :: i64 where "focus_sentinel_timeout_ms = 1000"
definition max_focus_elements :: nat where "max_focus_elements = 2048"

section \<open>Errors\<close>

definition accessibility_error :: protocol_error where
  "accessibility_error = ExecutorError ''accessibility backend error''"

definition topology_unavailable :: protocol_error where
  "topology_unavailable = ExecutorError ''display geometry is unavailable''"

definition desktop_state_unavailable :: protocol_error where
  "desktop_state_unavailable = ExecutorError ''desktop state is unavailable''"

definition semantic_changed :: protocol_error where
  "semantic_changed = StaleTarget ''semantic target changed''"

definition from_semantic :: "semantic_error + 'a \<Rightarrow> protocol_error + 'a" where
  "from_semantic r = map_sum (\<lambda>_. semantic_changed) id r"

text \<open>\<open>collect\<close> into a \<open>Result\<close>: the first error, or all values.\<close>

fun those_results :: "('e + 'a) list \<Rightarrow> 'e + 'a list" where
  "those_results [] = Inr []"
| "those_results (r # rs) = (case r of
       Inl e \<Rightarrow> Inl e
     | Inr x \<Rightarrow> map_sum id ((#) x) (those_results rs))"

section \<open>Objects\<close>

record stored_object =
  ob_bus_name :: string
  ob_path :: string

text \<open>The grammars of unique bus names and object paths are those of D-Bus.\<close>

record bus_grammar =
  bg_unique_name :: "string \<Rightarrow> bool"
  bg_object_path :: "string \<Rightarrow> bool"
  bg_bus_name :: "string \<Rightarrow> bool"

definition has_control :: "string \<Rightarrow> bool" where
  "has_control s \<longleftrightarrow> list_ex is_control (chars s)"

definition valid_object :: "bus_grammar \<Rightarrow> stored_object \<Rightarrow> bool" where
  "valid_object G ob \<longleftrightarrow> length (ob_bus_name ob) \<le> 255 \<and> length (ob_path ob) \<le> 1792
     \<and> \<not> has_control (ob_bus_name ob) \<and> \<not> has_control (ob_path ob)
     \<and> bg_unique_name G (ob_bus_name ob) \<and> bg_object_path G (ob_path ob)"

definition invalid_object :: protocol_error where
  "invalid_object = StaleTarget ''accessibility object is invalid''"

definition validate_object :: "bus_grammar \<Rightarrow> stored_object \<Rightarrow> protocol_error + unit" where
  "validate_object G ob = ensure (valid_object G ob) invalid_object"

definition object_text :: "stored_object \<Rightarrow> string" where
  "object_text ob = ob_bus_name ob @ '':'' @ ob_path ob"

definition object_id :: "bus_grammar \<Rightarrow> stored_object \<Rightarrow> protocol_error + string" where
  "object_id G ob = and_then (validate_object G ob)
     (if 2048 < length (object_text ob) then Inl invalid_object else Inr (object_text ob))"

text \<open>A reference as it is on the wire: a name and a path.\<close>

type_synonym object_ref = "string \<times> string"

definition null_path :: string where "null_path = ''/org/a11y/atspi/null''"

definition is_null :: "object_ref \<Rightarrow> bool" where
  "is_null r \<longleftrightarrow> snd r = null_path"

definition object_from_ref :: "bus_grammar \<Rightarrow> object_ref \<Rightarrow> protocol_error + stored_object" where
  "object_from_ref G r =
     (if is_null r then Inl (StaleTarget ''accessibility object disappeared'')
      else let ob = \<lparr>ob_bus_name = fst r, ob_path = snd r\<rparr> in and_then (validate_object G ob) (Inr ob))"

section \<open>State sets\<close>

datatype node_state = ActiveState | BusyState | DefunctState | EditableState | EnabledState | FocusedState
  | IconifiedState | SensitiveState | ShowingState | VisibleState | ReadOnlyState

fun state_bit :: "node_state \<Rightarrow> nat" where
  "state_bit ActiveState = 1"
| "state_bit BusyState = 3"
| "state_bit DefunctState = 6"
| "state_bit EditableState = 7"
| "state_bit EnabledState = 8"
| "state_bit FocusedState = 12"
| "state_bit IconifiedState = 15"
| "state_bit SensitiveState = 24"
| "state_bit ShowingState = 25"
| "state_bit VisibleState = 30"
| "state_bit ReadOnlyState = 43"

type_synonym state_set = u64

definition has_state :: "state_set \<Rightarrow> node_state \<Rightarrow> bool" where
  "has_state states s \<longleftrightarrow> states AND push_bit (state_bit s) 1 \<noteq> 0"

text \<open>Two words of 32 bits, the low one first.\<close>

fun read_state_set :: "u32 list \<Rightarrow> state_set option" where
  "read_state_set [low, high] = Some (ucast low OR push_bit 32 (ucast high))"
| "read_state_set _ = None"

definition pick_states :: "node_state list \<Rightarrow> state_set \<Rightarrow> u64" where
  "pick_states picked states =
     fold (\<lambda>s bits. if has_state states s then bits OR push_bit (state_bit s) 1 else bits) picked 0"

definition relevant_states :: "state_set \<Rightarrow> u64" where
  "relevant_states = pick_states [ActiveState, BusyState, DefunctState, EditableState, EnabledState,
     IconifiedState, ReadOnlyState, SensitiveState, ShowingState, VisibleState]"

definition surface_states :: "state_set \<Rightarrow> u64" where
  "surface_states = pick_states [DefunctState, IconifiedState, ShowingState, VisibleState]"

definition shown_state :: "state_set \<Rightarrow> bool" where
  "shown_state states \<longleftrightarrow> has_state states VisibleState \<and> has_state states ShowingState
     \<and> \<not> has_state states DefunctState \<and> \<not> has_state states IconifiedState"

definition active_window_state :: "state_set \<Rightarrow> bool" where
  "active_window_state states \<longleftrightarrow> has_state states ActiveState \<and> shown_state states"

definition focused_state :: "state_set \<Rightarrow> bool" where
  "focused_state states \<longleftrightarrow> has_state states FocusedState \<and> has_state states VisibleState
     \<and> has_state states ShowingState \<and> \<not> has_state states DefunctState"

section \<open>Interface sets\<close>

definition interface_names :: "string list" where
  "interface_names = map ((@) ''org.a11y.atspi.'') [''Accessible'', ''Action'', ''Application'', ''Cache'',
     ''Collection'', ''Component'', ''Document'', ''DeviceEventController'', ''DeviceEventListener'',
     ''EditableText'', ''Hyperlink'', ''Hypertext'', ''Image'', ''Registry'', ''Selection'', ''Socket'',
     ''Table'', ''TableCell'', ''Text'', ''Value'']"

datatype interface = ActionInterface | ComponentInterface | EditableTextInterface | TextInterface

fun interface_bit :: "interface \<Rightarrow> nat" where
  "interface_bit ActionInterface = 1"
| "interface_bit ComponentInterface = 5"
| "interface_bit EditableTextInterface = 9"
| "interface_bit TextInterface = 18"

type_synonym interface_set = u32

definition read_interface_set :: "string list \<Rightarrow> interface_set" where
  "read_interface_set names = fold (\<lambda>(index, known) bits.
     if known \<in> set names then bits OR push_bit index 1 else bits) (zip [0..<20] interface_names) 0"

definition has_interface :: "interface_set \<Rightarrow> interface \<Rightarrow> bool" where
  "has_interface interfaces i \<longleftrightarrow> interfaces AND push_bit (interface_bit i) 1 \<noteq> 0"

definition role_dialog :: u32 where "role_dialog = 16"
definition role_frame :: u32 where "role_frame = 23"
definition role_window :: u32 where "role_window = 69"

definition window_role :: "u32 \<Rightarrow> bool" where
  "window_role role \<longleftrightarrow> role = role_dialog \<or> role = role_frame \<or> role = role_window"

section \<open>Text from applications\<close>

definition bounded_text :: "string \<Rightarrow> protocol_error + string" where
  "bounded_text value =
     (if value = [] \<or> max_text_bytes < length value \<or> has_control value
      then Inl (ExecutorError ''accessibility text is invalid'') else Inr value)"

definition bounded_optional_text :: "string \<Rightarrow> protocol_error + string option" where
  "bounded_optional_text value = (if value = [] then Inr None else map_sum id Some (bounded_text value))"

definition bounded_action_name :: "string \<Rightarrow> protocol_error + string" where
  "bounded_action_name value =
     (if value = [] \<or> max_action_name_bytes < length value \<or> has_control value
      then Inl (ExecutorError ''accessibility action is invalid'') else Inr value)"

section \<open>Actions\<close>

record invoke_action =
  ia_index :: int
  ia_name :: string

definition allowed_action :: "string \<Rightarrow> bool" where
  "allowed_action name \<longleftrightarrow> list_ex (eq_ignore_ascii_case name) [''activate'', ''click'', ''press'']"

text \<open>The only allowed action, with its index.\<close>

definition select_invoke_action :: "string list \<Rightarrow> invoke_action option" where
  "select_invoke_action actions =
     (case filter (\<lambda>(index, name). allowed_action name) (zip [0..<length actions] actions) of
        [(index, name)] \<Rightarrow> if index < 2147483648 then Some \<lparr>ia_index = int index, ia_name = name\<rparr> else None
      | _ \<Rightarrow> None)"

section \<open>Samples\<close>

record node_identity =
  nd_backend_id :: string
  nd_role :: string
  nd_name :: "string option"
  nd_bounds :: "rect option"
  nd_relevant_states :: u64
  nd_interfaces :: interface_set
  nd_actions :: "string list"

record node_sample =
  ns_identity :: node_identity
  ns_actionability :: actionability
  ns_invoke_action :: "invoke_action option"
  ns_value_hash :: "string option"

record surface_identity =
  si_backend_id :: string
  si_role_code :: u32
  si_role :: string
  si_name :: "string option"
  si_bounds :: "rect option"
  si_states :: u64

record surface_window =
  sw_object :: stored_object
  sw_process_id :: u32
  sw_process_generation :: string
  sw_window_id :: string
  sw_fingerprint_hash :: string
  sw_bounds :: "rect option"

definition bounds_json :: "rect option \<Rightarrow> json" where
  "bounds_json b = (case b of None \<Rightarrow> JNull | Some r \<Rightarrow> rect_json r)"

definition node_identity_json :: "node_identity \<Rightarrow> json" where
  "node_identity_json n = JObj [(''backend_id'', JStr (nd_backend_id n)), (''role'', JStr (nd_role n)),
     (''name'', jopt (nd_name n)), (''bounds'', bounds_json (nd_bounds n)),
     (''relevant_states'', jword (nd_relevant_states n)), (''interfaces'', jword (nd_interfaces n)),
     (''actions'', JArr (map JStr (nd_actions n)))]"

definition node_fingerprint :: "hashing \<Rightarrow> node_identity \<Rightarrow> string" where
  "node_fingerprint H n = semantic_fingerprint H (node_identity_json n)"

definition surface_identity_json :: "surface_identity \<Rightarrow> json" where
  "surface_identity_json s = JObj [(''backend_id'', JStr (si_backend_id s)),
     (''role_code'', jword (si_role_code s)), (''role'', JStr (si_role s)), (''name'', jopt (si_name s)),
     (''bounds'', bounds_json (si_bounds s)), (''states'', jword (si_states s))]"

definition surface_fingerprint :: "hashing \<Rightarrow> surface_identity \<Rightarrow> string" where
  "surface_fingerprint H s = semantic_fingerprint H (surface_identity_json s)"

definition object_json :: "stored_object \<Rightarrow> json" where
  "object_json ob = JObj [(''bus_name'', JStr (ob_bus_name ob)), (''path'', JStr (ob_path ob))]"

record surface_descriptor =
  sd_protocol_version :: u16
  sd_surface_id :: string
  sd_backend :: string
  sd_process_id :: u32
  sd_process_generation :: string
  sd_window_id :: string
  sd_display_geometry_hash :: string
  sd_bounds :: "rect option"

definition descriptor :: "hashing \<Rightarrow> string \<Rightarrow> surface_window \<Rightarrow> protocol_error + surface_descriptor" where
  "descriptor H geometry w =
     (if \<not> semantic_hash geometry then Inl topology_unavailable
      else Inr \<lparr>sd_protocol_version = protocol_version,
        sd_surface_id = semantic_fingerprint H (JArr [JStr atspi_backend_name, object_json (sw_object w),
          jword (sw_process_id w), JStr (sw_process_generation w), JStr (sw_window_id w),
          JStr (sw_fingerprint_hash w), JStr geometry]),
        sd_backend = atspi_backend_name, sd_process_id = sw_process_id w,
        sd_process_generation = sw_process_generation w, sd_window_id = sw_window_id w,
        sd_display_geometry_hash = geometry, sd_bounds = sw_bounds w\<rparr>)"

definition owner_binding_matches :: "string \<Rightarrow> u32 \<Rightarrow> string \<Rightarrow> stored_object \<Rightarrow> u32 \<Rightarrow> string \<Rightarrow> bool" where
  "owner_binding_matches bus_name process_id generation ob actual_id actual_generation \<longleftrightarrow>
     ob_bus_name ob = bus_name \<and> actual_id = process_id \<and> actual_generation = generation"

section \<open>Stored snapshots\<close>

record stored_target =
  st_object :: stored_object
  st_invoke_action :: "invoke_action option"

record stored_snapshot =
  sp_protocol_version :: u16
  sp_observation :: semantic_observation
  sp_targets :: "(string \<times> stored_target) list"
  sp_window :: stored_object
  sp_window_fingerprint_hash :: string
  sp_process_id :: u32
  sp_process_generation :: string

definition validate_target :: "bus_grammar \<Rightarrow> stored_target \<Rightarrow> protocol_error + unit" where
  "validate_target G t = and_then (validate_object G (st_object t))
     (ensure (case st_invoke_action t of
          None \<Rightarrow> True
        | Some a \<Rightarrow> 0 \<le> ia_index a \<and> ia_index a < int max_actions \<and> allowed_action (ia_name a))
       (StaleTarget ''accessibility action is invalid''))"

definition element_id_of :: "bus_grammar \<Rightarrow> hashing \<Rightarrow> string \<Rightarrow> stored_object \<Rightarrow> protocol_error + string" where
  "element_id_of G H observation_id ob = (case object_id G ob of
       Inl e \<Rightarrow> Inl e
     | Inr backend_id \<Rightarrow> from_semantic (opaque_element_id H observation_id backend_id))"

definition mapping_changed :: protocol_error where
  "mapping_changed = StaleTarget ''semantic mapping changed''"

definition validate_mapping :: "bus_grammar \<Rightarrow> hashing \<Rightarrow> stored_snapshot \<Rightarrow> semantic_element
    \<Rightarrow> protocol_error + unit" where
  "validate_mapping G H s e = (case map_of (sp_targets s) (se_element_id e) of
       None \<Rightarrow> Inl mapping_changed
     | Some target \<Rightarrow> and_then (validate_target G target)
         (case element_id_of G H (so_observation_id (sp_observation s)) (st_object target) of
            Inl e' \<Rightarrow> Inl e'
          | Inr element_id \<Rightarrow> ensure (element_id = se_element_id e
                \<and> (st_invoke_action target \<noteq> None) = invokable (se_actionability e)) mapping_changed))"

definition window_changed :: protocol_error where
  "window_changed = StaleTarget ''target window changed''"

definition window_id_matches :: "bus_grammar \<Rightarrow> hashing \<Rightarrow> stored_snapshot \<Rightarrow> protocol_error + unit" where
  "window_id_matches G H s = (case object_id G (sp_window s) of
       Inl e \<Rightarrow> Inl e
     | Inr backend_id \<Rightarrow> ensure (semantic_fingerprint H (JStr backend_id)
           = pv_window_id (so_provenance (sp_observation s))) window_changed)"

definition validate_snapshot :: "bus_grammar \<Rightarrow> hashing \<Rightarrow> stored_snapshot \<Rightarrow> i64 \<Rightarrow> protocol_error + unit" where
  "validate_snapshot G H s now = (let provenance = so_provenance (sp_observation s) in
     all_checks ([
       from_semantic (validate_observation H (sp_observation s) now),
       ensure (sp_protocol_version s = protocol_version
           \<and> pv_backend provenance = Accessibility
           \<and> pv_backend_name provenance = atspi_backend_name
           \<and> pv_document_id provenance = None
           \<and> sp_process_id s = pv_process_id provenance
           \<and> sp_process_generation s = pv_process_generation provenance
           \<and> length (sp_targets s) = length (so_elements (sp_observation s)))
         (StaleTarget ''semantic observation changed''),
       validate_object G (sp_window s),
       ensure (semantic_hash (sp_window_fingerprint_hash s)) window_changed,
       window_id_matches G H s]
     @ map (validate_mapping G H s) (so_elements (sp_observation s))))"

text \<open>\<open>focused_element_id\<close>: the entry whose object has the focus.\<close>

definition focused_element_id :: "bus_grammar \<Rightarrow> hashing \<Rightarrow> stored_snapshot \<Rightarrow> stored_object
    \<Rightarrow> protocol_error + string" where
  "focused_element_id G H s focused =
     (case element_id_of G H (so_observation_id (sp_observation s)) focused of
        Inl e \<Rightarrow> Inl e
      | Inr expected \<Rightarrow> (case filter (\<lambda>(element_id, target). element_id = expected \<and> st_object target = focused)
            (sp_targets s) of
          [(element_id, _)] \<Rightarrow> Inr element_id
        | _ \<Rightarrow> Inl desktop_state_unavailable))"

definition observation_state :: "actionability \<Rightarrow> string option \<Rightarrow> json" where
  "observation_state a value_hash = JObj ((''actionability'', actionability_json a)
     # (case value_hash of None \<Rightarrow> [] | Some hash \<Rightarrow> [(''value_hash'', JStr hash)]))"

record focus_sentinel =
  fs_window :: stored_object
  fs_focused :: stored_object
  fs_process_id :: u32
  fs_process_generation :: string

definition focus_sentinel_json :: "focus_sentinel \<Rightarrow> json" where
  "focus_sentinel_json s = JObj [(''window'', object_json (fs_window s)),
     (''focused'', object_json (fs_focused s)), (''process_id'', jword (fs_process_id s)),
     (''process_generation'', JStr (fs_process_generation s))]"

section \<open>Private observations (lib.rs)\<close>

definition private_observation_path :: "env_vars \<Rightarrow> string \<Rightarrow> string \<Rightarrow> protocol_error + string" where
  "private_observation_path get_env fallback observation_id =
     (if \<not> is_hash observation_id then Inl (InvalidRequest ''invalid observation ID'')
      else Inr (path_join (path_join (path_join (observation_root get_env fallback) ''praefectus'')
        ''observations'') (''semantic-'' @ observation_id @ ''.json'')))"

end
