(* ===== verification/Atspi.thy ===== *)
theory Atspi
  imports AtspiData NativeDispatch
begin

text \<open>
  \<open>LinuxAtspiBackend\<close> (linux_atspi.rs): reading windows and trees from the accessibility bus,
  the focus, snapshots and their storage, resolution of a stored target against the live tree,
  and the two effects, invoking an action and setting a text.

  The bus is a parameter (\<open>a11y\<close>): what each call answers depends on the tick, the object and
  the arguments; \<open>None\<close> is a failed call.  \<open>al_effects\<close> is a ghost: the effects that were
  requested, in order, also those whose call fails.
\<close>

section \<open>State\<close>

datatype a11y_effect =
    DoAction stored_object int
  | SetTextContents stored_object string

record a11y_state =
  al_generation :: u64
  al_latest :: "stored_snapshot option"
  al_latest_poisoned :: bool
  al_worker :: "x11_connection option"
  al_files :: files
  al_effects :: "a11y_effect list"

text \<open>
  \<open>aw_sent\<close>: the topology thread takes the request; \<open>aw_timely\<close>: its answer comes in time.
  \<open>aw_proxy\<close>: a proxy for the object is built.  \<open>aw_extents\<close>: x, y, width, height.
\<close>

record a11y =
  aw_hashing :: hashing
  aw_x11 :: x11_world
  aw_grammar :: bus_grammar
  aw_storing :: storing
  aw_print :: "stored_snapshot \<Rightarrow> string"
  aw_read :: "string \<Rightarrow> stored_snapshot option"
  aw_self :: u32
  aw_connect :: "nat \<Rightarrow> bool"
  aw_thread :: "nat \<Rightarrow> bool"
  aw_sent :: "nat \<Rightarrow> bool"
  aw_timely :: "nat \<Rightarrow> bool"
  aw_proxy :: "nat \<Rightarrow> stored_object \<Rightarrow> bool"
  aw_dbus :: "nat \<Rightarrow> bool"
  aw_process_id :: "nat \<Rightarrow> string \<Rightarrow> u32 option"
  aw_children :: "nat \<Rightarrow> stored_object \<Rightarrow> object_ref list option"
  aw_parent :: "nat \<Rightarrow> stored_object \<Rightarrow> object_ref option"
  aw_role :: "nat \<Rightarrow> stored_object \<Rightarrow> u32 option"
  aw_role_name :: "nat \<Rightarrow> stored_object \<Rightarrow> string option"
  aw_name :: "nat \<Rightarrow> stored_object \<Rightarrow> string option"
  aw_states :: "nat \<Rightarrow> stored_object \<Rightarrow> u32 list option"
  aw_interfaces :: "nat \<Rightarrow> stored_object \<Rightarrow> string list option"
  aw_extents :: "nat \<Rightarrow> stored_object \<Rightarrow> (int \<times> int \<times> int \<times> int) option"
  aw_action_count :: "nat \<Rightarrow> stored_object \<Rightarrow> int option"
  aw_action_name :: "nat \<Rightarrow> stored_object \<Rightarrow> nat \<Rightarrow> string option"
  aw_character_count :: "nat \<Rightarrow> stored_object \<Rightarrow> int option"
  aw_text :: "nat \<Rightarrow> stored_object \<Rightarrow> int \<Rightarrow> string option"
  aw_do_action :: "nat \<Rightarrow> stored_object \<Rightarrow> int \<Rightarrow> bool option"
  aw_set_text :: "nat \<Rightarrow> stored_object \<Rightarrow> string \<Rightarrow> bool option"

type_synonym 'a probing = "(a11y_state host, protocol_error + 'a) state"

text \<open>A cancellation token and a deadline; a fresh token (\<open>lm_watched\<close> is false) is never set.\<close>

record limits =
  lm_watched :: bool
  lm_deadline :: i64

definition check_limits :: "limits \<Rightarrow> ('x host, protocol_error + unit) state" where
  "check_limits u = do {
     c \<leftarrow> (if lm_watched u then is_cancelled else ret False);
     if c then ret (Inl ObservationCancelled)
     else do {
       t \<leftarrow> now_ms;
       ret (if lm_deadline u \<le> t then Inl ObservationExpired else Inr ())
     }
   }"

section \<open>Calls\<close>

abbreviation grammar :: "a11y \<Rightarrow> bus_grammar" where "grammar \<equiv> aw_grammar"
abbreviation hasher :: "a11y \<Rightarrow> hashing" where "hasher \<equiv> aw_hashing"

definition nothing :: "unit probing" where "nothing = ret (Inr ())"

definition answered :: "'a option \<Rightarrow> protocol_error + 'a" where
  "answered v = (case v of None \<Rightarrow> Inl accessibility_error | Some x \<Rightarrow> Inr x)"

text \<open>\<open>provider_call!\<close>: \<open>prepare\<close> is what the argument does before the call.\<close>

definition provider_call_after :: "limits \<Rightarrow> unit probing \<Rightarrow> (nat \<Rightarrow> 'a option) \<Rightarrow> 'a probing" where
  "provider_call_after u prepare question =
     try_bind (check_limits u) (\<lambda>_.
     try_bind prepare (\<lambda>_. do {
       v \<leftarrow> ask question;
       try_bind (check_limits u) (\<lambda>_. ret (answered v))
     }))"

definition provider_call :: "limits \<Rightarrow> (nat \<Rightarrow> 'a option) \<Rightarrow> 'a probing" where
  "provider_call u question = provider_call_after u nothing question"

definition build_proxy :: "a11y \<Rightarrow> stored_object \<Rightarrow> unit probing" where
  "build_proxy A ob = try_bind (ret (validate_object (grammar A) ob)) (\<lambda>_. do {
     built \<leftarrow> ask (\<lambda>t. aw_proxy A t ob);
     ret (ensure built accessibility_error)
   })"

definition registry_root :: stored_object where
  "registry_root = \<lparr>ob_bus_name = ''org.a11y.atspi.Registry'', ob_path = ''/org/a11y/atspi/accessible/root''\<rparr>"

definition build_root :: "a11y \<Rightarrow> unit probing" where
  "build_root A = do { built \<leftarrow> ask (\<lambda>t. aw_proxy A t registry_root); ret (ensure built accessibility_error) }"

definition node_states :: "a11y \<Rightarrow> limits \<Rightarrow> stored_object \<Rightarrow> state_set probing" where
  "node_states A u ob = try_bind (build_proxy A ob) (\<lambda>_.
     provider_call u (\<lambda>t. Option.bind (aw_states A t ob) read_state_set))"

definition process_id_of :: "a11y \<Rightarrow> limits \<Rightarrow> stored_object \<Rightarrow> u32 probing" where
  "process_id_of A u ob =
     try_bind (ret (validate_object (grammar A) ob)) (\<lambda>_.
     try_bind (ret (ensure (bg_bus_name (grammar A) (ob_bus_name ob)) accessibility_error)) (\<lambda>_. do {
       dbus \<leftarrow> ask (aw_dbus A);
       try_bind (ret (ensure dbus accessibility_error)) (\<lambda>_.
       provider_call u (\<lambda>t. aw_process_id A t (ob_bus_name ob)))
     }))"

definition generation_at :: "a11y \<Rightarrow> u32 \<Rightarrow> string probing" where
  "generation_at A process_id = process_generation (hasher A) (aw_x11 A) process_id"

section \<open>The X server\<close>

text \<open>\<open>X11TopologyWorker\<close>: the thread keeps its connection until a request fails.\<close>

definition x11_request :: "a11y \<Rightarrow> (x11_connection \<Rightarrow> (a11y_state, 'a) asking) \<Rightarrow> (a11y_state, 'a) asking" where
  "x11_request A action = do {
     sent \<leftarrow> ask (aw_sent A);
     if \<not> sent then ret (Inl ())
     else do {
       current \<leftarrow> get_exec al_worker;
       connection \<leftarrow> (case current of
           Some c \<Rightarrow> ret (Some c)
         | None \<Rightarrow> do { opened \<leftarrow> open_x11 (hasher A) (aw_x11 A); ret (as_option opened) });
       result \<leftarrow> (case connection of
           None \<Rightarrow> ret (Inl ())
         | Some c \<Rightarrow> try_bind (validate_server (hasher A) (aw_x11 A) c) (\<lambda>_. action c));
       update_exec (al_worker_update (\<lambda>_. case result of Inl _ \<Rightarrow> None | Inr _ \<Rightarrow> connection));
       timely \<leftarrow> ask (aw_timely A);
       ret (if timely then result else Inl ())
     }
   }"

definition or_error :: "protocol_error \<Rightarrow> (a11y_state, 'a) asking \<Rightarrow> 'a probing" where
  "or_error e m = do { r \<leftarrow> m; ret (map_sum (\<lambda>_. e) id r) }"

definition display_geometry_hash :: "a11y \<Rightarrow> string probing" where
  "display_geometry_hash A =
     or_error topology_unavailable (x11_request A (x11_topology_hash (hasher A) (aw_x11 A)))"

definition desktop_sentinel_of :: "a11y \<Rightarrow> desktop_sentinel probing" where
  "desktop_sentinel_of A =
     or_error desktop_state_unavailable (x11_request A (x11_desktop_sentinel (hasher A) (aw_x11 A)))"

text \<open>\<open>LinuxAtspiBackend::connect\<close>; \<open>stored\<close> are the files of earlier processes.\<close>

definition connect_atspi :: "a11y \<Rightarrow> (nat \<Rightarrow> files) \<Rightarrow> nat \<Rightarrow> protocol_error + a11y_state" where
  "connect_atspi A stored t =
     (if aw_connect A t \<and> aw_thread A t
      then Inr \<lparr>al_generation = 0, al_latest = None, al_latest_poisoned = False, al_worker = None,
        al_files = stored t, al_effects = []\<rparr>
      else Inl accessibility_error)"

section \<open>Owners\<close>

record object_owner =
  ow_bus_name :: string
  ow_process_id :: u32
  ow_generation :: string

definition stale_target :: "string \<Rightarrow> ('s, protocol_error + 'a) state" where
  "stale_target message = ret (Inl (StaleTarget message))"

definition validate_object_owner :: "a11y \<Rightarrow> limits \<Rightarrow> object_owner \<Rightarrow> stored_object \<Rightarrow> unit probing" where
  "validate_object_owner A u owner ob =
     try_bind (check_limits u) (\<lambda>_.
     try_bind (process_id_of A u ob) (\<lambda>process_id.
     try_bind (generation_at A process_id) (\<lambda>generation.
     if \<not> owner_binding_matches (ow_bus_name owner) (ow_process_id owner) (ow_generation owner)
            ob process_id generation
     then stale_target ''accessibility object owner changed''
     else check_limits u)))"

definition validate_child_binding :: "a11y \<Rightarrow> limits \<Rightarrow> object_owner \<Rightarrow> stored_object \<Rightarrow> stored_object
    \<Rightarrow> unit probing" where
  "validate_child_binding A u owner parent child =
     (if child = parent then stale_target ''accessibility tree changed''
      else
      try_bind (validate_object_owner A u owner child) (\<lambda>_.
      try_bind (provider_call_after u (build_proxy A child) (\<lambda>t. aw_parent A t child)) (\<lambda>live_parent.
      if is_null live_parent then stale_target ''accessibility tree changed''
      else
      try_bind (ret (object_from_ref (grammar A) live_parent)) (\<lambda>live.
      if live \<noteq> parent then stale_target ''accessibility tree changed'' else nothing))))"

text \<open>The path from \<open>current\<close> up to \<open>surface\<close>, of at most \<open>n\<close> objects.\<close>

fun climb :: "a11y \<Rightarrow> limits \<Rightarrow> object_owner \<Rightarrow> stored_object \<Rightarrow> string list \<Rightarrow> nat \<Rightarrow> stored_object
    \<Rightarrow> unit probing" where
  "climb A u owner surface seen 0 current = stale_target ''accessibility ancestry limit exceeded''"
| "climb A u owner surface seen (Suc n) current =
     try_bind (validate_object_owner A u owner current) (\<lambda>_.
     try_bind (ret (object_id (grammar A) current)) (\<lambda>current_id.
     if current_id \<in> set seen then stale_target ''accessibility ancestry is ambiguous''
     else if current = surface then nothing
     else
     try_bind (provider_call_after u (build_proxy A current) (\<lambda>t. aw_parent A t current)) (\<lambda>parent.
     if is_null parent then stale_target ''accessibility target left its surface''
     else
     try_bind (ret (object_from_ref (grammar A) parent)) (\<lambda>above.
     climb A u owner surface (current_id # seen) n above))))"

definition validate_live_descendant :: "a11y \<Rightarrow> limits \<Rightarrow> stored_object \<Rightarrow> u32 \<Rightarrow> string \<Rightarrow> stored_object
    \<Rightarrow> unit probing" where
  "validate_live_descendant A u surface process_id generation ob =
     climb A u \<lparr>ow_bus_name = ob_bus_name surface, ow_process_id = process_id, ow_generation = generation\<rparr>
       surface [] (max_depth + 1) ob"

section \<open>Samples\<close>

definition bounds_of :: "int \<times> int \<times> int \<times> int \<Rightarrow> rect option" where
  "bounds_of e = (case e of (x, y, width, height) \<Rightarrow>
     if 0 < width \<and> 0 < height
     then Some \<lparr>r_x = x, r_y = y, r_width = width, r_height = height\<rparr> else None)"

definition surface_identity_of :: "a11y \<Rightarrow> limits \<Rightarrow> stored_object \<Rightarrow> state_set \<Rightarrow> surface_identity probing" where
  "surface_identity_of A u ob states =
     try_bind (build_proxy A ob) (\<lambda>_.
     try_bind (provider_call u (\<lambda>t. aw_role A t ob)) (\<lambda>role_code.
     try_bind (provider_call u (\<lambda>t. aw_role_name A t ob)) (\<lambda>role_name.
     try_bind (ret (bounded_text role_name)) (\<lambda>role.
     try_bind (provider_call u (\<lambda>t. aw_name A t ob)) (\<lambda>full_name.
     try_bind (ret (bounded_optional_text full_name)) (\<lambda>name.
     try_bind (provider_call u (\<lambda>t. map_option read_interface_set (aw_interfaces A t ob))) (\<lambda>interfaces.
     try_bind (if has_interface interfaces ComponentInterface
         then try_bind (provider_call_after u (build_proxy A ob) (\<lambda>t. aw_extents A t ob))
           (\<lambda>e. ret (Inr (bounds_of e)))
         else ret (Inr None)) (\<lambda>bounds.
     try_bind (ret (object_id (grammar A) ob)) (\<lambda>backend_id.
     ret (Inr \<lparr>si_backend_id = backend_id, si_role_code = role_code, si_role = role, si_name = name,
       si_bounds = bounds, si_states = surface_states states\<rparr>))))))))))"

fun read_action_names :: "a11y \<Rightarrow> limits \<Rightarrow> stored_object \<Rightarrow> nat list \<Rightarrow> string list probing" where
  "read_action_names A u ob [] = ret (Inr [])"
| "read_action_names A u ob (index # rest) =
     try_bind (check_limits u) (\<lambda>_.
     try_bind (provider_call u (\<lambda>t. aw_action_name A t ob index)) (\<lambda>value.
     try_bind (ret (bounded_action_name value)) (\<lambda>name.
     try_bind (read_action_names A u ob rest) (\<lambda>names. ret (Inr (name # names))))))"

definition action_names :: "a11y \<Rightarrow> limits \<Rightarrow> stored_object \<Rightarrow> string list probing" where
  "action_names A u ob =
     try_bind (check_limits u) (\<lambda>_.
     try_bind (provider_call u (\<lambda>t. aw_action_count A t ob)) (\<lambda>n.
     if n < 0 \<or> int max_actions < n then ret (Inl (ExecutorError ''accessibility action limit exceeded''))
     else read_action_names A u ob [0..<nat n]))"

definition value_hash_of :: "a11y \<Rightarrow> limits \<Rightarrow> stored_object \<Rightarrow> string option probing" where
  "value_hash_of A u ob =
     try_bind (build_proxy A ob) (\<lambda>_.
     try_bind (check_limits u) (\<lambda>_.
     try_bind (provider_call u (\<lambda>t. aw_character_count A t ob)) (\<lambda>n.
     if n < 0 \<or> int max_value_characters < n then ret (Inr None)
     else
     try_bind (check_limits u) (\<lambda>_.
     try_bind (provider_call u (\<lambda>t. aw_text A t ob n)) (\<lambda>value.
     ret (Inr (if max_value_bytes < length value \<or> int (length (chars value)) \<noteq> n then None
               else Some (sha256_hex (hasher A) value))))))))"

definition sample_of :: "stored_object \<Rightarrow> string \<Rightarrow> string \<Rightarrow> string option \<Rightarrow> rect option \<Rightarrow> state_set
    \<Rightarrow> interface_set \<Rightarrow> string list \<Rightarrow> string option \<Rightarrow> node_sample" where
  "sample_of ob backend_id role name bounds states interfaces actions value_hash =
     (let selected = select_invoke_action actions in
      \<lparr>ns_identity = \<lparr>nd_backend_id = backend_id, nd_role = role, nd_name = name, nd_bounds = bounds,
         nd_relevant_states = relevant_states states, nd_interfaces = interfaces, nd_actions = actions\<rparr>,
       ns_actionability = \<lparr>visible = shown_state states,
         enabled = has_state states EnabledState \<and> has_state states SensitiveState \<and> \<not> has_state states BusyState,
         unambiguous = True, stable = False, receives_events = False, invokable = selected \<noteq> None,
         editable = has_interface interfaces EditableTextInterface \<and> has_state states EditableState
           \<and> \<not> has_state states ReadOnlyState\<rparr>,
       ns_invoke_action = selected, ns_value_hash = value_hash\<rparr>)"

definition sample :: "a11y \<Rightarrow> limits \<Rightarrow> stored_object \<Rightarrow> bool \<Rightarrow> node_sample probing" where
  "sample A u ob include_value =
     try_bind (build_proxy A ob) (\<lambda>_.
     try_bind (provider_call u (\<lambda>t. aw_role_name A t ob)) (\<lambda>role_name.
     try_bind (ret (bounded_text role_name)) (\<lambda>role.
     try_bind (provider_call u (\<lambda>t. aw_name A t ob)) (\<lambda>full_name.
     try_bind (ret (bounded_optional_text full_name)) (\<lambda>name.
     try_bind (provider_call u (\<lambda>t. Option.bind (aw_states A t ob) read_state_set)) (\<lambda>states.
     try_bind (provider_call u (\<lambda>t. map_option read_interface_set (aw_interfaces A t ob))) (\<lambda>interfaces.
     try_bind (if has_interface interfaces ComponentInterface
         then try_bind (build_proxy A ob) (\<lambda>_.
           try_bind (provider_call u (\<lambda>t. aw_extents A t ob)) (\<lambda>e. ret (Inr (bounds_of e))))
         else ret (Inr None)) (\<lambda>bounds.
     try_bind (if has_interface interfaces ActionInterface
         then try_bind (build_proxy A ob) (\<lambda>_. action_names A u ob) else ret (Inr [])) (\<lambda>actions.
     try_bind (if include_value \<and> has_interface interfaces TextInterface
         then value_hash_of A u ob else ret (Inr None)) (\<lambda>value_hash.
     try_bind (ret (object_id (grammar A) ob)) (\<lambda>backend_id.
     ret (Inr (sample_of ob backend_id role name bounds states interfaces actions value_hash)))))))))))))"

end
