(* ===== verification/AtspiTree.thy ===== *)
theory AtspiTree
  imports Atspi
begin

text \<open>
  The windows and trees of the accessibility bus (linux_atspi.rs): \<open>windows\<close>, \<open>active_window\<close>,
  the focused object, and \<open>snapshot_window\<close>, a breadth-first reading of at most 512 nodes.
\<close>

section \<open>Windows\<close>

definition window_of :: "hashing \<Rightarrow> stored_object \<Rightarrow> u32 \<Rightarrow> string \<Rightarrow> surface_identity \<Rightarrow> surface_window" where
  "window_of H ob process_id generation identity = \<lparr>sw_object = ob, sw_process_id = process_id,
     sw_process_generation = generation,
     sw_window_id = semantic_fingerprint H (JStr (si_backend_id identity)),
     sw_fingerprint_hash = surface_fingerprint H identity, sw_bounds = si_bounds identity\<rparr>"

text \<open>A child of an application: a window that is shown, or nothing.\<close>

definition read_window :: "a11y \<Rightarrow> limits \<Rightarrow> object_owner \<Rightarrow> stored_object \<Rightarrow> stored_object
    \<Rightarrow> surface_window option probing" where
  "read_window A u owner application ob =
     try_bind (validate_child_binding A u owner application ob) (\<lambda>_.
     try_bind (provider_call_after u (build_proxy A ob) (\<lambda>t. aw_role A t ob)) (\<lambda>role.
     if \<not> window_role role then ret (Inr None)
     else
     try_bind (node_states A u ob) (\<lambda>states.
     if \<not> shown_state states then ret (Inr None)
     else
     try_bind (surface_identity_of A u ob states) (\<lambda>identity.
     ret (Inr (Some (window_of (hasher A) ob (ow_process_id owner) (ow_generation owner) identity)))))))"

fun read_windows :: "a11y \<Rightarrow> limits \<Rightarrow> object_owner \<Rightarrow> stored_object \<Rightarrow> object_ref list
    \<Rightarrow> string list \<times> surface_window list \<Rightarrow> (string list \<times> surface_window list) probing" where
  "read_windows A u owner application [] found = ret (Inr found)"
| "read_windows A u owner application (r # rs) (seen, windows) =
     try_bind (check_limits u) (\<lambda>_.
     if is_null r then read_windows A u owner application rs (seen, windows)
     else
     try_bind (ret (object_from_ref (grammar A) r)) (\<lambda>ob.
     try_bind (ret (object_id (grammar A) ob)) (\<lambda>window_id.
     if window_id \<in> set seen then ret (Inl (ExecutorError ''accessibility surface is ambiguous''))
     else
     try_bind (read_window A u owner application ob) (\<lambda>window.
     let windows' = windows @ (case window of None \<Rightarrow> [] | Some w \<Rightarrow> [w]) in
     if max_surfaces < length windows' then ret (Inl (ExecutorError ''accessibility surface limit exceeded''))
     else read_windows A u owner application rs (window_id # seen, windows')))))"

fun read_applications :: "a11y \<Rightarrow> limits \<Rightarrow> object_ref list \<Rightarrow> string list \<times> surface_window list
    \<Rightarrow> surface_window list probing" where
  "read_applications A u [] found = ret (Inr (snd found))"
| "read_applications A u (r # rs) found =
     try_bind (check_limits u) (\<lambda>_.
     if is_null r then read_applications A u rs found
     else
     try_bind (ret (object_from_ref (grammar A) r)) (\<lambda>application.
     try_bind (process_id_of A u application) (\<lambda>process_id.
     try_bind (generation_at A process_id) (\<lambda>generation.
     try_bind (build_proxy A application) (\<lambda>_.
     try_bind (provider_call u (\<lambda>t. aw_children A t application)) (\<lambda>children.
     if max_windows_per_application < length children
     then ret (Inl (ExecutorError ''accessibility window limit exceeded''))
     else
     try_bind (read_windows A u \<lparr>ow_bus_name = ob_bus_name application, ow_process_id = process_id,
         ow_generation = generation\<rparr> application children found) (\<lambda>found'.
     try_bind (generation_at A process_id) (\<lambda>later.
     if later \<noteq> generation then stale_target ''target process changed''
     else try_bind (check_limits u) (\<lambda>_. read_applications A u rs found')))))))))"

definition read_registry :: "a11y \<Rightarrow> limits \<Rightarrow> object_ref list probing" where
  "read_registry A u = try_bind (build_root A) (\<lambda>_. provider_call u (\<lambda>t. aw_children A t registry_root))"

definition windows_of :: "a11y \<Rightarrow> limits \<Rightarrow> surface_window list probing" where
  "windows_of A u = try_bind (read_registry A u) (\<lambda>applications.
     if max_applications < length applications
     then ret (Inl (ExecutorError ''accessibility application limit exceeded''))
     else read_applications A u applications ([], []))"

fun the_active :: "a11y \<Rightarrow> limits \<Rightarrow> surface_window list \<Rightarrow> surface_window option \<Rightarrow> surface_window probing" where
  "the_active A u [] active = ret (case active of
       None \<Rightarrow> Inl (TargetNotFound ''active accessibility window not found'') | Some w \<Rightarrow> Inr w)"
| "the_active A u (w # ws) active =
     try_bind (node_states A u (sw_object w)) (\<lambda>states.
     if \<not> has_state states ActiveState then the_active A u ws active
     else if active \<noteq> None then ret (Inl (ExecutorError ''active accessibility window is ambiguous''))
     else the_active A u ws (Some w))"

definition active_window :: "a11y \<Rightarrow> limits \<Rightarrow> surface_window probing" where
  "active_window A u = try_bind (windows_of A u) (\<lambda>windows. the_active A u windows None)"

definition target_window_changed :: "('s, protocol_error + 'a) state" where
  "target_window_changed = ret (Inl window_changed)"

definition validate_surface_window :: "a11y \<Rightarrow> limits \<Rightarrow> surface_window \<Rightarrow> unit probing" where
  "validate_surface_window A u w =
     try_bind (check_limits u) (\<lambda>_.
     try_bind (process_id_of A u (sw_object w)) (\<lambda>process_id.
     if process_id \<noteq> sw_process_id w then stale_target ''target process changed''
     else
     try_bind (generation_at A process_id) (\<lambda>generation.
     if generation \<noteq> sw_process_generation w then stale_target ''target process changed''
     else
     try_bind (check_limits u) (\<lambda>_.
     try_bind (node_states A u (sw_object w)) (\<lambda>states.
     if \<not> shown_state states then target_window_changed
     else
     try_bind (surface_identity_of A u (sw_object w) states) (\<lambda>identity.
     if surface_fingerprint (hasher A) identity \<noteq> sw_fingerprint_hash w
        \<or> semantic_fingerprint (hasher A) (JStr (si_backend_id identity)) \<noteq> sw_window_id w
        \<or> si_bounds identity \<noteq> sw_bounds w
     then target_window_changed else check_limits u))))))"

definition same_display_geometry :: "a11y \<Rightarrow> string \<Rightarrow> unit probing" where
  "same_display_geometry A geometry = try_bind (display_geometry_hash A) (\<lambda>current.
     if current \<noteq> geometry then stale_target ''display geometry changed'' else nothing)"

definition list_surfaces :: "a11y \<Rightarrow> limits \<Rightarrow> surface_descriptor list probing" where
  "list_surfaces A u =
     try_bind (check_limits u) (\<lambda>_.
     try_bind (display_geometry_hash A) (\<lambda>geometry.
     try_bind (windows_of A u) (\<lambda>windows.
     try_bind (same_display_geometry A geometry) (\<lambda>_.
     try_bind (check_limits u) (\<lambda>_.
     ret (those_results (map (descriptor (hasher A) geometry) windows)))))))"

section \<open>Snapshots\<close>

text \<open>What the loop has built: identities, elements, targets, and whether nodes were left out.\<close>

record tree_state =
  ts_seen :: "string list"
  ts_elements :: "semantic_element list"
  ts_targets :: "(string \<times> stored_target) list"
  ts_truncated :: bool

type_synonym queue_entry = "stored_object \<times> string option \<times> nat"

definition window_owner :: "surface_window \<Rightarrow> object_owner" where
  "window_owner w = \<lparr>ow_bus_name = ob_bus_name (sw_object w), ow_process_id = sw_process_id w,
     ow_generation = sw_process_generation w\<rparr>"

definition same_sample :: "node_sample \<Rightarrow> node_sample \<Rightarrow> bool" where
  "same_sample a b \<longleftrightarrow> ns_identity a = ns_identity b \<and> ns_value_hash a = ns_value_hash b"

definition element_of :: "hashing \<Rightarrow> string \<Rightarrow> string \<Rightarrow> string option \<Rightarrow> bool \<Rightarrow> node_sample \<Rightarrow> semantic_element" where
  "element_of H tag element_id parent_id is_stable s = (let identity = ns_identity s in
     \<lparr>se_tag = tag, se_element_id = element_id, se_parent_id = parent_id,
      se_fingerprint_hash = node_fingerprint H identity, se_role = nd_role identity,
      se_name = nd_name identity, se_bounds = nd_bounds identity,
      se_actionability = (ns_actionability s)\<lparr>stable := is_stable\<rparr>\<rparr>)"

text \<open>One node: its element, with the number of those before it, and its stored target.\<close>

definition read_node :: "a11y \<Rightarrow> limits \<Rightarrow> surface_window \<Rightarrow> string \<Rightarrow> nat \<Rightarrow> stored_object \<Rightarrow> string
    \<Rightarrow> string option \<Rightarrow> (semantic_element \<times> stored_target) probing" where
  "read_node A u w observation_id number ob backend_id parent_id =
     try_bind (validate_object_owner A u (window_owner w) ob) (\<lambda>_.
     try_bind (sample A u ob False) (\<lambda>first.
     try_bind (check_limits u) (\<lambda>_.
     try_bind (sample A u ob False) (\<lambda>second.
     try_bind (ret (from_semantic (opaque_element_id (hasher A) observation_id backend_id))) (\<lambda>element_id.
     try_bind (ret (from_semantic (semantic_tag number))) (\<lambda>tag.
     ret (Inr (element_of (hasher A) tag element_id parent_id (same_sample first second) second,
       \<lparr>st_object = ob, st_invoke_action = ns_invoke_action second\<rparr>))))))))"

definition read_children :: "a11y \<Rightarrow> limits \<Rightarrow> stored_object \<Rightarrow> object_ref list probing" where
  "read_children A u ob = try_bind (build_proxy A ob) (\<lambda>_. provider_call u (\<lambda>t. aw_children A t ob))"

fun bind_children :: "a11y \<Rightarrow> limits \<Rightarrow> object_owner \<Rightarrow> protocol_error \<Rightarrow> stored_object \<Rightarrow> object_ref list
    \<Rightarrow> stored_object list probing" where
  "bind_children A u owner null_error parent [] = ret (Inr [])"
| "bind_children A u owner null_error parent (r # rs) =
     try_bind (if is_null r then ret (Inl null_error) else nothing) (\<lambda>_.
     try_bind (ret (object_from_ref (grammar A) r)) (\<lambda>child.
     try_bind (validate_child_binding A u owner parent child) (\<lambda>_.
     try_bind (bind_children A u owner null_error parent rs) (\<lambda>children.
     ret (Inr (child # children))))))"

text \<open>The same with a look at the limits before each child.\<close>

fun queue_children :: "a11y \<Rightarrow> limits \<Rightarrow> object_owner \<Rightarrow> stored_object \<Rightarrow> object_ref list
    \<Rightarrow> stored_object list probing" where
  "queue_children A u owner parent [] = ret (Inr [])"
| "queue_children A u owner parent (r # rs) =
     try_bind (check_limits u) (\<lambda>_.
     try_bind (bind_children A u owner (StaleTarget ''accessibility tree changed'') parent [r]) (\<lambda>child.
     try_bind (queue_children A u owner parent rs) (\<lambda>children.
     ret (Inr (child @ children)))))"

definition add_node :: "string \<Rightarrow> semantic_element \<times> stored_target \<Rightarrow> tree_state \<Rightarrow> tree_state" where
  "add_node backend_id node s = s\<lparr>ts_seen := backend_id # ts_seen s,
     ts_elements := ts_elements s @ [fst node],
     ts_targets := AList.update (se_element_id (fst node)) (snd node) (ts_targets s)\<rparr>"

definition truncate_if :: "bool \<Rightarrow> tree_state \<Rightarrow> tree_state" where
  "truncate_if c s = s\<lparr>ts_truncated := ts_truncated s \<or> c\<rparr>"

text \<open>The room that is left for children when \<open>queued\<close> nodes wait.\<close>

definition remaining :: "tree_state \<Rightarrow> nat \<Rightarrow> nat" where
  "remaining s queued = max_elements - (length (ts_elements s) + queued)"

lemma length_add_node [simp]: "length (ts_elements (add_node backend_id node s)) = Suc (length (ts_elements s))"
  by (simp add: add_node_def)

lemma elements_truncate_if [simp]: "ts_elements (truncate_if c s) = ts_elements s"
  by (simp add: truncate_if_def)

function read_tree :: "a11y \<Rightarrow> limits \<Rightarrow> surface_window \<Rightarrow> string \<Rightarrow> queue_entry list \<Rightarrow> tree_state
    \<Rightarrow> tree_state probing" where
  "read_tree A u w observation_id [] s = ret (Inr s)"
| "read_tree A u w observation_id ((ob, parent_id, depth) # queue) s =
     try_bind (check_limits u) (\<lambda>_.
     if max_elements \<le> length (ts_elements s) then ret (Inr (truncate_if True s))
     else
     try_bind (ret (object_id (grammar A) ob)) (\<lambda>backend_id.
     if backend_id \<in> set (ts_seen s) then ret (Inl (ExecutorError ''ambiguous accessibility tree''))
     else
     try_bind (read_node A u w observation_id (length (ts_elements s)) ob backend_id parent_id) (\<lambda>node.
     try_bind (read_children A u ob) (\<lambda>children.
     if depth = max_depth
     then read_tree A u w observation_id queue (truncate_if (children \<noteq> []) (add_node backend_id node s))
     else
       let room = remaining (add_node backend_id node s) (length queue) in
       try_bind (queue_children A u (window_owner w) ob (take room children)) (\<lambda>queued.
       read_tree A u w observation_id
         (queue @ map (\<lambda>child. (child, Some (se_element_id (fst node)), Suc depth)) queued)
         (truncate_if (room < length children) (add_node backend_id node s)))))))"
  by pat_completeness auto

text \<open>Every round adds an element, and there are at most 512.\<close>

termination read_tree
  by (relation "measure (\<lambda>(A, u, w, observation_id, queue, s). max_elements - length (ts_elements s))") auto

end
