(* ===== verification/AtspiBackend.thy ===== *)
theory AtspiBackend
  imports AtspiTree
begin

text \<open>
  The operations of \<open>LinuxAtspiBackend\<close> (linux_atspi.rs) that the native executor calls:
  snapshots of a window, the focused target, the hash of the shared desktop, the observation of
  a stored target, and the two effects on it.
\<close>

section \<open>Snapshot of a window\<close>

definition snapshot_identity :: "a11y \<Rightarrow> u64 \<Rightarrow> i64 \<Rightarrow> string \<Rightarrow> surface_window \<Rightarrow> string \<Rightarrow> string \<Rightarrow> string" where
  "snapshot_identity A number now self_generation w backend_id geometry = semantic_fingerprint (hasher A)
     (JArr [JStr atspi_backend_name, jword number, JInt now, jword (aw_self A), JStr self_generation,
       jword (sw_process_id w), JStr (sw_process_generation w), JStr backend_id,
       JStr (sw_fingerprint_hash w), JStr geometry])"

definition empty_tree :: tree_state where
  "empty_tree = \<lparr>ts_seen = [], ts_elements = [], ts_targets = [], ts_truncated = False\<rparr>"

definition observation_of :: "string \<Rightarrow> u64 \<Rightarrow> i64 \<Rightarrow> surface_window \<Rightarrow> string \<Rightarrow> tree_state \<Rightarrow> semantic_observation"
where
  "observation_of observation_id number now w geometry s = \<lparr>so_protocol_version = protocol_version,
     so_observation_id = observation_id, so_generation = number,
     so_provenance = \<lparr>pv_backend = Accessibility, pv_backend_name = atspi_backend_name,
       pv_process_id = sw_process_id w, pv_process_generation = sw_process_generation w,
       pv_window_id = sw_window_id w, pv_document_id = None, pv_display_geometry_hash = geometry,
       pv_host_opt_ins = []\<rparr>,
     so_observed_at_ms = now, so_expires_at_ms = sat_add_i64 now observation_lifetime_ms,
     so_truncated = ts_truncated s, so_elements = ts_elements s\<rparr>"

definition snapshot_of :: "semantic_observation \<Rightarrow> surface_window \<Rightarrow> tree_state \<Rightarrow> stored_snapshot" where
  "snapshot_of obs w s = \<lparr>sp_protocol_version = protocol_version, sp_observation = obs,
     sp_targets = ts_targets s, sp_window = sw_object w,
     sp_window_fingerprint_hash = sw_fingerprint_hash w, sp_process_id = sw_process_id w,
     sp_process_generation = sw_process_generation w\<rparr>"

text \<open>The files of the backend; \<open>persist_private_observation\<close> and \<open>load_private_observation\<close>.\<close>

definition on_private_files :: "(files host, 'a) state \<Rightarrow> (a11y_state host, 'a) state" where
  "on_private_files = on_part al_files al_files_update"

definition private_path :: "a11y \<Rightarrow> string \<Rightarrow> protocol_error + string" where
  "private_path A observation_id =
     private_observation_path (so_env (aw_storing A)) (so_fallback (aw_storing A)) observation_id"

definition persist_snapshot :: "a11y \<Rightarrow> stored_snapshot \<Rightarrow> unit probing" where
  "persist_snapshot A s = try_bind (ret (private_path A (so_observation_id (sp_observation s)))) (\<lambda>path.
     on_private_files (persist_observation (so_names (aw_storing A)) path (aw_print A s)))"

definition load_snapshot :: "a11y \<Rightarrow> string \<Rightarrow> stored_snapshot probing" where
  "load_snapshot A observation_id = try_bind (ret (private_path A observation_id)) (\<lambda>path. do {
     opened \<leftarrow> host_io;
     content \<leftarrow> get_exec (\<lambda>s. al_files s path);
     case content of
       None \<Rightarrow> stale_target ''semantic observation is unavailable''
     | Some bytes \<Rightarrow>
         if opened \<noteq> Inr () then stale_target ''semantic observation is unavailable''
         else try_bind host_io (\<lambda>_. do {
           r \<leftarrow> next_io;
           ret (case (r, aw_read A bytes) of
               (IoOk, Some s) \<Rightarrow> Inr s
             | _ \<Rightarrow> Inl (StaleTarget ''semantic observation is invalid''))
         })
   })"

definition state_unavailable :: protocol_error where
  "state_unavailable = ExecutorError ''accessibility state unavailable''"

definition keep_latest :: "stored_snapshot \<Rightarrow> unit probing" where
  "keep_latest s = do {
     poisoned \<leftarrow> get_exec al_latest_poisoned;
     if poisoned then ret (Inl state_unavailable)
     else do { update_exec (al_latest_update (\<lambda>_. Some s)); ret (Inr ()) }
   }"

definition next_generation :: "(a11y_state host, u64) state" where
  "next_generation = do {
     update_exec (al_generation_update (\<lambda>g. g + 1));
     get_exec al_generation
   }"

definition validate_at_now :: "(i64 \<Rightarrow> protocol_error + 'a) \<Rightarrow> 'a probing" where
  "validate_at_now f = do { now \<leftarrow> now_ms; ret (f now) }"

definition snapshot_window :: "a11y \<Rightarrow> limits \<Rightarrow> surface_window \<Rightarrow> string \<Rightarrow> semantic_observation probing" where
  "snapshot_window A u w geometry =
     try_bind (check_limits u) (\<lambda>_.
     try_bind (same_display_geometry A geometry) (\<lambda>_.
     try_bind (validate_surface_window A u w) (\<lambda>_. do {
     number \<leftarrow> next_generation;
     now \<leftarrow> now_ms;
     try_bind (generation_at A (aw_self A)) (\<lambda>self_generation.
     try_bind (ret (object_id (grammar A) (sw_object w))) (\<lambda>backend_id.
     let observation_id = snapshot_identity A number now self_generation w backend_id geometry in
     try_bind (read_tree A u w observation_id [(sw_object w, None, 0)] empty_tree) (\<lambda>s.
     try_bind (same_display_geometry A geometry) (\<lambda>_.
     try_bind (validate_surface_window A u w) (\<lambda>_.
     let obs = observation_of observation_id number now w geometry s;
         stored = snapshot_of obs w s in
     try_bind (validate_at_now (\<lambda>t. from_semantic (validate_observation (hasher A) obs t))) (\<lambda>_.
     try_bind (validate_at_now (validate_snapshot (grammar A) (hasher A) stored)) (\<lambda>_.
     try_bind (persist_snapshot A stored) (\<lambda>_.
     try_bind (keep_latest stored) (\<lambda>_. ret (Inr obs))))))))))
     })))"

definition snapshot :: "a11y \<Rightarrow> limits \<Rightarrow> semantic_observation probing" where
  "snapshot A u =
     try_bind (check_limits u) (\<lambda>_.
     try_bind (display_geometry_hash A) (\<lambda>geometry.
     try_bind (active_window A u) (\<lambda>w. snapshot_window A u w geometry)))"

text \<open>The windows whose descriptor names the surface.\<close>

fun matching_windows :: "hashing \<Rightarrow> string \<Rightarrow> string \<Rightarrow> surface_window list \<Rightarrow> protocol_error + surface_window list" where
  "matching_windows H geometry surface [] = Inr []"
| "matching_windows H geometry surface (w # ws) = (case descriptor H geometry w of
       Inl e \<Rightarrow> Inl e
     | Inr d \<Rightarrow> map_sum id (\<lambda>found. if sd_surface_id d = surface then w # found else found)
         (matching_windows H geometry surface ws))"

definition observe_surface :: "a11y \<Rightarrow> limits \<Rightarrow> string \<Rightarrow> semantic_observation probing" where
  "observe_surface A u surface =
     (if \<not> semantic_hash surface then ret (Inl (InvalidRequest ''invalid surface reference''))
      else
      try_bind (check_limits u) (\<lambda>_.
      try_bind (display_geometry_hash A) (\<lambda>geometry.
      try_bind (windows_of A u) (\<lambda>windows.
      try_bind (ret (matching_windows (hasher A) geometry surface windows)) (\<lambda>found.
      case found of
        [] \<Rightarrow> ret (Inl (TargetNotFound ''surface not found''))
      | [w] \<Rightarrow> snapshot_window A u w geometry
      | _ \<Rightarrow> stale_target ''surface is ambiguous'')))))"

section \<open>The focus\<close>

definition unavailable_desktop :: "('s, protocol_error + 'a) state" where
  "unavailable_desktop = ret (Inl desktop_state_unavailable)"

function find_focused :: "a11y \<Rightarrow> limits \<Rightarrow> object_owner \<Rightarrow> (stored_object \<times> nat) list \<Rightarrow> string list
    \<Rightarrow> stored_object option \<Rightarrow> stored_object probing" where
  "find_focused A u owner [] seen focused =
     (case focused of None \<Rightarrow> unavailable_desktop | Some ob \<Rightarrow> ret (Inr ob))"
| "find_focused A u owner ((ob, depth) # queue) seen focused =
     try_bind (check_limits u) (\<lambda>_.
     try_bind (ret (object_id (grammar A) ob)) (\<lambda>backend_id.
     if backend_id \<in> set seen \<or> max_focus_elements < length (backend_id # seen) then unavailable_desktop
     else
     try_bind (validate_object_owner A u owner ob) (\<lambda>_.
     try_bind (node_states A u ob) (\<lambda>states.
     if focused_state states \<and> focused \<noteq> None then unavailable_desktop
     else
     try_bind (read_children A u ob) (\<lambda>children.
     if depth = max_depth \<and> children \<noteq> []
        \<or> max_focus_elements - (length (backend_id # seen) + length queue) < length children
     then unavailable_desktop
     else
     try_bind (bind_children A u owner desktop_state_unavailable ob children) (\<lambda>found.
     find_focused A u owner (queue @ map (\<lambda>child. (child, Suc depth)) found) (backend_id # seen)
       (if focused_state states then Some ob else focused)))))))"
  by pat_completeness auto

termination find_focused
  by (relation "measure (\<lambda>(A, u, owner, queue, seen, focused). Suc max_focus_elements - length seen)") auto

definition focused_descendant :: "a11y \<Rightarrow> limits \<Rightarrow> stored_object \<Rightarrow> u32 \<Rightarrow> string \<Rightarrow> stored_object probing" where
  "focused_descendant A u window process_id generation =
     find_focused A u \<lparr>ow_bus_name = ob_bus_name window, ow_process_id = process_id,
       ow_generation = generation\<rparr> [(window, 0)] [] None"

text \<open>The children of an application that are active windows; at most one may be.\<close>

fun active_children :: "a11y \<Rightarrow> limits \<Rightarrow> object_owner \<Rightarrow> stored_object \<Rightarrow> object_ref list
    \<Rightarrow> stored_object option \<Rightarrow> stored_object option probing" where
  "active_children A u owner application [] active = ret (Inr active)"
| "active_children A u owner application (r # rs) active =
     (if is_null r then active_children A u owner application rs active
      else
      try_bind (ret (object_from_ref (grammar A) r)) (\<lambda>window.
      try_bind (validate_child_binding A u owner application window) (\<lambda>_.
      try_bind (provider_call_after u (build_proxy A window) (\<lambda>t. aw_role A t window)) (\<lambda>role.
      try_bind (node_states A u window) (\<lambda>states.
      if \<not> active_window_state states then active_children A u owner application rs active
      else if \<not> window_role role \<or> active \<noteq> None then unavailable_desktop
      else active_children A u owner application rs (Some window))))))"

fun active_in_applications :: "a11y \<Rightarrow> limits \<Rightarrow> desktop_sentinel \<Rightarrow> object_ref list \<Rightarrow> stored_object option
    \<Rightarrow> stored_object probing" where
  "active_in_applications A u x11 [] active =
     (case active of None \<Rightarrow> unavailable_desktop | Some window \<Rightarrow> ret (Inr window))"
| "active_in_applications A u x11 (r # rs) active =
     try_bind (check_limits u) (\<lambda>_.
     if is_null r then active_in_applications A u x11 rs active
     else
     try_bind (ret (object_from_ref (grammar A) r)) (\<lambda>application.
     try_bind (process_id_of A u application) (\<lambda>process_id.
     if process_id \<noteq> ds_foreground_process_id x11 then active_in_applications A u x11 rs active
     else
     try_bind (build_proxy A application) (\<lambda>_.
     try_bind (provider_call u (\<lambda>t. aw_children A t application)) (\<lambda>windows.
     if max_windows_per_application < length windows then unavailable_desktop
     else
     try_bind (active_children A u \<lparr>ow_bus_name = ob_bus_name application,
         ow_process_id = ds_foreground_process_id x11,
         ow_generation = ds_foreground_process_generation x11\<rparr> application windows active) (\<lambda>active'.
     active_in_applications A u x11 rs active'))))))"

text \<open>The last look at the window and the focused object, in the order of the conditions.\<close>

definition confirm_focus :: "a11y \<Rightarrow> limits \<Rightarrow> desktop_sentinel \<Rightarrow> stored_object \<Rightarrow> stored_object \<Rightarrow> u32
    \<Rightarrow> string \<Rightarrow> u32 \<Rightarrow> unit probing" where
  "confirm_focus A u x11 window focused process_id generation role =
     try_bind (generation_at A (ds_foreground_process_id x11)) (\<lambda>foreground.
     if foreground \<noteq> ds_foreground_process_generation x11 then unavailable_desktop
     else
     try_bind (process_id_of A u window) (\<lambda>window_process_id.
     if window_process_id \<noteq> ds_foreground_process_id x11 then unavailable_desktop
     else
     try_bind (generation_at A process_id) (\<lambda>later.
     if later \<noteq> generation \<or> \<not> window_role role then unavailable_desktop
     else
     try_bind (node_states A u window) (\<lambda>window_states.
     if \<not> active_window_state window_states then unavailable_desktop
     else
     try_bind (node_states A u focused) (\<lambda>focused_states.
     if \<not> focused_state focused_states then unavailable_desktop else nothing)))))"

definition accessibility_focus :: "a11y \<Rightarrow> limits \<Rightarrow> desktop_sentinel \<Rightarrow> focus_sentinel probing" where
  "accessibility_focus A u x11 =
     try_bind (generation_at A (ds_foreground_process_id x11)) (\<lambda>foreground.
     if foreground \<noteq> ds_foreground_process_generation x11 then unavailable_desktop
     else
     try_bind (read_registry A u) (\<lambda>applications.
     if max_applications < length applications then unavailable_desktop
     else
     try_bind (active_in_applications A u x11 applications None) (\<lambda>window.
     try_bind (focused_descendant A u window (ds_foreground_process_id x11)
         (ds_foreground_process_generation x11)) (\<lambda>focused.
     try_bind (process_id_of A u focused) (\<lambda>process_id.
     try_bind (generation_at A process_id) (\<lambda>generation.
     try_bind (provider_call_after u (build_proxy A window) (\<lambda>t. aw_role A t window)) (\<lambda>role.
     try_bind (confirm_focus A u x11 window focused process_id generation role) (\<lambda>_.
     ret (Inr \<lparr>fs_window = window, fs_focused = focused, fs_process_id = process_id,
       fs_process_generation = generation\<rparr>)))))))))"

text \<open>The focus and the desktop are still what they were.\<close>

definition unchanged_focus :: "a11y \<Rightarrow> limits \<Rightarrow> desktop_sentinel \<Rightarrow> focus_sentinel \<Rightarrow> unit probing" where
  "unchanged_focus A u x11 focus =
     try_bind (accessibility_focus A u x11) (\<lambda>later.
     if later \<noteq> focus then unavailable_desktop
     else
     try_bind (desktop_sentinel_of A) (\<lambda>desktop.
     if desktop \<noteq> x11 then unavailable_desktop else nothing))"

definition desktop_context_hash :: "a11y \<Rightarrow> string probing" where
  "desktop_context_hash A =
     try_bind (desktop_sentinel_of A) (\<lambda>x11. do {
     now \<leftarrow> now_ms;
     let u = \<lparr>lm_watched = False, lm_deadline = sat_add_i64 now focus_sentinel_timeout_ms\<rparr>;
     try_bind (accessibility_focus A u x11) (\<lambda>focus.
     try_bind (unchanged_focus A u x11 focus) (\<lambda>_.
     ret (Inr (semantic_fingerprint (hasher A) (JObj [(''x11'', desktop_sentinel_json x11),
       (''accessibility'', focus_sentinel_json focus)])))))
     })"

text \<open>The stored snapshot that was made last.\<close>

definition latest_snapshot :: "stored_snapshot probing" where
  "latest_snapshot = do {
     poisoned \<leftarrow> get_exec al_latest_poisoned;
     latest \<leftarrow> get_exec al_latest;
     ret (if poisoned then Inl desktop_state_unavailable
          else case latest of None \<Rightarrow> Inl desktop_state_unavailable | Some s \<Rightarrow> Inr s)
   }"

definition target_in :: "hashing \<Rightarrow> semantic_observation \<Rightarrow> semantic_element \<Rightarrow> semantic_target_ref" where
  "target_in H obs e = \<lparr>t_observation_id = so_observation_id obs, t_generation = so_generation obs,
     t_provenance_hash = provenance_hash H obs, t_element_id = se_element_id e,
     t_fingerprint_hash = se_fingerprint_hash e\<rparr>"

definition focused_window :: "focus_sentinel \<Rightarrow> surface_window list \<Rightarrow> protocol_error + surface_window" where
  "focused_window focus windows = (case filter (\<lambda>w. sw_object w = fs_window focus) windows of
       [w] \<Rightarrow> if sw_process_id w = fs_process_id focus \<and> sw_process_generation w = fs_process_generation focus
              then Inr w else Inl desktop_state_unavailable
     | _ \<Rightarrow> Inl desktop_state_unavailable)"

definition focused_target_of :: "a11y \<Rightarrow> limits \<Rightarrow> semantic_target_ref probing" where
  "focused_target_of A u =
     try_bind (check_limits u) (\<lambda>_.
     try_bind (desktop_sentinel_of A) (\<lambda>x11.
     try_bind (accessibility_focus A u x11) (\<lambda>focus.
     try_bind (display_geometry_hash A) (\<lambda>geometry.
     try_bind (windows_of A u) (\<lambda>windows.
     try_bind (ret (focused_window focus windows)) (\<lambda>w.
     try_bind (snapshot_window A u w geometry) (\<lambda>obs.
     try_bind latest_snapshot (\<lambda>stored.
     try_bind (ret (focused_element_id (grammar A) (hasher A) stored (fs_focused focus))) (\<lambda>element_id.
     case find (\<lambda>e. se_element_id e = element_id) (so_elements obs) of
       None \<Rightarrow> unavailable_desktop
     | Some e \<Rightarrow>
         let target = target_in (hasher A) obs e in
         try_bind (unchanged_focus A u x11 focus) (\<lambda>_.
         try_bind (validate_at_now (\<lambda>t. from_semantic (resolve_target (hasher A) obs target t))) (\<lambda>_.
         ret (Inr target))))))))))))"

section \<open>A stored target\<close>

definition snapshot_for :: "a11y \<Rightarrow> string \<Rightarrow> stored_snapshot probing" where
  "snapshot_for A observation_id = do {
     poisoned \<leftarrow> get_exec al_latest_poisoned;
     latest \<leftarrow> get_exec al_latest;
     if poisoned then ret (Inl state_unavailable)
     else case latest of
       None \<Rightarrow> load_snapshot A observation_id
     | Some s \<Rightarrow> if so_observation_id (sp_observation s) = observation_id then ret (Inr s)
         else load_snapshot A observation_id
   }"

definition stored_target_for :: "bus_grammar \<Rightarrow> stored_snapshot \<Rightarrow> string \<Rightarrow> protocol_error + stored_target" where
  "stored_target_for G s element_id = (case filter (\<lambda>(key, _). key = element_id) (sp_targets s) of
       [] \<Rightarrow> Inl (StaleTarget ''semantic target changed'')
     | [(_, target)] \<Rightarrow> and_then (validate_target G target) (Inr target)
     | _ \<Rightarrow> Inl (StaleTarget ''semantic target is ambiguous''))"

definition validate_process_and_window :: "a11y \<Rightarrow> limits \<Rightarrow> stored_snapshot \<Rightarrow> unit probing" where
  "validate_process_and_window A u s =
     try_bind (check_limits u) (\<lambda>_.
     try_bind (process_id_of A u (sp_window s)) (\<lambda>process_id.
     if process_id \<noteq> sp_process_id s then stale_target ''target process changed''
     else
     try_bind (generation_at A process_id) (\<lambda>generation.
     if generation \<noteq> sp_process_generation s then stale_target ''target process changed''
     else
     try_bind (node_states A u (sp_window s)) (\<lambda>states.
     if \<not> shown_state states then target_window_changed
     else
     try_bind (surface_identity_of A u (sp_window s) states) (\<lambda>identity.
     if surface_fingerprint (hasher A) identity \<noteq> sp_window_fingerprint_hash s
     then target_window_changed else nothing)))))"

text \<open>Two samples that agree with each other and with the stored element.\<close>

definition live_sample :: "a11y \<Rightarrow> limits \<Rightarrow> bool \<Rightarrow> semantic_element \<Rightarrow> stored_target \<Rightarrow> node_sample probing" where
  "live_sample A u include_value expected target =
     try_bind (sample A u (st_object target) include_value) (\<lambda>first.
     try_bind (check_limits u) (\<lambda>_.
     try_bind (sample A u (st_object target) include_value) (\<lambda>second.
     if \<not> same_sample first second
        \<or> node_fingerprint (hasher A) (ns_identity second) \<noteq> se_fingerprint_hash expected
        \<or> ns_invoke_action second \<noteq> st_invoke_action target
     then ret (Inl semantic_changed)
     else ret (Inr (second\<lparr>ns_actionability := (ns_actionability second)\<lparr>stable := True\<rparr>\<rparr>)))))"

definition resolve_live :: "a11y \<Rightarrow> limits \<Rightarrow> semantic_target_ref \<Rightarrow> bool
    \<Rightarrow> (stored_snapshot \<times> stored_object \<times> node_sample) probing" where
  "resolve_live A u target include_value =
     try_bind (check_limits u) (\<lambda>_.
     try_bind (snapshot_for A (t_observation_id target)) (\<lambda>stored.
     try_bind (check_limits u) (\<lambda>_.
     try_bind (same_display_geometry A (pv_display_geometry_hash (so_provenance (sp_observation stored)))) (\<lambda>_.
     try_bind (validate_at_now (validate_snapshot (grammar A) (hasher A) stored)) (\<lambda>_.
     if so_observation_id (sp_observation stored) \<noteq> t_observation_id target
     then stale_target ''semantic observation changed''
     else
     try_bind (validate_at_now (\<lambda>t. from_semantic (resolve_target (hasher A) (sp_observation stored) target t)))
       (\<lambda>expected.
     try_bind (ret (stored_target_for (grammar A) stored (t_element_id target))) (\<lambda>st.
     try_bind (validate_process_and_window A u stored) (\<lambda>_.
     try_bind (validate_live_descendant A u (sp_window stored) (sp_process_id stored)
         (sp_process_generation stored) (st_object st)) (\<lambda>_.
     try_bind (live_sample A u include_value expected st) (\<lambda>s.
     ret (Inr (stored, st_object st, s))))))))))))"

definition observe_target :: "a11y \<Rightarrow> limits \<Rightarrow> semantic_target_ref \<Rightarrow> observation probing" where
  "observe_target A u target =
     try_bind (check_limits u) (\<lambda>_.
     try_bind (resolve_live A u target True) (\<lambda>(stored, ob, s). do {
     let fingerprint = node_fingerprint (hasher A) (ns_identity s);
     sampled \<leftarrow> now_ms;
     observed \<leftarrow> now_ms;
     ret (Inr \<lparr>o_evidence = \<lparr>
         e_observation_hash = semantic_fingerprint (hasher A) (JArr [JStr (t_observation_id target),
           jword (t_generation target), JStr fingerprint, JInt sampled]),
         e_target_fingerprint_hash = Some fingerprint,
         e_display_geometry_hash = pv_display_geometry_hash (so_provenance (sp_observation stored)),
         e_observed_at_ms = observed\<rparr>, o_element = None,
       o_state = observation_state (ns_actionability s) (ns_value_hash s)\<rparr>)
     }))"

section \<open>Effects\<close>

type_synonym 'a acting = "(a11y_state host, dispatch_error + 'a) state"

definition denied :: "failure_code \<Rightarrow> string \<Rightarrow> dispatch_error" where
  "denied code message = \<lparr>de_message = message, de_effect = NoEffect, de_code = code\<rparr>"

definition unknown_after_dispatch :: dispatch_error where
  "unknown_after_dispatch = \<lparr>de_message = ''accessibility outcome is unknown'',
     de_effect = EffectUnknown, de_code = DispatchFailed\<rparr>"

definition check_dispatch_boundary :: "limits \<Rightarrow> unit acting" where
  "check_dispatch_boundary u = do {
     r \<leftarrow> check_limits u;
     ret (case r of
         Inr _ \<Rightarrow> Inr ()
       | Inl e \<Rightarrow> Inl (interrupted (if e = ObservationCancelled then CancelledBefore else ExpiredBefore)))
   }"

definition before_effect_error :: "effect_knowledge \<Rightarrow> dispatch_error" where
  "before_effect_error eff = \<lparr>de_message = (case eff of
       CancelledBefore \<Rightarrow> ''cancelled before effect''
     | ExpiredBefore \<Rightarrow> ''expired before effect''
     | _ \<Rightarrow> ''semantic target changed''), de_effect = eff, de_code = StaleTargetCode\<rparr>"

text \<open>\<open>map_err(protocol_before_effect)\<close>: the limits say why the look failed.\<close>

definition before_effect :: "limits \<Rightarrow> 'a probing \<Rightarrow> 'a acting" where
  "before_effect u m = do {
     r \<leftarrow> m;
     case r of
       Inr x \<Rightarrow> ret (Inr x)
     | Inl _ \<Rightarrow> do {
         limit \<leftarrow> check_limits u;
         ret (Inl (before_effect_error (case limit of
             Inr _ \<Rightarrow> NoEffect
           | Inl e \<Rightarrow> if e = ObservationCancelled then CancelledBefore else ExpiredBefore)))
       }
   }"

definition check_after_dispatch :: "limits \<Rightarrow> unit acting" where
  "check_after_dispatch u = do {
     r \<leftarrow> check_limits u;
     ret (case r of Inr _ \<Rightarrow> Inr () | Inl _ \<Rightarrow> Inl unknown_after_dispatch)
   }"

definition atspi_receipt :: dispatch_receipt where
  "atspi_receipt = \<lparr>dr_backend = atspi_backend_name, dr_fallback_chain = []\<rparr>"

text \<open>The request of an effect, and what its answer is worth.\<close>

definition perform :: "limits \<Rightarrow> a11y_effect \<Rightarrow> (nat \<Rightarrow> bool option) \<Rightarrow> dispatch_receipt acting" where
  "perform u e answer = do {
     update_exec (al_effects_update (\<lambda>l. l @ [e]));
     done \<leftarrow> ask answer;
     if done \<noteq> Some True then ret (Inl unknown_after_dispatch)
     else try_bind (check_after_dispatch u) (\<lambda>_. ret (Inr atspi_receipt))
   }"

definition object_proxy :: "a11y \<Rightarrow> stored_object \<Rightarrow> unit acting" where
  "object_proxy A ob = do {
     r \<leftarrow> build_proxy A ob;
     ret (map_sum (\<lambda>_. denied StaleTargetCode ''semantic target changed'') id r)
   }"

definition semantic_invoke :: "a11y \<Rightarrow> limits \<Rightarrow> semantic_target_ref \<Rightarrow> dispatch_receipt acting" where
  "semantic_invoke A u target =
     try_bind (before_effect u (resolve_live A u target False)) (\<lambda>(stored, ob, s).
     if \<not> (actionable_base (ns_actionability s) \<and> invokable (ns_actionability s))
     then ret (Inl (denied StaleTargetCode ''semantic target is not actionable''))
     else
     try_bind (check_dispatch_boundary u) (\<lambda>_.
     try_bind (object_proxy A ob) (\<lambda>_.
     case ns_invoke_action s of
       None \<Rightarrow> ret (Inl (denied StaleTargetCode ''semantic action is ambiguous''))
     | Some expected \<Rightarrow>
         try_bind (before_effect u (action_names A u ob)) (\<lambda>live_actions.
         if live_actions \<noteq> nd_actions (ns_identity s) \<or> select_invoke_action live_actions \<noteq> Some expected
         then ret (Inl (denied StaleTargetCode ''semantic action changed''))
         else
         try_bind (before_effect u (validate_live_descendant A u (sp_window stored) (sp_process_id stored)
             (sp_process_generation stored) ob)) (\<lambda>_.
         try_bind (before_effect u (action_names A u ob)) (\<lambda>again.
         if again \<noteq> live_actions then ret (Inl (denied StaleTargetCode ''semantic action changed''))
         else
         try_bind (check_dispatch_boundary u) (\<lambda>_.
         perform u (DoAction ob (ia_index expected)) (\<lambda>t. aw_do_action A t ob (ia_index expected)))))))))"

definition semantic_set_value :: "a11y \<Rightarrow> limits \<Rightarrow> semantic_target_ref \<Rightarrow> string \<Rightarrow> dispatch_receipt acting" where
  "semantic_set_value A u target value =
     (if 16 * 1024 < length value \<or> nul \<in> set value
      then ret (Inl (denied InvalidRequestCode ''value is invalid''))
      else
      try_bind (before_effect u (resolve_live A u target True)) (\<lambda>(stored, ob, s).
      if \<not> (actionable_base (ns_actionability s) \<and> editable (ns_actionability s)) \<or> ns_value_hash s = None
      then ret (Inl (denied StaleTargetCode ''semantic target is not editable''))
      else
      try_bind (check_dispatch_boundary u) (\<lambda>_.
      try_bind (object_proxy A ob) (\<lambda>_.
      try_bind (before_effect u (validate_live_descendant A u (sp_window stored) (sp_process_id stored)
          (sp_process_generation stored) ob)) (\<lambda>_.
      try_bind (check_dispatch_boundary u) (\<lambda>_.
      perform u (SetTextContents ob value) (\<lambda>t. aw_set_text A t ob value)))))))"

section \<open>The methods that the executor calls\<close>

definition watched_until :: "i64 \<Rightarrow> limits" where
  "watched_until deadline = \<lparr>lm_watched = True, lm_deadline = deadline\<rparr>"

definition atspi_backend :: "a11y \<Rightarrow> (nat \<Rightarrow> files) \<Rightarrow> a11y_state atspi" where
  "atspi_backend A stored = \<lparr>at_connect = connect_atspi A stored,
     at_display_geometry_hash = display_geometry_hash A,
     at_focused_target = (\<lambda>deadline. focused_target_of A (watched_until deadline)),
     at_observe_target = (\<lambda>target deadline. observe_target A (watched_until deadline) target),
     at_invoke = (\<lambda>target deadline. semantic_invoke A (watched_until deadline) target),
     at_set_value = (\<lambda>target value deadline. semantic_set_value A (watched_until deadline) target value),
     at_context_hash = desktop_context_hash A\<rparr>"

end
