(* ===== verification/Acting.thy ===== *)
theory Acting
  imports ExecutorContract GlobalInput
begin

text \<open>
  Reasoning about backends that look many times and act once.  \<open>looking m\<close>: \<open>m\<close> only looks, the
  state stays as it is.  \<open>acted E r l\<close>: the effects \<open>l\<close> of a dispatch with result \<open>r\<close> are at most
  one, which satisfies \<open>E\<close>, and the result is honest about it.
\<close>

section \<open>Looking\<close>

definition looking :: "('x host, 'a) state \<Rightarrow> bool" where
  "looking m \<longleftrightarrow> (\<forall>h. h_exec (snd (run_state m h)) = h_exec h)"

named_theorems looking_rules \<open>computations that only look\<close>

lemma lookingD: "looking m \<Longrightarrow> run_state m h = (r, h') \<Longrightarrow> h_exec h' = h_exec h"
  unfolding looking_def by (metis snd_conv)

lemma looking_return [looking_rules]: "looking (ret x)"
  by (simp add: looking_def)

lemma looking_bind [looking_rules]: "looking m \<Longrightarrow> (\<And>x. looking (f x)) \<Longrightarrow> looking (State_Monad.bind m f)"
  unfolding looking_def by (simp split: prod.splits) (metis snd_conv)

lemma looking_if [looking_rules]: "(c \<Longrightarrow> looking m) \<Longrightarrow> (\<not> c \<Longrightarrow> looking n) \<Longrightarrow> looking (if c then m else n)"
  by simp

lemma looking_case_sum [looking_rules]:
  "(\<And>e. looking (f e)) \<Longrightarrow> (\<And>x. looking (g x)) \<Longrightarrow> looking (case r of Inl e \<Rightarrow> f e | Inr x \<Rightarrow> g x)"
  by (cases r) simp_all

lemma looking_case_option [looking_rules]:
  "looking m \<Longrightarrow> (\<And>x. looking (f x)) \<Longrightarrow> looking (case r of None \<Rightarrow> m | Some x \<Rightarrow> f x)"
  by (cases r) simp_all

lemma looking_case_list [looking_rules]:
  "looking m \<Longrightarrow> (\<And>x xs. looking (f x xs)) \<Longrightarrow> looking (case r of [] \<Rightarrow> m | x # xs \<Rightarrow> f x xs)"
  by (cases r) simp_all

lemma looking_case_prod [looking_rules]: "(\<And>a b. looking (f a b)) \<Longrightarrow> looking (case p of (a, b) \<Rightarrow> f a b)"
  by (cases p) simp

lemma looking_try [looking_rules]: "looking m \<Longrightarrow> (\<And>x. looking (f x)) \<Longrightarrow> looking (try_bind m f)"
  unfolding try_bind_def by (intro looking_rules)

lemma looking_primitives [looking_rules]:
  "looking now_ms" "looking is_cancelled" "looking next_io" "looking (ask f)" "looking (get_exec g)"
  "looking (boundary_reached d)" "looking (check_protocol_boundary d)" "looking host_io"
  by (simp_all add: looking_def now_ms_def is_cancelled_def next_io_def ask_def get_exec_def boundary_reached_def
      check_protocol_boundary_def host_io_def)

lemma looking_effectless: "looking m \<Longrightarrow> effectless effects m"
  by (rule grows_unchanged) (simp add: looking_def host_effects_def)

text \<open>What a looking computation yields, and that it had no effect.\<close>

lemma looking_result:
  assumes "looking m" and "\<And>h x h'. run_state m h = (Inr x, h') \<Longrightarrow> P x"
  shows "grows (host_effects effects) (\<lambda>r l. l = [] \<and> (\<forall>x. r = Inr x \<longrightarrow> P x)) m"
  unfolding grows_def host_effects_def using assms(2) lookingD [OF assms(1)] by fastforce

text \<open>Both parts of a successful \<open>try_bind\<close>.\<close>

lemma try_InrE:
  assumes "run_state (try_bind m f) h = (Inr y, h')"
  obtains x t where "run_state m h = (Inr x, t)" "run_state (f x) t = (Inr y, h')"
  using assms by (auto split: prod.splits sum.splits)

lemma bind_runE:
  assumes "run_state (State_Monad.bind m f) h = (y, h')"
  obtains x t where "run_state m h = (x, t)" "run_state (f x) t = (y, h')"
  using assms by (auto split: prod.splits)

section \<open>Acting\<close>

definition acted :: "('e \<Rightarrow> bool) \<Rightarrow> dispatch_error + 'a \<Rightarrow> 'e list \<Rightarrow> bool" where
  "acted E r l \<longleftrightarrow> (case r of
       Inl e \<Rightarrow> l = [] \<or> de_effect e = EffectUnknown \<and> (\<exists>a. l = [a] \<and> E a)
     | Inr _ \<Rightarrow> \<exists>a. l = [a] \<and> E a)"

abbreviation acting_on :: "('x \<Rightarrow> 'e list) \<Rightarrow> ('e \<Rightarrow> bool) \<Rightarrow> ('x host, dispatch_error + 'a) state \<Rightarrow> bool" where
  "acting_on effects E \<equiv> grows (host_effects effects) (acted E)"

named_theorems acting_rules \<open>dispatches that act at most once\<close>

lemma acted_refuse [acting_rules]: "acting_on effects E (ret (Inl e))"
  by (rule grows_return) (simp add: acted_def)

lemmas [acting_rules] = grows_if [where P = "acted E" for E] grows_case_option [where P = "acted E" for E]

lemma acted_after:
  assumes "looking m" and "\<And>x h h'. run_state m h = (Inr x, h') \<Longrightarrow> acting_on effects E (f x)"
  shows "acting_on effects E (try_bind m f)"
proof (rule grows_try [OF looking_result [OF assms(1), where P = "\<lambda>x. acting_on effects E (f x)"]])
  show "run_state m h = (Inr x, h') \<Longrightarrow> acting_on effects E (f x)" for h x h' by (rule assms(2))
qed (simp_all add: acted_def [of _ "Inl _"])

lemma acted_bind:
  assumes "looking m" and "\<And>x. acting_on effects E (f x)"
  shows "acting_on effects E (State_Monad.bind m f)"
  by (rule grows_bind [OF looking_effectless [OF assms(1)]]) (simp add: assms(2))

text \<open>The call of the effect, and what may only follow it: it knows no more than that.\<close>

lemma acted_call:
  assumes "grows (host_effects effects) (\<lambda>r l. l = [e] \<and> (\<forall>x. r = Inl x \<longrightarrow> de_effect x = EffectUnknown)) m" and "E e"
    and "looking n" and "\<And>h x h'. run_state n h = (Inl x, h') \<Longrightarrow> de_effect x = EffectUnknown"
  shows "acting_on effects E (try_bind m (\<lambda>_. n))"
proof (rule grows_try [OF assms(1)])
  have "grows (host_effects effects) (\<lambda>r l. l = [] \<and> (\<forall>x. r = Inl x \<longrightarrow> de_effect x = EffectUnknown)) n"
    unfolding grows_def host_effects_def using assms(4) lookingD [OF assms(3)] by fastforce
  then show "l = [e] \<and> (\<forall>x. Inr y = Inl x \<longrightarrow> de_effect x = EffectUnknown)
      \<Longrightarrow> grows (host_effects effects) (\<lambda>r l'. acted E r (l @ l')) n" for y l
    by (rule grows_mono) (auto simp: acted_def assms(2) split: sum.split)
qed (simp add: acted_def assms(2))

lemma acted_denies: "acted E r l \<Longrightarrow> disclaimed r \<Longrightarrow> l = []"
  by (auto simp: acted_def disclaimed_def split: sum.splits)

end
