(* ===== verification/AtspiFacts.thy ===== *)
theory AtspiFacts
  imports AtspiBackend NativeFacts Acting
begin

text \<open>
  What the accessibility backend does to the applications.  \<open>harmless m\<close>: it requests no effect;
  \<open>reading m\<close>: moreover the number of snapshots and the latest one stay as they are.  Everything
  but the last step of the two dispatches is harmless, and everything but a snapshot is a reading.
\<close>

section \<open>Reading is harmless\<close>

definition requested :: "a11y_state host \<Rightarrow> a11y_effect list" where
  "requested h = al_effects (h_exec h)"

abbreviation harmless :: "(a11y_state host, 'a) state \<Rightarrow> bool" where
  "harmless \<equiv> grows requested (\<lambda>_ l. l = [])"

text \<open>What only reads the state: the effects, the number of snapshots and the latest one stay.\<close>

definition reading :: "(a11y_state host, 'a) state \<Rightarrow> bool" where
  "reading m \<longleftrightarrow> (\<forall>h r h'. run_state m h = (r, h') \<longrightarrow>
     requested h' = requested h \<and> al_generation (h_exec h') = al_generation (h_exec h)
     \<and> al_latest (h_exec h') = al_latest (h_exec h))"

named_theorems reading_rules \<open>computations that only read\<close>

lemma reading_harmless: "reading m \<Longrightarrow> harmless m"
  by (simp add: reading_def grows_def)

lemma readingD: "reading m \<Longrightarrow> run_state m h = (r, h') \<Longrightarrow> requested h' = requested h
    \<and> al_generation (h_exec h') = al_generation (h_exec h) \<and> al_latest (h_exec h') = al_latest (h_exec h)"
  unfolding reading_def by blast

lemma reading_return [reading_rules]: "reading (ret x)"
  by (simp add: reading_def)

lemma reading_bind [reading_rules]: "reading m \<Longrightarrow> (\<And>x. reading (f x)) \<Longrightarrow> reading (State_Monad.bind m f)"
  unfolding reading_def by (simp split: prod.splits)

lemma reading_case_sum [reading_rules]:
  "(\<And>e. reading (f e)) \<Longrightarrow> (\<And>x. reading (g x)) \<Longrightarrow> reading (case r of Inl e \<Rightarrow> f e | Inr x \<Rightarrow> g x)"
  by (cases r) simp_all

lemma reading_case_option [reading_rules]:
  "reading m \<Longrightarrow> (\<And>x. reading (f x)) \<Longrightarrow> reading (case r of None \<Rightarrow> m | Some x \<Rightarrow> f x)"
  by (cases r) simp_all

lemma reading_case_list [reading_rules]:
  "reading m \<Longrightarrow> (\<And>x xs. reading (f x xs)) \<Longrightarrow> reading (case r of [] \<Rightarrow> m | x # xs \<Rightarrow> f x xs)"
  by (cases r) simp_all

lemma reading_case_prod [reading_rules]: "(\<And>a b. reading (f a b)) \<Longrightarrow> reading (case p of (a, b) \<Rightarrow> f a b)"
  by (cases p) simp

lemma reading_if [reading_rules]:
  "(c \<Longrightarrow> reading m) \<Longrightarrow> (\<not> c \<Longrightarrow> reading n) \<Longrightarrow> reading (if c then m else n)"
  by simp

lemma reading_try [reading_rules]: "reading m \<Longrightarrow> (\<And>x. reading (f x)) \<Longrightarrow> reading (try_bind m f)"
  unfolding try_bind_def by (intro reading_rules)

lemma reading_primitives [reading_rules]:
  "reading now_ms" "reading is_cancelled" "reading (ask f)" "reading (get_exec g)" "reading host_io" "reading next_io"
  "reading (update_exec (al_worker_update k))"
  by (auto simp: reading_def now_ms_def is_cancelled_def read_oracle_def ask_def get_exec_def host_io_def
      next_io_def update_exec_def requested_def split: io_result.splits)

lemma reading_on_private_files [reading_rules]: "reading (on_private_files m)"
  by (auto simp: reading_def on_private_files_def on_part_def requested_def split: prod.splits)

lemma reading_calls [reading_rules]:
  "reading (check_limits u)" "reading nothing" "reading (stale_target message)"
  "reading (build_proxy A ob)" "reading (build_root A)"
  unfolding check_limits_def nothing_def stale_target_def build_proxy_def build_root_def
  by (intro reading_rules)+

lemma reading_provider_call [reading_rules]:
  "reading prepare \<Longrightarrow> reading (provider_call_after u prepare q)" "reading (provider_call u q')"
  unfolding provider_call_def provider_call_after_def by (intro reading_rules, assumption)+ (intro reading_rules)

lemma reading_lookups [reading_rules]:
  "reading (node_states A u ob)" "reading (process_id_of A u ob)" "reading (generation_at A pid)"
  unfolding node_states_def process_id_of_def generation_at_def process_generation_def
  by (intro reading_rules)+

section \<open>The X server\<close>

lemma reading_asking [reading_rules]:
  "reading (require c :: (a11y_state, unit) asking)" "reading (some_or_fail v :: (a11y_state, 'a) asking)"
  "reading (reply f :: (a11y_state, 'b) asking)" "reading (generation_of H W pid :: (a11y_state, string) asking)"
  unfolding require_def some_or_fail_def reply_def generation_of_def process_generation_def
  by (intro reading_rules)+

lemma reading_server [reading_rules]:
  "reading (trusted_x11_server W pid uid exe)" "reading (validate_server H W c)" "reading (open_x11 H W)"
  "reading (root_of c)"
  unfolding trusted_x11_server_def validate_server_def open_x11_def root_of_def Let_def
  by (intro reading_rules)+

lemma reading_active_displays [reading_rules]:
  "reading (active_displays W stamp crtcs :: (a11y_state, x11_display list) asking)"
  by (induction crtcs) (simp_all, (intro reading_rules | assumption)+)

lemma reading_below_window [reading_rules]:
  "reading (below_window W r w n current :: (a11y_state, unit) asking)"
  by (induction n arbitrary: current) (simp_all only: below_window.simps, (intro reading_rules | assumption)+)

lemma reading_desktop [reading_rules]:
  "reading (x11_topology_hash H W c)" "reading (x11_keyboard_focus W r w)" "reading (single_property W w p k)"
  "reading (atom_named W name)"
  unfolding x11_topology_hash_def x11_keyboard_focus_def single_property_def atom_named_def Let_def
  by (intro reading_rules)+

lemma reading_sentinel [reading_rules]: "reading (x11_desktop_sentinel H W c)"
  unfolding x11_desktop_sentinel_def x11_desktop_sample_def Let_def by (intro reading_rules)

lemma reading_x11_request [reading_rules]: "(\<And>c. reading (action c)) \<Longrightarrow> reading (x11_request A action)"
  unfolding x11_request_def by (intro reading_rules | assumption)+

lemma reading_x11 [reading_rules]:
  "reading (display_geometry_hash A)" "reading (desktop_sentinel_of A)" "reading (same_display_geometry A g)"
  unfolding display_geometry_hash_def desktop_sentinel_of_def or_error_def same_display_geometry_def
  by (intro reading_rules)+

section \<open>Trees and windows\<close>

lemma reading_bindings [reading_rules]:
  "reading (validate_object_owner A u owner ob)" "reading (validate_child_binding A u owner parent ob)"
  unfolding validate_object_owner_def validate_child_binding_def by (intro reading_rules)+

lemma reading_climb [reading_rules]: "reading (climb A u owner surface seen n current)"
  by (induction n arbitrary: seen current) (simp_all only: climb.simps, (intro reading_rules | assumption)+)

lemma reading_read_action_names [reading_rules]: "reading (read_action_names A u ob is)"
  by (induction "is") (simp_all, (intro reading_rules | simp)+)

lemma reading_samples [reading_rules]:
  "reading (validate_live_descendant A u surface pid g ob)" "reading (surface_identity_of A u ob states)"
  "reading (action_names A u ob)" "reading (value_hash_of A u ob)"
  unfolding validate_live_descendant_def surface_identity_of_def action_names_def value_hash_of_def
  by (intro reading_rules)+

lemma reading_sample [reading_rules]: "reading (sample A u ob include_value)"
  unfolding sample_def by (intro reading_rules)

lemma reading_window [reading_rules]: "reading (read_window A u owner application ob)"
  unfolding read_window_def by (intro reading_rules)

lemma reading_read_windows [reading_rules]: "reading (read_windows A u owner application rs found)"
  by (induction rs arbitrary: found) (auto intro!: reading_rules simp: Let_def)

lemma reading_read_applications [reading_rules]: "reading (read_applications A u rs found)"
  by (induction rs arbitrary: found) (auto intro!: reading_rules)

lemma reading_the_active [reading_rules]: "reading (the_active A u ws active)"
  by (induction ws arbitrary: active) (auto intro!: reading_rules)

lemma reading_windows [reading_rules]:
  "reading (read_registry A u)" "reading (windows_of A u)" "reading (active_window A u)"
  "reading (validate_surface_window A u w)" "reading (list_surfaces A u)"
  unfolding read_registry_def windows_of_def active_window_def validate_surface_window_def list_surfaces_def
    target_window_changed_def
  by (intro reading_rules)+

lemma reading_bind_children [reading_rules]: "reading (bind_children A u owner e parent rs)"
  by (induction rs) (auto intro!: reading_rules)

lemma reading_queue_children [reading_rules]: "reading (queue_children A u owner parent rs)"
  by (induction rs) (auto intro!: reading_rules simp del: bind_children.simps)

lemma reading_nodes [reading_rules]:
  "reading (read_node A u w observation_id n ob backend_id parent_id)" "reading (read_children A u ob)"
  unfolding read_node_def read_children_def by (intro reading_rules)+

lemma reading_read_tree [reading_rules]: "reading (read_tree A u w observation_id queue s)"
proof (induction A u w observation_id queue s rule: read_tree.induct)
  case (2 A u w observation_id ob parent_id depth queue s)
  show ?case
    unfolding read_tree.simps Let_def
    by (intro reading_rules "2.IH"; simp)
qed (simp add: reading_return)

lemma reading_find_focused [reading_rules]: "reading (find_focused A u owner queue seen focused)"
proof (induction A u owner queue seen focused rule: find_focused.induct)
  case (2 A u owner ob depth queue seen focused)
  show ?case
    unfolding find_focused.simps unavailable_desktop_def
    by (intro reading_rules "2.IH"; assumption)
qed (auto intro!: reading_rules simp: unavailable_desktop_def split: option.split)

lemma reading_active_children [reading_rules]: "reading (active_children A u owner application rs active)"
  by (induction rs arbitrary: active) (auto intro!: reading_rules simp: unavailable_desktop_def)

lemma reading_active_in_applications [reading_rules]: "reading (active_in_applications A u x11 rs active)"
  by (induction rs arbitrary: active) (auto intro!: reading_rules simp: unavailable_desktop_def split: option.split)

lemma reading_focus [reading_rules]:
  "reading (focused_descendant A u window pid g)" "reading (confirm_focus A u x11 window ob pid g role)"
  unfolding focused_descendant_def confirm_focus_def unavailable_desktop_def by (intro reading_rules)+

lemma reading_accessibility_focus [reading_rules]:
  "reading (accessibility_focus A u x11)" "reading (unchanged_focus A u x11 focus)"
  unfolding accessibility_focus_def unchanged_focus_def unavailable_desktop_def by (intro reading_rules)+

lemma reading_context [reading_rules]: "reading (desktop_context_hash A)"
  unfolding desktop_context_hash_def Let_def by (intro reading_rules)

section \<open>Stored snapshots\<close>

lemma reading_storage [reading_rules]:
  "reading (persist_snapshot A s)" "reading (load_snapshot A observation_id)"
  "reading (snapshot_for A observation_id)" "reading latest_snapshot" "reading (validate_at_now f)"
  unfolding persist_snapshot_def load_snapshot_def snapshot_for_def latest_snapshot_def
    validate_at_now_def
  by (intro reading_rules)+

lemma reading_live [reading_rules]:
  "reading (validate_process_and_window A u s)" "reading (live_sample A u include_value e t)"
  "reading (resolve_live A u target include_value)" "reading (observe_target A u target)"
  unfolding validate_process_and_window_def live_sample_def resolve_live_def observe_target_def
    target_window_changed_def Let_def
  by (intro reading_rules)+

section \<open>Snapshots count\<close>

named_theorems harmless_rules \<open>computations that request no effect\<close>

lemma harmless_bind [harmless_rules]: "harmless m \<Longrightarrow> (\<And>x. harmless (f x)) \<Longrightarrow> harmless (State_Monad.bind m f)"
  by (rule grows_bind, assumption) simp

lemma harmless_try [harmless_rules]: "harmless m \<Longrightarrow> (\<And>x. harmless (f x)) \<Longrightarrow> harmless (try_bind m f)"
  by (rule grows_try, assumption) simp_all

lemma harmless_case_option [harmless_rules]:
  "harmless m \<Longrightarrow> (\<And>x. harmless (f x)) \<Longrightarrow> harmless (case v of None \<Rightarrow> m | Some x \<Rightarrow> f x)"
  by (simp split: option.split)

lemma harmless_counting [harmless_rules]: "harmless next_generation" "harmless (keep_latest s)"
  by (auto simp: grows_def next_generation_def keep_latest_def update_exec_def get_exec_def requested_def)

lemma harmless_snapshot_window [harmless_rules]: "harmless (snapshot_window A u w geometry)"
  unfolding snapshot_window_def Let_def
  by (intro harmless_rules; rule reading_harmless; intro reading_rules)

lemma harmless_focused_target: "harmless (focused_target_of A u)"
  unfolding focused_target_of_def unavailable_desktop_def Let_def
  by (intro harmless_rules; rule reading_harmless; intro reading_rules)

text \<open>A snapshot carries the next number, and so does the focused target.\<close>

text \<open>The parts of a computation that succeeds.\<close>

lemma validate_at_now_Inr:
  "run_state (validate_at_now f) h = (Inr x, h') \<Longrightarrow> \<exists>now. f now = Inr x"
  by (auto simp: validate_at_now_def now_ms_def)

definition number_of :: "a11y_state host \<Rightarrow> u64" where
  "number_of h = al_generation (h_exec h)"

lemma reading_number: "reading m \<Longrightarrow> run_state m h = (r, h') \<Longrightarrow> number_of h' = number_of h"
  unfolding reading_def number_of_def by blast

lemma next_generation_number: "run_state next_generation h = (g, h') \<Longrightarrow> g = number_of h + 1"
  by (auto simp: next_generation_def update_exec_def get_exec_def number_of_def)

lemma snapshot_window_number:
  assumes "run_state (snapshot_window A u w geometry) h = (Inr obs, h')"
  shows "so_generation obs = number_of h + 1"
  using assms unfolding snapshot_window_def Let_def
  by (auto elim!: try_InrE split: prod.splits simp: observation_of_def simp del: run_try_bind read_tree.simps
      dest!: next_generation_number reading_number [OF reading_calls(1)] reading_number [OF reading_x11(3)]
        reading_number [OF reading_windows(4)])

lemma focused_target_number:
  assumes "run_state (focused_target_of A u) h = (Inr t, h')"
  shows "t_generation t = number_of h + 1"
  using assms unfolding focused_target_of_def unavailable_desktop_def Let_def
  by (auto elim!: try_InrE simp: target_in_def snapshot_window_number simp del: run_try_bind split: option.splits
      dest!: reading_number [OF reading_calls(1)] reading_number [OF reading_x11(1)] reading_number [OF reading_x11(2)]
        reading_number [OF reading_windows(2)] reading_number [OF reading_accessibility_focus(1)])

end
