(* ===== verification/AtspiLineage.thy ===== *)
theory AtspiLineage
  imports AtspiFacts
begin

text \<open>
  \<open>validate_live_descendant\<close>: an object that passes has a way up to its surface, every step of
  it answered by the bus, and every object on it belongs to the surface's process.
\<close>

section \<open>The way up to the surface\<close>

definition parent_seen :: "a11y \<Rightarrow> stored_object \<Rightarrow> stored_object \<Rightarrow> bool" where
  "parent_seen A ob upper \<longleftrightarrow>
     (\<exists>t r. aw_parent A t ob = Some r \<and> \<not> is_null r \<and> object_from_ref (grammar A) r = Inr upper)"

definition owned :: "a11y \<Rightarrow> object_owner \<Rightarrow> stored_object \<Rightarrow> bool" where
  "owned A owner ob \<longleftrightarrow> ob_bus_name ob = ow_bus_name owner
     \<and> (\<exists>t. aw_process_id A t (ob_bus_name ob) = Some (ow_process_id owner))"

text \<open>From an object up to the surface, every step one that the bus answered.\<close>

fun lineage :: "a11y \<Rightarrow> object_owner \<Rightarrow> stored_object \<Rightarrow> stored_object list \<Rightarrow> bool" where
  "lineage A owner surface [] = False"
| "lineage A owner surface [ob] = (ob = surface \<and> owned A owner ob)"
| "lineage A owner surface (ob # upper # rest) =
     (owned A owner ob \<and> ob \<noteq> surface \<and> parent_seen A ob upper \<and> lineage A owner surface (upper # rest))"

lemma provider_call_after_Inr:
  "run_state (provider_call_after u prepare q) h = (Inr x, h') \<Longrightarrow> \<exists>t. q t = Some x"
  unfolding provider_call_after_def
  by (auto elim!: try_InrE simp: ask_def answered_def simp del: run_try_bind split: option.splits prod.splits; blast)

lemma validate_object_owner_Inr:
  assumes "run_state (validate_object_owner A u owner ob) h = (Inr x, h')"
  shows "owned A owner ob"
proof -
  obtain pid generation k k' where "run_state (process_id_of A u ob) k = (Inr pid, k')"
    and m: "owner_binding_matches (ow_bus_name owner) (ow_process_id owner) (ow_generation owner) ob pid generation"
    using assms unfolding validate_object_owner_def
    by (auto elim!: try_InrE simp: stale_target_def simp del: run_try_bind split: if_splits)
  then have "\<exists>t. aw_process_id A t (ob_bus_name ob) = Some pid"
    unfolding process_id_of_def provider_call_def
    by (auto elim!: try_InrE simp: ask_def simp del: run_try_bind dest: provider_call_after_Inr)
  with m show ?thesis by (simp add: owned_def owner_binding_matches_def)
qed

lemma climb_lineage:
  assumes "run_state (climb A u owner surface seen n ob) h = (Inr x, h')"
  shows "\<exists>os. lineage A owner surface (ob # os) \<and> length os < n"
  using assms
proof (induction n arbitrary: seen ob h)
  case (Suc n)
  show ?case
  proof (cases "ob = surface")
    case True
    then have "owned A owner ob"
      using Suc.prems by (auto elim!: try_InrE simp del: run_try_bind dest: validate_object_owner_Inr)
    with True show ?thesis by (intro exI [of _ "[]"]) simp
  next
    case False
    with Suc.prems obtain k k' seen' parent upper where own: "owned A owner ob"
      and parent: "run_state (provider_call_after u (build_proxy A ob) (\<lambda>t. aw_parent A t ob)) k = (Inr parent, k')"
      and upper: "\<not> is_null parent" "object_from_ref (grammar A) parent = Inr upper"
      and rest: "run_state (climb A u owner surface seen' n upper) k' = (Inr x, h')"
      by (auto elim!: try_InrE simp: stale_target_def simp del: run_try_bind split: if_splits
          dest!: validate_object_owner_Inr)
    obtain os where "lineage A owner surface (upper # os)" "length os < n"
      using Suc.IH [OF rest] by blast
    moreover have "parent_seen A ob upper"
      using provider_call_after_Inr [OF parent] upper unfolding parent_seen_def by blast
    ultimately show ?thesis using own False by (intro exI [of _ "upper # os"]) simp
  qed
qed (simp add: stale_target_def)

end
