(* ===== verification/AtspiSafety.thy ===== *)
theory AtspiSafety
  imports AtspiLineage
begin

text \<open>
  The two effects of the accessibility backend: they are requested at most once, only on the
  object that the target names and that is still as it was observed, and a failure denies an
  effect only if none was requested.
\<close>

section \<open>Live targets\<close>

text \<open>
  What \<open>resolve_live\<close> returns: a valid stored snapshot that the target belongs to, the object
  behind the target's element, which has a way up to the stored window, and a sample of it with
  the target's fingerprint.
\<close>

definition snapshot_owner :: "stored_snapshot \<Rightarrow> object_owner" where
  "snapshot_owner s = \<lparr>ow_bus_name = ob_bus_name (sp_window s), ow_process_id = sp_process_id s,
     ow_generation = sp_process_generation s\<rparr>"

definition live_target :: "a11y \<Rightarrow> semantic_target_ref \<Rightarrow> stored_snapshot \<times> stored_object \<times> node_sample \<Rightarrow> bool"
where
  "live_target A target r \<longleftrightarrow> (case r of (stored, ob, s) \<Rightarrow>
     (\<exists>now. validate_snapshot (grammar A) (hasher A) stored now = Inr ())
     \<and> so_observation_id (sp_observation stored) = t_observation_id target
     \<and> provenance_hash (hasher A) (sp_observation stored) = t_provenance_hash target
     \<and> element_id_of (grammar A) (hasher A) (t_observation_id target) ob = Inr (t_element_id target)
     \<and> node_fingerprint (hasher A) (ns_identity s) = t_fingerprint_hash target
     \<and> (\<exists>os. lineage A (snapshot_owner stored) (sp_window stored) (ob # os)))"

lemma all_checks_in: "all_checks cs = Inr () \<Longrightarrow> c \<in> set cs \<Longrightarrow> c = Inr ()"
  by (auto simp: all_checks_Inr list_all_iff)

lemma the_element_in: "the_element P es = Inr e \<Longrightarrow> e \<in> set es \<and> P e"
  by (auto simp: the_element_def split: list.splits) (metis filter_eq_ConsD in_set_conv_decomp)+

lemma resolve_targetD:
  assumes "resolve_target H obs target now = Inr e"
  shows "e \<in> set (so_elements obs)" "se_element_id e = t_element_id target"
    "se_fingerprint_hash e = t_fingerprint_hash target" "so_observation_id obs = t_observation_id target"
    "provenance_hash H obs = t_provenance_hash target"
  using assms by (auto simp: resolve_target_def split: sum.splits if_splits dest: the_element_in)

lemma stored_target_forD:
  assumes "stored_target_for G s key = Inr t"
  shows "(key, t) \<in> set (sp_targets s)" "map_of (sp_targets s) key = Some t"
proof -
  have f: "filter (\<lambda>(k, _). k = key) (sp_targets s) = [(key, t)]"
    using assms by (auto simp: stored_target_for_def split: list.splits dest: filter_eq_ConsD)
  then show "(key, t) \<in> set (sp_targets s)"
    by (metis (mono_tags, lifting) filter_is_subset in_mono list.set_intros(1))
  have "map_of xs key = Some t" if "filter (\<lambda>(k, _). k = key) xs = [(key, t)]" for xs
    using that by (induction xs) (auto split: if_splits)
  with f show "map_of (sp_targets s) key = Some t" by blast
qed

lemma validated_mapping:
  assumes "validate_snapshot G H s now = Inr ()" and "e \<in> set (so_elements (sp_observation s))"
    and "map_of (sp_targets s) (se_element_id e) = Some t"
  shows "element_id_of G H (so_observation_id (sp_observation s)) (st_object t) = Inr (se_element_id e)"
proof -
  have "validate_mapping G H s e = Inr ()"
    by (rule all_checks_in [OF assms(1) [unfolded validate_snapshot_def Let_def]]) (use assms(2) in auto)
  then show ?thesis
    using assms(3) by (auto simp: validate_mapping_def split: sum.splits)
qed

lemma live_targetI:
  assumes "validate_snapshot (grammar A) (hasher A) stored now = Inr ()"
    and "resolve_target (hasher A) (sp_observation stored) target later = Inr e"
    and "stored_target_for (grammar A) stored (t_element_id target) = Inr st"
    and "node_fingerprint (hasher A) (ns_identity s) = se_fingerprint_hash e"
    and "\<exists>os. lineage A (snapshot_owner stored) (sp_window stored) (st_object st # os)"
  shows "live_target A target (stored, st_object st, s)"
  using assms(1) resolve_targetD [OF assms(2)] assms(4,5)
    validated_mapping [OF assms(1) resolve_targetD(1) [OF assms(2)], of st] stored_target_forD(2) [OF assms(3)]
  by (auto simp: live_target_def)

lemma from_semantic_Inr [simp]: "from_semantic r = Inr x \<longleftrightarrow> r = Inr x"
  by (cases r) (auto simp: from_semantic_def)

lemma live_sample_Inr:
  "run_state (live_sample A u include_value e st) h = (Inr s, h') \<Longrightarrow>
    node_fingerprint (hasher A) (ns_identity s) = se_fingerprint_hash e"
  unfolding live_sample_def by (auto elim!: try_InrE split: if_splits simp del: run_try_bind)

lemma live_descendant:
  "run_state (validate_live_descendant A u (sp_window s) (sp_process_id s) (sp_process_generation s) ob) h = (Inr x, h')
    \<Longrightarrow> \<exists>os. lineage A (snapshot_owner s) (sp_window s) (ob # os)"
  unfolding validate_live_descendant_def snapshot_owner_def by (blast dest: climb_lineage)

lemma resolve_live_live:
  assumes "run_state (resolve_live A u target include_value) h = (Inr x, h')"
  shows "live_target A target x"
  using assms unfolding resolve_live_def
  by (auto elim!: try_InrE split: if_splits simp: stale_target_def simp del: run_try_bind
      dest!: validate_at_now_Inr live_sample_Inr live_descendant)
    (rule live_targetI; (assumption | blast))

section \<open>Effects\<close>

text \<open>A trace that only holds for the results of a harmless computation.\<close>

lemma harmless_result:
  assumes "harmless m" and "\<And>h x h'. run_state m h = (Inr x, h') \<Longrightarrow> P x"
  shows "grows requested (\<lambda>r l. l = [] \<and> (\<forall>x. r = Inr x \<longrightarrow> P x)) m"
  unfolding grows_def
proof (intro allI impI)
  fix h r h'
  assume run: "run_state m h = (r, h')"
  obtain l where "requested h' = requested h @ l" "l = []" by (rule growsD [OF assms(1) run])
  moreover have "P x" if "r = Inr x" for x
    by (rule assms(2)) (use run that in simp)
  ultimately show "\<exists>l. requested h' = requested h @ l \<and> l = [] \<and> (\<forall>x. r = Inr x \<longrightarrow> P x)"
    by simp
qed

abbreviation acts :: "(a11y_effect \<Rightarrow> bool) \<Rightarrow> dispatch_receipt acting \<Rightarrow> bool" where
  "acts E \<equiv> grows requested (acted E)"

lemma acts_refuse: "acts E (ret (Inl e))"
  by (rule grows_return) (simp add: acted_def)

lemma acts_perform:
  assumes "E e"
  shows "acts E (perform u e answer)"
  unfolding perform_def
proof (rule grows_bind [where Q = "\<lambda>_ l. l = [e]"])
  show "grows requested (\<lambda>_ l. l = [e]) (update_exec (al_effects_update (\<lambda>l. l @ [e])))"
    by (simp add: grows_def update_exec_def requested_def)
  have "grows requested (\<lambda>r l. l = [] \<and> (\<forall>e. r = Inl e \<longrightarrow> de_effect e = EffectUnknown)) (check_after_dispatch u)"
    by (auto simp: grows_def check_after_dispatch_def unknown_after_dispatch_def split: sum.splits prod.splits
        dest!: readingD [OF reading_calls(1)])
  then have "grows requested (\<lambda>r l. acted E r (e # l)) (try_bind (check_after_dispatch u) (\<lambda>_. ret (Inr atspi_receipt)))"
    by (rule grows_try) (auto intro!: grows_return simp: acted_def assms)
  then show "l = [e] \<Longrightarrow> grows requested (\<lambda>r l'. acted E r (l @ l')) (do {
      done \<leftarrow> ask answer;
      if done \<noteq> Some True then ret (Inl unknown_after_dispatch)
      else try_bind (check_after_dispatch u) (\<lambda>_. ret (Inr atspi_receipt)) })" for l
    by (intro grows_bind [OF reading_harmless [OF reading_primitives(3)]] grows_if)
      (auto intro!: grows_return simp: acted_def assms unknown_after_dispatch_def)
qed

lemma acts_after:
  assumes "reading m" and "\<And>x h h'. run_state m h = (Inr x, h') \<Longrightarrow> acts E (f x)"
  shows "acts E (try_bind m f)"
proof (rule grows_try [OF harmless_result [OF reading_harmless [OF assms(1)], where P = "\<lambda>x. acts E (f x)"]])
  show "run_state m h = (Inr x, h') \<Longrightarrow> acts E (f x)" for h x h' by (rule assms(2))
qed (simp_all add: acted_def [of _ "Inl _"])

lemma reading_boundaries [reading_rules]:
  "reading m \<Longrightarrow> reading (before_effect u m)" "reading (check_dispatch_boundary u)" "reading (object_proxy A ob)"
  unfolding before_effect_def check_dispatch_boundary_def object_proxy_def
  by (intro reading_rules; assumption?)+

lemma before_effect_Inr: "run_state (before_effect u m) h = (Inr x, h') \<Longrightarrow> \<exists>k. run_state m h = (Inr x, k)"
  by (auto simp: before_effect_def split: prod.splits sum.splits)

text \<open>The effects that may follow a sample of a live target.\<close>

definition fenced_action :: "a11y \<Rightarrow> semantic_target_ref \<Rightarrow> a11y_effect \<Rightarrow> bool" where
  "fenced_action A target e \<longleftrightarrow> (\<exists>stored ob s a. e = DoAction ob (ia_index a)
     \<and> live_target A target (stored, ob, s)
     \<and> actionable_base (ns_actionability s) \<and> ns_invoke_action s = Some a
     \<and> select_invoke_action (nd_actions (ns_identity s)) = Some a)"

definition fenced_text :: "a11y \<Rightarrow> semantic_target_ref \<Rightarrow> string \<Rightarrow> a11y_effect \<Rightarrow> bool" where
  "fenced_text A target value e \<longleftrightarrow> (\<exists>stored ob s. e = SetTextContents ob value
     \<and> live_target A target (stored, ob, s)
     \<and> actionable_base (ns_actionability s) \<and> editable (ns_actionability s) \<and> ns_value_hash s \<noteq> None)"

lemma acts_invoke: "acts (fenced_action A target) (semantic_invoke A u target)"
  unfolding semantic_invoke_def
proof (rule acts_after, intro reading_rules)
  fix x h h'
  assume "run_state (before_effect u (resolve_live A u target False)) h = (Inr x, h')"
  then have live: "live_target A target x" by (blast dest: before_effect_Inr resolve_live_live)
  obtain stored ob s where x: "x = (stored, ob, s)" by (cases x)
  show "acts (fenced_action A target) (case x of (stored, ob, s) \<Rightarrow>
      if \<not> (actionable_base (ns_actionability s) \<and> invokable (ns_actionability s))
      then ret (Inl (denied StaleTargetCode ''semantic target is not actionable''))
      else try_bind (check_dispatch_boundary u) (\<lambda>_. try_bind (object_proxy A ob) (\<lambda>_.
        case ns_invoke_action s of
          None \<Rightarrow> ret (Inl (denied StaleTargetCode ''semantic action is ambiguous''))
        | Some expected \<Rightarrow> try_bind (before_effect u (action_names A u ob)) (\<lambda>live_actions.
            if live_actions \<noteq> nd_actions (ns_identity s) \<or> select_invoke_action live_actions \<noteq> Some expected
            then ret (Inl (denied StaleTargetCode ''semantic action changed''))
            else try_bind (before_effect u (validate_live_descendant A u (sp_window stored) (sp_process_id stored)
                (sp_process_generation stored) ob)) (\<lambda>_.
              try_bind (before_effect u (action_names A u ob)) (\<lambda>again.
              if again \<noteq> live_actions then ret (Inl (denied StaleTargetCode ''semantic action changed''))
              else try_bind (check_dispatch_boundary u) (\<lambda>_.
                perform u (DoAction ob (ia_index expected)) (\<lambda>t. aw_do_action A t ob (ia_index expected)))))))))"
    unfolding x prod.case
    by (intro grows_if acts_refuse acts_after reading_rules grows_case_option acts_perform)
      (use live x in \<open>auto simp: fenced_action_def\<close>)
qed

lemma acts_set_value: "acts (fenced_text A target value) (semantic_set_value A u target value)"
  unfolding semantic_set_value_def
proof (intro grows_if acts_refuse acts_after reading_rules)
  fix x h h'
  assume "run_state (before_effect u (resolve_live A u target True)) h = (Inr x, h')"
  then have live: "live_target A target x" by (blast dest: before_effect_Inr resolve_live_live)
  obtain stored ob s where x: "x = (stored, ob, s)" by (cases x)
  show "acts (fenced_text A target value) (case x of (stored, ob, s) \<Rightarrow>
      if \<not> (actionable_base (ns_actionability s) \<and> editable (ns_actionability s)) \<or> ns_value_hash s = None
      then ret (Inl (denied StaleTargetCode ''semantic target is not editable''))
      else try_bind (check_dispatch_boundary u) (\<lambda>_. try_bind (object_proxy A ob) (\<lambda>_.
        try_bind (before_effect u (validate_live_descendant A u (sp_window stored) (sp_process_id stored)
          (sp_process_generation stored) ob)) (\<lambda>_. try_bind (check_dispatch_boundary u) (\<lambda>_.
        perform u (SetTextContents ob value) (\<lambda>t. aw_set_text A t ob value))))))"
    unfolding x prod.case
    by (intro grows_if acts_refuse acts_after reading_rules acts_perform)
      (use live x in \<open>auto simp: fenced_text_def\<close>)
qed

end
