(* ===== verification/AtspiNative.thy ===== *)
theory AtspiNative
  imports AtspiSafety NativeSafety
begin

text \<open>
  The native executor with the accessibility backend of this model: what a failed dispatch may
  have done to the applications, and why input for a semantic target is never sent.
\<close>

section \<open>The effects of the backend, seen from the executor\<close>

definition accessibility_effects :: "a11y_state native_state \<Rightarrow> a11y_effect list" where
  "accessibility_effects s = (case nx_backend s of None \<Rightarrow> [] | Some b \<Rightarrow> al_effects b)"

abbreviation native_effects :: "a11y_state native_state host \<Rightarrow> a11y_effect list" where
  "native_effects \<equiv> host_effects accessibility_effects"

lemmas native_effects_def = host_effects_def accessibility_effects_def

definition with_atspi :: "a11y \<Rightarrow> (nat \<Rightarrow> files) \<Rightarrow> a11y_state native \<Rightarrow> a11y_state native" where
  "with_atspi A stored N = N\<lparr>nv_atspi := atspi_backend A stored\<rparr>"

lemma with_atspi_simps [simp]:
  "nv_atspi (with_atspi A stored N) = atspi_backend A stored"
  "nv_system (with_atspi A stored N) = nv_system N" "nv_panic (with_atspi A stored N) = nv_panic N"
  "nv_hashing (with_atspi A stored N) = nv_hashing N" "nv_isolation (with_atspi A stored N) = nv_isolation N"
  "nv_storing (with_atspi A stored N) = nv_storing N"
  "nv_parent_is_dir (with_atspi A stored N) = nv_parent_is_dir N"
  by (simp_all add: with_atspi_def)

abbreviation calm :: "(a11y_state native_state host, 'a) state \<Rightarrow> bool" where
  "calm \<equiv> quiet_on native_effects"

lemma calm_parts [quiet_rules]:
  "calm (on_desktop m)" "calm (in_restriction m')" "calm (on_files m'')"
  by (rule grows_unchanged, simp add: native_effects_def on_desktop_def in_restriction_def on_files_def on_part_def
      split: prod.split)+

section \<open>Calls of the backend\<close>

lemma run_on_backend:
  "run_state (on_backend m b) h = (r, h') \<longleftrightarrow>
     (\<exists>k. run_state m \<lparr>h_env = h_env h, h_tick = h_tick h, h_exec = b\<rparr> = (r, k)
       \<and> h' = h\<lparr>h_tick := h_tick k, h_exec := (h_exec h)\<lparr>nx_backend := Some (h_exec k)\<rparr>\<rparr>)"
  by (auto simp: on_backend_def on_part_def split: prod.split)

lemma grows_on_backend:
  assumes "grows requested P m" and "run_state (on_backend m b) h = (r, h')"
    and "native_effects h = al_effects b"
  shows "\<exists>l. native_effects h' = native_effects h @ l \<and> P r l"
proof -
  let ?g = "\<lparr>h_env = h_env h, h_tick = h_tick h, h_exec = b\<rparr>"
  obtain k where k: "run_state m ?g = (r, k)"
    and h': "h' = h\<lparr>h_tick := h_tick k, h_exec := (h_exec h)\<lparr>nx_backend := Some (h_exec k)\<rparr>\<rparr>"
    using assms(2) by (auto simp: run_on_backend)
  obtain l where "requested k = requested ?g @ l" "P r l" by (rule growsD [OF assms(1) k])
  with assms(3) show ?thesis by (auto simp: h' native_effects_def requested_def)
qed

lemma connected_idle: "connect_atspi A stored t = Inr b \<Longrightarrow> al_effects b = []"
  by (auto simp: connect_atspi_def split: if_splits)

lemma grows_with_backend:
  assumes "grows requested P m" and "\<And>e. P (Inl e) []"
  shows "grows native_effects P (with_backend (with_atspi A stored N) poisoned wrap m)"
  unfolding grows_def
proof (intro allI impI)
  fix h r h'
  assume run: "run_state (with_backend (with_atspi A stored N) poisoned wrap m) h = (r, h')"
  show "\<exists>l. native_effects h' = native_effects h @ l \<and> P r l"
  proof (cases "nx_backend (h_exec h)")
    case None
    let ?c = "connect_atspi A stored (h_tick h)"
    let ?k = "\<lambda>b. h\<lparr>h_tick := Suc (h_tick h), h_exec := (h_exec h)\<lparr>nx_backend := Some b\<rparr>\<rparr>"
    show ?thesis
    proof (cases "\<not> nx_backend_poisoned (h_exec h) \<and> (\<exists>b. ?c = Inr b)")
      case True
      then obtain b where b: "?c = Inr b" by blast
      then have "run_state (on_backend m b) (?k b) = (r, h')"
        using run None True by (simp add: with_backend_def get_exec_def ask_def update_exec_def atspi_backend_def)
      moreover have "native_effects (?k b) = al_effects b" by (simp add: native_effects_def)
      ultimately show ?thesis
        using grows_on_backend [OF assms(1)] connected_idle [OF b] None by (fastforce simp: native_effects_def)
    next
      case False
      then show ?thesis
        using run None assms(2)
        by (auto simp: with_backend_def get_exec_def ask_def update_exec_def atspi_backend_def native_effects_def
            split: if_splits sum.splits)
    qed
  next
    case (Some b)
    show ?thesis
    proof (cases "nx_backend_poisoned (h_exec h)")
      case False
      then have "run_state (on_backend m b) h = (r, h')"
        using run Some by (simp add: with_backend_def get_exec_def)
      then show ?thesis by (rule grows_on_backend [OF assms(1)]) (simp add: native_effects_def Some)
    qed (use run assms(2) in \<open>auto simp: with_backend_def get_exec_def\<close>)
  qed
qed

lemma calm_with_backend [quiet_rules]: "harmless m \<Longrightarrow> calm (with_backend (with_atspi A stored N) poisoned wrap m)"
  by (rule grows_with_backend) simp_all

lemma calm_allowed [quiet_rules]: "calm (global_input_allowed N)"
  unfolding global_input_allowed_def by (rule calm_parts)

text \<open>The same as an assertion that holds before and after.\<close>

definition effects_are :: "a11y_effect list \<Rightarrow> a11y_state native_state host \<Rightarrow> bool" where
  "effects_are l h \<longleftrightarrow> native_effects h = l"

lemma calm_iff: "calm m \<longleftrightarrow> (\<forall>l. hoare (effects_are l) m (\<lambda>_. effects_are l))"
  by (auto simp: grows_def hoare_def effects_are_def)

lemma hoare_connect:
  "hoare (effects_are l) (connect_if_missing (with_atspi A stored N))
     (\<lambda>r h. effects_are l h \<and> nx_backend (h_exec h) = r)"
  by (auto simp: hoare_def connect_if_missing_def get_exec_def ask_def update_exec_def effects_are_def
      native_effects_def atspi_backend_def connected_idle split: option.splits sum.splits)

lemma effects_after_geometry:
  assumes "effects_are l h" and "nx_backend (h_exec h) = Some b"
    and "run_state (on_backend (display_geometry_hash A) b) h = (r, h')"
  shows "effects_are l h'"
  using assms grows_on_backend [OF reading_harmless [OF reading_x11(1)] assms(3)]
  by (auto simp: effects_are_def native_effects_def)

lemma calm_capabilities [quiet_rules]: "calm (linux_capabilities (with_atspi A stored N))"
proof -
  have geometry: "hoare (\<lambda>h. effects_are l h \<and> nx_backend (h_exec h) = backend)
      (case backend of None \<Rightarrow> ret None | Some b \<Rightarrow> do {
         r \<leftarrow> on_backend (at_display_geometry_hash (nv_atspi (with_atspi A stored N))) b; ret (as_option r) })
      (\<lambda>_. effects_are l)" for l backend
    by (auto simp: hoare_def atspi_backend_def split: option.split prod.splits dest: effects_after_geometry)
  note calm = calm_iff [THEN iffD1, THEN spec]
  show ?thesis
    unfolding linux_capabilities_def Let_def
    by (rule quiet_bind [OF quiet_primitives(4)], rule quiet_if [OF quiet_return], unfold calm_iff,
        intro allI hoare_bind [OF hoare_connect] hoare_bind [OF geometry] calm)
      (intro quiet_rules)
qed

section \<open>Dispatch\<close>

lemma calm_resolve [quiet_rules]: "calm (native_resolve N target d)"
  unfolding native_resolve_def resolve_coordinates_def resolve_coordinates_with_def stale_def runtime_call_def Let_def
  by (cases target; simp; intro quiet_rules)

lemma grows_calm: "calm m \<Longrightarrow> adds_effects native_effects m"
  by (rule grows_mono, assumption) simp

interpretation linux_accessibility: honest_runtime "linux_runtime (with_atspi A stored N)" accessibility_effects
  by unfold_locales
    (simp_all add: linux_runtime_def quiet_rules quiet_refuse grows_calm honest_quiet grows_nothing)

lemma denies_acted: "acts E m \<Longrightarrow> denies_honestly native_effects (with_backend (with_atspi A stored N) poisoned wrap m)"
  unfolding denies_honestly_def
  by (rule grows_mono [OF grows_with_backend [where P = "acted E"]]) (auto simp: acted_def)

lemma calm_focused_target [quiet_rules]: "calm (focused_target (with_atspi A stored N) d)"
proof -
  have "harmless (do { r \<leftarrow> focused_target_of A (watched_until d);
      ret (map_sum (\<lambda>_. refused ''focused target changed'') id r) })"
    by (intro harmless_rules harmless_focused_target reading_harmless reading_rules)
  then show ?thesis
    unfolding focused_target_def by (intro calm_with_backend) (simp add: atspi_backend_def)
qed

lemma denies_semantic: "denies_honestly native_effects (dispatch_semantic (with_atspi A stored N) action d t)"
proof (cases "focused_action action")
  case True
  then show ?thesis
    unfolding dispatch_semantic_def
    by (auto intro!: honest_rules linux_accessibility.focused_is_honest quiet_rules)
next
  case False
  have refused: "denies_honestly native_effects
      (with_backend (with_atspi A stored N) no_backend (\<lambda>_. no_backend) (ret (Inl e)))" for e
    by (intro honest_quiet quiet_rules reading_harmless reading_rules)
  show ?thesis
  proof (cases action)
    case Invoke
    then show ?thesis
      unfolding dispatch_semantic_def using denies_acted [OF acts_invoke] by (simp add: atspi_backend_def)
  next
    case (SetValue content)
    then show ?thesis
      unfolding dispatch_semantic_def using denies_acted [OF acts_set_value] by (simp add: atspi_backend_def)
  qed (use False in \<open>auto simp: dispatch_semantic_def intro!: refused\<close>)
qed

lemma denies_dispatch: "denies_honestly native_effects (native_dispatch (with_atspi A stored N) action target policy d)"
  unfolding native_dispatch_def by (rule linux_accessibility.dispatch_is_honest, rule denies_semantic)

section \<open>The contract of an executor: accessibility\<close>

lemma calm_reads [quiet_rules]:
  "calm (native_observe (with_atspi A stored N) target d)" "calm (native_context_hash (with_atspi A stored N) d)"
proof -
  have target: "harmless (observe_target A (watched_until d) t)" for t
    by (intro reading_harmless reading_rules)
  show "calm (native_context_hash (with_atspi A stored N) d)"
    unfolding native_context_hash_def
    by (intro quiet_rules) (simp_all add: atspi_backend_def reading_harmless reading_rules)
  show "calm (native_observe (with_atspi A stored N) target d)"
    unfolding native_observe_def observe_plain_def observe_plain_with_def observed_state_def native_target_content_hash_def runtime_call_def
    using target by (cases target; simp add: atspi_backend_def; intro quiet_rules)
qed

interpretation accessible: truthful_executor "native_executor (with_atspi A stored N)" accessibility_effects
  by unfold_locales
    (simp_all add: native_executor_def quiet_rules
      denies_dispatch [unfolded disclaimed_denies])

section \<open>Input for a semantic target\<close>

text \<open>
  The host is connected to a backend whose last snapshot has the number \<open>g\<close>, and the events sent
  so far are \<open>l\<close>.
\<close>

definition numbered :: "u64 \<Rightarrow> input_event list \<Rightarrow> a11y_state native_state host \<Rightarrow> bool" where
  "numbered g l h \<longleftrightarrow> events h = l \<and> (\<exists>b. nx_backend (h_exec h) = Some b \<and> al_generation b = g)"

lemma numbered_events: "numbered g l h \<Longrightarrow> events h = l"
  by (simp add: numbered_def)

text \<open>A dispatch that is refused before anything was sent.\<close>

definition refused_unsent :: "input_event list \<Rightarrow> dispatch_error + 'a \<Rightarrow> a11y_state native_state host \<Rightarrow> bool" where
  "refused_unsent l r h \<longleftrightarrow> events h = l \<and> (\<exists>e. r = Inl e \<and> de_effect e \<noteq> EffectUnknown)"

lemma numbered_focused_target:
  "hoare (numbered g l) (focused_target (with_atspi A stored N) d)
     (\<lambda>r h. events h = l \<and> (\<forall>e. r = Inl e \<longrightarrow> de_effect e \<noteq> EffectUnknown)
       \<and> (\<forall>t. r = Inr t \<longrightarrow> t_generation t = g + 1))"
proof (rule hoareI)
  fix h r h'
  assume h: "numbered g l h" and run: "run_state (focused_target (with_atspi A stored N) d) h = (r, h')"
  then obtain b where b: "nx_backend (h_exec h) = Some b" "al_generation b = g" by (auto simp: numbered_def)
  have "events h' = l"
    using h growsD [OF quiet_focused_target run] by (fastforce simp: numbered_def)
  moreover have "(\<forall>e. r = Inl e \<longrightarrow> de_effect e \<noteq> EffectUnknown) \<and> (\<forall>t. r = Inr t \<longrightarrow> t_generation t = g + 1)"
    using run b
    by (auto simp: focused_target_def with_backend_def get_exec_def run_on_backend atspi_backend_def
        no_backend_def unavailable_def refused_def map_sum_def number_of_def
        split: if_splits prod.splits sum.splits dest!: focused_target_number)
  ultimately show "events h' = l \<and> (\<forall>e. r = Inl e \<longrightarrow> de_effect e \<noteq> EffectUnknown)
       \<and> (\<forall>t. r = Inr t \<longrightarrow> t_generation t = g + 1)" by blast
qed

lemma unsent_semantic_input:
  assumes "focused_action action" and "t_generation t \<noteq> g + 1"
  shows "hoare (numbered g l) (native_dispatch (with_atspi A stored N) action (SemanticTarget t) policy d)
    (refused_unsent l)"
proof -
  let ?N = "with_atspi A stored N"
  have refuse: "hoare (\<lambda>h. events h = l) (ret (Inl (refused message))) (refused_unsent l)" for message
    by (rule hoare_return) (simp add: refused_unsent_def refused_def)
  have semantic: "hoare (numbered g l) (dispatch_semantic ?N action d t) (refused_unsent l)"
    unfolding dispatch_semantic_def if_P [OF assms(1)]
  proof (rule hoare_try [OF numbered_focused_target])
    fix focused
    show "hoare (\<lambda>h. events h = l \<and> (\<forall>e. Inr focused = Inl e \<longrightarrow> de_effect e \<noteq> EffectUnknown)
         \<and> (\<forall>t. Inr focused = Inr t \<longrightarrow> t_generation t = g + 1))
      (if focused \<noteq> t then ret (Inl (refused ''semantic target is not focused''))
       else dispatch_focused (linux_runtime ?N) action d)
      (refused_unsent l)"
      using assms(2) by (intro hoare_if hoare_pre [OF refuse]) (auto simp: hoare_def)
  qed (auto simp: refused_unsent_def)
  show ?thesis
    unfolding native_dispatch_def
    by (rule semantic_dispatch [where P = "numbered g l" and Q = "refused_unsent l"])
      (use semantic in \<open>auto simp: linux_runtime_def refused_unsent_def numbered_def now_ms_def is_cancelled_def
        keeps_def events_def\<close>)
qed

end
