(* ===== verification/UiaData.thy ===== *)
theory UiaData
  imports AtspiData NativeExecutor
begin

text \<open>
  The data of windows_uia.rs: runtime ids and the budget for their paths, the private mapping of
  a snapshot, the state of an element, rectangles, screens and what is hashed of them.

  A \<open>usize\<close> has 64 bits; a window handle is a pointer, an \<open>i32\<close> a word read with \<open>sint\<close>.
\<close>

type_synonym i32 = "32 word"
type_synonym hwnd = "64 word"
type_synonym runtime_id = "i32 list"

section \<open>Limits\<close>

definition uia_backend_name :: string where "uia_backend_name = ''praefectus-windows-uia''"
definition max_provider_timeout_ms :: i64 where "max_provider_timeout_ms = 2000"
definition max_windows :: nat where "max_windows = 512"
definition max_runtime_path_depth :: nat where "max_runtime_path_depth = 64"
definition max_runtime_path_integers :: nat where "max_runtime_path_integers = 131072"
definition max_runtime_path_bytes :: nat where "max_runtime_path_bytes = 1024 * 1024"
definition max_private_mapping_bytes :: nat where "max_private_mapping_bytes = 2 * 1024 * 1024"

section \<open>Runtime ids\<close>

text \<open>
  A \<open>SAFEARRAY\<close> as the calls on it answer: dimensions, size of an element, \<open>vartype = VT_I4\<close>,
  bounds, elements.  \<open>None\<close> is a failed call.
\<close>

record safe_array =
  sa_dim :: u32
  sa_elemsize :: u32
  sa_integers :: "bool option"
  sa_lower :: "i32 option"
  sa_upper :: "i32 option"
  sa_element :: "int \<Rightarrow> i32 option"

definition checked_sub_i32 :: "int \<Rightarrow> int \<Rightarrow> int option" where
  "checked_sub_i32 a b = (if - 2147483648 \<le> a - b \<and> a - b \<le> 2147483647 then Some (a - b) else None)"

definition checked_add_i32 :: "int \<Rightarrow> int \<Rightarrow> int option" where
  "checked_add_i32 a b = (if - 2147483648 \<le> a + b \<and> a + b \<le> 2147483647 then Some (a + b) else None)"

definition array_length :: "i32 \<Rightarrow> i32 \<Rightarrow> nat option" where
  "array_length lower upper = Option.bind (checked_sub_i32 (sint upper) (sint lower)) (\<lambda>d.
     Option.bind (checked_add_i32 d 1) (\<lambda>n. if 1 \<le> n \<and> n \<le> 64 then Some (nat n) else None))"

text \<open>The elements from \<open>lower\<close> on; the first failure ends the loop.\<close>

fun array_elements :: "(int \<Rightarrow> i32 option) \<Rightarrow> int \<Rightarrow> nat \<Rightarrow> runtime_id option" where
  "array_elements get i 0 = Some []"
| "array_elements get i (Suc n) = Option.bind (get i) (\<lambda>v. map_option ((#) v) (array_elements get (i + 1) n))"

definition safe_array_values :: "safe_array \<Rightarrow> runtime_id option" where
  "safe_array_values a =
     (if sa_dim a \<noteq> 1 \<or> sa_elemsize a \<noteq> 4 \<or> sa_integers a \<noteq> Some True then None
      else case (sa_lower a, sa_upper a) of
        (Some lower, Some upper) \<Rightarrow>
          Option.bind (array_length lower upper) (array_elements (sa_element a) (sint lower))
      | _ \<Rightarrow> None)"

fun join :: "string \<Rightarrow> string list \<Rightarrow> string" where
  "join separator [] = []"
| "join separator [x] = x"
| "join separator (x # y # rest) = x @ separator @ join separator (y # rest)"

definition runtime_id_text :: "runtime_id \<Rightarrow> string" where
  "runtime_id_text ids = join ''.'' (map (\<lambda>v. show_int (sint v)) ids)"

section \<open>The budget for paths\<close>

definition checked_add_usize :: "nat \<Rightarrow> nat \<Rightarrow> nat option" where
  "checked_add_usize a b = (if a + b \<le> usize_max then Some (a + b) else None)"

text \<open>The loop of \<open>decimal_i32_bytes\<close>: how often the value can be divided by ten.\<close>

fun decimal_length :: "nat \<Rightarrow> nat" where
  "decimal_length n = (if n div 10 = 0 then 1 else Suc (decimal_length (n div 10)))"

declare decimal_length.simps [simp del]

definition decimal_i32_bytes :: "i32 \<Rightarrow> nat" where
  "decimal_i32_bytes value = of_bool (sint value < 0) + decimal_length (nat \<bar>sint value\<bar>)"

text \<open>\<open>try_fold\<close> over the items with their index: one byte for a comma before all but the first.\<close>

fun fold_sizes :: "('a \<Rightarrow> nat option) \<Rightarrow> nat \<Rightarrow> nat \<Rightarrow> 'a list \<Rightarrow> nat option" where
  "fold_sizes cost acc index [] = Some acc"
| "fold_sizes cost acc index (x # xs) =
     Option.bind (cost x) (\<lambda>n.
     Option.bind (checked_add_usize acc (of_bool (0 < index))) (\<lambda>t.
     Option.bind (checked_add_usize t n) (\<lambda>t'. fold_sizes cost t' (Suc index) xs)))"

definition runtime_id_serialized_bytes :: "runtime_id \<Rightarrow> nat option" where
  "runtime_id_serialized_bytes ids = fold_sizes (\<lambda>v. Some (decimal_i32_bytes v)) 2 0 ids"

definition runtime_path_serialized_bytes :: "runtime_id list \<Rightarrow> nat option" where
  "runtime_path_serialized_bytes path = fold_sizes runtime_id_serialized_bytes 2 0 path"

record path_budget =
  pb_integers :: nat
  pb_bytes :: nat

definition snapshot_budget_error :: protocol_error where
  "snapshot_budget_error = ExecutorError ''semantic snapshot exceeded its private budget''"

text \<open>\<open>charge_counts\<close>: an error may leave the integers charged and the bytes not.\<close>

definition within_limit :: "nat \<Rightarrow> nat \<Rightarrow> nat option \<Rightarrow> nat option" where
  "within_limit limit used extra = Option.bind extra (\<lambda>n. Option.bind (checked_add_usize used n) (\<lambda>total.
     if total \<le> limit then Some total else None))"

definition charge_counts :: "path_budget \<Rightarrow> nat option \<Rightarrow> nat option \<Rightarrow> protocol_error + path_budget" where
  "charge_counts b integers bytes = (case within_limit max_runtime_path_integers (pb_integers b) integers of
       None \<Rightarrow> Inl snapshot_budget_error
     | Some i \<Rightarrow> (case within_limit max_runtime_path_bytes (pb_bytes b) bytes of
         None \<Rightarrow> Inl snapshot_budget_error
       | Some n \<Rightarrow> Inr \<lparr>pb_integers = i, pb_bytes = n\<rparr>))"

fun sum_lengths :: "nat \<Rightarrow> runtime_id list \<Rightarrow> nat option" where
  "sum_lengths acc [] = Some acc"
| "sum_lengths acc (ids # path) = Option.bind (checked_add_usize acc (length ids)) (\<lambda>t. sum_lengths t path)"

definition charge :: "path_budget \<Rightarrow> runtime_id list \<Rightarrow> protocol_error + path_budget" where
  "charge b path = charge_counts b (sum_lengths 0 path) (runtime_path_serialized_bytes path)"

definition charge_appended :: "path_budget \<Rightarrow> runtime_id list \<Rightarrow> runtime_id \<Rightarrow> protocol_error + path_budget" where
  "charge_appended b path ids = charge_counts b (sum_lengths (length ids) path)
     (Option.bind (runtime_path_serialized_bytes path) (\<lambda>n.
      Option.bind (checked_add_usize n (of_bool (path \<noteq> []))) (\<lambda>n'.
      Option.bind (runtime_id_serialized_bytes ids) (checked_add_usize n'))))"

text \<open>\<open>ByteCounter\<close> and \<open>ensure_serialized_mapping_budget\<close>: the writes of the serializer are counted.\<close>

fun count_writes :: "nat \<Rightarrow> nat \<Rightarrow> string list \<Rightarrow> nat option" where
  "count_writes limit bytes [] = Some bytes"
| "count_writes limit bytes (w # ws) =
     Option.bind (within_limit limit bytes (Some (length w))) (\<lambda>bytes'. count_writes limit bytes' ws)"

section \<open>The private mapping\<close>

record mapping_entry =
  me_element_id :: string
  me_runtime_id :: runtime_id
  me_runtime_path :: "runtime_id list"
  me_fingerprint_hash :: string
  me_unambiguous :: bool
  me_stable :: bool

record uia_mapping =
  um_protocol_version :: u16
  um_observation_id :: string
  um_generation :: u64
  um_provenance_hash :: string
  um_process_id :: u32
  um_process_generation :: string
  um_surface_id :: string
  um_window_handle :: i64
  um_window_id :: string
  um_display_geometry_hash :: string
  um_observed_at_ms :: i64
  um_expires_at_ms :: i64
  um_entries :: "mapping_entry list"

section \<open>Rectangles and screens\<close>

record win_rect =
  wr_left :: i32
  wr_top :: i32
  wr_right :: i32
  wr_bottom :: i32

definition native_bounds_of :: "win_rect \<Rightarrow> native_error + native_bounds" where
  "native_bounds_of r =
     (case (checked_sub_i32 (sint (wr_right r)) (sint (wr_left r)),
            checked_sub_i32 (sint (wr_bottom r)) (sint (wr_top r))) of
        (Some width, Some height) \<Rightarrow>
          if width \<le> 0 \<or> height \<le> 0 then Inl NativeError
          else Inr \<lparr>nb_x = sint (wr_left r), nb_y = sint (wr_top r), nb_width = width, nb_height = height\<rparr>
      | _ \<Rightarrow> Inl NativeError)"

definition native_bounds_json :: "native_bounds \<Rightarrow> json" where
  "native_bounds_json b = JObj [(''x'', JInt (nb_x b)), (''y'', JInt (nb_y b)),
     (''width'', JInt (nb_width b)), (''height'', JInt (nb_height b))]"

definition rect_of :: "native_bounds \<Rightarrow> rect" where
  "rect_of b = \<lparr>r_x = nb_x b, r_y = nb_y b, r_width = nb_width b, r_height = nb_height b\<rparr>"

definition sat_sub_i32 :: "i32 \<Rightarrow> i32 \<Rightarrow> int" where
  "sat_sub_i32 a b = max (- 2147483648) (min 2147483647 (sint a - sint b))"

fun show_hex :: "nat \<Rightarrow> string" where
  "show_hex n = (if n < 16 then [hex_digit n] else show_hex (n div 16) @ [hex_digit (n mod 16)])"

declare show_hex.simps [simp del]

definition display_json :: "64 word \<Rightarrow> win_rect \<Rightarrow> json" where
  "display_json monitor r = JObj [
     (''display_id'', JStr (''monitor-'' @ show_hex (unat monitor))),
     (''x'', JInt (sint (wr_left r))),
     (''y'', JInt (sint (wr_top r))),
     (''width'', JInt (sat_sub_i32 (wr_right r) (wr_left r))),
     (''height'', JInt (sat_sub_i32 (wr_bottom r) (wr_top r)))]"

definition display_order :: "json \<Rightarrow> int \<times> int \<times> string" where
  "display_order d = (case get_i64 d ''x'' of None \<Rightarrow> 0 | Some x \<Rightarrow> x,
     case get_i64 d ''y'' of None \<Rightarrow> 0 | Some y \<Rightarrow> y,
     case get_str d ''display_id'' of None \<Rightarrow> [] | Some s \<Rightarrow> s)"

text \<open>The monitors that were enumerated, each with its rectangle if it could be asked for.\<close>

definition screens_of :: "bool \<Rightarrow> (64 word \<times> win_rect option) list \<Rightarrow> native_error + json list" where
  "screens_of finished monitors =
     (let displays = List.map_filter (\<lambda>(m, r). map_option (display_json m) r) monitors in
      if \<not> finished \<or> displays = [] then Inl NativeError else Inr (sort_key display_order displays))"

definition intersects_display :: "native_bounds \<Rightarrow> json \<Rightarrow> bool" where
  "intersects_display b d = (case (get_i64 d ''x'', get_i64 d ''y'', get_i64 d ''width'', get_i64 d ''height'') of
       (Some x, Some y, Some width, Some height) \<Rightarrow> 0 < width \<and> 0 < height
         \<and> nb_x b < sat_add_i64 x width \<and> x < sat_add_i64 (nb_x b) (nb_width b)
         \<and> nb_y b < sat_add_i64 y height \<and> y < sat_add_i64 (nb_y b) (nb_height b)
     | _ \<Rightarrow> False)"

definition intersects_displays :: "native_bounds \<Rightarrow> json list \<Rightarrow> bool" where
  "intersects_displays b displays \<longleftrightarrow> list_ex (intersects_display b) displays"

section \<open>Elements\<close>

record element_state =
  es_runtime_id :: runtime_id
  es_process_id :: u32
  es_process_generation :: string
  es_window_id :: string
  es_role :: string
  es_name :: "string option"
  es_bounds :: native_bounds
  es_visible :: bool
  es_enabled :: bool
  es_invokable :: bool
  es_editable :: bool
  es_horizontally_scrollable :: bool
  es_vertically_scrollable :: bool

definition element_fingerprint_of :: "hashing \<Rightarrow> element_state \<Rightarrow> string" where
  "element_fingerprint_of H s = semantic_fingerprint H (JArr [
     JArr (map (\<lambda>v. JInt (sint v)) (es_runtime_id s)), jword (es_process_id s),
     JStr (es_process_generation s), JStr (es_window_id s), JStr (es_role s), jopt (es_name s),
     native_bounds_json (es_bounds s), JBool (es_visible s), JBool (es_enabled s),
     JBool (es_invokable s), JBool (es_editable s), JBool (es_horizontally_scrollable s),
     JBool (es_vertically_scrollable s)])"

definition bounded_bstr :: "string option \<Rightarrow> string option" where
  "bounded_bstr value = Option.bind value (\<lambda>v.
     let trimmed = trim v in if trimmed \<noteq> [] \<and> length trimmed \<le> 1024 then Some trimmed else None)"

definition window_identity :: "hashing \<Rightarrow> hwnd \<Rightarrow> string \<Rightarrow> string" where
  "window_identity H window generation =
     hash_serializable H (JArr [JStr uia_backend_name, jword window, JStr generation])"

definition provider_timeout_at :: "i64 \<Rightarrow> i64 \<Rightarrow> i64" where
  "provider_timeout_at now deadline = (let left = sat_sub_i64 deadline now in
     max 1 (min max_provider_timeout_ms
       (if 0 \<le> left \<and> left \<le> 4294967295 then left else max_provider_timeout_ms)))"

definition uncloaked_state :: "u32 \<Rightarrow> bool" where "uncloaked_state cloaked \<longleftrightarrow> cloaked = 0"

definition surface_identity_hash :: "hashing \<Rightarrow> hwnd \<Rightarrow> u32 \<Rightarrow> string \<Rightarrow> string \<Rightarrow> string \<Rightarrow> native_bounds \<Rightarrow> string"
where
  "surface_identity_hash H window process_id generation window_id geometry b =
     semantic_fingerprint H (JArr [jword protocol_version, JStr uia_backend_name, jword window,
       jword process_id, JStr generation, JStr window_id, JStr geometry, native_bounds_json b])"

record uia_focus =
  uf_window :: hwnd
  uf_process_id :: u32
  uf_process_generation :: string
  uf_runtime_id :: runtime_id
  uf_fingerprint_hash :: string

definition focus_matches_foreground :: "hwnd \<Rightarrow> u32 \<Rightarrow> string \<Rightarrow> uia_focus \<Rightarrow> bool" where
  "focus_matches_foreground window process_id generation f \<longleftrightarrow>
     uf_window f = window \<and> uf_process_id f = process_id \<and> uf_process_generation f = generation"

definition shared_context_identity_hash :: "hashing \<Rightarrow> hwnd \<times> u32 \<times> string \<Rightarrow> i32 \<times> i32 \<Rightarrow> uia_focus \<Rightarrow> string"
where
  "shared_context_identity_hash H foreground cursor f = (case (foreground, cursor) of
     ((window, process_id, generation), (x, y)) \<Rightarrow> hash_serializable H (JArr [JStr uia_backend_name,
       JArr [jword window, jword process_id, JStr generation],
       JArr [JInt (sint x), JInt (sint y)],
       JArr [jword (uf_window f), jword (uf_process_id f), JStr (uf_process_generation f),
         JArr (map (\<lambda>v. JInt (sint v)) (uf_runtime_id f)), JStr (uf_fingerprint_hash f)]]))"

end
