(* ===== verification/Uia.thy ===== *)
theory Uia
  imports UiaData
begin

text \<open>
  windows_uia.rs: what it asks the desktop and the accessibility provider for - processes,
  windows, surfaces, the state of an element, the focus and the hash of the shared desktop.

  The system is a parameter (\<open>uia\<close>): each answer depends on the tick and the arguments, and
  \<open>None\<close> or \<open>False\<close> is a failed call.  An element of the provider is a number.  \<open>us_effects\<close> is
  a ghost: the effects that were requested, in order, also those whose call fails.
\<close>

unbundle bit_operations_syntax

section \<open>State\<close>

type_synonym uia_node = nat

datatype scroll_amount = NoAmount | LargeDecrement | LargeIncrement

datatype uia_effect =
    UiaInvoke uia_node
  | UiaSetValue uia_node string
  | UiaScroll uia_node scroll_amount scroll_amount

record uia_state =
  us_generation :: u64
  us_files :: files
  us_effects :: "uia_effect list"

text \<open>The answer of a tree walker: an element, no element (an error whose code is a success), an error.\<close>

datatype walked = Walked uia_node | NoNode | WalkFailed

text \<open>
  \<open>ui_print\<close>: the writes of the serializer for a mapping.  \<open>ui_monitors\<close>, \<open>ui_enumerate\<close>: did the
  enumeration succeed, and what was enumerated.  \<open>ui_window_process\<close>: thread and process.
  \<open>ui_creation\<close>: high and low part of the creation time.
\<close>

record uia =
  ui_hashing :: hashing
  ui_storing :: storing
  ui_print :: "uia_mapping \<Rightarrow> string list"
  ui_read :: "string \<Rightarrow> uia_mapping option"
  ui_invalid :: "hwnd \<Rightarrow> bool"
  ui_automation :: "nat \<Rightarrow> i64 \<Rightarrow> bool"
  ui_monitors :: "nat \<Rightarrow> bool \<times> (64 word \<times> win_rect option) list"
  ui_enumerate :: "nat \<Rightarrow> bool \<times> hwnd list"
  ui_foreground :: "nat \<Rightarrow> hwnd"
  ui_cursor :: "nat \<Rightarrow> (i32 \<times> i32) option"
  ui_is_window :: "nat \<Rightarrow> hwnd \<Rightarrow> bool"
  ui_visible :: "nat \<Rightarrow> hwnd \<Rightarrow> bool"
  ui_iconic :: "nat \<Rightarrow> hwnd \<Rightarrow> bool"
  ui_cloaked :: "nat \<Rightarrow> hwnd \<Rightarrow> u32 option"
  ui_root :: "nat \<Rightarrow> hwnd \<Rightarrow> hwnd"
  ui_rect :: "nat \<Rightarrow> hwnd \<Rightarrow> win_rect option"
  ui_window_process :: "nat \<Rightarrow> hwnd \<Rightarrow> u32 \<times> u32"
  ui_open_process :: "nat \<Rightarrow> u32 \<Rightarrow> bool"
  ui_creation :: "nat \<Rightarrow> u32 \<Rightarrow> (u32 \<times> u32) option"
  ui_from_handle :: "nat \<Rightarrow> hwnd \<Rightarrow> uia_node option"
  ui_focused :: "nat \<Rightarrow> uia_node option"
  ui_walker :: "nat \<Rightarrow> bool"
  ui_first_child :: "nat \<Rightarrow> uia_node \<Rightarrow> walked"
  ui_next_sibling :: "nat \<Rightarrow> uia_node \<Rightarrow> walked"
  ui_parent :: "nat \<Rightarrow> uia_node \<Rightarrow> uia_node option"
  ui_runtime_id :: "nat \<Rightarrow> uia_node \<Rightarrow> safe_array option"
  ui_process_id :: "nat \<Rightarrow> uia_node \<Rightarrow> i32 option"
  ui_native_window :: "nat \<Rightarrow> uia_node \<Rightarrow> hwnd option"
  ui_bounds :: "nat \<Rightarrow> uia_node \<Rightarrow> win_rect option"
  ui_enabled :: "nat \<Rightarrow> uia_node \<Rightarrow> bool option"
  ui_offscreen :: "nat \<Rightarrow> uia_node \<Rightarrow> bool option"
  ui_control_type :: "nat \<Rightarrow> uia_node \<Rightarrow> i32 option"
  ui_name :: "nat \<Rightarrow> uia_node \<Rightarrow> string option"
  ui_invoke_pattern :: "nat \<Rightarrow> uia_node \<Rightarrow> bool"
  ui_value_pattern :: "nat \<Rightarrow> uia_node \<Rightarrow> bool"
  ui_read_only :: "nat \<Rightarrow> uia_node \<Rightarrow> bool option"
  ui_value :: "nat \<Rightarrow> uia_node \<Rightarrow> string option"
  ui_scroll_pattern :: "nat \<Rightarrow> uia_node \<Rightarrow> bool"
  ui_horizontal :: "nat \<Rightarrow> uia_node \<Rightarrow> bool option"
  ui_vertical :: "nat \<Rightarrow> uia_node \<Rightarrow> bool option"
  ui_do_invoke :: "nat \<Rightarrow> uia_node \<Rightarrow> bool"
  ui_do_set_value :: "nat \<Rightarrow> uia_node \<Rightarrow> string \<Rightarrow> bool"
  ui_do_scroll :: "nat \<Rightarrow> uia_node \<Rightarrow> scroll_amount \<Rightarrow> scroll_amount \<Rightarrow> bool"

type_synonym 'a calling = "(uia_state host, native_error + 'a) state"
type_synonym 'a observing = "(uia_state host, protocol_error + 'a) state"

section \<open>Calls and boundaries\<close>

definition native_call :: "(nat \<Rightarrow> 'a option) \<Rightarrow> 'a calling" where
  "native_call question = do {
     v \<leftarrow> ask question;
     ret (case v of None \<Rightarrow> Inl NativeError | Some x \<Rightarrow> Inr x)
   }"

definition native_step :: "(nat \<Rightarrow> bool) \<Rightarrow> unit calling" where
  "native_step question = do { v \<leftarrow> ask question; ret (ensure v NativeError) }"

text \<open>A chain of conditions with its short circuit.\<close>

fun every :: "('s, bool) state list \<Rightarrow> ('s, bool) state" where
  "every [] = ret True"
| "every (m # ms) = do { holds \<leftarrow> m; if holds then every ms else ret False }"

definition unless_ended :: "i64 \<Rightarrow> unit calling" where
  "unless_ended deadline = do {
     r \<leftarrow> check_protocol_boundary deadline;
     ret (case r of Inl _ \<Rightarrow> Inl NativeError | Inr _ \<Rightarrow> Inr ())
   }"

definition observation_boundary_error :: "i64 \<Rightarrow> protocol_error \<Rightarrow> 'a observing" where
  "observation_boundary_error deadline fallback = do {
     r \<leftarrow> check_protocol_boundary deadline;
     ret (Inl (case r of Inl e \<Rightarrow> e | Inr _ \<Rightarrow> fallback))
   }"

text \<open>\<open>m.map_err(|_| observation_boundary_error(.., fallback))\<close>\<close>

definition or_boundary_error :: "i64 \<Rightarrow> protocol_error \<Rightarrow> (uia_state host, 'e + 'a) state \<Rightarrow> 'a observing" where
  "or_boundary_error deadline fallback m = do {
     r \<leftarrow> m;
     case r of Inr x \<Rightarrow> ret (Inr x) | Inl _ \<Rightarrow> observation_boundary_error deadline fallback
   }"

definition call_failed :: protocol_error where
  "call_failed = ExecutorError ''accessibility provider call failed''"

definition shared_context_unavailable :: protocol_error where
  "shared_context_unavailable = ExecutorError ''shared desktop context is unavailable''"

definition provider_timeout :: "i64 \<Rightarrow> (uia_state host, i64) state" where
  "provider_timeout deadline = do { now \<leftarrow> now_ms; ret (provider_timeout_at now deadline) }"

definition new_automation :: "uia \<Rightarrow> i64 \<Rightarrow> unit calling" where
  "new_automation W deadline = do {
     timeout \<leftarrow> provider_timeout deadline;
     native_step (\<lambda>t. ui_automation W t timeout)
   }"

section \<open>Processes, windows, screens\<close>

definition creation_time :: "u32 \<times> u32 \<Rightarrow> u64" where
  "creation_time t = push_bit 32 (ucast (fst t)) OR ucast (snd t)"

definition uia_process_generation :: "uia \<Rightarrow> u32 \<Rightarrow> string calling" where
  "uia_process_generation W process_id =
     try_bind (native_step (\<lambda>t. ui_open_process W t process_id)) (\<lambda>_.
     try_bind (native_call (\<lambda>t. ui_creation W t process_id)) (\<lambda>created.
     ret (if creation_time created = 0 then Inl NativeError
          else Inr (show_nat (unat (creation_time created))))))"

definition window_process_id :: "uia \<Rightarrow> hwnd \<Rightarrow> u32 observing" where
  "window_process_id W window = do {
     (thread, process_id) \<leftarrow> ask (\<lambda>t. ui_window_process W t window);
     ret (if thread = 0 \<or> process_id = 0
          then Inl (TargetNotFound ''foreground process is unavailable'') else Inr process_id)
   }"

definition window_is_uncloaked :: "uia \<Rightarrow> hwnd \<Rightarrow> bool calling" where
  "window_is_uncloaked W window =
     try_bind (native_call (\<lambda>t. ui_cloaked W t window)) (\<lambda>cloaked. ret (Inr (uncloaked_state cloaked)))"

definition uia_screens :: "uia \<Rightarrow> json list calling" where
  "uia_screens W = do { (ok, monitors) \<leftarrow> ask (ui_monitors W); ret (screens_of ok monitors) }"

definition geometry_hash :: "uia \<Rightarrow> json list \<Rightarrow> string" where
  "geometry_hash W displays = hash_serializable (ui_hashing W) (JArr displays)"

section \<open>Surfaces\<close>

record surface_record =
  sr_descriptor :: surface_descriptor
  sr_window :: hwnd

definition as_boolean :: "bool \<Rightarrow> 'e + bool \<Rightarrow> bool" where
  "as_boolean otherwise r = (case r of Inl _ \<Rightarrow> otherwise | Inr b \<Rightarrow> b)"

definition shown_window :: "uia \<Rightarrow> hwnd \<Rightarrow> (uia_state host, bool) state" where
  "shown_window W window = every [
     ask (\<lambda>t. \<not> ui_invalid W window \<and> ui_is_window W t window),
     ask (\<lambda>t. ui_visible W t window),
     ask (\<lambda>t. \<not> ui_iconic W t window),
     do { r \<leftarrow> window_is_uncloaked W window; ret (as_boolean False r) },
     ask (\<lambda>t. ui_root W t window = window)]"

definition is_process_of :: "uia \<Rightarrow> hwnd \<Rightarrow> u32 \<Rightarrow> string \<Rightarrow> (uia_state host, bool) state" where
  "is_process_of W window process_id generation = every [
     do { r \<leftarrow> window_process_id W window; ret (r = Inr process_id) },
     do { r \<leftarrow> uia_process_generation W process_id; ret (r = Inr generation) }]"

definition uia_descriptor :: "hashing \<Rightarrow> hwnd \<Rightarrow> u32 \<Rightarrow> string \<Rightarrow> string \<Rightarrow> native_bounds \<Rightarrow> surface_descriptor"
where
  "uia_descriptor H window process_id generation geometry b =
     (let window_id = window_identity H window generation in
      \<lparr>sd_protocol_version = protocol_version,
       sd_surface_id = surface_identity_hash H window process_id generation window_id geometry b,
       sd_backend = uia_backend_name, sd_process_id = process_id, sd_process_generation = generation,
       sd_window_id = window_id, sd_display_geometry_hash = geometry, sd_bounds = Some (rect_of b)\<rparr>)"

text \<open>\<open>surface_descriptor\<close>; its error, a value that cannot be serialized, does not occur.\<close>

definition surface_descriptor_of :: "uia \<Rightarrow> hwnd \<Rightarrow> u32 \<Rightarrow> string \<Rightarrow> string \<Rightarrow> json list
    \<Rightarrow> (uia_state host, surface_descriptor option) state" where
  "surface_descriptor_of W window process_id generation geometry displays = do {
     shown \<leftarrow> shown_window W window;
     if \<not> shown then ret None
     else do {
       rectangle \<leftarrow> ask (\<lambda>t. ui_rect W t window);
       case map_option native_bounds_of rectangle of
         Some (Inr b) \<Rightarrow>
           if \<not> intersects_displays b displays then ret None
           else do {
             same \<leftarrow> is_process_of W window process_id generation;
             ret (if same then Some (uia_descriptor (ui_hashing W) window process_id generation geometry b)
                  else None)
           }
       | _ \<Rightarrow> ret None
     }
   }"

text \<open>The callback of the enumeration: the windows taken, and whether it stopped because there are too many.\<close>

fun collect_windows :: "uia \<Rightarrow> hwnd list \<Rightarrow> hwnd list \<Rightarrow> (uia_state host, hwnd list \<times> bool) state" where
  "collect_windows W [] taken = ret (taken, False)"
| "collect_windows W (window # windows) taken = do {
     shown \<leftarrow> every [ask (\<lambda>t. ui_visible W t window), ask (\<lambda>t. \<not> ui_iconic W t window)];
     if \<not> shown then collect_windows W windows taken
     else if max_windows \<le> length taken then ret (taken, True)
     else collect_windows W windows (taken @ [window])
   }"

definition uia_windows :: "uia \<Rightarrow> i64 \<Rightarrow> hwnd list observing" where
  "uia_windows W deadline = do {
     (ok, presented) \<leftarrow> ask (ui_enumerate W);
     (taken, full) \<leftarrow> collect_windows W presented [];
     if \<not> ok \<and> \<not> full then observation_boundary_error deadline call_failed else ret (Inr taken)
   }"

fun describe_windows :: "uia \<Rightarrow> i64 \<Rightarrow> string \<Rightarrow> json list \<Rightarrow> hwnd list \<Rightarrow> surface_record list observing" where
  "describe_windows W deadline geometry displays [] = ret (Inr [])"
| "describe_windows W deadline geometry displays (window # windows) =
     try_bind (check_protocol_boundary deadline) (\<lambda>_. do {
       process_id \<leftarrow> window_process_id W window;
       found \<leftarrow> (case process_id of
           Inl _ \<Rightarrow> ret None
         | Inr pid \<Rightarrow> do {
             generation \<leftarrow> uia_process_generation W pid;
             case generation of
               Inl _ \<Rightarrow> ret None
             | Inr g \<Rightarrow> surface_descriptor_of W window pid g geometry displays
           });
       try_bind (describe_windows W deadline geometry displays windows) (\<lambda>records.
       ret (Inr (case found of
           None \<Rightarrow> records
         | Some d \<Rightarrow> \<lparr>sr_descriptor = d, sr_window = window\<rparr> # records)))
     })"

definition surface_records :: "uia \<Rightarrow> i64 \<Rightarrow> surface_record list observing" where
  "surface_records W deadline =
     try_bind (check_protocol_boundary deadline) (\<lambda>_.
     try_bind (or_boundary_error deadline call_failed (uia_screens W)) (\<lambda>displays.
     try_bind (uia_windows W deadline) (\<lambda>windows.
     try_bind (check_protocol_boundary deadline) (\<lambda>_.
     try_bind (describe_windows W deadline (geometry_hash W displays) displays windows) (\<lambda>records.
     ret (Inr (sort_key (\<lambda>r. sd_surface_id (sr_descriptor r)) records)))))))"

definition uia_list_surfaces :: "uia \<Rightarrow> i64 \<Rightarrow> surface_descriptor list observing" where
  "uia_list_surfaces W deadline =
     try_bind (surface_records W deadline) (\<lambda>records. ret (Inr (map sr_descriptor records)))"

text \<open>\<open>validate_surface_record\<close>\<close>

definition validate_surface :: "uia \<Rightarrow> i64 \<Rightarrow> surface_descriptor \<Rightarrow> hwnd \<Rightarrow> unit observing" where
  "validate_surface W deadline expected window =
     try_bind (check_protocol_boundary deadline) (\<lambda>_.
     try_bind (or_boundary_error deadline call_failed (uia_screens W)) (\<lambda>displays.
     let geometry = geometry_hash W displays in
     if geometry \<noteq> sd_display_geometry_hash expected
     then ret (Inl (StaleTarget ''selected surface display topology changed''))
     else do {
       current \<leftarrow> surface_descriptor_of W window (sd_process_id expected) (sd_process_generation expected)
         geometry displays;
       case current of
         None \<Rightarrow> ret (Inl (StaleTarget ''selected surface changed''))
       | Some d \<Rightarrow> try_bind (check_protocol_boundary deadline) (\<lambda>_.
           ret (ensure (d = expected) (StaleTarget ''selected surface changed'')))
     }))"

section \<open>Elements\<close>

definition runtime_values :: "uia \<Rightarrow> uia_node \<Rightarrow> runtime_id calling" where
  "runtime_values W node = native_call (\<lambda>t. Option.bind (ui_runtime_id W t node) safe_array_values)"

text \<open>The native window of the element or of its nearest ancestor that has one, at most 64 steps up.\<close>

fun climb_to_window :: "uia \<Rightarrow> i64 \<Rightarrow> nat \<Rightarrow> uia_node \<Rightarrow> hwnd calling" where
  "climb_to_window W deadline 0 node = ret (Inl NativeError)"
| "climb_to_window W deadline (Suc n) node = try_bind (unless_ended deadline) (\<lambda>_. do {
     window \<leftarrow> ask (\<lambda>t. case ui_native_window W t node of
         Some w \<Rightarrow> if ui_invalid W w then None else Some w | None \<Rightarrow> None);
     case window of
       Some w \<Rightarrow> do { root \<leftarrow> ask (\<lambda>t. ui_root W t w); ret (Inr (if ui_invalid W root then w else root)) }
     | None \<Rightarrow> try_bind (native_call (\<lambda>t. ui_parent W t node)) (climb_to_window W deadline n)
   })"

definition element_window :: "uia \<Rightarrow> i64 \<Rightarrow> uia_node \<Rightarrow> hwnd calling" where
  "element_window W deadline node = try_bind (native_step (ui_walker W)) (\<lambda>_. climb_to_window W deadline 64 node)"

definition positive_process :: "i32 \<Rightarrow> native_error + u32" where
  "positive_process pid = (if 0 < sint pid then Inr (word_of_int (sint pid)) else Inl NativeError)"

text \<open>A pattern of the element and a fact about it that may fail.\<close>

definition pattern_fact :: "(nat \<Rightarrow> bool) \<Rightarrow> (nat \<Rightarrow> bool option) \<Rightarrow> bool \<Rightarrow> (uia_state host, bool) state" where
  "pattern_fact present answer value = every [ask present, ask (\<lambda>t. answer t = Some value)]"

definition describe_with_window :: "uia \<Rightarrow> i64 \<Rightarrow> uia_node \<Rightarrow> (element_state \<times> hwnd) calling" where
  "describe_with_window W deadline node =
     try_bind (unless_ended deadline) (\<lambda>_.
     try_bind (runtime_values W node) (\<lambda>ids.
     try_bind (unless_ended deadline) (\<lambda>_.
     try_bind (native_call (\<lambda>t. ui_process_id W t node)) (\<lambda>pid.
     try_bind (ret (positive_process pid)) (\<lambda>process_id.
     try_bind (uia_process_generation W process_id) (\<lambda>generation.
     try_bind (element_window W deadline node) (\<lambda>window.
     try_bind (native_call (\<lambda>t. ui_bounds W t node)) (\<lambda>rectangle.
     try_bind (ret (native_bounds_of rectangle)) (\<lambda>b.
     try_bind (unless_ended deadline) (\<lambda>_.
     try_bind (native_call (\<lambda>t. ui_enabled W t node)) (\<lambda>is_enabled.
     try_bind (native_call (\<lambda>t. ui_offscreen W t node)) (\<lambda>offscreen.
     try_bind (native_call (\<lambda>t. ui_control_type W t node)) (\<lambda>control. do {
     name \<leftarrow> ask (\<lambda>t. ui_name W t node);
     try_bind (unless_ended deadline) (\<lambda>_. do {
     can_invoke \<leftarrow> ask (\<lambda>t. ui_invoke_pattern W t node);
     can_edit \<leftarrow> pattern_fact (\<lambda>t. ui_value_pattern W t node) (\<lambda>t. ui_read_only W t node) False;
     scrollable \<leftarrow> ask (\<lambda>t. ui_scroll_pattern W t node);
     horizontal \<leftarrow> every [ret scrollable, ask (\<lambda>t. ui_horizontal W t node = Some True)];
     vertical \<leftarrow> every [ret scrollable, ask (\<lambda>t. ui_vertical W t node = Some True)];
     try_bind (unless_ended deadline) (\<lambda>_.
     ret (Inr (\<lparr>es_runtime_id = ids, es_process_id = process_id, es_process_generation = generation,
       es_window_id = window_identity (ui_hashing W) window generation,
       es_role = ''uia-'' @ show_int (sint control), es_name = bounded_bstr name, es_bounds = b,
       es_visible = (\<not> offscreen), es_enabled = is_enabled, es_invokable = can_invoke,
       es_editable = can_edit, es_horizontally_scrollable = horizontal,
       es_vertically_scrollable = vertical\<rparr>, window)))
     }) }))))))))))))) "

definition describe :: "uia \<Rightarrow> i64 \<Rightarrow> uia_node \<Rightarrow> element_state calling" where
  "describe W deadline node = try_bind (describe_with_window W deadline node) (\<lambda>p. ret (Inr (fst p)))"

abbreviation element_print :: "uia \<Rightarrow> element_state \<Rightarrow> string" where
  "element_print W \<equiv> element_fingerprint_of (ui_hashing W)"

section \<open>The shared desktop\<close>

definition focused_identity :: "uia \<Rightarrow> i64 \<Rightarrow> uia_focus calling" where
  "focused_identity W deadline =
     try_bind (unless_ended deadline) (\<lambda>_.
     try_bind (native_call (ui_focused W)) (\<lambda>node.
     try_bind (unless_ended deadline) (\<lambda>_.
     try_bind (describe_with_window W deadline node) (\<lambda>(s, window).
     try_bind (unless_ended deadline) (\<lambda>_. do {
       same \<leftarrow> is_process_of W window (es_process_id s) (es_process_generation s);
       ret (if same then Inr \<lparr>uf_window = window, uf_process_id = es_process_id s,
              uf_process_generation = es_process_generation s, uf_runtime_id = es_runtime_id s,
              uf_fingerprint_hash = element_print W s\<rparr>
            else Inl NativeError)
     })))))"

text \<open>\<open>.map_err(|_| shared_context_error(..))?\<close>\<close>

abbreviation or_context_error :: "i64 \<Rightarrow> (uia_state host, 'e + 'a) state \<Rightarrow> 'a observing" where
  "or_context_error deadline \<equiv> or_boundary_error deadline shared_context_unavailable"

definition uia_context_hash :: "uia \<Rightarrow> i64 \<Rightarrow> string observing" where
  "uia_context_hash W deadline =
     try_bind (check_protocol_boundary deadline) (\<lambda>_. do {
     window \<leftarrow> ask (ui_foreground W);
     there \<leftarrow> ask (\<lambda>t. \<not> ui_invalid W window \<and> ui_is_window W t window);
     if \<not> there then observation_boundary_error deadline shared_context_unavailable
     else
     try_bind (check_protocol_boundary deadline) (\<lambda>_.
     try_bind (or_context_error deadline (window_process_id W window)) (\<lambda>process_id.
     try_bind (or_context_error deadline (uia_process_generation W process_id)) (\<lambda>generation.
     try_bind (check_protocol_boundary deadline) (\<lambda>_.
     try_bind (or_context_error deadline (new_automation W deadline)) (\<lambda>_.
     try_bind (or_context_error deadline (focused_identity W deadline)) (\<lambda>focused.
     try_bind (check_protocol_boundary deadline) (\<lambda>_.
     if \<not> focus_matches_foreground window process_id generation focused
     then observation_boundary_error deadline shared_context_unavailable
     else
     try_bind (or_context_error deadline (native_call (ui_cursor W))) (\<lambda>cursor.
     try_bind (check_protocol_boundary deadline) (\<lambda>_.
     try_bind (or_context_error deadline (focused_identity W deadline)) (\<lambda>focused_after.
     try_bind (check_protocol_boundary deadline) (\<lambda>_. do {
     window_after \<leftarrow> ask (ui_foreground W);
     try_bind (or_context_error deadline (window_process_id W window)) (\<lambda>process_id_after.
     try_bind (or_context_error deadline (uia_process_generation W process_id)) (\<lambda>generation_after.
     try_bind (check_protocol_boundary deadline) (\<lambda>_.
     if window_after \<noteq> window \<or> process_id_after \<noteq> process_id
        \<or> generation_after \<noteq> generation \<or> focused_after \<noteq> focused
     then observation_boundary_error deadline shared_context_unavailable
     else ret (Inr (shared_context_identity_hash (ui_hashing W) (window, process_id, generation) cursor focused)))))
     })))))))))))
     })"

end
