(* ===== verification/UiaTree.thy ===== *)
theory UiaTree
  imports Uia
begin

text \<open>
  windows_uia.rs: the snapshot of a window - the breadth-first walk over the control view with its
  budget for paths, the private mapping that is stored with it - and the operations that start
  from a snapshot: the foreground, a chosen surface, the focused target.
\<close>

section \<open>The queue\<close>

type_synonym pending = "uia_node \<times> string option \<times> runtime_id list"

definition optional_node :: "(nat \<Rightarrow> walked) \<Rightarrow> uia_node option calling" where
  "optional_node question = do {
     v \<leftarrow> ask question;
     ret (case v of Walked n \<Rightarrow> Inr (Some n) | NoNode \<Rightarrow> Inr None | WalkFailed \<Rightarrow> Inl NativeError)
   }"

definition accept_sibling :: "nat \<Rightarrow> runtime_id list \<Rightarrow> runtime_id \<Rightarrow> bool" where
  "accept_sibling queued siblings ids \<longleftrightarrow> queued < max_semantic_elements \<and> ids \<notin> set siblings"

text \<open>
  The loop over the children from \<open>child\<close> on; the answer is whether some were left out, with the
  budget and the queue.
\<close>

function enqueue_siblings :: "uia \<Rightarrow> i64 \<Rightarrow> string option \<Rightarrow> runtime_id list \<Rightarrow> uia_node \<Rightarrow> runtime_id list
    \<Rightarrow> path_budget \<Rightarrow> pending list \<Rightarrow> (bool \<times> path_budget \<times> pending list) observing" where
  "enqueue_siblings W deadline parent path child siblings budget queue =
     try_bind (check_protocol_boundary deadline) (\<lambda>_.
     try_bind (or_boundary_error deadline call_failed (runtime_values W child)) (\<lambda>ids.
     try_bind (check_protocol_boundary deadline) (\<lambda>_.
     if \<not> accept_sibling (length queue) siblings ids then ret (Inr (True, budget, queue))
     else
     try_bind (ret (charge budget path)) (\<lambda>budget.
     try_bind (or_boundary_error deadline call_failed (optional_node (\<lambda>t. ui_next_sibling W t child))) (\<lambda>following.
     case following of
       None \<Rightarrow> ret (Inr (False, budget, queue @ [(child, parent, path)]))
     | Some sibling \<Rightarrow> try_bind (check_protocol_boundary deadline) (\<lambda>_.
         enqueue_siblings W deadline parent path sibling (ids # siblings) budget
           (queue @ [(child, parent, path)])))))))"
  by pat_completeness auto

termination enqueue_siblings
  by (relation "measure (\<lambda>(W, deadline, parent, path, child, siblings, budget, queue).
      max_semantic_elements - length queue)") (auto simp: accept_sibling_def)

declare enqueue_siblings.simps [simp del]

definition enqueue_children :: "uia \<Rightarrow> i64 \<Rightarrow> uia_node \<Rightarrow> string option \<Rightarrow> runtime_id list
    \<Rightarrow> path_budget \<Rightarrow> pending list \<Rightarrow> (bool \<times> path_budget \<times> pending list) observing" where
  "enqueue_children W deadline node parent path budget queue =
     try_bind (check_protocol_boundary deadline) (\<lambda>_.
     if max_runtime_path_depth \<le> length path then ret (Inr (True, budget, queue))
     else
     try_bind (or_boundary_error deadline call_failed (optional_node (\<lambda>t. ui_first_child W t node))) (\<lambda>first.
     case first of
       None \<Rightarrow> ret (Inr (False, budget, queue))
     | Some child \<Rightarrow> try_bind (check_protocol_boundary deadline) (\<lambda>_.
         enqueue_siblings W deadline parent path child [] budget queue)))"

section \<open>The walk\<close>

record uia_tree =
  ut_budget :: path_budget
  ut_queue :: "pending list"
  ut_seen :: "(runtime_id \<times> nat) list"
  ut_elements :: "semantic_element list"
  ut_entries :: "mapping_entry list"
  ut_truncated :: bool

definition snapshot_failed :: protocol_error where
  "snapshot_failed = ExecutorError ''semantic snapshot failed''"

definition from_snapshot :: "semantic_error + 'a \<Rightarrow> protocol_error + 'a" where
  "from_snapshot r = map_sum (\<lambda>_. snapshot_failed) id r"

definition add_children :: "uia \<Rightarrow> i64 \<Rightarrow> uia_node \<Rightarrow> string option \<Rightarrow> runtime_id list \<Rightarrow> uia_tree \<Rightarrow> uia_tree observing"
where
  "add_children W deadline node parent path s =
     try_bind (enqueue_children W deadline node parent path (ut_budget s) (ut_queue s)) (\<lambda>(full, budget, queue).
     ret (Inr (s\<lparr>ut_budget := budget, ut_queue := queue, ut_truncated := ut_truncated s \<or> full\<rparr>)))"

text \<open>An element that is met again under the same runtime id.\<close>

definition mark_ambiguous :: "nat \<Rightarrow> uia_tree \<Rightarrow> uia_tree" where
  "mark_ambiguous index s =
     s\<lparr>ut_elements := (let e = ut_elements s ! index in
         (ut_elements s)[index := e\<lparr>se_actionability := (se_actionability e)\<lparr>unambiguous := False\<rparr>\<rparr>]),
       ut_entries := (ut_entries s)[index := (ut_entries s ! index)\<lparr>me_unambiguous := False\<rparr>]\<rparr>"

definition uia_element :: "string \<Rightarrow> string \<Rightarrow> string option \<Rightarrow> string \<Rightarrow> element_state \<Rightarrow> bool \<Rightarrow> bool
    \<Rightarrow> semantic_element" where
  "uia_element tag element_id parent fingerprint e is_stable receives = \<lparr>se_tag = tag, se_element_id = element_id,
     se_parent_id = parent, se_fingerprint_hash = fingerprint, se_role = es_role e, se_name = es_name e,
     se_bounds = Some (rect_of (es_bounds e)),
     se_actionability = \<lparr>visible = es_visible e, enabled = es_enabled e, unambiguous = True,
       stable = is_stable, receives_events = receives, invokable = es_invokable e,
       editable = es_editable e\<rparr>\<rparr>"

definition record_element :: "uia \<Rightarrow> i64 \<Rightarrow> string \<Rightarrow> uia_node \<Rightarrow> string option \<Rightarrow> runtime_id list
    \<Rightarrow> element_state \<Rightarrow> uia_tree \<Rightarrow> uia_tree observing" where
  "record_element W deadline observation_id node parent path e s = do {
     repeated \<leftarrow> describe W deadline node;
     let fingerprint = element_print W e;
     let is_stable = (case repeated of Inl _ \<Rightarrow> False | Inr r \<Rightarrow> element_print W r = fingerprint);
     let truncated = (ut_truncated s \<or> (case repeated of Inl _ \<Rightarrow> True | Inr _ \<Rightarrow> False));
     let index = length (ut_elements s);
     let entry_path = path @ [es_runtime_id e];
     try_bind (check_protocol_boundary deadline) (\<lambda>_.
     try_bind (ret (from_snapshot (opaque_element_id (ui_hashing W) observation_id
         (runtime_id_text (es_runtime_id e))))) (\<lambda>element_id.
     try_bind (check_protocol_boundary deadline) (\<lambda>_.
     try_bind (ret (from_snapshot (semantic_tag index))) (\<lambda>tag.
     try_bind (ret (charge_appended (ut_budget s) path (es_runtime_id e))) (\<lambda>budget.
     add_children W deadline node (Some element_id) entry_path
       (s\<lparr>ut_budget := budget, ut_seen := (es_runtime_id e, index) # ut_seen s,
          ut_elements := ut_elements s @ [uia_element tag element_id parent fingerprint e is_stable
            (es_visible e \<and> es_enabled e)],
          ut_entries := ut_entries s @ [\<lparr>me_element_id = element_id, me_runtime_id = es_runtime_id e,
            me_runtime_path = entry_path, me_fingerprint_hash = fingerprint, me_unambiguous = True,
            me_stable = is_stable\<rparr>],
          ut_truncated := truncated\<rparr>))))))
   }"

text \<open>An element of another process or window than the surface.\<close>

definition foreign :: "surface_descriptor \<Rightarrow> element_state \<Rightarrow> bool" where
  "foreign d e \<longleftrightarrow> es_process_id e \<noteq> sd_process_id d \<or> es_process_generation e \<noteq> sd_process_generation d
     \<or> es_window_id e \<noteq> sd_window_id d"

fun visit :: "uia \<Rightarrow> i64 \<Rightarrow> surface_descriptor \<Rightarrow> string \<Rightarrow> pending \<Rightarrow> uia_tree \<Rightarrow> uia_tree observing" where
  "visit W deadline d observation_id (node, parent, path) s = do {
     described \<leftarrow> describe W deadline node;
     try_bind (check_protocol_boundary deadline) (\<lambda>_.
     case described of
       Inl _ \<Rightarrow> add_children W deadline node parent path (s\<lparr>ut_truncated := True\<rparr>)
     | Inr e \<Rightarrow>
         if foreign d e then add_children W deadline node parent path s
         else (case map_of (ut_seen s) (es_runtime_id e) of
             Some index \<Rightarrow> add_children W deadline node parent path (mark_ambiguous index s)
           | None \<Rightarrow> record_element W deadline observation_id node parent path e s))
   }"

function read_uia_tree :: "uia \<Rightarrow> i64 \<Rightarrow> surface_descriptor \<Rightarrow> string \<Rightarrow> nat \<Rightarrow> uia_tree \<Rightarrow> uia_tree observing" where
  "read_uia_tree W deadline d observation_id visited s = (case ut_queue s of
       [] \<Rightarrow> ret (Inr s)
     | p # rest \<Rightarrow>
         try_bind (check_protocol_boundary deadline) (\<lambda>_.
         if max_semantic_elements \<le> visited \<or> max_semantic_elements \<le> length (ut_elements s)
         then ret (Inr (s\<lparr>ut_queue := rest, ut_truncated := True\<rparr>))
         else
         try_bind (visit W deadline d observation_id p (s\<lparr>ut_queue := rest\<rparr>)) (\<lambda>s'.
         read_uia_tree W deadline d observation_id (Suc visited) s')))"
  by pat_completeness auto

termination read_uia_tree
  by (relation "measure (\<lambda>(W, deadline, d, observation_id, visited, s). max_semantic_elements - visited)") auto

declare read_uia_tree.simps [simp del]

section \<open>Private files\<close>

definition windows_join :: "string \<Rightarrow> string \<Rightarrow> string" where
  "windows_join base name =
     (if base = [] \<or> last base = CHR ''/'' \<or> last base = CHR 0x5C then base @ name
      else base @ [CHR 0x5C] @ name)"

definition windows_observation_root :: "env_vars \<Rightarrow> string \<Rightarrow> string" where
  "windows_observation_root get_env fallback =
     (case get_env ''LOCALAPPDATA'' of Some dir \<Rightarrow> dir | None \<Rightarrow> fallback)"

definition mapping_path :: "uia \<Rightarrow> string \<Rightarrow> protocol_error + string" where
  "mapping_path W observation_id =
     (if \<not> is_hash observation_id then Inl (InvalidRequest ''invalid observation ID'')
      else Inr (windows_join (windows_join (windows_join
        (windows_observation_root (so_env (ui_storing W)) (so_fallback (ui_storing W))) ''praefectus'')
        ''observations'') (''semantic-'' @ observation_id @ ''.json'')))"

definition on_uia_files :: "(files host, 'a) state \<Rightarrow> (uia_state host, 'a) state" where
  "on_uia_files = on_part us_files us_files_update"

definition persist_mapping :: "uia \<Rightarrow> uia_mapping \<Rightarrow> unit observing" where
  "persist_mapping W m = try_bind (ret (mapping_path W (um_observation_id m))) (\<lambda>path.
     on_uia_files (persist_observation (so_names (ui_storing W)) path (concat (ui_print W m))))"

definition mapping_budget :: "uia \<Rightarrow> uia_mapping \<Rightarrow> protocol_error + unit" where
  "mapping_budget W m =
     ensure (count_writes max_private_mapping_bytes 0 (ui_print W m) \<noteq> None) snapshot_budget_error"

section \<open>Snapshots\<close>

definition next_uia_generation :: "(uia_state host, u64) state" where
  "next_uia_generation = do {
     g \<leftarrow> get_exec us_generation;
     update_exec (us_generation_update (\<lambda>g. g + 1));
     ret g
   }"

definition uia_observation_id :: "uia \<Rightarrow> surface_descriptor \<Rightarrow> i64 \<Rightarrow> u64 \<Rightarrow> string" where
  "uia_observation_id W d now generation = semantic_fingerprint (ui_hashing W) (JArr [JStr uia_backend_name,
     jword (sd_process_id d), JStr (sd_process_generation d), JStr (sd_window_id d),
     JStr (sd_display_geometry_hash d), JInt now, jword generation])"

definition uia_provenance :: "u32 \<Rightarrow> string \<Rightarrow> string \<Rightarrow> string \<Rightarrow> semantic_provenance" where
  "uia_provenance process_id generation window_id geometry = \<lparr>pv_backend = Accessibility,
     pv_backend_name = uia_backend_name, pv_process_id = process_id, pv_process_generation = generation,
     pv_window_id = window_id, pv_document_id = None, pv_display_geometry_hash = geometry,
     pv_host_opt_ins = []\<rparr>"

definition uia_provenance_hash :: "hashing \<Rightarrow> string \<Rightarrow> u64 \<Rightarrow> semantic_provenance \<Rightarrow> i64 \<Rightarrow> i64 \<Rightarrow> string" where
  "uia_provenance_hash H observation_id generation p observed expires = semantic_fingerprint H (JArr [
     jword protocol_version, JStr observation_id, jword generation, semantic_provenance_json p,
     JInt observed, JInt expires])"

definition uia_expiry :: "i64 \<Rightarrow> i64" where
  "uia_expiry now = sat_add_i64 now max_semantic_observation_age_ms"

definition descriptor_provenance :: "surface_descriptor \<Rightarrow> semantic_provenance" where
  "descriptor_provenance d = uia_provenance (sd_process_id d) (sd_process_generation d) (sd_window_id d)
     (sd_display_geometry_hash d)"

definition uia_observation :: "string \<Rightarrow> u64 \<Rightarrow> surface_descriptor \<Rightarrow> i64 \<Rightarrow> uia_tree \<Rightarrow> semantic_observation" where
  "uia_observation observation_id generation d now s = \<lparr>so_protocol_version = protocol_version,
     so_observation_id = observation_id, so_generation = generation, so_provenance = descriptor_provenance d,
     so_observed_at_ms = now, so_expires_at_ms = uia_expiry now, so_truncated = ut_truncated s,
     so_elements = ut_elements s\<rparr>"

definition uia_mapping_of :: "hashing \<Rightarrow> string \<Rightarrow> u64 \<Rightarrow> surface_descriptor \<Rightarrow> hwnd \<Rightarrow> i64 \<Rightarrow> uia_tree \<Rightarrow> uia_mapping"
where
  "uia_mapping_of H observation_id generation d window now s = \<lparr>um_protocol_version = protocol_version,
     um_observation_id = observation_id, um_generation = generation,
     um_provenance_hash = uia_provenance_hash H observation_id generation (descriptor_provenance d) now (uia_expiry now),
     um_process_id = sd_process_id d, um_process_generation = sd_process_generation d,
     um_surface_id = sd_surface_id d, um_window_handle = sint window, um_window_id = sd_window_id d,
     um_display_geometry_hash = sd_display_geometry_hash d, um_observed_at_ms = now,
     um_expires_at_ms = uia_expiry now, um_entries = ut_entries s\<rparr>"

definition first_tree :: "path_budget \<Rightarrow> uia_node \<Rightarrow> uia_tree" where
  "first_tree budget node = \<lparr>ut_budget = budget, ut_queue = [(node, None, [])], ut_seen = [],
     ut_elements = [], ut_entries = [], ut_truncated = False\<rparr>"

definition uia_snapshot_window :: "uia \<Rightarrow> i64 \<Rightarrow> surface_descriptor \<Rightarrow> hwnd \<Rightarrow> semantic_observation observing" where
  "uia_snapshot_window W deadline d window =
     try_bind (check_protocol_boundary deadline) (\<lambda>_.
     try_bind (or_boundary_error deadline call_failed (new_automation W deadline)) (\<lambda>_.
     try_bind (validate_surface W deadline d window) (\<lambda>_.
     try_bind (check_protocol_boundary deadline) (\<lambda>_. do {
     generation \<leftarrow> next_uia_generation;
     if generation = 0 then ret (Inl snapshot_failed)
     else do {
     now \<leftarrow> now_ms;
     let observation_id = uia_observation_id W d now generation;
     try_bind (or_boundary_error deadline (TargetNotFound ''selected accessibility root is unavailable'')
         (native_call (\<lambda>t. ui_from_handle W t window))) (\<lambda>root.
     try_bind (check_protocol_boundary deadline) (\<lambda>_.
     try_bind (or_boundary_error deadline snapshot_failed (native_step (ui_walker W))) (\<lambda>_.
     try_bind (check_protocol_boundary deadline) (\<lambda>_.
     try_bind (ret (charge \<lparr>pb_integers = 0, pb_bytes = 0\<rparr> [])) (\<lambda>budget.
     try_bind (read_uia_tree W deadline d observation_id 0 (first_tree budget root)) (\<lambda>s.
     let obs = uia_observation observation_id generation d now s;
         m = uia_mapping_of (ui_hashing W) observation_id generation d window now s in
     try_bind (check_protocol_boundary deadline) (\<lambda>_. do {
     later \<leftarrow> now_ms;
     try_bind (ret (from_snapshot (validate_observation (ui_hashing W) obs later))) (\<lambda>_.
     try_bind (validate_surface W deadline d window) (\<lambda>_.
     try_bind (ret (mapping_budget W m)) (\<lambda>_.
     try_bind (persist_mapping W m) (\<lambda>_. ret (Inr obs)))))
     })))))))
     }
     }))))"

definition uia_snapshot_surface :: "uia \<Rightarrow> string \<Rightarrow> i64 \<Rightarrow> semantic_observation observing" where
  "uia_snapshot_surface W surface deadline =
     try_bind (check_protocol_boundary deadline) (\<lambda>_.
     try_bind (surface_records W deadline) (\<lambda>records.
     case filter (\<lambda>r. sd_surface_id (sr_descriptor r) = surface) records of
       [] \<Rightarrow> ret (Inl (TargetNotFound ''selected surface is unavailable''))
     | [r] \<Rightarrow> uia_snapshot_window W deadline (sr_descriptor r) (sr_window r)
     | _ \<Rightarrow> ret (Inl (StaleTarget ''selected surface is ambiguous''))))"

definition uia_snapshot :: "uia \<Rightarrow> i64 \<Rightarrow> semantic_observation observing" where
  "uia_snapshot W deadline =
     try_bind (check_protocol_boundary deadline) (\<lambda>_. do {
     window \<leftarrow> ask (ui_foreground W);
     if ui_invalid W window then ret (Inl (TargetNotFound ''foreground window is unavailable''))
     else
     try_bind (window_process_id W window) (\<lambda>process_id.
     try_bind (or_boundary_error deadline call_failed (uia_process_generation W process_id)) (\<lambda>generation.
     try_bind (check_protocol_boundary deadline) (\<lambda>_.
     try_bind (or_boundary_error deadline call_failed (uia_screens W)) (\<lambda>displays. do {
     found \<leftarrow> surface_descriptor_of W window process_id generation (geometry_hash W displays) displays;
     case found of
       None \<Rightarrow> ret (Inl (TargetNotFound ''foreground window is unavailable''))
     | Some d \<Rightarrow> uia_snapshot_window W deadline d window
     }))))
     })"

definition focused_changed :: protocol_error where
  "focused_changed = StaleTarget ''focused target changed''"

definition focused_in :: "uia \<Rightarrow> semantic_observation \<Rightarrow> element_state \<Rightarrow> protocol_error + semantic_target_ref" where
  "focused_in W obs e =
     (case opaque_element_id (ui_hashing W) (so_observation_id obs) (runtime_id_text (es_runtime_id e)) of
        Inl _ \<Rightarrow> Inl focused_changed
      | Inr element_id \<Rightarrow>
          (case filter (\<lambda>x. se_element_id x = element_id \<and> se_fingerprint_hash x = element_print W e)
             (so_elements obs) of
             [] \<Rightarrow> Inl (TargetNotFound ''focused target not found'')
           | [x] \<Rightarrow> map_sum (\<lambda>_. focused_changed) id (target_of (ui_hashing W) obs (se_tag x))
           | _ \<Rightarrow> Inl (StaleTarget ''focused target is ambiguous'')))"

definition uia_focused_target :: "uia \<Rightarrow> i64 \<Rightarrow> semantic_target_ref observing" where
  "uia_focused_target W deadline =
     try_bind (uia_snapshot W deadline) (\<lambda>obs.
     try_bind (or_boundary_error deadline call_failed (new_automation W deadline)) (\<lambda>_.
     try_bind (check_protocol_boundary deadline) (\<lambda>_.
     try_bind (or_boundary_error deadline call_failed (native_call (ui_focused W))) (\<lambda>node.
     try_bind (or_boundary_error deadline call_failed (describe W deadline node)) (\<lambda>e.
     ret (focused_in W obs e))))))"

end
