(* ===== verification/UiaBackend.thy ===== *)
theory UiaBackend
  imports UiaTree
begin

text \<open>
  windows_uia.rs: a target of a stored snapshot is found again in the live tree, along the path of
  runtime ids that was stored with it, and compared with what was observed; then it is observed,
  invoked, set or scrolled.
\<close>

section \<open>Boundaries of an effect\<close>

type_synonym 'a effecting = "(uia_state host, dispatch_error + 'a) state"

definition check_effect :: "i64 \<Rightarrow> unit effecting" where
  "check_effect deadline = do {
     c \<leftarrow> is_cancelled;
     if c then ret (Inl (interrupted CancelledBefore))
     else do {
       t \<leftarrow> now_ms;
       ret (if deadline \<le> t then Inl (interrupted ExpiredBefore) else Inr ())
     }
   }"

definition not_dispatched :: "string \<Rightarrow> dispatch_error" where
  "not_dispatched message = \<lparr>de_message = message, de_effect = NoEffect, de_code = DispatchFailed\<rparr>"

text \<open>\<open>m.map_err(|_| before_effect_error(.., message))\<close>\<close>

definition or_no_effect :: "i64 \<Rightarrow> string \<Rightarrow> (uia_state host, 'e + 'a) state \<Rightarrow> 'a effecting" where
  "or_no_effect deadline message m = do {
     r \<leftarrow> m;
     case r of
       Inr x \<Rightarrow> ret (Inr x)
     | Inl _ \<Rightarrow> do {
         b \<leftarrow> check_effect deadline;
         ret (Inl (case b of Inl e \<Rightarrow> e | Inr _ \<Rightarrow> not_dispatched message))
       }
   }"

text \<open>\<open>m.map_err(|_| no_effect(message))\<close>\<close>

definition or_refused :: "string \<Rightarrow> (uia_state host, 'e + 'a) state \<Rightarrow> 'a effecting" where
  "or_refused message m = do {
     r \<leftarrow> m;
     ret (case r of Inl _ \<Rightarrow> Inl (refused message) | Inr x \<Rightarrow> Inr x)
   }"

definition accept_if :: "bool \<Rightarrow> string \<Rightarrow> unit effecting" where
  "accept_if c message = ret (ensure c (refused message))"

section \<open>The stored mapping\<close>

definition load_mapping :: "uia \<Rightarrow> string \<Rightarrow> uia_mapping observing" where
  "load_mapping W observation_id = try_bind (ret (mapping_path W observation_id)) (\<lambda>path.
     try_bind host_io (\<lambda>_. do {
     opened \<leftarrow> host_io;
     content \<leftarrow> get_exec (\<lambda>s. us_files s path);
     case content of
       None \<Rightarrow> ret (Inl (StaleTarget ''semantic observation is unavailable''))
     | Some bytes \<Rightarrow>
         if opened \<noteq> Inr () then ret (Inl (StaleTarget ''semantic observation is unavailable''))
         else try_bind host_io (\<lambda>_. do {
           r \<leftarrow> next_io;
           ret (case (r, ui_read W bytes) of
               (IoOk, Some m) \<Rightarrow> Inr m
             | _ \<Rightarrow> Inl (StaleTarget ''semantic observation is invalid''))
         })
   }))"

text \<open>What a mapping must have in common with the target, but for the clock.\<close>

definition mapping_names :: "uia_mapping \<Rightarrow> semantic_target_ref \<Rightarrow> bool" where
  "mapping_names m target \<longleftrightarrow> um_protocol_version m = protocol_version
     \<and> um_observation_id m = t_observation_id target \<and> um_generation m = t_generation target
     \<and> um_provenance_hash m = t_provenance_hash target \<and> 0 < um_observed_at_ms m
     \<and> sat_sub_i64 (um_expires_at_ms m) (um_observed_at_ms m) = max_semantic_observation_age_ms"

definition mapping_provenance :: "uia_mapping \<Rightarrow> semantic_provenance" where
  "mapping_provenance m = uia_provenance (um_process_id m) (um_process_generation m) (um_window_id m)
     (um_display_geometry_hash m)"

definition provenance_holds :: "hashing \<Rightarrow> uia_mapping \<Rightarrow> bool" where
  "provenance_holds H m \<longleftrightarrow> uia_provenance_hash H (um_observation_id m) (um_generation m) (mapping_provenance m)
     (um_observed_at_ms m) (um_expires_at_ms m) = um_provenance_hash m"

definition entry_for :: "uia_mapping \<Rightarrow> semantic_target_ref \<Rightarrow> dispatch_error + mapping_entry" where
  "entry_for m target = (case filter (\<lambda>e. me_element_id e = t_element_id target) (um_entries m) of
       [] \<Rightarrow> Inl (refused ''semantic target is unavailable'')
     | [e] \<Rightarrow> if me_fingerprint_hash e \<noteq> t_fingerprint_hash target
              then Inl (refused ''semantic target is ambiguous or stale'') else Inr e
     | _ \<Rightarrow> Inl (refused ''semantic target is ambiguous or stale''))"

definition valid_runtime_id :: "runtime_id \<Rightarrow> bool" where
  "valid_runtime_id ids \<longleftrightarrow> ids \<noteq> [] \<and> length ids \<le> 64"

definition valid_entry :: "hashing \<Rightarrow> string \<Rightarrow> mapping_entry \<Rightarrow> bool" where
  "valid_entry H observation_id e \<longleftrightarrow> valid_runtime_id (me_runtime_id e) \<and> me_runtime_path e \<noteq> []
     \<and> length (me_runtime_path e) \<le> max_runtime_path_depth
     \<and> list_all valid_runtime_id (me_runtime_path e) \<and> last (me_runtime_path e) = me_runtime_id e
     \<and> opaque_element_id H observation_id (runtime_id_text (me_runtime_id e)) = Inr (me_element_id e)"

definition stored_entry :: "uia \<Rightarrow> uia_mapping \<Rightarrow> semantic_target_ref \<Rightarrow> mapping_entry effecting" where
  "stored_entry W m target =
     (if \<not> mapping_names m target then ret (Inl (refused ''semantic target is stale''))
      else do {
        now \<leftarrow> now_ms;
        if um_expires_at_ms m \<le> now \<or> max_semantic_elements < length (um_entries m)
        then ret (Inl (refused ''semantic target is stale''))
        else
        try_bind (accept_if (provenance_holds (ui_hashing W) m) ''semantic target is stale'') (\<lambda>_.
        try_bind (ret (entry_for m target)) (\<lambda>e.
        try_bind (accept_if (valid_entry (ui_hashing W) (um_observation_id m) e) ''semantic target is stale'') (\<lambda>_.
        try_bind (accept_if (me_unambiguous e) ''semantic target was ambiguous when observed'') (\<lambda>_.
        try_bind (accept_if (me_stable e) ''semantic target was unstable when observed'') (\<lambda>_.
        ret (Inr e))))))
      })"

section \<open>The window of the mapping\<close>

definition mapping_window :: "uia_mapping \<Rightarrow> hwnd" where
  "mapping_window m = word_of_int (um_window_handle m)"

definition same_window :: "uia \<Rightarrow> uia_mapping \<Rightarrow> unit effecting" where
  "same_window W m = (let window = mapping_window m in do {
     shown \<leftarrow> every [ask (\<lambda>t. \<not> ui_invalid W window \<and> ui_is_window W t window),
       ask (\<lambda>t. ui_visible W t window), ask (\<lambda>t. \<not> ui_iconic W t window)];
     try_bind (accept_if shown ''semantic surface changed'') (\<lambda>_.
     try_bind (or_refused ''semantic surface is unavailable'' (window_process_id W window)) (\<lambda>process_id.
     try_bind (accept_if (process_id = um_process_id m) ''semantic surface changed'') (\<lambda>_.
     try_bind (or_refused ''semantic surface is unavailable'' (uia_process_generation W (um_process_id m))) (\<lambda>generation.
     accept_if (generation = um_process_generation m
       \<and> window_identity (ui_hashing W) window (um_process_generation m) = um_window_id m)
       ''semantic surface changed''))))
   })"

definition same_geometry :: "uia \<Rightarrow> i64 \<Rightarrow> uia_mapping \<Rightarrow> unit effecting" where
  "same_geometry W deadline m =
     try_bind (or_no_effect deadline ''display geometry is unavailable'' (uia_screens W)) (\<lambda>displays.
     try_bind (check_effect deadline) (\<lambda>_.
     accept_if (geometry_hash W displays = um_display_geometry_hash m) ''display geometry changed''))"

definition same_surface :: "uia \<Rightarrow> i64 \<Rightarrow> uia_mapping \<Rightarrow> unit effecting" where
  "same_surface W deadline m =
     try_bind (or_no_effect deadline ''display geometry is unavailable'' (uia_screens W)) (\<lambda>displays. do {
     found \<leftarrow> surface_descriptor_of W (mapping_window m) (um_process_id m) (um_process_generation m)
       (um_display_geometry_hash m) displays;
     case found of
       None \<Rightarrow> ret (Inl (refused ''semantic surface is unavailable''))
     | Some d \<Rightarrow> accept_if (sd_surface_id d = um_surface_id m) ''semantic surface changed''
   })"

section \<open>The path\<close>

text \<open>The one child with the runtime id among at most \<open>n\<close> siblings from \<open>child\<close> on.\<close>

fun find_child :: "uia \<Rightarrow> i64 \<Rightarrow> runtime_id \<Rightarrow> nat \<Rightarrow> uia_node \<Rightarrow> uia_node option \<Rightarrow> uia_node option effecting" where
  "find_child W deadline ids 0 child found = ret (Inr found)"
| "find_child W deadline ids (Suc n) child found =
     try_bind (check_effect deadline) (\<lambda>_. do {
     v \<leftarrow> runtime_values W child;
     if v = Inr ids \<and> found \<noteq> None then ret (Inl (refused ''semantic target path is ambiguous''))
     else
     let found' = (if v = Inr ids then Some child else found) in
     try_bind (or_no_effect deadline ''semantic target path is unavailable''
         (optional_node (\<lambda>t. ui_next_sibling W t child))) (\<lambda>following.
     case following of
       None \<Rightarrow> ret (Inr found')
     | Some sibling \<Rightarrow>
         if n = 0 then ret (Inl (refused ''semantic target path is too large''))
         else find_child W deadline ids n sibling found')
     })"

definition step_down :: "uia \<Rightarrow> i64 \<Rightarrow> uia_node \<Rightarrow> runtime_id \<Rightarrow> uia_node effecting" where
  "step_down W deadline node ids =
     try_bind (check_effect deadline) (\<lambda>_.
     try_bind (or_no_effect deadline ''semantic target path is unavailable''
         (optional_node (\<lambda>t. ui_first_child W t node))) (\<lambda>first.
     case first of
       None \<Rightarrow> ret (Inl (refused ''semantic target path changed''))
     | Some child \<Rightarrow>
         try_bind (find_child W deadline ids max_semantic_elements child None) (\<lambda>found.
         ret (case found of
             None \<Rightarrow> Inl (refused ''semantic target path changed'')
           | Some n \<Rightarrow> Inr n))))"

fun walk_down :: "uia \<Rightarrow> i64 \<Rightarrow> uia_node \<Rightarrow> runtime_id list \<Rightarrow> uia_node effecting" where
  "walk_down W deadline node [] = ret (Inr node)"
| "walk_down W deadline node (ids # path) =
     try_bind (step_down W deadline node ids) (\<lambda>child. walk_down W deadline child path)"

fun resolve_runtime_path :: "uia \<Rightarrow> i64 \<Rightarrow> hwnd \<Rightarrow> runtime_id list \<Rightarrow> uia_node effecting" where
  "resolve_runtime_path W deadline window [] = ret (Inl (refused ''semantic target path is unavailable''))"
| "resolve_runtime_path W deadline window (ids # path) =
     try_bind (check_effect deadline) (\<lambda>_.
     try_bind (or_no_effect deadline ''semantic surface is unavailable''
         (native_call (\<lambda>t. ui_from_handle W t window))) (\<lambda>top_node.
     try_bind (check_effect deadline) (\<lambda>_.
     try_bind (or_refused ''semantic surface changed'' (runtime_values W top_node)) (\<lambda>top_ids.
     try_bind (accept_if (top_ids = ids) ''semantic surface changed'') (\<lambda>_.
     try_bind (or_no_effect deadline ''semantic target path is unavailable'' (native_step (ui_walker W))) (\<lambda>_.
     walk_down W deadline top_node path))))))"

section \<open>Resolution\<close>

text \<open>What a live element must have in common with the mapping and the entry.\<close>

definition live_state :: "uia \<Rightarrow> uia_mapping \<Rightarrow> mapping_entry \<Rightarrow> element_state \<Rightarrow> bool" where
  "live_state W m e s \<longleftrightarrow> es_runtime_id s = me_runtime_id e \<and> es_process_id s = um_process_id m
     \<and> es_process_generation s = um_process_generation m \<and> es_window_id s = um_window_id m
     \<and> element_print W s = me_fingerprint_hash e \<and> es_visible s \<and> es_enabled s"

fun index_of :: "('a \<Rightarrow> bool) \<Rightarrow> 'a list \<Rightarrow> nat" where
  "index_of P [] = 0"
| "index_of P (x # xs) = (if P x then 0 else Suc (index_of P xs))"

definition uia_resolve :: "uia \<Rightarrow> i64 \<Rightarrow> semantic_target_ref \<Rightarrow> (uia_node \<times> element_state \<times> nat) effecting" where
  "uia_resolve W deadline target =
     try_bind (check_effect deadline) (\<lambda>_.
     try_bind (or_refused ''semantic observation is unavailable'' (load_mapping W (t_observation_id target))) (\<lambda>m.
     try_bind (stored_entry W m target) (\<lambda>e.
     try_bind (check_effect deadline) (\<lambda>_.
     try_bind (same_geometry W deadline m) (\<lambda>_.
     try_bind (same_window W m) (\<lambda>_.
     try_bind (same_surface W deadline m) (\<lambda>_.
     try_bind (or_no_effect deadline ''accessibility is unavailable'' (new_automation W deadline)) (\<lambda>_.
     try_bind (check_effect deadline) (\<lambda>_.
     try_bind (resolve_runtime_path W deadline (mapping_window m) (me_runtime_path e)) (\<lambda>node.
     try_bind (check_effect deadline) (\<lambda>_.
     try_bind (or_no_effect deadline ''semantic target is unavailable'' (describe W deadline node)) (\<lambda>s.
     try_bind (check_effect deadline) (\<lambda>_.
     try_bind (accept_if (live_state W m e s) ''semantic target changed'') (\<lambda>_.
     try_bind (or_no_effect deadline ''semantic target stability is unavailable'' (describe W deadline node)) (\<lambda>repeated.
     try_bind (check_effect deadline) (\<lambda>_.
     try_bind (accept_if (element_print W repeated = me_fingerprint_hash e) ''semantic target is unstable'') (\<lambda>_.
     ret (Inr (node, repeated, index_of (\<lambda>c. me_element_id c = t_element_id target) (um_entries m))))))))))))))))))))"

text \<open>\<open>ensure_live_state\<close>\<close>

definition ensure_live :: "uia \<Rightarrow> i64 \<Rightarrow> uia_node \<Rightarrow> element_state \<Rightarrow> unit effecting" where
  "ensure_live W deadline node expected =
     try_bind (check_effect deadline) (\<lambda>_.
     try_bind (or_no_effect deadline ''semantic target is unavailable'' (describe_with_window W deadline node)) (\<lambda>(s, window).
     try_bind (check_effect deadline) (\<lambda>_.
     try_bind (accept_if (element_print W s = element_print W expected) ''semantic target changed before effect'') (\<lambda>_.
     try_bind (or_no_effect deadline ''semantic surface visibility is unavailable'' (window_is_uncloaked W window)) (\<lambda>uncloaked.
     try_bind (check_effect deadline) (\<lambda>_.
     accept_if uncloaked ''semantic surface became cloaked before effect''))))))"

section \<open>Observation of a target\<close>

definition target_unavailable :: protocol_error where
  "target_unavailable = StaleTarget ''semantic target is unavailable''"

definition uia_value_hash :: "uia \<Rightarrow> uia_node \<Rightarrow> (uia_state host, string option) state" where
  "uia_value_hash W node = do {
     present \<leftarrow> ask (\<lambda>t. ui_value_pattern W t node);
     if present then do {
       value \<leftarrow> ask (\<lambda>t. ui_value W t node);
       ret (map_option (sha256_hex (ui_hashing W)) value)
     } else ret None
   }"

definition uia_observe_target :: "uia \<Rightarrow> semantic_target_ref \<Rightarrow> i64 \<Rightarrow> (semantic_element \<times> string option) observing"
where
  "uia_observe_target W target deadline = do {
     r \<leftarrow> uia_resolve W deadline target;
     case r of
       Inl _ \<Rightarrow> ret (Inl target_unavailable)
     | Inr (node, s, index) \<Rightarrow>
         try_bind (or_boundary_error deadline target_unavailable (describe W deadline node)) (\<lambda>repeated. do {
         value_hash \<leftarrow> uia_value_hash W node;
         try_bind (ret (map_sum (\<lambda>_. StaleTarget ''semantic target is invalid'') id (semantic_tag index))) (\<lambda>tag.
         ret (Inr (uia_element tag (t_element_id target) None (t_fingerprint_hash target) s
           (element_print W s = element_print W repeated) True, value_hash)))
         })
   }"

section \<open>Effects\<close>

definition request_effect :: "uia_effect \<Rightarrow> (nat \<Rightarrow> bool) \<Rightarrow> unit effecting" where
  "request_effect e question = do {
     update_exec (us_effects_update (\<lambda>l. l @ [e]));
     done_ok \<leftarrow> ask question;
     ret (ensure done_ok (ambiguous ''accessibility action outcome is unknown''))
   }"

definition check_effect_after :: "i64 \<Rightarrow> unit effecting" where
  "check_effect_after deadline = do {
     reached \<leftarrow> boundary_reached deadline;
     ret (if reached
          then Inl (ambiguous ''accessibility action completed at the cancellation or deadline boundary'')
          else Inr ())
   }"

definition uia_receipt :: dispatch_receipt where
  "uia_receipt = \<lparr>dr_backend = uia_backend_name, dr_fallback_chain = []\<rparr>"

text \<open>The last steps of every effect: the last look at the target and the boundary, the call, the look after it.\<close>

definition act_on :: "uia \<Rightarrow> i64 \<Rightarrow> uia_node \<Rightarrow> element_state \<Rightarrow> uia_effect \<Rightarrow> (nat \<Rightarrow> bool)
    \<Rightarrow> dispatch_receipt effecting" where
  "act_on W deadline node s e question =
     try_bind (ensure_live W deadline node s) (\<lambda>_.
     try_bind (check_effect deadline) (\<lambda>_.
     try_bind (request_effect e question) (\<lambda>_.
     try_bind (check_effect_after deadline) (\<lambda>_. ret (Inr uia_receipt)))))"

definition uia_invoke :: "uia \<Rightarrow> semantic_target_ref \<Rightarrow> i64 \<Rightarrow> dispatch_receipt effecting" where
  "uia_invoke W target deadline =
     try_bind (uia_resolve W deadline target) (\<lambda>(node, s, _).
     try_bind (or_no_effect deadline ''semantic target is not invokable''
         (native_step (\<lambda>t. ui_invoke_pattern W t node))) (\<lambda>_.
     act_on W deadline node s (UiaInvoke node) (\<lambda>t. ui_do_invoke W t node)))"

definition max_uia_value_bytes :: nat where "max_uia_value_bytes = 16 * 1024"

definition uia_set_value :: "uia \<Rightarrow> semantic_target_ref \<Rightarrow> string \<Rightarrow> i64 \<Rightarrow> dispatch_receipt effecting" where
  "uia_set_value W target value deadline =
     (if max_uia_value_bytes < length value then ret (Inl (refused ''value is too large''))
      else
      try_bind (uia_resolve W deadline target) (\<lambda>(node, s, _).
      try_bind (or_no_effect deadline ''semantic target is not editable''
          (native_step (\<lambda>t. ui_value_pattern W t node))) (\<lambda>_.
      try_bind (or_no_effect deadline ''semantic target editability is unavailable''
          (native_call (\<lambda>t. ui_read_only W t node))) (\<lambda>read_only.
      try_bind (check_effect deadline) (\<lambda>_.
      try_bind (accept_if (\<not> read_only) ''semantic target is read-only'') (\<lambda>_.
      act_on W deadline node s (UiaSetValue node value) (\<lambda>t. ui_do_set_value W t node value)))))))"

fun scroll_amounts :: "direction \<Rightarrow> element_state \<Rightarrow> (scroll_amount \<times> scroll_amount) option" where
  "scroll_amounts Up s = (if es_vertically_scrollable s then Some (NoAmount, LargeDecrement) else None)"
| "scroll_amounts Down s = (if es_vertically_scrollable s then Some (NoAmount, LargeIncrement) else None)"
| "scroll_amounts Leftward s = (if es_horizontally_scrollable s then Some (LargeDecrement, NoAmount) else None)"
| "scroll_amounts Rightward s = (if es_horizontally_scrollable s then Some (LargeIncrement, NoAmount) else None)"

definition uia_scroll :: "uia \<Rightarrow> semantic_target_ref \<Rightarrow> direction \<Rightarrow> i64 \<Rightarrow> dispatch_receipt effecting" where
  "uia_scroll W target direction deadline =
     try_bind (uia_resolve W deadline target) (\<lambda>(node, s, _).
     try_bind (or_no_effect deadline ''semantic target is not scrollable''
         (native_step (\<lambda>t. ui_scroll_pattern W t node))) (\<lambda>_.
     case scroll_amounts direction s of
       None \<Rightarrow> ret (Inl (refused ''semantic target cannot scroll in that direction''))
     | Some (horizontal, vertical) \<Rightarrow>
         act_on W deadline node s (UiaScroll node horizontal vertical)
           (\<lambda>t. ui_do_scroll W t node horizontal vertical)))"

end
