(* ===== verification/WindowsInput.thy ===== *)
theory WindowsInput
  imports LinuxInput
begin

text \<open>
  Input on Windows (lib.rs: \<open>win_key_code\<close>, \<open>win_hotkey\<close>, \<open>windows_scroll\<close>, \<open>native_click_windows\<close> and
  the Windows branches of \<open>NativeRuntime\<close>) and the hash of the screen (windows_capture.rs).

  The Windows calls are parameters (\<open>windows_input\<close>) whose answers depend on the tick.
  \<open>SendInput\<close> inserts a first part of the events it is given and returns how many.
\<close>

section \<open>Keys and events\<close>

text \<open>\<open>VK_F n\<close> is \<open>VK_F1\<close> .. \<open>VK_F12\<close>; \<open>VIRTUAL_KEY c\<close> is a code given by its number.\<close>

datatype virtual_key =
    VK_CONTROL | VK_MENU | VK_SHIFT | VK_LWIN | VK_RETURN | VK_TAB | VK_ESCAPE | VK_BACK | VK_DELETE
  | VK_SPACE | VK_UP | VK_DOWN | VK_LEFT | VK_RIGHT | VK_HOME | VK_END | VK_PRIOR | VK_NEXT
  | VK_F nat | VIRTUAL_KEY u16

text \<open>
  The \<open>INPUT\<close> structures the code builds, the position of the cursor and what becomes of the
  clipboard.  The numbers of \<open>Wheel\<close> and \<open>HWheel\<close> are \<open>mouseData\<close>.
\<close>

datatype win_event =
    KeyPress virtual_key
  | KeyRelease virtual_key
  | UnicodePress u16
  | UnicodeRelease u16
  | ButtonPress mouse_button
  | ButtonRelease mouse_button
  | Wheel u32
  | HWheel u32
  | CursorMoved u32 u32
  | ClipboardEmptied
  | ClipboardFilled "u16 list"

text \<open>\<open>wd_blocks\<close>: the blocks of memory that belong to the program.\<close>

record win_desktop =
  wd_events :: "win_event list"
  wd_clipboard_open :: bool
  wd_blocks :: nat

record windows_input =
  wi_inserted :: "nat \<Rightarrow> nat \<Rightarrow> nat"
  wi_set_cursor :: "nat \<Rightarrow> bool"
  wi_open_clipboard :: "nat \<Rightarrow> bool"
  wi_empty_clipboard :: "nat \<Rightarrow> bool"
  wi_alloc :: "nat \<Rightarrow> bool"
  wi_lock :: "nat \<Rightarrow> bool"
  wi_set_clipboard :: "nat \<Rightarrow> bool"

type_synonym 'a win_input = "(win_desktop host, native_error + 'a) state"

section \<open>Sending\<close>

definition note_events :: "win_event list \<Rightarrow> (win_desktop host, unit) state" where
  "note_events l = update_exec (wd_events_update (\<lambda>events. events @ l))"

definition send_inputs :: "windows_input \<Rightarrow> win_event list \<Rightarrow> (win_desktop host, nat) state" where
  "send_inputs W l = do {
     n \<leftarrow> ask (\<lambda>t. wi_inserted W t (length l));
     note_events (take n l);
     ret (min n (length l))
   }"

text \<open>Most callers ignore the result.\<close>

definition send_ignored :: "windows_input \<Rightarrow> win_event list \<Rightarrow> (win_desktop host, unit) state" where
  "send_ignored W l = do { n \<leftarrow> send_inputs W l; ret () }"

definition set_cursor_pos :: "windows_input \<Rightarrow> native_point \<Rightarrow> unit win_input" where
  "set_cursor_pos W p = do {
     note_events [CursorMoved (word_of_int (p_x p)) (word_of_int (p_y p))];
     ask_ok (wi_set_cursor W)
   }"

section \<open>Keys\<close>

definition ascii_upper :: "char \<Rightarrow> char" where
  "ascii_upper c = (if CHR ''a'' \<le> c \<and> c \<le> CHR ''z'' then char_of (of_char c - 32 :: nat) else c)"

definition win_key_names :: "(string \<times> virtual_key) list" where
  "win_key_names =
     [(''return'', VK_RETURN), (''enter'', VK_RETURN), (''tab'', VK_TAB), (''escape'', VK_ESCAPE),
      (''esc'', VK_ESCAPE), (''backspace'', VK_BACK), (''delete'', VK_DELETE), (''del'', VK_DELETE),
      (''space'', VK_SPACE), (''up'', VK_UP), (''down'', VK_DOWN), (''left'', VK_LEFT),
      (''right'', VK_RIGHT), (''home'', VK_HOME), (''end'', VK_END), (''pageup'', VK_PRIOR),
      (''pagedown'', VK_NEXT), (''f1'', VK_F 1), (''f2'', VK_F 2), (''f3'', VK_F 3), (''f4'', VK_F 4),
      (''f5'', VK_F 5), (''f6'', VK_F 6), (''f7'', VK_F 7), (''f8'', VK_F 8), (''f9'', VK_F 9),
      (''f10'', VK_F 10), (''f11'', VK_F 11), (''f12'', VK_F 12)]"

definition win_key_code :: "string \<Rightarrow> virtual_key option" where
  "win_key_code key = (case map_of win_key_names key of
       Some vk \<Rightarrow> Some vk
     | None \<Rightarrow> (case key of
         [c] \<Rightarrow>
           let ch = ascii_upper c in
           if (CHR ''A'' \<le> ch \<and> ch \<le> CHR ''Z'') \<or> is_ascii_digit ch
           then Some (VIRTUAL_KEY (of_char ch)) else None
       | _ \<Rightarrow> None))"

fun win_modifier :: "string \<Rightarrow> virtual_key option" where
  "win_modifier m =
     (if m = ''ctrl'' then Some VK_CONTROL
      else if m = ''alt'' then Some VK_MENU
      else if m = ''shift'' then Some VK_SHIFT
      else if m = ''win'' then Some VK_LWIN
      else None)"

definition key_tap :: "virtual_key \<Rightarrow> win_event list" where
  "key_tap vk = [KeyPress vk, KeyRelease vk]"

fun send_all :: "windows_input \<Rightarrow> win_event list list \<Rightarrow> (win_desktop host, unit) state" where
  "send_all W [] = ret ()"
| "send_all W (l # ls) = do { send_ignored W l; send_all W ls }"

definition win_hotkey :: "windows_input \<Rightarrow> string list \<Rightarrow> unit win_input" where
  "win_hotkey W keys =
     (if length keys < 2 then ret (Inl NativeError)
      else case win_key_code (last keys) of
        None \<Rightarrow> ret (Inl NativeError)
      | Some action_vk \<Rightarrow> (case those (map win_modifier (butlast keys)) of
          None \<Rightarrow> ret (Inl NativeError)
        | Some modifiers \<Rightarrow> do {
            send_all W (map (\<lambda>vk. [KeyPress vk]) modifiers);
            send_ignored W (key_tap action_vk);
            send_all W (map (\<lambda>vk. [KeyRelease vk]) (rev modifiers));
            ret (Inr ())
          }))"

definition win_press :: "windows_input \<Rightarrow> string \<Rightarrow> nat \<Rightarrow> u64 option \<Rightarrow> unit win_input" where
  "win_press W key n delay_ms = (case win_key_code key of
       None \<Rightarrow> ret (Inl NativeError)
     | Some vk \<Rightarrow>
         each (\<lambda>i. do {
           (if i > 0 then pause delay_ms else ret ());
           send_ignored W (key_tap vk);
           ret (Inr ())
         }) [0..<n])"

section \<open>Pointer\<close>

fun scroll_event :: "direction \<Rightarrow> win_event" where
  "scroll_event Up = Wheel 120"
| "scroll_event Down = Wheel (- 120)"
| "scroll_event Leftward = HWheel (- 120)"
| "scroll_event Rightward = HWheel 120"

definition windows_scroll :: "windows_input \<Rightarrow> direction \<Rightarrow> nat \<Rightarrow> unit win_input" where
  "windows_scroll W direction amount = do {
     send_all W (replicate amount [scroll_event direction]);
     ret (Inr ())
   }"

definition native_click_windows :: "windows_input \<Rightarrow> native_point \<Rightarrow> mouse_button \<Rightarrow> unit win_input" where
  "native_click_windows W p button =
     try_bind (set_cursor_pos W p) (\<lambda>_. do {
     n \<leftarrow> send_inputs W [ButtonPress button, ButtonRelease button];
     native_if (n = 2) ()
   })"

section \<open>Text\<close>

text \<open>\<open>encode_utf16\<close>\<close>

definition utf16_units :: "nat \<Rightarrow> nat list" where
  "utf16_units c = (if c < 0x10000 then [c]
     else [0xD800 + (c - 0x10000) div 1024, 0xDC00 + (c - 0x10000) mod 1024])"

definition encode_utf16 :: "string \<Rightarrow> u16 list" where
  "encode_utf16 s = map of_nat (concat (map utf16_units (chars s)))"

definition with_control :: "u16 \<Rightarrow> win_event list" where
  "with_control code =
     [KeyPress VK_CONTROL, KeyPress (VIRTUAL_KEY code), KeyRelease (VIRTUAL_KEY code), KeyRelease VK_CONTROL]"

fun type_units :: "windows_input \<Rightarrow> u64 option \<Rightarrow> u16 list \<Rightarrow> (win_desktop host, unit) state" where
  "type_units W delay_ms [] = ret ()"
| "type_units W delay_ms (u # us) = do {
     send_ignored W [UnicodePress u, UnicodeRelease u];
     pause delay_ms;
     type_units W delay_ms us
   }"

definition win_type_text :: "windows_input \<Rightarrow> string \<Rightarrow> bool \<Rightarrow> bool \<Rightarrow> u64 option \<Rightarrow> unit win_input" where
  "win_type_text W txt clear press_return delay_ms = do {
     (if clear then send_ignored W (with_control 0x41) else ret ());
     type_units W delay_ms (encode_utf16 txt);
     (if press_return then send_ignored W (key_tap VK_RETURN) else ret ());
     ret (Inr ())
   }"

section \<open>Clipboard\<close>

definition open_clipboard :: "windows_input \<Rightarrow> unit win_input" where
  "open_clipboard W =
     try_bind (ask_ok (wi_open_clipboard W)) (\<lambda>_. do {
     update_exec (wd_clipboard_open_update (\<lambda>_. True));
     ret (Inr ())
   })"

text \<open>The guard closes it whatever the result.\<close>

definition and_close :: "'a win_input \<Rightarrow> 'a win_input" where
  "and_close m = do {
     r \<leftarrow> m;
     update_exec (wd_clipboard_open_update (\<lambda>_. False));
     ret r
   }"

text \<open>A block that \<open>SetClipboardData\<close> took belongs to the system; the others are freed, or not.\<close>

definition fill_clipboard :: "windows_input \<Rightarrow> u16 list \<Rightarrow> unit win_input" where
  "fill_clipboard W wide = do {
     note_events [ClipboardEmptied];
     try_bind (ask_ok (wi_empty_clipboard W)) (\<lambda>_.
     try_bind (ask_ok (wi_alloc W)) (\<lambda>_. do {
       update_exec (wd_blocks_update Suc);
       try_bind (ask_ok (wi_lock W)) (\<lambda>_. do {
         note_events [ClipboardFilled wide];
         taken \<leftarrow> ask (wi_set_clipboard W);
         update_exec (wd_blocks_update (\<lambda>n. n - 1));
         native_if taken ()
       })
     }))
   }"

definition win_paste :: "windows_input \<Rightarrow> string \<Rightarrow> unit win_input" where
  "win_paste W txt =
     try_bind (open_clipboard W) (\<lambda>_.
     try_bind (and_close (fill_clipboard W (encode_utf16 txt @ [0]))) (\<lambda>_. do {
     send_ignored W (with_control 0x56);
     ret (Inr ())
   }))"

end
