(* ===== verification/WindowsCapture.thy ===== *)
theory WindowsCapture
  imports LinuxInput
begin

text \<open>
  windows_capture.rs: the hash of what the screens show.  The graphics calls are parameters
  (\<open>capture\<close>); the state counts the handles that the program holds, so that a leak is visible.
\<close>

text \<open>
  \<open>cp_metric\<close>: \<open>GetSystemMetrics\<close>.  \<open>cp_bits\<close>: how many lines \<open>GetDIBits\<close> copied, and the buffer
  after it.  A bitmap cannot be deleted while it is selected into a context.
\<close>

datatype metric = ScreenWidth | ScreenHeight | ScreenLeft | ScreenTop

record capture =
  cp_metric :: "nat \<Rightarrow> metric \<Rightarrow> int"
  cp_screen :: "nat \<Rightarrow> bool"
  cp_context :: "nat \<Rightarrow> bool"
  cp_bitmap :: "nat \<Rightarrow> bool"
  cp_copy :: "nat \<Rightarrow> bool"
  cp_bits :: "nat \<Rightarrow> nat \<Rightarrow> int \<times> string"

record gdi =
  gd_screens :: nat
  gd_contexts :: nat
  gd_bitmaps :: nat
  gd_selected :: bool

type_synonym 'a capturing = "(gdi host, native_error + 'a) state"

definition acquire :: "(nat \<Rightarrow> bool) \<Rightarrow> (gdi \<Rightarrow> gdi) \<Rightarrow> unit capturing" where
  "acquire question upd = do {
     ok \<leftarrow> ask question;
     if ok then do { update_exec upd; ret (Inr ()) } else ret (Inl NativeError)
   }"

definition release_screen :: "(gdi host, unit) state" where
  "release_screen = update_exec (gd_screens_update (\<lambda>n. n - 1))"

definition delete_context :: "(gdi host, unit) state" where
  "delete_context = update_exec (gd_contexts_update (\<lambda>n. n - 1))"

definition select_bitmap :: "bool \<Rightarrow> (gdi host, unit) state" where
  "select_bitmap selected = update_exec (gd_selected_update (\<lambda>_. selected))"

definition delete_bitmap :: "(gdi host, unit) state" where
  "delete_bitmap = update_exec (\<lambda>g. if gd_selected g then g else g\<lparr>gd_bitmaps := gd_bitmaps g - 1\<rparr>)"

definition release_all :: "(gdi host, unit) state" where
  "release_all = do { delete_bitmap; delete_context; release_screen }"

text \<open>What is hashed: the position and the size as big-endian 64-bit numbers, and the pixels.\<close>

definition be_i64 :: "int \<Rightarrow> string" where
  "be_i64 n = map (\<lambda>k. char_of (nat (n div 256 ^ k mod 256))) (rev [0..<8])"

definition pixels_used :: "int \<Rightarrow> int \<Rightarrow> nat" where
  "pixels_used lines width = nat lines * nat width * 4"

definition capture_text :: "int \<Rightarrow> int \<Rightarrow> int \<Rightarrow> int \<Rightarrow> int \<Rightarrow> string \<Rightarrow> string" where
  "capture_text left upper width height lines pixels =
     be_i64 left @ be_i64 upper @ be_i64 width @ be_i64 height @ take (pixels_used lines width) pixels"

definition copy_screen :: "capture \<Rightarrow> (gdi host, bool) state" where
  "copy_screen C = do {
     select_bitmap True;
     ok \<leftarrow> ask (cp_copy C);
     select_bitmap False;
     ret ok
   }"

definition read_pixels :: "hashing \<Rightarrow> capture \<Rightarrow> int \<Rightarrow> int \<Rightarrow> int \<Rightarrow> int \<Rightarrow> string capturing" where
  "read_pixels H C left upper width height = do {
     (lines, pixels) \<leftarrow> ask (\<lambda>t. cp_bits C t (nat width * nat height * 4));
     release_all;
     ret (if lines \<le> 0 then Inl NativeError
          else Inr (sha256_hex H (capture_text left upper width height lines pixels)))
   }"

definition windows_screen_content_hash :: "hashing \<Rightarrow> capture \<Rightarrow> string capturing" where
  "windows_screen_content_hash H C = do {
     width \<leftarrow> ask (\<lambda>t. cp_metric C t ScreenWidth);
     height \<leftarrow> ask (\<lambda>t. cp_metric C t ScreenHeight);
     left \<leftarrow> ask (\<lambda>t. cp_metric C t ScreenLeft);
     upper \<leftarrow> ask (\<lambda>t. cp_metric C t ScreenTop);
     if width \<le> 0 \<or> height \<le> 0 then ret (Inl NativeError)
     else
     try_bind (acquire (cp_screen C) (gd_screens_update Suc)) (\<lambda>_. do {
     context_made \<leftarrow> acquire (cp_context C) (gd_contexts_update Suc);
     case context_made of
       Inl e \<Rightarrow> do { release_screen; ret (Inl e) }
     | Inr _ \<Rightarrow> do {
         bitmap_made \<leftarrow> acquire (cp_bitmap C) (gd_bitmaps_update Suc);
         case bitmap_made of
           Inl e \<Rightarrow> do { delete_context; release_screen; ret (Inl e) }
         | Inr _ \<Rightarrow> do {
             copied \<leftarrow> copy_screen C;
             if \<not> copied then do { release_all; ret (Inl NativeError) }
             else read_pixels H C left upper width height
           }
       }
     })
   }"

text \<open>Whatever fails, no handle is kept.\<close>

lemma capture_keeps_handles:
  assumes "\<not> gd_selected g"
  shows "hoare (\<lambda>h. h_exec h = g) (windows_screen_content_hash H C) (\<lambda>_ h. h_exec h = g)"
  using assms
  by (auto simp: hoare_def windows_screen_content_hash_def acquire_def ask_def update_exec_def release_screen_def
      delete_context_def delete_bitmap_def release_all_def copy_screen_def select_bitmap_def read_pixels_def
      split: if_splits prod.splits)

end
