(* ===== verification/WindowsExecutor.thy ===== *)
theory WindowsExecutor
  imports Dispatch UiaBackend WindowsInput WindowsCapture
begin

text \<open>
  \<open>NativeExecutor\<close> on Windows (lib.rs): its capabilities, observation and resolution of targets and
  \<open>dispatch\<close>, over the input of \<open>WindowsInput\<close>, the screen of \<open>WindowsCapture\<close> and the accessibility
  of \<open>Uia\<close>.
\<close>

section \<open>State\<close>

record windows_state =
  wx_desktop :: win_desktop
  wx_gdi :: gdi
  wx_uia :: uia_state
  wx_restriction :: restriction
  wx_snapshots :: nat

text \<open>\<open>ww_root_element\<close> is \<open>GetRootElement\<close>; hashing and storing are those of \<open>ww_uia\<close>.\<close>

record windows =
  ww_input :: windows_input
  ww_capture :: capture
  ww_uia :: uia
  ww_root_element :: "nat \<Rightarrow> bool"
  ww_env :: env_vars
  ww_isolation :: session_isolation
  ww_parent_is_dir :: "string \<Rightarrow> bool"
  ww_process_id :: u32
  ww_panic :: "dispatch_error + dispatch_receipt"

type_synonym 'a on_windows = "(windows_state host, protocol_error + 'a) state"

definition on_win_desktop :: "(win_desktop host, 'a) state \<Rightarrow> (windows_state host, 'a) state" where
  "on_win_desktop = on_part wx_desktop wx_desktop_update"

definition on_gdi :: "(gdi host, 'a) state \<Rightarrow> (windows_state host, 'a) state" where
  "on_gdi = on_part wx_gdi wx_gdi_update"

definition on_uia :: "(uia_state host, 'a) state \<Rightarrow> (windows_state host, 'a) state" where
  "on_uia = on_part wx_uia wx_uia_update"

definition redacting :: "(windows_state host, native_error + 'a) state \<Rightarrow> 'a on_windows" where
  "redacting m = do { r \<leftarrow> m; ret (map_sum (\<lambda>_. redacted_error) id r) }"

section \<open>Permissions and capabilities\<close>

definition windows_allowed :: "windows \<Rightarrow> (windows_state host, bool) state" where
  "windows_allowed W = on_part wx_restriction wx_restriction_update (global_input_allowed_with_env Windows (ww_env W))"

definition uia_available :: "windows \<Rightarrow> (windows_state host, bool) state" where
  "uia_available W = do {
     r \<leftarrow> on_uia (try_bind (native_step (\<lambda>t. ui_automation (ww_uia W) t max_provider_timeout_ms)) (\<lambda>_.
       native_step (ww_root_element W)));
     ret (r = Inr ())
   }"

definition windows_permissions :: "windows \<Rightarrow> (windows_state host, (string \<times> bool) list) state" where
  "windows_permissions W = do {
     accessibility \<leftarrow> uia_available W;
     private_state \<leftarrow> host_io;
     allowed \<leftarrow> windows_allowed W;
     ret [(''accessibility'', accessibility), (''coordinate_capture'', False), (''global_input'', allowed),
       (''private_state'', private_state = Inr ()), (''screen_recording'', False)]
   }"

definition windows_actions :: "string list" where
  "windows_actions = [''invoke'', ''set_value'', ''click'', ''type_text'', ''press'', ''paste'', ''hotkey'',
     ''move'', ''scroll'']"

definition windows_capability :: "string \<Rightarrow> action_capability" where
  "windows_capability name =
     (if name \<in> {''invoke'', ''set_value'', ''select_text'', ''perform_secondary_action''}
      then semantic_capability name else pointer_capability name)"

definition windows_supported :: "(string \<times> bool) list \<Rightarrow> string list" where
  "windows_supported permissions =
     (if permitted permissions ''accessibility'' \<and> permitted permissions ''private_state''
      then windows_actions else [])"

definition windows_screens :: "windows \<Rightarrow> json on_windows" where
  "windows_screens W = redacting (do { r \<leftarrow> on_uia (uia_screens (ww_uia W)); ret (map_sum id JArr r) })"

definition windows_capabilities :: "windows \<Rightarrow> capabilities on_windows" where
  "windows_capabilities W = do {
     permissions \<leftarrow> windows_permissions W;
     try_bind (windows_screens W) (\<lambda>screens.
     ret (Inr \<lparr>c_platform = ''windows'', c_backend = uia_backend_name,
       c_session_isolation = ww_isolation W,
       c_supported_actions = windows_supported permissions,
       c_action_capabilities = map windows_capability (windows_supported permissions),
       c_permissions = permissions,
       c_display_geometry_hash = hash_serializable (ui_hashing (ww_uia W)) screens\<rparr>))
   }"

section \<open>Coordinates\<close>

definition windows_coordinate_path :: "windows \<Rightarrow> string \<Rightarrow> protocol_error + string" where
  "windows_coordinate_path W snapshot_id =
     (if \<not> valid_native_snapshot_id snapshot_id then Inl (InvalidRequest ''invalid snapshot ID'')
      else Inr (windows_join (windows_join (windows_join
        (windows_observation_root (so_env (ui_storing (ww_uia W))) (so_fallback (ui_storing (ww_uia W)))) ''praefectus'')
        ''observations'') (snapshot_id @ ''.json'')))"

definition windows_content_hash :: "windows \<Rightarrow> string on_windows" where
  "windows_content_hash W =
     redacting (on_gdi (windows_screen_content_hash (ui_hashing (ww_uia W)) (ww_capture W)))"

definition next_windows_snapshot :: "(windows_state host, nat) state" where
  "next_windows_snapshot = do {
     number \<leftarrow> get_exec wx_snapshots;
     update_exec (wx_snapshots_update (\<lambda>n. Suc n mod 18446744073709551616));
     ret number
   }"

definition windows_observe_coordinates :: "windows \<Rightarrow> coordinate_observation on_windows" where
  "windows_observe_coordinates W =
     observe_coordinates_with (ui_hashing (ww_uia W)) (ww_process_id W) (windows_screens W)
       (windows_content_hash W) next_windows_snapshot
       (\<lambda>obs. on_uia (on_uia_files (persist_coordinates_to (ui_storing (ww_uia W))
          (windows_coordinate_path W (co_snapshot_id obs)) obs)))"

definition windows_resolve :: "windows \<Rightarrow> target_ref \<Rightarrow> i64 \<Rightarrow> resolved_target on_windows" where
  "windows_resolve W target deadline = try_bind (check_protocol_boundary deadline) (\<lambda>_.
     case target of
       Coordinates x y display_id geometry snapshot_id content_hash \<Rightarrow>
         resolve_coordinates_with (ui_hashing (ww_uia W))
           (on_uia (on_uia_files (load_coordinates_from (ui_storing (ww_uia W)) (windows_coordinate_path W snapshot_id))))
           (windows_screens W) (windows_content_hash W) x y display_id geometry snapshot_id content_hash
     | Element t \<Rightarrow> ret (Inr (SemanticTarget t))
     | NoTarget \<Rightarrow> ret (Inr NoResolved))"

section \<open>Observation\<close>

definition semantic_target_state :: "semantic_element \<Rightarrow> string option \<Rightarrow> json" where
  "semantic_target_state e value_hash = (let a = se_actionability e in
     JObj [(''editable'', JBool (actionability.editable a)), (''enabled'', JBool (actionability.enabled a)),
       (''invokable'', JBool (actionability.invokable a)), (''stable'', JBool (actionability.stable a)),
       (''value_hash'', (case value_hash of None \<Rightarrow> JNull | Some hash \<Rightarrow> JStr hash)),
       (''visible'', JBool (actionability.visible a))])"

definition semantic_target_observation :: "hashing \<Rightarrow> semantic_target_ref \<Rightarrow> semantic_element \<Rightarrow> string option
    \<Rightarrow> capabilities \<Rightarrow> i64 \<Rightarrow> observation" where
  "semantic_target_observation H target e value_hash cs now =
     (let st = semantic_target_state e value_hash in
      \<lparr>o_evidence = \<lparr>
         e_observation_hash = hash_serializable H
           (JArr [JStr (c_display_geometry_hash cs), JStr (t_fingerprint_hash target), st]),
         e_target_fingerprint_hash = Some (t_fingerprint_hash target),
         e_display_geometry_hash = c_display_geometry_hash cs,
         e_observed_at_ms = now\<rparr>, o_element = None, o_state = st\<rparr>)"

text \<open>\<open>native_target_content_hash\<close> has no answer on Windows.\<close>

definition windows_observed_state :: "target_ref \<Rightarrow> json on_windows" where
  "windows_observed_state target = (case target of
       Coordinates _ _ _ _ _ _ \<Rightarrow> redacting (ret (Inl NativeError))
     | _ \<Rightarrow> ret (Inr JNull))"

definition windows_observe :: "windows \<Rightarrow> target_ref \<Rightarrow> i64 \<Rightarrow> observation on_windows" where
  "windows_observe W target deadline = try_bind (check_protocol_boundary deadline) (\<lambda>_.
     case target of
       Element t \<Rightarrow>
         try_bind (on_uia (uia_observe_target (ww_uia W) t deadline)) (\<lambda>(e, value_hash).
         try_bind (windows_capabilities W) (\<lambda>cs. do {
           now \<leftarrow> now_ms;
           ret (Inr (semantic_target_observation (ui_hashing (ww_uia W)) t e value_hash cs now))
         }))
     | _ \<Rightarrow> observe_plain_with (ui_hashing (ww_uia W)) (windows_capabilities W) (windows_observed_state target)
              deadline)"

definition windows_context_hash :: "windows \<Rightarrow> i64 \<Rightarrow> string on_windows" where
  "windows_context_hash W deadline = try_bind (check_protocol_boundary deadline) (\<lambda>_.
     if ww_isolation W \<noteq> SharedDesktop
     then ret (Inl (ExecutorError ''shared desktop context is unavailable''))
     else on_uia (uia_context_hash (ww_uia W) deadline))"

text \<open>The inspections that are no part of the trait.\<close>

definition windows_list_surfaces :: "windows \<Rightarrow> i64 \<Rightarrow> surface_descriptor list on_windows" where
  "windows_list_surfaces W deadline = try_bind (check_protocol_boundary deadline) (\<lambda>_.
     on_uia (uia_list_surfaces (ww_uia W) deadline))"

definition windows_observe_surface :: "windows \<Rightarrow> string \<Rightarrow> i64 \<Rightarrow> semantic_observation on_windows" where
  "windows_observe_surface W surface deadline =
     (if \<not> semantic_hash surface then ret (Inl (InvalidRequest ''invalid surface reference''))
      else try_bind (check_protocol_boundary deadline) (\<lambda>_.
        on_uia (uia_snapshot_surface (ww_uia W) surface deadline)))"

definition windows_observe_semantic :: "windows \<Rightarrow> i64 \<Rightarrow> semantic_observation on_windows" where
  "windows_observe_semantic W deadline = try_bind (check_protocol_boundary deadline) (\<lambda>_.
     on_uia (uia_snapshot (ww_uia W) deadline))"

definition windows_observe_focused :: "windows \<Rightarrow> i64 \<Rightarrow> semantic_target_ref on_windows" where
  "windows_observe_focused W deadline = try_bind (check_protocol_boundary deadline) (\<lambda>_.
     on_uia (uia_focused_target (ww_uia W) deadline))"

section \<open>Dispatch\<close>

definition windows_runtime :: "windows \<Rightarrow> windows_state runtime" where
  "windows_runtime W = \<lparr>rt_platform = Windows, rt_backend = uia_backend_name,
     rt_parent_is_dir = ww_parent_is_dir W, rt_panic = ww_panic W, rt_auxiliary = refuse_auxiliary,
     rt_capabilities = windows_capabilities W, rt_allowed = windows_allowed W, rt_per_process = ret False,
     rt_resolve = windows_resolve W,
     rt_click = (\<lambda>p button. on_win_desktop (native_click_windows (ww_input W) p button)),
     rt_move = (\<lambda>p. on_win_desktop (set_cursor_pos (ww_input W) p)),
     rt_type_text = (\<lambda>txt clear press_return delay_ms.
       on_win_desktop (win_type_text (ww_input W) txt clear press_return delay_ms)),
     rt_press = (\<lambda>key. on_win_desktop (win_press (ww_input W) key 1 None)),
     rt_paste = (\<lambda>txt. on_win_desktop (win_paste (ww_input W) txt)),
     rt_hotkey = (\<lambda>keys. on_win_desktop (win_hotkey (ww_input W) keys)),
     rt_scroll = (\<lambda>direction. on_win_desktop (windows_scroll (ww_input W) direction 1)),
     rt_drag = refuse_drag, rt_set_value = refuse_set_value\<rparr>"

definition windows_focused_target :: "windows \<Rightarrow> i64 \<Rightarrow> (windows_state, semantic_target_ref) dispatching" where
  "windows_focused_target W deadline = do {
     r \<leftarrow> on_uia (uia_focused_target (ww_uia W) deadline);
     ret (map_sum (\<lambda>_. refused ''focused target changed'') id r)
   }"

text \<open>Scrolling is among the actions of a focused target, so that \<open>uia_scroll\<close> is never reached.\<close>

definition windows_semantic :: "windows \<Rightarrow> action \<Rightarrow> i64 \<Rightarrow> semantic_target_ref
    \<Rightarrow> (windows_state, dispatch_receipt) dispatching" where
  "windows_semantic W action deadline t =
     (if focused_action action then
        try_bind (windows_focused_target W deadline) (\<lambda>focused.
        if focused \<noteq> t then ret (Inl (refused ''semantic target is not focused''))
        else dispatch_focused (windows_runtime W) action deadline)
      else case action of
        Invoke \<Rightarrow> on_uia (uia_invoke (ww_uia W) t deadline)
      | SetValue value \<Rightarrow> on_uia (uia_set_value (ww_uia W) t value deadline)
      | Scroll direction amount \<Rightarrow>
          if amount = 1 then on_uia (uia_scroll (ww_uia W) t direction deadline)
          else ret (Inl (unavailable ''semantic action is unavailable''))
      | _ \<Rightarrow> ret (Inl (unavailable ''semantic action is unavailable'')))"

definition windows_dispatch :: "windows \<Rightarrow> action \<Rightarrow> resolved_target \<Rightarrow> verification_policy \<Rightarrow> i64
    \<Rightarrow> (windows_state, dispatch_receipt) dispatching" where
  "windows_dispatch W action target policy deadline =
     dispatch_with (windows_runtime W) (windows_semantic W action deadline) action target policy deadline"

definition windows_executor :: "windows \<Rightarrow> windows_state executor" where
  "windows_executor W = \<lparr>x_session_isolation = ret (ww_isolation W),
     x_capabilities = windows_capabilities W,
     x_context_hash = windows_context_hash W,
     x_observe = windows_observe W,
     x_resolve = windows_resolve W,
     x_dispatch = windows_dispatch W\<rparr>"

end
