(* ===== verification/UiaSafety.thy ===== *)
theory UiaSafety
  imports UiaBackend Acting
begin

text \<open>
  The effects of windows_uia.rs: everything but the last call only looks; an effect is requested at
  most once, on the element at the end of the stored path, described as the target names it, in a
  window that is not cloaked; and a failure denies an effect only if none was requested.
\<close>

section \<open>Looking\<close>

lemma looking_calls [looking_rules]:
  "looking (native_call f)" "looking (native_step g)" "looking (unless_ended d)"
  "looking (observation_boundary_error d e)" "looking (check_effect d)" "looking (accept_if c message)"
  "looking (provider_timeout d)" "looking (new_automation W d)" "looking (optional_node k)"
  unfolding native_call_def native_step_def unless_ended_def observation_boundary_error_def check_effect_def
    accept_if_def provider_timeout_def new_automation_def optional_node_def
  by (intro looking_rules)+

lemma looking_or [looking_rules]:
  assumes "looking m"
  shows "looking (or_boundary_error d e m)" "looking (or_no_effect d message m)" "looking (or_refused message m)"
  unfolding or_boundary_error_def or_no_effect_def or_refused_def by (intro looking_rules assms)+

lemma looking_every [looking_rules]: "list_all looking ms \<Longrightarrow> looking (every ms)"
  by (induction ms) (auto intro!: looking_rules)

lemma looking_system [looking_rules]:
  "looking (uia_process_generation W pid)" "looking (window_process_id W w)" "looking (window_is_uncloaked W w)"
  "looking (uia_screens W)" "looking (runtime_values W n)"
  unfolding uia_process_generation_def window_process_id_def window_is_uncloaked_def uia_screens_def runtime_values_def
  by (intro looking_rules)+

lemma looking_windows [looking_rules]:
  "looking (shown_window W w)" "looking (is_process_of W w pid g)" "looking (pattern_fact p f v)"
  unfolding shown_window_def is_process_of_def pattern_fact_def
  by (intro looking_every; simp; intro conjI looking_rules)+

lemma looking_surfaces [looking_rules]:
  "looking (surface_descriptor_of W w pid g h ds)" "looking (validate_surface W d sd w)"
  unfolding validate_surface_def surface_descriptor_of_def Let_def by (intro looking_rules)+

lemma looking_climb [looking_rules]: "looking (climb_to_window W d n node)"
  by (induction n arbitrary: node) (auto intro!: looking_rules)

lemma looking_describe [looking_rules]:
  "looking (element_window W d n)" "looking (describe_with_window W d n)" "looking (describe W d n)"
  unfolding element_window_def describe_with_window_def describe_def
  by (intro looking_rules | simp add: looking_rules)+

lemma looking_path [looking_rules]:
  "looking (find_child W d ids k child found)" "looking (step_down W d node ids)" "looking (walk_down W d node path)"
  "looking (resolve_runtime_path W d w path)"
proof -
  show find: "looking (find_child W d ids k child found)" for ids k child found
    by (induction k arbitrary: child found) (auto intro!: looking_rules simp: Let_def)
  show step: "looking (step_down W d node ids)" for node ids
    unfolding step_down_def by (intro looking_rules find)
  show walk: "looking (walk_down W d node path)" for node path
    by (induction path arbitrary: node) (auto intro!: looking_rules step)
  show "looking (resolve_runtime_path W d w path)"
    by (cases path) (simp_all, intro looking_rules walk, intro looking_rules walk)
qed

lemma looking_stored [looking_rules]:
  "looking (load_mapping W i)" "looking (stored_entry W m target)" "looking (same_window W m)"
  "looking (same_geometry W d m)" "looking (same_surface W d m)"
  unfolding load_mapping_def stored_entry_def same_window_def same_geometry_def same_surface_def Let_def
  by (intro looking_rules; simp add: looking_rules)+

lemma looking_resolve [looking_rules]: "looking (uia_resolve W d target)" "looking (ensure_live W d n s)"
  unfolding uia_resolve_def ensure_live_def by (intro looking_rules)+

section \<open>Live targets\<close>

text \<open>The children of an element, one after the other, as the walker shows them at any time.\<close>

inductive child_of :: "uia \<Rightarrow> uia_node \<Rightarrow> uia_node \<Rightarrow> bool" for W where
  first_child: "ui_first_child W t p = Walked c \<Longrightarrow> child_of W p c"
| next_child: "child_of W p c \<Longrightarrow> ui_next_sibling W t c = Walked d \<Longrightarrow> child_of W p d"

definition has_ids :: "uia \<Rightarrow> uia_node \<Rightarrow> runtime_id \<Rightarrow> bool" where
  "has_ids W n ids \<longleftrightarrow> (\<exists>t. Option.bind (ui_runtime_id W t n) safe_array_values = Some ids)"

text \<open>A way down from an element, along children with the runtime ids of the path.\<close>

inductive descends :: "uia \<Rightarrow> uia_node \<Rightarrow> runtime_id list \<Rightarrow> uia_node \<Rightarrow> bool" for W where
  arrived: "descends W n [] n"
| below: "child_of W n c \<Longrightarrow> has_ids W c ids \<Longrightarrow> descends W c path m \<Longrightarrow> descends W n (ids # path) m"

inductive_cases descends_emptyE: "descends W n [] m"
inductive_cases descends_stepE: "descends W n (ids # path) m"

definition rooted :: "uia \<Rightarrow> hwnd \<Rightarrow> runtime_id list \<Rightarrow> uia_node \<Rightarrow> bool" where
  "rooted W window path n \<longleftrightarrow> (case path of
       [] \<Rightarrow> False
     | ids # rest \<Rightarrow> \<exists>t r. ui_from_handle W t window = Some r \<and> has_ids W r ids \<and> descends W r rest n)"

text \<open>The entry that a target names in a mapping that may be used for it.\<close>

definition stored_for :: "uia \<Rightarrow> semantic_target_ref \<Rightarrow> uia_mapping \<Rightarrow> mapping_entry \<Rightarrow> bool" where
  "stored_for W target m e \<longleftrightarrow> mapping_names m target \<and> provenance_holds (ui_hashing W) m
     \<and> entry_for m target = Inr e \<and> valid_entry (ui_hashing W) (um_observation_id m) e
     \<and> me_unambiguous e \<and> me_stable e"

definition described :: "uia \<Rightarrow> uia_node \<Rightarrow> element_state \<Rightarrow> hwnd \<Rightarrow> bool" where
  "described W n s w \<longleftrightarrow> (\<exists>d h h'. run_state (describe_with_window W d n) h = (Inr (s, w), h'))"

text \<open>An element that is as it was observed: what the entry, the mapping and the target say of it.\<close>

definition as_observed :: "uia \<Rightarrow> semantic_target_ref \<Rightarrow> uia_mapping \<Rightarrow> mapping_entry \<Rightarrow> element_state \<Rightarrow> bool" where
  "as_observed W target m e s \<longleftrightarrow> es_runtime_id s = me_runtime_id e \<and> es_process_id s = um_process_id m
     \<and> es_process_generation s = um_process_generation m \<and> es_window_id s = um_window_id m
     \<and> element_print W s = t_fingerprint_hash target \<and> es_visible s \<and> es_enabled s"

lemma live_state_as_observed: "live_state W m e s \<Longrightarrow> me_fingerprint_hash e = t_fingerprint_hash target \<Longrightarrow> as_observed W target m e s"
  by (simp add: live_state_def as_observed_def)

definition uia_live :: "uia \<Rightarrow> semantic_target_ref \<Rightarrow> uia_node \<Rightarrow> element_state \<Rightarrow> bool" where
  "uia_live W target n s \<longleftrightarrow> (\<exists>m e s0 w0 w. stored_for W target m e
     \<and> rooted W (mapping_window m) (me_runtime_path e) n \<and> described W n s0 w0 \<and> as_observed W target m e s0
     \<and> described W n s w \<and> element_print W s = t_fingerprint_hash target)"

lemma native_call_Inr: "run_state (native_call f) h = (Inr x, h') \<Longrightarrow> \<exists>t. f t = Some x"
  by (auto simp: native_call_def ask_def split: option.splits)

lemma runtime_values_Inr: "run_state (runtime_values W n) h = (Inr ids, h') \<Longrightarrow> has_ids W n ids"
  unfolding runtime_values_def has_ids_def by (rule native_call_Inr)

lemma or_no_effect_Inr: "run_state (or_no_effect d message m) h = (Inr x, h') \<Longrightarrow> \<exists>k. run_state m h = (Inr x, k)"
  by (auto simp: or_no_effect_def split: prod.splits sum.splits)

lemma or_refused_Inr: "run_state (or_refused message m) h = (Inr x, h') \<Longrightarrow> \<exists>k. run_state m h = (Inr x, k)"
  by (auto simp: or_refused_def split: prod.splits sum.splits)

lemma accept_if_Inr [simp]: "run_state (accept_if c message) h = (Inr u, h') \<longleftrightarrow> c \<and> h' = h"
  by (auto simp: accept_if_def)

lemma optional_node_Inr: "run_state (optional_node f) h = (Inr (Some n), h') \<Longrightarrow> \<exists>t. f t = Walked n"
  by (auto simp: optional_node_def ask_def split: walked.splits)

lemma find_child_Inr:
  assumes "run_state (find_child W d ids k child found) h = (Inr (Some n), h')"
    and "child_of W p child" and "\<forall>c. found = Some c \<longrightarrow> child_of W p c \<and> has_ids W c ids"
  shows "child_of W p n \<and> has_ids W n ids"
  using assms
proof (induction k arbitrary: child found h)
  case (Suc k)
  let ?next = "\<lambda>v. if v = Inr ids \<and> found \<noteq> None then ret (Inl (refused ''semantic target path is ambiguous''))
      else try_bind (or_no_effect d ''semantic target path is unavailable'' (optional_node (\<lambda>t. ui_next_sibling W t child)))
        (\<lambda>following. case following of
           None \<Rightarrow> ret (Inr (if v = Inr ids then Some child else found))
         | Some sibling \<Rightarrow> if k = 0 then ret (Inl (refused ''semantic target path is too large''))
             else find_child W d ids k sibling (if v = Inr ids then Some child else found))"
  obtain u h1 where "run_state (do { v \<leftarrow> runtime_values W child; ?next v }) h1 = (Inr (Some n), h')"
    using Suc.prems(1) by (simp only: find_child.simps Let_def) (rule try_InrE)
  then obtain v h2 where v: "run_state (runtime_values W child) h1 = (v, h2)"
    and rest: "run_state (?next v) h2 = (Inr (Some n), h')" by (rule bind_runE)
  let ?found = "if v = Inr ids then Some child else found"
  have known: "\<forall>c. ?found = Some c \<longrightarrow> child_of W p c \<and> has_ids W c ids"
    using Suc.prems(2,3) v by (auto dest: runtime_values_Inr)
  have clear: "\<not> (v = Inr ids \<and> found \<noteq> None)"
    by (rule ccontr) (use rest in simp)
  from rest have "run_state (try_bind (or_no_effect d ''semantic target path is unavailable''
        (optional_node (\<lambda>t. ui_next_sibling W t child)))
      (\<lambda>following. case following of None \<Rightarrow> ret (Inr ?found)
        | Some sibling \<Rightarrow> if k = 0 then ret (Inl (refused ''semantic target path is too large''))
            else find_child W d ids k sibling ?found)) h2 = (Inr (Some n), h')"
    unfolding if_not_P [OF clear] .
  then obtain following h3 where following:
    "run_state (or_no_effect d ''semantic target path is unavailable'' (optional_node (\<lambda>t. ui_next_sibling W t child))) h2
      = (Inr following, h3)"
    and last: "run_state (case following of None \<Rightarrow> ret (Inr ?found)
      | Some sibling \<Rightarrow> if k = 0 then ret (Inl (refused ''semantic target path is too large''))
          else find_child W d ids k sibling ?found) h3 = (Inr (Some n), h')"
    by (rule try_InrE)
  show ?case
  proof (cases following)
    case None
    then show ?thesis using last known by (auto split: if_splits)
  next
    case (Some sibling)
    then have "child_of W p sibling" using following Suc.prems(2) by (auto dest!: or_no_effect_Inr optional_node_Inr intro: next_child)
    then show ?thesis using last Some known Suc.IH [of sibling ?found] by (auto split: if_splits)
  qed
qed auto

lemma step_down_Inr: "run_state (step_down W d n ids) h = (Inr c, h') \<Longrightarrow> child_of W n c \<and> has_ids W c ids"
  unfolding step_down_def
  by (auto elim!: try_InrE split: option.splits simp del: run_try_bind dest!: or_no_effect_Inr optional_node_Inr)
    (blast dest: find_child_Inr [OF _ first_child])+

lemma walk_down_Inr: "run_state (walk_down W d n path) h = (Inr m, h') \<Longrightarrow> descends W n path m"
proof (induction path arbitrary: n h)
  case (Cons ids path)
  then show ?case
    by (auto elim!: try_InrE simp del: run_try_bind dest!: step_down_Inr intro: below)
qed (auto intro: arrived)

lemma resolve_runtime_path_Inr:
  "run_state (resolve_runtime_path W d w path) h = (Inr n, h') \<Longrightarrow> rooted W w path n"
  by (cases path)
    (auto simp: rooted_def elim!: try_InrE simp del: run_try_bind
      dest!: or_no_effect_Inr or_refused_Inr native_call_Inr runtime_values_Inr walk_down_Inr, blast+)

lemma describe_Inr: "run_state (describe W d n) h = (Inr s, h') \<Longrightarrow> \<exists>w. described W n s w"
  unfolding describe_def described_def by (auto elim!: try_InrE simp del: run_try_bind) blast

lemma entry_for_fingerprint: "entry_for m target = Inr e \<Longrightarrow> me_fingerprint_hash e = t_fingerprint_hash target"
  by (auto simp: entry_for_def split: list.splits if_splits)

lemma stored_entry_Inr: "run_state (stored_entry W m target) h = (Inr e, h') \<Longrightarrow> stored_for W target m e"
  unfolding stored_entry_def stored_for_def
  by (auto elim!: bind_runE try_InrE split: if_splits simp del: run_try_bind run_state_bind)

lemma uia_resolve_Inr:
  assumes "run_state (uia_resolve W d target) h = (Inr (n, s, i), h')"
  shows "uia_live W target n s"
  using assms unfolding uia_resolve_def
  by (auto elim!: try_InrE simp del: run_try_bind
      dest!: or_no_effect_Inr stored_entry_Inr resolve_runtime_path_Inr describe_Inr)
    (unfold uia_live_def, metis stored_for_def entry_for_fingerprint live_state_as_observed)

text \<open>What the last look before an effect makes sure of.\<close>

definition uia_fence :: "uia \<Rightarrow> semantic_target_ref \<Rightarrow> uia_node \<Rightarrow> element_state \<Rightarrow> bool" where
  "uia_fence W target n s \<longleftrightarrow> uia_live W target n s
     \<and> (\<exists>s' w t. described W n s' w \<and> element_print W s' = t_fingerprint_hash target \<and> ui_cloaked W t w = Some 0)"

lemma ensure_live_Inr:
  assumes "run_state (ensure_live W d n s) h = (Inr u, h')" and "uia_live W target n s"
  shows "uia_fence W target n s"
proof -
  have "\<exists>s' w t. described W n s' w \<and> element_print W s' = element_print W s \<and> ui_cloaked W t w = Some 0"
    using assms(1) unfolding ensure_live_def window_is_uncloaked_def described_def
    by (auto elim!: try_InrE simp: uncloaked_state_def simp del: run_try_bind
        dest!: or_no_effect_Inr native_call_Inr) blast
  then show ?thesis using assms(2) unfolding uia_fence_def by (metis uia_live_def)
qed

section \<open>Effects\<close>

lemma acting_act_on:
  assumes "uia_live W target n s" and "uia_fence W target n s \<Longrightarrow> E e"
  shows "acting_on us_effects E (act_on W d n s e question)"
  unfolding act_on_def
proof (rule acted_after [OF looking_resolve(2)])
  fix x h h'
  assume "run_state (ensure_live W d n s) h = (Inr x, h')"
  from ensure_live_Inr [OF this assms(1)] have e: "E e" by (rule assms(2))
  have call: "grows (host_effects us_effects) (\<lambda>r l. l = [e] \<and> (\<forall>x. r = Inl x \<longrightarrow> de_effect x = EffectUnknown))
      (request_effect e question)"
    by (auto simp: grows_def host_effects_def request_effect_def update_exec_def ask_def ensure_def ambiguous_def)
  have after: "de_effect x = EffectUnknown" if "run_state (try_bind (check_effect_after d) (\<lambda>_. ret (Inr uia_receipt))) h = (Inl x, h')"
    for x h h'
    using that by (auto simp: check_effect_after_def ambiguous_def split: prod.splits sum.splits if_splits)
  have look: "looking (try_bind (check_effect_after d) (\<lambda>_. ret (Inr uia_receipt)))"
    unfolding check_effect_after_def by (intro looking_rules)
  show "acting_on us_effects E (try_bind (check_effect d) (\<lambda>_. try_bind (request_effect e question)
      (\<lambda>_. try_bind (check_effect_after d) (\<lambda>_. ret (Inr uia_receipt)))))"
    by (rule acted_after [OF looking_calls(5)], rule acted_call [where E = E and e = e], rule call, rule e, rule look, erule after)
qed

lemma acting_resolved:
  assumes "\<And>n s i. uia_live W target n s \<Longrightarrow> acting_on us_effects E (f (n, s, i))"
  shows "acting_on us_effects E (try_bind (uia_resolve W d target) f)"
  by (rule acted_after [OF looking_resolve(1)]) (metis assms uia_resolve_Inr surj_pair)

definition fenced_invoke :: "uia \<Rightarrow> semantic_target_ref \<Rightarrow> uia_effect \<Rightarrow> bool" where
  "fenced_invoke W target e \<longleftrightarrow> (\<exists>n s. e = UiaInvoke n \<and> uia_fence W target n s)"

definition fenced_value :: "uia \<Rightarrow> semantic_target_ref \<Rightarrow> string \<Rightarrow> uia_effect \<Rightarrow> bool" where
  "fenced_value W target value e \<longleftrightarrow> length value \<le> max_uia_value_bytes
     \<and> (\<exists>n s t. e = UiaSetValue n value \<and> ui_read_only W t n = Some False \<and> uia_fence W target n s)"

definition fenced_scroll :: "uia \<Rightarrow> semantic_target_ref \<Rightarrow> direction \<Rightarrow> uia_effect \<Rightarrow> bool" where
  "fenced_scroll W target direction e \<longleftrightarrow> (\<exists>n s h v. e = UiaScroll n h v
     \<and> scroll_amounts direction s = Some (h, v) \<and> uia_fence W target n s)"

lemma acting_invoke: "acting_on us_effects (fenced_invoke W target) (uia_invoke W target d)"
  unfolding uia_invoke_def
  by (rule acting_resolved)
    (auto intro!: acted_after looking_rules acting_act_on simp: fenced_invoke_def)

lemma acting_set_value: "acting_on us_effects (fenced_value W target value) (uia_set_value W target value d)"
  unfolding uia_set_value_def
proof (intro grows_if acted_refuse acting_resolved)
  fix n s i
  assume fits: "\<not> max_uia_value_bytes < length value" and live: "uia_live W target n s"
  have act: "acting_on us_effects (fenced_value W target value)
      (act_on W d n s (UiaSetValue n value) (\<lambda>t. ui_do_set_value W t n value))" if "ui_read_only W t n = Some False" for t
    by (rule acting_act_on [OF live]) (use fits that in \<open>auto simp: fenced_value_def\<close>)
  show "acting_on us_effects (fenced_value W target value) (case (n, s, i) of (node, s, _) \<Rightarrow>
      try_bind (or_no_effect d ''semantic target is not editable'' (native_step (\<lambda>t. ui_value_pattern W t node))) (\<lambda>_.
      try_bind (or_no_effect d ''semantic target editability is unavailable''
          (native_call (\<lambda>t. ui_read_only W t node))) (\<lambda>read_only.
      try_bind (check_effect d) (\<lambda>_.
      try_bind (accept_if (\<not> read_only) ''semantic target is read-only'') (\<lambda>_.
      act_on W d node s (UiaSetValue node value) (\<lambda>t. ui_do_set_value W t node value))))))"
    unfolding prod.case
    by (intro acted_after looking_rules) (auto dest!: or_no_effect_Inr native_call_Inr intro: act)
qed

lemma acting_scroll: "acting_on us_effects (fenced_scroll W target direction) (uia_scroll W target direction d)"
  unfolding uia_scroll_def
proof (rule acting_resolved)
  fix n s i
  assume live: "uia_live W target n s"
  have act: "acting_on us_effects (fenced_scroll W target direction)
      (act_on W d n s (UiaScroll n h v) (\<lambda>t. ui_do_scroll W t n h v))" if "scroll_amounts direction s = Some (h, v)" for h v
    by (rule acting_act_on [OF live]) (use that in \<open>auto simp: fenced_scroll_def\<close>)
  show "acting_on us_effects (fenced_scroll W target direction) (case (n, s, i) of (node, s, _) \<Rightarrow>
      try_bind (or_no_effect d ''semantic target is not scrollable'' (native_step (\<lambda>t. ui_scroll_pattern W t node))) (\<lambda>_.
      case scroll_amounts direction s of
        None \<Rightarrow> ret (Inl (refused ''semantic target cannot scroll in that direction''))
      | Some (horizontal, vertical) \<Rightarrow>
          act_on W d node s (UiaScroll node horizontal vertical) (\<lambda>t. ui_do_scroll W t node horizontal vertical)))"
    unfolding prod.case
    by (rule acted_after [OF looking_or(2) [OF looking_calls(2)]])
      (auto intro!: acted_refuse act split: option.split)
qed

end
