(* ===== verification/WindowsSafety.thy ===== *)
theory WindowsSafety
  imports WindowsExecutor UiaSafety HonestDispatch
begin

text \<open>
  The runtime of Windows as an interpretation of the contracts of a dispatch: what is sent to the
  desktop, what is requested from the accessibility provider, and a host whose global input is
  disabled.
\<close>

section \<open>Snapshots and reads of the provider\<close>

lemma looking_siblings [looking_rules]: "looking (enqueue_siblings W d parent path child siblings budget queue)"
proof (induction W d parent path child siblings budget queue rule: enqueue_siblings.induct)
  case (1 W d parent path child siblings budget queue)
  show ?case by (subst enqueue_siblings.simps) (intro looking_rules 1; simp)
qed

lemma looking_children [looking_rules]:
  "looking (enqueue_children W d node parent path budget queue)" "looking (add_children W d node parent path s)"
  unfolding add_children_def enqueue_children_def by (intro looking_rules)+

lemma looking_record [looking_rules]: "looking (record_element W d i node parent path e s)"
  unfolding record_element_def Let_def by (intro looking_rules)

lemma looking_visit [looking_rules]: "looking (visit W d sd i p s)"
  by (cases p) (simp, intro looking_rules)

lemma looking_read_tree [looking_rules]: "looking (read_uia_tree W d sd i visited s)"
proof (induction W d sd i visited s rule: read_uia_tree.induct)
  case (1 W d sd i visited s)
  show ?case
    by (subst read_uia_tree.simps) (auto intro!: looking_rules 1 split: list.split)
qed

lemma looking_enumeration [looking_rules]:
  "looking (collect_windows W ws taken)" "looking (uia_windows W d)" "looking (describe_windows W d g ds ws)"
  "looking (surface_records W d)" "looking (uia_list_surfaces W d)"
proof -
  show collect: "looking (collect_windows W ws taken)" for ws taken
    by (induction ws arbitrary: taken) (auto intro!: looking_rules looking_every)
  show windows: "looking (uia_windows W d)"
    unfolding uia_windows_def by (intro looking_rules collect)
  show described: "looking (describe_windows W d g ds ws)" for g ds ws
    by (induction ws) (auto intro!: looking_rules)
  show "looking (surface_records W d)" "looking (uia_list_surfaces W d)"
    unfolding uia_list_surfaces_def surface_records_def by (intro looking_rules windows described)+
qed

lemma looking_context [looking_rules]: "looking (focused_identity W d)" "looking (uia_context_hash W d)"
  unfolding uia_context_hash_def focused_identity_def by (intro looking_rules)+

lemma looking_observe [looking_rules]: "looking (uia_value_hash W node)" "looking (uia_observe_target W t d)"
  unfolding uia_observe_target_def uia_value_hash_def by (intro looking_rules)+

lemma quiet_uia_state [quiet_rules]:
  "effectless us_effects (on_uia_files m)" "effectless us_effects next_uia_generation"
  by (rule grows_unchanged, simp add: host_effects_def on_uia_files_def on_part_def next_uia_generation_def
      get_exec_def update_exec_def split: prod.split)+

lemmas quiet_looking = looking_rules [THEN looking_effectless]

lemma quiet_snapshots [quiet_rules]:
  "effectless us_effects (uia_snapshot_window W d sd w)" "effectless us_effects (uia_snapshot W d)"
  "effectless us_effects (uia_focused_target W d)"
proof -
  show window: "effectless us_effects (uia_snapshot_window W d sd w)" for sd w
    unfolding uia_snapshot_window_def persist_mapping_def Let_def
    by (intro quiet_rules quiet_looking; intro looking_rules)
  show foreground: "effectless us_effects (uia_snapshot W d)"
    unfolding uia_snapshot_def by (intro quiet_rules window quiet_looking; intro looking_rules)
  show "effectless us_effects (uia_focused_target W d)"
    unfolding uia_focused_target_def by (intro quiet_rules foreground quiet_looking; intro looking_rules)
qed

section \<open>The two kinds of effects\<close>

definition win_effects :: "windows_state \<Rightarrow> win_event list" where
  "win_effects s = wd_events (wx_desktop s)"

definition requested_effects :: "windows_state \<Rightarrow> uia_effect list" where
  "requested_effects s = us_effects (wx_uia s)"

lemmas win_events_def = host_effects_def win_effects_def
lemmas requested_def = host_effects_def requested_effects_def

lemma grows_on_win_desktop:
  "grows (host_effects wd_events) P m \<Longrightarrow> grows (host_effects win_effects) P (on_win_desktop m)"
  by (fastforce simp: grows_def on_win_desktop_def on_part_def win_events_def split: prod.splits)

lemma grows_on_uia:
  "grows (host_effects us_effects) P m \<Longrightarrow> grows (host_effects requested_effects) P (on_uia m)"
  by (fastforce simp: grows_def on_uia_def on_part_def requested_def split: prod.splits)

lemma quiet_win_parts [quiet_rules]:
  "effectless win_effects (on_gdi m)" "effectless win_effects (on_uia m')"
  "effectless win_effects (windows_allowed W)" "effectless win_effects next_windows_snapshot"
  "effectless requested_effects (on_gdi m)" "effectless requested_effects (on_win_desktop m'')"
  "effectless requested_effects (windows_allowed W)" "effectless requested_effects next_windows_snapshot"
  by (rule grows_unchanged, simp add: win_events_def requested_def on_gdi_def on_uia_def on_win_desktop_def
      windows_allowed_def next_windows_snapshot_def get_exec_def update_exec_def on_part_def split: prod.split)+

lemma quiet_on_uia [quiet_rules]: "effectless us_effects m \<Longrightarrow> effectless requested_effects (on_uia m)"
  by (rule grows_on_uia)

lemma quiet_redacting [quiet_rules]: "effectless effects m \<Longrightarrow> effectless effects (redacting m)"
  unfolding redacting_def by (intro quiet_rules)

lemma quiet_windows_reads [quiet_rules]:
  "effectless win_effects (windows_permissions W)" "effectless win_effects (windows_screens W)"
  "effectless win_effects (windows_capabilities W)" "effectless win_effects (windows_resolve W target d)"
  "effectless win_effects (windows_observe W target d)" "effectless win_effects (windows_context_hash W d)"
  "effectless win_effects (windows_focused_target W d)"
  unfolding windows_capabilities_def windows_permissions_def uia_available_def windows_screens_def windows_resolve_def
    resolve_coordinates_with_def stale_def windows_content_hash_def windows_observe_def observe_plain_with_def
    windows_observed_state_def windows_context_hash_def windows_focused_target_def Let_def
  by (cases target; intro quiet_rules; simp add: quiet_rules)+

lemma quiet_requested_reads [quiet_rules]:
  "effectless requested_effects (windows_permissions W)" "effectless requested_effects (windows_screens W)"
  "effectless requested_effects (windows_capabilities W)" "effectless requested_effects (windows_resolve W target d)"
  "effectless requested_effects (windows_observe W target d)" "effectless requested_effects (windows_context_hash W d)"
  "effectless requested_effects (windows_focused_target W d)"
  unfolding windows_capabilities_def windows_permissions_def uia_available_def windows_screens_def windows_resolve_def
    resolve_coordinates_with_def stale_def windows_content_hash_def windows_observe_def observe_plain_with_def
    windows_observed_state_def windows_context_hash_def windows_focused_target_def Let_def
  by (cases target; (intro quiet_rules quiet_looking; (intro looking_rules)?; simp add: quiet_rules))+

section \<open>Input\<close>

abbreviation win_adds :: "(win_desktop host, 'a) state \<Rightarrow> bool" where
  "win_adds \<equiv> adds_effects (host_effects wd_events)"

named_theorems win_adds_rules \<open>operations that only add events\<close>

lemma win_adds_return [win_adds_rules]: "win_adds (ret x)"
  by (rule grows_return) simp

lemma win_adds_bind [win_adds_rules]: "win_adds m \<Longrightarrow> (\<And>x. win_adds (f x)) \<Longrightarrow> win_adds (State_Monad.bind m f)"
  by (rule grows_bind, assumption) simp

lemma win_adds_try [win_adds_rules]: "win_adds m \<Longrightarrow> (\<And>x. win_adds (f x)) \<Longrightarrow> win_adds (try_bind m f)"
  by (rule grows_try, assumption) simp_all

lemma win_adds_if [win_adds_rules]: "win_adds m \<Longrightarrow> win_adds n \<Longrightarrow> win_adds (if c then m else n)"
  by simp

lemma win_adds_cases [win_adds_rules]:
  "win_adds m \<Longrightarrow> (\<And>x. win_adds (f x)) \<Longrightarrow> win_adds (case v of None \<Rightarrow> m | Some x \<Rightarrow> f x)"
  by (cases v) simp_all

lemma win_adds_each [win_adds_rules]: "(\<And>x. win_adds (f x)) \<Longrightarrow> win_adds (each f xs)"
  by (induction xs) (auto intro!: win_adds_rules)

lemma win_adds_primitives [win_adds_rules]:
  "win_adds (note_events l)" "win_adds (ask f)" "win_adds (pause d)"
  "win_adds (update_exec (wd_clipboard_open_update k))" "win_adds (update_exec (wd_blocks_update k'))"
  by (auto simp: grows_def host_effects_def note_events_def update_exec_def ask_def pause_def)

lemma win_adds_steps [win_adds_rules]:
  "win_adds (native_if c x)" "win_adds (ask_ok f)" "win_adds (send_inputs W l)" "win_adds (send_ignored W l)"
  "win_adds (set_cursor_pos W p)"
  unfolding native_if_def ask_ok_def send_inputs_def send_ignored_def set_cursor_pos_def
  by (intro win_adds_rules)+

lemma win_adds_send_all [win_adds_rules]: "win_adds (send_all W ls)"
  by (induction ls) (auto intro!: win_adds_rules)

lemma win_adds_units [win_adds_rules]: "win_adds (type_units W delay_ms us)"
  by (induction us) (auto intro!: win_adds_rules)

lemma win_adds_operations [win_adds_rules]:
  "win_adds (native_click_windows W p button)" "win_adds (win_press W key n delay_ms)" "win_adds (win_hotkey W keys)"
  "win_adds (windows_scroll W direction n)" "win_adds (win_type_text W txt clear press_return delay_ms)"
  "win_adds (win_paste W txt)"
  unfolding native_click_windows_def win_press_def win_hotkey_def windows_scroll_def win_type_text_def win_paste_def
    open_clipboard_def and_close_def fill_clipboard_def
  by (intro win_adds_rules)+

section \<open>Honest and gated\<close>

interpretation windows_events: honest_runtime "windows_runtime W" win_effects
  by unfold_locales
    (simp_all add: windows_runtime_def quiet_rules quiet_refuse grows_on_win_desktop win_adds_rules honest_quiet
      grows_mono [OF quiet_refuse(1)])

lemma calm_adds: "effectless requested_effects m \<Longrightarrow> adds_effects (host_effects requested_effects) m"
  by (rule grows_mono, assumption) simp

interpretation windows_requests: honest_runtime "windows_runtime W" requested_effects
  by unfold_locales
    (simp_all add: windows_runtime_def quiet_rules quiet_refuse calm_adds honest_quiet grows_mono [OF quiet_refuse(1)])

lemma honest_windows_input: "denies_honestly (host_effects win_effects) (windows_semantic W action d t)"
proof (cases "focused_action action")
  case True
  then show ?thesis
    unfolding windows_semantic_def by (auto intro!: honest_rules windows_events.focused_is_honest quiet_rules)
next
  case False
  then show ?thesis
    unfolding windows_semantic_def by (cases action) (auto intro!: honest_quiet quiet_rules)
qed

lemma acted_honest: "acting_on us_effects E m \<Longrightarrow> denies_honestly (host_effects requested_effects) (on_uia m)"
  unfolding denies_honestly_def by (rule grows_on_uia, rule grows_mono, assumption) (auto simp: acted_def)

lemma honest_windows_requests: "denies_honestly (host_effects requested_effects) (windows_semantic W action d t)"
proof (cases "focused_action action")
  case True
  then show ?thesis
    unfolding windows_semantic_def by (auto intro!: honest_rules windows_requests.focused_is_honest quiet_rules)
next
  case False
  then show ?thesis
    unfolding windows_semantic_def
    by (cases action) (auto intro!: honest_return acted_honest [OF acting_invoke] acted_honest [OF acting_set_value])
qed

lemma honest_windows_dispatch:
  "denies_honestly (host_effects win_effects) (windows_dispatch W action target policy d)"
  "denies_honestly (host_effects requested_effects) (windows_dispatch W action target policy d)"
  unfolding windows_dispatch_def
  by (rule windows_events.dispatch_is_honest [OF honest_windows_input],
      rule windows_requests.dispatch_is_honest [OF honest_windows_requests])

interpretation windows_event_engine: truthful_executor "windows_executor W" win_effects
  by unfold_locales
    (simp_all add: windows_executor_def quiet_rules honest_windows_dispatch [unfolded disclaimed_denies])

interpretation windows_request_engine: truthful_executor "windows_executor W" requested_effects
  by unfold_locales
    (simp_all add: windows_executor_def quiet_rules honest_windows_dispatch [unfolded disclaimed_denies])

text \<open>A disabled host, and the events sent so far.\<close>

definition windows_unsent :: "windows \<Rightarrow> win_event list \<Rightarrow> windows_state host \<Rightarrow> bool" where
  "windows_unsent W l h \<longleftrightarrow> restricted_by (ww_env W) wx_restriction h \<and> win_effects (h_exec h) = l"

lemma windows_unsentI:
  assumes "windows_unsent W l h" and "h_env h' = h_env h" and "wx_desktop (h_exec h') = wx_desktop (h_exec h)"
    and "rs_entry (wx_restriction (h_exec h')) = rs_entry (wx_restriction (h_exec h))"
  shows "windows_unsent W l h'"
  using assms by (auto simp: windows_unsent_def restricted_by_def win_effects_def split: option.splits)

named_theorems windows_unsent_rules \<open>steps on a disabled host\<close>

lemma windows_unsent_primitives [windows_unsent_rules]:
  "keeps (windows_unsent W l) now_ms" "keeps (windows_unsent W l) is_cancelled" "keeps (windows_unsent W l) host_io"
  "keeps (windows_unsent W l) (on_uia m)" "keeps (windows_unsent W l) (on_gdi m')"
  by (rule keepsI, erule windows_unsentI; auto simp: now_ms_def is_cancelled_def host_io_def next_io_def on_uia_def
      on_gdi_def on_part_def split: if_splits io_result.splits prod.splits)+

lemma hoare_windows_allowed:
  "hoare (windows_unsent W l) (windows_allowed W) (\<lambda>r h. \<not> r \<and> windows_unsent W l h)"
proof (rule hoareI)
  fix h r t
  assume h: "windows_unsent W l h" and run: "run_state (windows_allowed W) h = (r, t)"
  have facts: "\<not> r \<and> h_env t = h_env h \<and> rs_entry (wx_restriction (h_exec t)) = rs_entry (wx_restriction (h_exec h))
      \<and> (\<exists>part. h_exec t = wx_restriction_update (\<lambda>_. part) (h_exec h))"
    by (rule part_not_allowed [where get = wx_restriction and upd = wx_restriction_update])
      (use h run in \<open>simp_all add: windows_unsent_def windows_allowed_def\<close>)
  then show "\<not> r \<and> windows_unsent W l t"
    using h by (auto intro: windows_unsentI)
qed

lemma windows_unsent_reads [windows_unsent_rules]:
  "keeps (windows_unsent W l) (windows_allowed W)" "keeps (windows_unsent W l) (windows_capabilities W)"
proof -
  show allowed: "keeps (windows_unsent W l) (windows_allowed W)"
    by (rule keeps_hoare [OF hoare_post [OF hoare_windows_allowed]]) simp
  show "keeps (windows_unsent W l) (windows_capabilities W)"
    unfolding windows_capabilities_def windows_permissions_def uia_available_def windows_screens_def redacting_def
    by (intro keeps_rules windows_unsent_rules allowed)
qed

lemma windows_unsent_refuse [windows_unsent_rules]:
  "keeps (windows_unsent W l) (refuse_auxiliary action d)" "keeps (windows_unsent W l) (refuse_set_value node v d)"
  unfolding refuse_auxiliary_def refuse_set_value_def check_before_effect_def
  by (intro keeps_rules windows_unsent_rules)+

interpretation disabled_windows: gated_runtime "windows_runtime W" "windows_unsent W l"
  by unfold_locales
    (simp_all add: windows_runtime_def windows_unsent_rules hoare_windows_allowed hoare_return)

lemma windows_unsent_dispatch: "keeps (windows_unsent W l) (windows_dispatch W action target policy d)"
proof -
  have "keeps (windows_unsent W l) (windows_semantic W action d t)" for t
    unfolding windows_semantic_def windows_focused_target_def
    by (rule keeps_if, intro keeps_rules windows_unsent_rules disabled_windows.gated_focused_keeps,
        cases action; simp; intro keeps_rules windows_unsent_rules)
  then show ?thesis unfolding windows_dispatch_def by (rule disabled_windows.gated_dispatch_keeps)
qed

end
