(* ===== verification/WindowsFacts.thy ===== *)
theory WindowsFacts
  imports WindowsSafety
begin

text \<open>
  More about Windows: which events its input operations send, which keys they leave pressed, the
  clipboard, and why neither coordinates nor input for a semantic target are ever dispatched.
\<close>

section \<open>Held keys\<close>

datatype win_held = HeldVirtual virtual_key | HeldUnicode u16 | HeldMouse mouse_button

fun win_hold :: "win_held set \<Rightarrow> win_event \<Rightarrow> win_held set" where
  "win_hold K (KeyPress vk) = insert (HeldVirtual vk) K"
| "win_hold K (KeyRelease vk) = K - {HeldVirtual vk}"
| "win_hold K (UnicodePress u) = insert (HeldUnicode u) K"
| "win_hold K (UnicodeRelease u) = K - {HeldUnicode u}"
| "win_hold K (ButtonPress b) = insert (HeldMouse b) K"
| "win_hold K (ButtonRelease b) = K - {HeldMouse b}"
| "win_hold K e = K"

text \<open>A sequence that leaves nothing pressed that was not pressed before.\<close>

definition win_releases :: "win_event list \<Rightarrow> bool" where
  "win_releases l \<longleftrightarrow> (\<forall>K. foldl win_hold K l \<subseteq> K)"

lemma win_releases_Nil [simp]: "win_releases []"
  by (simp add: win_releases_def)

lemma win_releases_append: "win_releases l \<Longrightarrow> win_releases l' \<Longrightarrow> win_releases (l @ l')"
  unfolding win_releases_def by (metis foldl_append order_trans)

lemma win_releases_concat: "(\<And>l. l \<in> set ls \<Longrightarrow> win_releases l) \<Longrightarrow> win_releases (concat ls)"
  by (induction ls) (auto intro: win_releases_append)

lemma win_releases_taps [simp]:
  "win_releases (key_tap vk)" "win_releases [UnicodePress u, UnicodeRelease u]"
  "win_releases [ButtonPress b, ButtonRelease b]" "win_releases (with_control code)"
  "win_releases [CursorMoved x y]" "win_releases [scroll_event direction]"
  "win_releases [ClipboardEmptied]" "win_releases [ClipboardFilled wide]"
  by (auto simp: win_releases_def key_tap_def with_control_def) (cases direction; simp)+

lemma hold_pressed: "foldl win_hold K (map KeyPress ms) = K \<union> HeldVirtual ` set ms"
  by (induction ms arbitrary: K) auto

lemma hold_released: "foldl win_hold K (map KeyRelease ms) = K - HeldVirtual ` set ms"
  by (induction ms arbitrary: K) auto

lemma win_releases_chord: "win_releases (map KeyPress ms @ key_tap vk @ map KeyRelease (rev ms))"
  by (auto simp: win_releases_def key_tap_def hold_pressed hold_released)

section \<open>What an operation sends\<close>

text \<open>The events of a successful operation, as long as \<open>SendInput\<close> inserts all events.\<close>

definition inserts_all :: "windows_input \<Rightarrow> bool" where
  "inserts_all W \<longleftrightarrow> (\<forall>t n. wi_inserted W t n = n)"

definition win_sends :: "(win_event list \<Rightarrow> bool) \<Rightarrow> 'a win_input \<Rightarrow> bool" where
  "win_sends P m \<longleftrightarrow> grows (host_effects wd_events) (\<lambda>r l. \<forall>x. r = Inr x \<longrightarrow> P l) m"

abbreviation exactly :: "win_event list \<Rightarrow> (win_desktop host, 'a) state \<Rightarrow> bool" where
  "exactly l0 \<equiv> grows (host_effects wd_events) (\<lambda>_ l. l = l0)"

lemma exactly_bind: "exactly l m \<Longrightarrow> (\<And>x. exactly l' (f x)) \<Longrightarrow> exactly (l @ l') (State_Monad.bind m f)"
  by (rule grows_bind, assumption) (auto elim: grows_mono)

lemma exactly_quiet: "effectless wd_events m \<Longrightarrow> exactly [] m"
  by (rule grows_mono) simp_all

lemma exactly_return: "exactly [] (ret x)" "exactly [] (pause d)"
  by (auto intro: grows_return simp: pause_def)

lemma exactly_note: "exactly l (note_events l)"
  by (simp add: grows_def host_effects_def note_events_def update_exec_def)

lemma exactly_send: "inserts_all W \<Longrightarrow> exactly l (send_ignored W l)" "inserts_all W \<Longrightarrow> exactly l (send_inputs W l)"
  by (auto simp: grows_def host_effects_def send_ignored_def send_inputs_def ask_def note_events_def update_exec_def
      inserts_all_def)

lemma exactly_send_all: "inserts_all W \<Longrightarrow> exactly (concat ls) (send_all W ls)"
  by (induction ls) (auto intro: exactly_return exactly_bind exactly_send)

definition unit_taps :: "u16 list \<Rightarrow> win_event list" where
  "unit_taps us = concat (map (\<lambda>u. [UnicodePress u, UnicodeRelease u]) us)"

lemma exactly_type_units: "inserts_all W \<Longrightarrow> exactly (unit_taps us) (type_units W delay_ms us)"
proof (induction us)
  case (Cons u us)
  have "exactly ([UnicodePress u, UnicodeRelease u] @ [] @ unit_taps us) (type_units W delay_ms (u # us))"
    unfolding type_units.simps by (intro exactly_bind exactly_send Cons exactly_return)
  then show ?case by (simp add: unit_taps_def)
qed (simp add: unit_taps_def exactly_return)

lemma sends_exactly: "exactly l0 m \<Longrightarrow> P l0 \<Longrightarrow> win_sends P m"
  unfolding win_sends_def by (rule grows_mono, assumption) simp

lemma win_sends_refuse: "win_sends P (ret (Inl e))"
  unfolding win_sends_def by (rule grows_return) simp

text \<open>Typing: an optional chord that selects everything, the code units, an optional return.\<close>

definition typed_events :: "bool \<Rightarrow> string \<Rightarrow> bool \<Rightarrow> win_event list" where
  "typed_events clear txt press_return = (if clear then with_control 0x41 else [])
     @ unit_taps (encode_utf16 txt) @ (if press_return then key_tap VK_RETURN else [])"

lemma exactly_if: "(c \<Longrightarrow> exactly l m) \<Longrightarrow> (\<not> c \<Longrightarrow> exactly l' n) \<Longrightarrow> exactly (if c then l else l') (if c then m else n)"
  by simp

lemma sends_typed:
  assumes "inserts_all W"
  shows "win_sends (\<lambda>l. l = typed_events clear txt press_return) (win_type_text W txt clear press_return delay_ms)"
proof -
  have "exactly ((if clear then with_control 0x41 else []) @ unit_taps (encode_utf16 txt)
      @ (if press_return then key_tap VK_RETURN else []) @ []) (win_type_text W txt clear press_return delay_ms)"
    unfolding win_type_text_def
    by (intro exactly_bind exactly_if exactly_send exactly_type_units exactly_return assms)
  then show ?thesis by (rule sends_exactly) (simp add: typed_events_def)
qed

lemma win_releases_units: "win_releases (unit_taps us)"
  unfolding unit_taps_def by (rule win_releases_concat) auto

lemma win_releases_typed: "win_releases (typed_events clear txt press_return)"
  by (simp add: typed_events_def win_releases_append win_releases_units)

lemma sends_mono_win: "win_sends Q m \<Longrightarrow> (\<And>l. Q l \<Longrightarrow> P l) \<Longrightarrow> win_sends P m"
  unfolding win_sends_def by (rule grows_mono, assumption) blast

lemma sends_hotkey:
  assumes "inserts_all W"
  shows "win_sends win_releases (win_hotkey W keys)"
proof -
  have chord: "win_sends win_releases (do {
      send_all W (map (\<lambda>vk. [KeyPress vk]) ms); send_ignored W (key_tap vk);
      send_all W (map (\<lambda>vk. [KeyRelease vk]) (rev ms)); ret (Inr ()) })" for ms vk
    by (rule sends_exactly [of "concat (map (\<lambda>vk. [KeyPress vk]) ms) @ key_tap vk
          @ concat (map (\<lambda>vk. [KeyRelease vk]) (rev ms)) @ []"],
        intro exactly_bind exactly_send exactly_send_all exactly_return assms)
      (use win_releases_chord [of ms vk] in \<open>simp add: concat_map_singleton\<close>)
  show ?thesis
    unfolding win_hotkey_def by (auto intro: win_sends_refuse chord split: option.split)
qed

lemma sends_each_win:
  assumes "\<And>x. win_sends win_releases (f x)"
  shows "win_sends win_releases (each f xs)"
proof (induction xs)
  case Nil
  show ?case by (simp add: win_sends_def grows_return)
next
  case (Cons x xs)
  show ?case
    unfolding each.simps win_sends_def
    by (rule grows_try [OF assms [unfolded win_sends_def]])
      (auto intro: grows_mono [OF Cons [unfolded win_sends_def]] win_releases_append)
qed

lemma sends_press:
  assumes "inserts_all W"
  shows "win_sends win_releases (win_press W key n delay_ms)"
proof -
  have tap: "win_sends win_releases (do {
      (if i > 0 then pause delay_ms else ret ()); send_ignored W (key_tap vk); ret (Inr ()) })" for i :: nat and vk
    by (rule sends_exactly [of "[] @ key_tap vk @ []"],
        intro exactly_bind exactly_send assms exactly_return; simp add: exactly_return)
  show ?thesis
    unfolding win_press_def by (auto intro: win_sends_refuse sends_each_win tap split: option.split)
qed

lemma win_releases_wheel: "win_releases (replicate n (scroll_event direction))"
proof -
  have "foldl win_hold K (replicate n (scroll_event direction)) = K" for K
    by (induction n) (cases direction; simp)+
  then show ?thesis by (simp add: win_releases_def)
qed

lemma sends_win_scroll:
  assumes "inserts_all W"
  shows "win_sends win_releases (windows_scroll W direction n)"
  unfolding windows_scroll_def
  by (rule sends_exactly [of "concat (replicate n [scroll_event direction]) @ []"],
      intro exactly_bind exactly_send_all exactly_return assms)
    (simp add: win_releases_wheel)

lemma quiet_ask_ok [quiet_rules]: "effectless effects (ask_ok f)"
  unfolding ask_ok_def native_if_def by (intro quiet_rules)

lemma sends_click:
  assumes "inserts_all W"
  shows "win_sends win_releases (native_click_windows W p button)"
    and "win_sends win_releases (set_cursor_pos W p)"
proof -
  have cursor: "exactly ([CursorMoved (word_of_int (p_x p)) (word_of_int (p_y p))] @ []) (set_cursor_pos W p)"
    unfolding set_cursor_pos_def by (rule exactly_bind [OF exactly_note exactly_quiet [OF quiet_ask_ok]])
  then show "win_sends win_releases (set_cursor_pos W p)" by (rule sends_exactly) simp
  have buttons: "exactly ([ButtonPress button, ButtonRelease button] @ []) (do {
      n \<leftarrow> send_inputs W [ButtonPress button, ButtonRelease button]; native_if (n = 2) () })"
    unfolding native_if_def by (intro exactly_bind exactly_send exactly_return assms)
  show "win_sends win_releases (native_click_windows W p button)"
    unfolding native_click_windows_def win_sends_def
    by (rule grows_try [OF cursor])
      (auto intro!: grows_mono [OF buttons] simp: win_releases_def)
qed

section \<open>The clipboard\<close>

text \<open>
  Pasting closes the clipboard whatever happens, and keeps no block of memory unless the block
  could not be locked.
\<close>

definition clipboard_left :: "nat \<Rightarrow> native_error + unit \<Rightarrow> win_desktop host \<Rightarrow> bool" where
  "clipboard_left n r h \<longleftrightarrow> \<not> wd_clipboard_open (h_exec h)
     \<and> (wd_blocks (h_exec h) = n \<or> r \<noteq> Inr () \<and> wd_blocks (h_exec h) = Suc n)"

lemma paste_leaves_clipboard:
  "hoare (\<lambda>h. \<not> wd_clipboard_open (h_exec h) \<and> wd_blocks (h_exec h) = n) (win_paste W txt) (clipboard_left n)"
  by (auto simp: hoare_def win_paste_def open_clipboard_def and_close_def fill_clipboard_def ask_ok_def native_if_def
      ask_def note_events_def update_exec_def send_ignored_def send_inputs_def clipboard_left_def
      split: if_splits prod.splits sum.splits)

lemma sends_paste:
  assumes "inserts_all W"
  shows "win_sends (\<lambda>l. l = [ClipboardEmptied, ClipboardFilled (encode_utf16 txt @ [0])] @ with_control 0x56)
    (win_paste W txt)"
  using assms
  by (auto simp: win_sends_def grows_def host_effects_def win_paste_def open_clipboard_def and_close_def
      fill_clipboard_def ask_ok_def native_if_def ask_def note_events_def update_exec_def send_ignored_def
      send_inputs_def inserts_all_def split: if_splits prod.splits sum.splits)

text \<open>A combination succeeds even if no event was inserted: the results of \<open>SendInput\<close> are not looked at.\<close>

lemma hotkey_ignores_failure:
  assumes "\<And>t n. wi_inserted W t n = 0"
  shows "\<exists>h'. run_state (win_hotkey W [''ctrl'', ''c'']) h = (Inr (), h') \<and> wd_events (h_exec h') = wd_events (h_exec h)"
proof -
  have c: "win_key_code ''c'' = Some (VIRTUAL_KEY 67)" "those (map win_modifier [''ctrl'']) = Some [VK_CONTROL]"
    by code_simp+
  have "win_hotkey W [''ctrl'', ''c''] = do {
      send_all W (map (\<lambda>vk. [KeyPress vk]) [VK_CONTROL]); send_ignored W (key_tap (VIRTUAL_KEY 67));
      send_all W (map (\<lambda>vk. [KeyRelease vk]) (rev [VK_CONTROL])); ret (Inr ()) }"
    by (simp add: win_hotkey_def c del: win_modifier.simps list.map)
  then show ?thesis
    using assms
    by (simp add: send_ignored_def send_inputs_def ask_def note_events_def update_exec_def)
qed

section \<open>Coordinates and semantic targets\<close>

lemma unobserved_coordinates_windows:
  "run_state (windows_observe W (Coordinates x y display_id g snapshot_id c) deadline) h \<noteq> (Inr obs, h')"
  unfolding windows_observe_def observe_plain_with_def windows_observed_state_def redacting_def
  by (auto split: prod.splits sum.splits)

text \<open>The provider's next snapshot has the number \<open>g\<close>, and the events sent so far are \<open>l\<close>.\<close>

definition windows_numbered :: "u64 \<Rightarrow> win_event list \<Rightarrow> windows_state host \<Rightarrow> bool" where
  "windows_numbered g l h \<longleftrightarrow> win_effects (h_exec h) = l \<and> us_generation (wx_uia (h_exec h)) = g"

definition windows_refused :: "win_event list \<Rightarrow> dispatch_error + 'a \<Rightarrow> windows_state host \<Rightarrow> bool" where
  "windows_refused l r h \<longleftrightarrow> win_effects (h_exec h) = l \<and> (\<exists>e. r = Inl e \<and> de_effect e \<noteq> EffectUnknown)"

text \<open>The number that a snapshot carries is the one of the counter before it.\<close>

definition numbered_by :: "u64 \<Rightarrow> uia_state host \<Rightarrow> bool" where
  "numbered_by g h \<longleftrightarrow> us_generation (h_exec h) = g"

lemma looking_numbered: "looking m \<Longrightarrow> keeps (numbered_by g) m"
  by (rule keepsI) (auto simp: numbered_by_def dest: lookingD)

lemma take_number: "hoare (numbered_by g) next_uia_generation (\<lambda>r _. r = g)"
  by (auto simp: hoare_def numbered_by_def next_uia_generation_def get_exec_def update_exec_def)

abbreviation carries :: "u64 \<Rightarrow> protocol_error + semantic_observation \<Rightarrow> bool" where
  "carries g r \<equiv> \<forall>obs. r = Inr obs \<longrightarrow> so_generation obs = g"

lemma keeps_true: "keeps (\<lambda>_. True) m"
  by (simp add: keeps_def)

lemma windows_snapshot_number:
  "hoare (numbered_by g) (uia_snapshot_window W d sd w) (\<lambda>r _. carries g r)"
proof -
  note any = hoare_try_keeps [OF keeps_true]
  have rest: "hoare (\<lambda>_. True) (do {
     now \<leftarrow> now_ms;
     let observation_id = uia_observation_id W sd now g;
     try_bind (or_boundary_error d (TargetNotFound ''selected accessibility root is unavailable'')
         (native_call (\<lambda>t. ui_from_handle W t w))) (\<lambda>root.
     try_bind (check_protocol_boundary d) (\<lambda>_.
     try_bind (or_boundary_error d snapshot_failed (native_step (ui_walker W))) (\<lambda>_.
     try_bind (check_protocol_boundary d) (\<lambda>_.
     try_bind (ret (charge \<lparr>pb_integers = 0, pb_bytes = 0\<rparr> [])) (\<lambda>budget.
     try_bind (read_uia_tree W d sd observation_id 0 (first_tree budget root)) (\<lambda>s.
     let obs = uia_observation observation_id g sd now s;
         m = uia_mapping_of (ui_hashing W) observation_id g sd w now s in
     try_bind (check_protocol_boundary d) (\<lambda>_. do {
     later \<leftarrow> now_ms;
     try_bind (ret (from_snapshot (validate_observation (ui_hashing W) obs later))) (\<lambda>_.
     try_bind (validate_surface W d sd w) (\<lambda>_.
     try_bind (ret (mapping_budget W m)) (\<lambda>_.
     try_bind (persist_mapping W m) (\<lambda>_. ret (Inr obs)))))
     }))))))) }) (\<lambda>r _. carries g r)"
    unfolding Let_def
    by (rule hoare_bind_keeps [OF keeps_true], (rule any, simp)+, rule hoare_bind_keeps [OF keeps_true],
        (rule any, simp)+, rule hoare_return, simp add: uia_observation_def)
  show ?thesis
    unfolding uia_snapshot_window_def
    apply ((rule hoare_try_keeps [OF looking_numbered], (rule looking_rules)+, simp)+)
    apply (rule hoare_bind [OF take_number], rule hoare_if)
     apply (rule hoare_return, simp)
    subgoal for _ _ _ _ n
      by (rule hoareI) (use rest in \<open>auto simp only: dest: hoareD\<close>)
    done
qed

lemma snapshot_number: "hoare (numbered_by g) (uia_snapshot W d) (\<lambda>r _. carries g r)"
proof -
  have found: "hoare (numbered_by g) (case found of
       None \<Rightarrow> ret (Inl (TargetNotFound ''foreground window is unavailable''))
     | Some sd \<Rightarrow> uia_snapshot_window W d sd w) (\<lambda>r _. carries g r)" for found w
    by (auto intro: hoare_return windows_snapshot_number split: option.split)
  show ?thesis
    unfolding uia_snapshot_def
    apply (rule hoare_try_keeps [OF looking_numbered], (rule looking_rules)+, simp)
    apply (rule hoare_bind_keeps [OF looking_numbered], (rule looking_rules)+, rule hoare_if)
     apply (rule hoare_return, simp)
    apply ((rule hoare_try_keeps [OF looking_numbered], (rule looking_rules)+, simp)+)
    apply (rule hoare_bind_keeps [OF looking_numbered], (rule looking_rules)+, rule found)
    done
qed

lemma focused_number:
  "hoare (numbered_by g) (uia_focused_target W d) (\<lambda>r _. \<forall>t. r = Inr t \<longrightarrow> t_generation t = g)"
proof -
  have named: "focused_in W obs e = Inr t \<Longrightarrow> t_generation t = so_generation obs" for obs e t
    by (auto simp: focused_in_def target_of_def map_sum_def split: sum.splits list.splits option.splits if_splits)
  have rest: "hoare (\<lambda>_. so_generation obs = g)
      (try_bind (or_boundary_error d call_failed (new_automation W d)) (\<lambda>_.
       try_bind (check_protocol_boundary d) (\<lambda>_.
       try_bind (or_boundary_error d call_failed (native_call (ui_focused W))) (\<lambda>node.
       try_bind (or_boundary_error d call_failed (describe W d node)) (\<lambda>e.
       ret (focused_in W obs e)))))) (\<lambda>r _. \<forall>t. r = Inr t \<longrightarrow> t_generation t = g)" for obs
    by (rule hoare_try_keeps, simp add: keeps_def, simp)+ (rule hoare_return, auto dest: named)
  show ?thesis
    unfolding uia_focused_target_def
    by (rule hoare_try [OF snapshot_number], simp, rule hoare_pre [OF rest], simp)
qed

lemma windows_focused_number:
  "hoare (windows_numbered g l) (windows_focused_target W d)
     (\<lambda>r h. win_effects (h_exec h) = l \<and> (\<forall>e. r = Inl e \<longrightarrow> de_effect e \<noteq> EffectUnknown)
       \<and> (\<forall>t. r = Inr t \<longrightarrow> t_generation t = g))"
proof (rule hoareI)
  fix h r h'
  assume h: "windows_numbered g l h" and run: "run_state (windows_focused_target W d) h = (r, h')"
  let ?g = "\<lparr>h_env = h_env h, h_tick = h_tick h, h_exec = wx_uia (h_exec h)\<rparr>"
  obtain r0 k where k: "run_state (uia_focused_target (ww_uia W) d) ?g = (r0, k)" by force
  have "numbered_by g ?g" using h by (simp add: windows_numbered_def numbered_by_def)
  then have number: "\<forall>t. r0 = Inr t \<longrightarrow> t_generation t = g" using k by (rule hoareD [OF focused_number])
  show "win_effects (h_exec h') = l \<and> (\<forall>e. r = Inl e \<longrightarrow> de_effect e \<noteq> EffectUnknown)
       \<and> (\<forall>t. r = Inr t \<longrightarrow> t_generation t = g)"
    using run h k number
    by (auto simp: windows_focused_target_def on_uia_def on_part_def windows_numbered_def win_effects_def refused_def
        map_sum_def split: sum.splits)
qed

lemma windows_refused_semantic:
  assumes "focused_action action" and "t_generation t \<noteq> g"
  shows "hoare (windows_numbered g l) (windows_dispatch W action (SemanticTarget t) policy d) (windows_refused l)"
proof -
  have refuse: "hoare (\<lambda>h. win_effects (h_exec h) = l) (ret (Inl (refused message))) (windows_refused l)" for message
    by (rule hoare_return) (simp add: windows_refused_def refused_def)
  have semantic: "hoare (windows_numbered g l) (windows_semantic W action d t) (windows_refused l)"
    unfolding windows_semantic_def if_P [OF assms(1)]
  proof (rule hoare_try [OF windows_focused_number])
    fix focused
    show "hoare (\<lambda>h. win_effects (h_exec h) = l \<and> (\<forall>e. Inr focused = Inl e \<longrightarrow> de_effect e \<noteq> EffectUnknown)
         \<and> (\<forall>t. Inr focused = Inr t \<longrightarrow> t_generation t = g))
      (if focused \<noteq> t then ret (Inl (refused ''semantic target is not focused''))
       else dispatch_focused (windows_runtime W) action d) (windows_refused l)"
      using assms(2) by (intro hoare_if hoare_pre [OF refuse]) (auto simp: hoare_def)
  qed (auto simp: windows_refused_def)
  show ?thesis
    unfolding windows_dispatch_def
    by (rule semantic_dispatch [where P = "windows_numbered g l" and Q = "windows_refused l"])
      (use semantic in \<open>auto simp: windows_runtime_def windows_refused_def windows_numbered_def now_ms_def
        is_cancelled_def keeps_def\<close>)
qed

end
