(* ===== verification/NativeProperties.thy ===== *)
theory NativeProperties
  imports LinuxTyping LinuxEngine AtspiNative WindowsFacts Sample
begin

text \<open>
  The properties of the native executor on Linux and on Windows: what a failed dispatch may have
  done, the switch for global input, held keys, coordinates, capabilities, input for semantic
  targets, the resources of the Windows calls.
\<close>

section \<open>Honest errors\<close>

text \<open>
  C5: A dispatch of the native executor that fails and does not say that the effect is unknown
  has handed no input event to the desktop and has requested no effect on the accessibility bus,
  on Linux, nor from the accessibility provider, on Windows.
\<close>

theorem native_dispatch_is_honest:
  "denies_honestly events (native_dispatch N action target policy deadline)
   \<and> denies_honestly native_effects (native_dispatch (with_atspi A stored N') action target policy deadline)
   \<and> denies_honestly (host_effects win_effects) (windows_dispatch W action target policy deadline)
   \<and> denies_honestly (host_effects requested_effects) (windows_dispatch W action target policy deadline)"
  by (intro conjI honest_dispatch denies_dispatch honest_windows_dispatch)

text \<open>
  C8: While global input is disabled - by the environment, or by the file and the file can be
  read - no dispatch hands an input event to the desktop, on Linux and on Windows, whatever the
  action, the target and the state, and it stays disabled.
\<close>

theorem disabled_host_sends_nothing:
  "keeps (unsent N l) (native_dispatch N action target policy deadline)
   \<and> keeps (windows_unsent W l') (windows_dispatch W action target policy deadline)"
  by (rule conjI [OF unsent_dispatch windows_unsent_dispatch])

section \<open>Held keys and buttons\<close>


text \<open>
  C24: On X11 typing and scrolling leave input pressed.  A text without characters that need shift
  is typed with presses only, so its keys are held after it succeeded; and after scrolling the
  wheel button that was pressed is held, because the release names the opposite one.
\<close>

theorem x11_input_stays_held:
  assumes "plain L txt" and "chars txt \<noteq> []" and "0 < n"
  shows "sends (\<lambda>l. key_presses (length (chars txt)) l \<and> held l \<noteq> {}) (x11_type_text L txt False False delay_ms)
    \<and> sends (\<lambda>l. held l = {HeldButton (fst (x11_scroll_buttons direction))}) (x11_scroll L direction n)"
proof
  show "sends (\<lambda>l. key_presses (length (chars txt)) l \<and> held l \<noteq> {}) (x11_type_text L txt False False delay_ms)"
    by (rule sends_mono [OF sends_plain_text [OF assms(1)]]) (use assms(2) key_presses_held in blast)
  show "sends (\<lambda>l. held l = {HeldButton (fst (x11_scroll_buttons direction))}) (x11_scroll L direction n)"
    by (rule sends_mono [OF sends_scroll]) (use assms(3) wheel_held in blast)
qed

text \<open>A session on X11 whose keyboard has the letters a and b on the keys 38 and 56.\<close>

definition sample_linux :: linux_system where
  "sample_linux = \<lparr>ls_env = (\<lambda>name. if name = ''XDG_SESSION_TYPE'' then Some ''x11'' else None),
     ls_x11 = (\<lambda>t. Some \<lparr>xs_root = 7, xs_width = 800, xs_height = 600, xs_min_keycode = 38, xs_max_keycode = 39\<rparr>),
     ls_request = (\<lambda>t. True), ls_keyboard = (\<lambda>t first n. Some (1, [97, 98])), ls_crtcs = (\<lambda>t. None),
     ls_crtc = (\<lambda>t c. None), ls_bus = (\<lambda>t. False), ls_portal = (\<lambda>t c. None), ls_is_file = (\<lambda>t f. False),
     ls_feed = (\<lambda>t. False), ls_output = (\<lambda>t p a. None), ls_json = (\<lambda>s. None), ls_uppercase = (\<lambda>c. False)\<rparr>"

lemma sample_keys: "find_keycode 38 2 1 [97, 98] 97 = Inr 38" "find_keycode 38 2 1 [97, 98] 98 = Inr 39"
  by code_simp+

lemma sample_text: "chars ''ab'' = [97, 98]" "plain sample_linux ''ab''"
  "\<not> is_uppercase sample_linux 97" "\<not> is_uppercase sample_linux 98"
  "\<not> is_shift_symbol 97" "\<not> is_shift_symbol 98"
  "character_to_keysym 97 = 97" "character_to_keysym 98 = 98"
  by code_simp+

lemma sample_typing: "fst (run_state (x11_type_text sample_linux ''ab'' False False None) h) = Inr ()"
  by (simp add: x11_type_text_def sample_text x11_type_char_def connect_x11_def keysym_to_keycode_def ask_native_def
      native_ok_def ask_def fake_key_def send_and_flush_def send_event_def flush_def ask_ok_def native_if_def
      update_exec_def pause_def)
    (simp add: sample_linux_def sample_keys)

lemma x11_input_stays_held_witness:
  "sends (\<lambda>l. key_presses 2 l \<and> held l \<noteq> {}) (x11_type_text sample_linux ''ab'' False False None)
   \<and> sends (\<lambda>l. held l = {HeldButton 4}) (x11_scroll sample_linux Up 3)
   \<and> (\<forall>h. fst (run_state (x11_type_text sample_linux ''ab'' False False None) h) = Inr ())"
  using x11_input_stays_held [of sample_linux "''ab''" 3 None Up] by (simp add: sample_text sample_typing numeral_2_eq_2)

text \<open>
  C22: On Windows, as long as \<open>SendInput\<close> inserts every event it is given, a click, a move, a pressed
  key, a combination and scrolling that succeed leave nothing pressed that was not pressed before; a
  typed text is sent as a press and a release of each UTF-16 code unit, in order, between the chord
  that selects everything and Return where they were asked for; and pasting puts the text on the
  clipboard and sends one chord.
\<close>

theorem windows_input_is_released:
  assumes "inserts_all W"
  shows "win_sends win_releases (native_click_windows W p button) \<and> win_sends win_releases (set_cursor_pos W p)
    \<and> win_sends win_releases (win_press W key n delay_ms) \<and> win_sends win_releases (win_hotkey W keys)
    \<and> win_sends win_releases (windows_scroll W direction n)
    \<and> win_sends (\<lambda>l. l = typed_events clear txt press_return \<and> win_releases l)
        (win_type_text W txt clear press_return delay_ms)
    \<and> win_sends (\<lambda>l. l = [ClipboardEmptied, ClipboardFilled (encode_utf16 txt @ [0])] @ with_control 0x56)
        (win_paste W txt)"
  using sends_mono_win [OF sends_typed [OF assms]] win_releases_typed
  by (intro conjI sends_click sends_press sends_hotkey sends_win_scroll sends_paste assms) auto

text \<open>A desktop that takes every event, and what typing sends there.\<close>

definition eager_windows :: windows_input where
  "eager_windows = \<lparr>wi_inserted = (\<lambda>t n. n), wi_set_cursor = (\<lambda>t. True), wi_open_clipboard = (\<lambda>t. True),
     wi_empty_clipboard = (\<lambda>t. True), wi_alloc = (\<lambda>t. True), wi_lock = (\<lambda>t. True), wi_set_clipboard = (\<lambda>t. True)\<rparr>"

lemma eager_text: "encode_utf16 ''a'' = [97]"
proof -
  have "chars ''a'' = [97]" by code_simp
  then show ?thesis by (simp add: encode_utf16_def utf16_units_def)
qed

lemma windows_input_is_released_witness:
  "win_sends win_releases (win_hotkey eager_windows [''ctrl'', ''c''])
   \<and> win_sends (\<lambda>l. l = [UnicodePress 97, UnicodeRelease 97, KeyPress VK_RETURN, KeyRelease VK_RETURN])
       (win_type_text eager_windows ''a'' False True None)
   \<and> (\<forall>h. fst (run_state (win_type_text eager_windows ''a'' False True None) h) = Inr ())"
proof (intro conjI allI)
  have eager: "inserts_all eager_windows" by (simp add: inserts_all_def eager_windows_def)
  show "win_sends win_releases (win_hotkey eager_windows [''ctrl'', ''c''])"
    using windows_input_is_released [OF eager] by blast
  have "win_sends (\<lambda>l. l = typed_events False ''a'' True \<and> win_releases l) (win_type_text eager_windows ''a'' False True None)"
    using windows_input_is_released [OF eager] by blast
  then show "win_sends (\<lambda>l. l = [UnicodePress 97, UnicodeRelease 97, KeyPress VK_RETURN, KeyRelease VK_RETURN])
       (win_type_text eager_windows ''a'' False True None)"
    by (rule sends_mono_win) (simp add: typed_events_def eager_text unit_taps_def key_tap_def)
  show "fst (run_state (win_type_text eager_windows ''a'' False True None) h) = Inr ()" for h
    by (simp add: win_type_text_def eager_text send_ignored_def send_inputs_def ask_def note_events_def
        update_exec_def pause_def)
qed

section \<open>Resources\<close>


section \<open>Coordinates\<close>

text \<open>
  C25: The engine dispatches nothing for a target of coordinates, on Linux and on Windows, whatever
  the request, the ledgers and the world: such a target cannot be observed there, although the
  backend advertises the pointer actions and resolves coordinates.
\<close>

theorem coordinates_are_never_dispatched:
  "keeps (dispatched ds) (execute (E\<lparr>en_executor := native_executor N\<rparr>)
     (request\<lparr>rq_target := Coordinates x y display_id geometry snapshot_id content_hash\<rparr>))
   \<and> keeps (dispatched ds) (execute (E'\<lparr>en_executor := windows_executor W\<rparr>)
     (request\<lparr>rq_target := Coordinates x y display_id geometry snapshot_id content_hash\<rparr>))"
  by (intro conjI dispatched_execute)
    (simp_all add: native_executor_def unobserved_coordinates windows_executor_def unobserved_coordinates_windows)

section \<open>Capabilities\<close>



section \<open>Input for a semantic target\<close>




end
