(* ===== verification/AtspiTreeFacts.thy ===== *)
theory AtspiTreeFacts
  imports AtspiFacts
begin

text \<open>
  What a snapshot looks like: at most 512 elements, tagged in order, each but the first with an
  earlier element as its parent; and what the backend keeps of it.
\<close>

section \<open>The shape of a tree\<close>

definition tree_shaped :: "semantic_element list \<Rightarrow> bool" where
  "tree_shaped es \<longleftrightarrow> length es \<le> max_elements \<and> (\<forall>i < length es.
     se_tag (es ! i) = CHR ''e'' # show_nat i
     \<and> (case se_parent_id (es ! i) of
          None \<Rightarrow> i = 0
        | Some p \<Rightarrow> p \<in> se_element_id ` set (take i es)))"

text \<open>
  The queue while the tree is read: all of it has room, and the parents are there already; only
  the window itself has none.
\<close>

definition waiting :: "queue_entry list \<Rightarrow> semantic_element list \<Rightarrow> bool" where
  "waiting queue es \<longleftrightarrow> length es + length queue \<le> max_elements
     \<and> (\<forall>(ob, parent_id, depth) \<in> set queue. case parent_id of
          None \<Rightarrow> es = [] \<and> length queue = 1
        | Some p \<Rightarrow> p \<in> se_element_id ` set es)"

lemma tree_shaped_snoc:
  assumes "tree_shaped es" and "length es < max_elements" and "se_tag e = CHR ''e'' # show_nat (length es)"
    and "case se_parent_id e of None \<Rightarrow> es = [] | Some p \<Rightarrow> p \<in> se_element_id ` set es"
  shows "tree_shaped (es @ [e])"
  using assms unfolding tree_shaped_def
  by (auto simp: nth_append less_Suc_eq split: option.splits)

lemma queue_children_length:
  "run_state (queue_children A u owner parent rs) h = (Inr children, h') \<Longrightarrow> length children = length rs"
proof (induction rs arbitrary: h children h')
  case (Cons r rs)
  have "length child = 1" if "run_state (bind_children A u owner e parent [r]) k = (Inr child, k')" for e k child k'
    using that by (auto elim!: try_InrE simp del: run_try_bind)
  with Cons show ?case
    by (fastforce elim!: try_InrE simp del: run_try_bind bind_children.simps)
qed simp

lemma read_node_fields:
  assumes "run_state (read_node A u w observation_id number ob backend_id parent_id) h = (Inr node, h')"
  shows "se_tag (fst node) = CHR ''e'' # show_nat number" "se_parent_id (fst node) = parent_id"
  using assms unfolding read_node_def
  by (auto elim!: try_InrE simp: element_of_def Let_def semantic_tag_def from_semantic_def simp del: run_try_bind
      split: if_splits)

lemma waiting_next:
  assumes "waiting ((ob, parent_id, depth) # queue) es" and "length children \<le> max_elements - (Suc (length es) + length queue)"
  shows "waiting (queue @ map (\<lambda>child. (child, Some (se_element_id e), d)) children) (es @ [e])"
proof -
  have "p \<in> se_element_id ` set es" if "(ob', parent', d') \<in> set queue" "parent' = Some p" for ob' parent' d' p
    using assms(1) that by (fastforce simp: waiting_def)
  moreover have "parent' \<noteq> None" if "(ob', parent', d') \<in> set queue" for ob' parent' d'
  proof
    assume "parent' = None"
    with assms(1) that have "Suc (length queue) = 1" by (fastforce simp: waiting_def)
    with that show False by simp
  qed
  ultimately show ?thesis
    using assms by (fastforce simp: waiting_def split: option.splits)
qed

definition read_tree_rest :: "a11y \<Rightarrow> limits \<Rightarrow> surface_window \<Rightarrow> string \<Rightarrow> stored_object \<Rightarrow> nat
    \<Rightarrow> queue_entry list \<Rightarrow> tree_state \<Rightarrow> string \<Rightarrow> semantic_element \<times> stored_target \<Rightarrow> object_ref list
    \<Rightarrow> tree_state probing" where
  "read_tree_rest A u w observation_id ob depth queue s backend_id node children =
     (if depth = max_depth
      then read_tree A u w observation_id queue (truncate_if (children \<noteq> []) (add_node backend_id node s))
      else
        let room = remaining (add_node backend_id node s) (length queue) in
        try_bind (queue_children A u (window_owner w) ob (take room children)) (\<lambda>queued.
        read_tree A u w observation_id
          (queue @ map (\<lambda>child. (child, Some (se_element_id (fst node)), Suc depth)) queued)
          (truncate_if (room < length children) (add_node backend_id node s))))"

lemma read_tree_step:
  assumes "run_state (read_tree A u w observation_id ((ob, parent_id, depth) # queue) s) h = (Inr s', h')"
    and "length (ts_elements s) < max_elements"
  obtains backend_id node children k k' kk where "backend_id \<notin> set (ts_seen s)"
    "run_state (read_node A u w observation_id (length (ts_elements s)) ob backend_id parent_id) k = (Inr node, k')"
    "run_state (read_tree_rest A u w observation_id ob depth queue s backend_id node children) kk = (Inr s', h')"
proof -
  have "\<not> max_elements \<le> length (ts_elements s)" using assms(2) by simp
  note run = assms(1) [unfolded read_tree.simps if_not_P [OF this], folded read_tree_rest_def]
  from run obtain backend_id h2 where "run_state (if backend_id \<in> set (ts_seen s)
      then ret (Inl (ExecutorError ''ambiguous accessibility tree''))
      else try_bind (read_node A u w observation_id (length (ts_elements s)) ob backend_id parent_id) (\<lambda>node.
        try_bind (read_children A u ob) (\<lambda>children.
        read_tree_rest A u w observation_id ob depth queue s backend_id node children))) h2 = (Inr s', h')"
    by (elim try_InrE) blast
  then have "backend_id \<notin> set (ts_seen s)"
    and "run_state (try_bind (read_node A u w observation_id (length (ts_elements s)) ob backend_id parent_id) (\<lambda>node.
        try_bind (read_children A u ob) (\<lambda>children.
        read_tree_rest A u w observation_id ob depth queue s backend_id node children))) h2 = (Inr s', h')"
    by (simp_all split: if_splits del: run_try_bind)
  then show thesis by (elim try_InrE) (rule that)
qed

lemma read_tree_shaped:
  assumes "run_state (read_tree A u w observation_id queue s) h = (Inr s', h')"
    and "tree_shaped (ts_elements s)" and "waiting queue (ts_elements s)"
  shows "tree_shaped (ts_elements s')"
  using assms
proof (induction A u w observation_id queue s arbitrary: h rule: read_tree.induct)
  case (2 A u w observation_id ob parent_id depth queue s)
  have short: "length (ts_elements s) < max_elements"
    using "2.prems"(3) by (auto simp: waiting_def)
  from read_tree_step [OF "2.prems"(1) short] obtain backend_id node children k k' kk where
    backend_id: "backend_id \<notin> set (ts_seen s)"
    and node: "run_state (read_node A u w observation_id (length (ts_elements s)) ob backend_id parent_id) k = (Inr node, k')"
    and rest: "run_state (read_tree_rest A u w observation_id ob depth queue s backend_id node children) kk = (Inr s', h')" .
  let ?es = "ts_elements s" and ?e = "fst node"
  have es: "ts_elements (truncate_if c (add_node backend_id node s)) = ?es @ [?e]"
    "ts_elements (add_node backend_id node s) = ?es @ [?e]" for c
    by (simp_all add: add_node_def)
  have shaped: "tree_shaped (?es @ [?e])"
    using "2.prems"(2,3) short read_node_fields [OF node]
    by (intro tree_shaped_snoc) (auto simp: waiting_def split: option.splits)
  show ?case
  proof (cases "depth = max_depth")
    case True
    with rest have "run_state (read_tree A u w observation_id queue
        (truncate_if (children \<noteq> []) (add_node backend_id node s))) kk = (Inr s', h')"
      by (simp add: read_tree_rest_def)
    then show ?thesis
      using True shaped waiting_next [OF "2.prems"(3), of "[]" ?e] short backend_id
      by (intro "2.IH"(1)) (auto simp: es)
  next
    case False
    let ?room = "remaining (add_node backend_id node s) (length queue)"
    from rest False obtain queued k k'' where
      queued: "run_state (queue_children A u (window_owner w) ob (take ?room children)) k'' = (Inr queued, k)"
      and run: "run_state (read_tree A u w observation_id
            (queue @ map (\<lambda>child. (child, Some (se_element_id ?e), Suc depth)) queued)
            (truncate_if (?room < length children) (add_node backend_id node s))) k = (Inr s', h')"
      unfolding read_tree_rest_def Let_def if_not_P [OF False] by (elim try_InrE) blast
    have "length queued \<le> max_elements - (Suc (length ?es) + length queue)"
      using queue_children_length [OF queued] by (simp add: remaining_def)
    then show ?thesis
      using False shaped waiting_next [OF "2.prems"(3)] short backend_id run
      by (intro "2.IH"(2)) (auto simp: es)
  qed
qed simp

lemma waiting_window: "waiting [(ob, None, 0)] []"
  by (simp add: waiting_def max_elements_def)

lemma tree_shaped_Nil: "tree_shaped []"
  by (simp add: tree_shaped_def)

lemma read_window_shaped:
  assumes "run_state (read_tree A u w observation_id [(ob, None, 0)] empty_tree) h = (Inr s, h')"
  shows "tree_shaped (ts_elements s)"
  by (rule read_tree_shaped [OF assms]) (simp_all add: empty_tree_def tree_shaped_Nil waiting_window)

section \<open>What is kept\<close>

definition sound_snapshot :: "a11y \<Rightarrow> stored_snapshot \<Rightarrow> bool" where
  "sound_snapshot A s \<longleftrightarrow> (\<exists>now. validate_snapshot (grammar A) (hasher A) s now = Inr ())
     \<and> tree_shaped (so_elements (sp_observation s))"

definition keeps_sound :: "a11y \<Rightarrow> a11y_state host \<Rightarrow> bool" where
  "keeps_sound A h \<longleftrightarrow> (\<forall>s. al_latest (h_exec h) = Some s \<longrightarrow> sound_snapshot A s)"

lemma reading_keeps_sound: "reading m \<Longrightarrow> keeps (keeps_sound A) m"
  by (auto simp: keeps_def keeps_sound_def reading_def) (metis prod.collapse)

text \<open>A successful snapshot is the latest one from then on.\<close>

lemma snapshot_parts [simp]: "sp_observation (snapshot_of obs w s) = obs"
  "so_elements (observation_of observation_id number now w geometry s) = ts_elements s"
  by (simp_all add: snapshot_of_def observation_of_def)

lemma snapshot_window_kept:
  assumes "run_state (snapshot_window A u w geometry) h = (Inr obs, h')"
  shows "\<exists>s. al_latest (h_exec h') = Some s \<and> sp_observation s = obs \<and> sound_snapshot A s"
  using assms unfolding snapshot_window_def Let_def
  by (auto elim!: try_InrE split: prod.splits if_splits simp del: run_try_bind read_tree.simps
      simp: keep_latest_def get_exec_def update_exec_def sound_snapshot_def
      dest!: validate_at_now_Inr read_window_shaped; fast)

text \<open>So it is always a sound one.\<close>

abbreviation latest_is :: "stored_snapshot option \<Rightarrow> a11y_state host \<Rightarrow> bool" where
  "latest_is l h \<equiv> al_latest (h_exec h) = l"

lemma reading_latest: "reading m \<Longrightarrow> keeps (latest_is l) m"
  by (rule keepsI) (drule (1) readingD, simp)

text \<open>A failed snapshot leaves the one before.\<close>

lemma keep_latest_failed: "hoare (latest_is l) (keep_latest s) (\<lambda>r h. \<forall>e. r = Inl e \<longrightarrow> latest_is l h)"
  by (auto simp: hoare_def keep_latest_def get_exec_def update_exec_def)

lemma next_generation_latest: "keeps (latest_is l) next_generation"
  by (rule keepsI) (auto simp: next_generation_def update_exec_def get_exec_def)

lemma snapshot_window_failed:
  "hoare (latest_is l) (snapshot_window A u w geometry) (\<lambda>r h. \<forall>e. r = Inl e \<longrightarrow> latest_is l h)"
  unfolding snapshot_window_def Let_def
  by (intro hoare_try_keeps [OF reading_latest] hoare_bind_keeps [OF next_generation_latest]
        hoare_bind_keeps [OF reading_latest] hoare_try [OF keep_latest_failed] hoare_return reading_rules; simp)

lemma snapshot_window_keeps: "keeps (keeps_sound A) (snapshot_window A u w geometry)"
proof (rule keepsI)
  fix h r h'
  assume h: "keeps_sound A h" and run: "run_state (snapshot_window A u w geometry) h = (r, h')"
  show "keeps_sound A h'"
  proof (cases r)
    case (Inl e)
    with hoareD [OF snapshot_window_failed refl run] have "al_latest (h_exec h') = al_latest (h_exec h)" by simp
    with h show ?thesis by (simp add: keeps_sound_def)
  next
    case (Inr obs)
    with run snapshot_window_kept [of A u w geometry h obs h'] show ?thesis by (auto simp: keeps_sound_def)
  qed
qed

named_theorems sound_rules \<open>computations that keep the latest snapshot sound\<close>

lemma keeps_case_list:
  "keeps I m \<Longrightarrow> (\<And>x xs. keeps I (f x xs)) \<Longrightarrow> keeps I (case l of [] \<Rightarrow> m | x # xs \<Rightarrow> f x xs)"
  by (cases l) simp_all

lemmas [sound_rules] = keeps_bind keeps_try keeps_if keeps_case_option keeps_case_list snapshot_window_keeps

lemma focused_target_keeps: "keeps (keeps_sound A) (focused_target_of A u)"
  unfolding focused_target_of_def unavailable_desktop_def Let_def
  by (intro sound_rules; rule reading_keeps_sound; intro reading_rules)

lemma snapshot_keeps: "keeps (keeps_sound A) (snapshot A u)"
  unfolding snapshot_def by (intro sound_rules; rule reading_keeps_sound; intro reading_rules)

lemma observe_surface_keeps: "keeps (keeps_sound A) (observe_surface A u surface)"
  unfolding observe_surface_def stale_target_def
  by (intro sound_rules; rule reading_keeps_sound; intro reading_rules)

end
