(* ===== verification/AtspiTargets.thy ===== *)
theory AtspiTargets
  imports AtspiSafety AtspiTreeFacts
begin

text \<open>
  More about targets: the only allowed action of a node, the trust in the X server behind every
  answer about the desktop, that every method keeps the latest snapshot sound, and what is read
  back of a persisted snapshot.
\<close>

section \<open>The action to invoke\<close>

lemma filter_distinct_single:
  assumes "distinct xs"
  shows "filter P xs = [x] \<longleftrightarrow> x \<in> set xs \<and> P x \<and> (\<forall>y \<in> set xs. P y \<longrightarrow> y = x)"
proof
  assume f: "filter P xs = [x]"
  have "set (filter P xs) = {x}" by (simp add: f)
  then show "x \<in> set xs \<and> P x \<and> (\<forall>y \<in> set xs. P y \<longrightarrow> y = x)" by auto
next
  assume "x \<in> set xs \<and> P x \<and> (\<forall>y \<in> set xs. P y \<longrightarrow> y = x)"
  then have s: "set (filter P xs) = {x}" by auto
  have "length (filter P xs) = 1"
    using distinct_card [OF distinct_filter [OF assms, of P]] s by simp
  then obtain y where "filter P xs = [y]" by (auto simp: length_Suc_conv)
  with s show "filter P xs = [x]" by simp
qed

lemma select_invoke_action_Some:
  "select_invoke_action actions = Some a \<longleftrightarrow> (\<exists>i name. filter (\<lambda>(i, name). allowed_action name)
       (zip [0..<length actions] actions) = [(i, name)] \<and> i < 2147483648 \<and> a = \<lparr>ia_index = int i, ia_name = name\<rparr>)"
  by (auto simp: select_invoke_action_def split: list.splits if_splits prod.splits)

lemma indexed_mem: "(i, name) \<in> set (zip [0..<length xs] xs) \<longleftrightarrow> i < length xs \<and> name = xs ! i"
  by (auto simp: in_set_zip intro: exI [of _ i])

lemma select_invoke_action_iff:
  "select_invoke_action actions = Some a \<longleftrightarrow>
     (\<exists>i < length actions. i < 2147483648 \<and> a = \<lparr>ia_index = int i, ia_name = actions ! i\<rparr>
        \<and> allowed_action (actions ! i) \<and> (\<forall>j < length actions. allowed_action (actions ! j) \<longrightarrow> j = i))"
  unfolding select_invoke_action_Some filter_distinct_single [OF distinct_zipI1 [OF distinct_upt]]
    Ball_def split_paired_All indexed_mem prod.case prod.inject
  by blast

section \<open>Trust in the X server\<close>

text \<open>
  The server that a connection leads to, each fact as it was at some moment: Xorg itself, run by
  root or by this user from a file that only root may write, and not the server of a Wayland
  session.
\<close>

definition trusted_server :: "a11y \<Rightarrow> x11_connection \<Rightarrow> bool" where
  "trusted_server A c \<longleftrightarrow> (let W = aw_x11 A; server = cn_server c in
     cn_vendor c = ''The X.Org Foundation'' \<and> file_name (sv_executable server) = Some ''Xorg''
     \<and> (sv_user_id server = 0 \<or> (\<exists>t. xw_user W t = sv_user_id server))
     \<and> (\<exists>t mode. xw_exe_file W t (sv_process_id server) = Some (True, 0, mode) \<and> mode AND 18 = 0)
     \<and> (\<exists>t. xw_exe W t (sv_process_id server) = Some (sv_executable server))
     \<and> (\<exists>t. xw_extension W t ''XWAYLAND'' = Some False))"

lemma reply_Inr: "run_state (reply f) h = (Inr x, h') \<Longrightarrow> \<exists>t. f t = Some x"
  by (auto simp: reply_def some_or_fail_def ask_def split: option.splits)

lemma require_Inr: "run_state (require c) h = (Inr x, h') \<Longrightarrow> c"
  by (simp add: require_def split: if_splits)

lemma trusted_x11_server_True:
  assumes "run_state (trusted_x11_server W pid uid exe) h = (True, h')"
  shows "file_name exe = Some ''Xorg''" "uid = 0 \<or> (\<exists>t. xw_user W t = uid)"
    "\<exists>t mode. xw_exe_file W t pid = Some (True, 0, mode) \<and> mode AND 18 = 0"
  using assms
  by (auto simp: trusted_x11_server_def ask_def native_x11_server_executable_def trusted_x11_server_file_def
      split: option.splits; blast)+

lemma validate_server_trusted:
  assumes "run_state (validate_server (hasher A) (aw_x11 A) c) (h :: 'a host) = (Inr x, h')"
  shows "trusted_server A c"
proof -
  let ?W = "aw_x11 A" and ?s = "cn_server c"
  have "(\<exists>t. xw_exe ?W t (sv_process_id ?s) = Some (sv_executable ?s))
    \<and> (\<exists>k k'. run_state (trusted_x11_server ?W (sv_process_id ?s) (sv_user_id ?s) (sv_executable ?s)) (k :: 'a host) = (True, k'))
    \<and> cn_vendor c = ''The X.Org Foundation'' \<and> (\<exists>t. xw_extension ?W t ''XWAYLAND'' = Some False)"
    using assms unfolding validate_server_def Let_def
    by (auto elim!: try_InrE simp del: run_try_bind split: prod.splits dest!: require_Inr reply_Inr; blast)
  then show ?thesis
    using trusted_x11_server_True [of ?W "sv_process_id ?s" "sv_user_id ?s" "sv_executable ?s"]
    unfolding trusted_server_def Let_def by blast
qed

text \<open>What the topology thread answers comes from a trusted server.\<close>

lemma x11_request_trusted:
  assumes "run_state (x11_request A action) h = (Inr x, h')"
  shows "\<exists>c k k'. trusted_server A c \<and> run_state (action c) k = (Inr x, k')"
proof -
  obtain c k k' where "run_state (try_bind (validate_server (hasher A) (aw_x11 A) c) (\<lambda>_. action c)) k = (Inr x, k')"
    using assms unfolding x11_request_def
    by (auto simp: ask_def get_exec_def update_exec_def simp del: run_try_bind split: if_splits option.splits prod.splits)
  then show ?thesis by (elim try_InrE) (blast dest: validate_server_trusted)
qed

section \<open>Every method keeps the latest snapshot sound\<close>

lemma perform_latest: "keeps (keeps_sound A) (perform u e answer)"
proof -
  have "keeps (keeps_sound A) (update_exec (al_effects_update (\<lambda>l. l @ [e])))"
    by (simp add: keeps_def update_exec_def keeps_sound_def)
  moreover have "reading (check_after_dispatch u)"
    unfolding check_after_dispatch_def by (intro reading_rules)
  ultimately show ?thesis
    unfolding perform_def by (intro sound_rules) (auto intro: reading_keeps_sound reading_rules keeps_return)
qed

lemma semantic_effects_keep_sound:
  "keeps (keeps_sound A) (semantic_invoke A u target)" "keeps (keeps_sound A) (semantic_set_value A u target value)"
  unfolding semantic_invoke_def semantic_set_value_def
  by (intro sound_rules keeps_case_prod perform_latest; rule reading_keeps_sound; intro reading_rules)+

section \<open>Persisted snapshots\<close>

text \<open>A snapshot that was persisted is what is loaded, as long as its file is left alone.\<close>

lemma persist_snapshot_file:
  assumes "run_state (persist_snapshot A s) h = (Inr (), h')"
  obtains path where "private_path A (so_observation_id (sp_observation s)) = Inr path"
    "al_files (h_exec h') path = Some (aw_print A s @ [newline])"
proof -
  obtain path where path: "private_path A (so_observation_id (sp_observation s)) = Inr path"
    and run: "run_state (on_private_files (persist_observation (so_names (aw_storing A)) path (aw_print A s))) h = (Inr (), h')"
    using assms unfolding persist_snapshot_def by (auto elim!: try_InrE simp del: run_try_bind)
  let ?g = "\<lparr>h_env = h_env h, h_tick = h_tick h, h_exec = al_files (h_exec h)\<rparr>"
  obtain g' where g: "run_state (persist_observation (so_names (aw_storing A)) path (aw_print A s)) ?g = (Inr (), g')"
    and "al_files (h_exec h') = h_exec g'"
    using run by (auto simp: on_private_files_def on_part_def split: prod.splits)
  with persist_observation_replaces [OF g] show thesis
    by (intro that [OF path]) (simp add: replaced_def holds_def)
qed

lemma load_snapshot_reads:
  assumes "private_path A observation_id = Inr path" and "al_files (h_exec k) path = Some bytes"
    and "aw_read A bytes = Some s" and "\<And>n. io_at (h_env k) n = IoOk"
  shows "fst (run_state (load_snapshot A observation_id) k) = Inr s"
  using assms
  by (simp add: load_snapshot_def host_io_def next_io_def get_exec_def)

section \<open>Text that spoils a snapshot\<close>

text \<open>
  A blank name and a role of more than 128 bytes pass the checks of the sample, but no observation
  with such an element is valid: one of them in a window makes every snapshot of it fail.
\<close>

definition long_role :: string where
  "long_role = replicate 129 (CHR ''a'')"

lemma odd_text_accepted: "bounded_optional_text '' '' = Inr (Some '' '')" "bounded_text long_role = Inr long_role"
  by code_simp+

lemma odd_text_invalid: "\<not> valid_text '' '' 0 1024" "\<not> valid_text long_role 1 128"
  by code_simp (simp add: valid_text_def long_role_def)

lemma odd_text_spoils_snapshot:
  assumes "e \<in> set (so_elements s)" and "se_name e = Some '' '' \<or> se_role e = long_role"
  shows "validate_observation H s now \<noteq> Inr ()"
proof -
  have "\<not> valid_element e" using assms(2) odd_text_invalid by (auto simp: valid_element_def)
  then have "\<not> well_formed_elements (so_elements s)"
    using assms(1) by (auto simp: well_formed_elements_def list_all_iff)
  then show ?thesis using validate_observation_ok by blast
qed

end
