(* ===== verification/X11Facts.thy ===== *)
theory X11Facts
  imports X11Desktop "HOL-Library.Multiset"
begin

text \<open>
  Facts about the display topology: which topologies are accepted, and that the normal form,
  hence its hash, depends only on the set of displays and the sets of their outputs.
\<close>

section \<open>The normal form\<close>

definition canonical_display :: "x11_display \<Rightarrow> x11_display" where
  "canonical_display d = d\<lparr>xd_outputs := sort (xd_outputs d)\<rparr>"

definition usable_display :: "x11_display \<Rightarrow> bool" where
  "usable_display d \<longleftrightarrow> xd_width d \<noteq> 0 \<and> xd_height d \<noteq> 0 \<and> xd_outputs d \<noteq> []
     \<and> length (xd_outputs d) \<le> max_outputs"

definition all_outputs :: "x11_display list \<Rightarrow> u32 list" where
  "all_outputs ds = concat (map xd_outputs ds)"

definition usable_topology :: "x11_topology \<Rightarrow> bool" where
  "usable_topology t \<longleftrightarrow> xt_width t \<noteq> 0 \<and> xt_height t \<noteq> 0 \<and> xt_displays t \<noteq> []
     \<and> length (xt_displays t) \<le> max_displays \<and> (\<forall>d \<in> set (xt_displays t). usable_display d)
     \<and> distinct (map xd_crtc (xt_displays t)) \<and> distinct (all_outputs (xt_displays t))"

lemma insert_new_Some:
  "insert_new seen xs = Some s \<longleftrightarrow> distinct xs \<and> set xs \<inter> set seen = {} \<and> s = rev xs @ seen"
  by (induction seen xs rule: insert_new.induct) auto

lemma normalize_displays_Some:
  "normalize_displays crtcs outputs ds = Some ds' \<longleftrightarrow>
     (\<forall>d \<in> set ds. usable_display d) \<and> distinct (map xd_crtc ds) \<and> xd_crtc ` set ds \<inter> set crtcs = {}
     \<and> distinct (all_outputs ds) \<and> set (all_outputs ds) \<inter> set outputs = {} \<and> ds' = map canonical_display ds"
proof (induction crtcs outputs ds arbitrary: ds' rule: normalize_displays.induct)
  case (2 crtcs outputs d ds)
  show ?case
  proof (cases "usable_display d \<and> xd_crtc d \<notin> set crtcs")
    case True
    then have "normalize_displays crtcs outputs (d # ds) =
        Option.bind (insert_new outputs (sort (xd_outputs d))) (\<lambda>outputs'.
          map_option ((#) (canonical_display d)) (normalize_displays (xd_crtc d # crtcs) outputs' ds))"
      by (simp add: usable_display_def canonical_display_def)
    then have "normalize_displays crtcs outputs (d # ds) = Some ds' \<longleftrightarrow>
        distinct (xd_outputs d) \<and> set (xd_outputs d) \<inter> set outputs = {} \<and>
        (\<exists>rest. normalize_displays (xd_crtc d # crtcs) (rev (sort (xd_outputs d)) @ outputs) ds = Some rest
          \<and> ds' = canonical_display d # rest)"
      by (auto simp: bind_eq_Some_conv insert_new_Some)
    note step = this
    show ?thesis
    proof (cases "distinct (xd_outputs d) \<and> set (xd_outputs d) \<inter> set outputs = {}")
      case fresh: True
      then have "insert_new outputs (sort (xd_outputs d)) = Some (rev (sort (xd_outputs d)) @ outputs)"
        by (simp add: insert_new_Some)
      moreover have "\<not> (xd_width d = 0 \<or> xd_height d = 0 \<or> xd_outputs d = [] \<or>
          max_outputs < length (xd_outputs d) \<or> xd_crtc d \<in> set crtcs)"
        using True by (auto simp: usable_display_def)
      ultimately have "normalize_displays (xd_crtc d # crtcs) (rev (sort (xd_outputs d)) @ outputs) ds = Some rest \<longleftrightarrow>
          (\<forall>d \<in> set ds. usable_display d) \<and> distinct (map xd_crtc ds)
          \<and> xd_crtc ` set ds \<inter> set (xd_crtc d # crtcs) = {} \<and> distinct (all_outputs ds)
          \<and> set (all_outputs ds) \<inter> set (rev (sort (xd_outputs d)) @ outputs) = {}
          \<and> rest = map canonical_display ds" for rest
        by (rule "2.IH" [rotated])
      with step fresh True show ?thesis by (auto simp: all_outputs_def)
    next
      case False
      then show ?thesis unfolding step by (auto simp: all_outputs_def)
    qed
  qed (auto simp: usable_display_def)
qed (auto simp: all_outputs_def)

lemma normalize_topology_Some:
  "normalize_topology t = Some n \<longleftrightarrow> usable_topology t
     \<and> n = t\<lparr>xt_displays := sort_key display_key (map canonical_display (xt_displays t))\<rparr>"
  by (auto simp: normalize_topology_def usable_topology_def normalize_displays_Some)

section \<open>Equality up to order\<close>

definition same_topology :: "x11_topology \<Rightarrow> x11_topology \<Rightarrow> bool" where
  "same_topology t t' \<longleftrightarrow> xt_root t = xt_root t' \<and> xt_width t = xt_width t' \<and> xt_height t = xt_height t'
     \<and> mset (map canonical_display (xt_displays t)) = mset (map canonical_display (xt_displays t'))"

lemma inj_unat: "inj unat"
  by (rule injI) (simp add: word_unat_eq_iff)

lemma inj_display_key: "inj display_key"
  by (rule injI) (auto simp: display_key_def word_unat_eq_iff inj_map_eq_map [OF inj_unat]
      intro!: x11_display.equality dest: signed_word_eqI)

lemma canonical_simps [simp]:
  "usable_display (canonical_display d) = usable_display d" "xd_crtc (canonical_display d) = xd_crtc d"
  "mset (xd_outputs (canonical_display d)) = mset (xd_outputs d)"
  by (auto simp: usable_display_def canonical_display_def) (metis length_0_conv length_sort)+

lemma mset_all_outputs: "mset (all_outputs ds) = \<Sum>\<^sub># (image_mset (\<lambda>d. mset (xd_outputs d)) (mset (map canonical_display ds)))"
  by (induction ds) (simp_all add: all_outputs_def)

lemma usable_topology_cong:
  assumes "same_topology t t'"
  shows "usable_topology t = usable_topology t'"
proof -
  let ?c = "\<lambda>t. map canonical_display (xt_displays t)"
  have m: "mset (?c t) = mset (?c t')" using assms by (simp add: same_topology_def)
  have "length (?c t) = length (?c t')" using m by (rule mset_eq_length)
  moreover have "set (?c t) = set (?c t')" using m by (rule mset_eq_setD)
  moreover have "mset (map xd_crtc (?c t)) = mset (map xd_crtc (?c t'))"
    using m by (metis mset_map)
  then have "distinct (map xd_crtc (xt_displays t)) = distinct (map xd_crtc (xt_displays t'))"
    by (metis (no_types, lifting) canonical_simps(2) list.map_comp comp_apply map_eq_conv mset_eq_imp_distinct_iff)
  moreover have "distinct (all_outputs (xt_displays t)) = distinct (all_outputs (xt_displays t'))"
    by (rule mset_eq_imp_distinct_iff) (simp only: mset_all_outputs m)
  moreover have "(\<forall>d \<in> set (xt_displays t). usable_display d) \<longleftrightarrow> (\<forall>d \<in> set (?c t). usable_display d)" for t
    by simp
  ultimately show ?thesis
    using assms unfolding usable_topology_def same_topology_def
    by (metis length_0_conv length_map)
qed

lemma normalize_topology_same:
  assumes "normalize_topology t = Some n"
  shows "normalize_topology t' = Some n \<longleftrightarrow> same_topology t' t"
proof
  let ?c = "\<lambda>t. map canonical_display (xt_displays t)"
  assume "normalize_topology t' = Some n"
  with assms have "t'\<lparr>xt_displays := sort_key display_key (?c t')\<rparr> = t\<lparr>xt_displays := sort_key display_key (?c t)\<rparr>"
    by (simp add: normalize_topology_Some)
  then have "xt_root t' = xt_root t" "xt_width t' = xt_width t" "xt_height t' = xt_height t"
    and s: "sort_key display_key (?c t') = sort_key display_key (?c t)"
    by (metis x11_topology.ext_inject x11_topology.surjective x11_topology.update_convs(4))+
  moreover have "mset (?c t') = mset (?c t)"
    using arg_cong [OF s, of mset] by simp
  ultimately show "same_topology t' t" by (simp add: same_topology_def)
next
  let ?c = "\<lambda>t. map canonical_display (xt_displays t)"
  assume s: "same_topology t' t"
  then have m: "mset (?c t') = mset (sort_key display_key (?c t))"
    by (simp add: same_topology_def)
  have "sort_key display_key (?c t') = sort_key display_key (?c t)"
    by (rule sort_key_inj_key_eq [OF m inj_on_subset [OF inj_display_key]]) simp_all
  with s assms show "normalize_topology t' = Some n"
    by (auto simp: normalize_topology_Some usable_topology_cong [OF s] same_topology_def)
qed

end
