(* ===== verification/AccessibilityProperties.thy ===== *)
theory AccessibilityProperties
  imports AtspiTargets X11Facts Sample
begin

text \<open>
  The properties of the accessibility backend of Linux: effects on live targets only, sound
  snapshots, their storage, and the X server behind the display topology.
\<close>

section \<open>Effects\<close>

text \<open>
  C6: Invoking a target or setting its value requests at most one effect on the bus: none if the
  error denies it, exactly one on success.  The effect is the one allowed action of the object, or
  the given text; the object is the one the target's element stands for in a valid stored snapshot,
  has a way of live parents up to the stored window within the window's process, and was sampled
  with the fingerprint that the target names, visible and enabled.
\<close>

theorem semantic_effect_is_fenced:
  "grows requested (acted (fenced_action A target)) (semantic_invoke A u target)
   \<and> grows requested (acted (fenced_text A target value)) (semantic_set_value A u target value)"
  using acts_invoke acts_set_value by blast

section \<open>Snapshots\<close>

text \<open>
  C11: The latest snapshot of the backend is always sound: it passes its own validation, with a
  stored object for each element, and has at most 512 elements, tagged in order, each but the first
  with an earlier one as its parent.  Every method keeps it so: a snapshot that fails leaves the one
  before.
\<close>

theorem latest_snapshot_is_sound:
  "keeps (keeps_sound A) (snapshot A u) \<and> keeps (keeps_sound A) (observe_surface A u surface)
   \<and> keeps (keeps_sound A) (focused_target_of A u) \<and> keeps (keeps_sound A) (observe_target A u target)
   \<and> keeps (keeps_sound A) (semantic_invoke A u target) \<and> keeps (keeps_sound A) (semantic_set_value A u target value)
   \<and> keeps (keeps_sound A) (desktop_context_hash A) \<and> keeps (keeps_sound A) (display_geometry_hash A)"
  by (intro conjI snapshot_keeps observe_surface_keeps focused_target_keeps semantic_effects_keep_sound
      reading_keeps_sound reading_rules)

text \<open>
  A snapshot that was persisted is read back whole by any later process, as long as its file
  is left alone and can be read.
\<close>

theorem persisted_snapshot_is_read_back:
  assumes "run_state (persist_snapshot A s) h = (Inr (), h')"
    and "aw_read A (aw_print A s @ [newline]) = Some s"
    and "al_files (h_exec k) = al_files (h_exec h')" and "\<And>n. io_at (h_env k) n = IoOk"
  shows "fst (run_state (load_snapshot A (so_observation_id (sp_observation s))) k) = Inr s"
proof -
  obtain path where path: "private_path A (so_observation_id (sp_observation s)) = Inr path"
    and bytes: "al_files (h_exec h') path = Some (aw_print A s @ [newline])"
    by (rule persist_snapshot_file [OF assms(1)])
  have content: "al_files (h_exec k) path = Some (aw_print A s @ [newline])" using bytes assms(3) by simp
  show ?thesis by (rule load_snapshot_reads [OF path content assms(2) assms(4)])
qed

text \<open>A desktop on which nothing answers but the files.\<close>

definition silent_x11 :: x11_world where
  "silent_x11 = \<lparr>xw_stat = \<lambda>t p. None, xw_boot_id = \<lambda>t. None, xw_screen = \<lambda>t. None, xw_socket = \<lambda>t. False,
     xw_stream = \<lambda>t. False, xw_peer = \<lambda>t. None, xw_exe = \<lambda>t p. None, xw_exe_file = \<lambda>t p. None,
     xw_user = \<lambda>t. 1000, xw_auth = \<lambda>t. None, xw_setup = \<lambda>t. None, xw_extension = \<lambda>t e. None,
     xw_geometry = \<lambda>t w. None, xw_resources = \<lambda>t w. None, xw_crtc = \<lambda>t c s. None, xw_atom = \<lambda>t n. None,
     xw_property = \<lambda>t w p k. None, xw_map_state = \<lambda>t w. None, xw_focus = \<lambda>t. None, xw_tree = \<lambda>t w. None,
     xw_pointer = \<lambda>t w. None\<rparr>"

definition small_snapshot :: stored_snapshot where
  "small_snapshot = \<lparr>sp_protocol_version = 1,
     sp_observation = \<lparr>so_protocol_version = 1, so_observation_id = zero_hash, so_generation = 1,
       so_provenance = \<lparr>pv_backend = Accessibility, pv_backend_name = atspi_backend_name, pv_process_id = 4,
         pv_process_generation = zero_hash, pv_window_id = zero_hash, pv_document_id = None,
         pv_display_geometry_hash = zero_hash, pv_host_opt_ins = []\<rparr>,
       so_observed_at_ms = 0, so_expires_at_ms = 9, so_truncated = False, so_elements = []\<rparr>,
     sp_targets = [], sp_window = registry_root, sp_window_fingerprint_hash = zero_hash,
     sp_process_id = 4, sp_process_generation = zero_hash\<rparr>"

definition silent_desktop :: a11y where
  "silent_desktop = \<lparr>aw_hashing = sample_hashing, aw_x11 = silent_x11,
     aw_grammar = \<lparr>bg_unique_name = \<lambda>n. True, bg_object_path = \<lambda>p. True, bg_bus_name = \<lambda>n. True\<rparr>,
     aw_storing = \<lparr>so_env = \<lambda>n. None, so_fallback = ''/tmp'', so_names = \<lambda>t. (4, 0, 0), so_print = \<lambda>j. [],
       so_read = \<lambda>s. None\<rparr>,
     aw_print = \<lambda>s. ''{}'', aw_read = \<lambda>b. if b = ''{}'' @ [newline] then Some small_snapshot else None,
     aw_self = 4, aw_connect = \<lambda>t. False, aw_thread = \<lambda>t. False, aw_sent = \<lambda>t. False, aw_timely = \<lambda>t. False,
     aw_proxy = \<lambda>t ob. False, aw_dbus = \<lambda>t. False, aw_process_id = \<lambda>t n. None, aw_children = \<lambda>t ob. None,
     aw_parent = \<lambda>t ob. None, aw_role = \<lambda>t ob. None, aw_role_name = \<lambda>t ob. None, aw_name = \<lambda>t ob. None,
     aw_states = \<lambda>t ob. None, aw_interfaces = \<lambda>t ob. None, aw_extents = \<lambda>t ob. None,
     aw_action_count = \<lambda>t ob. None, aw_action_name = \<lambda>t ob i. None, aw_character_count = \<lambda>t ob. None,
     aw_text = \<lambda>t ob n. None, aw_do_action = \<lambda>t ob i. None, aw_set_text = \<lambda>t ob v. None\<rparr>"

definition fresh_backend :: "a11y_state host" where
  "fresh_backend = \<lparr>h_env = sample_env, h_tick = 0, h_exec = \<lparr>al_generation = 1, al_latest = None,
     al_latest_poisoned = False, al_worker = None, al_files = Map.empty, al_effects = []\<rparr>\<rparr>"

lemma small_snapshot_persisted:
  "run_state (persist_snapshot silent_desktop small_snapshot) fresh_backend
     = (Inr (), snd (run_state (persist_snapshot silent_desktop small_snapshot) fresh_backend))"
proof -
  have "private_path silent_desktop zero_hash
      = Inr (''/tmp/praefectus/observations/semantic-'' @ zero_hash @ ''.json'')"
    by code_simp
  then have "fst (run_state (persist_snapshot silent_desktop small_snapshot) fresh_backend) = Inr ()"
    by (simp add: persist_snapshot_def on_private_files_def on_part_def persist_observation_def host_io_def next_io_def
        ask_def create_new_def get_exec_def on_file_def update_exec_def write_observation_def append_bytes_def
        rename_file_def Let_def fresh_backend_def sample_env_def silent_desktop_def small_snapshot_def split: prod.splits)
  then show ?thesis by (metis prod.collapse)
qed

lemma persisted_env: "h_env (snd (run_state (on_private_files m) h)) = h_env h"
  by (simp add: on_private_files_def on_part_def split: prod.splits)

lemma persisted_snapshot_is_read_back_witness:
  "fst (run_state (load_snapshot silent_desktop zero_hash)
     (snd (run_state (persist_snapshot silent_desktop small_snapshot) fresh_backend))) = Inr small_snapshot"
proof -
  have "h_env (snd (run_state (persist_snapshot silent_desktop small_snapshot) fresh_backend)) = sample_env"
    by (simp add: persist_snapshot_def persisted_env fresh_backend_def split: sum.split prod.split)
  then show ?thesis
    using persisted_snapshot_is_read_back [OF small_snapshot_persisted _ refl]
    by (simp add: silent_desktop_def small_snapshot_def sample_env_def)
qed

section \<open>The X server\<close>

text \<open>
  What the topology thread answers - the topology's hash, the sentinel of the desktop - was
  asked of a trusted server: Xorg, run by root or by this user from a file only root may write, and
  not the server of a Wayland session.
\<close>

theorem desktop_answers_are_trusted:
  "hoare (\<lambda>_. True) (x11_request A action) (\<lambda>r _. case r of
     Inl _ \<Rightarrow> True
   | Inr x \<Rightarrow> \<exists>c k k'. trusted_server A c \<and> run_state (action c) k = (Inr x, k'))"
proof (rule hoareI)
  fix h r h'
  assume run: "run_state (x11_request A action) h = (r, h')"
  show "case r of Inl _ \<Rightarrow> True | Inr x \<Rightarrow> \<exists>c k k'. trusted_server A c \<and> run_state (action c) k = (Inr x, k')"
  proof (cases r)
    case (Inr x)
    show ?thesis unfolding Inr sum.case by (rule x11_request_trusted [OF run [unfolded Inr]])
  qed simp
qed

text \<open>
  C34: The normal form of a display topology, which is what is hashed, is the same for two
  topologies exactly when they have the same screen and the same displays, in any order, with the
  same outputs in any order.
\<close>

theorem topology_is_canonical:
  assumes "normalize_topology t = Some n"
  shows "normalize_topology t' = Some n \<longleftrightarrow> same_topology t' t"
  by (rule normalize_topology_same [OF assms])

definition left_display :: x11_display where
  "left_display = \<lparr>xd_crtc = 63, xd_x = 0, xd_y = 0, xd_width = 800, xd_height = 600, xd_rotation = 1, xd_outputs = [68, 66]\<rparr>"

definition right_display :: x11_display where
  "right_display = \<lparr>xd_crtc = 64, xd_x = 800, xd_y = 0, xd_width = 800, xd_height = 600, xd_rotation = 1, xd_outputs = [67]\<rparr>"

definition two_displays :: "x11_display list \<Rightarrow> x11_topology" where
  "two_displays ds = \<lparr>xt_root = 7, xt_width = 1600, xt_height = 600, xt_displays = ds\<rparr>"

lemma two_displays_normal:
  "normalize_topology (two_displays [right_display, left_display])
     = Some (two_displays [left_display\<lparr>xd_outputs := [66, 68]\<rparr>, right_display])"
  by code_simp

lemma topology_is_canonical_witness:
  "normalize_topology (two_displays [left_display\<lparr>xd_outputs := [66, 68]\<rparr>, right_display])
     = Some (two_displays [left_display\<lparr>xd_outputs := [66, 68]\<rparr>, right_display])"
proof -
  have "same_topology (two_displays [left_display\<lparr>xd_outputs := [66, 68]\<rparr>, right_display])
      (two_displays [right_display, left_display])"
    by (simp add: same_topology_def two_displays_def left_display_def right_display_def canonical_display_def)
  then show ?thesis using topology_is_canonical [OF two_displays_normal] by simp
qed

end
