(* ===== verification/UiaFacts.thy ===== *)
theory UiaFacts
  imports UiaBackend
begin

text \<open>
  The data of windows_uia.rs: the sizes that the budget counts are those of the JSON text, the
  text of a runtime id names it, and the limits of timeouts, bounds and runtime ids.
\<close>

section \<open>Sizes\<close>

lemma decimal_length_show: "decimal_length n = length (show_nat n)"
proof (induction n rule: decimal_length.induct)
  case (1 n)
  then show ?case
    by (cases "n < 10") (simp_all add: decimal_length.simps [of n] show_nat.simps [of n] div_eq_0_iff)
qed

lemma decimal_i32_bytes_show: "decimal_i32_bytes v = length (show_int (sint v))"
  by (simp add: decimal_i32_bytes_def decimal_length_show show_int_def)

text \<open>The reference: the text of an array whose items have these texts.\<close>

definition array_text :: "string list \<Rightarrow> string" where
  "array_text items = ''['' @ join '','' items @ '']''"

definition ids_text :: "runtime_id \<Rightarrow> string" where
  "ids_text ids = array_text (map (\<lambda>v. show_int (sint v)) ids)"

definition path_text :: "runtime_id list \<Rightarrow> string" where
  "path_text path = array_text (map ids_text path)"

lemma length_join: "length (join s xs) = sum_list (map length xs) + length s * (length xs - 1)"
  by (induction s xs rule: join.induct) auto

lemma length_array_text: "length (array_text xs) = 2 + sum_list (map length xs) + (length xs - 1)"
  by (simp add: array_text_def length_join)

definition fitting :: "nat \<Rightarrow> nat option" where
  "fitting n = (if n \<le> usize_max then Some n else None)"

lemma fold_sizes_fitting:
  assumes "\<And>x. x \<in> set xs \<Longrightarrow> cost x = fitting (len x)"
  shows "acc \<le> usize_max \<Longrightarrow> fold_sizes cost acc index xs
    = fitting (acc + sum_list (map len xs) + (length xs - of_bool (index = 0 \<and> xs \<noteq> [])))"
  using assms
proof (induction xs arbitrary: acc index)
  case (Cons x xs)
  let ?t = "acc + of_bool (0 < index)"
  show ?case
  proof (cases "?t + len x \<le> usize_max")
    case True
    then have "fold_sizes cost acc index (x # xs) = fold_sizes cost (?t + len x) (Suc index) xs"
      using Cons.prems by (simp add: fitting_def checked_add_usize_def)
    also have "\<dots> = fitting (?t + len x + sum_list (map len xs) + length xs)"
      using Cons.IH [of "?t + len x" "Suc index"] Cons.prems True by simp
    finally show ?thesis by (cases index) (simp_all add: add_ac)
  next
    case False
    then have "fold_sizes cost acc index (x # xs) = None"
      using Cons.prems by (auto simp: fitting_def checked_add_usize_def)
    then show ?thesis using False by (cases index) (simp_all add: fitting_def)
  qed
qed (simp add: fitting_def)

lemma runtime_id_bytes: "runtime_id_serialized_bytes ids = fitting (length (ids_text ids))"
proof -
  have "fold_sizes (\<lambda>v. Some (decimal_i32_bytes v)) 2 0 ids = fold_sizes (\<lambda>v. fitting (decimal_i32_bytes v)) 2 0 ids"
  proof -
    have "decimal_i32_bytes v \<le> usize_max" for v :: i32
    proof -
      have "sint v < 2147483648" "- 2147483648 \<le> sint v"
        using sint_lt [of v] sint_ge [of v] by simp_all
      then have "nat \<bar>sint v\<bar> < 10 ^ 10" by (cases "0 \<le> sint v") simp_all
      from length_show_nat [OF this] have "decimal_length (nat \<bar>sint v\<bar>) \<le> 10" by (simp add: decimal_length_show)
      then show ?thesis by (cases "sint v < 0") (simp_all add: decimal_i32_bytes_def usize_max_def)
    qed
    then show ?thesis by (simp add: fitting_def)
  qed
  also have "\<dots> = fitting (2 + sum_list (map decimal_i32_bytes ids) + (length ids - of_bool (ids \<noteq> [])))"
    by (subst fold_sizes_fitting [where len = decimal_i32_bytes]) (simp_all add: usize_max_def)
  also have "\<dots> = fitting (length (ids_text ids))"
    by (cases ids) (simp_all add: ids_text_def length_array_text decimal_i32_bytes_show [abs_def] comp_def)
  finally show ?thesis by (simp add: runtime_id_serialized_bytes_def)
qed

lemma runtime_path_bytes: "runtime_path_serialized_bytes path = fitting (length (path_text path))"
proof -
  have "fold_sizes runtime_id_serialized_bytes 2 0 path
      = fitting (2 + sum_list (map (\<lambda>ids. length (ids_text ids)) path) + (length path - of_bool (path \<noteq> [])))"
    by (subst fold_sizes_fitting [where len = "\<lambda>ids. length (ids_text ids)"])
      (simp_all add: usize_max_def runtime_id_bytes)
  also have "\<dots> = fitting (length (path_text path))"
    by (cases path) (simp_all add: path_text_def length_array_text comp_def)
  finally show ?thesis by (simp add: runtime_path_serialized_bytes_def)
qed

section \<open>Charging\<close>

definition path_integers :: "runtime_id list \<Rightarrow> nat" where
  "path_integers path = sum_list (map length path)"

lemma sum_lengths_fitting: "acc \<le> usize_max \<Longrightarrow> sum_lengths acc path = fitting (acc + path_integers path)"
  by (induction path arbitrary: acc) (auto simp: fitting_def checked_add_usize_def path_integers_def)

lemma within_fitting:
  assumes "limit \<le> usize_max"
  shows "within_limit limit used (fitting n) = (if used + n \<le> limit then Some (used + n) else None)"
  using assms by (auto simp: within_limit_def fitting_def checked_add_usize_def)

definition charged :: "path_budget \<Rightarrow> runtime_id list \<Rightarrow> path_budget" where
  "charged b path = \<lparr>pb_integers = pb_integers b + path_integers path, pb_bytes = pb_bytes b + length (path_text path)\<rparr>"

definition in_budget :: "path_budget \<Rightarrow> bool" where
  "in_budget b \<longleftrightarrow> pb_integers b \<le> max_runtime_path_integers \<and> pb_bytes b \<le> max_runtime_path_bytes"

lemma charge_counts_fitting:
  "charge_counts b (fitting (path_integers path)) (fitting (length (path_text path)))
     = (if in_budget (charged b path) then Inr (charged b path) else Inl snapshot_budget_error)"
  by (simp add: charge_counts_def within_fitting max_runtime_path_integers_def max_runtime_path_bytes_def usize_max_def
      in_budget_def charged_def)

lemma charge_ok: "charge b path = (if in_budget (charged b path) then Inr (charged b path) else Inl snapshot_budget_error)"
proof -
  have "sum_lengths 0 path = fitting (path_integers path)" by (simp add: sum_lengths_fitting)
  then show ?thesis unfolding charge_def runtime_path_bytes by (simp only: charge_counts_fitting)
qed

lemma path_text_snoc:
  "length (path_text (path @ [ids])) = length (path_text path) + of_bool (path \<noteq> []) + length (ids_text ids)"
  by (cases path) (simp_all add: path_text_def length_array_text)

lemma charge_appended_ok:
  assumes "length ids \<le> usize_max"
  shows "charge_appended b path ids = charge b (path @ [ids])"
proof -
  have integers: "sum_lengths (length ids) path = fitting (path_integers (path @ [ids]))"
    using assms by (simp add: sum_lengths_fitting path_integers_def add_ac)
  have bytes: "Option.bind (fitting (length (path_text path))) (\<lambda>n.
      Option.bind (checked_add_usize n (of_bool (path \<noteq> []))) (\<lambda>n'.
      Option.bind (fitting (length (ids_text ids))) (checked_add_usize n')))
    = fitting (length (path_text (path @ [ids])))"
    unfolding path_text_snoc by (auto simp: fitting_def checked_add_usize_def)
  show ?thesis
    unfolding charge_appended_def runtime_path_bytes runtime_id_bytes integers bytes
    by (simp only: charge_counts_fitting charge_ok)
qed

text \<open>\<open>ByteCounter\<close> counts the bytes of the whole text.\<close>

lemma count_writes_ok:
  assumes "limit \<le> usize_max" and "bytes \<le> limit"
  shows "count_writes limit bytes ws
    = (if bytes + length (concat ws) \<le> limit then Some (bytes + length (concat ws)) else None)"
  using assms(2)
proof (induction ws arbitrary: bytes)
  case (Cons w ws)
  show ?case
  proof (cases "bytes + length w \<le> limit")
    case True
    then have "within_limit limit bytes (Some (length w)) = Some (bytes + length w)"
      using assms(1) by (simp add: within_limit_def checked_add_usize_def)
    then show ?thesis using Cons.IH [OF True] by (simp add: add_ac)
  qed (use assms(1) in \<open>auto simp: within_limit_def checked_add_usize_def split: if_splits\<close>)
qed simp

section \<open>Runtime ids\<close>

lemma join_split:
  assumes "c \<notin> set x" and "c \<notin> set y" and "x @ c # r = y @ c # q"
  shows "x = y \<and> r = q"
  using assms
proof (induction x arbitrary: y)
  case Nil
  then show ?case by (cases y) auto
next
  case (Cons a x)
  then show ?case by (cases y) auto
qed

lemma set_join: "xs = x # y # rest \<Longrightarrow> c \<in> set (join [c] xs)"
  by simp

lemma join_inject:
  assumes "join [c] xs = join [c] ys" and "\<And>x. x \<in> set xs \<union> set ys \<Longrightarrow> x \<noteq> [] \<and> c \<notin> set x"
  shows "xs = ys"
  using assms
proof (induction xs arbitrary: ys)
  case Nil
  have "join [c] ys = [] \<Longrightarrow> ys = []" using Nil(2) by (cases "([c], ys)" rule: join.cases) auto
  then show ?case using Nil(1) by auto
next
  case (Cons x xs)
  have own: "x \<noteq> []" "c \<notin> set x" using Cons.prems(2) by auto
  obtain y zs where ys: "ys = y # zs" using Cons.prems(1) own by (cases ys; cases xs) auto
  have its: "y \<noteq> []" "c \<notin> set y" using Cons.prems(2) ys by auto
  show ?case
  proof (cases "xs = [] \<or> zs = []")
    case True
    then show ?thesis using Cons.prems(1) own its ys by (cases xs; cases zs) auto
  next
    case False
    then obtain x' xs' y' zs' where more: "xs = x' # xs'" "zs = y' # zs'" by (meson neq_Nil_conv)
    have "x = y \<and> join [c] xs = join [c] zs"
      by (rule join_split [OF own(2) its(2)]) (use Cons.prems(1) ys more in simp)
    moreover have "xs = zs" if "join [c] xs = join [c] zs"
      by (rule Cons.IH [OF that]) (use Cons.prems(2) ys in auto)
    ultimately show ?thesis using ys by blast
  qed
qed

lemma show_int_digits: "set (show_int i) \<subseteq> insert CHR ''-'' {c. is_ascii_digit c}"
  using show_nat_digits by (auto simp: show_int_def list_all_iff)

lemma show_int_apart: "show_int i \<noteq> [] \<and> CHR ''.'' \<notin> set (show_int i)"
proof -
  have "CHR ''.'' \<notin> insert CHR ''-'' {c. is_ascii_digit c}" by (simp add: is_ascii_digit_def)
  then show ?thesis using show_int_digits [of i] by (auto simp: show_int_def)
qed

lemma show_int_inject: "show_int i = show_int j \<longleftrightarrow> i = j"
proof
  assume eq: "show_int i = show_int j"
  have digit: "hd (show_nat n) \<noteq> CHR ''-''" for n
  proof -
    have "is_ascii_digit (hd (show_nat n))" using show_nat_digits [of n] by (cases "show_nat n") auto
    then show ?thesis by (auto simp: is_ascii_digit_def)
  qed
  have "i < 0 \<longleftrightarrow> j < 0" using eq digit [of "nat \<bar>i\<bar>"] digit [of "nat \<bar>j\<bar>"]
    by (auto simp: show_int_def split: if_splits) (metis list.sel(1))+
  then show "i = j" using eq by (auto simp: show_int_def split: if_splits)
qed simp

text \<open>The text that the element id hashes names the runtime id.\<close>

lemma runtime_id_text_eq: "runtime_id_text ids = runtime_id_text ids' \<longleftrightarrow> ids = ids'"
proof
  assume "runtime_id_text ids = runtime_id_text ids'"
  then have "map (\<lambda>v. show_int (sint v)) ids = map (\<lambda>v. show_int (sint v)) ids'"
    unfolding runtime_id_text_def by (rule join_inject) (use show_int_apart in auto)
  then show "ids = ids'" by (rule map_injective) (simp add: inj_def show_int_inject signed_word_eqI)
qed simp

end
