(* ===== verification/UiaTreeFacts.thy ===== *)
theory UiaTreeFacts
  imports UiaSafety UiaFacts
begin

text \<open>
  The snapshots of windows_uia.rs: the private mapping has an entry for each element of the
  observation, which says the same of it and which the backend accepts again; its paths stay
  within the budget.
\<close>

section \<open>Runtime ids\<close>

lemma array_elements_length: "array_elements get i n = Some ids \<Longrightarrow> length ids = n"
  by (induction get i n arbitrary: ids rule: array_elements.induct) (auto simp: bind_eq_Some_conv)

lemma safe_array_valid: "safe_array_values a = Some ids \<Longrightarrow> valid_runtime_id ids"
  by (auto simp: safe_array_values_def array_length_def valid_runtime_id_def bind_eq_Some_conv
      split: if_splits option.splits dest!: array_elements_length)

lemma has_ids_valid: "has_ids W n ids \<Longrightarrow> valid_runtime_id ids"
  by (auto simp: has_ids_def bind_eq_Some_conv dest: safe_array_valid)

lemma described_valid: "described W n s w \<Longrightarrow> valid_runtime_id (es_runtime_id s)"
  unfolding described_def describe_with_window_def
  by (auto elim!: try_InrE bind_runE simp del: run_try_bind run_state_bind dest!: runtime_values_Inr [THEN has_ids_valid])

section \<open>The invariant of the walk\<close>

text \<open>An element of the observation and the entry of the mapping at the same index.\<close>

definition matches :: "uia \<Rightarrow> string \<Rightarrow> nat \<Rightarrow> semantic_element \<Rightarrow> mapping_entry \<Rightarrow> bool" where
  "matches W observation_id i x e \<longleftrightarrow> se_tag x = CHR ''e'' # show_nat i
     \<and> se_element_id x = me_element_id e \<and> se_fingerprint_hash x = me_fingerprint_hash e
     \<and> unambiguous (se_actionability x) = me_unambiguous e \<and> actionability.stable (se_actionability x) = me_stable e
     \<and> valid_entry (ui_hashing W) observation_id e"

definition all_match :: "uia \<Rightarrow> string \<Rightarrow> semantic_element list \<Rightarrow> mapping_entry list \<Rightarrow> bool" where
  "all_match W observation_id xs es \<longleftrightarrow> length es = length xs \<and> length xs \<le> max_semantic_elements
     \<and> (\<forall>i < length xs. matches W observation_id i (xs ! i) (es ! i))"

text \<open>What the paths of entries take of the budget.\<close>

definition entries_charged :: "mapping_entry list \<Rightarrow> path_budget" where
  "entries_charged es = \<lparr>pb_integers = sum_list (map (path_integers \<circ> me_runtime_path) es),
     pb_bytes = sum_list (map (length \<circ> path_text \<circ> me_runtime_path) es)\<rparr>"

definition covers :: "path_budget \<Rightarrow> path_budget \<Rightarrow> bool" where
  "covers b c \<longleftrightarrow> in_budget b \<and> pb_integers c \<le> pb_integers b \<and> pb_bytes c \<le> pb_bytes b"

lemma covers_trans: "covers b c \<Longrightarrow> covers c a \<Longrightarrow> covers b a"
  by (auto simp: covers_def)

lemma covers_refl: "in_budget b \<Longrightarrow> covers b b"
  by (simp add: covers_def)

definition room_for :: "runtime_id list \<Rightarrow> bool" where
  "room_for path \<longleftrightarrow> length path < max_runtime_path_depth \<and> list_all valid_runtime_id path"

definition walk_sound :: "uia \<Rightarrow> string \<Rightarrow> uia_tree \<Rightarrow> bool" where
  "walk_sound W observation_id s \<longleftrightarrow> all_match W observation_id (ut_elements s) (ut_entries s)
     \<and> (\<forall>(ids, i) \<in> set (ut_seen s). i < length (ut_elements s))
     \<and> covers (ut_budget s) (entries_charged (ut_entries s))
     \<and> (\<forall>(n, parent, path) \<in> set (ut_queue s). room_for path)"

lemma charge_covers: "charge b path = Inr b' \<Longrightarrow> covers b' b"
  by (auto simp: charge_ok covers_def charged_def split: if_splits)

section \<open>Children\<close>

definition queued_for :: "string option \<Rightarrow> runtime_id list \<Rightarrow> path_budget \<Rightarrow> pending list
    \<Rightarrow> path_budget \<times> pending list \<Rightarrow> bool" where
  "queued_for parent path b q r \<longleftrightarrow> covers (fst r) b
     \<and> (\<forall>p \<in> set (snd r). p \<in> set q \<or> snd p = (parent, path))"

lemma queued_for_step:
  assumes "covers b' b" and "queued_for parent path b' (q @ [(n, parent, path)]) r"
  shows "queued_for parent path b q r"
  using assms by (auto simp: queued_for_def dest: covers_trans)

lemma enqueue_siblings_Inr:
  assumes "run_state (enqueue_siblings W d parent path child siblings b q) h = (Inr (full, r), h')"
    and "in_budget b"
  shows "queued_for parent path b q r"
  using assms
proof (induction W d parent path child siblings b q arbitrary: h rule: enqueue_siblings.induct)
  case (1 W d parent path child siblings b q)
  from "1.prems"(1) obtain ids h1 where "run_state (if \<not> accept_sibling (length q) siblings ids then ret (Inr (True, b, q))
      else try_bind (ret (charge b path)) (\<lambda>b'.
        try_bind (or_boundary_error d call_failed (optional_node (\<lambda>t. ui_next_sibling W t child))) (\<lambda>following.
        case following of
          None \<Rightarrow> ret (Inr (False, b', q @ [(child, parent, path)]))
        | Some sibling \<Rightarrow> try_bind (check_protocol_boundary d) (\<lambda>_.
            enqueue_siblings W d parent path sibling (ids # siblings) b' (q @ [(child, parent, path)]))))) h1
      = (Inr (full, r), h')"
    by (subst (asm) enqueue_siblings.simps) (auto elim!: try_InrE simp del: run_try_bind)
  then show ?case
  proof (cases "accept_sibling (length q) siblings ids")
    case True
    with \<open>run_state _ h1 = _\<close> obtain b' following h2 h3 where
      b': "charge b path = Inr b'"
      and rest: "run_state (case following of
          None \<Rightarrow> ret (Inr (False, b', q @ [(child, parent, path)]))
        | Some sibling \<Rightarrow> try_bind (check_protocol_boundary d) (\<lambda>_.
            enqueue_siblings W d parent path sibling (ids # siblings) b' (q @ [(child, parent, path)]))) h2
          = (Inr (full, r), h')"
      by (auto elim!: try_InrE simp del: run_try_bind)
    from charge_covers [OF b'] have covers: "covers b' b" .
    then have budget: "in_budget b'" by (simp add: covers_def)
    have "queued_for parent path b' (q @ [(child, parent, path)]) r"
    proof (cases following)
      case None
      then show ?thesis using rest budget by (auto simp: queued_for_def covers_refl)
    next
      case (Some sibling)
      from rest [unfolded Some option.case] show ?thesis
        by (elim try_InrE) (rule "1.IH" [OF _ _ budget]; simp add: True)
    qed
    with covers show ?thesis by (rule queued_for_step)
  next
    case False
    with \<open>run_state _ h1 = _\<close> show ?thesis using "1.prems"(2) by (auto simp: queued_for_def covers_refl)
  qed
qed

lemma enqueue_children_Inr:
  assumes "run_state (enqueue_children W d n parent path b q) h = (Inr (full, r), h')" and "in_budget b"
  shows "covers (fst r) b \<and> (\<forall>p \<in> set (snd r). p \<in> set q \<or> snd p = (parent, path) \<and> length path < max_runtime_path_depth)"
proof (cases "max_runtime_path_depth \<le> length path")
  case True
  with assms show ?thesis unfolding enqueue_children_def by (auto elim!: try_InrE simp: covers_refl simp del: run_try_bind)
next
  case False
  from assms(1) obtain first h1 where "run_state (case first of
       None \<Rightarrow> ret (Inr (False, b, q))
     | Some child \<Rightarrow> try_bind (check_protocol_boundary d) (\<lambda>_.
         enqueue_siblings W d parent path child [] b q)) h1 = (Inr (full, r), h')"
    unfolding enqueue_children_def if_not_P [OF False] by (elim try_InrE) blast
  then have "queued_for parent path b q r"
  proof (cases first)
    case None
    then show ?thesis using \<open>run_state _ h1 = _\<close> assms(2) by (auto simp: queued_for_def covers_refl)
  next
    case (Some child)
    show ?thesis
      using \<open>run_state _ h1 = _\<close> [unfolded Some option.case] assms(2)
      by (elim try_InrE) (rule enqueue_siblings_Inr)
  qed
  with False show ?thesis by (auto simp: queued_for_def)
qed

lemma add_children_sound:
  assumes "run_state (add_children W d n parent path s) h = (Inr s', h')" and "walk_sound W observation_id s"
    and "list_all valid_runtime_id path"
  shows "walk_sound W observation_id s'"
proof -
  from assms(1) obtain full r h1 where
    run: "run_state (enqueue_children W d n parent path (ut_budget s) (ut_queue s)) h = (Inr (full, r), h1)"
    and s': "s' = s\<lparr>ut_budget := fst r, ut_queue := snd r, ut_truncated := ut_truncated s \<or> full\<rparr>"
    unfolding add_children_def by (auto elim!: try_InrE simp del: run_try_bind)
  have "in_budget (ut_budget s)" using assms(2) by (simp add: walk_sound_def covers_def)
  from enqueue_children_Inr [OF run this] have covers: "covers (fst r) (ut_budget s)"
    and queue: "p \<in> set (snd r) \<Longrightarrow> p \<in> set (ut_queue s) \<or> snd p = (parent, path) \<and> length path < max_runtime_path_depth" for p
    by blast+
  have "room_for q" if "(m, parent', q) \<in> set (snd r)" for m parent' q
    using queue [OF that] assms(2,3) by (auto simp: walk_sound_def room_for_def)
  moreover have "covers (fst r) (entries_charged (ut_entries s))"
    using covers assms(2) by (auto simp: walk_sound_def intro: covers_trans)
  ultimately show ?thesis using assms(2) by (auto simp: walk_sound_def s')
qed

section \<open>Elements\<close>

lemma all_match_snoc:
  assumes "all_match W observation_id xs es" and "matches W observation_id (length xs) x e"
    and "length xs < max_semantic_elements"
  shows "all_match W observation_id (xs @ [x]) (es @ [e])"
  using assms by (auto simp: all_match_def nth_append less_Suc_eq)

lemma mark_ambiguous_sound:
  assumes "walk_sound W observation_id s" and "map_of (ut_seen s) ids = Some i"
  shows "walk_sound W observation_id (mark_ambiguous i s)"
proof -
  have i: "i < length (ut_elements s)" "i < length (ut_entries s)"
    using assms map_of_SomeD [OF assms(2)] by (auto simp: walk_sound_def all_match_def)
  have "entries_charged ((ut_entries s)[i := (ut_entries s ! i)\<lparr>me_unambiguous := False\<rparr>]) = entries_charged (ut_entries s)"
  proof -
    have "map f ((ut_entries s)[i := (ut_entries s ! i)\<lparr>me_unambiguous := False\<rparr>]) = map f (ut_entries s)"
      if "f ((ut_entries s ! i)\<lparr>me_unambiguous := False\<rparr>) = f (ut_entries s ! i)" for f :: "mapping_entry \<Rightarrow> nat"
      using i(2) that by (metis list_update_id map_update)
    then show ?thesis by (simp add: entries_charged_def)
  qed
  moreover have "all_match W observation_id (ut_elements (mark_ambiguous i s)) (ut_entries (mark_ambiguous i s))"
    using assms(1) i by (auto simp: walk_sound_def all_match_def mark_ambiguous_def Let_def nth_list_update matches_def valid_entry_def)
  ultimately show ?thesis using assms(1) by (simp add: walk_sound_def mark_ambiguous_def Let_def)
qed

lemma entries_charged_snoc:
  "covers b (entries_charged es) \<Longrightarrow> charge_appended b path ids = Inr b' \<Longrightarrow> valid_runtime_id ids
    \<Longrightarrow> me_runtime_path e = path @ [ids] \<Longrightarrow> covers b' (entries_charged (es @ [e]))"
  by (auto simp: charge_appended_ok usize_max_def valid_runtime_id_def charge_ok covers_def charged_def entries_charged_def
      split: if_splits)

lemma from_snapshot_Inr [simp]: "from_snapshot r = Inr x \<longleftrightarrow> r = Inr x"
  by (cases r) (simp_all add: from_snapshot_def)

lemma record_element_sound:
  assumes "run_state (record_element W d observation_id n parent path e s) h = (Inr s', h')"
    and "walk_sound W observation_id s" and "room_for path" and "valid_runtime_id (es_runtime_id e)"
  shows "walk_sound W observation_id s'"
proof -
  let ?ids = "es_runtime_id e" and ?i = "length (ut_elements s)"
  from assms(1) obtain element_id tag budget is_stable truncated h1 where
    named: "opaque_element_id (ui_hashing W) observation_id (runtime_id_text ?ids) = Inr element_id"
    and tag: "semantic_tag ?i = Inr tag"
    and charged: "charge_appended (ut_budget s) path ?ids = Inr budget"
    and run: "run_state (add_children W d n (Some element_id) (path @ [?ids])
       (s\<lparr>ut_budget := budget, ut_seen := (?ids, ?i) # ut_seen s,
          ut_elements := ut_elements s @ [uia_element tag element_id parent (element_print W e) e is_stable
            (es_visible e \<and> es_enabled e)],
          ut_entries := ut_entries s @ [\<lparr>me_element_id = element_id, me_runtime_id = ?ids,
            me_runtime_path = path @ [?ids], me_fingerprint_hash = element_print W e, me_unambiguous = True,
            me_stable = is_stable\<rparr>],
          ut_truncated := truncated\<rparr>)) h1 = (Inr s', h')"
    unfolding record_element_def Let_def by (auto elim!: bind_runE try_InrE simp del: run_try_bind run_state_bind)
  have i: "?i < max_semantic_elements" and tag: "tag = CHR ''e'' # show_nat ?i"
    using tag by (auto simp: semantic_tag_def split: if_splits)
  have path: "list_all valid_runtime_id (path @ [?ids])" "length (path @ [?ids]) \<le> max_runtime_path_depth"
    using assms(3,4) by (auto simp: room_for_def)
  show ?thesis
    by (rule add_children_sound [OF run _ path(1)])
      (use assms(2) i path entries_charged_snoc [OF _ charged assms(4)] in
        \<open>auto simp: walk_sound_def matches_def valid_entry_def uia_element_def tag named assms(4)
          intro!: all_match_snoc\<close>)
qed

lemma visit_sound:
  assumes "run_state (visit W d sd observation_id (n, parent, path) s) h = (Inr s', h')"
    and "walk_sound W observation_id s" and "room_for path"
  shows "walk_sound W observation_id s'"
proof -
  have valid: "list_all valid_runtime_id path" using assms(3) by (simp add: room_for_def)
  from assms(1) obtain e h0 h1 h2 where described: "run_state (describe W d n) h = (e, h0)"
    and run: "run_state (case e of
       Inl _ \<Rightarrow> add_children W d n parent path (s\<lparr>ut_truncated := True\<rparr>)
     | Inr e \<Rightarrow>
         if foreign sd e then add_children W d n parent path s
         else (case map_of (ut_seen s) (es_runtime_id e) of
             Some index \<Rightarrow> add_children W d n parent path (mark_ambiguous index s)
           | None \<Rightarrow> record_element W d observation_id n parent path e s)) h2 = (Inr s', h')"
    by (auto elim!: bind_runE try_InrE simp del: run_try_bind run_state_bind)
  show ?thesis
  proof (cases e)
    case (Inl x)
    have "walk_sound W observation_id (s\<lparr>ut_truncated := True\<rparr>)" using assms(2) by (simp add: walk_sound_def)
    with run Inl show ?thesis by (auto intro: add_children_sound valid)
  next
    case (Inr el)
    have ids: "valid_runtime_id (es_runtime_id el)"
      using describe_Inr [OF described [unfolded Inr]] described_valid by blast
    show ?thesis
      using run assms(2) unfolding Inr sum.case
      by (auto split: if_splits option.splits
          intro: add_children_sound [OF _ _ valid] mark_ambiguous_sound record_element_sound [OF _ _ assms(3) ids])
  qed
qed

lemma read_uia_tree_sound:
  assumes "run_state (read_uia_tree W d sd observation_id visited s) h = (Inr s', h')" and "walk_sound W observation_id s"
  shows "walk_sound W observation_id s'"
  using assms
proof (induction W d sd observation_id visited s arbitrary: h rule: read_uia_tree.induct)
  case (1 W d sd observation_id visited s)
  show ?case
  proof (cases "ut_queue s")
    case Nil
    with 1 show ?thesis by (simp add: read_uia_tree.simps)
  next
    case (Cons p rest)
    obtain n parent path where p: "p = (n, parent, path)" by (cases p)
    have popped: "walk_sound W observation_id (s\<lparr>ut_queue := rest\<rparr>)" and path: "room_for path"
      using "1.prems"(2) Cons p by (auto simp: walk_sound_def)
    show ?thesis
    proof (cases "max_semantic_elements \<le> visited \<or> max_semantic_elements \<le> length (ut_elements s)")
      case True
      have "walk_sound W observation_id (s\<lparr>ut_queue := rest, ut_truncated := True\<rparr>)"
        using popped by (simp add: walk_sound_def)
      with "1.prems"(1) Cons True show ?thesis
        by (subst (asm) read_uia_tree.simps) (auto elim!: try_InrE simp del: run_try_bind)
    next
      case False
      with "1.prems"(1) Cons obtain s'' h1 h2 where
        visited: "run_state (visit W d sd observation_id p (s\<lparr>ut_queue := rest\<rparr>)) h1 = (Inr s'', h2)"
        and run: "run_state (read_uia_tree W d sd observation_id (Suc visited) s'') h2 = (Inr s', h')"
        by (subst (asm) read_uia_tree.simps) (auto elim!: try_InrE simp del: run_try_bind visit.simps)
      have "walk_sound W observation_id s''" by (rule visit_sound [OF visited [unfolded p] popped path])
      then show ?thesis by (intro "1.IH" [OF Cons _ run]) (use False in auto)
    qed
  qed
qed

lemma first_tree_sound:
  assumes "charge \<lparr>pb_integers = 0, pb_bytes = 0\<rparr> [] = Inr b"
  shows "walk_sound W observation_id (first_tree b n)"
  using charge_covers [OF assms]
  by (auto simp: walk_sound_def first_tree_def all_match_def entries_charged_def covers_def room_for_def
      max_runtime_path_depth_def)

section \<open>The stored mapping\<close>

text \<open>Entries of a mapping that match the elements of a valid observation: each is found by the id.\<close>

definition tells_of :: "uia \<Rightarrow> uia_mapping \<Rightarrow> semantic_observation \<Rightarrow> bool" where
  "tells_of W m obs \<longleftrightarrow> um_protocol_version m = protocol_version \<and> um_observation_id m = so_observation_id obs
     \<and> um_generation m = so_generation obs \<and> um_observed_at_ms m = so_observed_at_ms obs
     \<and> um_expires_at_ms m = so_expires_at_ms obs \<and> um_provenance_hash m = provenance_hash (ui_hashing W) obs
     \<and> provenance_holds (ui_hashing W) m
     \<and> all_match W (so_observation_id obs) (so_elements obs) (um_entries m)"

lemma all_match_entry:
  assumes "all_match W observation_id xs es" and "distinct (map se_element_id xs)" and "x \<in> set xs"
  obtains i e where "i < length xs" "xs ! i = x" "es ! i = e" "e \<in> set es" "matches W observation_id i x e"
    "filter (\<lambda>c. me_element_id c = se_element_id x) es = [e]"
proof -
  from assms(3) obtain i where i: "i < length xs" "xs ! i = x" by (auto simp: in_set_conv_nth)
  then have m: "matches W observation_id i x (es ! i)" and es: "i < length es" "length es = length xs"
    using assms(1) by (auto simp: all_match_def)
  have "map me_element_id es = map se_element_id xs"
    by (rule nth_equalityI) (use assms(1) in \<open>auto simp: all_match_def matches_def\<close>)
  then have "distinct (map me_element_id es)" using assms(2) by simp
  from filter_key [OF this nth_mem [OF es(1)]] m
  have "filter (\<lambda>c. me_element_id c = se_element_id x) es = [es ! i]" by (simp add: matches_def)
  with i es m show thesis by (intro that [of i "es ! i"]) auto
qed

text \<open>A target is accepted by the check of its mapping until it expires.\<close>

lemma stored_entry_accepts:
  assumes told: "tells_of W m obs" and valid: "validate_observation (ui_hashing W) obs now = Inr ()"
    and target: "target_of (ui_hashing W) obs (se_tag x) = Inr target" and x: "x \<in> set (so_elements obs)"
    and usable: "unambiguous (se_actionability x)" "actionability.stable (se_actionability x)"
    and age: "so_expires_at_ms obs - so_observed_at_ms obs = max_semantic_observation_age_ms"
    and time: "fst (run_state now_ms k) < so_expires_at_ms obs"
  shows "\<exists>e k'. run_state (stored_entry W m target) k = (Inr e, k') \<and> me_element_id e = se_element_id x
    \<and> me_fingerprint_hash e = se_fingerprint_hash x"
proof -
  have wf: "well_formed_elements (so_elements obs)" using validate_observation_ok [OF valid] by simp
  then have dist: "distinct (map se_element_id (so_elements obs))" "distinct (map se_tag (so_elements obs))"
    by (simp_all add: well_formed_elements_def)
  have t: "target = \<lparr>t_observation_id = so_observation_id obs, t_generation = so_generation obs,
      t_provenance_hash = provenance_hash (ui_hashing W) obs, t_element_id = se_element_id x,
      t_fingerprint_hash = se_fingerprint_hash x\<rparr>"
    using target filter_key [OF dist(2) x] by (simp add: target_of_def the_element_def)
  have match: "all_match W (so_observation_id obs) (so_elements obs) (um_entries m)" using told by (simp add: tells_of_def)
  from all_match_entry [OF match dist(1) x] obtain i e where
    e: "matches W (so_observation_id obs) i x e" "filter (\<lambda>c. me_element_id c = se_element_id x) (um_entries m) = [e]" .
  have "0 < so_observed_at_ms obs" using valid by (auto simp: validate_observation_def split: if_splits)
  moreover have "sat_sub_i64 (so_expires_at_ms obs) (so_observed_at_ms obs) = max_semantic_observation_age_ms"
    using age by (simp add: sat_sub_i64_def sat_i64_def i64_max_def i64_min_def max_semantic_observation_age_ms_def)
  ultimately have names: "mapping_names m target" using told by (simp add: mapping_names_def tells_of_def t)
  have entry: "entry_for m target = Inr e" using e by (simp add: entry_for_def t matches_def)
  have size: "length (um_entries m) \<le> max_semantic_elements" using match by (simp add: all_match_def)
  obtain now' k' where now: "run_state now_ms k = (now', k')" by (cases "run_state now_ms k")
  have "run_state (stored_entry W m target) k = (Inr e, k')"
    using told e usable time now size
    by (simp add: stored_entry_def names entry accept_if_def ensure_def tells_of_def matches_def)
  with e show ?thesis by (auto simp: matches_def)
qed

section \<open>Snapshots\<close>

text \<open>The file that a snapshot leaves behind, and what it says.\<close>

definition stored_with :: "uia \<Rightarrow> semantic_observation \<Rightarrow> uia_mapping \<Rightarrow> uia_state host \<Rightarrow> bool" where
  "stored_with W obs m h \<longleftrightarrow> tells_of W m obs \<and> (\<exists>now. validate_observation (ui_hashing W) obs now = Inr ())
     \<and> covers (entries_charged (um_entries m)) \<lparr>pb_integers = 0, pb_bytes = 0\<rparr>
     \<and> length (concat (ui_print W m)) \<le> max_private_mapping_bytes
     \<and> (\<exists>path. mapping_path W (so_observation_id obs) = Inr path
          \<and> us_files (h_exec h) path = Some (concat (ui_print W m) @ [newline]))"

lemma persist_mapping_file:
  assumes "run_state (persist_mapping W m) h = (Inr (), h')"
  obtains path where "mapping_path W (um_observation_id m) = Inr path"
    "us_files (h_exec h') path = Some (concat (ui_print W m) @ [newline])"
proof -
  obtain path where path: "mapping_path W (um_observation_id m) = Inr path"
    and run: "run_state (on_uia_files (persist_observation (so_names (ui_storing W)) path (concat (ui_print W m)))) h = (Inr (), h')"
    using assms unfolding persist_mapping_def by (auto elim!: try_InrE simp del: run_try_bind)
  let ?g = "\<lparr>h_env = h_env h, h_tick = h_tick h, h_exec = us_files (h_exec h)\<rparr>"
  obtain g' where g: "run_state (persist_observation (so_names (ui_storing W)) path (concat (ui_print W m))) ?g = (Inr (), g')"
    and "us_files (h_exec h') = h_exec g'"
    using run by (auto simp: on_uia_files_def on_part_def split: prod.splits)
  with persist_observation_replaces [OF g] show thesis
    by (intro that [OF path]) (simp add: replaced_def holds_def)
qed

lemma mapping_budget_Inr: "mapping_budget W m = Inr u \<Longrightarrow> length (concat (ui_print W m)) \<le> max_private_mapping_bytes"
  by (auto simp: mapping_budget_def ensure_def count_writes_ok usize_max_def max_private_mapping_bytes_def split: if_splits)

lemma snapshot_tells:
  "walk_sound W i s \<Longrightarrow> tells_of W (uia_mapping_of (ui_hashing W) i g d window now s) (uia_observation i g d now s)"
  by (simp add: tells_of_def uia_mapping_of_def uia_observation_def walk_sound_def provenance_holds_def
      uia_provenance_hash_def semantic_fingerprint_def provenance_hash_def provenance_json_def
      mapping_provenance_def descriptor_provenance_def)

lemma uia_snapshot_window_stored:
  assumes "run_state (uia_snapshot_window W d sd window) h = (Inr obs, h')"
  shows "\<exists>m. stored_with W obs m h'"
proof -
  from assms obtain g now b n s later k1 k2 k3 k4 where
    budget: "charge \<lparr>pb_integers = 0, pb_bytes = 0\<rparr> [] = Inr b"
    and walk: "run_state (read_uia_tree W d sd (uia_observation_id W sd now g) 0 (first_tree b n)) k1 = (Inr s, k2)"
    and obs: "obs = uia_observation (uia_observation_id W sd now g) g sd now s"
    and valid: "validate_observation (ui_hashing W) obs later = Inr ()"
    and fits: "mapping_budget W (uia_mapping_of (ui_hashing W) (uia_observation_id W sd now g) g sd window now s) = Inr ()"
    and kept: "run_state (persist_mapping W (uia_mapping_of (ui_hashing W) (uia_observation_id W sd now g) g sd window now s)) k3
        = (Inr (), h')"
    unfolding uia_snapshot_window_def Let_def
    by (auto elim!: bind_runE try_InrE simp del: run_try_bind run_state_bind split: if_splits)
  let ?m = "uia_mapping_of (ui_hashing W) (uia_observation_id W sd now g) g sd window now s"
  have sound: "walk_sound W (uia_observation_id W sd now g) s"
    by (rule read_uia_tree_sound [OF walk first_tree_sound [OF budget]])
  have "covers (entries_charged (um_entries ?m)) \<lparr>pb_integers = 0, pb_bytes = 0\<rparr>"
    using sound by (auto simp: walk_sound_def covers_def in_budget_def uia_mapping_of_def)
  moreover obtain path where "mapping_path W (so_observation_id obs) = Inr path"
    "us_files (h_exec h') path = Some (concat (ui_print W ?m) @ [newline])"
    by (rule persist_mapping_file [OF kept]) (simp add: uia_mapping_of_def obs uia_observation_def)
  ultimately have "stored_with W obs ?m h'"
    using snapshot_tells [OF sound] valid mapping_budget_Inr [OF fits] by (auto simp: stored_with_def obs)
  then show ?thesis ..
qed

end
