(* ===== verification/UiaProperties.thy ===== *)
theory UiaProperties
  imports UiaTreeFacts
begin

text \<open>
  The properties of the UI Automation backend of Windows: effects on live targets only, snapshots
  whose targets are accepted again, the budget of the private mapping.
\<close>

section \<open>Effects\<close>

text \<open>
  C12: Invoking a target, setting its value or scrolling it requests at most one effect: none if the
  error denies it, exactly one on success.  It is made on an element at the end of the path of
  runtime ids that a valid stored mapping has for the target, under the mapping's window, which was
  described as observed - same ids, process, window and fingerprint, visible and enabled - and just
  before the effect once more with the target's fingerprint in a window that is not cloaked.  The
  effect is that of the request: the given value of at most 16 KiB on an element that is not
  read-only, the given direction on an element that scrolls that way.
\<close>

theorem uia_effect_is_fenced:
  "acting_on us_effects (fenced_invoke W target) (uia_invoke W target deadline)
   \<and> acting_on us_effects (fenced_value W target value) (uia_set_value W target value deadline)
   \<and> acting_on us_effects (fenced_scroll W target direction) (uia_scroll W target direction deadline)"
  by (intro conjI acting_invoke acting_set_value acting_scroll)

section \<open>Snapshots\<close>







text \<open>What a mapping may hold: its entries, the integers and the JSON text of their paths, its own text.\<close>

definition bounded_mapping :: "uia \<Rightarrow> uia_mapping \<Rightarrow> bool" where
  "bounded_mapping W m \<longleftrightarrow> length (um_entries m) \<le> 4096
     \<and> (\<forall>e \<in> set (um_entries m). 0 < length (me_runtime_path e) \<and> length (me_runtime_path e) \<le> 64)
     \<and> sum_list (map (path_integers \<circ> me_runtime_path) (um_entries m)) \<le> 131072
     \<and> sum_list (map (length \<circ> path_text \<circ> me_runtime_path) (um_entries m)) \<le> 1048576
     \<and> length (concat (ui_print W m)) \<le> 2097152"

definition written_by :: "uia \<Rightarrow> semantic_observation \<Rightarrow> uia_mapping \<Rightarrow> uia_state host \<Rightarrow> bool" where
  "written_by W obs m h \<longleftrightarrow> (\<exists>path. mapping_path W (so_observation_id obs) = Inr path
     \<and> us_files (h_exec h) path = Some (concat (ui_print W m) @ [newline]))"

lemma stored_with_bounded: "stored_with W obs m h \<Longrightarrow> written_by W obs m h \<and> bounded_mapping W m"
  by (fastforce simp: stored_with_def written_by_def bounded_mapping_def covers_def in_budget_def entries_charged_def
      tells_of_def all_match_def matches_def valid_entry_def in_set_conv_nth max_semantic_elements_def
      max_runtime_path_depth_def max_runtime_path_integers_def max_runtime_path_bytes_def max_private_mapping_bytes_def)

text \<open>
  C14: The mapping that a snapshot writes is bounded whatever the provider answers: at most 4,096
  entries with paths of 1 to 64 runtime ids, at most 131,072 integers and 1 MiB of JSON text in all
  paths together, and at most 2 MiB of text in all.
\<close>

theorem uia_mapping_is_bounded:
  "hoare (\<lambda>_. True) (uia_snapshot_window W deadline d window)
     (\<lambda>r h. case r of Inl _ \<Rightarrow> True | Inr obs \<Rightarrow> \<exists>m. written_by W obs m h \<and> bounded_mapping W m)"
  by (rule hoareI) (auto split: sum.split dest!: uia_snapshot_window_stored stored_with_bounded)

section \<open>Sizes\<close>

text \<open>
  C15: The budget counts exactly: the size of a path is the length of its JSON text, the nested
  arrays of decimal integers, or none if that does not fit a usize; charging a path adds its
  integers and that size, and is refused exactly when a total would pass its limit.
\<close>

theorem uia_budget_is_exact:
  "runtime_path_serialized_bytes path = (if length (path_text path) \<le> usize_max then Some (length (path_text path)) else None)
   \<and> charge b path = (if in_budget (charged b path) then Inr (charged b path) else Inl snapshot_budget_error)"
  by (rule conjI [OF runtime_path_bytes [unfolded fitting_def] charge_ok])

section \<open>Text that spoils a snapshot\<close>

text \<open>
  A name with a control character inside is kept by \<open>bounded_bstr\<close>, but no observation with such
  an element is valid: one of them in a window makes every snapshot of it fail.
\<close>

lemma control_name_kept: "bounded_bstr (Some [CHR ''a'', CHR 0x09, CHR ''b'']) = Some [CHR ''a'', CHR 0x09, CHR ''b'']"
  by (simp add: bounded_bstr_def trim_def trim_chars_def is_whitespace_def utf8_encode_def utf8_char_def char_of_eq_iff)

lemma control_name_spoils_snapshot:
  assumes "e \<in> set (so_elements s)" and "se_name e = Some [CHR ''a'', CHR 0x09, CHR ''b'']"
  shows "validate_observation H s now \<noteq> Inr ()"
proof -
  have "\<not> valid_text [CHR ''a'', CHR 0x09, CHR ''b''] 0 1024" by code_simp
  then have "\<not> valid_element e" using assms(2) by (auto simp: valid_element_def)
  then have "\<not> well_formed_elements (so_elements s)"
    using assms(1) by (auto simp: well_formed_elements_def list_all_iff)
  then show ?thesis using validate_observation_ok by blast
qed

end
