(* ===== verification/Redaction.thy ===== *)
theory Redaction
  imports Protocol
begin

text \<open>
  The \<open>Debug\<close> forms of requests and actions (lib.rs), which reach logs and panic messages: what
  the formatter is told, and that it shows everything but the redacted fields and nothing of them.
\<close>

section \<open>What a formatter is told\<close>

text \<open>
  A struct with its fields, a variant by its name, \<open>Some\<close>, and the values that are shown with
  their own \<open>Debug\<close>: texts, numbers, booleans.
\<close>

datatype shown =
    ShownText string
  | ShownNumber int
  | ShownFlag bool
  | ShownName string
  | ShownSome shown
  | ShownStruct string "(string \<times> shown) list"

definition redacted :: shown where "redacted = ShownText ''[redacted]''"

definition shown_word :: "'a::len word \<Rightarrow> shown" where "shown_word w = ShownNumber (uint w)"

fun shown_option :: "('a \<Rightarrow> shown) \<Rightarrow> 'a option \<Rightarrow> shown" where
  "shown_option f None = ShownName ''None''"
| "shown_option f (Some x) = ShownSome (f x)"

fun shown_button :: "mouse_button \<Rightarrow> shown" where
  "shown_button LeftButton = ShownName ''Left''"
| "shown_button RightButton = ShownName ''Right''"
| "shown_button MiddleButton = ShownName ''Middle''"

fun shown_direction :: "direction \<Rightarrow> shown" where
  "shown_direction Up = ShownName ''Up''"
| "shown_direction Down = ShownName ''Down''"
| "shown_direction Leftward = ShownName ''Left''"
| "shown_direction Rightward = ShownName ''Right''"

fun shown_application :: "application_operation \<Rightarrow> shown" where
  "shown_application Launch = ShownName ''Launch''"
| "shown_application Switch = ShownName ''Switch''"
| "shown_application Quit = ShownName ''Quit''"

fun shown_window :: "window_operation \<Rightarrow> shown" where
  "shown_window Focus = ShownName ''Focus''"
| "shown_window Close = ShownName ''Close''"
| "shown_window Minimize = ShownName ''Minimize''"

fun shown_mode :: "interaction_mode \<Rightarrow> shown" where
  "shown_mode Interactive = ShownName ''Interactive''"
| "shown_mode BackgroundOnly = ShownName ''BackgroundOnly''"
| "shown_mode UnknownInteraction = ShownName ''Unknown''"

fun shown_safety :: "safety_class \<Rightarrow> shown" where
  "shown_safety Reversible = ShownName ''Reversible''"
| "shown_safety External = ShownName ''External''"
| "shown_safety Destructive = ShownName ''Destructive''"

section \<open>Debug forms\<close>

fun debug_action :: "action \<Rightarrow> shown" where
  "debug_action Invoke = ShownName ''Invoke''"
| "debug_action (Click button n fallback) = ShownStruct ''Click'' [(''button'', shown_button button),
     (''count'', shown_word n), (''allow_coordinate_fallback'', ShownFlag fallback)]"
| "debug_action (TypeText _ clear press_return delay) = ShownStruct ''TypeText'' [(''text'', redacted),
     (''clear'', ShownFlag clear), (''press_return'', ShownFlag press_return),
     (''delay_ms'', shown_option shown_word delay)]"
| "debug_action (Press _ n delay) = ShownStruct ''Press'' [(''key'', redacted),
     (''count'', shown_word n), (''delay_ms'', shown_option shown_word delay)]"
| "debug_action (Paste _) = ShownStruct ''Paste'' [(''text'', redacted)]"
| "debug_action (Hotkey _) = ShownStruct ''Hotkey'' [(''keys'', redacted)]"
| "debug_action (Scroll direction amount) = ShownStruct ''Scroll'' [(''direction'', shown_direction direction),
     (''amount'', shown_word amount)]"
| "debug_action Move = ShownName ''Move''"
| "debug_action (Drag _ button) = ShownStruct ''Drag'' [(''to'', redacted), (''button'', shown_button button)]"
| "debug_action (SelectText start len) = ShownStruct ''SelectText'' [(''start'', shown_word start),
     (''length'', shown_word len)]"
| "debug_action (PerformSecondaryAction name) = ShownStruct ''PerformSecondaryAction'' [(''name'', ShownText name)]"
| "debug_action (SetValue _) = ShownStruct ''SetValue'' [(''value'', redacted)]"
| "debug_action (Screenshot path) = ShownStruct ''Screenshot'' [(''path'', ShownText path)]"
| "debug_action (Application operation _) = ShownStruct ''Application'' [(''operation'', shown_application operation),
     (''name'', redacted)]"
| "debug_action (Window operation _ _) = ShownStruct ''Window'' [(''operation'', shown_window operation),
     (''app'', redacted), (''title'', redacted)]"
| "debug_action (Open _ _ no_focus) = ShownStruct ''Open'' [(''target'', redacted), (''app'', redacted),
     (''no_focus'', ShownFlag no_focus)]"
| "debug_action (ClipboardWrite _) = ShownStruct ''ClipboardWrite'' [(''text'', redacted)]"

definition debug_semantic_target :: "semantic_target_ref \<Rightarrow> shown" where
  "debug_semantic_target t = ShownStruct ''SemanticTargetRef'' [(''observation_id'', ShownText (t_observation_id t)),
     (''generation'', shown_word (t_generation t)), (''provenance_hash'', ShownText (t_provenance_hash t)),
     (''element_id'', ShownText (t_element_id t)), (''fingerprint_hash'', ShownText (t_fingerprint_hash t))]"

fun debug_target :: "target_ref \<Rightarrow> shown" where
  "debug_target (Coordinates x y display_id geometry snapshot content) = ShownStruct ''Coordinates''
     [(''x'', ShownNumber x), (''y'', ShownNumber y), (''display_id'', ShownText display_id),
      (''display_geometry_hash'', ShownText geometry), (''snapshot_id'', ShownText snapshot),
      (''snapshot_content_hash'', ShownText content)]"
| "debug_target (Element t) = ShownStruct ''Element'' [(''target'', debug_semantic_target t)]"
| "debug_target NoTarget = ShownName ''None''"

definition debug_request :: "action_request \<Rightarrow> shown" where
  "debug_request rq = ShownStruct ''ActionRequest''
     [(''protocol_version'', shown_word (rq_protocol_version rq)),
      (''action_version'', shown_word (rq_action_version rq)),
      (''target_version'', shown_word (rq_target_version rq)),
      (''verification_version'', shown_word (rq_verification_version rq)),
      (''operation_id'', ShownText (rq_operation_id rq)),
      (''subject'', redacted), (''session_id'', redacted), (''authority'', redacted),
      (''action'', debug_action (rq_action rq)), (''target'', debug_target (rq_target rq)),
      (''interaction_mode'', shown_mode (rq_interaction_mode rq)),
      (''deadline_at_ms'', ShownNumber (rq_deadline_at_ms rq)),
      (''verification'', redacted), (''safety'', shown_safety (rq_safety rq))]"

section \<open>What stays hidden\<close>

text \<open>An action without what its user wrote, a request without its user.\<close>

fun redact_action :: "action \<Rightarrow> action" where
  "redact_action (TypeText _ clear press_return delay) = TypeText [] clear press_return delay"
| "redact_action (Press _ n delay) = Press [] n delay"
| "redact_action (Paste _) = Paste []"
| "redact_action (Hotkey _) = Hotkey []"
| "redact_action (Drag _ button) = Drag NoTarget button"
| "redact_action (SetValue _) = SetValue []"
| "redact_action (Application operation _) = Application operation []"
| "redact_action (Window operation _ _) = Window operation None None"
| "redact_action (Open _ _ no_focus) = Open [] None no_focus"
| "redact_action (ClipboardWrite _) = ClipboardWrite []"
| "redact_action action = action"

definition no_authority :: signed_authority where
  "no_authority = \<lparr>sa_grant = \<lparr>g_protocol_version = 0, g_issuer = [], g_key_id = [], g_operation_id = [],
     g_subject = [], g_session_id = [], g_risk = Reversible, g_expires_at_ms = 0, g_policy_generation = [],
     g_action_hash = []\<rparr>, sa_signature = []\<rparr>"

definition redact_request :: "action_request \<Rightarrow> action_request" where
  "redact_request rq = rq\<lparr>rq_subject := [], rq_session_id := [], rq_authority := no_authority,
     rq_action := redact_action (rq_action rq), rq_verification := NoVerification\<rparr>"

lemma shown_word_inject [simp]: "shown_word v = shown_word w \<longleftrightarrow> v = w"
  by (simp add: shown_word_def word_uint_eq_iff)

lemma shown_option_inject: "(\<And>x y. f x = f y \<longleftrightarrow> x = y) \<Longrightarrow> shown_option f o1 = shown_option f o2 \<longleftrightarrow> o1 = o2"
  by (cases o1; cases o2) auto

lemma shown_button_inject [simp]: "shown_button b = shown_button b' \<longleftrightarrow> b = b'"
  by (cases b; cases b'; simp)

lemma shown_direction_inject [simp]: "shown_direction d = shown_direction d' \<longleftrightarrow> d = d'"
  by (cases d; cases d'; simp)

lemma shown_application_inject [simp]: "shown_application a = shown_application a' \<longleftrightarrow> a = a'"
  by (cases a; cases a'; simp)

lemma shown_window_inject [simp]: "shown_window w = shown_window w' \<longleftrightarrow> w = w'"
  by (cases w; cases w'; simp)

lemma shown_mode_inject [simp]: "shown_mode m = shown_mode m' \<longleftrightarrow> m = m'"
  by (cases m; cases m'; simp)

lemma shown_safety_inject [simp]: "shown_safety s = shown_safety s' \<longleftrightarrow> s = s'"
  by (cases s; cases s'; simp)

lemma debug_action_eq: "debug_action a = debug_action a' \<longleftrightarrow> redact_action a = redact_action a'"
  by (cases a; cases a'; simp add: shown_option_inject)

lemma debug_target_eq: "debug_target t = debug_target t' \<longleftrightarrow> t = t'"
  by (cases t; cases t'; auto simp: debug_semantic_target_def)

lemma debug_request_eq: "debug_request rq = debug_request rq' \<longleftrightarrow> redact_request rq = redact_request rq'"
  by (cases rq; cases rq'; auto simp: debug_request_def redact_request_def debug_action_eq debug_target_eq)

text \<open>
  C27: The Debug form of a request, which reaches logs and panic messages, shows exactly the
  redacted request: two requests have the same form if and only if they agree in everything but the
  subject, the session, the authority, the verification and what the user wrote into the action -
  texts, keys, values, names of applications and windows, what is opened.  So it says nothing of
  these, and nothing else is lost.
\<close>

theorem debug_form_hides_secrets:
  "debug_request rq = debug_request rq' \<longleftrightarrow> redact_request rq = redact_request rq'"
  by (rule debug_request_eq)

end
