(* ===== verification/Spec2Isabelle.thy ===== *)
theory Spec2Isabelle
  imports OutcomeSafety Recovery Results LedgerProperties SemanticProperties BrowserProperties
    CommandProperties NativeProperties AccessibilityProperties UiaProperties Redaction
begin

text \<open>
  Praefectus: a verification development for the Rust crate under src/src.

  The program.  An agent sends \<open>ActionRequest\<close>s - press this button, set this value - to
  \<open>Engine::execute\<close> (lib.rs).  The engine validates the request, hashes it, has its signed grant
  checked by an \<open>AuthorityVerifier\<close>, claims its operation id in an append-only JSONL ledger,
  asks a host-owned \<open>OutcomeLedger\<close> whether it may dispatch, observes and resolves the target
  through an \<open>Executor\<close>, dispatches once, observes again, judges the effect and records a
  terminal acknowledgement.  semantic.rs describes the elements of a screen as fenced
  observations.  There are two executors.  cdp.rs drives a Chromium page over the DevTools
  protocol; \<open>NativeExecutor\<close> (lib.rs) drives the desktop: on Linux through the accessibility bus
  (linux_atspi.rs) and input for X11 and Wayland (linux_input.rs), on Windows through UI Automation
  (windows_uia.rs) and \<open>SendInput\<close>.  main.rs is the command line.

  Which theory models what.

  \<^item> Prelude, Strings: bytes, UTF-8, characters, decimal numbers, saturating arithmetic.  Effects:
    the state monad and \<open>try_bind\<close> (Rust's \<open>?\<close>), and the host: clock, cancellation, file errors
    and lock contention are oracles indexed by a tick that every question advances.  A theorem
    about all hosts is a theorem about every order of time, cancellation and failure.
  \<^item> Json, Hashing: serde's values, the canonical form and what each hash covers.  Protocol:
    the data types.  Validation: \<open>validate_request\<close>.  Authority: the keyring and the check of a grant.
  \<^item> Jsonl, Ledger: the bytes of the ledger and trajectory files, tail repair, records, the lock,
    claims, \<open>finish\<close> and \<open>status\<close> (\<open>OperationLedger\<close>).  A world holds the files, the host,
    the outcome ledger and a ghost trace of appends, syncs and dispatches.
  \<^item> Outcome: the contract of \<open>OutcomeLedger\<close> as locale \<open>outcome_ledger\<close>, with
    \<open>MemoryOutcomeLedger\<close> as its interpretation; \<open>NullOutcomeLedger\<close> is shown not to meet it.
  \<^item> Engine: \<open>execute\<close> stage by stage, \<open>execute_batch\<close>, \<open>status\<close>, \<open>verify\<close>, capabilities.
    ExecutorContract: the contract of \<open>Executor\<close> as locale \<open>truthful_executor\<close>.
  \<^item> Semantic: semantic.rs.
  \<^item> Float64, CdpData, CdpTree, Cdp, CdpExecutor, CdpChannel: cdp.rs - the finite doubles it
    computes with, its configuration and JSON, the accessibility tree, the state of
    \<open>CdpExecutor\<close>, observation, live probes and the three dispatches, and
    \<open>TungsteniteChannel::command\<close> with the look-ups around it.  \<open>cx_log\<close> is a ghost log of the
    commands given to the channel with their answers.
  \<^item> GlobalInput: the restriction of global input in lib.rs.  Observations: the stored
    observations of coordinates.  Cli: main.rs.
  \<^item> LinuxInput: linux_input.rs - key symbols, the X11 and the portal route of every kind of
    input, screenshots, screens.  \<open>dk_events\<close> is a ghost list of the input events handed over.
  \<^item> Dispatch: \<open>NativeExecutor::dispatch\<close> as it is written for all platforms - the looks at the
    boundary, every kind of input in its steps, the switch for global input - over a \<open>runtime\<close>, the
    record of what differs between them.
  \<^item> NativeExecutor, NativeDispatch: \<open>NativeExecutor\<close> as built for Linux - permissions and
    capabilities, observation, resolution, its runtime -
    over an accessibility backend given as a record of its methods (\<open>'b atspi\<close>).
  \<^item> WindowsInput, WindowsCapture, WindowsExecutor: the same as built for Windows - key codes and
    every kind of input (\<open>wd_events\<close> is a ghost list of what was inserted), windows_capture.rs
    with the handles it holds, the executor.
  \<^item> UiaData, Uia, UiaTree, UiaBackend: windows_uia.rs - runtime ids, the budget for their paths and
    the private mapping; what is asked of the desktop and of the provider; the breadth-first
    snapshot of a window; the resolution of a target along its stored path and the three effects.
    \<open>us_effects\<close> is a ghost list of the effects requested.
  \<^item> Redaction: the Debug forms of lib.rs that leave secrets out.
  \<^item> X11Desktop: the trust in the X server, the topology of its displays and the sentinel of the
    desktop in linux_atspi.rs.  AtspiData: the objects, states, interfaces, identities and snapshots
    of linux_atspi.rs.  Atspi: calls of the bus, owners, descendants, samples and windows.  AtspiTree:
    the breadth-first search for elements and for the focus.  AtspiBackend: snapshots, their
    storage, the resolution of a target against the live tree, \<open>invoke\<close> and \<open>set_value\<close>, and the
    record of methods for the executor.  \<open>al_effects\<close> is a ghost list of the effects requested.

  What the lemmas show.

  \<^item> History, EngineSafety: histories of one ledger over any calls, crashes and losses of unsynced
    bytes; a dispatch is budgeted by a durable claim.  Frame: what the stages of \<open>execute\<close> leave
    alone, with the rules \<open>stage_granted\<close> and \<open>stage_execute\<close> on which OutcomeSafety (the outcome
    ledger over sessions whose files may be lost) and ExecutorContract (no effect is denied)
    rest.  Results: the shape of a report and what a success stands for.  Recovery: what replay,
    conflict, recovery and status answer when every file operation succeeds (\<open>healthy\<close>), so that
    the ledger refines the list of its records.
  \<^item> Trace: \<open>grows tr P m\<close> - what \<open>m\<close> adds to the trace \<open>tr\<close> satisfies \<open>P\<close> together with its result.
    CdpSafety: a browser dispatch is honest about the effect functions it sent, and sends them
    only after a live check.  CdpFacts, CdpProbe: the invariant of the stored observation,
    targets, capabilities, evidence.  CliFacts: arguments, exit codes, self-signed grants.
  \<^item> LinuxFacts: which events each route of input sends, and what it leaves pressed.  LinuxTyping:
    typed text and scrolling, event by event.
  \<^item> HonestDispatch: the contracts of a runtime as locales.  \<open>honest_runtime\<close>: reads have no effect,
    input only adds to it; then a dispatch that denies an effect had none.  \<open>gated_runtime\<close>: global
    input is not allowed; then a dispatch keeps what the reads keep.  NativeSafety, NativeFacts,
    AtspiNative interpret them for Linux, WindowsSafety for Windows.  LinuxEngine: the engine with
    the native executor.  WindowsFacts: what the operations of Windows send, event by event, the
    clipboard, and targets that are never served.
  \<^item> Acting: backends that look many times and act once.  UiaSafety: an effect hits the live element
    at the end of the stored path.  UiaFacts: the sizes that the budget counts.  UiaTreeFacts: the
    invariant of the walk, from which what a snapshot stores is sound.
  \<^item> X11Facts: the normal form of a topology.  AtspiFacts: what only reads the desktop.  AtspiLineage:
    the way from an object up to its window.  AtspiTreeFacts: the snapshot that the search builds
    is sound.  AtspiSafety, AtspiTargets: effects hit the live target, storage.  AtspiNative: the
    backend below the executor.
  \<^item> LedgerProperties, SemanticProperties, BrowserProperties, CommandProperties, NativeProperties,
    AccessibilityProperties, UiaProperties: the properties of the components; this theory holds those of the
    whole engine.  Sample, CdpSample: the concrete requests, worlds and browser answers on which
    they are applied.

  Interfaces.  \<open>outcome_ledger\<close> is interpreted by the memory ledger (Outcome).
  \<open>truthful_executor\<close> is interpreted with five notions of an effect: \<open>browser\<close>
  (CdpSafety: effect functions on a page), \<open>native\<close> (LinuxEngine: events handed to the desktop),
  \<open>accessible\<close> (AtspiNative: actions and texts requested on the bus), \<open>windows_event_engine\<close> and
  \<open>windows_request_engine\<close> (WindowsSafety: events inserted, effects requested from the provider).
  \<open>honest_runtime\<close> is interpreted by the runtime of Linux (\<open>linux_input\<close>, \<open>linux_accessibility\<close>)
  and of Windows (\<open>windows_events\<close>, \<open>windows_requests\<close>), \<open>gated_runtime\<close> by a disabled host of
  each (\<open>disabled_linux\<close>, \<open>disabled_windows\<close>).

  Parameters.  SHA-256 and the text of a JSON value (\<open>hashing\<close>), Ed25519 and hex (\<open>crypto\<close>,
  \<open>signer\<close>), the reader and writer of ledger records (\<open>codec\<close>; \<open>codec_sound\<close>: what is written
  is one line that reads back), the channel to the browser, the operating system's answers about
  processes, the sockets of tungstenite; the X server, the desktop portal, the programs that are
  run and swaymsg's JSON (\<open>linux_system\<close>); the accessibility bus, /proc and the text of a
  snapshot (\<open>a11y\<close>, \<open>x11_world\<close>); the Windows calls: UI Automation, windows, processes and screens
  (\<open>uia\<close>), \<open>SendInput\<close>, the cursor and the clipboard (\<open>windows_input\<close>), the graphics system
  (\<open>capture\<close>).  Each answers anew at every tick.  Nothing is assumed of
  them except where a theorem says so.

  Loops and bounds.  The lock loop tries as often as the host says the lock is taken, then fails
  or goes on, as the code does at its deadline.  The walk to an ancestor in semantic.rs has a
  measure; the one in \<open>parse_ax_tree\<close> has none, so it is a partial function, \<open>None\<close> when it does
  not return: it returns on acyclic trees and does not on a cyclic one.  \<open>read_answer\<close> turns at
  most 128 times, as in the code.  How often the wait for a stable box sleeps is asked of the
  host.  The search for elements stops at 512 of them and at depth 64, the search for the focus
  at 2048 nodes, the climb to the window at depth 64, as in the code: these bounds are the
  measures.  In windows_uia.rs at most 512 windows are listed, a snapshot visits at most 4,096
  elements at depth 64, which is the measure of the walk, and its mapping holds at most 131,072
  integers and 1 MiB of paths and 2 MiB of text.  No fuel is used.

  Not modelled.  macOS (the helpers of lib.rs behind \<open>cfg(target_os = "macos")\<close>,
  macos_capture.rs): calls of Accessibility, CoreGraphics and ScreenCaptureKit.  windows_acl.rs:
  calls of Win32 on security descriptors.  The examples.  Of cdp.rs:
  \<open>connect\<close>, the macOS and Windows look-ups of a socket's owner, and the JavaScript functions,
  which are named by constants and have no meaning here.  Directory creation and access control
  lists are reduced to success or failure.  Threads: one executor is used by one caller at a
  time; a poisoned lock is a flag; the threads of linux_atspi.rs answer in time or not, as the
  host says.  The plugins in other languages only call the command line.
\<close>

section \<open>At most one dispatch\<close>

text \<open>
  C1: Over every history of one ledger - any calls of \<open>execute\<close>, \<open>execute_batch\<close> and
  \<open>status\<close>, with any clock, cancellations, file-system failures and executor results, cut short
  by any number of crashes that lose unsynced bytes - an operation id is dispatched at most once.
\<close>

theorem at_most_one_dispatch:
  assumes "codec_sound (en_setting E)" and "history E tr"
  shows "dispatches op tr \<le> 1"
  using safe_good [OF history_safe [OF assms]] by (simp add: good_def)

text \<open>The sample history really dispatches.\<close>

lemma sample_history: "history sample_engine sample_trace"
proof -
  have "resumes [] sample_world" by (simp add: resumes_def sample_world_def tracked_def)
  then have "history sample_engine (w_trace (sample_state 71 sample_files sample_outcomes sample_trace))"
    by (rule history_call [OF history_start]) (rule call_execute [OF sample_run])
  then show ?thesis by (simp add: sample_state_def)
qed

lemma sample_setting_of_engine [simp]: "codec_sound (en_setting sample_engine)"
  by (simp add: sample_codec_sound)

lemma at_most_one_dispatch_witness:
  "dispatches ''op'' sample_trace \<le> 1 \<and> dispatches ''op'' sample_trace = 1"
  using at_most_one_dispatch [OF sample_setting_of_engine sample_history, of "''op''"]
  by (simp add: dispatches_def sample_trace_def)

text \<open>
  C2: When an operation is dispatched, its claim is already in the ledger and was synced: at an
  earlier point of the history the ledger was synced while it held the claim's complete line.
\<close>

theorem dispatch_follows_synced_claim:
  assumes "codec_sound (en_setting E)" and "history E tr"
    and "k < length tr" and "tr ! k = EvDispatch op h"
  shows "\<exists>j < k. tr ! j = EvSync LedgerFile
    \<and> claimed (en_setting E) op (replay LedgerFile (take j tr))"
proof -
  let ?tr = "take (Suc k) tr"
  have good: "good (en_setting E) ?tr"
    using history_safe [OF assms(1,2)] by (simp add: safe_def)
  have "?tr = take k tr @ [EvDispatch op h]" using assms(3,4) by (simp add: take_Suc_conv_app_nth)
  then have "0 < dispatches op ?tr" by (simp add: dispatches_snoc)
  with good obtain j where j: "j < length ?tr" "?tr ! j = EvSync LedgerFile"
    "\<And>n. j \<le> n \<Longrightarrow> n \<le> length ?tr \<Longrightarrow> claimed (en_setting E) op (replay LedgerFile (take n ?tr))"
    unfolding good_def durable_claim_def by blast
  moreover have "j \<noteq> k" using j(1,2) assms(4) by auto
  ultimately have "j < k" "tr ! j = EvSync LedgerFile" by auto
  moreover have "claimed (en_setting E) op (replay LedgerFile (take j tr))"
    using j(3) [of j] j(1) by (simp add: min_def split: if_splits)
  ultimately show ?thesis by blast
qed

lemma dispatch_follows_synced_claim_witness:
  "\<exists>j < 6. sample_trace ! j = EvSync LedgerFile
    \<and> claimed sample_setting ''op'' (replay LedgerFile (take j sample_trace))"
  using dispatch_follows_synced_claim [OF sample_setting_of_engine sample_history,
      of 6 "''op''" zero_hash]
  by (simp add: sample_trace_def)

text \<open>
  C7: With \<open>MemoryOutcomeLedger\<close> as the host's outcome ledger, an operation and action hash are
  dispatched at most once over any sequence of sessions, even if the operation ledger's files
  are lost or replaced between them.
\<close>

theorem at_most_one_dispatch_per_key:
  assumes "en_outcomes E = memory_outcomes"
  shows "key_dispatches key (sessions E calls memory_new) \<le> 1"
  using memory.sessions_dispatch_once [OF assms, of 0 memory_new key calls] by simp

lemma at_most_one_dispatch_per_key_witness:
  "key_dispatches sample_key (sessions sample_engine
      [(sample_request, sample_world), (sample_request, sample_world)] memory_new) \<le> 1"
proof (rule at_most_one_dispatch_per_key)
  show "en_outcomes sample_engine = memory_outcomes" by simp
qed

section \<open>No effect is denied\<close>

text \<open>
  C3: Whatever becomes of the clock, the files and the ledgers: if a call of \<open>execute\<close> had an
  effect - an effect function acted on or may have acted on the page, an input event was handed to
  the desktop of Linux or of Windows, an action or a text was requested on the accessibility bus or
  from the accessibility provider - then it returns a report, and the report ends in a success or in an unknown outcome, never in an error, a
  rejection, a cancellation or an expiry.
\<close>

theorem effects_are_never_denied:
  "never_denies page_effects (execute (E\<lparr>en_executor := cdp_executor D\<rparr>) request)
   \<and> never_denies input_effects (execute (E'\<lparr>en_executor := native_executor N\<rparr>) request)
   \<and> never_denies accessibility_effects
       (execute (E''\<lparr>en_executor := native_executor (with_atspi A stored N')\<rparr>) request)
   \<and> never_denies win_effects (execute (E3\<lparr>en_executor := windows_executor W\<rparr>) request)
   \<and> never_denies requested_effects (execute (E3\<lparr>en_executor := windows_executor W\<rparr>) request)"
  by (simp add: browser.no_effect_denied native.no_effect_denied accessible.no_effect_denied
      windows_event_engine.no_effect_denied windows_request_engine.no_effect_denied)

section \<open>What a success means\<close>

text \<open>
  C9: A fresh run of \<open>execute\<close> that reports \<open>Succeeded\<close> is trustworthy: the receipt's effect is
  known; if verification was requested the effect is \<open>Verified\<close>, and then the evidence before
  and after is of the element the request names, under the same display geometry; a background
  action left the shared desktop context unchanged.
\<close>

theorem fresh_success_is_trustworthy:
  assumes "normalized_action_hash (s_hashing (en_setting E)) request = Inr h"
    and "run_state (execute E request) w = (Inr report, w')"
    and "length report = 3" and "a_state (last report) = Terminal (Succeeded r)"
  shows "trustworthy request h r"
  using yieldsD [OF execute_success_sound [OF assms(1)] assms(2)] assms(3,4)
  by (simp add: fresh_success_sound_def)

lemma fresh_success_is_trustworthy_witness: "trustworthy sample_request zero_hash sample_receipt"
proof (rule fresh_success_is_trustworthy [OF _ sample_run])
  show "normalized_action_hash (s_hashing (en_setting sample_engine)) sample_request = Inr zero_hash"
    by (simp add: sample_action_hash)
  show "length sample_report = 3" by (simp add: sample_report_def)
  show "a_state (last sample_report) = Terminal (Succeeded sample_receipt)"
    by (simp add: sample_report_def sample_terminal_ack_def)
qed



section \<open>Refusal\<close>

text \<open>
  C19: A request that fails validation, or whose authority is denied, changes nothing at all: the
  error is returned and the world - files, host, outcome ledger, history - is the one before.
\<close>

theorem refused_request_changes_nothing:
  assumes "\<not> (\<exists>h. accepted_request E request h)"
  shows "\<exists>e. run_state (execute E request) w = (Inl e, w)"
  using assms by (auto simp: execute_def accepted_request_def split: sum.splits)

lemma refused_request_changes_nothing_witness:
  "\<exists>e. run_state (execute (sample_engine\<lparr>en_authority := deny_authority\<rparr>) sample_request) sample_world
    = (Inl e, sample_world)"
  by (rule refused_request_changes_nothing) (simp add: accepted_request_def deny_authority_def)

end
